(* ===== verification/Prelude.thy ===== *)
theory Prelude
  imports Main "HOL-Library.Char_ord" "HOL-Library.List_Lexorder"
begin

text \<open>
  Shared vocabulary of the development: the Go error values and result type, the string
  operations of the standard library that the modelled code calls, 64-bit wrap-around, and the
  few SQL statement forms (select, update with affected-row count, order by ... limit 1, unique
  constraints) over tables kept as lists of rows in insertion order. The lemmas here are generic;
  nothing of the program is defined in this theory.
\<close>

named_theorems tbl "rewrite rules for SELECT and UPDATE on tables kept as lists"

section \<open>Errors\<close>

text \<open>
  Go errors: sentinel values compared with \<open>errors.Is\<close>, plain messages, and wrapped errors
  (\<open>fmt.Errorf("...: %w", err)\<close>). \<open>ErrNoRows\<close> is \<open>sql.ErrNoRows\<close>, which the
  storage package re-exports as \<open>storage.ErrNotFound\<close>.
\<close>

datatype err =
    ErrNoRows
  | ErrConstraint string
  | ErrGenerationFenceMismatch
  | ErrAuthAttemptActive
  | ErrSettingsConflict
  | ErrVoiceSettingsConflict
  | ErrDeliveryNotDeadLetter
  | ErrEndpointNotActive
  | ErrRevisionConflict
  | ErrSyncUnavailable
  | ErrCatchUpIncomplete
  | ErrInvalidDate
  | ErrCancelled
  | ErrHTTP nat string
  | ErrMsg string
  | ErrWrap string err

fun errors_is :: "err \<Rightarrow> err \<Rightarrow> bool" where
  "errors_is (ErrWrap m e) t = (ErrWrap m e = t \<or> errors_is e t)"
| "errors_is e t = (e = t)"

lemma errors_is_refl [simp]: "errors_is e e"
  by (cases e) simp_all

type_synonym 'a result = "err + 'a"

definition rbind :: "'a result \<Rightarrow> ('a \<Rightarrow> 'b result) \<Rightarrow> 'b result" where
  "rbind r f = (case r of Inl e \<Rightarrow> Inl e | Inr x \<Rightarrow> f x)"

lemma rbind_simps [simp]:
  "rbind (Inl e) f = Inl e"
  "rbind (Inr x) f = f x"
  by (simp_all add: rbind_def)

lemma rbind_Inr_iff: "rbind r f = Inr y \<longleftrightarrow> (\<exists>x. r = Inr x \<and> f x = Inr y)"
  by (cases r) auto

section \<open>Go strings\<close>

text \<open>A Go string is a sequence of bytes; \<open>string\<close> is a list of 8-bit characters.\<close>

definition trim_left :: "(char \<Rightarrow> bool) \<Rightarrow> string \<Rightarrow> string" where
  "trim_left p s = dropWhile p s"

definition trim_right :: "(char \<Rightarrow> bool) \<Rightarrow> string \<Rightarrow> string" where
  "trim_right p s = rev (dropWhile p (rev s))"

definition trim_by :: "(char \<Rightarrow> bool) \<Rightarrow> string \<Rightarrow> string" where
  "trim_by p s = trim_right p (trim_left p s)"

fun has_prefix :: "string \<Rightarrow> string \<Rightarrow> bool" where
  "has_prefix s [] = True"
| "has_prefix [] (c # cs) = False"
| "has_prefix (x # xs) (c # cs) = (x = c \<and> has_prefix xs cs)"

text \<open>
  The UTF-8 encodings of the white space of \<open>unicode.IsSpace\<close>, and \<open>strings.TrimSpace\<close>:
  encodings are dropped from the left, then (reversed) from the right.
\<close>

definition space_runes :: "string list" where
  "space_runes =
     [[CHR 0x09], [CHR 0x0A], [CHR 0x0B], [CHR 0x0C], [CHR 0x0D], [CHR 0x20],
      [CHR 0xC2, CHR 0x85], [CHR 0xC2, CHR 0xA0], [CHR 0xE1, CHR 0x9A, CHR 0x80],
      [CHR 0xE2, CHR 0x80, CHR 0x80], [CHR 0xE2, CHR 0x80, CHR 0x81],
      [CHR 0xE2, CHR 0x80, CHR 0x82], [CHR 0xE2, CHR 0x80, CHR 0x83],
      [CHR 0xE2, CHR 0x80, CHR 0x84], [CHR 0xE2, CHR 0x80, CHR 0x85],
      [CHR 0xE2, CHR 0x80, CHR 0x86], [CHR 0xE2, CHR 0x80, CHR 0x87],
      [CHR 0xE2, CHR 0x80, CHR 0x88], [CHR 0xE2, CHR 0x80, CHR 0x89],
      [CHR 0xE2, CHR 0x80, CHR 0x8A], [CHR 0xE2, CHR 0x80, CHR 0xA8],
      [CHR 0xE2, CHR 0x80, CHR 0xA9], [CHR 0xE2, CHR 0x80, CHR 0xAF],
      [CHR 0xE2, CHR 0x81, CHR 0x9F], [CHR 0xE3, CHR 0x80, CHR 0x80]]"

definition lead_len :: "string list \<Rightarrow> string \<Rightarrow> nat" where
  "lead_len ps s = (case List.find (has_prefix s) ps of None \<Rightarrow> 0 | Some p \<Rightarrow> length p)"

function drop_lead :: "string list \<Rightarrow> string \<Rightarrow> string" where
  "drop_lead ps s =
     (if s = [] \<or> lead_len ps s = 0 then s else drop_lead ps (drop (lead_len ps s) s))"
  by pat_completeness auto
termination
  by (relation "measure (\<lambda>(ps, s). length s)") auto

declare drop_lead.simps [simp del]

text \<open>The test is a case analysis, so that evaluation stops.\<close>

lemma drop_lead_code [code]:
  "drop_lead ps s = (case s of [] \<Rightarrow> [] | c # r \<Rightarrow> (case lead_len ps s of 0 \<Rightarrow> s | Suc n \<Rightarrow> drop_lead ps (drop n r)))"
  by (subst drop_lead.simps) (auto split: list.splits nat.splits)

definition trim_space :: "string \<Rightarrow> string" where
  "trim_space s =
     rev (drop_lead (map rev space_runes) (rev (drop_lead space_runes s)))"

definition has_suffix :: "string \<Rightarrow> string \<Rightarrow> bool" where
  "has_suffix s suf = has_prefix (rev s) (rev suf)"

definition trim_prefix :: "string \<Rightarrow> string \<Rightarrow> string" where
  "trim_prefix s p = (if has_prefix s p then drop (length p) s else s)"

definition trim_suffix :: "string \<Rightarrow> string \<Rightarrow> string" where
  "trim_suffix s p = (if has_suffix s p then take (length s - length p) s else s)"

text \<open>\<open>strings.Index\<close>: the first position at which the pattern starts, if any.\<close>

fun str_index :: "string \<Rightarrow> string \<Rightarrow> nat option" where
  "str_index [] p = (if p = [] then Some 0 else None)"
| "str_index (c # cs) p =
     (if has_prefix (c # cs) p then Some 0 else map_option Suc (str_index cs p))"

definition contains :: "string \<Rightarrow> string \<Rightarrow> bool" where
  "contains s p = (str_index s p \<noteq> None)"

definition contains_any :: "string \<Rightarrow> string list \<Rightarrow> bool" where
  "contains_any s ps = list_ex (contains s) ps"

fun join_with :: "string \<Rightarrow> string list \<Rightarrow> string" where
  "join_with sep [] = []"
| "join_with sep [x] = x"
| "join_with sep (x # y # ys) = x @ sep @ join_with sep (y # ys)"

fun split_on :: "char \<Rightarrow> string \<Rightarrow> string list" where
  "split_on d [] = [[]]"
| "split_on d (c # cs) =
     (if c = d then [] # split_on d cs
      else (case split_on d cs of [] \<Rightarrow> [[c]] | w # ws \<Rightarrow> (c # w) # ws))"

definition ascii_lower :: "char \<Rightarrow> char" where
  "ascii_lower c =
     (let n = of_char c :: nat in if 65 \<le> n \<and> n \<le> 90 then char_of (n + 32) else c)"

definition to_lower :: "string \<Rightarrow> string" where
  "to_lower s = map ascii_lower s"

text \<open>\<open>strings.EqualFold\<close> on ASCII text (host names, schemes, attribute and tag names).\<close>

definition equal_fold :: "string \<Rightarrow> string \<Rightarrow> bool" where
  "equal_fold a b = (to_lower a = to_lower b)"

lemma has_prefix_append [simp]: "has_prefix (p @ s) p"
  by (induction p) auto

lemma has_prefix_iff: "has_prefix s p \<longleftrightarrow> (\<exists>r. s = p @ r)"
  by (induction s p rule: has_prefix.induct) auto

lemma has_suffix_append [simp]: "has_suffix (s @ p) p"
  by (simp add: has_suffix_def)

lemma drop_lead_Nil [simp]: "drop_lead ps [] = []"
  by (subst drop_lead.simps) simp

lemma trim_space_Nil [simp]: "trim_space [] = []"
  by (simp add: trim_space_def)

lemma split_on_nonempty [simp]: "split_on d s \<noteq> []"
  by (induction s) (auto split: list.splits)

lemma split_on_no_sep: "d \<notin> set s \<Longrightarrow> split_on d s = [s]"
  by (induction s) auto

lemma split_on_append: "d \<notin> set s \<Longrightarrow> split_on d (s @ d # t) = s # split_on d t"
  by (induction s) auto

subsection \<open>Decimal numbers\<close>

definition digit_char :: "nat \<Rightarrow> char" where
  "digit_char n = char_of (48 + n)"

definition is_digit :: "char \<Rightarrow> bool" where
  "is_digit c \<longleftrightarrow> 48 \<le> (of_char c :: nat) \<and> (of_char c :: nat) \<le> 57"

definition digit_val :: "char \<Rightarrow> nat" where
  "digit_val c = of_char c - 48"

fun show_nat :: "nat \<Rightarrow> string" where
  "show_nat n = (if n < 10 then [digit_char n] else show_nat (n div 10) @ [digit_char (n mod 10)])"

declare show_nat.simps [simp del]

definition show_int :: "int \<Rightarrow> string" where
  "show_int i = (if i < 0 then ''-'' @ show_nat (nat (- i)) else show_nat (nat i))"

definition read_nat :: "string \<Rightarrow> nat" where
  "read_nat s = foldl (\<lambda>acc c. 10 * acc + digit_val c) 0 s"

text \<open>Zero-padded to a fixed width, as the time layouts print.\<close>

definition pad :: "nat \<Rightarrow> nat \<Rightarrow> string" where
  "pad w n = replicate (w - length (show_nat n)) (CHR ''0'') @ show_nat n"

text \<open>
  \<open>strconv.ParseInt(s, 10, 64)\<close>: an optional sign, at least one digit, only digits, and the
  value in the signed 64-bit range.
\<close>

definition parse_int64 :: "string \<Rightarrow> int option" where
  "parse_int64 s =
     (let neg = (s \<noteq> [] \<and> hd s = CHR ''-'');
          ds = (if s \<noteq> [] \<and> (hd s = CHR ''-'' \<or> hd s = CHR ''+'') then tl s else s)
      in if ds = [] \<or> \<not> list_all is_digit ds then None
         else let v = (if neg then - int (read_nat ds) else int (read_nat ds))
              in if - (2 ^ 63) \<le> v \<and> v < 2 ^ 63 then Some v else None)"

text \<open>Evaluation uses binary integers.\<close>

definition read_digits :: "string \<Rightarrow> int" where
  "read_digits s = foldl (\<lambda>acc c. 10 * acc + int (digit_val c)) 0 s"

lemma int_read_nat: "int (read_nat s) = read_digits s"
  by (induction s rule: rev_induct) (simp_all add: read_nat_def read_digits_def)

lemma parse_int64_code [code]:
  "parse_int64 s =
     (let neg = (s \<noteq> [] \<and> hd s = CHR ''-'');
          ds = (if s \<noteq> [] \<and> (hd s = CHR ''-'' \<or> hd s = CHR ''+'') then tl s else s)
      in if ds = [] \<or> \<not> list_all is_digit ds then None
         else let v = (if neg then - read_digits ds else read_digits ds)
              in if - 9223372036854775808 \<le> v \<and> v < 9223372036854775808 then Some v else None)"
proof -
  have "(2 :: int) ^ 63 = 9223372036854775808" by simp
  then show ?thesis by (simp only: parse_int64_def int_read_nat)
qed

lemma of_char_digit_char [simp]: "n < 10 \<Longrightarrow> (of_char (digit_char n) :: nat) = 48 + n"
  by (simp add: digit_char_def)

lemma digit_val_digit_char [simp]: "n < 10 \<Longrightarrow> digit_val (digit_char n) = n"
  by (simp add: digit_val_def)

lemma is_digit_digit_char [simp]: "n < 10 \<Longrightarrow> is_digit (digit_char n)"
  by (simp add: is_digit_def)

lemma show_nat_nonempty [simp]: "show_nat n \<noteq> []"
  by (subst show_nat.simps) simp

lemma show_nat_digits: "list_all is_digit (show_nat n)"
proof (induction n rule: show_nat.induct)
  case (1 n)
  then show ?case by (cases "n < 10") (simp_all add: show_nat.simps [of n])
qed

lemma read_nat_snoc: "read_nat (s @ [c]) = 10 * read_nat s + digit_val c"
  by (simp add: read_nat_def)

lemma read_show_nat [simp]: "read_nat (show_nat n) = n"
proof (induction n rule: show_nat.induct)
  case (1 n)
  show ?case
  proof (cases "n < 10")
    case True
    then show ?thesis by (simp add: show_nat.simps [of n] read_nat_def)
  next
    case False
    with 1 have "read_nat (show_nat (n div 10)) = n div 10" by simp
    with False show ?thesis by (simp add: show_nat.simps [of n] read_nat_snoc)
  qed
qed

lemma show_nat_inj: "show_nat m = show_nat n \<Longrightarrow> m = n"
  by (metis read_show_nat)

text \<open>
  The same digits computed on \<open>int\<close>, whose numerals are binary; the evaluator works with these.
\<close>

definition int_digit :: "int \<Rightarrow> char" where
  "int_digit i =
     (if i = 0 then CHR ''0'' else if i = 1 then CHR ''1'' else if i = 2 then CHR ''2''
      else if i = 3 then CHR ''3'' else if i = 4 then CHR ''4'' else if i = 5 then CHR ''5''
      else if i = 6 then CHR ''6'' else if i = 7 then CHR ''7'' else if i = 8 then CHR ''8''
      else CHR ''9'')"

function show_pos :: "int \<Rightarrow> string" where
  "show_pos i = (if i < 10 then [int_digit i] else show_pos (i div 10) @ [int_digit (i mod 10)])"
  by pat_completeness auto
termination by (relation "measure nat") auto

declare show_pos.simps [simp del]

lemma digit_char_eqI: "n < 10 \<Longrightarrow> (of_char c :: nat) = 48 + n \<Longrightarrow> digit_char n = c"
  unfolding digit_char_def by (metis char_of_char)

lemma digit_char_int:
  assumes "n < 10"
  shows "digit_char n = int_digit (int n)"
proof -
  have "n \<in> {0, 1, 2, 3, 4, 5, 6, 7, 8, 9}" using assms by auto
  then show ?thesis by (auto simp: int_digit_def intro!: digit_char_eqI)
qed

lemma show_nat_pos: "show_nat n = show_pos (int n)"
proof (induction n rule: show_nat.induct)
  case (1 n)
  show ?case
  proof (cases "n < 10")
    case True
    then show ?thesis by (simp add: show_nat.simps [of n] show_pos.simps [of "int n"] digit_char_int)
  next
    case False
    moreover have "digit_char (n mod 10) = int_digit (int n mod 10)"
      using digit_char_int [of "n mod 10"] by (simp add: zmod_int)
    ultimately show ?thesis
      using 1 by (simp add: show_nat.simps [of n] show_pos.simps [of "int n"] zdiv_int)
  qed
qed

lemma show_int_code [code]: "show_int i = (if i < 0 then ''-'' @ show_pos (- i) else show_pos i)"
  by (simp add: show_int_def show_nat_pos)

lemma is_digit_zero [simp]: "is_digit (CHR ''0'')"
  by (simp add: is_digit_def)

lemma append_less_same [simp]: "(p @ s < p @ t) = (s < (t :: string))"
  by (induction p) auto

lemma is_digit_not_sign: "is_digit c \<Longrightarrow> c \<noteq> CHR ''-'' \<and> c \<noteq> CHR ''+''"
  by (auto simp: is_digit_def)

lemma parse_show_int:
  assumes "- (2 ^ 63) \<le> i" and "i < 2 ^ 63"
  shows "parse_int64 (show_int i) = Some i"
proof (cases "i < 0")
  case True
  then show ?thesis using assms show_nat_digits
    by (auto simp: parse_int64_def show_int_def Let_def)
next
  case False
  obtain c cs where s: "show_nat (nat i) = c # cs"
    by (cases "show_nat (nat i)") auto
  have "list_all is_digit (c # cs)" using show_nat_digits [of "nat i"] by (simp only: s)
  then have "c \<noteq> CHR ''-''" "c \<noteq> CHR ''+''" using is_digit_not_sign by auto
  moreover have "read_nat (c # cs) = nat i" using read_show_nat [of "nat i"] by (simp only: s)
  ultimately show ?thesis using False assms \<open>list_all is_digit (c # cs)\<close>
    by (simp add: parse_int64_def show_int_def s Let_def)
qed

lemma foldl_digits:
  "foldl (\<lambda>acc c. 10 * acc + digit_val c) a s = a * 10 ^ length s + read_nat s"
proof (induction s rule: rev_induct)
  case (snoc c s)
  then show ?case by (simp add: read_nat_def algebra_simps)
qed (simp add: read_nat_def)

lemma read_nat_Cons: "read_nat (c # s) = digit_val c * 10 ^ length s + read_nat s"
  using foldl_digits [of "digit_val c" s] by (simp add: read_nat_def)

lemma read_nat_Nil [simp]: "read_nat [] = 0"
  by (simp add: read_nat_def)

lemma digit_val_less: "is_digit c \<Longrightarrow> digit_val c < 10"
  unfolding is_digit_def digit_val_def by linarith

lemma read_nat_less: "list_all is_digit s \<Longrightarrow> read_nat s < 10 ^ length s"
proof (induction s)
  case (Cons c s)
  then have "digit_val c \<le> 9" using digit_val_less [of c] by simp
  then have "digit_val c * 10 ^ length s \<le> 9 * 10 ^ length s" by (rule mult_le_mono1)
  moreover have "read_nat s < 10 ^ length s" using Cons by simp
  ultimately have "digit_val c * 10 ^ length s + read_nat s < 10 * 10 ^ length s" by linarith
  then show ?case by (simp add: read_nat_Cons)
qed simp

lemma show_nat_length: "0 < w \<Longrightarrow> n < 10 ^ w \<Longrightarrow> length (show_nat n) \<le> w"
proof (induction w arbitrary: n)
  case (Suc w)
  show ?case
  proof (cases "n < 10")
    case False
    then have "w \<noteq> 0" using Suc.prems by (cases w) auto
    moreover have "n div 10 < 10 ^ w" using Suc.prems by (simp add: div_less_iff_less_mult mult.commute)
    ultimately have "length (show_nat (n div 10)) \<le> w" using Suc.IH by simp
    with False show ?thesis by (simp add: show_nat.simps [of n])
  qed (simp add: show_nat.simps [of n])
qed simp

lemma read_nat_zeros: "read_nat (replicate k (CHR ''0'') @ s) = read_nat s"
  by (induction k) (simp_all add: read_nat_Cons digit_val_def)

lemma pad_spec:
  assumes "0 < w" and "n < 10 ^ w"
  shows "length (pad w n) = w" "list_all is_digit (pad w n)" "read_nat (pad w n) = n"
  using show_nat_length [OF assms] show_nat_digits [of n]
  by (auto simp: pad_def read_nat_zeros list_all_iff)

text \<open>Text that starts and ends with a digit has nothing to trim.\<close>

lemma has_prefix_hd: "has_prefix (c # s) p \<Longrightarrow> p \<noteq> [] \<Longrightarrow> hd p = c"
  by (cases p) auto

lemma lead_len_digit:
  assumes "list_all (\<lambda>p. p \<noteq> [] \<and> \<not> is_digit (hd p)) ps" and "is_digit c"
  shows "lead_len ps (c # s) = 0"
proof -
  have "\<not> has_prefix (c # s) p" if "p \<in> set ps" for p
    using assms that has_prefix_hd [of c s p] by (auto simp: list_all_iff)
  then have "List.find (has_prefix (c # s)) ps = None" by (simp add: find_None_iff)
  then show ?thesis by (simp add: lead_len_def)
qed

lemma space_runes_digit:
  "list_all (\<lambda>p. p \<noteq> [] \<and> \<not> is_digit (hd p)) space_runes"
  "list_all (\<lambda>p. p \<noteq> [] \<and> \<not> is_digit (hd p)) (map rev space_runes)"
  by (simp_all add: space_runes_def is_digit_def)

lemma trim_space_digits:
  assumes "s \<noteq> []" "is_digit (hd s)" "is_digit (last s)"
  shows "trim_space s = s"
proof -
  obtain c cs where s: "s = c # cs" using assms(1) by (cases s) auto
  obtain d ds where r: "rev s = d # ds" using assms(1) by (cases "rev s") auto
  have d: "is_digit d" using assms(1,3) r by (metis hd_rev list.sel(1))
  have 1: "drop_lead space_runes s = s"
    using assms(2) s lead_len_digit [OF space_runes_digit(1)] by (subst drop_lead.simps) simp
  have 2: "drop_lead (map rev space_runes) (rev s) = rev s"
    using d r lead_len_digit [OF space_runes_digit(2)] by (subst drop_lead.simps) simp
  show ?thesis by (simp add: trim_space_def 1 2)
qed

text \<open>Digit strings of one length are ordered, as text, as their values.\<close>

lemma digit_less_iff: "is_digit c \<Longrightarrow> is_digit d \<Longrightarrow> c < d \<longleftrightarrow> digit_val c < digit_val d"
  unfolding is_digit_def digit_val_def less_char_def by linarith

lemma digit_val_inj: "is_digit c \<Longrightarrow> is_digit d \<Longrightarrow> digit_val c = digit_val d \<Longrightarrow> c = d"
  using digit_less_iff [of c d] digit_less_iff [of d c] linorder_less_linear [of c d] by simp

lemma digits_less:
  "length s = length s' \<Longrightarrow> list_all is_digit s \<Longrightarrow> list_all is_digit s' \<Longrightarrow>
   read_nat s < read_nat s' \<Longrightarrow> s @ r < s' @ r'"
proof (induction s s' rule: list_induct2)
  case (Cons c s d s')
  consider "digit_val c < digit_val d" | "digit_val c = digit_val d" | "digit_val d < digit_val c"
    by linarith
  then show ?case
  proof cases
    case 3
    then have "(digit_val d + 1) * 10 ^ length s \<le> digit_val c * 10 ^ length s"
      by (intro mult_le_mono1) simp
    moreover have "read_nat s' < 10 ^ length s" using read_nat_less [of s'] Cons by simp
    ultimately show ?thesis using Cons by (simp add: read_nat_Cons)
  next
    case 2
    then have "c = d" using digit_val_inj Cons by auto
    then show ?thesis using Cons by (simp add: read_nat_Cons)
  next
    case 1
    then show ?thesis using digit_less_iff [of c d] Cons by simp
  qed
qed simp

subsection \<open>Hexadecimal\<close>

definition hex_digit :: "nat \<Rightarrow> char" where
  "hex_digit n = ''0123456789abcdef'' ! n"

text \<open>\<open>hex.EncodeToString\<close>.\<close>

fun hex_encode :: "string \<Rightarrow> string" where
  "hex_encode [] = []"
| "hex_encode (c # cs) =
     hex_digit (of_char c div 16) # hex_digit (of_char c mod 16) # hex_encode cs"

lemma hex_digit_inj:
  assumes "m < 16" "n < 16" "hex_digit m = hex_digit n"
  shows "m = n"
proof -
  have "distinct ''0123456789abcdef''" "length ''0123456789abcdef'' = 16" by simp_all
  with assms show ?thesis unfolding hex_digit_def by (metis nth_eq_iff_index_eq)
qed

lemma hex_encode_inj: "hex_encode a = hex_encode b \<Longrightarrow> a = b"
proof (induction a arbitrary: b)
  case Nil
  then show ?case by (cases b) auto
next
  case (Cons x a)
  then obtain y b' where b: "b = y # b'" by (cases b) auto
  have lt: "(of_char c :: nat) div 16 < 16" "(of_char c :: nat) mod 16 < 16" for c
    using nat_of_char_less_256 [of c] by (simp_all add: less_mult_imp_div_less)
  have "(of_char x :: nat) div 16 = of_char y div 16" "(of_char x :: nat) mod 16 = of_char y mod 16"
    using Cons.prems hex_digit_inj lt unfolding b by simp_all
  then have "(of_char x :: nat) = of_char y" by (metis div_mult_mod_eq)
  with Cons.IH Cons.prems show ?case unfolding b by simp
qed

section \<open>Signed 64-bit wrap-around\<close>

definition wrap64 :: "int \<Rightarrow> int" where
  "wrap64 x = (x + 2 ^ 63) mod 2 ^ 64 - 2 ^ 63"

lemma wrap64_id: "- (2 ^ 63) \<le> x \<Longrightarrow> x < 2 ^ 63 \<Longrightarrow> wrap64 x = x"
  by (simp add: wrap64_def)

lemma wrap64_range: "- (2 ^ 63) \<le> wrap64 x \<and> wrap64 x < 2 ^ 63"
proof -
  have "0 \<le> (x + 2 ^ 63) mod 2 ^ 64 \<and> (x + 2 ^ 63) mod 2 ^ 64 < (2 ^ 64 :: int)" by simp
  then show ?thesis by (simp add: wrap64_def)
qed

section \<open>Tables\<close>

text \<open>
  A table is the list of its rows in insertion order. \<open>sel1\<close> is a SELECT that scans one row
  (\<open>QueryRow\<close>), \<open>upd\<close> an UPDATE ... WHERE, \<open>affected\<close> its \<open>RowsAffected\<close>, \<open>del\<close> a DELETE.
\<close>

definition sel1 :: "('r \<Rightarrow> bool) \<Rightarrow> 'r list \<Rightarrow> 'r option" where
  "sel1 p t = List.find p t"

definition upd :: "('r \<Rightarrow> bool) \<Rightarrow> ('r \<Rightarrow> 'r) \<Rightarrow> 'r list \<Rightarrow> 'r list" where
  "upd p f t = map (\<lambda>r. if p r then f r else r) t"

definition affected :: "('r \<Rightarrow> bool) \<Rightarrow> 'r list \<Rightarrow> nat" where
  "affected p t = length (filter p t)"

definition del :: "('r \<Rightarrow> bool) \<Rightarrow> 'r list \<Rightarrow> 'r list" where
  "del p t = filter (\<lambda>r. \<not> p r) t"

text \<open>\<open>ORDER BY key LIMIT 1\<close>: the first row, in insertion order, with the least key.\<close>

fun first_by :: "('r \<Rightarrow> 'k::linorder) \<Rightarrow> 'r list \<Rightarrow> 'r option" where
  "first_by k [] = None"
| "first_by k (r # rs) =
     (case first_by k rs of None \<Rightarrow> Some r
      | Some s \<Rightarrow> if k r \<le> k s then Some r else Some s)"

text \<open>\<open>ORDER BY key DESC LIMIT 1\<close>: the first row, in insertion order, with the greatest key.\<close>

fun last_by :: "('r \<Rightarrow> 'k::linorder) \<Rightarrow> 'r list \<Rightarrow> 'r option" where
  "last_by k [] = None"
| "last_by k (r # rs) =
     (case last_by k rs of None \<Rightarrow> Some r
      | Some s \<Rightarrow> if k s \<le> k r then Some r else Some s)"

lemma sel1_Some: "sel1 p t = Some r \<Longrightarrow> r \<in> set t \<and> p r"
  by (auto simp: sel1_def find_Some_iff)

lemma sel1_None: "sel1 p t = None \<longleftrightarrow> (\<forall>r \<in> set t. \<not> p r)"
  by (auto simp: sel1_def find_None_iff)

lemma upd_simps [simp, tbl]:
  "upd p f [] = []"
  "upd p f (r # t) = (if p r then f r else r) # upd p f t"
  "upd p f (t @ u) = upd p f t @ upd p f u"
  "length (upd p f t) = length t"
  by (simp_all add: upd_def)

lemma set_upd: "set (upd p f t) = (\<lambda>r. if p r then f r else r) ` set t"
  by (simp add: upd_def)

lemma in_upd: "x \<in> set (upd p f t) \<longleftrightarrow> (\<exists>r \<in> set t. x = (if p r then f r else r))"
  by (auto simp: upd_def)

lemma upd_none: "\<forall>r \<in> set t. \<not> p r \<Longrightarrow> upd p f t = t"
  by (induction t) auto

lemma map_upd_same: "(\<And>r. k (f r) = k r) \<Longrightarrow> map k (upd p f t) = map k t"
  by (simp add: upd_def)

lemma affected_zero: "affected p t = 0 \<longleftrightarrow> (\<forall>r \<in> set t. \<not> p r)"
  by (auto simp: affected_def filter_empty_conv)

lemma affected_pos: "affected p t \<noteq> 0 \<longleftrightarrow> (\<exists>r \<in> set t. p r)"
  by (auto simp: affected_zero)

lemma affected_one_ex: "affected p t = 1 \<Longrightarrow> \<exists>r \<in> set t. p r"
  by (metis affected_pos zero_neq_one)

lemma affected_le: "affected p t \<le> length t"
  by (simp add: affected_def)

lemma first_by_in: "first_by k t = Some r \<Longrightarrow> r \<in> set t"
  by (induction t arbitrary: r) (auto split: option.splits if_splits)

lemma first_by_None [simp]: "first_by k t = None \<longleftrightarrow> t = []"
  by (cases t) (auto split: option.splits)

lemma first_by_least: "first_by k t = Some r \<Longrightarrow> s \<in> set t \<Longrightarrow> k r \<le> k s"
proof (induction t arbitrary: r s)
  case Nil
  then show ?case by simp
next
  case (Cons x t)
  show ?case
  proof (cases "first_by k t")
    case None
    then have "t = []" by simp
    with Cons.prems show ?thesis by simp
  next
    case (Some y)
    have "k y \<le> k s" if "s \<in> set t" using Cons.IH Some that by blast
    with Cons.prems Some show ?thesis by (auto split: if_splits)
  qed
qed

lemma distinct_key_eq: "distinct (map k t) \<Longrightarrow> r \<in> set t \<Longrightarrow> s \<in> set t \<Longrightarrow> k r = k s \<Longrightarrow> r = s"
  by (induction t) (auto simp: rev_image_eqI)

lemma filter_distinct_key:
  "distinct (map k t) \<Longrightarrow> length (filter (\<lambda>r. k r = x \<and> q r) t) \<le> 1"
proof (induction t)
  case Nil
  then show ?case by simp
next
  case (Cons r t)
  have "filter (\<lambda>r. k r = x \<and> q r) t = []" if "k r = x"
    using Cons.prems that by (auto simp: filter_empty_conv rev_image_eqI)
  with Cons show ?case by auto
qed

text \<open>
  \<open>Store.withTx\<close> runs a closure on the database; an error rolls every write back. The closure
  returns the new database and a value.
\<close>

definition with_tx :: "'s \<Rightarrow> ('s \<Rightarrow> ('s \<times> 'a) result) \<Rightarrow> 'a result \<times> 's" where
  "with_tx st f = (case f st of Inl e \<Rightarrow> (Inl e, st) | Inr (st', x) \<Rightarrow> (Inr x, st'))"

lemma with_tx_rollback: "with_tx st f = (Inl e, st') \<Longrightarrow> st' = st"
  by (auto simp: with_tx_def split: sum.splits)

lemma with_tx_commit: "with_tx st f = (Inr x, st') \<longleftrightarrow> f st = Inr (st', x)"
  by (auto simp: with_tx_def split: sum.splits)

lemma with_tx_cases:
  assumes "with_tx st f = (r, st')"
  obtains (rollback) e where "r = Inl e" "st' = st"
    | (commit) x where "r = Inr x" "f st = Inr (st', x)"
  using assms by (auto simp: with_tx_def split: sum.splits)

end
