(* ===== verification/GoTime.thy ===== *)
theory GoTime
  imports Prelude
begin

text \<open>
  The part of Go's \<open>time\<close> package that the program's decisions rest on. An instant is the
  number of nanoseconds since 1970-01-01T00:00:00Z; a calendar day is the number of days since
  1970-01-01. The layouts modelled are those the program names: \<open>2006-01-02\<close>,
  \<open>02/01/2006\<close>, RFC3339 and RFC3339Nano. The lemmas: the conversion between
  days and dates is a bijection, printing and parsing a day are inverse, and the text order of
  printed days is the order of the days (years 0 to 9999).
\<close>

type_synonym instant = int

definition second :: int where "second = 1000000000"
definition minute :: int where "minute = 60 * second"
definition hour :: int where "hour = 60 * minute"
definition day_ns :: int where "day_ns = 24 * hour"

lemmas time_units = second_def minute_def hour_def day_ns_def

section \<open>Calendar\<close>

definition leap :: "int \<Rightarrow> bool" where
  "leap y \<longleftrightarrow> y mod 4 = 0 \<and> (y mod 100 \<noteq> 0 \<or> y mod 400 = 0)"

text \<open>Days from 0001-01-01 to the first of January of year \<open>y\<close>.\<close>

definition dby :: "int \<Rightarrow> int" where
  "dby y = 365 * (y - 1) + (y - 1) div 4 - (y - 1) div 100 + (y - 1) div 400"

text \<open>Days of the year before the first of month \<open>m\<close> (\<open>m = 13\<close> is the year's length).\<close>

definition dbm :: "bool \<Rightarrow> int \<Rightarrow> int" where
  "dbm l m =
     (if m \<le> 1 then 0 else if m = 2 then 31
      else (if l then 1 else 0) +
        (if m = 3 then 59 else if m = 4 then 90 else if m = 5 then 120 else if m = 6 then 151
         else if m = 7 then 181 else if m = 8 then 212 else if m = 9 then 243
         else if m = 10 then 273 else if m = 11 then 304 else if m = 12 then 334 else 365))"

definition month_len :: "int \<Rightarrow> int \<Rightarrow> int" where
  "month_len y m = dbm (leap y) (m + 1) - dbm (leap y) m"

definition valid_date :: "int \<Rightarrow> int \<Rightarrow> int \<Rightarrow> bool" where
  "valid_date y m d \<longleftrightarrow> 1 \<le> m \<and> m \<le> 12 \<and> 1 \<le> d \<and> d \<le> month_len y m"

definition epoch_day :: int where "epoch_day = 719162"

definition days_of :: "int \<Rightarrow> int \<Rightarrow> int \<Rightarrow> int" where
  "days_of y m d = dby y + dbm (leap y) m + (d - 1) - epoch_day"

definition year_of :: "int \<Rightarrow> int" where
  "year_of n =
     (let y = (400 * n) div 146097 + 1
      in if n < dby y then y - 1 else if dby (y + 1) \<le> n then y + 1 else y)"

definition month_of :: "bool \<Rightarrow> int \<Rightarrow> int" where
  "month_of l r =
     (if r < dbm l 2 then 1 else if r < dbm l 3 then 2 else if r < dbm l 4 then 3
      else if r < dbm l 5 then 4 else if r < dbm l 6 then 5 else if r < dbm l 7 then 6
      else if r < dbm l 8 then 7 else if r < dbm l 9 then 8 else if r < dbm l 10 then 9
      else if r < dbm l 11 then 10 else if r < dbm l 12 then 11 else 12)"

definition civil :: "int \<Rightarrow> int \<times> int \<times> int" where
  "civil n =
     (let a = n + epoch_day; y = year_of a; r = a - dby y; m = month_of (leap y) r
      in (y, m, r - dbm (leap y) m + 1))"

lemma div_sandwich:
  assumes "0 < k"
  shows "q - (k - 1) \<le> k * (q div k) \<and> k * (q div k) \<le> (q::int)"
proof -
  have "k * (q div k) = q - q mod k" by (simp add: minus_mod_eq_mult_div)
  then show ?thesis using pos_mod_sign [OF assms, of q] pos_mod_bound [OF assms, of q] by linarith
qed

lemma div_less_iff: "0 < k \<Longrightarrow> a div k < m \<longleftrightarrow> a < m * (k::int)"
proof
  assume k: "0 < k" and "a div k < m"
  then have "(a div k + 1) * k \<le> m * k" by (intro mult_right_mono) auto
  with div_sandwich [OF k, of a] show "a < m * k" by (simp add: algebra_simps)
next
  assume k: "0 < k" and "a < m * k"
  then have "a div k * k < m * k" using div_sandwich [OF k, of a] by (simp only: mult.commute) linarith
  with k show "a div k < m" by simp
qed

lemma div_pred_step: "0 < k \<Longrightarrow> (y::int) div k = (y - 1) div k + (if y mod k = 0 then 1 else 0)"
proof -
  assume k: "0 < k"
  define q r where "q = y div k" and "r = y mod k"
  have y: "y = k * q + r" "0 \<le> r" "r < k" using k by (simp_all add: q_def r_def)
  show ?thesis
  proof (cases "r = 0")
    case True
    have "(y - 1) div k = q - 1"
      by (rule int_div_pos_eq [where r = "k - 1"]) (use k y True in \<open>auto simp: algebra_simps\<close>)
    with True show ?thesis by (simp add: q_def r_def)
  next
    case False
    have "(y - 1) div k = q"
      by (rule int_div_pos_eq [where r = "r - 1"]) (use k y False in auto)
    with False show ?thesis by (simp add: q_def r_def)
  qed
qed

lemma dby_bounds:
  "146097 * (y - 1) - 800 < 400 * dby y" "400 * dby y < 146097 * (y - 1) + 800"
proof -
  define q where "q = y - 1"
  have a: "q - 3 \<le> 4 * (q div 4)" "4 * (q div 4) \<le> q"
    and b: "q - 99 \<le> 100 * (q div 100)" "100 * (q div 100) \<le> q"
    and c: "q - 399 \<le> 400 * (q div 400)" "400 * (q div 400) \<le> q"
    using div_sandwich [of 4 q] div_sandwich [of 100 q] div_sandwich [of 400 q] by simp_all
  have d: "400 * dby y = 146000 * q + 100 * (4 * (q div 4)) - 4 * (100 * (q div 100)) + 400 * (q div 400)"
    by (simp add: dby_def q_def)
  show "146097 * (y - 1) - 800 < 400 * dby y" "400 * dby y < 146097 * (y - 1) + 800"
    using a b c d by (simp_all add: q_def)
qed

lemma bool_leap: "(c \<Longrightarrow> b) \<Longrightarrow> (b \<Longrightarrow> a) \<Longrightarrow> (a \<and> (\<not> b \<or> c)) \<longleftrightarrow> (c \<or> (a \<and> \<not> b))"
  by blast

lemma bool_count:
  "(c \<Longrightarrow> b) \<Longrightarrow> (b \<Longrightarrow> a) \<Longrightarrow>
   (if a then 1 else 0) - (if b then 1 else 0) + (if c then 1 else 0)
     = (if c \<or> (a \<and> \<not> b) then 1 else (0::int))"
  by auto

lemma sum_steps:
  "a = a' + x \<Longrightarrow> b = b' + y \<Longrightarrow> c = c' + z \<Longrightarrow>
   365 * k + a - b + c = 365 * (k - 1) + a' - b' + c' + 365 + (x - y + (z::int))"
  by simp

lemma dby_Suc: "dby (y + 1) = dby y + (if leap y then 366 else 365)"
proof -
  have i: "y mod 400 = 0 \<Longrightarrow> y mod 100 = 0" "y mod 100 = 0 \<Longrightarrow> y mod 4 = 0"
    using mod_mod_cancel [of 100 400 y] mod_mod_cancel [of 4 100 y] by simp_all
  have l: "leap y \<longleftrightarrow> (y mod 400 = 0 \<or> (y mod 4 = 0 \<and> y mod 100 \<noteq> 0))"
    unfolding leap_def using i by (rule bool_leap)
  have eq: "(if y mod 4 = 0 then 1 else 0) - (if y mod 100 = 0 then 1 else 0)
      + (if y mod 400 = 0 then 1 else 0) = (if leap y then 1 else (0::int))"
    unfolding l using i by (rule bool_count)
  have "dby (y + 1) = 365 * y + y div 4 - y div 100 + y div 400" by (simp add: dby_def)
  also have "\<dots> = dby y + 365 + ((if y mod 4 = 0 then 1 else 0) - (if y mod 100 = 0 then 1 else 0)
      + (if y mod 400 = 0 then 1 else 0))"
    unfolding dby_def by (rule sum_steps) (rule div_pred_step; simp)+
  finally show ?thesis unfolding eq by (cases "leap y") auto
qed

lemma dby_step: "dby y + 365 \<le> dby (y + 1)" "dby (y + 1) \<le> dby y + 366"
  by (simp_all add: dby_Suc)

lemma dby_mono_nat: "dby y \<le> dby (y + int k)"
proof (induction k)
  case 0
  then show ?case by simp
next
  case (Suc k)
  have "dby (y + int k) \<le> dby (y + int k + 1)" using dby_step(1) [of "y + int k"] by simp
  with Suc show ?case by (simp add: add.commute add.left_commute)
qed

lemma dby_mono: "y \<le> z \<Longrightarrow> dby y \<le> dby z"
  using dby_mono_nat [of y "nat (z - y)"] by simp

lemma year_of_bounds: "dby (year_of n) \<le> n \<and> n < dby (year_of n + 1)"
proof -
  define y where "y = (400 * n) div 146097 + 1"
  have q: "146097 * (y - 1) \<le> 400 * n" "400 * n < 146097 * (y - 1) + 146097"
    using div_sandwich [of 146097 "400 * n"] unfolding y_def by simp_all
  have lo: "dby (y - 1) \<le> n"
    using dby_bounds(2) [of "y - 1"] q(1) by simp
  have hi: "n < dby (y + 2)"
    using dby_bounds(1) [of "y + 2"] q(2) by simp
  have "y + 1 + 1 = y + 2" by simp
  with hi have "n < dby (y + 1 + 1)" by (simp only:)
  then show ?thesis
    using lo by (auto simp: year_of_def Let_def y_def [symmetric])
qed

lemma year_of_unique: "dby y \<le> n \<Longrightarrow> n < dby (y + 1) \<Longrightarrow> year_of n = y"
proof (rule ccontr)
  assume a: "dby y \<le> n" "n < dby (y + 1)" "year_of n \<noteq> y"
  show False
  proof (cases "year_of n < y")
    case True
    then have "dby (year_of n + 1) \<le> dby y" by (intro dby_mono) simp
    with a year_of_bounds [of n] show False by linarith
  next
    case False
    with a have "dby (y + 1) \<le> dby (year_of n)" by (intro dby_mono) simp
    with a year_of_bounds [of n] show False by linarith
  qed
qed

lemma month_range_cases:
  assumes "1 \<le> m" and "m \<le> (12::int)"
  obtains "m = 1" | "m = 2" | "m = 3" | "m = 4" | "m = 5" | "m = 6"
    | "m = 7" | "m = 8" | "m = 9" | "m = 10" | "m = 11" | "m = 12"
proof -
  have "m \<in> set [1..12]" using assms by simp
  also have "[1..12] = [1, 2, 3, 4, 5, 6, 7, 8, 9, 10, 11, 12::int]"
    by (simp add: upto.simps)
  finally show thesis using that by auto
qed

lemma dbm_table:
  "dbm l 1 = 0" "dbm l 2 = 31" "dbm l 3 = of_bool l + 59" "dbm l 4 = of_bool l + 90"
  "dbm l 5 = of_bool l + 120" "dbm l 6 = of_bool l + 151" "dbm l 7 = of_bool l + 181"
  "dbm l 8 = of_bool l + 212" "dbm l 9 = of_bool l + 243" "dbm l 10 = of_bool l + 273"
  "dbm l 11 = of_bool l + 304" "dbm l 12 = of_bool l + 334" "dbm l 13 = of_bool l + 365"
  by (simp_all add: dbm_def)

lemma dbm_less: "1 \<le> m \<Longrightarrow> m \<le> 12 \<Longrightarrow> dbm l m < dbm l (m + 1)"
  by (erule (1) month_range_cases) (simp_all add: dbm_table)

lemma dbm_mono_nat: "1 \<le> m \<Longrightarrow> m + int k \<le> 13 \<Longrightarrow> dbm l m \<le> dbm l (m + int k)"
proof (induction k)
  case (Suc k)
  then have "dbm l (m + int k) < dbm l (m + int k + 1)" by (intro dbm_less) auto
  with Suc show ?case by (simp add: add.commute add.left_commute)
qed simp

lemma dbm_mono: "1 \<le> m \<Longrightarrow> m \<le> n \<Longrightarrow> n \<le> 13 \<Longrightarrow> dbm l m \<le> dbm l n"
  using dbm_mono_nat [of m "nat (n - m)" l] by simp

lemma month_of_unique:
  assumes "1 \<le> m" "m \<le> 12" "dbm l m \<le> r" "r < dbm l (m + 1)"
  shows "month_of l r = m"
proof -
  have lo: "\<not> r < dbm l k" if "1 \<le> k" "k \<le> m" for k
    using dbm_mono [of k m l] that assms by linarith
  have hi: "r < dbm l k" if "m < k" "k \<le> 13" for k
    using dbm_mono [of "m + 1" k l] that assms by linarith
  from assms(1,2) show ?thesis
    by (rule month_range_cases) (simp_all add: month_of_def lo hi)
qed

lemma month_exists:
  assumes "0 \<le> r" "r < dbm l 13"
  shows "\<exists>m. 1 \<le> m \<and> m \<le> 12 \<and> dbm l m \<le> r \<and> r < dbm l (m + 1)"
proof -
  have "r < dbm l (1 + int k) \<Longrightarrow> k \<le> 12 \<Longrightarrow>
      \<exists>m. 1 \<le> m \<and> m \<le> 12 \<and> dbm l m \<le> r \<and> r < dbm l (m + 1)" for k
  proof (induction k)
    case 0
    then show ?case using assms by (simp add: dbm_def)
  next
    case (Suc k)
    show ?case
    proof (cases "r < dbm l (1 + int k)")
      case True
      with Suc show ?thesis by simp
    next
      case False
      with Suc.prems show ?thesis
        by (intro exI [of _ "1 + int k"]) (simp add: add.commute add.left_commute)
    qed
  qed
  from this [of 12] assms show ?thesis by simp
qed

lemma month_of_bounds:
  assumes "0 \<le> r" "r < dbm l 13"
  shows "1 \<le> month_of l r" "month_of l r \<le> 12"
    "dbm l (month_of l r) \<le> r" "r < dbm l (month_of l r + 1)"
  using month_exists [OF assms] month_of_unique by metis+

lemma civil_valid:
  assumes "civil n = (y, m, d)"
  shows "valid_date y m d" "days_of y m d = n"
proof -
  define a where "a = n + epoch_day"
  have y: "y = year_of a" and m: "m = month_of (leap y) (a - dby y)"
    and d: "d = a - dby y - dbm (leap y) m + 1"
    using assms by (auto simp: civil_def Let_def a_def)
  have r: "0 \<le> a - dby y" "a - dby y < dbm (leap y) 13"
    using year_of_bounds [of a] dby_Suc [of y] y by (auto simp: dbm_table)
  note b = month_of_bounds [OF r, folded m]
  show "valid_date y m d" using b d by (auto simp: valid_date_def month_len_def)
  show "days_of y m d = n" using d by (simp add: days_of_def a_def)
qed

lemma civil_days_of:
  assumes "valid_date y m d"
  shows "civil (days_of y m d) = (y, m, d)"
proof -
  define r where "r = dbm (leap y) m + (d - 1)"
  have v: "1 \<le> m" "m \<le> 12" "dbm (leap y) m \<le> r" "r < dbm (leap y) (m + 1)"
    using assms by (auto simp: valid_date_def month_len_def r_def)
  have r: "0 \<le> r" "r < dbm (leap y) 13"
    using v dbm_mono [of 1 m "leap y"] dbm_mono [of "m + 1" 13 "leap y"] by (auto simp: dbm_table)
  have "year_of (dby y + r) = y"
    using r by (intro year_of_unique) (auto simp: dby_Suc dbm_table)
  moreover have "month_of (leap y) r = m" using v by (rule month_of_unique)
  moreover have "days_of y m d + epoch_day = dby y + r" by (simp add: days_of_def r_def)
  ultimately show ?thesis by (simp add: civil_def Let_def r_def)
qed

text \<open>Dates are ordered as days are: year first, then month, then day of the month.\<close>

lemma civil_mono:
  assumes "a < b" "civil a = (y, m, d)" "civil b = (y', m', d')"
  shows "y < y' \<or> (y = y' \<and> (m < m' \<or> (m = m' \<and> d < d')))"
proof -
  have va: "valid_date y m d" "days_of y m d = a" and vb: "valid_date y' m' d'" "days_of y' m' d' = b"
    using civil_valid assms(2,3) by blast+
  have my: "\<not> y' < y"
  proof
    assume "y' < y"
    then have "dby (y' + 1) \<le> dby y" by (intro dby_mono) simp
    moreover have "days_of y' m' d' + epoch_day < dby (y' + 1)" "dby y \<le> days_of y m d + epoch_day"
      using year_of_bounds [of "a + epoch_day"] year_of_bounds [of "b + epoch_day"] assms(2,3) va vb
      by (auto simp: civil_def Let_def)
    ultimately show False using va(2) vb(2) assms(1) by linarith
  qed
  have mm: "\<not> m' < m" if "y = y'"
  proof
    assume "m' < m"
    then have "dbm (leap y) (m' + 1) \<le> dbm (leap y) m"
      using va(1) vb(1) dbm_mono [of "m' + 1" m "leap y"] by (auto simp: valid_date_def)
    then show False using va vb assms(1) that
      by (auto simp: days_of_def valid_date_def month_len_def)
  qed
  show ?thesis using my mm va vb assms(1) by (auto simp: days_of_def not_less_iff_gr_or_eq)
qed

section \<open>Printing\<close>

definition pad_int :: "nat \<Rightarrow> int \<Rightarrow> string" where
  "pad_int w i = (if i < 0 then ''-'' @ pad w (nat (- i)) else pad w (nat i))"

lemma pad_int_code [code]:
  "pad_int w i =
     (if i < 0 then ''-'' @ (let s = show_pos (- i) in replicate (w - length s) (CHR ''0'') @ s)
      else (let s = show_pos i in replicate (w - length s) (CHR ''0'') @ s))"
  by (simp add: pad_int_def pad_def show_nat_pos Let_def)

text \<open>Layout \<open>2006-01-02\<close> and layout \<open>02/01/2006\<close>.\<close>

definition fmt_day :: "int \<Rightarrow> string" where
  "fmt_day n =
     (case civil n of (y, m, d) \<Rightarrow>
        pad_int 4 y @ ''-'' @ pad_int 2 m @ ''-'' @ pad_int 2 d)"

definition fmt_dmy :: "int \<Rightarrow> string" where
  "fmt_dmy n =
     (case civil n of (y, m, d) \<Rightarrow>
        pad_int 2 d @ ''/'' @ pad_int 2 m @ ''/'' @ pad_int 4 y)"

definition day_of :: "instant \<Rightarrow> int" where
  "day_of t = t div day_ns"

definition sec_of_day :: "instant \<Rightarrow> int" where
  "sec_of_day t = (t mod day_ns) div second"

definition fmt_clock :: "int \<Rightarrow> string" where
  "fmt_clock s =
     pad_int 2 (s div 3600) @ '':'' @ pad_int 2 (s mod 3600 div 60) @ '':'' @ pad_int 2 (s mod 60)"

text \<open>
  The fraction of layout RFC3339Nano: nothing for a whole second, otherwise a dot and the nine
  digits of the nanoseconds without their trailing zeros.
\<close>

definition fmt_frac :: "int \<Rightarrow> string" where
  "fmt_frac ns =
     (if ns = 0 then []
      else ''.'' @ rev (dropWhile (\<lambda>c. c = CHR ''0'') (rev (pad_int 9 ns))))"

text \<open>\<open>t.UTC().Format(time.RFC3339Nano)\<close> and \<open>t.UTC().Format(time.RFC3339)\<close>.\<close>

definition fmt_sec :: "instant \<Rightarrow> string" where
  "fmt_sec t = fmt_day (day_of t) @ ''T'' @ fmt_clock (sec_of_day t)"

definition rfc3339nano :: "instant \<Rightarrow> string" where
  "rfc3339nano t = fmt_sec t @ fmt_frac (t mod second) @ ''Z''"

definition rfc3339 :: "instant \<Rightarrow> string" where
  "rfc3339 t = fmt_sec t @ ''Z''"

text \<open>
  The text order of printed days (the order of SQLite's \<open>BINARY\<close> collation and of Go's \<open><\<close>
  on strings) is the order of the days.
\<close>

lemma civil_year_range:
  assumes "days_of 0 1 1 \<le> n" "n \<le> days_of 9999 12 31" "civil n = (y, m, d)"
  shows "0 \<le> y" "y \<le> 9999" "1 \<le> m" "m \<le> 12" "1 \<le> d" "d \<le> 31"
proof -
  have v: "valid_date y m d" "days_of y m d = n" using civil_valid assms(3) by blast+
  have e: "civil (days_of 0 1 1) = (0, 1, 1)" "civil (days_of 9999 12 31) = (9999, 12, 31)"
    by (rule civil_days_of; code_simp)+
  show "0 \<le> y"
    using civil_mono [OF _ e(1) assms(3)] assms(1,3) e(1) by (cases "days_of 0 1 1 = n") auto
  show "y \<le> 9999"
    using civil_mono [OF _ assms(3) e(2)] assms(2,3) e(2) by (cases "days_of 9999 12 31 = n") auto
  show "1 \<le> m" "m \<le> 12" "1 \<le> d" using v by (auto simp: valid_date_def)
  have "month_len y m \<le> 31"
    using \<open>1 \<le> m\<close> \<open>m \<le> 12\<close> by (rule month_range_cases) (auto simp: month_len_def dbm_def)
  then show "d \<le> 31" using v by (auto simp: valid_date_def)
qed

lemma pad_int_pos:
  "0 \<le> i \<Longrightarrow> i < 10 ^ w \<Longrightarrow> 0 < w \<Longrightarrow>
   length (pad_int w i) = w \<and> list_all is_digit (pad_int w i) \<and> int (read_nat (pad_int w i)) = i"
  by (auto simp: pad_int_def nat_less_iff pad_spec)

lemma pad_int_less:
  "0 \<le> i \<Longrightarrow> i < j \<Longrightarrow> j < 10 ^ w \<Longrightarrow> 0 < w \<Longrightarrow> pad_int w i @ r < pad_int w j @ r'"
  using pad_int_pos [of i w] pad_int_pos [of j w] by (intro digits_less) auto

lemma fmt_day_less:
  assumes "days_of 0 1 1 \<le> a" "a < b" "b \<le> days_of 9999 12 31"
  shows "fmt_day a < fmt_day b"
proof -
  obtain y m d y' m' d' where c: "civil a = (y, m, d)" "civil b = (y', m', d')"
    by (metis prod_cases3)
  have ra: "0 \<le> y" "y \<le> 9999" "1 \<le> m" "m \<le> 12" "1 \<le> d" "d \<le> 31"
    using civil_year_range [of a] c(1) assms by simp_all
  have rb: "0 \<le> y'" "y' \<le> 9999" "1 \<le> m'" "m' \<le> 12" "1 \<le> d'" "d' \<le> 31"
    using civil_year_range [of b] c(2) assms by simp_all
  show ?thesis
    using civil_mono [OF assms(2) c]
  proof (elim disjE conjE)
    assume "y < y'"
    then show ?thesis using ra rb by (auto simp: fmt_day_def c intro!: pad_int_less)
  next
    assume "y = y'" "m < m'"
    then show ?thesis
      using ra rb pad_int_less [of m m' 2 "''-'' @ pad_int 2 d" "''-'' @ pad_int 2 d'"]
      by (auto simp: fmt_day_def c)
  next
    assume "y = y'" "m = m'" "d < d'"
    then show ?thesis
      using ra rb pad_int_less [of d d' 2 "[]" "[]"] by (auto simp: fmt_day_def c)
  qed
qed

section \<open>Parsing\<close>

definition num_field :: "nat \<Rightarrow> string \<Rightarrow> int option" where
  "num_field w s = (if length s = w \<and> list_all is_digit s then Some (int (read_nat s)) else None)"

text \<open>\<open>time.Parse("2006-01-02", s)\<close> as a day number.\<close>

definition mk_day :: "int option \<Rightarrow> int option \<Rightarrow> int option \<Rightarrow> int option" where
  "mk_day y m d =
     (case (y, m, d) of
        (Some y, Some m, Some d) \<Rightarrow> if valid_date y m d then Some (days_of y m d) else None
      | _ \<Rightarrow> None)"

definition parse_day :: "string \<Rightarrow> int option" where
  "parse_day s =
     (if length s = 10 \<and> s ! 4 = CHR ''-'' \<and> s ! 7 = CHR ''-''
      then mk_day (num_field 4 (take 4 s)) (num_field 2 (take 2 (drop 5 s))) (num_field 2 (drop 8 s))
      else None)"

lemma parse_fmt_day:
  assumes "days_of 0 1 1 \<le> n" "n \<le> days_of 9999 12 31"
  shows "parse_day (fmt_day n) = Some n"
proof -
  obtain y m d where c: "civil n = (y, m, d)" by (metis prod_cases3)
  have r: "0 \<le> y" "y \<le> 9999" "1 \<le> m" "m \<le> 12" "1 \<le> d" "d \<le> 31"
    using civil_year_range [OF assms c] by simp_all
  note v = civil_valid [OF c]
  have p: "length (pad_int 4 y) = 4" "length (pad_int 2 m) = 2" "length (pad_int 2 d) = 2"
    "num_field 4 (pad_int 4 y) = Some y" "num_field 2 (pad_int 2 m) = Some m"
    "num_field 2 (pad_int 2 d) = Some d"
    using pad_int_pos [of y 4] pad_int_pos [of m 2] pad_int_pos [of d 2] r
    by (simp_all add: num_field_def)
  show ?thesis
    using p v by (simp add: parse_day_def fmt_day_def c mk_day_def nth_append)
qed

lemma parse_day_Some:
  assumes "parse_day s = Some n"
  shows "length s = 10" "0 \<le> fst (civil n)" "fst (civil n) \<le> 9999"
proof -
  show "length s = 10" using assms by (auto simp: parse_day_def split: if_splits)
  obtain y m d where "num_field 4 (take 4 s) = Some y" "valid_date y m d" "n = days_of y m d"
    using assms by (auto simp: parse_day_def mk_day_def split: if_splits option.splits)
  moreover from this have "0 \<le> y" "y \<le> 9999"
    using read_nat_less [of "take 4 s"] by (auto simp: num_field_def split: if_splits)
  ultimately show "0 \<le> fst (civil n)" "fst (civil n) \<le> 9999" by (auto simp: civil_days_of)
qed

text \<open>\<open>time.Parse("02/01/2006", s)\<close>.\<close>

definition parse_dmy :: "string \<Rightarrow> int option" where
  "parse_dmy s =
     (if length s = 10 \<and> s ! 2 = CHR ''/'' \<and> s ! 5 = CHR ''/''
      then mk_day (num_field 4 (drop 6 s)) (num_field 2 (take 2 (drop 3 s))) (num_field 2 (take 2 s))
      else None)"

end
