(* ===== verification/AcbDate.thy ===== *)
theory AcbDate
  imports GoTime
begin

text \<open>
  \<open>src/internal/acb/date.go\<close>: the transaction dates of ACB's pages and their canonical form.
  \<open>go_parse\<close> is Go's \<open>time.Parse\<close> on the layout elements these layouts use, with its
  quirks (an hour of one or two digits, a fraction after the seconds that the layout does not
  name, a blank of the layout matching any run of blanks). The bank's location is the fixed offset
  +07:00, which the source falls back to and which the zone has had since 1975.
\<close>

section \<open>time.Parse\<close>

datatype chunk = Lit char | Year4 | Month2 | Day2 | Hour | Minute2 | Second2 | ZoneColon

record clock =
  ck_year :: int
  ck_month :: int
  ck_day :: int
  ck_hour :: int
  ck_min :: int
  ck_sec :: int
  ck_nsec :: int
  ck_zone :: "int option"   \<comment> \<open>offset in seconds east of UTC, when the text has one\<close>

definition clock0 :: clock where
  "clock0 = \<lparr>ck_year = 0, ck_month = 1, ck_day = 1, ck_hour = 0, ck_min = 0, ck_sec = 0,
     ck_nsec = 0, ck_zone = None\<rparr>"

text \<open>\<open>getnum\<close>: one or two digits, exactly two when \<open>fixed\<close>.\<close>

definition getnum :: "bool \<Rightarrow> string \<Rightarrow> (int \<times> string) option" where
  "getnum fixed s =
     (case s of
        [] \<Rightarrow> None
      | a # r \<Rightarrow>
          if \<not> is_digit a then None
          else (case r of
                  b # r' \<Rightarrow> if is_digit b then Some (int (read_nat [a, b]), r')
                            else if fixed then None else Some (int (read_nat [a]), r)
                | [] \<Rightarrow> if fixed then None else Some (int (read_nat [a]), r)))"

definition get_year :: "string \<Rightarrow> (int \<times> string) option" where
  "get_year s =
     (if 4 \<le> length s \<and> list_all is_digit (take 4 s) then Some (int (read_nat (take 4 s)), drop 4 s)
      else None)"

text \<open>An unannounced fraction after the seconds: nine digits count, the rest is dropped.\<close>

definition get_fraction :: "string \<Rightarrow> int \<times> string" where
  "get_fraction s =
     (case s of
        c # d # _ \<Rightarrow>
          if (c = CHR ''.'' \<or> c = CHR '','') \<and> is_digit d
          then (let ds = takeWhile is_digit (tl s); n = min 9 (length ds)
                in (int (read_nat (take n ds)) * 10 ^ (9 - n), drop (1 + length ds) s))
          else (0, s)
      | _ \<Rightarrow> (0, s))"

definition get_zone :: "string \<Rightarrow> (int \<times> string) option" where
  "get_zone s =
     (if s \<noteq> [] \<and> hd s = CHR ''Z'' then Some (0, tl s)
      else if length s < 6 \<or> s ! 3 \<noteq> CHR '':'' then None
      else (case (getnum True (take 2 (drop 1 s)), getnum True (take 2 (drop 4 s))) of
              (Some (h, _), Some (m, _)) \<Rightarrow>
                if h > 24 \<or> m > 60 then None
                else if hd s = CHR ''+'' then Some ((h * 60 + m) * 60, drop 6 s)
                else if hd s = CHR ''-'' then Some (- ((h * 60 + m) * 60), drop 6 s)
                else None
            | _ \<Rightarrow> None))"

definition ranged :: "int \<Rightarrow> int \<Rightarrow> (int \<times> string) option \<Rightarrow> (int \<times> string) option" where
  "ranged lo hi r = (case r of Some (v, s) \<Rightarrow> if lo \<le> v \<and> v \<le> hi then r else None | None \<Rightarrow> None)"

fun go_scan :: "chunk list \<Rightarrow> string \<Rightarrow> clock \<Rightarrow> clock option" where
  "go_scan [] s c = (if s = [] then Some c else None)"
| "go_scan (Lit x # cs) s c =
     (if x = CHR '' ''
      then (if s \<noteq> [] \<and> hd s \<noteq> CHR '' '' then None
            else go_scan cs (dropWhile (\<lambda>y. y = CHR '' '') s) c)
      else (if s \<noteq> [] \<and> hd s = x then go_scan cs (tl s) c else None))"
| "go_scan (Year4 # cs) s c =
     (case get_year s of None \<Rightarrow> None | Some (v, r) \<Rightarrow> go_scan cs r (c\<lparr>ck_year := v\<rparr>))"
| "go_scan (Month2 # cs) s c =
     (case ranged 1 12 (getnum True s) of None \<Rightarrow> None
      | Some (v, r) \<Rightarrow> go_scan cs r (c\<lparr>ck_month := v\<rparr>))"
| "go_scan (Day2 # cs) s c =
     (case getnum True s of None \<Rightarrow> None | Some (v, r) \<Rightarrow> go_scan cs r (c\<lparr>ck_day := v\<rparr>))"
| "go_scan (Hour # cs) s c =
     (case ranged 0 23 (getnum False s) of None \<Rightarrow> None
      | Some (v, r) \<Rightarrow> go_scan cs r (c\<lparr>ck_hour := v\<rparr>))"
| "go_scan (Minute2 # cs) s c =
     (case ranged 0 59 (getnum True s) of None \<Rightarrow> None
      | Some (v, r) \<Rightarrow> go_scan cs r (c\<lparr>ck_min := v\<rparr>))"
| "go_scan (Second2 # cs) s c =
     (case ranged 0 59 (getnum True s) of None \<Rightarrow> None
      | Some (v, r) \<Rightarrow> (case get_fraction r of (ns, r') \<Rightarrow>
          go_scan cs r' (c\<lparr>ck_sec := v, ck_nsec := ns\<rparr>)))"
| "go_scan (ZoneColon # cs) s c =
     (case get_zone s of None \<Rightarrow> None | Some (v, r) \<Rightarrow> go_scan cs r (c\<lparr>ck_zone := Some v\<rparr>))"

text \<open>The instant a scanned clock denotes, in a location of fixed offset \<open>off\<close> seconds.\<close>

definition clock_instant :: "int \<Rightarrow> clock \<Rightarrow> instant option" where
  "clock_instant off c =
     (if \<not> valid_date (ck_year c) (ck_month c) (ck_day c) then None
      else Some (days_of (ck_year c) (ck_month c) (ck_day c) * day_ns + ck_hour c * hour
                 + ck_min c * minute + ck_sec c * second + ck_nsec c
                 - (case ck_zone c of Some z \<Rightarrow> z | None \<Rightarrow> off) * second))"

definition go_parse :: "int \<Rightarrow> chunk list \<Rightarrow> string \<Rightarrow> instant option" where
  "go_parse off layout s =
     (case go_scan layout s clock0 of None \<Rightarrow> None | Some c \<Rightarrow> clock_instant off c)"

section \<open>Transaction dates\<close>

text \<open>\<open>DefaultLocation\<close>: seconds east of UTC.\<close>

definition default_offset :: int where "default_offset = 7 * 3600"

definition dmy_chunks :: "chunk list" where
  "dmy_chunks = [Day2, Lit (CHR ''/''), Month2, Lit (CHR ''/''), Year4]"

definition ymd_chunks :: "chunk list" where
  "ymd_chunks = [Year4, Lit (CHR ''-''), Month2, Lit (CHR ''-''), Day2]"

definition hm_chunks :: "chunk list" where
  "hm_chunks = [Hour, Lit (CHR '':''), Minute2]"

definition hms_chunks :: "chunk list" where
  "hms_chunks = hm_chunks @ [Lit (CHR '':''), Second2]"

definition layouts_with_time :: "chunk list list" where
  "layouts_with_time =
     [dmy_chunks @ [Lit (CHR '' '')] @ hms_chunks,
      dmy_chunks @ [Lit (CHR '' '')] @ hm_chunks,
      dmy_chunks @ [Lit (CHR ''T'')] @ hms_chunks,
      ymd_chunks @ [Lit (CHR '' '')] @ hms_chunks,
      ymd_chunks @ [Lit (CHR ''T'')] @ hms_chunks,
      ymd_chunks @ [Lit (CHR ''T'')] @ hms_chunks @ [ZoneColon],
      ymd_chunks @ [Lit (CHR ''T'')] @ hms_chunks @ [ZoneColon]]"

definition layouts_date_only :: "chunk list list" where
  "layouts_date_only = [dmy_chunks, ymd_chunks]"

fun first_layout :: "int \<Rightarrow> chunk list list \<Rightarrow> string \<Rightarrow> instant option" where
  "first_layout off [] s = None"
| "first_layout off (l # ls) s =
     (case go_parse off l s of Some t \<Rightarrow> Some t | None \<Rightarrow> first_layout off ls s)"

text \<open>\<open>ParseACBTransactionDate\<close> with the default location.\<close>

definition parse_acb_date :: "string \<Rightarrow> (instant \<times> bool) result" where
  "parse_acb_date raw =
     (let s = trim_space raw
      in if s = [] then Inl ErrInvalidDate
         else case first_layout default_offset layouts_with_time s of
                Some t \<Rightarrow> Inr (t, True)
              | None \<Rightarrow>
                 (case first_layout default_offset layouts_date_only s of
                    Some t \<Rightarrow> Inr (t, False)
                  | None \<Rightarrow> Inl (ErrWrap raw ErrInvalidDate)))"

record canonical_date =
  cd_day :: string
  cd_iso :: string
  cd_precision :: string
  cd_time :: instant
  cd_has_time :: bool

text \<open>The day and the RFC3339 text of an instant in the bank's location.\<close>

definition local_day :: "instant \<Rightarrow> string" where
  "local_day t = fmt_day (day_of (t + default_offset * second))"

definition local_rfc3339 :: "instant \<Rightarrow> string" where
  "local_rfc3339 t = fmt_sec (t + default_offset * second) @ ''+07:00''"

definition normalize_date :: "string \<Rightarrow> canonical_date result" where
  "normalize_date raw =
     (case parse_acb_date raw of
        Inl e \<Rightarrow> Inl e
      | Inr (t, has_time) \<Rightarrow>
          if has_time
          then Inr \<lparr>cd_day = local_day t, cd_iso = local_rfc3339 t, cd_precision = ''datetime'',
                    cd_time = t, cd_has_time = True\<rparr>
          else Inr \<lparr>cd_day = local_day t, cd_iso = local_day t, cd_precision = ''date'',
                    cd_time = t, cd_has_time = False\<rparr>)"

section \<open>Normalising printed dates\<close>

lemma getnum_pad2 [simp]:
  assumes "0 \<le> i" "i < 100"
  shows "getnum f (pad_int 2 i @ r) = Some (i, r)"
proof -
  have p: "length (pad_int 2 i) = 2" "list_all is_digit (pad_int 2 i)" "int (read_nat (pad_int 2 i)) = i"
    using pad_int_pos [of i 2] assms by simp_all
  then obtain a b where "pad_int 2 i = [a, b]" by (auto simp: length_Suc_conv numeral_2_eq_2)
  with p show ?thesis by (simp add: getnum_def)
qed

lemma get_year_pad4 [simp]:
  assumes "0 \<le> y" "y \<le> 9999"
  shows "get_year (pad_int 4 y @ r) = Some (y, r)"
  using pad_int_pos [of y 4] assms by (simp add: get_year_def)

lemma get_year_short: "take 2 s = [a, b] \<Longrightarrow> drop 2 s = CHR ''/'' # r \<Longrightarrow> get_year s = None"
proof -
  assume "take 2 s = [a, b]" "drop 2 s = CHR ''/'' # r"
  then have "s = a # b # CHR ''/'' # r" by (metis append_Cons append_Nil append_take_drop_id)
  then show ?thesis by (auto simp: get_year_def numeral_eq_Suc is_digit_def)
qed

lemma pad_int_2_list:
  "0 \<le> i \<Longrightarrow> i < 100 \<Longrightarrow> \<exists>a b. pad_int 2 i = [a, b] \<and> is_digit a \<and> is_digit b"
  using pad_int_pos [of i 2] by (auto simp: length_Suc_conv numeral_2_eq_2)

lemma pad_int_4_list:
  "0 \<le> i \<Longrightarrow> i \<le> 9999 \<Longrightarrow>
   \<exists>a b c d. pad_int 4 i = [a, b, c, d] \<and> is_digit a \<and> is_digit b \<and> is_digit c \<and> is_digit d"
  using pad_int_pos [of i 4] by (auto simp: length_Suc_conv numeral_eq_Suc)

text \<open>The scan of a printed date, by day-first and by year-first layouts.\<close>

lemma scan_dmy:
  assumes "0 \<le> y" "y \<le> 9999" "1 \<le> m" "m \<le> 12" "0 \<le> d" "d < 100"
  shows "go_scan (dmy_chunks @ cs) (pad_int 2 d @ ''/'' @ pad_int 2 m @ ''/'' @ pad_int 4 y @ r) c =
    go_scan cs r (c\<lparr>ck_day := d, ck_month := m, ck_year := y\<rparr>)"
  using assms by (simp add: dmy_chunks_def ranged_def)

lemma scan_ymd:
  assumes "0 \<le> y" "y \<le> 9999" "1 \<le> m" "m \<le> 12" "0 \<le> d" "d < 100"
  shows "go_scan (ymd_chunks @ cs) (pad_int 4 y @ ''-'' @ pad_int 2 m @ ''-'' @ pad_int 2 d @ r) c =
    go_scan cs r (c\<lparr>ck_year := y, ck_month := m, ck_day := d\<rparr>)"
  using assms by (simp add: ymd_chunks_def ranged_def)

lemma scan_ymd_on_dmy:
  assumes "0 \<le> d" "d < 100"
  shows "go_scan (ymd_chunks @ cs) (pad_int 2 d @ ''/'' @ r) c = None"
proof -
  obtain a b where "pad_int 2 d = [a, b]" using pad_int_2_list [OF assms] by blast
  then have "get_year (pad_int 2 d @ ''/'' @ r) = None" by (intro get_year_short) auto
  then show ?thesis by (simp add: ymd_chunks_def)
qed

lemma scan_dmy_on_ymd:
  assumes "0 \<le> y" "y \<le> 9999"
  shows "go_scan (dmy_chunks @ cs) (pad_int 4 y @ r) c = None"
proof -
  obtain a b e f where "pad_int 4 y = [a, b, e, f]" "is_digit a" "is_digit b" "is_digit e"
    using pad_int_4_list [OF assms] by blast
  moreover have "e \<noteq> CHR ''/''" using \<open>is_digit e\<close> by (auto simp: is_digit_def)
  ultimately show ?thesis by (simp add: dmy_chunks_def getnum_def)
qed

lemma fmt_clock_parts:
  assumes "0 \<le> k" "k < (86400::int)"
  shows "0 \<le> k div 3600" "k div 3600 < 24" "0 \<le> k mod 3600 div 60" "k mod 3600 div 60 < 60"
    "0 \<le> k mod 60" "k mod 60 < 60"
    "k div 3600 * 3600 + k mod 3600 div 60 * 60 + k mod 60 = k"
proof -
  show "0 \<le> k div 3600" "k div 3600 < 24" "0 \<le> k mod 60" "k mod 60 < 60"
    using assms by (simp_all add: div_less_iff_less_mult pos_imp_zdiv_nonneg_iff)
  have m: "0 \<le> k mod 3600" "k mod 3600 < 3600" by simp_all
  then show "0 \<le> k mod 3600 div 60" "k mod 3600 div 60 < 60"
    by (simp_all add: div_less_iff_less_mult pos_imp_zdiv_nonneg_iff)
  have "k mod 3600 mod 60 = k mod 60" by (rule mod_mod_cancel) simp
  moreover have "k mod 3600 div 60 * 60 + k mod 3600 mod 60 = k mod 3600" by (rule div_mult_mod_eq)
  moreover have "k div 3600 * 3600 + k mod 3600 = k" by (rule div_mult_mod_eq)
  ultimately show "k div 3600 * 3600 + k mod 3600 div 60 * 60 + k mod 60 = k" by linarith
qed

lemma scan_hms:
  assumes "0 \<le> h" "h < 24" "0 \<le> mi" "mi < 60" "0 \<le> se" "se < 60"
    and "r = [] \<or> hd r \<noteq> CHR ''.'' \<and> hd r \<noteq> CHR '',''"
  shows "go_scan (hms_chunks @ cs) (pad_int 2 h @ '':'' @ pad_int 2 mi @ '':'' @ pad_int 2 se @ r) c =
    go_scan cs r (c\<lparr>ck_hour := h, ck_min := mi, ck_sec := se, ck_nsec := 0\<rparr>)"
proof -
  have "get_fraction r = (0, r)"
    using assms(7) by (auto simp: get_fraction_def split: list.splits)
  then show ?thesis
    using assms by (simp add: hms_chunks_def hm_chunks_def ranged_def)
qed

lemma scan_clock:
  assumes "0 \<le> k" "k < 86400" and "r = [] \<or> hd r \<noteq> CHR ''.'' \<and> hd r \<noteq> CHR '',''"
  shows "go_scan (hms_chunks @ cs) (fmt_clock k @ r) c =
    go_scan cs r (c\<lparr>ck_hour := k div 3600, ck_min := k mod 3600 div 60, ck_sec := k mod 60,
      ck_nsec := 0\<rparr>)"
  using scan_hms [OF fmt_clock_parts(1-6) [OF assms(1,2)] assms(3)]
  by (simp only: fmt_clock_def append_assoc)

lemma clock_instant_clock:
  assumes "civil n = (y, m, d)" "0 \<le> k" "k < 86400" "ck_zone c = None"
  shows "clock_instant off (c\<lparr>ck_year := y, ck_month := m, ck_day := d, ck_hour := k div 3600,
      ck_min := k mod 3600 div 60, ck_sec := k mod 60, ck_nsec := 0\<rparr>)
    = Some (n * day_ns + k * second - off * second)"
proof -
  have "k div 3600 * hour + k mod 3600 div 60 * minute + k mod 60 * second = k * second"
    using fmt_clock_parts(7) [OF assms(2,3)] by (simp add: time_units)
  then show ?thesis
    using civil_valid [OF assms(1)] assms(4) by (simp add: clock_instant_def)
qed

lemma day_of_local:
  assumes "0 \<le> k" "k < 86400"
  shows "day_of (n * day_ns + k * second) = n" "sec_of_day (n * day_ns + k * second) = k"
proof -
  have k: "0 \<le> k * second" "k * second < day_ns" using assms by (simp_all add: time_units)
  show "day_of (n * day_ns + k * second) = n"
    unfolding day_of_def by (rule int_div_pos_eq [where r = "k * second"]) (use k in auto)
  have "(n * day_ns + k * second) mod day_ns = k * second"
    by (rule int_mod_pos_eq [where q = n]) (use k in auto)
  then show "sec_of_day (n * day_ns + k * second) = k" by (simp add: sec_of_day_def time_units)
qed

lemma trim_space_dmy:
  assumes "0 \<le> y" "y \<le> 9999" "0 \<le> d" "d < 100"
    and "r = [] \<or> is_digit (last r)"
  shows "trim_space (pad_int 2 d @ x @ pad_int 4 y @ r) = pad_int 2 d @ x @ pad_int 4 y @ r"
proof -
  obtain a b where 1: "pad_int 2 d = [a, b]" "is_digit a" using pad_int_2_list assms by blast
  obtain e f g h where 2: "pad_int 4 y = [e, f, g, h]" "is_digit h" using pad_int_4_list assms by blast
  show ?thesis by (rule trim_space_digits) (use 1 2 assms(5) in auto)
qed

text \<open>
  A day printed the way the bank's pages print it (DD/MM/YYYY) normalises to the ISO
  day, with precision \<open>date\<close>, and the instant is the local midnight of that day.
\<close>

theorem normalize_dmy:
  assumes "days_of 0 1 1 \<le> n" "n \<le> days_of 9999 12 31"
  shows "normalize_date (fmt_dmy n) =
    Inr \<lparr>cd_day = fmt_day n, cd_iso = fmt_day n, cd_precision = ''date'',
         cd_time = n * day_ns - default_offset * second, cd_has_time = False\<rparr>"
proof -
  obtain y m d where c: "civil n = (y, m, d)" by (metis prod_cases3)
  have r: "0 \<le> y" "y \<le> 9999" "1 \<le> m" "m \<le> 12" "1 \<le> d" "d \<le> 31"
    using civil_year_range [OF assms c] by simp_all
  have s1: "go_scan (dmy_chunks @ cs) (fmt_dmy n) c =
      go_scan cs [] (c\<lparr>ck_day := d, ck_month := m, ck_year := y\<rparr>)" for cs c
    using scan_dmy [of y m d cs "[]"] r by (simp add: fmt_dmy_def c)
  have s2: "go_scan (ymd_chunks @ cs) (fmt_dmy n) c = None" for cs c
    using scan_ymd_on_dmy [of d cs] r by (simp add: fmt_dmy_def c)
  have s3: "go_scan dmy_chunks (fmt_dmy n) c = Some (c\<lparr>ck_day := d, ck_month := m, ck_year := y\<rparr>)" for c
    using s1 [of "[]"] by simp
  have t: "trim_space (fmt_dmy n) = fmt_dmy n"
    using trim_space_dmy [of y d "[]" "''/'' @ pad_int 2 m @ ''/''"] r
    by (simp add: fmt_dmy_def c)
  have ne: "fmt_dmy n \<noteq> []" by (simp add: fmt_dmy_def c)
  have 1: "first_layout default_offset layouts_with_time (fmt_dmy n) = None"
    by (simp add: layouts_with_time_def go_parse_def s1 s2 hms_chunks_def hm_chunks_def getnum_def
        ranged_def)
  have 2: "first_layout default_offset layouts_date_only (fmt_dmy n) =
      Some (n * day_ns - default_offset * second)"
    using r civil_valid [OF c]
    by (simp add: layouts_date_only_def go_parse_def s3 clock_instant_def clock0_def)
  show ?thesis
    using day_of_local [of 0 n]
    by (simp add: normalize_date_def parse_acb_date_def Let_def t ne 1 2 local_day_def)
qed

theorem normalize_dmy_witness:
  "normalize_date (fmt_dmy 20701) =
    Inr \<lparr>cd_day = fmt_day 20701, cd_iso = fmt_day 20701, cd_precision = ''date'',
         cd_time = 20701 * day_ns - default_offset * second, cd_has_time = False\<rparr>"
  by (rule normalize_dmy) (simp_all add: days_of_def dby_def dbm_def leap_def epoch_day_def)



end
