(* ===== verification/Schedule.thy ===== *)
theory Schedule
  imports AcbDate
begin

text \<open>
  \<open>src/internal/storage/schedule.go\<close>: the monitoring schedule an operator configures, its
  validation, and the decision which polling mode is in force. A time zone is the function from an
  instant to its offset in seconds; the zone database is a parameter (\<open>load_loc\<close>). The
  lemmas: bounds of the resolved intervals, the window test against a specification on the minutes
  of the week, and that the announced transition lies in the future.
\<close>

section \<open>Settings\<close>

datatype poll_mode = ModeRealtime | ModeKeepaliveOnly | ModePaused | ModeOther string

record profile =
  pf_mode :: poll_mode
  pf_min :: int
  pf_max :: int

record window =
  w_name :: string
  w_days :: "int list"
  w_start :: string
  w_end :: string
  w_profile :: profile

record monitor_settings =
  ms_revision :: int
  ms_enabled :: bool
  ms_timezone :: string
  ms_default :: profile
  ms_windows :: "window list"
  ms_updated :: string

record resolved_schedule =
  rs_mode :: poll_mode
  rs_min :: int
  rs_max :: int
  rs_window :: string
  rs_next :: "instant option"
  rs_next_mode :: poll_mode

definition default_timezone :: string where "default_timezone = ''Asia/Ho_Chi_Minh''"

definition default_monitor_settings :: monitor_settings where
  "default_monitor_settings =
     \<lparr>ms_revision = 1, ms_enabled = True, ms_timezone = default_timezone,
      ms_default = \<lparr>pf_mode = ModeKeepaliveOnly, pf_min = 180, pf_max = 300\<rparr>,
      ms_windows =
        [\<lparr>w_name = ''Gi'' @ [CHR 0xE1, CHR 0xBB, CHR 0x9D] @ '' ho'' @ [CHR 0xE1, CHR 0xBA, CHR 0xA1] @ ''t '' @ [CHR 0xC4, CHR 0x91, CHR 0xE1, CHR 0xBB, CHR 0x99] @ ''ng th'' @ [CHR 0xC6, CHR 0xB0, CHR 0xE1, CHR 0xBB, CHR 0x9D] @ ''ng ng'' @ [CHR 0xC3, CHR 0xA0] @ ''y'',
          w_days = [0, 1, 2, 3, 4, 5, 6], w_start = ''07:00'', w_end = ''23:00'',
          w_profile = \<lparr>pf_mode = ModeRealtime, pf_min = 5, pf_max = 15\<rparr>\<rparr>],
      ms_updated = []\<rparr>"

section \<open>Validation\<close>

type_synonym location = "instant \<Rightarrow> int"

definition quoted :: "string \<Rightarrow> string" where
  "quoted s = [CHR 0x22] @ s @ [CHR 0x22]"

definition validate_profile :: "profile \<Rightarrow> err option" where
  "validate_profile p =
     (case pf_mode p of
        ModeRealtime \<Rightarrow>
          if pf_min p < 5 then Some (ErrMsg ''REALTIME minSeconds must be at least 5'')
          else if pf_max p > 300 then Some (ErrMsg ''REALTIME maxSeconds must not exceed 300'')
          else if pf_max p < pf_min p then Some (ErrMsg ''maxSeconds must be >= minSeconds'')
          else None
      | ModeKeepaliveOnly \<Rightarrow>
          if pf_min p < 60 then Some (ErrMsg ''KEEPALIVE minSeconds must be at least 60'')
          else if pf_max p > 1800 then Some (ErrMsg ''KEEPALIVE maxSeconds must not exceed 1800'')
          else if pf_max p < pf_min p then Some (ErrMsg ''maxSeconds must be >= minSeconds'')
          else None
      | ModePaused \<Rightarrow> None
      | ModeOther m \<Rightarrow> Some (ErrMsg (''unknown mode '' @ quoted m)))"

text \<open>
  \<open>time.Parse("15:04", s)\<close> as minutes of the day, and the value the resolver reads, where a
  text that does not parse counts as midnight.
\<close>

definition parse_hhmm :: "string \<Rightarrow> int option" where
  "parse_hhmm s = map_option (\<lambda>c. ck_hour c * 60 + ck_min c) (go_scan hm_chunks s clock0)"

definition hhmm :: "string \<Rightarrow> int" where
  "hhmm s = (case parse_hhmm s of Some m \<Rightarrow> m | None \<Rightarrow> 0)"

definition window_msg :: "nat \<Rightarrow> window \<Rightarrow> string \<Rightarrow> string" where
  "window_msg i w msg = ''window '' @ show_nat i @ '' ('' @ w_name w @ ''): '' @ msg"

definition bad_time :: err where "bad_time = ErrMsg ''parsing time''"

definition validate_window :: "nat \<Rightarrow> window \<Rightarrow> err option" where
  "validate_window i w =
     (if w_start w = [] \<or> w_end w = [] then
        Some (ErrMsg (window_msg i w ''start and end times required''))
      else if parse_hhmm (w_start w) = None then
        Some (ErrWrap (window_msg i w ''invalid startTime format (HH:MM)'') bad_time)
      else if parse_hhmm (w_end w) = None then
        Some (ErrWrap (window_msg i w ''invalid endTime format (HH:MM)'') bad_time)
      else if w_start w = w_end w then
        Some (ErrMsg (window_msg i w ''startTime must not equal endTime''))
      else (case List.find (\<lambda>d. d < 0 \<or> d > 6) (w_days w) of
              Some d \<Rightarrow> Some (ErrMsg (window_msg i w
                           (''invalid day of week '' @ show_int d @ '' (0-6)'')))
            | None \<Rightarrow>
               (case validate_profile (w_profile w) of
                  Some e \<Rightarrow> Some (ErrWrap (window_msg i w ''invalid profile'') e)
                | None \<Rightarrow> None)))"

fun validate_windows :: "nat \<Rightarrow> window list \<Rightarrow> err option" where
  "validate_windows i [] = None"
| "validate_windows i (w # ws) =
     (case validate_window i w of Some e \<Rightarrow> Some e | None \<Rightarrow> validate_windows (Suc i) ws)"

text \<open>\<open>(*MonitorSettings).Validate\<close>; it also fills in the time zone, so the result is the settings.\<close>

definition validate_settings ::
  "(string \<Rightarrow> location result) \<Rightarrow> monitor_settings \<Rightarrow> monitor_settings result" where
  "validate_settings load_loc s0 =
     (let s = (if ms_timezone s0 = [] then s0\<lparr>ms_timezone := default_timezone\<rparr> else s0)
      in case load_loc (ms_timezone s) of
           Inl e \<Rightarrow> Inl (ErrWrap (''invalid timezone '' @ quoted (ms_timezone s)) e)
         | Inr _ \<Rightarrow>
            (case validate_profile (ms_default s) of
               Some e \<Rightarrow> Inl (ErrWrap ''invalid default profile'' e)
             | None \<Rightarrow>
                (case validate_windows 0 (ms_windows s) of Some e \<Rightarrow> Inl e | None \<Rightarrow> Inr s)))"

section \<open>Resolution\<close>

definition default_location :: location where
  "default_location t = default_offset"

text \<open>
  Wall clock of an instant, and \<open>time.Date\<close>: the instant of a wall clock, found by looking the
  offset up twice.
\<close>

definition to_local :: "location \<Rightarrow> instant \<Rightarrow> int" where
  "to_local loc t = t + loc t * second"

definition from_local :: "location \<Rightarrow> int \<Rightarrow> instant" where
  "from_local loc u = u - loc (u - loc u * second) * second"

definition add_days :: "location \<Rightarrow> instant \<Rightarrow> int \<Rightarrow> instant" where
  "add_days loc t n = from_local loc (to_local loc t + n * day_ns)"

definition minute_of_day :: "int \<Rightarrow> int" where
  "minute_of_day u = sec_of_day u div 60"

text \<open>Weekday of a wall clock, 0 is Sunday; 1970-01-01 was a Thursday.\<close>

definition weekday :: "int \<Rightarrow> int" where
  "weekday u = (day_of u + 4) mod 7"

definition at_minute :: "location \<Rightarrow> int \<Rightarrow> int \<Rightarrow> instant" where
  "at_minute loc u m = from_local loc (day_of u * day_ns + m * minute)"

definition window_matches :: "int \<Rightarrow> int \<Rightarrow> window \<Rightarrow> bool" where
  "window_matches wd now_min w =
     (let s = hhmm (w_start w); e = hhmm (w_end w)
      in if s < e then
           (w_days w = [] \<or> wd \<in> set (w_days w)) \<and> now_min \<ge> s \<and> now_min < e
         else
           (let y = (wd + 6) mod 7
            in ((w_days w = [] \<or> wd \<in> set (w_days w)) \<and> now_min \<ge> s)
               \<or> ((w_days w = [] \<or> y \<in> set (w_days w)) \<and> now_min < e)))"

text \<open>The transition after a matched window: its end today, or tomorrow when that has passed.\<close>

definition end_transition :: "location \<Rightarrow> instant \<Rightarrow> window \<Rightarrow> instant" where
  "end_transition loc now w =
     (let e = at_minute loc (to_local loc now) (hhmm (w_end w))
      in if e > now then e else add_days loc e 1)"

definition start_candidate :: "location \<Rightarrow> instant \<Rightarrow> window \<Rightarrow> instant" where
  "start_candidate loc now w =
     (let c = at_minute loc (to_local loc now) (hhmm (w_start w))
      in if c > now then c else add_days loc c 1)"

text \<open>The loop over all windows for the soonest start and its mode.\<close>

fun soonest_start ::
  "location \<Rightarrow> instant \<Rightarrow> window list \<Rightarrow> instant option \<times> poll_mode \<Rightarrow> instant option \<times> poll_mode" where
  "soonest_start loc now [] acc = acc"
| "soonest_start loc now (w # ws) (best, mode) =
     (let c = start_candidate loc now w
      in case best of
           None \<Rightarrow> soonest_start loc now ws (Some c, pf_mode (w_profile w))
         | Some b \<Rightarrow> if c < b then soonest_start loc now ws (Some c, pf_mode (w_profile w))
                     else soonest_start loc now ws (best, mode))"

definition interval_bounds :: "profile \<Rightarrow> int \<times> int" where
  "interval_bounds p =
     (let lo = wrap64 (pf_min p * second); hi = wrap64 (pf_max p * second);
          lo' = (if lo \<le> 0 then 5 * second else lo);
          hi' = (if hi < lo' then lo' else hi)
      in (lo', hi'))"

definition resolve_schedule ::
  "(string \<Rightarrow> location result) \<Rightarrow> instant \<Rightarrow> monitor_settings option \<Rightarrow> resolved_schedule" where
  "resolve_schedule load_loc now so =
     (case so of
        None \<Rightarrow> \<lparr>rs_mode = ModeRealtime, rs_min = 5 * second, rs_max = 15 * second,
                 rs_window = [], rs_next = None, rs_next_mode = ModeOther []\<rparr>
      | Some s \<Rightarrow>
         (let loc = (case load_loc (ms_timezone s) of Inr l \<Rightarrow> l | Inl _ \<Rightarrow> default_location);
              u = to_local loc now
          in if \<not> ms_enabled s then
               \<lparr>rs_mode = ModeRealtime, rs_min = 5 * second, rs_max = 15 * second,
                rs_window = ''C'' @ [CHR 0xE1, CHR 0xBA, CHR 0xA5] @ ''u h'' @ [CHR 0xC3, CHR 0xAC] @ ''nh m'' @ [CHR 0xE1, CHR 0xBA, CHR 0xB7] @ ''c '' @ [CHR 0xC4, CHR 0x91, CHR 0xE1, CHR 0xBB, CHR 0x8B] @ ''nh (Realtime li'' @ [CHR 0xC3, CHR 0xAA] @ ''n t'' @ [CHR 0xE1, CHR 0xBB, CHR 0xA5] @ ''c)'',
                rs_next = Some (now + day_ns), rs_next_mode = ModeRealtime\<rparr>
             else
               (case List.find (window_matches (weekday u) (minute_of_day u)) (ms_windows s) of
                  Some w \<Rightarrow>
                    \<lparr>rs_mode = pf_mode (w_profile w),
                     rs_min = fst (interval_bounds (w_profile w)),
                     rs_max = snd (interval_bounds (w_profile w)),
                     rs_window = w_name w,
                     rs_next = Some (end_transition loc now w),
                     rs_next_mode = pf_mode (ms_default s)\<rparr>
                | None \<Rightarrow>
                    (let (best, mode) =
                       soonest_start loc now (ms_windows s) (None, pf_mode (ms_default s))
                     in \<lparr>rs_mode = pf_mode (ms_default s),
                         rs_min = fst (interval_bounds (ms_default s)),
                         rs_max = snd (interval_bounds (ms_default s)),
                         rs_window = ''M'' @ [CHR 0xE1, CHR 0xBA, CHR 0xB7] @ ''c '' @ [CHR 0xC4, CHR 0x91, CHR 0xE1, CHR 0xBB, CHR 0x8B] @ ''nh (Ngo'' @ [CHR 0xC3, CHR 0xA0] @ ''i khung gi'' @ [CHR 0xE1, CHR 0xBB, CHR 0x9D] @ '')'',
                         rs_next = Some (case best of Some b \<Rightarrow> b | None \<Rightarrow> now + day_ns),
                         rs_next_mode = mode\<rparr>))))"

section \<open>The window test\<close>

lemma getnum_nonneg: "getnum f s = Some (v, r) \<Longrightarrow> 0 \<le> v"
  by (auto simp: getnum_def split: list.splits if_splits)

lemma parse_hhmm_range: "parse_hhmm s = Some m \<Longrightarrow> 0 \<le> m \<and> m < 1440"
  by (auto simp: parse_hhmm_def hm_chunks_def ranged_def clock0_def split: option.splits if_splits)

lemma hhmm_range: "0 \<le> hhmm s" "hhmm s < 1440"
  using parse_hhmm_range [of s] by (auto simp: hhmm_def split: option.splits)

text \<open>
  The minutes of the week a window covers: from its start on one of its days (every day when none
  is listed), for its length, which crosses midnight when the end is not after the start.
\<close>

definition window_len :: "window \<Rightarrow> int" where
  "window_len w =
     (let s = hhmm (w_start w); e = hhmm (w_end w) in if s < e then e - s else e - s + 1440)"

definition starts_on :: "window \<Rightarrow> int \<Rightarrow> bool" where
  "starts_on w d \<longleftrightarrow> 0 \<le> d \<and> d \<le> 6 \<and> (w_days w = [] \<or> d \<in> set (w_days w))"

definition covers_week_minute :: "window \<Rightarrow> int \<Rightarrow> bool" where
  "covers_week_minute w k \<longleftrightarrow>
     list_ex (\<lambda>d. starts_on w d \<and> (k - (d * 1440 + hhmm (w_start w))) mod 10080 < window_len w)
       [0, 1, 2, 3, 4, 5, 6]"

lemma week_days: "list_ex P [0, 1, 2, 3, 4, 5, 6] \<longleftrightarrow> (\<exists>d. 0 \<le> d \<and> d \<le> (6::int) \<and> P d)"
proof
  assume "\<exists>d. 0 \<le> d \<and> d \<le> (6::int) \<and> P d"
  then obtain d where d: "0 \<le> d" "d \<le> 6" "P d" by blast
  then have "d \<in> {0..6}" by simp
  also have "{0..6} = {0, 1, 2, 3, 4, 5, 6::int}" by auto
  finally show "list_ex P [0, 1, 2, 3, 4, 5, 6]" using d(3) by auto
next
  assume "list_ex P [0, 1, 2, 3, 4, 5, 6]"
  then obtain d where "d \<in> {0, 1, 2, 3, 4, 5, 6}" "P d" by (auto simp: list_ex_iff)
  then show "\<exists>d. 0 \<le> d \<and> d \<le> (6::int) \<and> P d" by (intro exI [of _ d]) auto
qed

lemma week_offset:
  assumes "0 \<le> wd" "wd \<le> (6::int)" "0 \<le> d" "d \<le> 6" "0 \<le> m" "m < 1440" "0 \<le> s" "s < 1440"
  shows "(wd * 1440 + m - (d * 1440 + s)) mod 10080 =
    (if wd = d then if s \<le> m then m - s else m - s + 10080
     else if d < wd then (wd - d) * 1440 + m - s else (wd - d) * 1440 + m - s + 10080)"
proof -
  have *: "wd * 1440 + m - (d * 1440 + s) = (wd - d) * 1440 + (m - s)" by simp
  have "d < wd \<Longrightarrow> 1440 \<le> (wd - d) * 1440 \<and> (wd - d) * 1440 \<le> 8640"
    and "wd < d \<Longrightarrow> - 8640 \<le> (wd - d) * 1440 \<and> (wd - d) * 1440 \<le> - 1440"
    using assms by auto
  then show ?thesis
    unfolding * using assms
    by (auto intro!: int_mod_pos_eq [where q = 0] int_mod_pos_eq [where q = "- 1"])
qed

lemma yesterday_iff:
  assumes "0 \<le> wd" "wd \<le> (6::int)" "0 \<le> d" "d \<le> 6"
  shows "(wd + 6) mod 7 = d \<longleftrightarrow> wd = d + 1 \<or> (wd = 0 \<and> d = 6)"
proof (cases "wd = 0")
  case False
  then have "(wd + 6) mod 7 = wd - 1" using assms by (intro int_mod_pos_eq [where q = 1]) auto
  with False assms show ?thesis by auto
qed (use assms in auto)

lemma day_test:
  assumes "0 \<le> wd" "wd \<le> (6::int)"
  shows "(w_days w = [] \<or> wd \<in> set (w_days w)) = starts_on w wd"
  using assms by (auto simp: starts_on_def)

lemma covers_day:
  assumes "0 \<le> wd" "wd \<le> 6" "0 \<le> d" "d \<le> 6" "0 \<le> m" "m < 1440"
  shows "(wd * 1440 + m - (d * 1440 + hhmm (w_start w))) mod 10080 < window_len w \<longleftrightarrow>
    (if hhmm (w_start w) < hhmm (w_end w)
     then wd = d \<and> hhmm (w_start w) \<le> m \<and> m < hhmm (w_end w)
     else (wd = d \<and> hhmm (w_start w) \<le> m) \<or> ((wd + 6) mod 7 = d \<and> m < hhmm (w_end w)))"
proof -
  have b: "d < wd \<Longrightarrow> wd \<noteq> d + 1 \<Longrightarrow> 2880 \<le> (wd - d) * 1440"
    "wd < d \<Longrightarrow> \<not> (wd = 0 \<and> d = 6) \<Longrightarrow> - 7200 \<le> (wd - d) * 1440"
    using assms by auto
  note r = hhmm_range [of "w_start w"] hhmm_range [of "w_end w"]
  consider "wd = d" | "wd = d + 1" | "d < wd" "wd \<noteq> d + 1" | "wd = 0" "d = 6"
    | "wd < d" "\<not> (wd = 0 \<and> d = 6)" by linarith
  then show ?thesis
    unfolding week_offset [OF assms hhmm_range] yesterday_iff [OF assms(1-4)] window_len_def Let_def
    by cases (use assms b r in auto)
qed

lemma window_matches_covers:
  assumes "0 \<le> wd" "wd \<le> 6" "0 \<le> m" "m < 1440"
  shows "window_matches wd m w = covers_week_minute w (wd * 1440 + m)"
proof -
  have y: "0 \<le> (wd + 6) mod 7 \<and> (wd + 6) mod 7 \<le> 6" using pos_mod_bound [of 7 "wd + 6"] by simp
  have "covers_week_minute w (wd * 1440 + m) \<longleftrightarrow> (\<exists>d. starts_on w d \<and>
      (if hhmm (w_start w) < hhmm (w_end w)
       then wd = d \<and> hhmm (w_start w) \<le> m \<and> m < hhmm (w_end w)
       else (wd = d \<and> hhmm (w_start w) \<le> m) \<or> ((wd + 6) mod 7 = d \<and> m < hhmm (w_end w))))"
    unfolding covers_week_minute_def week_days
    using covers_day [OF assms(1,2) _ _ assms(3,4), of _ w] by (metis (lifting) starts_on_def)
  also have "\<dots> = window_matches wd m w"
    unfolding window_matches_def Let_def
    using day_test [of wd w] day_test [of "(wd + 6) mod 7" w] assms y by auto
  finally show ?thesis by simp
qed

section \<open>Facts about wall clocks\<close>

lemma weekday_range: "0 \<le> weekday u \<and> weekday u \<le> 6"
  using pos_mod_bound [of 7 "day_of u + 4"] by (simp add: weekday_def)

lemma minute_of_day_parts:
  "0 \<le> u mod day_ns \<and> u mod day_ns < day_ns"
  "minute_of_day u = u mod day_ns div minute"
proof -
  show "0 \<le> u mod day_ns \<and> u mod day_ns < day_ns" by (simp add: time_units)
  have "u mod day_ns div second div 60 = u mod day_ns div (second * 60)"
    by (rule zdiv_zmult2_eq [symmetric]) simp
  then show "minute_of_day u = u mod day_ns div minute"
    by (simp add: minute_of_day_def sec_of_day_def time_units)
qed

lemma minute_of_day_range: "0 \<le> minute_of_day u \<and> minute_of_day u < 1440"
  using minute_of_day_parts(1) [of u]
  by (simp add: minute_of_day_parts(2) div_less_iff_less_mult pos_imp_zdiv_nonneg_iff time_units)

lemma less_minute_iff: "minute_of_day u < m \<longleftrightarrow> u mod day_ns < m * minute"
  unfolding minute_of_day_parts(2) by (rule div_less_iff) (simp add: time_units)

lemma minute_le_iff: "m \<le> minute_of_day u \<longleftrightarrow> m * minute \<le> u mod day_ns"
  using less_minute_iff [of u m] by linarith

lemma day_split: "u = day_of u * day_ns + u mod day_ns"
  by (simp add: day_of_def)

lemma day_of_eq:
  assumes "d * day_ns \<le> u" "u < (d + 1) * day_ns"
  shows "day_of u = d" "u mod day_ns = u - d * day_ns"
proof -
  show "day_of u = d"
    unfolding day_of_def by (rule int_div_pos_eq [where r = "u - d * day_ns"])
      (use assms in \<open>auto simp: algebra_simps\<close>)
  then show "u mod day_ns = u - d * day_ns" using day_split [of u] by simp
qed

text \<open>In a zone of constant offset, wall clocks and instants differ by a constant.\<close>

lemma fixed_zone [simp]:
  "to_local (\<lambda>_. off) t = t + off * second" "from_local (\<lambda>_. off) u = u - off * second"
  "add_days (\<lambda>_. off) t n = t + n * day_ns"
  by (simp_all add: to_local_def from_local_def add_days_def)

lemma fixed_zone_default [simp]: "default_location = (\<lambda>_. default_offset)"
  by (simp add: fun_eq_iff default_location_def)

lemma at_minute_range:
  assumes "0 \<le> m" "m < 1440"
  shows "at_minute (\<lambda>_. off) (now + off * second) m > now - day_ns"
    "at_minute (\<lambda>_. off) (now + off * second) m \<le> now + day_ns"
proof -
  have "0 \<le> m * minute" "m * minute < day_ns" using assms by (simp_all add: time_units)
  then show "at_minute (\<lambda>_. off) (now + off * second) m > now - day_ns"
    "at_minute (\<lambda>_. off) (now + off * second) m \<le> now + day_ns"
    using day_split [of "now + off * second"] minute_of_day_parts(1) [of "now + off * second"]
    unfolding at_minute_def fixed_zone by linarith+
qed

lemma next_at_minute:
  assumes "0 \<le> m" "m < 1440" and "c = at_minute (\<lambda>_. off) (now + off * second) m"
  shows "now < (if c > now then c else add_days (\<lambda>_. off) c 1)"
    "(if c > now then c else add_days (\<lambda>_. off) c 1) \<le> now + day_ns"
  using at_minute_range [OF assms(1,2), where off = off and now = now] assms(3) by auto

lemma soonest_start_bounds:
  assumes "soonest_start (\<lambda>_. off) now ws acc = (best, mode)"
    and "\<And>b. fst acc = Some b \<Longrightarrow> now < b \<and> b \<le> now + day_ns" and "best = Some b"
  shows "now < b \<and> b \<le> now + day_ns"
  using assms
proof (induction ws arbitrary: acc)
  case Nil
  then show ?case by simp
next
  case (Cons w ws)
  define c where "c = start_candidate (\<lambda>_. off) now w"
  have c: "now < c" "c \<le> now + day_ns"
    using next_at_minute [OF hhmm_range [of "w_start w"] refl, of now off]
    by (simp_all add: c_def start_candidate_def Let_def)
  obtain b0 m0 where a: "acc = (b0, m0)" by (cases acc)
  have "\<exists>acc'. soonest_start (\<lambda>_. off) now ws acc' = (best, mode) \<and>
      (\<forall>b. fst acc' = Some b \<longrightarrow> now < b \<and> b \<le> now + day_ns)"
    using Cons.prems(1,2) c unfolding a soonest_start.simps Let_def c_def [symmetric]
    by (auto split: option.splits if_splits)
  with Cons.IH Cons.prems(3) show ?case by blast
qed

section \<open>What a valid schedule resolves to\<close>

definition profile_ok :: "profile \<Rightarrow> bool" where
  "profile_ok p \<longleftrightarrow>
     (case pf_mode p of
        ModeRealtime \<Rightarrow> 5 \<le> pf_min p \<and> pf_min p \<le> pf_max p \<and> pf_max p \<le> 300
      | ModeKeepaliveOnly \<Rightarrow> 60 \<le> pf_min p \<and> pf_min p \<le> pf_max p \<and> pf_max p \<le> 1800
      | ModePaused \<Rightarrow> True
      | ModeOther _ \<Rightarrow> False)"

lemma validate_profile_ok: "validate_profile p = None \<longleftrightarrow> profile_ok p"
  by (auto simp: validate_profile_def profile_ok_def split: poll_mode.splits)

lemma validate_windows_profile:
  "validate_windows i ws = None \<Longrightarrow> w \<in> set ws \<Longrightarrow> profile_ok (w_profile w)"
  by (induction i ws rule: validate_windows.induct)
    (auto simp: validate_window_def validate_profile_ok split: option.splits if_splits)

lemma validate_settings_profiles:
  assumes "validate_settings load_loc s0 = Inr s"
  shows "profile_ok (ms_default s)" "\<And>w. w \<in> set (ms_windows s) \<Longrightarrow> profile_ok (w_profile w)"
  using assms validate_windows_profile
  by (auto simp: validate_settings_def Let_def validate_profile_ok [symmetric]
      split: sum.splits option.splits if_splits)

lemma interval_bounds_ok:
  assumes "profile_ok p" "pf_mode p \<noteq> ModePaused"
  shows "interval_bounds p = (pf_min p * second, pf_max p * second)"
proof -
  have "5 \<le> pf_min p" "pf_min p \<le> pf_max p" "pf_max p \<le> 1800"
    using assms by (auto simp: profile_ok_def split: poll_mode.splits)
  moreover from this have "wrap64 (pf_min p * second) = pf_min p * second"
    "wrap64 (pf_max p * second) = pf_max p * second"
    by (auto intro!: wrap64_id simp: second_def)
  ultimately show ?thesis by (simp add: interval_bounds_def second_def)
qed

lemma interval_bounds_order: "0 < fst (interval_bounds p) \<and> fst (interval_bounds p) \<le> snd (interval_bounds p)"
  by (auto simp: interval_bounds_def Let_def second_def)

text \<open>The profile in force: the first matching window's, or the default one.\<close>

definition active_profile ::
  "(string \<Rightarrow> location result) \<Rightarrow> instant \<Rightarrow> monitor_settings \<Rightarrow> profile" where
  "active_profile load_loc now s =
     (let loc = (case load_loc (ms_timezone s) of Inr l \<Rightarrow> l | Inl _ \<Rightarrow> default_location);
          u = to_local loc now
      in case List.find (window_matches (weekday u) (minute_of_day u)) (ms_windows s) of
           Some w \<Rightarrow> w_profile w | None \<Rightarrow> ms_default s)"

lemma resolve_active:
  assumes "ms_enabled s"
  shows "rs_mode (resolve_schedule load_loc now (Some s)) = pf_mode (active_profile load_loc now s)"
    "(rs_min (resolve_schedule load_loc now (Some s)), rs_max (resolve_schedule load_loc now (Some s)))
      = interval_bounds (active_profile load_loc now s)"
  using assms by (auto simp: resolve_schedule_def active_profile_def Let_def split: option.splits prod.splits)

lemma active_profile_in:
  "active_profile load_loc now s \<in> insert (ms_default s) (w_profile ` set (ms_windows s))"
  by (auto simp: active_profile_def Let_def find_Some_iff split: option.splits)

lemma resolve_bounds_parts:
  assumes "validate_settings load_loc s0 = Inr s"
    and "r = resolve_schedule load_loc now (Some s)"
  shows "rs_mode r \<in> {ModeRealtime, ModeKeepaliveOnly, ModePaused}"
    and "rs_min r \<le> rs_max r"
    and "rs_mode r \<noteq> ModePaused \<Longrightarrow> 5 * second \<le> rs_min r \<and> rs_max r \<le> 1800 * second"
    and "rs_mode r = ModeRealtime \<Longrightarrow> rs_max r \<le> 300 * second"
proof -
  let ?p = "active_profile load_loc now s"
  have ok: "profile_ok ?p"
    using active_profile_in [of load_loc now s] validate_settings_profiles [OF assms(1)] by auto
  note b = interval_bounds_ok [OF ok] and o = interval_bounds_order [of ?p]
  have dis: "rs_mode r = ModeRealtime \<and> rs_min r = 5 * second \<and> rs_max r = 15 * second"
    if "\<not> ms_enabled s"
    using that assms(2) by (simp add: resolve_schedule_def Let_def)
  have en: "rs_mode r = pf_mode ?p" "(rs_min r, rs_max r) = interval_bounds ?p" if "ms_enabled s"
    using resolve_active [OF that] assms(2) by auto
  show "rs_mode r \<in> {ModeRealtime, ModeKeepaliveOnly, ModePaused}"
    using dis en ok by (cases "ms_enabled s") (auto simp: profile_ok_def split: poll_mode.splits)
  show "rs_min r \<le> rs_max r"
    using dis en o by (cases "ms_enabled s") (auto simp: second_def, metis fst_conv snd_conv)
  show "5 * second \<le> rs_min r \<and> rs_max r \<le> 1800 * second" if "rs_mode r \<noteq> ModePaused"
    using dis en b ok that
    by (cases "ms_enabled s") (auto simp: profile_ok_def second_def split: poll_mode.splits)
  show "rs_max r \<le> 300 * second" if "rs_mode r = ModeRealtime"
    using dis en b ok that
    by (cases "ms_enabled s") (auto simp: profile_ok_def second_def split: poll_mode.splits)
qed

text \<open>A zone database with one zone, the program's default, for the concrete instances.\<close>

definition one_zone :: "string \<Rightarrow> location result" where
  "one_zone name = (if name = default_timezone then Inr (\<lambda>_. default_offset)
     else Inl (ErrMsg ''unknown time zone''))"

lemma default_settings_valid:
  "validate_settings one_zone default_monitor_settings = Inr default_monitor_settings"
  by code_simp

text \<open>
  Settings that passed validation resolve, at any time and in any zone, to one of the
  three known modes, and unless polling is paused the poll interval is between 5 seconds and 30
  minutes, at most 5 minutes in realtime mode, with minimum not above maximum: no multiplication
  of the configured seconds overflows.
\<close>

theorem resolve_bounds:
  assumes "validate_settings load_loc s0 = Inr s"
    and "r = resolve_schedule load_loc now (Some s)"
  shows "rs_mode r \<in> {ModeRealtime, ModeKeepaliveOnly, ModePaused} \<and> rs_min r \<le> rs_max r
    \<and> (rs_mode r \<noteq> ModePaused \<longrightarrow> 5 * second \<le> rs_min r \<and> rs_max r \<le> 1800 * second)
    \<and> (rs_mode r = ModeRealtime \<longrightarrow> rs_max r \<le> 300 * second)"
  using resolve_bounds_parts [OF assms] by blast

theorem resolve_bounds_witness:
  "rs_mode (resolve_schedule one_zone 0 (Some default_monitor_settings))
     \<in> {ModeRealtime, ModeKeepaliveOnly, ModePaused}
   \<and> rs_max (resolve_schedule one_zone 0 (Some default_monitor_settings)) \<le> 300 * second"
proof -
  have "rs_mode (resolve_schedule one_zone 0 (Some default_monitor_settings)) = ModeRealtime"
    by code_simp
  with resolve_bounds [OF default_settings_valid refl, of 0] show ?thesis by blast
qed

definition first_covering :: "monitor_settings \<Rightarrow> int \<Rightarrow> profile" where
  "first_covering s k =
     (case List.find (\<lambda>w. covers_week_minute w k) (ms_windows s) of
        Some w \<Rightarrow> w_profile w | None \<Rightarrow> ms_default s)"

text \<open>
  The profile in force is that of the first window, in the configured order, that
  covers the current minute of the week (a window crossing midnight belongs to the weekday it
  starts on), and the default profile when no window covers it.
\<close>

theorem resolve_first_covering:
  assumes "ms_enabled s" and "load_loc (ms_timezone s) = Inr loc" and "u = to_local loc now"
    and "r = resolve_schedule load_loc now (Some s)"
  shows "(rs_mode r, rs_min r, rs_max r) =
    (let p = first_covering s (weekday u * 1440 + minute_of_day u) in (pf_mode p, interval_bounds p))"
proof -
  have "window_matches (weekday u) (minute_of_day u) =
      (\<lambda>w. covers_week_minute w (weekday u * 1440 + minute_of_day u))"
    using window_matches_covers weekday_range minute_of_day_range by (auto simp: fun_eq_iff)
  then have "active_profile load_loc now s = first_covering s (weekday u * 1440 + minute_of_day u)"
    by (simp add: active_profile_def first_covering_def assms(2,3) Let_def)
  then show ?thesis using resolve_active [OF assms(1), of load_loc now] assms(4) by (simp add: Let_def)
qed

theorem resolve_first_covering_witness:
  "(rs_mode (resolve_schedule one_zone 0 (Some default_monitor_settings)),
    rs_min (resolve_schedule one_zone 0 (Some default_monitor_settings)),
    rs_max (resolve_schedule one_zone 0 (Some default_monitor_settings))) =
   (let p = first_covering default_monitor_settings
        (weekday (to_local (\<lambda>_. default_offset) 0) * 1440
         + minute_of_day (to_local (\<lambda>_. default_offset) 0)) in (pf_mode p, interval_bounds p))"
  by (rule resolve_first_covering [OF _ _ refl refl])
    (simp_all add: default_monitor_settings_def one_zone_def)

section \<open>The announced transition\<close>

lemma end_in_window:
  assumes m: "window_matches (weekday u) (minute_of_day u) w"
    and e: "e = (let x = day_of u * day_ns + hhmm (w_end w) * minute
                 in if x > u then x else x + day_ns)"
    and v: "u \<le> v" "v < e"
  shows "window_matches (weekday v) (minute_of_day v) w"
proof -
  let ?s = "hhmm (w_start w)" and ?e = "hhmm (w_end w)" and ?D = "day_of u * day_ns"
  have sr: "0 \<le> ?s * minute" "?s * minute < day_ns" "0 \<le> ?e * minute" "?e * minute < day_ns"
    using hhmm_range [of "w_start w"] hhmm_range [of "w_end w"] by (simp_all add: time_units)
  have u: "u = ?D + u mod day_ns" "0 \<le> u mod day_ns" "u mod day_ns < day_ns"
    using day_split [of u] minute_of_day_parts(1) [of u] by auto
  show ?thesis
  proof (cases "v < ?D + day_ns")
    case True
    then have v1: "day_of v = day_of u" "v mod day_ns = v - ?D"
      using day_of_eq [of "day_of u" v] u v by (auto simp: algebra_simps)
    have wk: "weekday v = weekday u" by (simp add: weekday_def v1)
    have le: "minute_of_day u \<le> minute_of_day v"
      unfolding minute_le_iff
      using minute_le_iff [of "minute_of_day u" u] u v1 v(1) by simp
    have "v < ?D + ?e * minute" if "?D + ?e * minute > u" using e that v(2) by (simp add: Let_def)
    then have lt: "minute_of_day v < ?e" if "minute_of_day u < ?e"
      using that u v1 unfolding less_minute_iff by linarith
    show ?thesis
      using m le lt unfolding window_matches_def Let_def wk by (auto split: if_splits)
  next
    case False
    have pass: "\<not> ?D + ?e * minute > u" "v < ?D + ?e * minute + day_ns"
      using False e v(2) sr u by (auto simp: Let_def split: if_splits)
    have v1: "day_of v = day_of u + 1" "v mod day_ns = v - (?D + day_ns)"
      using day_of_eq [of "day_of u + 1" v] False pass sr by (auto simp: algebra_simps)
    have nu: "\<not> minute_of_day u < ?e" using pass(1) u unfolding less_minute_iff by linarith
    have nv: "minute_of_day v < ?e" using pass(2) v1 unfolding less_minute_iff by linarith
    have "weekday v = (weekday u + 1) mod 7" by (simp add: weekday_def v1 mod_simps algebra_simps)
    then have "(weekday v + 6) mod 7 = weekday u mod 7" by (simp add: mod_simps)
    also have "\<dots> = weekday u" by (simp add: weekday_def)
    finally have wk: "(weekday v + 6) mod 7 = weekday u" .
    show ?thesis
      using m nu nv unfolding window_matches_def Let_def wk by (auto split: if_splits)
  qed
qed

lemma resolve_next_transition_parts:
  assumes "ms_enabled s" and "load_loc (ms_timezone s) = Inr (\<lambda>_. off)"
    and "rs_next (resolve_schedule load_loc now (Some s)) = Some next"
  shows "now < next" and "next \<le> now + day_ns"
    and "\<And>w t. List.find (window_matches (weekday (now + off * second))
             (minute_of_day (now + off * second))) (ms_windows s) = Some w \<Longrightarrow>
           now \<le> t \<Longrightarrow> t < next \<Longrightarrow>
           window_matches (weekday (t + off * second)) (minute_of_day (t + off * second)) w"
proof -
  let ?u = "now + off * second"
  let ?f = "List.find (window_matches (weekday ?u) (minute_of_day ?u)) (ms_windows s)"
  have win: "next = end_transition (\<lambda>_. off) now w" if "?f = Some w" for w
    using assms that by (simp add: resolve_schedule_def)
  have b: "now < end_transition (\<lambda>_. off) now w \<and> end_transition (\<lambda>_. off) now w \<le> now + day_ns" for w
    using next_at_minute [OF hhmm_range [of "w_end w"] refl, of now off]
    by (simp add: end_transition_def Let_def)
  have none: "next = now + day_ns \<or>
      (\<exists>mode. soonest_start (\<lambda>_. off) now (ms_windows s) (None, pf_mode (ms_default s)) = (Some next, mode))"
    if "?f = None"
    using assms that by (auto simp: resolve_schedule_def split: prod.splits option.splits)
  have "now < next \<and> next \<le> now + day_ns"
  proof (cases ?f)
    case None
    then show ?thesis
      using none soonest_start_bounds by (fastforce simp: time_units)
  next
    case (Some w)
    then show ?thesis using win b by simp
  qed
  then show "now < next" "next \<le> now + day_ns" by auto
  show "window_matches (weekday (t + off * second)) (minute_of_day (t + off * second)) w"
    if w: "?f = Some w" and t: "now \<le> t" "t < next" for w t
  proof (rule end_in_window [OF _ refl])
    show "window_matches (weekday ?u) (minute_of_day ?u) w" using w by (auto simp: find_Some_iff)
    show "?u \<le> t + off * second" using t by simp
    show "t + off * second < (let x = day_of ?u * day_ns + hhmm (w_end w) * minute
        in if x > ?u then x else x + day_ns)"
      using t(2) unfolding win [OF w] end_transition_def at_minute_def
      by (auto simp: Let_def split: if_splits)
  qed
qed

lemma default_next_transition:
  "rs_next (resolve_schedule one_zone 0 (Some default_monitor_settings)) = Some (57600 * second)"
  by code_simp



text \<open>
  The announced start of the next window ignores the window's weekdays: with a single window on
  Mondays, on a Tuesday at noon the transition announced is Wednesday 07:00 into realtime mode,
  and at that instant the window does not match.
\<close>

definition monday_only :: monitor_settings where
  "monday_only = default_monitor_settings\<lparr>ms_windows :=
     [\<lparr>w_name = ''mon'', w_days = [1], w_start = ''07:00'', w_end = ''23:00'',
       w_profile = \<lparr>pf_mode = ModeRealtime, pf_min = 5, pf_max = 15\<rparr>\<rparr>]\<rparr>"

lemma next_transition_ignores_weekdays:
  "let now = 5 * day_ns + 5 * hour;
       r = resolve_schedule one_zone now (Some monday_only)
   in weekday (to_local default_location now) = 2 \<and> rs_next r = Some (6 * day_ns)
      \<and> rs_next_mode r = ModeRealtime
      \<and> rs_mode (resolve_schedule one_zone (6 * day_ns) (Some monday_only)) = ModeKeepaliveOnly"
  by code_simp

text \<open>
  Validation compares the texts of start and end, and an hour may have one digit, so a window from
  7:00 to 07:00 passes and covers every minute of its days.
\<close>

definition same_time_window :: window where
  "same_time_window = \<lparr>w_name = ''x'', w_days = [], w_start = ''7:00'', w_end = ''07:00'',
     w_profile = \<lparr>pf_mode = ModePaused, pf_min = 0, pf_max = 0\<rparr>\<rparr>"

lemma same_time_window_accepted: "validate_window 0 same_time_window = None"
  by code_simp

lemma same_time_window_covers:
  assumes "0 \<le> wd" "wd \<le> 6" "0 \<le> m" "m < 1440"
  shows "window_matches wd m same_time_window"
proof -
  have "hhmm (w_start same_time_window) = 420" "hhmm (w_end same_time_window) = 420"
    "w_days same_time_window = []" by code_simp+
  with assms show ?thesis by (auto simp: window_matches_def)
qed

end
