(* ===== verification/Store.thy ===== *)
theory Store
  imports Schedule
begin

text \<open>
  The database of the gateway (\<open>src/internal/storage/storage.go\<close>, the schema of its migrations)
  and the operations of \<open>repository.go\<close> and \<open>check.go\<close>. A table is the list of its rows in
  insertion order; the primary-key, unique and foreign-key constraints of the schema are the
  guards of the insertions. Times are stored as text, as in the schema, and compared as text.
  A column that every reader coalesces to a default is stored as that default. Failures of the
  database itself (I/O, lock time-outs) are not modelled.
\<close>

section \<open>Rows\<close>

datatype conn_state = Unconfigured | AuthRequired | AuthStarting | Monitoring | Paused

datatype attempt_status =
    AStarting | AInProgress | AExporting | AVerifying | AVerified | ACancelled | AExpired | AFailed

datatype poll_status = PRunning | PSucceeded | PFailed | PAuthRequired | PProtocolChanged | PPartial

datatype delivery_status = DPending | DInFlight | DDelivered | DDeadLetter

datatype ep_status = EpActive | EpDisabled | EpOther string

record connection =
  c_id :: string
  c_state :: conn_state
  c_masked :: string
  c_generation :: int
  c_started :: string
  c_created :: string
  c_updated :: string

record session_row =
  se_conn :: string
  se_generation :: int
  se_envelope :: string
  se_key :: string
  se_verified :: string
  se_updated :: string

record attempt_row =
  aa_id :: string
  aa_conn :: string
  aa_generation :: int
  aa_owner :: string
  aa_status :: attempt_status
  aa_expires :: string
  aa_created :: string
  aa_finished :: "string option"

record poll_row =
  pr_id :: string
  pr_conn :: string
  pr_generation :: int
  pr_status :: poll_status
  pr_classifier :: string
  pr_http :: int
  pr_pages :: int
  pr_rows :: int
  pr_error :: string
  pr_started :: string
  pr_finished :: string

record checkpoint_row =
  cp_conn :: string
  cp_scan :: string
  cp_from :: string
  cp_to :: string
  cp_updated :: string

record txn_row =
  tx_id :: string
  tx_conn :: string
  tx_key :: string
  tx_hash :: string
  tx_date :: string
  tx_effective :: string
  tx_debit :: int
  tx_credit :: int
  tx_balance :: "int option"
  tx_desc :: string
  tx_parser :: string
  tx_baseline :: string
  tx_seen :: string
  tx_iso :: string
  tx_day :: string
  tx_precision :: string
  tx_source :: string

record quarantine_row =
  qt_id :: string
  qt_conn :: string
  qt_key :: string
  qt_existing :: string
  qt_candidate :: string
  qt_reason :: string
  qt_created :: string

text \<open>
  The payload of an event: the JSON object that \<open>transactions.go\<close> builds, kept as the value it
  encodes, or an opaque text that another caller marshalled.
\<close>

record credit_data =
  cr_bank :: string
  cr_masked :: string
  cr_txn :: string
  cr_number :: string
  cr_credit :: string
  cr_debit :: string
  cr_currency :: string
  cr_date :: string
  cr_day :: string
  cr_precision :: string
  cr_source :: string
  cr_desc :: string
  cr_detected :: string
  cr_balance :: "string option"

datatype payload = CreditEvent credit_data | OpaqueJson string

record event_row =
  ev_id :: string
  ev_txn :: string
  ev_type :: string
  ev_payload :: payload
  ev_hash :: string
  ev_created :: string

record journal_row =
  jr_seq :: int
  jr_epoch :: string
  jr_type :: string
  jr_aggregate :: string
  jr_payload :: payload
  jr_created :: string

record endpoint_row =
  ep_id :: string
  ep_name :: string
  ep_status :: ep_status
  ep_revision :: int
  ep_created :: string
  ep_updated :: string
  ep_provider :: string

record bark_config =
  bk_group :: string
  bk_level :: string
  bk_sound :: string
  bk_balance :: bool
  bk_desc :: bool
  bk_link :: bool

record version_row =
  vs_endpoint :: string
  vs_revision :: int
  vs_url :: string
  vs_config :: "bark_config option"   \<comment> \<open>\<open>provider_config_json\<close>, \<open>None\<close> for \<open>{}\<close>\<close>
  vs_created :: string

datatype secret_status = SecActive | SecRetired

record secret_row =
  sc_endpoint :: string
  sc_key :: string
  sc_envelope :: string
  sc_status :: secret_status
  sc_created :: string
  sc_retired :: "string option"
  sc_encoding :: string
  sc_kind :: string

record delivery_row =
  dl_id :: string
  dl_event :: string
  dl_endpoint :: string
  dl_revision :: int
  dl_key :: string
  dl_status :: delivery_status
  dl_attempts :: int
  dl_next :: string
  dl_claim :: "string option"
  dl_lease :: "string option"
  dl_created :: string
  dl_updated :: string
  dl_cycle :: int

record attempt_log_row =
  da_id :: string
  da_delivery :: string
  da_number :: int
  da_status :: int
  da_latency :: int
  da_outcome :: string
  da_error :: string
  da_provider :: string
  da_code :: string
  da_created :: string

record audit_row =
  au_id :: string
  au_subject :: string
  au_role :: string
  au_action :: string
  au_target :: string
  au_request :: string
  au_created :: string

record coverage_row =
  cv_id :: string
  cv_conn :: string
  cv_day :: string
  cv_status :: string
  cv_sync :: string
  cv_rows :: int

record qr_row =
  qr_id :: string
  qr_conn :: string
  qr_account :: string
  qr_name :: string
  qr_bin :: string
  qr_bank :: string
  qr_image :: string
  qr_hash :: string
  qr_type :: string
  qr_provider :: string
  qr_revision :: int
  qr_created :: string
  qr_updated :: string

record voice_settings =
  vo_revision :: int
  vo_mode :: string
  vo_voice :: string
  vo_fallback :: bool
  vo_updated :: string

record store =
  connections :: "connection list"
  sessions :: "session_row list"
  auth_attempts :: "attempt_row list"
  poll_runs :: "poll_row list"
  checkpoints :: "checkpoint_row list"
  transactions :: "txn_row list"
  quarantine :: "quarantine_row list"
  events :: "event_row list"
  journal :: "journal_row list"
  journal_seq :: int   \<comment> \<open>the AUTOINCREMENT counter of \<open>event_journal\<close>\<close>
  endpoints :: "endpoint_row list"
  versions :: "version_row list"
  secrets :: "secret_row list"
  deliveries :: "delivery_row list"
  attempt_logs :: "attempt_log_row list"
  audits :: "audit_row list"
  coverage :: "coverage_row list"
  qr_settings :: "qr_row list"
  monitor_row :: "monitor_settings option"   \<comment> \<open>the singleton row of \<open>monitor_settings\<close>\<close>
  voice_row :: "voice_settings option"   \<comment> \<open>the singleton row of \<open>voice_settings\<close>\<close>

definition empty_store :: store where
  "empty_store =
     \<lparr>connections = [], sessions = [], auth_attempts = [], poll_runs = [], checkpoints = [],
      transactions = [], quarantine = [], events = [], journal = [], journal_seq = 0,
      endpoints = [], versions = [], secrets = [], deliveries = [], attempt_logs = [],
      audits = [], coverage = [], qr_settings = [], monitor_row = None, voice_row = None\<rparr>"

text \<open>
  A constrained INSERT: refused when a row of the table violates a unique key with the new row
  (\<open>clash\<close>) or a referenced row is missing (\<open>refs\<close>).
\<close>

definition insert_row ::
  "string \<Rightarrow> ('r \<Rightarrow> bool) \<Rightarrow> bool \<Rightarrow> 'r \<Rightarrow> 'r list \<Rightarrow> 'r list result" where
  "insert_row name clash refs r t =
     (if list_ex clash t then Inl (ErrConstraint (''UNIQUE constraint failed: '' @ name))
      else if \<not> refs then Inl (ErrConstraint ''FOREIGN KEY constraint failed'')
      else Inr (t @ [r]))"

lemma insert_row_Inr:
  "insert_row n clash refs r t = Inr t' \<longleftrightarrow> (\<forall>s \<in> set t. \<not> clash s) \<and> refs \<and> t' = t @ [r]"
  by (auto simp: insert_row_def list_ex_iff)

lemma insert_row_not_norows: "insert_row n clash refs r t \<noteq> Inl ErrNoRows"
  by (simp add: insert_row_def)

definition has_connection :: "store \<Rightarrow> string \<Rightarrow> bool" where
  "has_connection st i = list_ex (\<lambda>c. c_id c = i) (connections st)"

section \<open>repository.go\<close>

text \<open>\<open>Store.Connection\<close>: the oldest connection row.\<close>

definition get_connection :: "store \<Rightarrow> connection result" where
  "get_connection st =
     (case first_by c_created (connections st) of None \<Rightarrow> Inl ErrNoRows | Some c \<Rightarrow> Inr c)"

definition configure_connection ::
  "string \<Rightarrow> instant \<Rightarrow> string \<Rightarrow> store \<Rightarrow> connection result \<times> store" where
  "configure_connection new_id t masked0 st =
     (let masked = trim_space masked0; ts = rfc3339nano t
      in if masked = [] then (Inl (ErrMsg ''account masked is required''), st)
         else (case with_tx st (\<lambda>s.
                 if connections s \<noteq> [] then Inl (ErrMsg ''only one connection is supported'')
                 else Inr (s\<lparr>connections := [\<lparr>c_id = new_id, c_state = AuthRequired,
                        c_masked = masked, c_generation = 0, c_started = ts, c_created = ts,
                        c_updated = ts\<rparr>]\<rparr>, ())) of
                (Inl e, st') \<Rightarrow> (Inl e, st')
              | (Inr _, st') \<Rightarrow> (get_connection st', st')))"

definition transition_connection ::
  "instant \<Rightarrow> string \<Rightarrow> store \<Rightarrow> connection result \<times> store" where
  "transition_connection t action st =
     (case (if action = ''pause'' then Some Paused
            else if action = ''resume'' then Some AuthRequired else None) of
        None \<Rightarrow> (Inl (ErrMsg ''unsupported action''), st)
      | Some next \<Rightarrow>
          (case with_tx st (\<lambda>s.
             let s' = s\<lparr>connections := upd (\<lambda>_. True)
                   (\<lambda>c. c\<lparr>c_state := next, c_generation := c_generation c + 1,
                          c_updated := rfc3339nano t\<rparr>) (connections s)\<rparr>
             in if affected (\<lambda>_. True) (connections s) \<noteq> 1 then Inl ErrNoRows else Inr (s', ())) of
             (Inl e, st') \<Rightarrow> (Inl e, st')
           | (Inr _, st') \<Rightarrow> (get_connection st', st')))"

text \<open>The endpoint joined with its current version; the newest first (rows created in the same
  instant, whose order the query leaves open, in reverse order of insertion).\<close>

record endpoint_view =
  epv_id :: string
  epv_name :: string
  epv_url :: string
  epv_status :: ep_status
  epv_revision :: int
  epv_created :: string
  epv_updated :: string

definition version_at :: "store \<Rightarrow> string \<Rightarrow> int \<Rightarrow> version_row option" where
  "version_at st ep r = sel1 (\<lambda>v. vs_endpoint v = ep \<and> vs_revision v = r) (versions st)"

definition list_endpoints :: "store \<Rightarrow> endpoint_view list" where
  "list_endpoints st =
     List.map_filter (\<lambda>e. map_option (\<lambda>v.
         \<lparr>epv_id = ep_id e, epv_name = ep_name e, epv_url = vs_url v, epv_status = ep_status e,
          epv_revision = ep_revision e, epv_created = ep_created e, epv_updated = ep_updated e\<rparr>)
         (version_at st (ep_id e) (ep_revision e)))
       (rev (sort_key ep_created (endpoints st)))"

definition insert_endpoint :: "endpoint_row \<Rightarrow> store \<Rightarrow> store result" where
  "insert_endpoint e st =
     map_sum id (\<lambda>t. st\<lparr>endpoints := t\<rparr>)
       (insert_row ''webhook_endpoints.id'' (\<lambda>x. ep_id x = ep_id e) True e (endpoints st))"

definition insert_version :: "version_row \<Rightarrow> store \<Rightarrow> store result" where
  "insert_version v st =
     map_sum id (\<lambda>t. st\<lparr>versions := t\<rparr>)
       (insert_row ''endpoint_versions.endpoint_id, endpoint_versions.revision''
         (\<lambda>x. vs_endpoint x = vs_endpoint v \<and> vs_revision x = vs_revision v)
         (list_ex (\<lambda>e. ep_id e = vs_endpoint v) (endpoints st)) v (versions st))"

definition insert_secret :: "secret_row \<Rightarrow> store \<Rightarrow> store result" where
  "insert_secret c st =
     map_sum id (\<lambda>t. st\<lparr>secrets := t\<rparr>)
       (insert_row ''endpoint_secrets.endpoint_id, endpoint_secrets.key_id''
         (\<lambda>x. sc_endpoint x = sc_endpoint c \<and> sc_key x = sc_key c)
         (list_ex (\<lambda>e. ep_id e = sc_endpoint c) (endpoints st)) c (secrets st))"

definition create_endpoint ::
  "string \<Rightarrow> instant \<Rightarrow> string \<Rightarrow> string \<Rightarrow> store \<Rightarrow> endpoint_row result \<times> store" where
  "create_endpoint new_id t name0 url0 st =
     (let name = trim_space name0; url = trim_space url0; ts = rfc3339nano t;
          e = \<lparr>ep_id = new_id, ep_name = name, ep_status = EpDisabled, ep_revision = 1,
               ep_created = ts, ep_updated = ts, ep_provider = ''WEBHOOK''\<rparr>
      in if name = [] \<or> url = [] then (Inl (ErrMsg ''name and URL are required''), st)
         else with_tx st (\<lambda>s. rbind (insert_endpoint e s) (\<lambda>s1.
                rbind (insert_version \<lparr>vs_endpoint = new_id, vs_revision = 1, vs_url = url,
                        vs_config = None, vs_created = ts\<rparr> s1) (\<lambda>s2. Inr (s2, e)))))"

definition set_endpoint_status ::
  "instant \<Rightarrow> string \<Rightarrow> ep_status \<Rightarrow> store \<Rightarrow> err option \<times> store" where
  "set_endpoint_status t ep status st =
     (if status \<noteq> EpActive \<and> status \<noteq> EpDisabled then (Some (ErrMsg ''invalid endpoint status''), st)
      else let p = (\<lambda>e. ep_id e = ep);
               st' = st\<lparr>endpoints := upd p (\<lambda>e. e\<lparr>ep_status := status, ep_updated := rfc3339nano t\<rparr>)
                          (endpoints st)\<rparr>
           in if affected p (endpoints st) \<noteq> 1 then (Some ErrNoRows, st') else (None, st'))"

definition delivery_summary :: "store \<Rightarrow> nat \<times> nat" where
  "delivery_summary st =
     (affected (\<lambda>d. dl_status d = DPending \<or> dl_status d = DInFlight) (deliveries st),
      affected (\<lambda>d. dl_status d = DDeadLetter) (deliveries st))"

definition audit ::
  "string \<Rightarrow> instant \<Rightarrow> string \<Rightarrow> string \<Rightarrow> string \<Rightarrow> string \<Rightarrow> string \<Rightarrow> store \<Rightarrow> err option \<times> store" where
  "audit new_id t subject role action target request st =
     (case insert_row ''audit_logs.id'' (\<lambda>a. au_id a = new_id) True
        \<lparr>au_id = new_id, au_subject = subject, au_role = role, au_action = action,
         au_target = target, au_request = request, au_created = rfc3339nano t\<rparr> (audits st) of
        Inl e \<Rightarrow> (Some e, st) | Inr a \<Rightarrow> (None, st\<lparr>audits := a\<rparr>))"

section \<open>check.go\<close>

record delivery_stats =
  ds_pending :: nat
  ds_in_flight :: nat
  ds_delivered :: nat
  ds_dead :: nat

record integrity_report =
  ir_connections :: nat
  ir_generation :: int
  ir_transactions :: nat
  ir_events :: nat
  ir_deliveries :: delivery_stats
  ir_endpoints :: nat
  ir_active :: nat
  ir_quarantined :: nat
  ir_orphans :: nat

text \<open>
  \<open>CheckIntegrity\<close>, without the answers of SQLite's own \<open>PRAGMA\<close> and of the migration table. An
  orphan is a credit outside the baseline without an event.
\<close>

definition orphan_txn :: "store \<Rightarrow> txn_row \<Rightarrow> bool" where
  "orphan_txn st x \<longleftrightarrow> tx_credit x > 0 \<and> tx_baseline x = ''NONE''
     \<and> \<not> list_ex (\<lambda>e. ev_txn e = tx_id x) (events st)"

definition check_integrity :: "store \<Rightarrow> integrity_report" where
  "check_integrity st =
     \<lparr>ir_connections = length (connections st),
      ir_generation = foldr (\<lambda>c m. max (c_generation c) m) (connections st) 0,
      ir_transactions = length (transactions st),
      ir_events = length (events st),
      ir_deliveries = \<lparr>ds_pending = affected (\<lambda>d. dl_status d = DPending) (deliveries st),
         ds_in_flight = affected (\<lambda>d. dl_status d = DInFlight) (deliveries st),
         ds_delivered = affected (\<lambda>d. dl_status d = DDelivered) (deliveries st),
         ds_dead = affected (\<lambda>d. dl_status d = DDeadLetter) (deliveries st)\<rparr>,
      ir_endpoints = length (endpoints st),
      ir_active = affected (\<lambda>e. ep_status e = EpActive) (endpoints st),
      ir_quarantined = length (quarantine st),
      ir_orphans = affected (orphan_txn st) (transactions st)\<rparr>"

end
