(* ===== verification/StoreAuth.thy ===== *)
theory StoreAuth
  imports Store
begin

text \<open>
  The life of the bank connection: \<open>auth_attempts.go\<close>, \<open>auth_attempt_lookup.go\<close>,
  \<open>sessions.go\<close>, \<open>polls.go\<close> and \<open>CompleteAuthSession\<close> of \<open>queries.go\<close>. Every operation takes
  the instant it runs at and the identifiers it draws. \<open>start_attempt_tx\<close> is the transaction of
  \<open>StartAuthAttempt\<close> on its own, so that other operations can run between the reading of the
  connection and the transaction. The lemmas: an invariant that ties the connection's state to its
  attempts and its session, kept by every operation, and the generation fence.
\<close>

section \<open>Authentication attempts\<close>

fun active_status :: "attempt_status \<Rightarrow> bool" where
  "active_status AStarting = True"
| "active_status AInProgress = True"
| "active_status AExporting = True"
| "active_status AVerifying = True"
| "active_status _ = False"

definition active :: "attempt_row \<Rightarrow> bool" where
  "active a = active_status (aa_status a)"

definition set_connection ::
  "(connection \<Rightarrow> bool) \<Rightarrow> (connection \<Rightarrow> connection) \<Rightarrow> store \<Rightarrow> store" where
  "set_connection p f st = st\<lparr>connections := upd p f (connections st)\<rparr>"

definition set_attempt :: "(attempt_row \<Rightarrow> bool) \<Rightarrow> (attempt_row \<Rightarrow> attempt_row) \<Rightarrow> store \<Rightarrow> store" where
  "set_attempt p f st = st\<lparr>auth_attempts := upd p f (auth_attempts st)\<rparr>"

text \<open>The statement that sends a connection back to AUTH_REQUIRED under a new generation.\<close>

definition require_auth :: "string \<Rightarrow> connection \<Rightarrow> connection" where
  "require_auth ts c = c\<lparr>c_state := AuthRequired, c_generation := c_generation c + 1, c_updated := ts\<rparr>"

definition at_generation :: "string \<Rightarrow> int \<Rightarrow> connection \<Rightarrow> bool" where
  "at_generation i g c \<longleftrightarrow> c_id c = i \<and> c_generation c = g"

definition expire_one :: "string \<Rightarrow> attempt_row \<Rightarrow> store \<Rightarrow> store" where
  "expire_one ts a st =
     set_connection (\<lambda>c. at_generation (aa_conn a) (aa_generation a) c \<and> c_state c = AuthStarting)
       (require_auth ts)
       (set_attempt (\<lambda>x. aa_id x = aa_id a) (\<lambda>x. x\<lparr>aa_status := AExpired, aa_finished := Some ts\<rparr>) st)"

definition stale_attempts :: "string \<Rightarrow> store \<Rightarrow> attempt_row list" where
  "stale_attempts now_str st = filter (\<lambda>a. active a \<and> aa_expires a \<le> now_str) (auth_attempts st)"

definition expire_stale_attempts :: "instant \<Rightarrow> store \<Rightarrow> nat \<times> store" where
  "expire_stale_attempts t st =
     (let stale = stale_attempts (rfc3339nano t) st
      in (length stale, fold (expire_one (rfc3339nano t)) stale st))"

definition has_active_attempt :: "instant \<Rightarrow> string \<Rightarrow> store \<Rightarrow> bool" where
  "has_active_attempt t conn st \<longleftrightarrow>
     affected (\<lambda>a. aa_conn a = conn \<and> active a \<and> aa_expires a > rfc3339nano t) (auth_attempts st) > 0"

definition active_attempt_for_owner :: "instant \<Rightarrow> string \<Rightarrow> store \<Rightarrow> attempt_row option result" where
  "active_attempt_for_owner t owner st =
     rbind (get_connection st) (\<lambda>c.
       Inr (last_by aa_created (filter (\<lambda>a. aa_conn a = c_id c \<and> active a \<and> aa_owner a = owner
              \<and> aa_expires a > rfc3339nano t) (auth_attempts st))))"

definition new_attempt :: "string \<Rightarrow> instant \<Rightarrow> string \<Rightarrow> int \<Rightarrow> connection \<Rightarrow> attempt_row" where
  "new_attempt new_id t owner ttl c =
     \<lparr>aa_id = new_id, aa_conn = c_id c, aa_generation = c_generation c + 1, aa_owner = owner,
      aa_status = AStarting, aa_expires = rfc3339nano (t + ttl), aa_created = rfc3339nano t,
      aa_finished = None\<rparr>"

definition insert_attempt :: "attempt_row \<Rightarrow> store \<Rightarrow> store result" where
  "insert_attempt a st =
     map_sum id (\<lambda>t. st\<lparr>auth_attempts := t\<rparr>)
       (insert_row ''auth_attempts''
         (\<lambda>x. aa_id x = aa_id a \<or> (active x \<and> active a \<and> aa_conn x = aa_conn a))
         (has_connection st (aa_conn a)) a (auth_attempts st))"

text \<open>A violated unique index means that another attempt is active.\<close>

definition unique_means_active :: "err \<Rightarrow> err" where
  "unique_means_active e =
     (case e of ErrConstraint m \<Rightarrow> if contains m ''UNIQUE constraint failed'' then ErrAuthAttemptActive
        else e
      | _ \<Rightarrow> e)"

definition start_attempt_tx ::
  "string \<Rightarrow> instant \<Rightarrow> string \<Rightarrow> int \<Rightarrow> connection \<Rightarrow> store \<Rightarrow> attempt_row result \<times> store" where
  "start_attempt_tx new_id t owner ttl c st =
     (let a = new_attempt new_id t owner ttl c
      in with_tx st (\<lambda>s.
           let p = at_generation (c_id c) (c_generation c);
               s1 = set_connection p (\<lambda>x. x\<lparr>c_state := AuthStarting, c_generation := aa_generation a,
                       c_updated := rfc3339nano t\<rparr>) s
           in if affected p (connections s) \<noteq> 1 then Inl ErrNoRows
              else map_sum unique_means_active (\<lambda>s2. (s2, a)) (insert_attempt a s1)))"

definition start_auth_attempt ::
  "string \<Rightarrow> instant \<Rightarrow> string \<Rightarrow> int \<Rightarrow> store \<Rightarrow> attempt_row result \<times> store" where
  "start_auth_attempt new_id t owner ttl st =
     (if ttl \<le> 0 then (Inl (ErrMsg ''auth attempt TTL must be positive''), st)
      else (let st1 = snd (expire_stale_attempts t st)
            in case get_connection st1 of
                 Inl e \<Rightarrow> (Inl e, st1)
               | Inr c \<Rightarrow>
                   if has_active_attempt t (c_id c) st1 then (Inl ErrAuthAttemptActive, st1)
                   else start_attempt_tx new_id t owner ttl c st1))"

definition mark_in_progress :: "string \<Rightarrow> store \<Rightarrow> err option \<times> store" where
  "mark_in_progress i st =
     (let p = (\<lambda>a. aa_id a = i \<and> aa_status a = AStarting \<and>
                 list_ex (\<lambda>c. at_generation (aa_conn a) (aa_generation a) c \<and> c_state c = AuthStarting)
                   (connections st));
          st' = set_attempt p (\<lambda>a. a\<lparr>aa_status := AInProgress\<rparr>) st
      in if affected p (auth_attempts st) \<noteq> 1 then (Some ErrNoRows, st') else (None, st'))"

definition finish_attempt :: "instant \<Rightarrow> string \<Rightarrow> attempt_status \<Rightarrow> store \<Rightarrow> err option \<times> store" where
  "finish_attempt t i status st =
     (if status \<noteq> ACancelled \<and> status \<noteq> AExpired \<and> status \<noteq> AFailed
      then (Some (ErrMsg ''invalid auth attempt finish status''), st)
      else (case with_tx st (\<lambda>s.
              case sel1 (\<lambda>a. aa_id a = i \<and> active a) (auth_attempts s) of
                None \<Rightarrow> Inl ErrNoRows
              | Some a \<Rightarrow>
                  Inr (set_attempt (\<lambda>x. aa_id x = i)
                         (\<lambda>x. x\<lparr>aa_status := status, aa_finished := Some (rfc3339nano t)\<rparr>)
                         (set_connection (at_generation (aa_conn a) (aa_generation a))
                            (require_auth (rfc3339nano t)) s), ())) of
              (Inl e, st') \<Rightarrow> (Some e, st') | (Inr _, st') \<Rightarrow> (None, st')))"

definition attempt_for_owner :: "instant \<Rightarrow> string \<Rightarrow> string \<Rightarrow> store \<Rightarrow> attempt_row result" where
  "attempt_for_owner t i owner st =
     (case sel1 (\<lambda>a. aa_id a = i \<and> aa_owner a = owner \<and> active a \<and> aa_expires a > rfc3339nano t)
             (auth_attempts st) of
        None \<Rightarrow> Inl ErrNoRows | Some a \<Rightarrow> Inr a)"

definition attempt_status_for_owner :: "string \<Rightarrow> string \<Rightarrow> store \<Rightarrow> attempt_row result" where
  "attempt_status_for_owner i owner st =
     (case sel1 (\<lambda>a. aa_id a = i \<and> aa_owner a = owner) (auth_attempts st) of
        None \<Rightarrow> Inl ErrNoRows | Some a \<Rightarrow> Inr a)"

definition is_not_found :: "err \<Rightarrow> bool" where
  "is_not_found e = (e = ErrNoRows)"

section \<open>Sessions\<close>

definition get_session :: "string \<Rightarrow> int \<Rightarrow> store \<Rightarrow> session_row result" where
  "get_session conn g st =
     (case sel1 (\<lambda>s. se_conn s = conn \<and> se_generation s = g) (sessions st) of
        None \<Rightarrow> Inl ErrNoRows | Some s \<Rightarrow> Inr s)"

definition refresh_session ::
  "instant \<Rightarrow> string \<Rightarrow> int \<Rightarrow> string \<Rightarrow> string \<Rightarrow> store \<Rightarrow> err option \<times> store" where
  "refresh_session t conn g envelope key st =
     (let p = (\<lambda>s. se_conn s = conn \<and> se_generation s = g \<and>
                 list_ex (\<lambda>c. at_generation conn g c \<and> c_state c = Monitoring) (connections st));
          st' = st\<lparr>sessions := upd p (\<lambda>s. s\<lparr>se_envelope := envelope, se_key := key,
                     se_verified := rfc3339nano t, se_updated := rfc3339nano t\<rparr>) (sessions st)\<rparr>
      in if affected p (sessions st) \<noteq> 1 then (Some ErrNoRows, st') else (None, st'))"

definition delete_session :: "string \<Rightarrow> int \<Rightarrow> store \<Rightarrow> store" where
  "delete_session conn g st =
     st\<lparr>sessions := del (\<lambda>s. se_conn s = conn \<and> se_generation s = g) (sessions st)\<rparr>"

text \<open>
  The upsert of \<open>CompleteAuthSession\<close>: its \<open>DO UPDATE\<close> leaves \<open>key_id\<close> as it was.
\<close>

definition upsert_session :: "string \<Rightarrow> string \<Rightarrow> int \<Rightarrow> string \<Rightarrow> store \<Rightarrow> store result" where
  "upsert_session ts conn g envelope st =
     (if \<not> has_connection st conn then Inl (ErrConstraint ''FOREIGN KEY constraint failed'')
      else Inr (st\<lparr>sessions :=
         (if list_ex (\<lambda>s. se_conn s = conn) (sessions st)
          then upd (\<lambda>s. se_conn s = conn) (\<lambda>s. s\<lparr>se_generation := g, se_envelope := envelope,
                 se_verified := ts, se_updated := ts\<rparr>) (sessions st)
          else sessions st @ [\<lparr>se_conn = conn, se_generation = g, se_envelope = envelope,
                 se_key = ''k1'', se_verified = ts, se_updated = ts\<rparr>])\<rparr>))"

definition complete_tx :: "instant \<Rightarrow> string \<Rightarrow> string \<Rightarrow> store \<Rightarrow> (store \<times> unit) result" where
  "complete_tx t i envelope s =
     (case sel1 (\<lambda>a. aa_id a = i \<and> (aa_status a = AStarting \<or> aa_status a = AInProgress))
             (auth_attempts s) of
        None \<Rightarrow> Inl ErrNoRows
      | Some a \<Rightarrow>
          (let ts = rfc3339nano t;
               s1 = set_attempt (\<lambda>x. aa_id x = i)
                      (\<lambda>x. x\<lparr>aa_status := AVerified, aa_finished := Some ts\<rparr>) s
           in rbind (upsert_session ts (aa_conn a) (aa_generation a) envelope s1) (\<lambda>s2.
                let p = (\<lambda>c. at_generation (aa_conn a) (aa_generation a) c \<and> c_state c = AuthStarting)
                in if affected p (connections s2) \<noteq> 1 then Inl ErrNoRows
                   else Inr (set_connection p (\<lambda>c. c\<lparr>c_state := Monitoring, c_updated := ts\<rparr>) s2, ()))))"

definition complete_auth_session ::
  "instant \<Rightarrow> string \<Rightarrow> string \<Rightarrow> store \<Rightarrow> connection result \<times> store" where
  "complete_auth_session t i envelope st =
     (case with_tx st (complete_tx t i envelope) of
        (Inl e, st') \<Rightarrow> (Inl e, st')
      | (Inr _, st') \<Rightarrow> (get_connection st', st'))"

section \<open>Poll runs\<close>

definition start_poll :: "string \<Rightarrow> instant \<Rightarrow> store \<Rightarrow> poll_row result \<times> store" where
  "start_poll new_id t st =
     (case get_connection st of
        Inl e \<Rightarrow> (Inl e, st)
      | Inr c \<Rightarrow>
          if c_state c \<noteq> Monitoring then (Inl (ErrMsg ''connection is not monitoring''), st)
          else (let p = \<lparr>pr_id = new_id, pr_conn = c_id c, pr_generation = c_generation c,
                         pr_status = PRunning, pr_classifier = [], pr_http = 0, pr_pages = 0,
                         pr_rows = 0, pr_error = [], pr_started = rfc3339nano t, pr_finished = []\<rparr>
                in case insert_row ''poll_runs.id'' (\<lambda>x. pr_id x = new_id)
                          (has_connection st (c_id c)) p (poll_runs st) of
                     Inl e \<Rightarrow> (Inl e, st) | Inr ps \<Rightarrow> (Inr p, st\<lparr>poll_runs := ps\<rparr>)))"

definition poll_outcome :: "string \<Rightarrow> poll_row \<Rightarrow> poll_row \<Rightarrow> poll_row" where
  "poll_outcome ts p x = x\<lparr>pr_status := pr_status p, pr_classifier := pr_classifier p,
     pr_http := pr_http p, pr_pages := pr_pages p, pr_rows := pr_rows p, pr_error := pr_error p,
     pr_finished := ts\<rparr>"

definition finish_poll_tx :: "instant \<Rightarrow> poll_row \<Rightarrow> store \<Rightarrow> (store \<times> unit) result" where
  "finish_poll_tx t p s =
     (let q = (\<lambda>x. pr_id x = pr_id p \<and> pr_status x = PRunning);
          s1 = s\<lparr>poll_runs := upd q (poll_outcome (rfc3339nano t) p) (poll_runs s)\<rparr>;
          g = at_generation (pr_conn p) (pr_generation p)
      in if affected q (poll_runs s) \<noteq> 1 then Inl ErrNoRows
         else if pr_status p = PSucceeded then
           (let m = (\<lambda>c. g c \<and> c_state c = Monitoring)
            in if affected m (connections s1) \<noteq> 1 then Inl ErrNoRows
               else Inr (set_connection m (\<lambda>c. c\<lparr>c_updated := rfc3339nano t\<rparr>) s1, ()))
         else if pr_status p = PAuthRequired then
           (if affected g (connections s1) \<noteq> 1 then Inl ErrNoRows
            else Inr (set_connection g (require_auth (rfc3339nano t)) s1, ()))
         else Inr (s1, ()))"

definition finish_poll :: "instant \<Rightarrow> poll_row \<Rightarrow> store \<Rightarrow> err option \<times> store" where
  "finish_poll t p st =
     (if pr_status p = PRunning then (Some (ErrMsg ''invalid poll status''), st)
      else (case with_tx st (finish_poll_tx t p) of
              (Inl e, st') \<Rightarrow> (Some e, st') | (Inr _, st') \<Rightarrow> (None, st')))"

end
