(* ===== verification/AuthLife.thy ===== *)
theory AuthLife
  imports StoreAuth
begin

text \<open>
  The life of the connection as a transition system over the operations of \<open>StoreAuth\<close>, its
  invariant, and the generation fence: a locale that states what a generation number has to
  promise, interpreted on the model's operations. \<open>DeleteSession\<close>, which no caller uses, is not
  one of the steps.
\<close>

section \<open>Steps\<close>

inductive auth_step :: "store \<Rightarrow> store \<Rightarrow> bool" where
  configure: "auth_step st (snd (configure_connection i t m st))"
| transition: "auth_step st (snd (transition_connection t act st))"
| expire: "auth_step st (snd (expire_stale_attempts t st))"
| start: "auth_step st (snd (start_attempt_tx i t owner ttl c st))"
| mark: "auth_step st (snd (mark_in_progress i st))"
| finish: "auth_step st (snd (finish_attempt t i status st))"
| complete: "auth_step st (snd (complete_auth_session t i envelope st))"
| refresh: "auth_step st (snd (refresh_session t conn g envelope key st))"
| poll_start: "auth_step st (snd (start_poll i t st))"
| poll_finish: "auth_step st (snd (finish_poll t p st))"

text \<open>\<open>StartAuthAttempt\<close> as a whole is an expiry followed, when nothing stops it, by the transaction.\<close>

lemma start_auth_attempt_steps: "auth_step\<^sup>*\<^sup>* st (snd (start_auth_attempt i t owner ttl st))"
proof -
  have e: "auth_step st (snd (expire_stale_attempts t st))" by (rule expire)
  have s: "auth_step x (snd (start_attempt_tx i t owner ttl c x))" for c x by (rule start)
  show ?thesis
    unfolding start_auth_attempt_def Let_def
    using e s by (auto split: sum.splits intro: rtranclp.rtrancl_into_rtrancl)
qed

section \<open>Invariant\<close>

definition attempt_ok :: "connection \<Rightarrow> attempt_row \<Rightarrow> bool" where
  "attempt_ok c a \<longleftrightarrow> aa_conn a = c_id c \<and> aa_generation a \<le> c_generation c
     \<and> aa_status a \<noteq> AExporting \<and> aa_status a \<noteq> AVerifying
     \<and> (active a \<and> aa_generation a = c_generation c \<longrightarrow> c_state c = AuthStarting)"

definition one_active :: "attempt_row list \<Rightarrow> bool" where
  "one_active as \<longleftrightarrow> (\<forall>a \<in> set as. \<forall>b \<in> set as. active a \<and> active b \<longrightarrow> a = b)"

definition conn_ok :: "connection \<Rightarrow> attempt_row list \<Rightarrow> session_row list \<Rightarrow> bool" where
  "conn_ok c as ss \<longleftrightarrow>
     (\<forall>a \<in> set as. attempt_ok c a) \<and> (\<forall>s \<in> set ss. se_conn s = c_id c) \<and>
     (c_state c = AuthStarting \<longrightarrow> (\<exists>a \<in> set as. active a \<and> aa_generation a = c_generation c)) \<and>
     (c_state c = Monitoring \<longrightarrow> (\<exists>s \<in> set ss. se_generation s = c_generation c))"

fun tables_ok :: "connection list \<Rightarrow> attempt_row list \<Rightarrow> session_row list \<Rightarrow> bool" where
  "tables_ok [] as ss \<longleftrightarrow> as = [] \<and> ss = []"
| "tables_ok [c] as ss \<longleftrightarrow> distinct (map aa_id as) \<and> one_active as \<and> length ss \<le> 1 \<and> conn_ok c as ss"
| "tables_ok _ as ss \<longleftrightarrow> False"

definition auth_inv :: "store \<Rightarrow> bool" where
  "auth_inv st \<longleftrightarrow> tables_ok (connections st) (auth_attempts st) (sessions st)"

lemma auth_inv_cases:
  assumes "auth_inv st"
  obtains (none) "connections st = []" "auth_attempts st = []" "sessions st = []"
    | (one) c where "connections st = [c]" "conn_ok c (auth_attempts st) (sessions st)"
        "distinct (map aa_id (auth_attempts st))" "one_active (auth_attempts st)"
        "length (sessions st) \<le> 1"
  using assms unfolding auth_inv_def by (cases rule: tables_ok.cases
      [of "(connections st, auth_attempts st, sessions st)"]) auto

lemma auth_inv_empty: "auth_inv empty_store"
  by (simp add: auth_inv_def empty_store_def)

lemma one_active_upd:
  assumes "one_active as" and "\<And>a. active (f a) \<Longrightarrow> active a"
  shows "one_active (upd p f as)"
  using assms unfolding one_active_def set_upd by (auto split: if_splits)

lemma one_active_upd_if:
  assumes "one_active as" and "\<And>a. p a \<Longrightarrow> active (f a) \<Longrightarrow> active a"
  shows "one_active (upd p f as)"
  using assms unfolding one_active_def set_upd by (auto split: if_splits)

lemma active_stale:
  assumes "one_active as" "distinct (map aa_id as)"
  shows "filter (\<lambda>a. active a \<and> q a) as = [] \<or> (\<exists>a \<in> set as. active a \<and> filter (\<lambda>a. active a \<and> q a) as = [a])"
  using assms
proof (induction as)
  case (Cons x as)
  have "one_active as" using Cons.prems by (simp add: one_active_def)
  then have IH: "filter (\<lambda>a. active a \<and> q a) as = []
      \<or> (\<exists>a \<in> set as. active a \<and> filter (\<lambda>a. active a \<and> q a) as = [a])"
    using Cons by simp
  show ?case
  proof (cases "active x \<and> q x")
    case True
    have "\<not> active a" if "a \<in> set as" for a
      using Cons.prems True that by (auto simp: one_active_def)
    then have "filter (\<lambda>a. active a \<and> q a) as = []" by (auto simp: filter_empty_conv)
    with True show ?thesis by simp
  qed (use IH in auto)
qed simp

lemma active_unfold: "active a \<longleftrightarrow> aa_status a \<in> {AStarting, AInProgress, AExporting, AVerifying}"
  by (cases "aa_status a") (simp_all add: active_def)

section \<open>Every operation keeps the invariant\<close>

lemma conn_ok_bump:
  assumes "conn_ok c as ss" "c_id c' = c_id c" "c_generation c' = c_generation c + 1"
    "c_state c' \<noteq> AuthStarting" "c_state c' \<noteq> Monitoring"
  shows "conn_ok c' as ss"
  using assms by (auto simp: conn_ok_def attempt_ok_def)

lemma inv_configure: "auth_inv st \<Longrightarrow> auth_inv (snd (configure_connection i t m st))"
  by (erule auth_inv_cases)
    (auto simp: configure_connection_def Let_def with_tx_def auth_inv_def conn_ok_def one_active_def)

lemma transition_effect:
  "snd (transition_connection t act st) = st \<or>
   (\<exists>next. next \<noteq> AuthStarting \<and> next \<noteq> Monitoring \<and>
      snd (transition_connection t act st) = set_connection (\<lambda>_. True)
        (\<lambda>c. c\<lparr>c_state := next, c_generation := c_generation c + 1, c_updated := rfc3339nano t\<rparr>) st)"
  by (auto simp: transition_connection_def Let_def with_tx_def set_connection_def)

lemma inv_bump_all:
  assumes "auth_inv st" "\<And>c. c_id (f c) = c_id c" "\<And>c. c_generation (f c) = c_generation c + 1"
    "\<And>c. c_state (f c) \<noteq> AuthStarting" "\<And>c. c_state (f c) \<noteq> Monitoring"
  shows "auth_inv (set_connection p f st)"
  using assms(1)
proof (cases rule: auth_inv_cases)
  case none
  then show ?thesis by (simp add: auth_inv_def set_connection_def)
next
  case (one c)
  then show ?thesis
    using conn_ok_bump [of c _ _ "f c"] assms(2-) by (simp add: auth_inv_def set_connection_def)
qed

lemma inv_transition: "auth_inv st \<Longrightarrow> auth_inv (snd (transition_connection t act st))"
  using transition_effect [of t act st] by (auto intro!: inv_bump_all)

text \<open>
  The connection goes back to AUTH_REQUIRED (when it is still at the attempt's generation) and the
  attempt is closed: \<open>ExpireStaleAuthAttempts\<close> and \<open>FinishAuthAttempt\<close>.
\<close>

lemma inv_close:
  assumes "auth_inv st" "a \<in> set (auth_attempts st)" "active a" "\<not> active_status status"
    and q: "\<And>c. q c \<longleftrightarrow> at_generation (aa_conn a) (aa_generation a) c"
      "\<And>c. q' c \<longleftrightarrow> q c \<and> c_state c = AuthStarting"
  shows "auth_inv (set_connection q (require_auth ts)
           (set_attempt (\<lambda>x. aa_id x = aa_id a) (\<lambda>x. x\<lparr>aa_status := status, aa_finished := f\<rparr>) st))"
    and "set_connection q' (require_auth ts) st = set_connection q (require_auth ts) st"
proof -
  obtain c where one: "connections st = [c]" "conn_ok c (auth_attempts st) (sessions st)"
    "distinct (map aa_id (auth_attempts st))" "one_active (auth_attempts st)" "length (sessions st) \<le> 1"
    using assms(1,2) by (cases rule: auth_inv_cases) auto
  let ?as = "upd (\<lambda>x. aa_id x = aa_id a) (\<lambda>x. x\<lparr>aa_status := status, aa_finished := f\<rparr>) (auth_attempts st)"
  have ok: "attempt_ok c a" using one assms(2) by (simp add: conn_ok_def)
  have "map aa_id ?as = map aa_id (auth_attempts st)" by (rule map_upd_same) simp
  then have d: "distinct (map aa_id ?as)" using one by simp
  have o: "one_active ?as"
    using one assms(4) by (intro one_active_upd) (auto simp: active_def)
  have st: "attempt_ok c x \<Longrightarrow> attempt_ok c (x\<lparr>aa_status := status, aa_finished := f\<rparr>)" for c x
    using assms(4) by (cases status) (auto simp: attempt_ok_def active_def)
  have others: "\<not> active x" if "x \<in> set (auth_attempts st)" "aa_id x \<noteq> aa_id a" for x
    using one that assms(2,3) by (auto simp: one_active_def)
  have k: "conn_ok (if q c then require_auth ts c else c) ?as (sessions st)"
  proof (cases "q c")
    case True
    have "conn_ok (require_auth ts c) (auth_attempts st) (sessions st)"
      using one by (auto intro: conn_ok_bump simp: require_auth_def)
    with True st show ?thesis
      by (auto simp: conn_ok_def in_upd) (simp_all add: require_auth_def)
  next
    case False
    have "c_state c \<noteq> AuthStarting"
    proof
      assume "c_state c = AuthStarting"
      then obtain b where b: "b \<in> set (auth_attempts st)" "active b" "aa_generation b = c_generation c"
        using one by (auto simp: conn_ok_def)
      then have "b = a" using one assms(2,3) by (auto simp: one_active_def)
      with b False ok q show False by (simp add: at_generation_def attempt_ok_def)
    qed
    with False one st show ?thesis by (auto simp: conn_ok_def in_upd)
  qed
  show "auth_inv (set_connection q (require_auth ts)
           (set_attempt (\<lambda>x. aa_id x = aa_id a) (\<lambda>x. x\<lparr>aa_status := status, aa_finished := f\<rparr>) st))"
    using one d o k by (simp add: auth_inv_def set_connection_def set_attempt_def)
  show "set_connection q' (require_auth ts) st = set_connection q (require_auth ts) st"
    using one ok assms(3) q by (auto simp: set_connection_def at_generation_def attempt_ok_def)
qed

lemma set_swap: "set_connection p f (set_attempt q g st) = set_attempt q g (set_connection p f st)"
  by (simp add: set_connection_def set_attempt_def)

lemma inv_expire: "auth_inv st \<Longrightarrow> auth_inv (snd (expire_stale_attempts t st))"
proof -
  assume inv: "auth_inv st"
  define ts where "ts = rfc3339nano t"
  have "one_active (auth_attempts st) \<and> distinct (map aa_id (auth_attempts st))"
    using inv by (cases rule: auth_inv_cases) (auto simp: one_active_def)
  then consider "stale_attempts ts st = []"
    | a where "a \<in> set (auth_attempts st)" "active a" "stale_attempts ts st = [a]"
    using active_stale [of "auth_attempts st" "\<lambda>a. aa_expires a \<le> ts"]
    unfolding stale_attempts_def by auto
  then show ?thesis
  proof cases
    case 2
    have "auth_inv (expire_one ts a st)"
      using inv_close(1) [OF inv 2(1,2), where status = AExpired
          and q = "at_generation (aa_conn a) (aa_generation a)" and ts = ts and f = "Some ts"
          and q' = "\<lambda>c. at_generation (aa_conn a) (aa_generation a) c \<and> c_state c = AuthStarting"]
        inv_close(2) [OF inv 2(1,2), where status = AExpired
          and q = "at_generation (aa_conn a) (aa_generation a)" and ts = ts
          and q' = "\<lambda>c. at_generation (aa_conn a) (aa_generation a) c \<and> c_state c = AuthStarting"]
      by (simp add: expire_one_def set_swap)
    with 2 show ?thesis by (simp add: expire_stale_attempts_def Let_def ts_def [symmetric])
  qed (use inv in \<open>simp add: expire_stale_attempts_def Let_def ts_def\<close>)
qed

lemma inv_finish: "auth_inv st \<Longrightarrow> auth_inv (snd (finish_attempt t i status st))"
proof -
  assume inv: "auth_inv st"
  show ?thesis
  proof (cases "sel1 (\<lambda>a. aa_id a = i \<and> active a) (auth_attempts st)")
    case None
    with inv show ?thesis by (auto simp: finish_attempt_def with_tx_def)
  next
    case (Some a)
    then have a: "a \<in> set (auth_attempts st)" "active a" "aa_id a = i" using sel1_Some by fastforce+
    show ?thesis
      using inv inv_close(1) [OF inv a(1,2), where status = status
          and q = "at_generation (aa_conn a) (aa_generation a)" and ts = "rfc3339nano t"
          and f = "Some (rfc3339nano t)"
          and q' = "\<lambda>c. at_generation (aa_conn a) (aa_generation a) c \<and> c_state c = AuthStarting"]
        Some a(3)
      by (auto simp: finish_attempt_def with_tx_def set_swap)
  qed
qed

lemma inv_mark: "auth_inv st \<Longrightarrow> auth_inv (snd (mark_in_progress i st))"
proof -
  assume inv: "auth_inv st"
  have *: "auth_inv (set_attempt p (\<lambda>a. a\<lparr>aa_status := AInProgress\<rparr>) st)"
    if p: "\<And>a. p a \<Longrightarrow> aa_status a = AStarting" for p
    using inv
  proof (cases rule: auth_inv_cases)
    case none
    then show ?thesis by (simp add: auth_inv_def set_attempt_def)
  next
    case (one c)
    let ?as = "upd p (\<lambda>a. a\<lparr>aa_status := AInProgress\<rparr>) (auth_attempts st)"
    have "map aa_id ?as = map aa_id (auth_attempts st)" by (rule map_upd_same) simp
    moreover have "one_active ?as"
      using one(4) p by (intro one_active_upd_if) (auto simp: active_def)
    moreover have "conn_ok c ?as (sessions st)"
      unfolding conn_ok_def
    proof (intro conjI ballI impI)
      fix x
      assume "x \<in> set ?as"
      then obtain a where "a \<in> set (auth_attempts st)"
        "x = (if p a then a\<lparr>aa_status := AInProgress\<rparr> else a)" by (auto simp: in_upd)
      then show "attempt_ok c x" using one(2) p [of a] by (auto simp: conn_ok_def attempt_ok_def active_def)
    next
      assume "c_state c = AuthStarting"
      then obtain a where a: "a \<in> set (auth_attempts st)" "active a" "aa_generation a = c_generation c"
        using one(2) by (auto simp: conn_ok_def)
      then show "\<exists>x \<in> set ?as. active x \<and> aa_generation x = c_generation c"
        by (intro bexI [of _ "if p a then a\<lparr>aa_status := AInProgress\<rparr> else a"])
          (auto simp: active_def set_upd)
    qed (use one(2) in \<open>auto simp: conn_ok_def\<close>)
    ultimately show ?thesis using one by (simp add: auth_inv_def set_attempt_def)
  qed
  show ?thesis unfolding mark_in_progress_def Let_def by (auto intro!: *)
qed

lemma map_sum_Inr_iff: "map_sum f g r = Inr y \<longleftrightarrow> (\<exists>x. r = Inr x \<and> g x = y)"
  by (cases r) auto

lemma insert_attempt_Inr:
  "insert_attempt a st = Inr st' \<longleftrightarrow>
   (\<forall>x \<in> set (auth_attempts st). aa_id x \<noteq> aa_id a \<and> \<not> (active x \<and> active a \<and> aa_conn x = aa_conn a))
   \<and> has_connection st (aa_conn a) \<and> st' = st\<lparr>auth_attempts := auth_attempts st @ [a]\<rparr>"
  by (auto simp: insert_attempt_def map_sum_Inr_iff insert_row_Inr)

text \<open>The transaction of \<open>StartAuthAttempt\<close>, whatever connection its caller had read.\<close>

lemma start_attempt_tx_cases:
  obtains (rollback) e where "start_attempt_tx i t owner ttl c st = (Inl e, st)"
  | (commit) st1 a where "a = new_attempt i t owner ttl c"
      "affected (at_generation (c_id c) (c_generation c)) (connections st) = 1"
      "\<And>x. x \<in> set (auth_attempts st) \<Longrightarrow> aa_id x \<noteq> i \<and> \<not> (active x \<and> aa_conn x = c_id c)"
      "start_attempt_tx i t owner ttl c st = (Inr a, st1)"
      "st1 = (set_connection (at_generation (c_id c) (c_generation c))
          (\<lambda>x. x\<lparr>c_state := AuthStarting, c_generation := aa_generation a, c_updated := rfc3339nano t\<rparr>) st)
          \<lparr>auth_attempts := auth_attempts st @ [a]\<rparr>"
proof (cases "start_attempt_tx i t owner ttl c st")
  case (Pair r st1)
  show ?thesis
  proof (cases r)
    case (Inl e)
    have "st1 = st" by (rule with_tx_rollback [OF Pair [unfolded start_attempt_tx_def Let_def Inl]])
    with Pair Inl show ?thesis by (intro rollback) simp
  next
    case (Inr a)
    let ?a = "new_attempt i t owner ttl c"
    let ?s1 = "set_connection (at_generation (c_id c) (c_generation c))
          (\<lambda>x. x\<lparr>c_state := AuthStarting, c_generation := aa_generation ?a, c_updated := rfc3339nano t\<rparr>) st"
    have f: "affected (at_generation (c_id c) (c_generation c)) (connections st) = 1" "a = ?a"
      "insert_attempt ?a ?s1 = Inr st1"
      using Pair Inr unfolding start_attempt_tx_def Let_def
      by (auto simp: with_tx_commit map_sum_Inr_iff split: if_splits)
    have a: "active ?a" "aa_id ?a = i" "aa_conn ?a = c_id c"
      by (simp_all add: new_attempt_def active_def)
    note ins = f(3) [unfolded insert_attempt_Inr]
    show ?thesis
    proof (rule commit [OF refl f(1)])
      show "aa_id x \<noteq> i \<and> \<not> (active x \<and> aa_conn x = c_id c)" if "x \<in> set (auth_attempts st)" for x
        using ins that a by (simp add: set_connection_def)
      show "start_attempt_tx i t owner ttl c st = (Inr ?a, st1)" using Pair Inr f(2) by simp
      show "st1 = ?s1\<lparr>auth_attempts := auth_attempts st @ [?a]\<rparr>"
        using ins by (simp add: set_connection_def)
    qed
  qed
qed

lemma affected_one_row: "affected p [x] = 1 \<longleftrightarrow> p x"
  by (simp add: affected_def)

lemma inv_start: "auth_inv st \<Longrightarrow> auth_inv (snd (start_attempt_tx i t owner ttl c st))"
proof (cases rule: start_attempt_tx_cases [of i t owner ttl c st])
  case (rollback e)
  then show "auth_inv st \<Longrightarrow> ?thesis" by simp
next
  case (commit st1 a)
  assume "auth_inv st"
  then show ?thesis
  proof (cases rule: auth_inv_cases)
    case none
    with commit show ?thesis by (simp add: affected_def)
  next
    case (one x)
    let ?x = "x\<lparr>c_state := AuthStarting, c_generation := aa_generation a, c_updated := rfc3339nano t\<rparr>"
    have x: "at_generation (c_id c) (c_generation c) x"
      using commit(2) one(1) by (simp add: affected_def split: if_splits)
    have inactive: "\<not> active y" if "y \<in> set (auth_attempts st)" for y
      using commit(3) [OF that] one(2) x that by (auto simp: conn_ok_def attempt_ok_def at_generation_def)
    have a: "active a" "aa_id a = i" "aa_conn a = c_id x" "aa_generation a = c_generation x + 1"
      "aa_status a = AStarting"
      using x commit(1) by (simp_all add: new_attempt_def active_def at_generation_def)
    have "conn_ok ?x (auth_attempts st @ [a]) (sessions st)"
      using one(2) a inactive by (auto simp: conn_ok_def attempt_ok_def)
    moreover have "one_active (auth_attempts st @ [a])" using inactive by (auto simp: one_active_def)
    moreover have "distinct (map aa_id (auth_attempts st @ [a]))" using one(3) commit(3) a(2) by (auto dest: commit(3))
    ultimately show ?thesis
      using commit(4,5) one(1,5) x by (simp add: auth_inv_def set_connection_def)
  qed
qed

text \<open>\<open>CompleteAuthSession\<close>: the attempt is verified, the session stored, the connection monitoring.\<close>

lemma complete_tx_Inr:
  assumes "complete_tx t i envelope st = Inr (st', u)"
  obtains a where "a \<in> set (auth_attempts st)" "aa_id a = i"
    "aa_status a = AStarting \<or> aa_status a = AInProgress"
    "affected (\<lambda>c. at_generation (aa_conn a) (aa_generation a) c \<and> c_state c = AuthStarting)
       (connections st) = 1"
    "connections st' = upd (\<lambda>c. at_generation (aa_conn a) (aa_generation a) c \<and> c_state c = AuthStarting)
       (\<lambda>c. c\<lparr>c_state := Monitoring, c_updated := rfc3339nano t\<rparr>) (connections st)"
    "auth_attempts st' = upd (\<lambda>x. aa_id x = i)
       (\<lambda>x. x\<lparr>aa_status := AVerified, aa_finished := Some (rfc3339nano t)\<rparr>) (auth_attempts st)"
    "\<exists>st1. upsert_session (rfc3339nano t) (aa_conn a) (aa_generation a) envelope st1 = Inr (st1\<lparr>sessions := sessions st'\<rparr>)
       \<and> sessions st1 = sessions st"
proof -
  obtain a where a: "sel1 (\<lambda>a. aa_id a = i \<and> (aa_status a = AStarting \<or> aa_status a = AInProgress))
      (auth_attempts st) = Some a"
    using assms by (auto simp: complete_tx_def split: option.splits)
  show thesis
  proof (rule that)
    show "a \<in> set (auth_attempts st)" "aa_id a = i" "aa_status a = AStarting \<or> aa_status a = AInProgress"
      using sel1_Some [OF a] by auto
    let ?st1 = "set_attempt (\<lambda>x. aa_id x = i)
      (\<lambda>x. x\<lparr>aa_status := AVerified, aa_finished := Some (rfc3339nano t)\<rparr>) st"
    show "\<exists>st1. upsert_session (rfc3339nano t) (aa_conn a) (aa_generation a) envelope st1 = Inr (st1\<lparr>sessions := sessions st'\<rparr>)
       \<and> sessions st1 = sessions st"
      by (rule exI [of _ ?st1]) (use assms a in \<open>auto simp: complete_tx_def Let_def upsert_session_def
          set_connection_def set_attempt_def rbind_def split: if_splits\<close>)
  qed (use assms a in \<open>auto simp: complete_tx_def Let_def upsert_session_def set_connection_def
        set_attempt_def rbind_def split: if_splits\<close>)
qed

lemma upsert_session_one:
  assumes "upsert_session ts conn g envelope st1 = Inr (st1\<lparr>sessions := ss\<rparr>)"
    and "length (sessions st1) \<le> 1" and "\<forall>s \<in> set (sessions st1). se_conn s = conn"
  shows "\<exists>s. ss = [s] \<and> se_conn s = conn \<and> se_generation s = g \<and> se_envelope s = envelope"
proof -
  have "ss = (if list_ex (\<lambda>s. se_conn s = conn) (sessions st1)
          then upd (\<lambda>s. se_conn s = conn) (\<lambda>s. s\<lparr>se_generation := g, se_envelope := envelope,
                 se_verified := ts, se_updated := ts\<rparr>) (sessions st1)
          else sessions st1 @ [\<lparr>se_conn = conn, se_generation = g, se_envelope = envelope,
                 se_key = ''k1'', se_verified = ts, se_updated = ts\<rparr>])"
    using assms(1) by (simp add: upsert_session_def split: if_splits)
      (metis session_row.ext_inject store.select_convs(2) store.surjective store.update_convs(2))+
  then show ?thesis using assms(2,3) by (cases "sessions st1") auto
qed

lemma complete_cases:
  obtains (rollback) e where "complete_auth_session t i envelope st = (Inl e, st)"
  | (commit) st' where "complete_tx t i envelope st = Inr (st', ())"
      "complete_auth_session t i envelope st = (get_connection st', st')"
  by (cases "complete_tx t i envelope st") (auto simp: complete_auth_session_def with_tx_def)

lemma complete_one:
  assumes "complete_tx t i envelope st = Inr (st', ())" and "auth_inv st"
  obtains c a s where "connections st = [c]" "a \<in> set (auth_attempts st)" "aa_id a = i"
    "active a" "aa_generation a = c_generation c" "c_state c = AuthStarting"
    "connections st' = [c\<lparr>c_state := Monitoring, c_updated := rfc3339nano t\<rparr>]"
    "auth_attempts st' = upd (\<lambda>x. aa_id x = i)
       (\<lambda>x. x\<lparr>aa_status := AVerified, aa_finished := Some (rfc3339nano t)\<rparr>) (auth_attempts st)"
    "sessions st' = [s]" "se_conn s = c_id c" "se_generation s = c_generation c"
    "se_envelope s = envelope"
proof (rule complete_tx_Inr [OF assms(1)])
  fix a
  assume a: "a \<in> set (auth_attempts st)" "aa_id a = i" "aa_status a = AStarting \<or> aa_status a = AInProgress"
    and aff: "affected (\<lambda>c. at_generation (aa_conn a) (aa_generation a) c \<and> c_state c = AuthStarting)
       (connections st) = 1"
    and cs: "connections st' = upd (\<lambda>c. at_generation (aa_conn a) (aa_generation a) c \<and> c_state c = AuthStarting)
       (\<lambda>c. c\<lparr>c_state := Monitoring, c_updated := rfc3339nano t\<rparr>) (connections st)"
    and as: "auth_attempts st' = upd (\<lambda>x. aa_id x = i)
       (\<lambda>x. x\<lparr>aa_status := AVerified, aa_finished := Some (rfc3339nano t)\<rparr>) (auth_attempts st)"
    and ss: "\<exists>st1. upsert_session (rfc3339nano t) (aa_conn a) (aa_generation a) envelope st1 =
        Inr (st1\<lparr>sessions := sessions st'\<rparr>) \<and> sessions st1 = sessions st"
  show thesis
    using assms(2)
  proof (cases rule: auth_inv_cases)
    case none
    with a show ?thesis by simp
  next
    case (one c)
    have c: "at_generation (aa_conn a) (aa_generation a) c" "c_state c = AuthStarting"
      using aff one(1) by (auto simp: affected_def split: if_splits)
    have conn: "aa_conn a = c_id c" using one(2) a(1) by (simp add: conn_ok_def attempt_ok_def)
    obtain st1 where st1: "upsert_session (rfc3339nano t) (aa_conn a) (aa_generation a) envelope st1 =
        Inr (st1\<lparr>sessions := sessions st'\<rparr>)" "sessions st1 = sessions st"
      using ss by blast
    obtain s where s: "sessions st' = [s]" "se_conn s = aa_conn a" "se_generation s = aa_generation a"
      "se_envelope s = envelope"
      using upsert_session_one [OF st1(1)] st1(2) one(2,5) conn by (auto simp: conn_ok_def)
    show ?thesis
      by (rule that [of c a s]) (use a one(1) c cs as s in \<open>auto simp: active_def at_generation_def\<close>)
  qed
qed

lemma inv_complete: "auth_inv st \<Longrightarrow> auth_inv (snd (complete_auth_session t i envelope st))"
proof (cases rule: complete_cases [of t i envelope st])
  case (rollback e)
  then show "auth_inv st \<Longrightarrow> ?thesis" by simp
next
  case (commit st')
  assume inv: "auth_inv st"
  let ?f = "\<lambda>x. x\<lparr>aa_status := AVerified, aa_finished := Some (rfc3339nano t)\<rparr>"
  obtain c a s where c: "connections st = [c]"
    and a: "a \<in> set (auth_attempts st)" "aa_id a = i" "active a" "aa_generation a = c_generation c"
      "c_state c = AuthStarting"
    and st': "connections st' = [c\<lparr>c_state := Monitoring, c_updated := rfc3339nano t\<rparr>]"
      "auth_attempts st' = upd (\<lambda>x. aa_id x = i) ?f (auth_attempts st)" "sessions st' = [s]"
    and s: "se_conn s = c_id c" "se_generation s = c_generation c" "se_envelope s = envelope"
    by (rule complete_one [OF commit(1) inv])
  have one: "conn_ok c (auth_attempts st) (sessions st)" "distinct (map aa_id (auth_attempts st))"
    "one_active (auth_attempts st)"
    using inv c by (simp_all add: auth_inv_def)
  have others: "\<not> active x" if "x \<in> set (auth_attempts st)" "aa_id x \<noteq> i" for x
    using one(3) that a by (auto simp: one_active_def)
  have "map aa_id (upd (\<lambda>x. aa_id x = i) ?f (auth_attempts st)) = map aa_id (auth_attempts st)"
    by (rule map_upd_same) simp
  then have "distinct (map aa_id (auth_attempts st'))" using one(2) st'(2) by simp
  moreover have "one_active (auth_attempts st')"
    unfolding st'(2) using one(3) by (rule one_active_upd) (simp add: active_def)
  moreover have "conn_ok (c\<lparr>c_state := Monitoring, c_updated := rfc3339nano t\<rparr>) (auth_attempts st') [s]"
    unfolding conn_ok_def
  proof (intro conjI ballI impI)
    fix x
    assume "x \<in> set (auth_attempts st')"
    then obtain r where r: "r \<in> set (auth_attempts st)" "x = (if aa_id r = i then ?f r else r)"
      unfolding st'(2) by (auto simp: in_upd)
    then have "\<not> active x" using others by (auto simp: active_def)
    with r one(1) show "attempt_ok (c\<lparr>c_state := Monitoring, c_updated := rfc3339nano t\<rparr>) x"
      by (auto simp: conn_ok_def attempt_ok_def split: if_splits)
  qed (use s in auto)
  ultimately show ?thesis using commit(2) st' by (simp add: auth_inv_def)
qed

lemma conn_ok_sessions:
  assumes "map (\<lambda>s. (se_conn s, se_generation s)) ss' = map (\<lambda>s. (se_conn s, se_generation s)) ss"
  shows "conn_ok c as ss' = conn_ok c as ss"
proof -
  have eq: "(\<lambda>s. (se_conn s, se_generation s)) ` set ss' = (\<lambda>s. (se_conn s, se_generation s)) ` set ss"
    using arg_cong [OF assms, of set] by simp
  have "conn_ok c as ss \<longleftrightarrow> (\<forall>a \<in> set as. attempt_ok c a) \<and>
      (\<forall>k \<in> (\<lambda>s. (se_conn s, se_generation s)) ` set ss. fst k = c_id c) \<and>
      (c_state c = AuthStarting \<longrightarrow> (\<exists>a \<in> set as. active a \<and> aa_generation a = c_generation c)) \<and>
      (c_state c = Monitoring \<longrightarrow>
        (\<exists>k \<in> (\<lambda>s. (se_conn s, se_generation s)) ` set ss. snd k = c_generation c))" for ss
    by (simp add: conn_ok_def)
  then show ?thesis by (simp only: eq)
qed

lemma inv_refresh: "auth_inv st \<Longrightarrow> auth_inv (snd (refresh_session t conn g envelope key st))"
proof -
  assume inv: "auth_inv st"
  have "auth_inv (st\<lparr>sessions := upd p (\<lambda>s. s\<lparr>se_envelope := envelope, se_key := key,
      se_verified := ts, se_updated := ts\<rparr>) (sessions st)\<rparr>)" for p ts
    using inv
  proof (cases rule: auth_inv_cases)
    case none
    then show ?thesis by (simp add: auth_inv_def)
  next
    case (one c)
    let ?ss = "upd p (\<lambda>s. s\<lparr>se_envelope := envelope, se_key := key, se_verified := ts,
        se_updated := ts\<rparr>) (sessions st)"
    have "map (\<lambda>s. (se_conn s, se_generation s)) ?ss = map (\<lambda>s. (se_conn s, se_generation s)) (sessions st)"
      by (rule map_upd_same) simp
    from conn_ok_sessions [OF this] one show ?thesis by (simp add: auth_inv_def)
  qed
  then show ?thesis by (simp add: refresh_session_def Let_def)
qed

lemma inv_start_poll: "auth_inv st \<Longrightarrow> auth_inv (snd (start_poll i t st))"
  by (auto simp: start_poll_def Let_def auth_inv_def split: sum.splits)

definition closed_poll :: "instant \<Rightarrow> poll_row \<Rightarrow> store \<Rightarrow> store" where
  "closed_poll t p st = st\<lparr>poll_runs := upd (\<lambda>x. pr_id x = pr_id p \<and> pr_status x = PRunning)
     (poll_outcome (rfc3339nano t) p) (poll_runs st)\<rparr>"

lemma finish_poll_cases:
  obtains (rollback) e where "finish_poll t p st = (Some e, st)"
  | (succeeded) "pr_status p = PSucceeded"
      "finish_poll t p st = (None, set_connection
         (\<lambda>c. at_generation (pr_conn p) (pr_generation p) c \<and> c_state c = Monitoring)
         (\<lambda>c. c\<lparr>c_updated := rfc3339nano t\<rparr>) (closed_poll t p st))"
      "affected (\<lambda>c. at_generation (pr_conn p) (pr_generation p) c \<and> c_state c = Monitoring) (connections st) = 1"
  | (auth) "pr_status p = PAuthRequired"
      "finish_poll t p st = (None, set_connection (at_generation (pr_conn p) (pr_generation p))
         (require_auth (rfc3339nano t)) (closed_poll t p st))"
      "affected (at_generation (pr_conn p) (pr_generation p)) (connections st) = 1"
  | (other) "pr_status p \<noteq> PSucceeded" "pr_status p \<noteq> PAuthRequired" "pr_status p \<noteq> PRunning"
      "finish_poll t p st = (None, closed_poll t p st)"
proof (cases "pr_status p = PRunning")
  case True
  then show ?thesis by (intro rollback) (simp add: finish_poll_def)
next
  case run: False
  show ?thesis
  proof (cases "finish_poll_tx t p st")
    case (Inl e)
    with run show ?thesis by (intro rollback) (simp add: finish_poll_def with_tx_def)
  next
    case (Inr r)
    then have fp: "finish_poll t p st = (None, fst r)"
      using run by (cases r) (simp add: finish_poll_def with_tx_def)
    from Inr have tx: "finish_poll_tx t p st = Inr (fst r, ())" by (cases r) simp
    show ?thesis
    proof (cases "pr_status p = PSucceeded \<or> pr_status p = PAuthRequired")
      case False
      with tx have "fst r = closed_poll t p st"
        by (auto simp: finish_poll_tx_def closed_poll_def Let_def split: if_splits)
      with False run fp show ?thesis by (intro other) auto
    next
      case True
      then show ?thesis
      proof
        assume p: "pr_status p = PSucceeded"
        from tx show ?thesis
          by (intro succeeded [OF p]) (auto simp: fp p finish_poll_tx_def closed_poll_def Let_def split: if_splits)
      next
        assume p: "pr_status p = PAuthRequired"
        from tx show ?thesis
          by (intro auth [OF p]) (auto simp: fp p finish_poll_tx_def closed_poll_def Let_def split: if_splits)
      qed
    qed
  qed
qed

lemma conn_ok_updated: "conn_ok (c\<lparr>c_updated := ts\<rparr>) as ss = conn_ok c as ss"
  by (simp add: conn_ok_def attempt_ok_def)

lemma inv_touch: "auth_inv st \<Longrightarrow> auth_inv (set_connection p (\<lambda>c. c\<lparr>c_updated := ts\<rparr>) st)"
  by (erule auth_inv_cases) (auto simp: auth_inv_def set_connection_def conn_ok_updated)

lemma inv_closed_poll: "auth_inv (closed_poll t p st) = auth_inv st"
  by (simp add: auth_inv_def closed_poll_def)

lemma inv_finish_poll: "auth_inv st \<Longrightarrow> auth_inv (snd (finish_poll t p st))"
proof (cases rule: finish_poll_cases [of t p st])
  case succeeded
  then show "auth_inv st \<Longrightarrow> ?thesis" using inv_touch [of "closed_poll t p st"] by (simp add: inv_closed_poll)
next
  case auth
  then show "auth_inv st \<Longrightarrow> ?thesis"
    using inv_bump_all [of "closed_poll t p st" "require_auth (rfc3339nano t)"]
    by (simp add: inv_closed_poll require_auth_def)
qed (simp_all add: inv_closed_poll)

lemmas inv_ops = inv_configure inv_transition inv_expire inv_start inv_mark inv_finish inv_complete
  inv_refresh inv_start_poll inv_finish_poll

lemma auth_step_inv: "auth_step st st' \<Longrightarrow> auth_inv st \<Longrightarrow> auth_inv st'"
  by (induction rule: auth_step.induct) (simp_all add: inv_ops)

lemma auth_steps_inv: "auth_step\<^sup>*\<^sup>* st st' \<Longrightarrow> auth_inv st \<Longrightarrow> auth_inv st'"
  by (induction rule: rtranclp_induct) (auto intro: auth_step_inv)

section \<open>The generation fence\<close>

text \<open>
  What the users of a generation number rely on: it never decreases, and a live generation stays
  live until the number changes. A writer that remembers the number can then tell, by comparing it
  and asking for liveness, that nothing ended in between.
\<close>

locale generation_fence =
  fixes gen :: "'s \<Rightarrow> int" and live :: "'s \<Rightarrow> bool" and step :: "'s \<Rightarrow> 's \<Rightarrow> bool"
  assumes gen_step: "step s s' \<Longrightarrow> gen s \<le> gen s'"
    and live_step: "step s s' \<Longrightarrow> gen s' = gen s \<Longrightarrow> live s \<Longrightarrow> live s'"
begin

lemma gen_steps: "step\<^sup>*\<^sup>* s s' \<Longrightarrow> gen s \<le> gen s'"
  by (induction rule: rtranclp_induct) (auto dest: gen_step)

lemma live_steps: "step\<^sup>*\<^sup>* s s' \<Longrightarrow> gen s' = gen s \<Longrightarrow> live s \<Longrightarrow> live s'"
proof (induction rule: rtranclp_induct)
  case (step y z)
  have "gen s \<le> gen y" "gen y \<le> gen z" using step.hyps gen_steps gen_step by auto
  with step.prems step.IH step.hyps(2) show ?case by (auto intro: live_step)
qed simp

lemma retired: "step\<^sup>*\<^sup>* s s' \<Longrightarrow> live s \<Longrightarrow> \<not> live s' \<Longrightarrow> gen s < gen s'"
  using gen_steps [of s s'] live_steps [of s s'] by fastforce

lemma no_revival:
  assumes "step\<^sup>*\<^sup>* s s'" "step\<^sup>*\<^sup>* s' s''" "live s" "\<not> live s'"
  shows "gen s'' \<noteq> gen s"
  using retired [OF assms(1,3,4)] gen_steps [OF assms(2)] by simp

end

text \<open>The generation and the state of the connection row, -1 before a connection is configured.\<close>

definition conn_generation :: "store \<Rightarrow> int" where
  "conn_generation st = (case connections st of [] \<Rightarrow> -1 | c # _ \<Rightarrow> c_generation c)"

definition conn_monitoring :: "store \<Rightarrow> bool" where
  "conn_monitoring st = (case connections st of [] \<Rightarrow> False | c # _ \<Rightarrow> c_state c = Monitoring)"

definition conn_le :: "connection \<Rightarrow> connection \<Rightarrow> bool" where
  "conn_le c c' \<longleftrightarrow> c_generation c < c_generation c' \<or>
     (c_generation c = c_generation c' \<and> (c_state c = Monitoring \<longrightarrow> c_state c' = Monitoring))"

definition store_le :: "store \<Rightarrow> store \<Rightarrow> bool" where
  "store_le st st' \<longleftrightarrow> conn_generation st < conn_generation st' \<or>
     (conn_generation st = conn_generation st' \<and> (conn_monitoring st \<longrightarrow> conn_monitoring st'))"

lemma store_le_refl [simp]: "store_le st st"
  by (simp add: store_le_def)

lemma store_le_trans: "store_le a b \<Longrightarrow> store_le b c \<Longrightarrow> store_le a c"
  by (auto simp: store_le_def)

lemma store_le_same: "connections st' = connections st \<Longrightarrow> store_le st st'"
  by (simp add: store_le_def conn_generation_def conn_monitoring_def)

lemma store_le_upd:
  assumes "\<And>c. p c \<Longrightarrow> conn_le c (f c)" and "connections st' = upd p f (connections st)"
  shows "store_le st st'"
proof (cases "connections st")
  case Nil
  with assms(2) show ?thesis by (simp add: store_le_same)
next
  case (Cons c cs)
  with assms(2) have "connections st' = (if p c then f c else c) # upd p f cs" by simp
  with Cons assms(1) [of c] show ?thesis
    by (cases "p c") (auto simp: store_le_def conn_generation_def conn_monitoring_def conn_le_def)
qed

lemma store_le_expire_one: "store_le st (expire_one ts a st)"
  by (rule store_le_upd)
    (auto simp: expire_one_def set_connection_def set_attempt_def conn_le_def require_auth_def)

lemma store_le_expire: "store_le st (fold (expire_one ts) as st)"
  by (induction as arbitrary: st) (auto intro: store_le_trans store_le_expire_one)

lemma store_le_configure: "store_le st (snd (configure_connection i t m st))"
  by (auto simp: configure_connection_def Let_def with_tx_def store_le_def conn_generation_def
      conn_monitoring_def)

lemma store_le_transition: "store_le st (snd (transition_connection t act st))"
  using transition_effect [of t act st]
proof
  assume "\<exists>next. next \<noteq> AuthStarting \<and> next \<noteq> Monitoring \<and>
      snd (transition_connection t act st) = set_connection (\<lambda>_. True)
        (\<lambda>c. c\<lparr>c_state := next, c_generation := c_generation c + 1, c_updated := rfc3339nano t\<rparr>) st"
  then obtain "next" where "snd (transition_connection t act st) = set_connection (\<lambda>_. True)
        (\<lambda>c. c\<lparr>c_state := next, c_generation := c_generation c + 1, c_updated := rfc3339nano t\<rparr>) st"
    by blast
  then show ?thesis by (intro store_le_upd) (auto simp: set_connection_def conn_le_def)
qed simp

lemma store_le_start: "store_le st (snd (start_attempt_tx i t owner ttl c st))"
proof (cases rule: start_attempt_tx_cases [of i t owner ttl c st])
  case (commit st1 a)
  have "store_le st st1"
    by (rule store_le_upd [where p = "at_generation (c_id c) (c_generation c)"
          and f = "\<lambda>x. x\<lparr>c_state := AuthStarting, c_generation := aa_generation a, c_updated := rfc3339nano t\<rparr>"])
      (auto simp: commit(1,5) set_connection_def conn_le_def at_generation_def new_attempt_def)
  with commit(4) show ?thesis by simp
qed simp

lemma store_le_mark: "store_le st (snd (mark_in_progress i st))"
  by (rule store_le_same) (simp add: mark_in_progress_def Let_def set_attempt_def)

lemma store_le_finish: "store_le st (snd (finish_attempt t i status st))"
proof (cases "status \<noteq> ACancelled \<and> status \<noteq> AExpired \<and> status \<noteq> AFailed
    \<or> sel1 (\<lambda>a. aa_id a = i \<and> active a) (auth_attempts st) = None")
  case True
  then show ?thesis by (auto simp: finish_attempt_def with_tx_def)
next
  case False
  then obtain a where a: "sel1 (\<lambda>a. aa_id a = i \<and> active a) (auth_attempts st) = Some a" by blast
  with False show ?thesis
    by (intro store_le_upd [where p = "at_generation (aa_conn a) (aa_generation a)"
          and f = "require_auth (rfc3339nano t)"])
      (auto simp: finish_attempt_def with_tx_def set_connection_def set_attempt_def conn_le_def require_auth_def)
qed

lemma store_le_complete: "store_le st (snd (complete_auth_session t i envelope st))"
proof (cases rule: complete_cases [of t i envelope st])
  case (commit st')
  obtain a :: attempt_row where "connections st' = upd (\<lambda>c. at_generation (aa_conn a) (aa_generation a) c \<and> c_state c = AuthStarting)
       (\<lambda>c. c\<lparr>c_state := Monitoring, c_updated := rfc3339nano t\<rparr>) (connections st)"
  proof (rule complete_tx_Inr [OF commit(1)])
    fix a :: attempt_row
    assume "connections st' = upd (\<lambda>c. at_generation (aa_conn a) (aa_generation a) c \<and> c_state c = AuthStarting)
       (\<lambda>c. c\<lparr>c_state := Monitoring, c_updated := rfc3339nano t\<rparr>) (connections st)"
    then show thesis by (rule that)
  qed
  then have "store_le st st'" by (rule store_le_upd [rotated]) (auto simp: conn_le_def)
  with commit(2) show ?thesis by simp
qed simp

lemma store_le_refresh: "store_le st (snd (refresh_session t conn g envelope key st))"
  by (rule store_le_same) (simp add: refresh_session_def Let_def)

lemma store_le_start_poll: "store_le st (snd (start_poll i t st))"
  by (rule store_le_same) (auto simp: start_poll_def Let_def split: sum.splits)

lemma store_le_finish_poll: "store_le st (snd (finish_poll t p st))"
proof (cases rule: finish_poll_cases [of t p st])
  case succeeded
  then show ?thesis
    by (intro store_le_upd [where f = "\<lambda>c. c\<lparr>c_updated := rfc3339nano t\<rparr>"])
      (auto simp: set_connection_def closed_poll_def conn_le_def)
next
  case auth
  then show ?thesis
    by (intro store_le_upd [where f = "require_auth (rfc3339nano t)"])
      (auto simp: set_connection_def closed_poll_def conn_le_def require_auth_def)
qed (auto intro: store_le_same simp: closed_poll_def)

lemmas store_le_ops = store_le_configure store_le_transition store_le_start store_le_mark
  store_le_finish store_le_complete store_le_refresh store_le_start_poll store_le_finish_poll

lemma auth_step_le: "auth_step st st' \<Longrightarrow> store_le st st'"
  by (induction rule: auth_step.induct)
    (simp_all add: store_le_ops expire_stale_attempts_def Let_def store_le_expire)

interpretation conn_fence: generation_fence conn_generation conn_monitoring auth_step
  by unfold_locales (fastforce dest: auth_step_le simp: store_le_def)+

section \<open>Properties\<close>

text \<open>A session of the life cycle, for the concrete instances.\<close>

definition demo0 :: store where
  "demo0 = snd (configure_connection ''c'' 0 ''***1'' empty_store)"

definition demo1 :: store where
  "demo1 = snd (start_auth_attempt ''a'' second ''owner'' minute demo0)"

definition demo2 :: store where
  "demo2 = snd (complete_auth_session (2 * second) ''a'' ''sealed'' demo1)"

lemma demo0_steps: "auth_step\<^sup>*\<^sup>* empty_store demo0"
  unfolding demo0_def by (intro r_into_rtranclp auth_step.intros)

lemma demo1_steps: "auth_step\<^sup>*\<^sup>* empty_store demo1"
  unfolding demo1_def using demo0_steps start_auth_attempt_steps by (rule rtranclp_trans)

lemma demo2_steps: "auth_step\<^sup>*\<^sup>* demo1 demo2"
  unfolding demo2_def by (intro r_into_rtranclp auth_step.intros)

lemma demo_states:
  "conn_generation demo1 = 1" "\<not> conn_monitoring demo1" "conn_generation demo2 = 1" "conn_monitoring demo2"
  by code_simp+

lemma auth_reachable_parts:
  assumes "auth_step\<^sup>*\<^sup>* empty_store st"
  shows "length (connections st) \<le> 1"
    and "\<And>a b. a \<in> set (auth_attempts st) \<Longrightarrow> b \<in> set (auth_attempts st) \<Longrightarrow> active a \<Longrightarrow> active b \<Longrightarrow> a = b"
    and "\<And>a c. a \<in> set (auth_attempts st) \<Longrightarrow> c \<in> set (connections st) \<Longrightarrow> active a \<Longrightarrow>
           aa_generation a \<le> c_generation c \<and> (aa_generation a = c_generation c \<longrightarrow> c_state c = AuthStarting)"
    and "\<And>c. c \<in> set (connections st) \<Longrightarrow> c_state c = AuthStarting \<Longrightarrow>
           \<exists>a \<in> set (auth_attempts st). active a \<and> aa_generation a = c_generation c"
    and "\<And>c. c \<in> set (connections st) \<Longrightarrow> c_state c = Monitoring \<Longrightarrow>
           \<exists>s. get_session (c_id c) (c_generation c) st = Inr s"
proof -
  have inv: "auth_inv st" by (rule auth_steps_inv [OF assms auth_inv_empty])
  show "length (connections st) \<le> 1" using inv by (cases rule: auth_inv_cases) auto
  show "a = b" if "a \<in> set (auth_attempts st)" "b \<in> set (auth_attempts st)" "active a" "active b" for a b
    using inv that by (cases rule: auth_inv_cases) (auto simp: one_active_def)
  show "aa_generation a \<le> c_generation c \<and> (aa_generation a = c_generation c \<longrightarrow> c_state c = AuthStarting)"
    if "a \<in> set (auth_attempts st)" "c \<in> set (connections st)" "active a" for a c
    using inv that by (cases rule: auth_inv_cases) (auto simp: conn_ok_def attempt_ok_def)
  show "\<exists>a \<in> set (auth_attempts st). active a \<and> aa_generation a = c_generation c"
    if "c \<in> set (connections st)" "c_state c = AuthStarting" for c
    using inv that by (cases rule: auth_inv_cases) (auto simp: conn_ok_def)
  show "\<exists>s. get_session (c_id c) (c_generation c) st = Inr s"
    if "c \<in> set (connections st)" "c_state c = Monitoring" for c
    using inv that sel1_None [of "\<lambda>s. se_conn s = c_id c \<and> se_generation s = c_generation c" "sessions st"]
    by (cases rule: auth_inv_cases) (auto simp: conn_ok_def get_session_def split: option.splits)
qed

text \<open>
  Property C1. In every reachable state there is at most one connection and at most one active
  attempt; an active attempt at the connection's own generation means the connection is
  AUTH_STARTING, and AUTH_STARTING means there is one; MONITORING means that a session of exactly
  the current generation is stored.
\<close>

theorem auth_reachable:
  assumes "auth_step\<^sup>*\<^sup>* empty_store st"
  shows "length (connections st) \<le> 1
    \<and> (\<forall>a \<in> set (auth_attempts st). \<forall>b \<in> set (auth_attempts st). active a \<and> active b \<longrightarrow> a = b)
    \<and> (\<forall>a \<in> set (auth_attempts st). \<forall>c \<in> set (connections st). active a \<longrightarrow>
         aa_generation a \<le> c_generation c \<and> (aa_generation a = c_generation c \<longrightarrow> c_state c = AuthStarting))
    \<and> (\<forall>c \<in> set (connections st). c_state c = AuthStarting \<longrightarrow>
         (\<exists>a \<in> set (auth_attempts st). active a \<and> aa_generation a = c_generation c))
    \<and> (\<forall>c \<in> set (connections st). c_state c = Monitoring \<longrightarrow>
         (\<exists>s. get_session (c_id c) (c_generation c) st = Inr s))"
  using auth_reachable_parts [OF assms] by blast

theorem auth_reachable_witness:
  "\<exists>a \<in> set (auth_attempts demo1). active a \<and> aa_generation a = c_generation (hd (connections demo1))"
proof -
  have "hd (connections demo1) \<in> set (connections demo1)" "c_state (hd (connections demo1)) = AuthStarting"
    by code_simp+
  then show ?thesis using auth_reachable [OF demo1_steps] by blast
qed

lemma generation_fenced_parts:
  assumes "auth_step\<^sup>*\<^sup>* st st'" and "conn_monitoring st"
  shows "conn_generation st \<le> conn_generation st'"
    and "conn_generation st' = conn_generation st \<Longrightarrow> conn_monitoring st'"
    and "\<And>st''. \<not> conn_monitoring st' \<Longrightarrow> auth_step\<^sup>*\<^sup>* st' st'' \<Longrightarrow>
           conn_generation st'' \<noteq> conn_generation st"
  using conn_fence.gen_steps [OF assms(1)] conn_fence.live_steps [OF assms(1) _ assms(2)]
    conn_fence.no_revival [OF assms(1) _ assms(2)]
  by blast+

text \<open>
  Property C2. The generation fence: along any sequence of operations the generation never
  decreases, and if a connection that was monitoring is found at the same generation later, it is
  still monitoring; once a generation stopped monitoring it is never current again.
\<close>

theorem generation_fenced:
  assumes "auth_step\<^sup>*\<^sup>* st st'" and "conn_monitoring st"
  shows "conn_generation st \<le> conn_generation st'
    \<and> (conn_generation st' = conn_generation st \<longrightarrow> conn_monitoring st')
    \<and> (\<not> conn_monitoring st' \<longrightarrow>
         (\<forall>st''. auth_step\<^sup>*\<^sup>* st' st'' \<longrightarrow> conn_generation st'' \<noteq> conn_generation st))"
  using generation_fenced_parts [OF assms] by blast

theorem generation_fenced_witness:
  "conn_generation demo2 \<le> conn_generation (snd (transition_connection 0 ''pause'' demo2))"
  using generation_fenced [OF r_into_rtranclp demo_states(4)] transition by blast

text \<open>
  Property C3. In a reachable state that is AUTH_STARTING, completing the active attempt of the
  current generation succeeds: the connection is MONITORING at that same generation, and the
  session read back for it holds the envelope that was handed in.
\<close>

theorem complete_succeeds:
  assumes "auth_step\<^sup>*\<^sup>* empty_store st" and "connections st = [c]" and "c_state c = AuthStarting"
    and "a \<in> set (auth_attempts st)" and "active a" and "aa_generation a = c_generation c"
    and "complete_auth_session t (aa_id a) envelope st = (r, st')"
  shows "\<exists>c' s. r = Inr c' \<and> connections st' = [c'] \<and> c_state c' = Monitoring
    \<and> c_generation c' = c_generation c \<and> get_session (c_id c') (c_generation c') st' = Inr s
    \<and> se_envelope s = envelope"
proof -
  have inv: "auth_inv st" by (rule auth_steps_inv [OF assms(1) auth_inv_empty])
  have ok: "conn_ok c (auth_attempts st) (sessions st)" "distinct (map aa_id (auth_attempts st))"
    using inv assms(2) by (simp_all add: auth_inv_def)
  have aok: "aa_conn a = c_id c" "aa_status a = AStarting \<or> aa_status a = AInProgress"
    using ok(1) assms(4,5) by (cases "aa_status a"; force simp: conn_ok_def attempt_ok_def active_def)+
  have sel: "sel1 (\<lambda>x. aa_id x = aa_id a \<and> (aa_status x = AStarting \<or> aa_status x = AInProgress))
      (auth_attempts st) = Some a"
  proof (cases "sel1 (\<lambda>x. aa_id x = aa_id a \<and> (aa_status x = AStarting \<or> aa_status x = AInProgress))
      (auth_attempts st)")
    case None
    then show ?thesis using assms(4) aok(2) by (auto simp: sel1_None)
  next
    case (Some b)
    from sel1_Some [OF this] have "b \<in> set (auth_attempts st)" "aa_id b = aa_id a" by auto
    then have "b = a" using distinct_key_eq [OF ok(2)] assms(4) by blast
    with Some show ?thesis by simp
  qed
  have aff: "affected (\<lambda>x. at_generation (aa_conn a) (aa_generation a) x \<and> c_state x = AuthStarting) [c] = 1"
    using aok(1) assms(3,6) by (simp add: affected_def at_generation_def)
  have "\<exists>st1. complete_tx t (aa_id a) envelope st = Inr (st1, ())"
    using assms(2) aff aok(1)
    by (simp add: complete_tx_def sel Let_def upsert_session_def has_connection_def set_attempt_def
        set_connection_def)
  then obtain st1 where st1: "complete_tx t (aa_id a) envelope st = Inr (st1, ())" by blast
  then have r: "r = get_connection st1" "st' = st1"
    using assms(7) by (auto simp: complete_auth_session_def with_tx_def)
  obtain c0 s where "connections st = [c0]"
    "connections st1 = [c0\<lparr>c_state := Monitoring, c_updated := rfc3339nano t\<rparr>]"
    "sessions st1 = [s]" "se_conn s = c_id c0" "se_generation s = c_generation c0" "se_envelope s = envelope"
    by (rule complete_one [OF st1 inv])
  with assms(2) r show ?thesis
    by (simp add: get_connection_def get_session_def sel1_def)
qed

theorem complete_succeeds_witness:
  "\<exists>c' s. fst (complete_auth_session (2 * second) ''a'' ''sealed'' demo1) = Inr c'
    \<and> connections demo2 = [c'] \<and> c_state c' = Monitoring
    \<and> c_generation c' = c_generation (hd (connections demo1))
    \<and> get_session (c_id c') (c_generation c') demo2 = Inr s \<and> se_envelope s = ''sealed''"
proof (rule complete_succeeds [OF demo1_steps, where a = "hd (auth_attempts demo1)"
      and c = "hd (connections demo1)"])
  show "complete_auth_session (2 * second) (aa_id (hd (auth_attempts demo1))) ''sealed'' demo1 =
      (fst (complete_auth_session (2 * second) ''a'' ''sealed'' demo1), demo2)"
  proof -
    have "aa_id (hd (auth_attempts demo1)) = ''a''" by code_simp
    then show ?thesis by (simp add: demo2_def)
  qed
  show "connections demo1 = [hd (connections demo1)]" by code_simp
  show "hd (auth_attempts demo1) \<in> set (auth_attempts demo1)" by code_simp
qed code_simp+

lemma closing_leaves_monitoring_parts:
  assumes "auth_step\<^sup>*\<^sup>* empty_store st" and "conn_monitoring st"
  shows "connections (snd (finish_attempt t i status st)) = connections st"
    and "connections (snd (expire_stale_attempts t st)) = connections st"
proof -
  have inv: "auth_inv st" by (rule auth_steps_inv [OF assms(1) auth_inv_empty])
  obtain c where c: "connections st = [c]" "conn_ok c (auth_attempts st) (sessions st)"
    "c_state c = Monitoring"
    using inv assms(2) by (cases rule: auth_inv_cases) (auto simp: conn_monitoring_def)
  have old: "aa_generation a \<noteq> c_generation c" if "a \<in> set (auth_attempts st)" "active a" for a
    using c that by (auto simp: conn_ok_def attempt_ok_def)
  have sel: "\<not> at_generation (aa_conn a) (aa_generation a) c"
    if "sel1 (\<lambda>a. aa_id a = i \<and> active a) (auth_attempts st) = Some a" for a
    using old [of a] sel1_Some [OF that] by (auto simp: at_generation_def)
  show "connections (snd (finish_attempt t i status st)) = connections st"
    using c(1) sel
    by (auto simp: finish_attempt_def with_tx_def set_connection_def set_attempt_def split: option.splits)
  have keep: "connections s = [c] \<Longrightarrow> connections (fold (expire_one ts) as s) = [c]" for ts as s
    by (induction as arbitrary: s)
      (auto simp: expire_one_def set_connection_def set_attempt_def c(3))
  show "connections (snd (expire_stale_attempts t st)) = connections st"
    using keep [OF c(1)] c(1) by (simp add: expire_stale_attempts_def Let_def)
qed

text \<open>
  Closing a leftover attempt (cancelled, expired or failed) never disturbs a
  connection that is monitoring, and neither does expiring stale attempts.
\<close>

theorem closing_leaves_monitoring:
  assumes "auth_step\<^sup>*\<^sup>* empty_store st" and "conn_monitoring st"
  shows "connections (snd (finish_attempt t i status st)) = connections st
    \<and> connections (snd (expire_stale_attempts t st)) = connections st"
  using closing_leaves_monitoring_parts [OF assms] by blast

theorem closing_leaves_monitoring_witness:
  "connections (snd (finish_attempt 0 ''a'' ACancelled demo2)) = connections demo2"
  using closing_leaves_monitoring [OF rtranclp_trans [OF demo1_steps demo2_steps] demo_states(4)]
  by blast

lemma expire_clears:
  assumes "auth_inv st" and "\<And>a. a \<in> set (auth_attempts st) \<Longrightarrow> active a \<Longrightarrow> aa_expires a \<le> rfc3339nano t"
    and "a \<in> set (auth_attempts (snd (expire_stale_attempts t st)))"
  shows "\<not> active a" and "aa_id a \<in> aa_id ` set (auth_attempts st)"
proof -
  let ?ts = "rfc3339nano t"
  have one: "one_active (auth_attempts st)" "distinct (map aa_id (auth_attempts st))"
    using assms(1) by (cases rule: auth_inv_cases; simp add: one_active_def)+
  have all: "x \<in> set (stale_attempts ?ts st)" if "x \<in> set (auth_attempts st)" "active x" for x
    using assms(2) that by (simp add: stale_attempts_def)
  consider "stale_attempts ?ts st = []"
    | b where "b \<in> set (auth_attempts st)" "active b" "stale_attempts ?ts st = [b]"
    using active_stale [OF one, of "\<lambda>a. aa_expires a \<le> ?ts"] unfolding stale_attempts_def by auto
  then have "\<not> active a \<and> aa_id a \<in> aa_id ` set (auth_attempts st)"
  proof cases
    case 1
    with all assms(3) show ?thesis by (fastforce simp: expire_stale_attempts_def Let_def)
  next
    case (2 b)
    have "a \<in> set (upd (\<lambda>x. aa_id x = aa_id b) (\<lambda>x. x\<lparr>aa_status := AExpired, aa_finished := Some ?ts\<rparr>)
        (auth_attempts st))"
      using assms(3) 2(3)
      by (simp add: expire_stale_attempts_def Let_def expire_one_def set_connection_def set_attempt_def)
    then obtain x where x: "x \<in> set (auth_attempts st)"
      "a = (if aa_id x = aa_id b then x\<lparr>aa_status := AExpired, aa_finished := Some ?ts\<rparr> else x)"
      by (auto simp: in_upd)
    have "x = b" if "active x" using all [OF x(1) that] 2(3) by simp
    with x 2(1) show ?thesis by (auto simp: active_def intro: imageI)
  qed
  then show "\<not> active a" "aa_id a \<in> aa_id ` set (auth_attempts st)" by blast+
qed

lemma expire_connection:
  assumes "auth_inv st" "connections st = [c]"
  shows "\<exists>c'. connections (snd (expire_stale_attempts t st)) = [c'] \<and> c_generation c \<le> c_generation c'"
proof -
  have "auth_step st (snd (expire_stale_attempts t st))" by (rule expire)
  have "length (connections (fold (expire_one ts) as s)) = length (connections s)" for ts as s
    by (induction as arbitrary: s) (simp_all add: expire_one_def set_connection_def set_attempt_def)
  then have "length (connections (snd (expire_stale_attempts t st))) = 1"
    using assms(2) by (simp add: expire_stale_attempts_def Let_def)
  then obtain c' where "connections (snd (expire_stale_attempts t st)) = [c']"
    by (auto simp: length_Suc_conv)
  with auth_step_le [OF \<open>auth_step st _\<close>] assms(2) show ?thesis
    by (auto simp: store_le_def conn_generation_def)
qed

text \<open>
  Property C4. A stale attempt cannot lock authentication out: in a reachable state whose active
  attempts have all expired by now, starting an attempt (with an unused identifier and a positive
  time to live) succeeds, moves the connection to AUTH_STARTING under a higher generation, and the
  new attempt carries that generation.
\<close>

theorem start_never_locked_out:
  assumes "auth_step\<^sup>*\<^sup>* empty_store st" and "connections st = [c]"
    and "\<And>a. a \<in> set (auth_attempts st) \<Longrightarrow> active a \<Longrightarrow> aa_expires a \<le> rfc3339nano t"
    and "i \<notin> aa_id ` set (auth_attempts st)" and "0 < ttl"
    and "start_auth_attempt i t owner ttl st = (r, st')"
  shows "\<exists>a c'. r = Inr a \<and> connections st' = [c'] \<and> c_state c' = AuthStarting
    \<and> c_generation c < c_generation c' \<and> aa_generation a = c_generation c' \<and> a \<in> set (auth_attempts st')"
proof -
  have inv: "auth_inv st" by (rule auth_steps_inv [OF assms(1) auth_inv_empty])
  define st1 where "st1 = snd (expire_stale_attempts t st)"
  obtain c1 where c1: "connections st1 = [c1]" "c_generation c \<le> c_generation c1"
    using expire_connection [OF inv assms(2)] by (auto simp: st1_def)
  have clear: "\<not> active a \<and> aa_id a \<noteq> i" if "a \<in> set (auth_attempts st1)" for a
    using expire_clears [OF inv assms(3)] that assms(4) unfolding st1_def by blast
  have "\<not> has_active_attempt t (c_id c1) st1"
    using clear by (auto simp: has_active_attempt_def affected_def filter_empty_conv)
  then have r: "start_attempt_tx i t owner ttl c1 st1 = (r, st')"
    using assms(5,6) c1(1) by (simp add: start_auth_attempt_def st1_def [symmetric] get_connection_def)
  let ?a = "new_attempt i t owner ttl c1"
  have "\<exists>st2. start_attempt_tx i t owner ttl c1 st1 = (Inr ?a, st2)"
    using c1(1) clear
    by (simp add: start_attempt_tx_def Let_def with_tx_def set_connection_def affected_def
        at_generation_def insert_attempt_def insert_row_def new_attempt_def has_connection_def list_ex_iff)
  then show ?thesis
    using r c1
    by (cases rule: start_attempt_tx_cases [of i t owner ttl c1 st1])
      (auto simp: set_connection_def at_generation_def new_attempt_def)
qed

definition demo1_late :: "attempt_row result \<times> store" where
  "demo1_late = start_auth_attempt ''b'' (2 * minute) ''owner'' minute demo1"

theorem start_never_locked_out_witness:
  "\<exists>a c'. fst demo1_late = Inr a \<and> connections (snd demo1_late) = [c'] \<and> c_state c' = AuthStarting
    \<and> c_generation (hd (connections demo1)) < c_generation c' \<and> aa_generation a = c_generation c'
    \<and> a \<in> set (auth_attempts (snd demo1_late))"
proof (rule start_never_locked_out [OF demo1_steps])
  show "connections demo1 = [hd (connections demo1)]" by code_simp
  show "aa_expires a \<le> rfc3339nano (2 * minute)" if "a \<in> set (auth_attempts demo1)" for a
  proof -
    have "list_all (\<lambda>a. aa_expires a \<le> rfc3339nano (2 * minute)) (auth_attempts demo1)" by code_simp
    with that show ?thesis by (simp add: list_all_iff)
  qed
  show "''b'' \<notin> aa_id ` set (auth_attempts demo1)"
  proof -
    have "map aa_id (auth_attempts demo1) = [''a'']" by code_simp
    from arg_cong [OF this, of set] show ?thesis by simp
  qed
  show "0 < minute" by code_simp
  show "start_auth_attempt ''b'' (2 * minute) ''owner'' minute demo1 = (fst demo1_late, snd demo1_late)"
    by (simp add: demo1_late_def)
qed

lemma finish_poll_fenced_parts:
  assumes "finish_poll t p st = (None, st')" and "length (connections st) \<le> 1"
  shows "pr_status p = PSucceeded \<Longrightarrow> conn_monitoring st \<and> conn_generation st = pr_generation p
           \<and> conn_monitoring st' \<and> conn_generation st' = pr_generation p"
    and "pr_status p = PAuthRequired \<Longrightarrow> conn_generation st = pr_generation p
           \<and> conn_generation st' = pr_generation p + 1 \<and> \<not> conn_monitoring st'"
    and "pr_status p \<noteq> PSucceeded \<Longrightarrow> pr_status p \<noteq> PAuthRequired \<Longrightarrow> connections st' = connections st"
    and "\<exists>e. finish_poll t' p st' = (Some e, st')"
proof -
  have runs: "poll_runs st' = poll_runs (closed_poll t p st) \<and> pr_status p \<noteq> PRunning"
    using assms(1) by (cases rule: finish_poll_cases [of t p st]) (auto simp: set_connection_def)
  have "\<not> (pr_id x = pr_id p \<and> pr_status x = PRunning)" if xin: "x \<in> set (poll_runs st')" for x
  proof -
    obtain y :: poll_row where "x = (if pr_id y = pr_id p \<and> pr_status y = PRunning
        then poll_outcome (rfc3339nano t) p y else y)"
      using xin runs by (auto simp: closed_poll_def in_upd)
    then show ?thesis using runs by (cases "pr_id y = pr_id p \<and> pr_status y = PRunning") (auto simp: poll_outcome_def)
  qed
  then have "affected (\<lambda>x. pr_id x = pr_id p \<and> pr_status x = PRunning) (poll_runs st') = 0"
    by (simp add: affected_zero)
  then show "\<exists>e. finish_poll t' p st' = (Some e, st')"
    using runs by (simp add: finish_poll_def with_tx_def finish_poll_tx_def Let_def)
  consider "connections st = []" | c where "connections st = [c]"
    using assms(2) by (cases "connections st") auto
  note c = this
  show "conn_monitoring st \<and> conn_generation st = pr_generation p
      \<and> conn_monitoring st' \<and> conn_generation st' = pr_generation p" if "pr_status p = PSucceeded"
    using assms(1) c that
    by (cases rule: finish_poll_cases [of t p st]; cases rule: c)
      (auto simp: set_connection_def closed_poll_def affected_def at_generation_def
        conn_monitoring_def conn_generation_def split: if_splits)
  show "conn_generation st = pr_generation p
      \<and> conn_generation st' = pr_generation p + 1 \<and> \<not> conn_monitoring st'" if "pr_status p = PAuthRequired"
    using assms(1) that
    by (cases rule: finish_poll_cases [of t p st]; cases rule: c)
      (auto simp: set_connection_def closed_poll_def affected_def at_generation_def require_auth_def
        conn_monitoring_def conn_generation_def split: if_splits)
  show "connections st' = connections st" if "pr_status p \<noteq> PSucceeded" "pr_status p \<noteq> PAuthRequired"
    using assms(1) that by (cases rule: finish_poll_cases [of t p st]) (auto simp: closed_poll_def)
qed

definition demo_poll :: "poll_row result \<times> store" where
  "demo_poll = start_poll ''p'' (3 * second) demo2"

definition demo_auth_lost :: poll_row where
  "demo_auth_lost = (case fst demo_poll of Inr p \<Rightarrow> p\<lparr>pr_status := PAuthRequired\<rparr>)"

text \<open>
  A poll's outcome is recorded once and only for its own generation: a recorded
  SUCCEEDED implies the connection was monitoring at the poll's generation, a recorded
  AUTH_REQUIRED retires that generation, every other outcome leaves the connection row as it was,
  and after any recorded outcome the same run cannot be finished again.
\<close>

theorem finish_poll_fenced:
  assumes "finish_poll t p st = (None, st')" and "length (connections st) \<le> 1"
  shows "(pr_status p = PSucceeded \<longrightarrow> conn_monitoring st \<and> conn_generation st = pr_generation p
            \<and> conn_monitoring st' \<and> conn_generation st' = pr_generation p)
    \<and> (pr_status p = PAuthRequired \<longrightarrow> conn_generation st = pr_generation p
            \<and> conn_generation st' = pr_generation p + 1 \<and> \<not> conn_monitoring st')
    \<and> (pr_status p \<noteq> PSucceeded \<longrightarrow> pr_status p \<noteq> PAuthRequired \<longrightarrow> connections st' = connections st)
    \<and> (\<exists>e. finish_poll t' p st' = (Some e, st'))"
  using finish_poll_fenced_parts [OF assms] by blast

theorem finish_poll_fenced_witness:
  "conn_generation (snd demo_poll) = pr_generation demo_auth_lost
   \<and> conn_generation (snd (finish_poll (4 * second) demo_auth_lost (snd demo_poll)))
       = pr_generation demo_auth_lost + 1
   \<and> \<not> conn_monitoring (snd (finish_poll (4 * second) demo_auth_lost (snd demo_poll)))"
proof -
  have "fst (finish_poll (4 * second) demo_auth_lost (snd demo_poll)) = None" by code_simp
  then have 1: "finish_poll (4 * second) demo_auth_lost (snd demo_poll) =
      (None, snd (finish_poll (4 * second) demo_auth_lost (snd demo_poll)))"
    by (cases "finish_poll (4 * second) demo_auth_lost (snd demo_poll)") simp
  have 2: "length (connections (snd demo_poll)) \<le> 1" by code_simp
  have "pr_status demo_auth_lost = PAuthRequired" by code_simp
  with finish_poll_fenced [OF 1 2] show ?thesis by blast
qed

end
