(* ===== verification/Ingest.thy ===== *)
theory Ingest
  imports Store
begin

text \<open>
  \<open>transactions.go\<close>, the emission and payload part of \<open>events.go\<close>, and \<open>journal.go\<close>: how observed
  transactions enter the database, and with them events, deliveries and journal entries, in one
  SQLite transaction under the generation fence. Randomness, the clock and SHA-256 are the
  environment \<open>env\<close>: the \<open>n\<close>-th identifier text drawn, the \<open>n\<close>-th clock reading, the digest.
\<close>

record env =
  en_rand :: "nat \<Rightarrow> string"
  en_now :: "nat \<Rightarrow> instant"
  en_sha :: "string \<Rightarrow> string"

text \<open>\<open>id(prefix)\<close> and \<open>now()\<close>.\<close>

definition new_id :: "env \<Rightarrow> string \<Rightarrow> nat \<Rightarrow> string" where
  "new_id en prefix k = prefix @ ''_'' @ en_rand en k"

definition now_str :: "env \<Rightarrow> nat \<Rightarrow> string" where
  "now_str en k = rfc3339nano (en_now en k)"

record batch_item =
  bi_number :: string
  bi_credit :: int
  bi_debit :: int
  bi_balance :: "int option"
  bi_at :: string
  bi_effective :: string
  bi_desc :: string

record event_note =
  nt_event :: string
  nt_type :: string
  nt_txn :: string
  nt_payload :: payload
  nt_created :: string
  nt_seq :: int
  nt_epoch :: string

record batch_result =
  br_inserted :: nat
  br_skipped :: nat
  br_conflicts :: nat
  br_events :: "event_note list"

definition batch0 :: batch_result where
  "batch0 = \<lparr>br_inserted = 0, br_skipped = 0, br_conflicts = 0, br_events = []\<rparr>"

section \<open>Rows of the batch\<close>

definition credit_type :: string where "credit_type = ''bank.transaction.credit''"

definition semantic_key :: "string \<Rightarrow> string" where
  "semantic_key number = ''ACB:'' @ number"

definition canonical_hash :: "batch_item \<Rightarrow> string" where
  "canonical_hash it = bi_number it @ '':'' @ show_int (bi_credit it) @ '':'' @ show_int (bi_debit it)
     @ '':'' @ bi_at it"

text \<open>The seed of the event digest: namespace, semantic key and event type separated by NUL.\<close>

definition event_seed :: "string \<Rightarrow> string \<Rightarrow> string \<Rightarrow> string" where
  "event_seed ns key ty = ns @ [CHR 0x00] @ key @ [CHR 0x00] @ ty"

definition event_id_of :: "env \<Rightarrow> string \<Rightarrow> string" where
  "event_id_of en seed = ''bevt_'' @ hex_encode (take 16 (en_sha en seed))"

text \<open>The canonical date columns; a date that does not normalise is kept raw.\<close>

definition date_columns :: "string \<Rightarrow> string \<times> string \<times> string" where
  "date_columns raw =
     (case normalize_date raw of
        Inr d \<Rightarrow> (cd_iso d, cd_day d, cd_precision d)
      | Inl _ \<Rightarrow> (raw, [], ''unknown''))"

definition txn_of ::
  "string \<Rightarrow> string \<Rightarrow> string \<Rightarrow> bool \<Rightarrow> string \<Rightarrow> batch_item \<Rightarrow> txn_row" where
  "txn_of i ts conn baseline source it =
     (case date_columns (bi_at it) of (dt, day, precision) \<Rightarrow>
        \<lparr>tx_id = i, tx_conn = conn, tx_key = semantic_key (bi_number it),
         tx_hash = canonical_hash it, tx_date = bi_at it, tx_effective = bi_effective it,
         tx_debit = bi_debit it, tx_credit = bi_credit it, tx_balance = bi_balance it,
         tx_desc = bi_desc it, tx_parser = ''v1'',
         tx_baseline = (if baseline then ''BASELINE'' else ''NONE''), tx_seen = ts, tx_iso = dt,
         tx_day = day, tx_precision = precision, tx_source = source\<rparr>)"

definition credit_payload :: "string \<Rightarrow> string \<Rightarrow> txn_row \<Rightarrow> payload" where
  "credit_payload masked number x =
     CreditEvent \<lparr>cr_bank = ''ACB'', cr_masked = masked, cr_txn = tx_id x, cr_number = number,
        cr_credit = show_int (tx_credit x), cr_debit = show_int (tx_debit x), cr_currency = ''VND'',
        cr_date = tx_iso x, cr_day = tx_day x, cr_precision = tx_precision x,
        cr_source = tx_source x, cr_desc = tx_desc x, cr_detected = tx_seen x,
        cr_balance = map_option show_int (tx_balance x)\<rparr>"

text \<open>The notification and delivery policy.\<close>

definition emits_credit :: "bool \<Rightarrow> string \<Rightarrow> int \<Rightarrow> bool" where
  "emits_credit baseline source credit \<longleftrightarrow>
     \<not> baseline \<and> credit > 0 \<and> source \<noteq> ''FILTER_SYNC'' \<and> source \<noteq> ''BOOTSTRAP''"

definition delivers :: "bool \<Rightarrow> string \<Rightarrow> int \<Rightarrow> bool" where
  "delivers baseline source credit \<longleftrightarrow>
     emits_credit baseline source credit \<and> (source = ''REALTIME'' \<or> source = ''CATCH_UP'')"

section \<open>Statements\<close>

definition insert_txn :: "txn_row \<Rightarrow> store \<Rightarrow> store result" where
  "insert_txn x st =
     map_sum id (\<lambda>t. st\<lparr>transactions := t\<rparr>)
       (insert_row ''transactions''
         (\<lambda>y. tx_id y = tx_id x \<or> (tx_conn y = tx_conn x \<and> tx_key y = tx_key x))
         (has_connection st (tx_conn x)) x (transactions st))"

text \<open>\<open>ON CONFLICT(transaction_id, event_type) DO NOTHING\<close>; a taken identifier is still an error.\<close>

definition insert_event :: "event_row \<Rightarrow> store \<Rightarrow> store result" where
  "insert_event e st =
     (if list_ex (\<lambda>x. ev_txn x = ev_txn e \<and> ev_type x = ev_type e) (events st) then Inr st
      else map_sum id (\<lambda>t. st\<lparr>events := t\<rparr>)
             (insert_row ''events.id'' (\<lambda>x. ev_id x = ev_id e)
               (list_ex (\<lambda>x. tx_id x = ev_txn e) (transactions st)) e (events st)))"

text \<open>\<open>ON CONFLICT(event_id, endpoint_id) DO NOTHING\<close>.\<close>

definition insert_delivery :: "delivery_row \<Rightarrow> store \<Rightarrow> store result" where
  "insert_delivery d st =
     (if list_ex (\<lambda>x. dl_event x = dl_event d \<and> dl_endpoint x = dl_endpoint d) (deliveries st)
      then Inr st
      else map_sum id (\<lambda>t. st\<lparr>deliveries := t\<rparr>)
             (insert_row ''deliveries.id'' (\<lambda>x. dl_id x = dl_id d)
               (list_ex (\<lambda>x. ev_id x = dl_event d) (events st)) d (deliveries st)))"

definition append_journal :: "string \<Rightarrow> string \<Rightarrow> string \<Rightarrow> payload \<Rightarrow> string \<Rightarrow> store \<Rightarrow> int \<times> store" where
  "append_journal epoch ty agg p ts st =
     (let n = journal_seq st + 1
      in (n, st\<lparr>journal_seq := n, journal := journal st @
               [\<lparr>jr_seq = n, jr_epoch = epoch, jr_type = ty, jr_aggregate = agg, jr_payload = p,
                 jr_created = ts\<rparr>]\<rparr>))"

definition insert_quarantine :: "quarantine_row \<Rightarrow> store \<Rightarrow> store result" where
  "insert_quarantine q st =
     map_sum id (\<lambda>t. st\<lparr>quarantine := t\<rparr>)
       (insert_row ''transaction_quarantine.id'' (\<lambda>x. qt_id x = qt_id q)
         (has_connection st (qt_conn q)) q (quarantine st))"

text \<open>
  The active endpoints with the key of their active secret (\<open>k1\<close> without one): identifier, current
  revision and key.
\<close>

definition active_endpoints :: "store \<Rightarrow> (string \<times> int \<times> string) list" where
  "active_endpoints st =
     concat (map (\<lambda>e.
         case filter (\<lambda>c. sc_endpoint c = ep_id e \<and> sc_status c = SecActive) (secrets st) of
           [] \<Rightarrow> [(ep_id e, ep_revision e, ''k1'')]
         | cs \<Rightarrow> map (\<lambda>c. (ep_id e, ep_revision e, sc_key c)) cs)
       (filter (\<lambda>e. ep_status e = EpActive) (endpoints st)))"

definition pending_delivery ::
  "string \<Rightarrow> string \<Rightarrow> string \<Rightarrow> string \<times> int \<times> string \<Rightarrow> delivery_row" where
  "pending_delivery i event ts ep =
     (case ep of (e, r, key) \<Rightarrow>
        \<lparr>dl_id = i, dl_event = event, dl_endpoint = e, dl_revision = r, dl_key = key,
         dl_status = DPending, dl_attempts = 0, dl_next = ts, dl_claim = None, dl_lease = None,
         dl_created = ts, dl_updated = ts, dl_cycle = 0\<rparr>)"

fun insert_deliveries ::
  "env \<Rightarrow> string \<Rightarrow> string \<Rightarrow> string \<Rightarrow> (string \<times> int \<times> string) list \<Rightarrow> nat \<Rightarrow> store \<Rightarrow> store result" where
  "insert_deliveries en prefix event ts [] k st = Inr st"
| "insert_deliveries en prefix event ts (ep # eps) k st =
     rbind (insert_delivery (pending_delivery (new_id en prefix k) event ts ep) st)
       (\<lambda>st1. insert_deliveries en prefix event ts eps (Suc k) st1)"

section \<open>The batch\<close>

definition find_txn :: "string \<Rightarrow> string \<Rightarrow> store \<Rightarrow> txn_row option" where
  "find_txn conn key st = sel1 (\<lambda>x. tx_conn x = conn \<and> tx_key x = key) (transactions st)"

definition credit_event :: "env \<Rightarrow> string \<Rightarrow> string \<Rightarrow> txn_row \<Rightarrow> event_row" where
  "credit_event en masked number x =
     (let seed = event_seed ''acb'' (tx_key x) credit_type
      in \<lparr>ev_id = event_id_of en seed, ev_txn = tx_id x, ev_type = credit_type,
          ev_payload = credit_payload masked number x, ev_hash = hex_encode (en_sha en seed),
          ev_created = tx_seen x\<rparr>)"

definition emit_item ::
  "env \<Rightarrow> string \<Rightarrow> string \<Rightarrow> (string \<times> int \<times> string) list \<Rightarrow> bool \<Rightarrow> nat \<Rightarrow> txn_row \<Rightarrow> store \<Rightarrow>
   (store \<times> event_note) result" where
  "emit_item en masked number eps deliver k x st =
     (let e = credit_event en masked number x
      in rbind (map_sum (ErrWrap ''insert event'') id (insert_event e st)) (\<lambda>s1.
         rbind (if deliver
                then map_sum (ErrWrap ''insert delivery'') id
                       (insert_deliveries en ''deliv'' (ev_id e) (tx_seen x) eps k s1)
                else Inr s1) (\<lambda>s2.
           case append_journal ''ep1'' credit_type (tx_id x) (ev_payload e) (tx_seen x) s2 of
             (n, s3) \<Rightarrow>
               Inr (s3, \<lparr>nt_event = ev_id e, nt_type = credit_type, nt_txn = tx_id x,
                         nt_payload = ev_payload e, nt_created = tx_seen x, nt_seq = n,
                         nt_epoch = ''ep1''\<rparr>))))"

text \<open>One turn of the loop over the items: the error, if any, and database, result and counter.\<close>

definition ingest_item ::
  "env \<Rightarrow> string \<Rightarrow> string \<Rightarrow> (string \<times> int \<times> string) list \<Rightarrow> bool \<Rightarrow> string \<Rightarrow> batch_item \<Rightarrow>
   store \<times> batch_result \<times> nat \<Rightarrow> err option \<times> store \<times> batch_result \<times> nat" where
  "ingest_item en conn masked eps baseline source it s =
     (case s of (st, res, k) \<Rightarrow>
      if bi_number it = [] \<or> bi_at it = [] then (None, st, res, k)
      else (case find_txn conn (semantic_key (bi_number it)) st of
        Some old \<Rightarrow>
          (let res1 = res\<lparr>br_skipped := br_skipped res + 1\<rparr>
           in if tx_hash old \<noteq> canonical_hash it then
                (let q = \<lparr>qt_id = new_id en ''quarantine'' k, qt_conn = conn,
                          qt_key = semantic_key (bi_number it), qt_existing = tx_hash old,
                          qt_candidate = bi_desc it, qt_reason = ''CANONICAL_HASH_MISMATCH'',
                          qt_created = now_str en k\<rparr>
                 in (None, (case insert_quarantine q st of Inl _ \<Rightarrow> st | Inr st1 \<Rightarrow> st1),
                     res1\<lparr>br_conflicts := br_conflicts res + 1\<rparr>, k + 1))
              else (None, st, res1, k))
      | None \<Rightarrow>
          (let x = txn_of (new_id en ''txn'' k) (now_str en k) conn baseline source it
           in case insert_txn x st of
                Inl e \<Rightarrow> (Some (ErrWrap ''insert transaction'' e), st, res, k + 1)
              | Inr st1 \<Rightarrow>
                  (let res1 = res\<lparr>br_inserted := br_inserted res + 1\<rparr>;
                       k1 = k + 1 + length eps
                   in if emits_credit baseline source (bi_credit it) then
                        (case emit_item en masked (bi_number it) eps
                                (delivers baseline source (bi_credit it)) (k + 1) x st1 of
                           Inl e \<Rightarrow> (Some e, st1, res1, k1)
                         | Inr (st2, note) \<Rightarrow>
                             (None, st2, res1\<lparr>br_events := br_events res @ [note]\<rparr>, k1))
                      else (None, st1, res1, k1)))))"

fun ingest_items ::
  "env \<Rightarrow> string \<Rightarrow> string \<Rightarrow> (string \<times> int \<times> string) list \<Rightarrow> bool \<Rightarrow> string \<Rightarrow> batch_item list \<Rightarrow>
   store \<times> batch_result \<times> nat \<Rightarrow> err option \<times> store \<times> batch_result \<times> nat" where
  "ingest_items en conn masked eps baseline source [] s = (None, s)"
| "ingest_items en conn masked eps baseline source (it # its) s =
     (case ingest_item en conn masked eps baseline source it s of
        (Some e, s1) \<Rightarrow> (Some e, s1)
      | (None, s1) \<Rightarrow> ingest_items en conn masked eps baseline source its s1)"

definition fence_ok :: "string \<Rightarrow> int \<Rightarrow> store \<Rightarrow> err option" where
  "fence_ok conn g st =
     (case sel1 (\<lambda>c. c_id c = conn) (connections st) of
        None \<Rightarrow> Some (ErrWrap ''check generation fence'' ErrNoRows)
      | Some c \<Rightarrow>
          if c_generation c \<noteq> g \<or> c_state c \<noteq> Monitoring
          then Some (ErrWrap ''expected generation in state MONITORING'' ErrGenerationFenceMismatch)
          else None)"

text \<open>
  \<open>IngestTransactionsBatchWithSource\<close>. The Go function returns the result record together with the
  error, so a failed batch still hands out the counts it had reached; the database is rolled back.
\<close>

definition ingest_batch ::
  "env \<Rightarrow> string \<Rightarrow> int \<Rightarrow> string \<Rightarrow> batch_item list \<Rightarrow> bool \<Rightarrow> string \<Rightarrow> store \<Rightarrow>
   (err option \<times> batch_result) \<times> store" where
  "ingest_batch en conn g masked items baseline source0 st =
     (if conn = [] then ((Some (ErrMsg ''connection ID is required''), batch0), st)
      else (let source = (if source0 = [] then ''REALTIME'' else source0)
            in case fence_ok conn g st of
                 Some e \<Rightarrow> ((Some e, batch0), st)
               | None \<Rightarrow>
                  (case ingest_items en conn masked (active_endpoints st) baseline source items
                          (st, batch0, 0) of
                     (None, st1, res, _) \<Rightarrow> ((None, res), st1)
                   | (Some e, _, res, _) \<Rightarrow> ((Some e, res), st))))"

text \<open>\<open>IngestTransactionsBatch\<close>.\<close>

definition ingest_realtime ::
  "env \<Rightarrow> string \<Rightarrow> int \<Rightarrow> string \<Rightarrow> batch_item list \<Rightarrow> bool \<Rightarrow> store \<Rightarrow>
   (err option \<times> batch_result) \<times> store" where
  "ingest_realtime en conn g masked items baseline st =
     ingest_batch en conn g masked items baseline ''REALTIME'' st"

section \<open>IngestTransaction\<close>

record txn_input =
  in_conn :: string
  in_key :: string
  in_hash :: string
  in_at :: string
  in_effective :: string
  in_debit :: int
  in_credit :: int
  in_balance :: "int option"
  in_desc :: string
  in_parser :: string

record ingest_result =
  ig_txn :: string
  ig_inserted :: bool
  ig_conflict :: bool

definition ingest_one :: "env \<Rightarrow> txn_input \<Rightarrow> store \<Rightarrow> (err option \<times> ingest_result) \<times> store" where
  "ingest_one en i st =
     (let r0 = \<lparr>ig_txn = [], ig_inserted = False, ig_conflict = False\<rparr>
      in if in_conn i = [] \<or> in_key i = [] \<or> in_hash i = [] \<or> in_at i = [] \<or> in_effective i = []
            \<or> in_parser i = []
         then ((Some (ErrMsg ''incomplete transaction''), r0), st)
         else (case find_txn (in_conn i) (in_key i) st of
           Some old \<Rightarrow>
             (let r1 = r0\<lparr>ig_txn := tx_id old\<rparr>
              in if tx_hash old = in_hash i then ((None, r1), st)
                 else (case insert_quarantine \<lparr>qt_id = new_id en ''quarantine'' 0, qt_conn = in_conn i,
                              qt_key = in_key i, qt_existing = tx_hash old, qt_candidate = in_desc i,
                              qt_reason = ''CANONICAL_HASH_MISMATCH'', qt_created = now_str en 0\<rparr> st of
                         Inl e \<Rightarrow> ((Some e, r1\<lparr>ig_conflict := True\<rparr>), st)
                       | Inr st1 \<Rightarrow> ((None, r1\<lparr>ig_conflict := True\<rparr>), st1)))
         | None \<Rightarrow>
             (case date_columns (in_at i) of (dt, day, precision) \<Rightarrow>
               (let x = \<lparr>tx_id = new_id en ''txn'' 0, tx_conn = in_conn i, tx_key = in_key i,
                         tx_hash = in_hash i, tx_date = in_at i, tx_effective = in_effective i,
                         tx_debit = in_debit i, tx_credit = in_credit i, tx_balance = in_balance i,
                         tx_desc = in_desc i, tx_parser = in_parser i, tx_baseline = ''NONE'',
                         tx_seen = now_str en 0, tx_iso = dt, tx_day = day, tx_precision = precision,
                         tx_source = ''REALTIME''\<rparr>
                in case insert_txn x st of
                     Inl e \<Rightarrow> ((Some e, r0\<lparr>ig_txn := tx_id x\<rparr>), st)
                   | Inr st1 \<Rightarrow> ((None, r0\<lparr>ig_txn := tx_id x, ig_inserted := True\<rparr>), st1)))))"

section \<open>EmitTransactionEvent\<close>

definition emit_event ::
  "env \<Rightarrow> string \<Rightarrow> string \<Rightarrow> string \<Rightarrow> string \<Rightarrow> string result \<Rightarrow> store \<Rightarrow> string result \<times> store" where
  "emit_event en txn ty ns key marshalled st =
     (case marshalled of
        Inl e \<Rightarrow> (Inl e, st)
      | Inr bytes \<Rightarrow>
          (let seed = event_seed ns key ty; eid = event_id_of en seed; ts = now_str en 0;
               e = \<lparr>ev_id = eid, ev_txn = txn, ev_type = ty, ev_payload = OpaqueJson bytes,
                    ev_hash = hex_encode (en_sha en seed), ev_created = ts\<rparr>
           in if list_ex (\<lambda>x. ev_txn x = txn \<and> ev_type x = ty) (events st) then (Inr eid, st)
              else (case rbind (insert_event e st) (\<lambda>s1.
                       rbind (insert_deliveries en ''del'' eid ts (active_endpoints s1) 0 s1) (\<lambda>s2.
                         Inr (snd (append_journal ''ep1'' ty txn (OpaqueJson bytes) ts s2)))) of
                      Inl err \<Rightarrow> (Inl (ErrWrap ''emit transaction event'' err), st)
                    | Inr st1 \<Rightarrow> (Inr eid, st1))))"

definition event_payload :: "string \<Rightarrow> store \<Rightarrow> payload result" where
  "event_payload i st =
     (case sel1 (\<lambda>e. ev_id e = i) (events st) of None \<Rightarrow> Inl ErrNoRows | Some e \<Rightarrow> Inr (ev_payload e))"

section \<open>BackfillCanonicalDates\<close>

text \<open>
  \<open>BackfillCanonicalDates\<close>: in rounds of at most 200 rows, the rows without a canonical day that
  are not marked unknown get their date columns; the count is of the dates that normalised. An
  absent column is the empty text.
\<close>

definition date_pending :: "txn_row \<Rightarrow> bool" where
  "date_pending x \<longleftrightarrow> tx_day x = [] \<and> tx_precision x \<noteq> ''unknown''"

definition set_dates :: "string \<Rightarrow> txn_row \<Rightarrow> txn_row" where
  "set_dates raw x =
     (case date_columns raw of (dt, day, precision) \<Rightarrow>
        x\<lparr>tx_iso := dt, tx_day := day, tx_precision := precision\<rparr>)"

definition normalises :: "string \<Rightarrow> bool" where
  "normalises raw = (case normalize_date raw of Inr _ \<Rightarrow> True | Inl _ \<Rightarrow> False)"

fun backfill_rows :: "(string \<times> string) list \<Rightarrow> nat \<times> txn_row list \<Rightarrow> nat \<times> txn_row list" where
  "backfill_rows [] s = s"
| "backfill_rows ((i, raw) # batch) (n, t) =
     backfill_rows batch (if normalises raw then n + 1 else n, upd (\<lambda>x. tx_id x = i) (set_dates raw) t)"

definition backfill_batch :: "txn_row list \<Rightarrow> (string \<times> string) list" where
  "backfill_batch t = map (\<lambda>x. (tx_id x, tx_date x)) (take 200 (filter date_pending t))"

text \<open>A row that was given its dates is not pending again, so every round shrinks the backlog.\<close>

lemma fmt_day_nonempty [simp]: "fmt_day n \<noteq> []"
  by (simp add: fmt_day_def split: prod.splits)

lemma set_dates_not_pending: "\<not> date_pending (set_dates raw x)"
proof (cases "normalize_date raw")
  case (Inl e)
  then show ?thesis by (simp add: date_pending_def set_dates_def date_columns_def)
next
  case (Inr d)
  then have "cd_day d \<noteq> []"
    by (auto simp: normalize_date_def local_day_def split: sum.splits prod.splits if_splits)
  with Inr show ?thesis by (simp add: date_pending_def set_dates_def date_columns_def)
qed

lemma backfill_pending_mono:
  "length (filter date_pending (snd (backfill_rows batch (n, t)))) \<le> length (filter date_pending t)"
proof (induction batch arbitrary: n t)
  case (Cons b batch)
  obtain i raw where b: "b = (i, raw)" by (cases b)
  have "length (filter date_pending (upd (\<lambda>x. tx_id x = i) (set_dates raw) t)) \<le> length (filter date_pending t)"
    by (induction t) (auto simp: upd_def set_dates_not_pending)
  with Cons.IH show ?case by (auto simp: b intro: order_trans)
qed simp

lemma backfill_pending_less:
  assumes "backfill_batch t \<noteq> []"
  shows "length (filter date_pending (snd (backfill_rows (backfill_batch t) (n, t))))
    < length (filter date_pending t)"
proof -
  obtain x xs where x: "filter date_pending t = x # xs"
    using assms by (cases "filter date_pending t") (auto simp: backfill_batch_def)
  then have mem: "x \<in> set t" "date_pending x" by (auto dest: filter_eq_ConsD)
  define u where "u = upd (\<lambda>y. tx_id y = tx_id x) (set_dates (tx_date x)) t"
  have le: "length (filter date_pending u) < length (filter date_pending t)" unfolding u_def
    using mem
  proof (induction t)
    case (Cons y t)
    have "length (filter date_pending (upd (\<lambda>y. tx_id y = tx_id x) (set_dates (tx_date x)) t))
      \<le> length (filter date_pending t)"
      by (induction t) (auto simp: upd_def set_dates_not_pending)
    with Cons show ?case by (cases "y = x") (auto simp: upd_def set_dates_not_pending)
  qed simp
  have "backfill_batch t = (tx_id x, tx_date x) # map (\<lambda>x. (tx_id x, tx_date x)) (take 199 xs)"
    by (simp add: backfill_batch_def x take_Cons')
  then have "length (filter date_pending (snd (backfill_rows (backfill_batch t) (n, t))))
    \<le> length (filter date_pending u)"
    using backfill_pending_mono by (simp add: u_def)
  with le show ?thesis by simp
qed

function backfill_loop :: "nat \<times> txn_row list \<Rightarrow> nat \<times> txn_row list" where
  "backfill_loop (n, t) =
     (if backfill_batch t = [] then (n, t) else backfill_loop (backfill_rows (backfill_batch t) (n, t)))"
  by pat_completeness auto
termination
  using backfill_pending_less
  by (relation "measure (\<lambda>(n, t). length (filter date_pending t))") (auto simp: case_prod_unfold)

declare backfill_loop.simps [simp del]

definition backfill_dates :: "store \<Rightarrow> nat \<times> store" where
  "backfill_dates st =
     (case backfill_loop (0, transactions st) of (n, t) \<Rightarrow> (n, st\<lparr>transactions := t\<rparr>))"

section \<open>journal.go\<close>

definition default_epoch :: "string \<Rightarrow> string" where
  "default_epoch e = (if e = [] then ''ep1'' else e)"

definition append_journal_event ::
  "env \<Rightarrow> string \<Rightarrow> string \<Rightarrow> string \<Rightarrow> string \<Rightarrow> store \<Rightarrow> int \<times> store" where
  "append_journal_event en epoch ty agg bytes st =
     append_journal (default_epoch epoch) ty agg (OpaqueJson bytes) (now_str en 0) st"

definition journal_limit :: "int \<Rightarrow> nat" where
  "journal_limit limit = (if limit \<le> 0 \<or> limit > 1000 then 100 else nat limit)"

definition read_journal :: "string \<Rightarrow> int \<Rightarrow> int \<Rightarrow> store \<Rightarrow> journal_row list" where
  "read_journal epoch after limit st =
     take (journal_limit limit)
       (sort_key jr_seq (filter (\<lambda>j. jr_epoch j = default_epoch epoch \<and> jr_seq j > after) (journal st)))"

definition max_journal_seq :: "string \<Rightarrow> store \<Rightarrow> int" where
  "max_journal_seq epoch st =
     (case map jr_seq (filter (\<lambda>j. jr_epoch j = default_epoch epoch) (journal st)) of
        [] \<Rightarrow> 0 | n # ns \<Rightarrow> fold max ns n)"

definition min_journal_seq :: "string \<Rightarrow> store \<Rightarrow> int" where
  "min_journal_seq epoch st =
     (case map jr_seq (filter (\<lambda>j. jr_epoch j = default_epoch epoch) (journal st)) of
        [] \<Rightarrow> 0 | n # ns \<Rightarrow> fold min ns n)"

definition delete_journal_before :: "instant \<Rightarrow> store \<Rightarrow> nat \<times> store" where
  "delete_journal_before cutoff st =
     (let p = (\<lambda>j. jr_created j < rfc3339nano cutoff)
      in (affected p (journal st), st\<lparr>journal := del p (journal st)\<rparr>))"

end
