(* ===== verification/IngestProps.thy ===== *)
theory IngestProps
  imports Ingest
begin

text \<open>
  What a batch does: its effect on transactions, events, journal and deliveries in closed form, the
  referential invariant it keeps, the quarantine rule, idempotence, and the refinement of the
  abstract first-observation-wins map.
\<close>

section \<open>Referential invariant\<close>

definition fk_inv :: "store \<Rightarrow> bool" where
  "fk_inv st \<longleftrightarrow>
     distinct (map tx_id (transactions st)) \<and>
     distinct (map (\<lambda>x. (tx_conn x, tx_key x)) (transactions st)) \<and>
     distinct (map ev_id (events st)) \<and>
     (\<forall>e \<in> set (events st). ev_txn e \<in> tx_id ` set (transactions st)) \<and>
     distinct (map dl_id (deliveries st)) \<and>
     distinct (map (\<lambda>d. (dl_event d, dl_endpoint d)) (deliveries st)) \<and>
     (\<forall>d \<in> set (deliveries st). dl_event d \<in> ev_id ` set (events st)) \<and>
     sorted_wrt (<) (map jr_seq (journal st)) \<and>
     (\<forall>j \<in> set (journal st). jr_seq j \<le> journal_seq st)"

lemma fk_inv_empty: "fk_inv empty_store"
  by (simp add: fk_inv_def empty_store_def)

lemma map_sum_Inr: "map_sum f g r = Inr y \<longleftrightarrow> (\<exists>x. r = Inr x \<and> g x = y)"
  by (cases r) auto

lemma find_txn_None: "find_txn conn key st = None \<longleftrightarrow>
    (conn, key) \<notin> (\<lambda>x. (tx_conn x, tx_key x)) ` set (transactions st)"
  by (auto simp: find_txn_def sel1_None)

section \<open>The statements\<close>

lemma insert_txn_Inr:
  "insert_txn x st = Inr st' \<longleftrightarrow>
     (\<forall>y \<in> set (transactions st). tx_id y \<noteq> tx_id x \<and> (tx_conn y, tx_key y) \<noteq> (tx_conn x, tx_key x))
     \<and> has_connection st (tx_conn x) \<and> st' = st\<lparr>transactions := transactions st @ [x]\<rparr>"
  by (auto simp: insert_txn_def map_sum_Inr insert_row_Inr)

lemma insert_txn_inv: "insert_txn x st = Inr st' \<Longrightarrow> fk_inv st \<Longrightarrow> fk_inv st'"
  by (auto simp: insert_txn_Inr fk_inv_def)

text \<open>An event of a transaction row that was just inserted: nothing can be in its way but its identifier.\<close>

lemma insert_event_Inr:
  assumes "insert_event e st = Inr st'" "\<forall>x \<in> set (events st). ev_txn x \<noteq> ev_txn e"
  shows "st' = st\<lparr>events := events st @ [e]\<rparr>" "\<forall>x \<in> set (events st). ev_id x \<noteq> ev_id e"
    "ev_txn e \<in> tx_id ` set (transactions st)"
proof -
  have n: "\<not> list_ex (\<lambda>x. ev_txn x = ev_txn e \<and> ev_type x = ev_type e) (events st)"
    using assms(2) by (auto simp: list_ex_iff)
  then have "(\<forall>x \<in> set (events st). ev_id x \<noteq> ev_id e)
      \<and> list_ex (\<lambda>x. tx_id x = ev_txn e) (transactions st) \<and> st' = st\<lparr>events := events st @ [e]\<rparr>"
    using assms(1) by (auto simp: insert_event_def map_sum_Inr insert_row_Inr)
  then show "st' = st\<lparr>events := events st @ [e]\<rparr>" "\<forall>x \<in> set (events st). ev_id x \<noteq> ev_id e"
    "ev_txn e \<in> tx_id ` set (transactions st)"
    by (auto simp: list_ex_iff intro: rev_image_eqI)
qed

lemma insert_delivery_cases:
  assumes "insert_delivery d st = Inr st'"
  obtains (present) x where "x \<in> set (deliveries st)" "dl_event x = dl_event d" "dl_endpoint x = dl_endpoint d"
      "st' = st"
  | (added) "\<forall>x \<in> set (deliveries st). \<not> (dl_event x = dl_event d \<and> dl_endpoint x = dl_endpoint d)"
      "\<forall>x \<in> set (deliveries st). dl_id x \<noteq> dl_id d" "\<exists>e \<in> set (events st). ev_id e = dl_event d"
      "st' = st\<lparr>deliveries := deliveries st @ [d]\<rparr>"
proof (cases "list_ex (\<lambda>x. dl_event x = dl_event d \<and> dl_endpoint x = dl_endpoint d) (deliveries st)")
  case True
  then obtain x where "x \<in> set (deliveries st)" "dl_event x = dl_event d" "dl_endpoint x = dl_endpoint d"
    by (auto simp: list_ex_iff)
  moreover have "st' = st" using True assms by (simp add: insert_delivery_def)
  ultimately show ?thesis by (rule present)
next
  case False
  then have "(\<forall>x \<in> set (deliveries st). dl_id x \<noteq> dl_id d) \<and> list_ex (\<lambda>e. ev_id e = dl_event d) (events st)
      \<and> st' = st\<lparr>deliveries := deliveries st @ [d]\<rparr>"
    using assms by (auto simp: insert_delivery_def map_sum_Inr insert_row_Inr)
  with False show ?thesis by (intro added) (auto simp: list_ex_iff)
qed

lemma insert_delivery_inv: "insert_delivery d st = Inr st' \<Longrightarrow> fk_inv st \<Longrightarrow> fk_inv st'"
  by (erule insert_delivery_cases) (auto simp: fk_inv_def intro: rev_image_eqI)

lemma insert_deliveries_inv: "insert_deliveries en p ev ts eps k st = Inr st' \<Longrightarrow> fk_inv st \<Longrightarrow> fk_inv st'"
  by (induction eps arbitrary: k st) (auto simp: rbind_Inr_iff intro: insert_delivery_inv)

lemma insert_deliveries_effect:
  assumes "insert_deliveries en p ev ts eps k st = Inr st'"
  shows "\<exists>ds. st' = st\<lparr>deliveries := deliveries st @ ds\<rparr> \<and>
    (\<forall>d \<in> set ds. dl_event d = ev \<and> dl_endpoint d \<in> fst ` set eps \<and> dl_status d = DPending
       \<and> dl_attempts d = 0 \<and> dl_next d = ts \<and> dl_claim d = None \<and> dl_cycle d = 0) \<and>
    (\<forall>e \<in> fst ` set eps. (ev, e) \<in> (\<lambda>x. (dl_event x, dl_endpoint x)) ` set (deliveries st @ ds))"
  using assms
proof (induction eps arbitrary: k st)
  case Nil
  then show ?case by (intro exI [of _ "[]"]) simp
next
  case (Cons ep eps)
  obtain e r key where ep: "ep = (e, r, key)" by (cases ep)
  let ?d = "pending_delivery (new_id en p k) ev ts ep"
  have d: "dl_event ?d = ev" "dl_endpoint ?d = e" "dl_status ?d = DPending" "dl_attempts ?d = 0"
    "dl_next ?d = ts" "dl_claim ?d = None" "dl_cycle ?d = 0"
    by (simp_all add: pending_delivery_def ep)
  obtain st1 where st1: "insert_delivery ?d st = Inr st1" "insert_deliveries en p ev ts eps (Suc k) st1 = Inr st'"
    using Cons.prems by (auto simp: rbind_Inr_iff)
  from Cons.IH [OF st1(2)] obtain ds where ds: "st' = st1\<lparr>deliveries := deliveries st1 @ ds\<rparr>"
    "\<forall>d \<in> set ds. dl_event d = ev \<and> dl_endpoint d \<in> fst ` set eps \<and> dl_status d = DPending
       \<and> dl_attempts d = 0 \<and> dl_next d = ts \<and> dl_claim d = None \<and> dl_cycle d = 0"
    "\<forall>e \<in> fst ` set eps. (ev, e) \<in> (\<lambda>x. (dl_event x, dl_endpoint x)) ` set (deliveries st1 @ ds)"
    by blast
  from st1(1) show ?case
  proof (cases rule: insert_delivery_cases)
    case (present x)
    from present(1-3) d have "(ev, e) \<in> (\<lambda>x. (dl_event x, dl_endpoint x)) ` set (deliveries st)"
      by (intro rev_image_eqI [of x]) auto
    with present ds show ?thesis by (intro exI [of _ ds]) (auto simp: ep)
  next
    case added
    with ds d show ?thesis by (intro exI [of _ "?d # ds"]) (auto simp: ep)
  qed
qed

section \<open>What a run of the loop contributes\<close>

text \<open>The bank's transaction number, recovered from the semantic key.\<close>

definition number_of :: "txn_row \<Rightarrow> string" where
  "number_of x = drop 4 (tx_key x)"

definition event_of :: "env \<Rightarrow> string \<Rightarrow> txn_row \<Rightarrow> event_row" where
  "event_of en masked x = credit_event en masked (number_of x) x"

definition journal_of :: "env \<Rightarrow> string \<Rightarrow> int \<Rightarrow> txn_row \<Rightarrow> journal_row" where
  "journal_of en masked n x =
     \<lparr>jr_seq = n, jr_epoch = ''ep1'', jr_type = credit_type, jr_aggregate = tx_id x,
      jr_payload = ev_payload (event_of en masked x), jr_created = tx_seen x\<rparr>"

definition note_of :: "env \<Rightarrow> string \<Rightarrow> int \<Rightarrow> txn_row \<Rightarrow> event_note" where
  "note_of en masked n x =
     \<lparr>nt_event = ev_id (event_of en masked x), nt_type = credit_type, nt_txn = tx_id x,
      nt_payload = ev_payload (event_of en masked x), nt_created = tx_seen x, nt_seq = n,
      nt_epoch = ''ep1''\<rparr>"

text \<open>Rows numbered from \<open>n + 1\<close> on.\<close>

fun numbered :: "(int \<Rightarrow> 'a \<Rightarrow> 'b) \<Rightarrow> int \<Rightarrow> 'a list \<Rightarrow> 'b list" where
  "numbered f n [] = []"
| "numbered f n (x # xs) = f (n + 1) x # numbered f (n + 1) xs"

lemma numbered_append: "numbered f n (xs @ ys) = numbered f n xs @ numbered f (n + int (length xs)) ys"
  by (induction xs arbitrary: n) (simp_all add: algebra_simps)

lemma numbered_bounds: "j \<in> set (numbered f n xs) \<Longrightarrow> \<exists>x \<in> set xs. \<exists>i. n < i \<and> i \<le> n + int (length xs) \<and> j = f i x"
proof (induction xs arbitrary: n)
  case (Cons a xs)
  show ?case
  proof (cases "j = f (n + 1) a")
    case False
    then obtain x i where "x \<in> set xs" "n + 1 < i" "i \<le> n + 1 + int (length xs)" "j = f i x"
      using Cons.IH [of "n + 1"] Cons.prems by auto
    then show ?thesis by (intro bexI [of _ x] exI [of _ i]) auto
  qed (auto intro!: exI [of _ "n + 1"])
qed simp

lemma numbered_map: "map g (numbered f n xs) = numbered (\<lambda>i x. g (f i x)) n xs"
  by (induction xs arbitrary: n) simp_all

lemma numbered_snd: "numbered (\<lambda>i x. h x) n xs = map h xs"
  by (induction xs arbitrary: n) simp_all

definition delivery_for :: "env \<Rightarrow> string \<Rightarrow> txn_row \<Rightarrow> string \<Rightarrow> delivery_row \<Rightarrow> bool" where
  "delivery_for en masked x e d \<longleftrightarrow>
     dl_event d = ev_id (event_of en masked x) \<and> dl_endpoint d = e \<and> dl_status d = DPending
     \<and> dl_attempts d = 0 \<and> dl_next d = tx_seen x \<and> dl_claim d = None \<and> dl_cycle d = 0"

definition new_deliveries ::
  "env \<Rightarrow> string \<Rightarrow> string list \<Rightarrow> txn_row list \<Rightarrow> delivery_row list \<Rightarrow> bool" where
  "new_deliveries en masked eps xs ds \<longleftrightarrow>
     (\<forall>d \<in> set ds. \<exists>x \<in> set xs. \<exists>e \<in> set eps. delivery_for en masked x e d) \<and>
     (\<forall>x \<in> set xs. \<forall>e \<in> set eps. \<exists>d \<in> set ds. delivery_for en masked x e d)"

definition emitting :: "bool \<Rightarrow> string \<Rightarrow> txn_row list \<Rightarrow> txn_row list" where
  "emitting baseline source xs = filter (\<lambda>x. emits_credit baseline source (tx_credit x)) xs"

definition delivering :: "bool \<Rightarrow> string \<Rightarrow> txn_row list \<Rightarrow> txn_row list" where
  "delivering baseline source xs = filter (\<lambda>x. delivers baseline source (tx_credit x)) xs"

text \<open>
  \<open>contributes ... st st' xs notes\<close>: from \<open>st\<close> to \<open>st'\<close> exactly the rows \<open>xs\<close> were added to the
  transactions, with an event, a journal entry and a notification for each emitting one, and a
  pending delivery to each endpoint for each delivering one. Nothing else changed but the
  quarantine.
\<close>

definition contributes ::
  "env \<Rightarrow> string \<Rightarrow> string list \<Rightarrow> bool \<Rightarrow> string \<Rightarrow> store \<Rightarrow> store \<Rightarrow> txn_row list \<Rightarrow> event_note list \<Rightarrow> bool" where
  "contributes en masked eps baseline source st st' xs notes \<longleftrightarrow>
     (\<exists>ds q. new_deliveries en masked eps (delivering baseline source xs) ds \<and>
        notes = numbered (note_of en masked) (journal_seq st) (emitting baseline source xs) \<and>
        st' = st\<lparr>transactions := transactions st @ xs,
                 events := events st @ map (event_of en masked) (emitting baseline source xs),
                 journal := journal st @ numbered (journal_of en masked) (journal_seq st) (emitting baseline source xs),
                 journal_seq := journal_seq st + int (length (emitting baseline source xs)),
                 deliveries := deliveries st @ ds, quarantine := q\<rparr>)"

lemma contributes_refl: "contributes en masked eps baseline source st (st\<lparr>quarantine := q\<rparr>) [] []"
  unfolding contributes_def
  by (intro exI [of _ "[]"] exI [of _ q]) (simp add: new_deliveries_def delivering_def emitting_def)

lemma new_deliveries_append:
  "new_deliveries en masked eps xs ds \<Longrightarrow> new_deliveries en masked eps ys es \<Longrightarrow>
   new_deliveries en masked eps (xs @ ys) (ds @ es)"
  unfolding new_deliveries_def by (simp add: ball_Un) blast

lemma contributes_trans:
  assumes "contributes en masked eps baseline source st st1 xs ns"
    and "contributes en masked eps baseline source st1 st2 ys ms"
  shows "contributes en masked eps baseline source st st2 (xs @ ys) (ns @ ms)"
proof -
  obtain ds q where 1: "new_deliveries en masked eps (delivering baseline source xs) ds"
    "ns = numbered (note_of en masked) (journal_seq st) (emitting baseline source xs)"
    "st1 = st\<lparr>transactions := transactions st @ xs,
                 events := events st @ map (event_of en masked) (emitting baseline source xs),
                 journal := journal st @ numbered (journal_of en masked) (journal_seq st) (emitting baseline source xs),
                 journal_seq := journal_seq st + int (length (emitting baseline source xs)),
                 deliveries := deliveries st @ ds, quarantine := q\<rparr>"
    using assms(1) unfolding contributes_def by blast
  obtain es r where 2: "new_deliveries en masked eps (delivering baseline source ys) es"
    "ms = numbered (note_of en masked) (journal_seq st1) (emitting baseline source ys)"
    "st2 = st1\<lparr>transactions := transactions st1 @ ys,
                 events := events st1 @ map (event_of en masked) (emitting baseline source ys),
                 journal := journal st1 @ numbered (journal_of en masked) (journal_seq st1) (emitting baseline source ys),
                 journal_seq := journal_seq st1 + int (length (emitting baseline source ys)),
                 deliveries := deliveries st1 @ es, quarantine := r\<rparr>"
    using assms(2) unfolding contributes_def by blast
  show ?thesis
    unfolding contributes_def
    by (intro exI [of _ "ds @ es"] exI [of _ r])
      (use 1 2 new_deliveries_append in \<open>simp add: emitting_def delivering_def numbered_append algebra_simps\<close>)
qed

section \<open>One item\<close>

lemma drop_semantic_key [simp]: "drop 4 (semantic_key n) = n"
  by (simp add: semantic_key_def)

lemma semantic_key_inj [simp]: "semantic_key a = semantic_key b \<longleftrightarrow> a = b"
  by (simp add: semantic_key_def)

lemma txn_of_simps [simp]:
  "tx_id (txn_of i ts conn b source it) = i" "tx_conn (txn_of i ts conn b source it) = conn"
  "tx_key (txn_of i ts conn b source it) = semantic_key (bi_number it)"
  "tx_credit (txn_of i ts conn b source it) = bi_credit it"
  "tx_debit (txn_of i ts conn b source it) = bi_debit it"
  "tx_hash (txn_of i ts conn b source it) = canonical_hash it"
  "tx_seen (txn_of i ts conn b source it) = ts"
  "tx_source (txn_of i ts conn b source it) = source"
  "tx_baseline (txn_of i ts conn b source it) = (if b then ''BASELINE'' else ''NONE'')"
  by (simp_all add: txn_of_def split: prod.splits)

lemma credit_event_simps [simp]:
  "ev_txn (credit_event en m n x) = tx_id x" "ev_type (credit_event en m n x) = credit_type"
  by (simp_all add: credit_event_def Let_def)

lemma insert_deliveries_new:
  assumes "insert_deliveries en p ev ts eps k st = Inr st'" "\<forall>d \<in> set (deliveries st). dl_event d \<noteq> ev"
    and "ev = ev_id (event_of en masked x)" "ts = tx_seen x"
  shows "\<exists>ds. st' = st\<lparr>deliveries := deliveries st @ ds\<rparr> \<and> new_deliveries en masked (map fst eps) [x] ds"
proof -
  from insert_deliveries_effect [OF assms(1)] obtain ds where
    ds: "st' = st\<lparr>deliveries := deliveries st @ ds\<rparr>"
      "\<forall>d \<in> set ds. dl_event d = ev \<and> dl_endpoint d \<in> fst ` set eps \<and> dl_status d = DPending
       \<and> dl_attempts d = 0 \<and> dl_next d = ts \<and> dl_claim d = None \<and> dl_cycle d = 0"
      "\<forall>e \<in> fst ` set eps. (ev, e) \<in> (\<lambda>x. (dl_event x, dl_endpoint x)) ` set (deliveries st @ ds)"
    by blast
  have "\<exists>d \<in> set ds. delivery_for en masked x e d" if "e \<in> fst ` set eps" for e
  proof -
    have "(ev, e) \<in> (\<lambda>x. (dl_event x, dl_endpoint x)) ` set (deliveries st @ ds)" using ds(3) that by blast
    then obtain d where "d \<in> set (deliveries st @ ds)" "dl_event d = ev" "dl_endpoint d = e" by auto
    with assms(2) have "d \<in> set ds" by auto
    with ds(2) assms(3,4) \<open>dl_endpoint d = e\<close> show ?thesis by (auto simp: delivery_for_def)
  qed
  then have "new_deliveries en masked (map fst eps) [x] ds"
    using ds(2) assms(3,4) by (auto simp: new_deliveries_def delivery_for_def)
  with ds(1) show ?thesis by blast
qed

lemma append_journal_eq:
  "append_journal ''ep1'' credit_type (tx_id x) (ev_payload (event_of en masked x)) (tx_seen x) st =
   (journal_seq st + 1, st\<lparr>journal_seq := journal_seq st + 1,
      journal := journal st @ [journal_of en masked (journal_seq st + 1) x]\<rparr>)"
  by (simp add: append_journal_def Let_def journal_of_def)

lemma append_journal_inv: "fk_inv st \<Longrightarrow> fk_inv (snd (append_journal e ty a p ts st))"
  by (auto simp: append_journal_def Let_def fk_inv_def sorted_wrt_append)

lemma emit_item_effect:
  assumes "emit_item en masked (number_of x) eps deliver k x st = Inr (st', note)"
    and "fk_inv st" and "\<forall>e \<in> set (events st). ev_txn e \<noteq> tx_id x"
  shows "\<exists>ds. new_deliveries en masked (map fst eps) (if deliver then [x] else []) ds
      \<and> note = note_of en masked (journal_seq st + 1) x
      \<and> st' = st\<lparr>events := events st @ [event_of en masked x], journal_seq := journal_seq st + 1,
           journal := journal st @ [journal_of en masked (journal_seq st + 1) x],
           deliveries := deliveries st @ ds\<rparr>" (is ?effect)
    and "fk_inv st'"
proof -
  let ?e = "event_of en masked x"
  have e: "credit_event en masked (number_of x) x = ?e" by (simp add: event_of_def)
  obtain s1 s2 where s: "insert_event ?e st = Inr s1"
    "(if deliver then map_sum (ErrWrap ''insert delivery'') id
        (insert_deliveries en ''deliv'' (ev_id ?e) (tx_seen x) eps k s1) else Inr s1) = Inr s2"
    "st' = snd (append_journal ''ep1'' credit_type (tx_id x) (ev_payload ?e) (tx_seen x) s2)"
    "note = note_of en masked (journal_seq s2 + 1) x"
    using assms(1)
    by (auto simp: emit_item_def Let_def e rbind_Inr_iff map_sum_Inr append_journal_eq note_of_def)
  have et: "ev_txn ?e = tx_id x" by (simp add: event_of_def)
  note s1 = insert_event_Inr [OF s(1)]
  have nd: "\<forall>d \<in> set (deliveries s1). dl_event d \<noteq> ev_id ?e"
    using s1 assms(2,3) et by (auto simp: fk_inv_def)
  have "\<exists>ds. new_deliveries en masked (map fst eps) (if deliver then [x] else []) ds
      \<and> s2 = s1\<lparr>deliveries := deliveries s1 @ ds\<rparr>"
  proof (cases deliver)
    case True
    with s(2) have "insert_deliveries en ''deliv'' (ev_id ?e) (tx_seen x) eps k s1 = Inr s2"
      by (simp add: map_sum_Inr)
    from insert_deliveries_new [OF this nd refl refl] True show ?thesis by auto
  next
    case False
    with s(2) show ?thesis by (intro exI [of _ "[]"]) (simp add: new_deliveries_def)
  qed
  then obtain ds where ds: "new_deliveries en masked (map fst eps) (if deliver then [x] else []) ds"
    "s2 = s1\<lparr>deliveries := deliveries s1 @ ds\<rparr>" by blast
  show ?effect
    using ds s(3,4) s1(1) assms(3) et by (intro exI [of _ ds]) (auto simp: append_journal_eq)
  have "fk_inv s1" using s1 assms(2,3) et by (auto simp: fk_inv_def)
  then have "fk_inv s2"
    using s(2) by (auto simp: map_sum_Inr intro: insert_deliveries_inv split: if_splits)
  then show "fk_inv st'" unfolding s(3) by (rule append_journal_inv)
qed

definition item_valid :: "batch_item \<Rightarrow> bool" where
  "item_valid it \<longleftrightarrow> bi_number it \<noteq> [] \<and> bi_at it \<noteq> []"

definition known :: "string \<Rightarrow> store \<Rightarrow> string set" where
  "known conn st = tx_key ` {x \<in> set (transactions st). tx_conn x = conn}"

lemma find_txn_known: "find_txn conn key st = None \<longleftrightarrow> key \<notin> known conn st"
  by (auto simp: find_txn_None known_def image_iff)

definition row_of :: "string \<Rightarrow> bool \<Rightarrow> string \<Rightarrow> txn_row \<Rightarrow> batch_item \<Rightarrow> bool" where
  "row_of conn baseline source x it \<longleftrightarrow> x = txn_of (tx_id x) (tx_seen x) conn baseline source it"

lemma ingest_item_new:
  assumes "ingest_item en conn masked eps baseline source it (st, res, k) = (None, st', res', k')"
    and "fk_inv st" and "item_valid it" and "semantic_key (bi_number it) \<notin> known conn st"
  shows "\<exists>x notes. row_of conn baseline source x it \<and> fk_inv st'
      \<and> contributes en masked (map fst eps) baseline source st st' [x] notes
      \<and> res' = res\<lparr>br_inserted := br_inserted res + 1, br_events := br_events res @ notes\<rparr>"
proof -
  define x where "x = txn_of (new_id en ''txn'' k) (now_str en k) conn baseline source it"
  have none: "find_txn conn (semantic_key (bi_number it)) st = None" using assms(4) find_txn_known by blast
  have row: "row_of conn baseline source x it" by (simp add: row_of_def x_def)
  have num: "number_of x = bi_number it" and cr: "tx_credit x = bi_credit it"
    by (simp_all add: number_of_def x_def)
  let ?P = "emits_credit baseline source (bi_credit it)"
  let ?D = "delivers baseline source (bi_credit it)"
  obtain st1 where st1: "insert_txn x st = Inr st1"
    using assms(1,3) none by (auto simp: ingest_item_def item_valid_def x_def Let_def split: sum.splits)
  have i1: "fk_inv st1" by (rule insert_txn_inv [OF st1 assms(2)])
  have s1: "st1 = st\<lparr>transactions := transactions st @ [x]\<rparr>" "\<forall>y \<in> set (transactions st). tx_id y \<noteq> tx_id x"
    using st1 by (auto simp: insert_txn_Inr)
  show ?thesis
  proof (cases ?P)
    case False
    then have eq: "st' = st1" "res' = res\<lparr>br_inserted := br_inserted res + 1\<rparr>"
      using assms(1,3) none st1 by (auto simp: ingest_item_def item_valid_def x_def Let_def)
    have "\<not> ?D" using False by (simp add: delivers_def)
    then have "contributes en masked (map fst eps) baseline source st st' [x] []"
      unfolding contributes_def
      by (intro exI [of _ "[]"] exI [of _ "quarantine st"])
        (use False eq s1 cr in \<open>simp add: new_deliveries_def delivering_def emitting_def\<close>)
    with row i1 eq show ?thesis by (intro exI [of _ x] exI [of _ "[]"]) simp
  next
    case True
    then obtain nt where em: "emit_item en masked (number_of x) eps ?D (k + 1) x st1 = Inr (st', nt)"
      and res': "res' = res\<lparr>br_inserted := br_inserted res + 1, br_events := br_events res @ [nt]\<rparr>"
      using assms(1,3) none st1 num
      by (auto simp: ingest_item_def item_valid_def x_def [symmetric] Let_def split: sum.splits)
    have noev: "\<forall>e \<in> set (events st1). ev_txn e \<noteq> tx_id x"
    proof
      fix e
      assume "e \<in> set (events st1)"
      then have "ev_txn e \<in> tx_id ` set (transactions st)" using s1(1) assms(2) by (simp add: fk_inv_def)
      with s1(2) show "ev_txn e \<noteq> tx_id x" by auto
    qed
    note ef = emit_item_effect [OF em i1 noev]
    obtain ds where ds: "new_deliveries en masked (map fst eps) (if ?D then [x] else []) ds"
      "nt = note_of en masked (journal_seq st1 + 1) x"
      "st' = st1\<lparr>events := events st1 @ [event_of en masked x], journal_seq := journal_seq st1 + 1,
           journal := journal st1 @ [journal_of en masked (journal_seq st1 + 1) x],
           deliveries := deliveries st1 @ ds\<rparr>"
      using ef(1) by blast
    have "contributes en masked (map fst eps) baseline source st st' [x] [nt]"
      unfolding contributes_def
      by (intro exI [of _ ds] exI [of _ "quarantine st"])
        (use True ds s1 cr in \<open>simp add: delivering_def emitting_def split: if_splits\<close>)
    with row ef(2) res' show ?thesis by (intro exI [of _ x] exI [of _ "[nt]"]) simp
  qed
qed

lemma ingest_item_known:
  assumes "ingest_item en conn masked eps baseline source it (st, res, k) = (r, st', res', k')"
    and "\<not> item_valid it \<or> semantic_key (bi_number it) \<in> known conn st"
  shows "r = None" and "\<exists>q. st' = st\<lparr>quarantine := q\<rparr>"
    and "br_inserted res' = br_inserted res" and "br_events res' = br_events res"
proof -
  have "r = None \<and> (\<exists>q. st' = st\<lparr>quarantine := q\<rparr>) \<and> br_inserted res' = br_inserted res
      \<and> br_events res' = br_events res"
  proof (cases "item_valid it")
    case False
    with assms(1) show ?thesis
      by (auto simp: ingest_item_def item_valid_def intro!: exI [of _ "quarantine st"])
  next
    case True
    with assms(2) obtain old where "find_txn conn (semantic_key (bi_number it)) st = Some old"
      using find_txn_known by (metis not_None_eq)
    with True assms(1) show ?thesis
      by (auto simp: ingest_item_def item_valid_def Let_def insert_quarantine_def map_sum_Inr
          intro: exI [of _ "quarantine st"] split: if_splits sum.splits)
  qed
  then show "r = None" "\<exists>q. st' = st\<lparr>quarantine := q\<rparr>" "br_inserted res' = br_inserted res"
    "br_events res' = br_events res" by auto
qed

section \<open>The loop\<close>

text \<open>
  The items that become rows: valid, not known before the batch, and the first of their number in
  the batch.
\<close>

fun new_items :: "string set \<Rightarrow> batch_item list \<Rightarrow> batch_item list" where
  "new_items K [] = []"
| "new_items K (it # its) =
     (if item_valid it \<and> semantic_key (bi_number it) \<notin> K
      then it # new_items (insert (semantic_key (bi_number it)) K) its
      else new_items K its)"

lemma known_quarantine [simp]: "known conn (st\<lparr>quarantine := q\<rparr>) = known conn st"
  by (simp add: known_def)

lemma fk_inv_quarantine [simp]: "fk_inv (st\<lparr>quarantine := q\<rparr>) = fk_inv st"
  by (simp add: fk_inv_def)

lemma contributes_txns:
  "contributes en masked eps baseline source st st' xs notes \<Longrightarrow> transactions st' = transactions st @ xs"
  by (auto simp: contributes_def)

lemma row_of_simps:
  assumes "row_of conn baseline source x it"
  shows "tx_key x = semantic_key (bi_number it)" "tx_conn x = conn" "tx_hash x = canonical_hash it"
    "tx_credit x = bi_credit it"
  using arg_cong [OF assms [unfolded row_of_def], of tx_key] arg_cong [OF assms [unfolded row_of_def], of tx_conn]
    arg_cong [OF assms [unfolded row_of_def], of tx_hash] arg_cong [OF assms [unfolded row_of_def], of tx_credit]
  by simp_all

lemma ingest_items_effect:
  assumes "ingest_items en conn masked eps baseline source its (st, res, k) = (None, st', res', k')"
    and "fk_inv st"
  shows "\<exists>xs notes. fk_inv st' \<and> list_all2 (row_of conn baseline source) xs (new_items (known conn st) its)
    \<and> contributes en masked (map fst eps) baseline source st st' xs notes
    \<and> br_inserted res' = br_inserted res + length xs \<and> br_events res' = br_events res @ notes"
  using assms
proof (induction its arbitrary: st res k)
  case Nil
  then show ?case
    using contributes_refl [of en masked _ baseline source st "quarantine st"]
    by (intro exI [of _ "[]"]) simp
next
  case (Cons it its)
  obtain st1 res1 k1 where 1: "ingest_item en conn masked eps baseline source it (st, res, k) = (None, st1, res1, k1)"
    "ingest_items en conn masked eps baseline source its (st1, res1, k1) = (None, st', res', k')"
    using Cons.prems(1) by (auto split: prod.splits option.splits)
  show ?case
  proof (cases "item_valid it \<and> semantic_key (bi_number it) \<notin> known conn st")
    case True
    then obtain x n1 where x: "row_of conn baseline source x it" "fk_inv st1"
      "contributes en masked (map fst eps) baseline source st st1 [x] n1"
      "res1 = res\<lparr>br_inserted := br_inserted res + 1, br_events := br_events res @ n1\<rparr>"
      using ingest_item_new [OF 1(1) Cons.prems(2)] by blast
    from Cons.IH [OF 1(2) x(2)] obtain xs n2 where xs: "fk_inv st'"
      "list_all2 (row_of conn baseline source) xs (new_items (known conn st1) its)"
      "contributes en masked (map fst eps) baseline source st1 st' xs n2"
      "br_inserted res' = br_inserted res1 + length xs" "br_events res' = br_events res1 @ n2"
      by blast
    have kn: "known conn st1 = insert (semantic_key (bi_number it)) (known conn st)"
      using contributes_txns [OF x(3)] row_of_simps [OF x(1)]
      by (auto simp: known_def intro: rev_image_eqI [of x])
    have "contributes en masked (map fst eps) baseline source st st' ([x] @ xs) (n1 @ n2)"
      by (rule contributes_trans [OF x(3) xs(3)])
    with x xs kn True show ?thesis
      by (intro exI [of _ "x # xs"] exI [of _ "n1 @ n2"]) simp
  next
    case False
    then have f: "\<not> item_valid it \<or> semantic_key (bi_number it) \<in> known conn st" by blast
    note kn = ingest_item_known [OF 1(1) f]
    obtain q where q: "st1 = st\<lparr>quarantine := q\<rparr>" using kn(2) by blast
    have "fk_inv st1" using q Cons.prems(2) by simp
    from Cons.IH [OF 1(2) this] obtain xs n2 where xs: "fk_inv st'"
      "list_all2 (row_of conn baseline source) xs (new_items (known conn st1) its)"
      "contributes en masked (map fst eps) baseline source st1 st' xs n2"
      "br_inserted res' = br_inserted res1 + length xs" "br_events res' = br_events res1 @ n2"
      by blast
    have "contributes en masked (map fst eps) baseline source st st1 [] []"
      unfolding q by (rule contributes_refl)
    from contributes_trans [OF this xs(3)] xs kn q False show ?thesis
      by (intro exI [of _ xs] exI [of _ n2]) auto
  qed
qed

lemma ingest_batch_success:
  assumes "ingest_batch en conn g masked items baseline source st = ((None, res), st')"
  obtains src k where "src = (if source = [] then ''REALTIME'' else source)" "fence_ok conn g st = None" "conn \<noteq> []"
    "ingest_items en conn masked (active_endpoints st) baseline src items (st, batch0, 0) = (None, st', res, k)"
  using assms by (auto simp: ingest_batch_def Let_def split: option.splits prod.splits if_splits)

lemma batch0_simps [simp]: "br_inserted batch0 = 0" "br_events batch0 = []"
  by (simp_all add: batch0_def)

lemma ingest_batch_contributes:
  assumes "ingest_batch en conn g masked items baseline source st = ((None, res), st')" and "fk_inv st"
    and "src = (if source = [] then ''REALTIME'' else source)"
  shows "\<exists>xs. fk_inv st' \<and> list_all2 (row_of conn baseline src) xs (new_items (known conn st) items)
    \<and> contributes en masked (map fst (active_endpoints st)) baseline src st st' xs (br_events res)
    \<and> br_inserted res = length xs"
proof (rule ingest_batch_success [OF assms(1)])
  fix s k
  assume "s = (if source = [] then ''REALTIME'' else source)"
    and "ingest_items en conn masked (active_endpoints st) baseline s items (st, batch0, 0) = (None, st', res, k)"
  with ingest_items_effect [OF this(2) assms(2)] assms(3) show ?thesis by auto
qed

section \<open>Backfill\<close>

definition dated :: "txn_row \<Rightarrow> txn_row" where
  "dated x = (if date_pending x then set_dates (tx_date x) x else x)"

definition backlog :: "txn_row list \<Rightarrow> nat" where
  "backlog t = length (filter (\<lambda>x. date_pending x \<and> normalises (tx_date x)) t)"

lemma set_dates_simps [simp]: "tx_id (set_dates raw x) = tx_id x" "tx_date (set_dates raw x) = tx_date x"
  by (simp_all add: set_dates_def split: prod.splits)

lemma dated_set_dates [simp]: "dated (set_dates raw x) = set_dates raw x"
  by (simp add: dated_def set_dates_not_pending)

lemma backfill_rows_inv:
  assumes "distinct (map tx_id t)" "distinct (map tx_id xs)" "set xs \<subseteq> set t" "list_all date_pending xs"
    "backfill_rows (map (\<lambda>x. (tx_id x, tx_date x)) xs) (n, t) = (n', t')"
  shows "distinct (map tx_id t') \<and> map dated t' = map dated t \<and> n' + backlog t' = n + backlog t"
  using assms
proof (induction xs arbitrary: n t)
  case (Cons x xs)
  obtain a b where t: "t = a @ x # b" using Cons.prems(3) split_list [of x t] by auto
  let ?u = "upd (\<lambda>y. tx_id y = tx_id x) (set_dates (tx_date x)) t"
  have u: "?u = a @ set_dates (tx_date x) x # b"
  proof -
    have "upd (\<lambda>y. tx_id y = tx_id x) f c = c" if "tx_id x \<notin> tx_id ` set c" for f and c :: "txn_row list"
      using that by (intro upd_none) (auto intro: rev_image_eqI)
    with Cons.prems(1) show ?thesis by (simp add: t)
  qed
  have "distinct (map tx_id ?u)" using Cons.prems(1) unfolding u by (simp add: t)
  moreover have "set xs \<subseteq> set ?u" using Cons.prems(2,3) unfolding u by (auto simp: t)
  ultimately have "distinct (map tx_id t') \<and> map dated t' = map dated ?u \<and>
      n' + backlog t' = (if normalises (tx_date x) then n + 1 else n) + backlog ?u"
    using Cons.IH [of ?u "if normalises (tx_date x) then n + 1 else n"] Cons.prems(2,4,5) by simp
  moreover have "map dated ?u = map dated t" using Cons.prems(4) unfolding u by (simp add: t dated_def [of x])
  moreover have "(if normalises (tx_date x) then n + 1 else n) + backlog ?u = n + backlog t"
    using Cons.prems(4) unfolding u by (simp add: t backlog_def set_dates_not_pending)
  ultimately show ?case by simp
qed simp

lemma backfill_loop_spec:
  "distinct (map tx_id t) \<Longrightarrow> backfill_loop (n, t) = (n + backlog t, map dated t)"
proof (induction "(n, t)" arbitrary: n t rule: backfill_loop.induct)
  case (1 n t)
  show ?case
  proof (cases "backfill_batch t = []")
    case True
    then have "filter date_pending t = []" by (simp add: backfill_batch_def)
    then have "\<not> date_pending x" if "x \<in> set t" for x using that by (auto simp: filter_empty_conv)
    then have "map dated t = t" "backlog t = 0" by (auto simp: dated_def backlog_def map_idI)
    with True show ?thesis by (simp add: backfill_loop.simps [of n t])
  next
    case False
    obtain n' t' where s: "backfill_rows (backfill_batch t) (n, t) = (n', t')" by fastforce
    let ?xs = "take 200 (filter date_pending t)"
    have "distinct (map tx_id ?xs)"
      using 1(2) by (simp add: take_map [symmetric] distinct_map_filter)
    moreover have "set ?xs \<subseteq> set t" "list_all date_pending ?xs"
      by (auto dest: in_set_takeD simp: list_all_iff)
    ultimately have "distinct (map tx_id t') \<and> map dated t' = map dated t \<and> n' + backlog t' = n + backlog t"
      using backfill_rows_inv [OF 1(2)] s by (simp add: backfill_batch_def)
    with 1(1) [OF False] s False show ?thesis by (simp add: backfill_loop.simps [of n t])
  qed
qed
end
