(* ===== verification/Ledger.thy ===== *)
theory Ledger
  imports IngestProps
begin

text \<open>
  The properties of the ingestion: its effect in closed form, the refinement of the abstract ledger
  in which the first observation wins, the quarantine rule, atomicity under the generation fence,
  idempotence, silence of baseline batches, replay from the journal, the backfill, and the
  append-only invariant over every run of ingestion operations.
\<close>

section \<open>A batch on a small database\<close>

definition demo_env :: env where
  "demo_env = \<lparr>en_rand = (\<lambda>k. if k = 0 then ''0'' else if k = 1 then ''1'' else if k = 2 then ''2'' else ''3''),
     en_now = (\<lambda>_. 0), en_sha = (\<lambda>s. rev s)\<rparr>"

definition demo_bank :: store where
  "demo_bank = empty_store\<lparr>
     connections := [\<lparr>c_id = ''c'', c_state = Monitoring, c_masked = ''***1'', c_generation = 1,
       c_started = [], c_created = [], c_updated = []\<rparr>],
     endpoints := [\<lparr>ep_id = ''e'', ep_name = ''shop'', ep_status = EpActive, ep_revision = 1,
       ep_created = [], ep_updated = [], ep_provider = ''WEBHOOK''\<rparr>]\<rparr>"

definition demo_item :: "string \<Rightarrow> int \<Rightarrow> batch_item" where
  "demo_item n amount = \<lparr>bi_number = n, bi_credit = amount, bi_debit = 0, bi_balance = None,
     bi_at = ''x'', bi_effective = [], bi_desc = []\<rparr>"

definition demo_items :: "batch_item list" where
  "demo_items = [demo_item ''7'' 500, demo_item ''7'' 500, demo_item ''7'' 900]"

definition demo_run :: "(err option \<times> batch_result) \<times> store" where
  "demo_run = ingest_batch demo_env ''c'' 1 ''***1'' demo_items False ''REALTIME'' demo_bank"

lemma demo_run_ok: "fst (fst demo_run) = None \<and> br_inserted (snd (fst demo_run)) = 1
  \<and> br_conflicts (snd (fst demo_run)) = 1 \<and> length (br_events (snd (fst demo_run))) = 1
  \<and> length (deliveries (snd demo_run)) = 1"
  by code_simp

lemma demo_bank_inv: "fk_inv demo_bank"
  by (simp add: fk_inv_def demo_bank_def empty_store_def)

lemma demo_run_eq: "ingest_batch demo_env ''c'' 1 ''***1'' demo_items False ''REALTIME'' demo_bank
    = ((None, snd (fst demo_run)), snd demo_run)"
  using demo_run_ok by (simp add: demo_run_def prod_eq_iff)

definition silent_run :: "(err option \<times> batch_result) \<times> store" where
  "silent_run = ingest_batch demo_env ''c'' 1 ''***1'' [demo_item ''7'' 500] False ''FILTER_SYNC'' demo_bank"

text \<open>
  The integrity check counts every credit that a filter synchronisation stored as an orphan, although
  such credits never get an event.
\<close>

lemma filter_sync_orphans: "fst (fst silent_run) = None \<and> ir_orphans (check_integrity (snd silent_run)) = 1"
  by code_simp

lemma silent_run_eq: "ingest_batch demo_env ''c'' 1 ''***1'' [demo_item ''7'' 500] False ''FILTER_SYNC'' demo_bank
    = ((None, snd (fst silent_run)), snd silent_run)"
  using filter_sync_orphans by (simp add: silent_run_def prod_eq_iff)

section \<open>Effect\<close>



section \<open>Ledger\<close>

text \<open>
  The abstract ledger of a connection: for each semantic key the hash under which the transaction was
  first observed. Observing a batch keeps the first observation, counts repetitions and reports
  those that disagree.
\<close>

definition ledger :: "string \<Rightarrow> store \<Rightarrow> string \<Rightarrow> string option" where
  "ledger conn st key = map_option tx_hash (find_txn conn key st)"

fun observe :: "(string \<Rightarrow> string option) \<Rightarrow> batch_item list \<Rightarrow>
    (string \<Rightarrow> string option) \<times> nat \<times> nat \<times> nat" where
  "observe m [] = (m, 0, 0, 0)"
| "observe m (it # its) =
     (if \<not> item_valid it then observe m its
      else (case m (semantic_key (bi_number it)) of
              None \<Rightarrow> (case observe (m(semantic_key (bi_number it) \<mapsto> canonical_hash it)) its of
                         (m', i, s, c) \<Rightarrow> (m', i + 1, s, c))
            | Some h \<Rightarrow> (case observe m its of
                         (m', i, s, c) \<Rightarrow> (m', i, s + 1, if h \<noteq> canonical_hash it then c + 1 else c))))"

lemma ledger_cong: "transactions st = transactions st' \<Longrightarrow> ledger conn st = ledger conn st'"
  by (simp add: ledger_def find_txn_def fun_eq_iff)

lemma ledger_known: "ledger conn st key = None \<longleftrightarrow> key \<notin> known conn st"
  by (simp add: ledger_def find_txn_known)

lemma find_append_new: "List.find p (t @ [x]) = (case List.find p t of Some y \<Rightarrow> Some y | None \<Rightarrow> if p x then Some x else None)"
  by (induction t) auto

lemma ledger_append:
  assumes "transactions st' = transactions st @ [x]"
  shows "ledger conn st' = (if tx_conn x = conn \<and> ledger conn st (tx_key x) = None
     then (ledger conn st)(tx_key x \<mapsto> tx_hash x) else ledger conn st)"
  using assms
  by (auto simp: ledger_def find_txn_def sel1_def fun_eq_iff find_append_new split: option.splits)

lemma ingest_item_known_counts:
  assumes "ingest_item en conn masked eps baseline source it (st, res, k) = (None, st', res', k')"
    and "\<not> item_valid it \<or> ledger conn st (semantic_key (bi_number it)) = Some h"
  shows "br_skipped res' = (if item_valid it then br_skipped res + 1 else br_skipped res)"
    and "br_conflicts res' =
      (if item_valid it \<and> h \<noteq> canonical_hash it then br_conflicts res + 1 else br_conflicts res)"
proof -
  show "br_skipped res' = (if item_valid it then br_skipped res + 1 else br_skipped res)"
    "br_conflicts res' =
      (if item_valid it \<and> h \<noteq> canonical_hash it then br_conflicts res + 1 else br_conflicts res)"
    using assms
    by (auto simp: ingest_item_def item_valid_def Let_def ledger_def split: if_splits)
qed

lemma ingest_items_observe:
  assumes "ingest_items en conn masked eps baseline source its (st, res, k) = (None, st', res', k')"
    and "fk_inv st" and "observe (ledger conn st) its = (m, i, s, c)"
  shows "ledger conn st' = m \<and> br_inserted res' = br_inserted res + i
    \<and> br_skipped res' = br_skipped res + s \<and> br_conflicts res' = br_conflicts res + c
    \<and> (\<forall>other. other \<noteq> conn \<longrightarrow> ledger other st' = ledger other st)"
  using assms
proof (induction its arbitrary: st res k m i s c)
  case (Cons it its)
  obtain st1 res1 k1 where 1: "ingest_item en conn masked eps baseline source it (st, res, k) = (None, st1, res1, k1)"
    "ingest_items en conn masked eps baseline source its (st1, res1, k1) = (None, st', res', k')"
    using Cons.prems(1) by (auto split: prod.splits option.splits)
  obtain m' i' s' c' where o: "observe (ledger conn st1) its = (m', i', s', c')" by (cases "observe (ledger conn st1) its") auto
  show ?case
  proof (cases "item_valid it \<and> ledger conn st (semantic_key (bi_number it)) = None")
    case True
    then have "semantic_key (bi_number it) \<notin> known conn st" using ledger_known by blast
    then obtain x n1 where x: "row_of conn baseline source x it" "fk_inv st1"
      "contributes en masked (map fst eps) baseline source st st1 [x] n1"
      "res1 = res\<lparr>br_inserted := br_inserted res + 1, br_events := br_events res @ n1\<rparr>"
      using ingest_item_new [OF 1(1) Cons.prems(2)] True by blast
    note L = ledger_append [OF contributes_txns [OF x(3)]] row_of_simps [OF x(1)]
    have l1: "ledger conn st1 = (ledger conn st)(semantic_key (bi_number it) \<mapsto> canonical_hash it)"
      "\<forall>other. other \<noteq> conn \<longrightarrow> ledger other st1 = ledger other st"
      using L True by auto
    from True Cons.prems(3) o l1(1) have "m = m'" "i = i' + 1" "s = s'" "c = c'" by auto
    with Cons.IH [OF 1(2) x(2) o] l1 x(4) show ?thesis by auto
  next
    case False
    then have f: "\<not> item_valid it \<or> semantic_key (bi_number it) \<in> known conn st"
      using ledger_known by blast
    note kn = ingest_item_known [OF 1(1) f]
    obtain q where q: "st1 = st\<lparr>quarantine := q\<rparr>" using kn(2) by blast
    have fk: "fk_inv st1" using q Cons.prems(2) by simp
    have l1: "ledger other st1 = ledger other st" for other using q by (intro ledger_cong) simp
    note ih = Cons.IH [OF 1(2) fk o]
    show ?thesis
    proof (cases "item_valid it")
      case True
      then obtain h where h: "ledger conn st (semantic_key (bi_number it)) = Some h" using False by auto
      note cnt = ingest_item_known_counts [OF 1(1), of h]
      from True h Cons.prems(3) o l1
      have "m = m'" "i = i'" "s = s' + 1" "c = (if h \<noteq> canonical_hash it then c' + 1 else c')" by auto
      with ih l1 kn cnt True h show ?thesis by auto
    next
      case invalid: False
      note cnt = ingest_item_known_counts [OF 1(1), of undefined]
      from invalid Cons.prems(3) o l1 have "m = m'" "i = i'" "s = s'" "c = c'" by auto
      with ih l1 kn cnt invalid show ?thesis by auto
    qed
  qed
qed simp

text \<open>
  Property C7. The ingestion refines the abstract ledger: after a successful batch the hash on
  record of every key is that of its first valid observation, in this batch or earlier, the three
  counters count the first, repeated and disagreeing observations, and the ledgers of other
  connections are untouched.
\<close>

theorem ingest_refines_ledger:
  assumes "ingest_batch en conn g masked items baseline source st = ((None, res), st')"
    and "fk_inv st"
  shows "observe (ledger conn st) items = (ledger conn st', br_inserted res, br_skipped res, br_conflicts res)
    \<and> (\<forall>other. other \<noteq> conn \<longrightarrow> ledger other st' = ledger other st)"
proof (rule ingest_batch_success [OF assms(1)])
  fix src k
  assume *: "ingest_items en conn masked (active_endpoints st) baseline src items (st, batch0, 0) = (None, st', res, k)"
  obtain m i s c where o: "observe (ledger conn st) items = (m, i, s, c)" by (cases "observe (ledger conn st) items") auto
  show ?thesis using ingest_items_observe [OF * assms(2) o] o by (simp add: batch0_def)
qed

theorem ingest_refines_ledger_witness:
  "fst (observe (ledger ''c'' demo_bank) demo_items) = ledger ''c'' (snd demo_run)"
  using ingest_refines_ledger [OF demo_run_eq demo_bank_inv] by simp

section \<open>The canonical hash\<close>

lemma show_nat_no_colon: "CHR '':'' \<notin> set (show_nat n)"
proof -
  have "\<not> is_digit (CHR '':'')" by (simp add: is_digit_def)
  with show_nat_digits [of n] show ?thesis by (auto simp: list_all_iff)
qed

lemma show_int_no_colon: "CHR '':'' \<notin> set (show_int i)"
  by (simp add: show_int_def show_nat_no_colon)

lemma show_int_inj: "show_int a = show_int b \<longleftrightarrow> a = b"
proof -
  have h: "hd (show_nat n) \<noteq> CHR ''-''" for n
    using show_nat_digits [of n] is_digit_not_sign by (cases "show_nat n") auto
  have d: "''-'' @ show_nat x \<noteq> show_nat y" for x y using h [of y] by (metis append_Cons list.sel(1))
  show ?thesis
  proof
    assume e: "show_int a = show_int b"
    show "a = b"
    proof (cases "a < 0")
      case True
      with e d [of "nat (- a)" "nat b"] have "b < 0" by (auto simp: show_int_def split: if_splits)
      with True e show_nat_inj [of "nat (- a)" "nat (- b)"] show ?thesis by (simp add: show_int_def)
    next
      case False
      with e d [of "nat (- b)" "nat a"] have "\<not> b < 0" by (auto simp: show_int_def split: if_splits)
      with False e show_nat_inj [of "nat a" "nat b"] show ?thesis by (simp add: show_int_def)
    qed
  qed simp
qed

lemma append_sep_eq:
  assumes "c \<notin> set a" "c \<notin> set b"
  shows "a @ c # x = b @ c # y \<longleftrightarrow> a = b \<and> x = y"
  using assms by (induction a arbitrary: b) (case_tac b; auto)+

text \<open>
  Two observations of one transaction number get the same hash exactly when they agree
  on credit, debit and date; so a repetition is quarantined exactly when one of these changed, and
  a changed description or balance is not noticed.
\<close>

theorem canonical_hash_agrees:
  "bi_number a = bi_number b \<Longrightarrow>
   canonical_hash a = canonical_hash b \<longleftrightarrow>
     bi_credit a = bi_credit b \<and> bi_debit a = bi_debit b \<and> bi_at a = bi_at b"
  using show_int_no_colon by (simp add: canonical_hash_def append_sep_eq show_int_inj)

theorem canonical_hash_agrees_witness:
  "canonical_hash (demo_item ''7'' 500) \<noteq> canonical_hash (demo_item ''7'' 900)"
  using canonical_hash_agrees [of "demo_item ''7'' 500" "demo_item ''7'' 900"] by (simp add: demo_item_def)

section \<open>Atomicity and fence\<close>

text \<open>
  Property C11. A failed batch leaves the database as it was, and a batch succeeds only under the
  current generation of a monitoring connection.
\<close>

theorem ingest_atomic_fenced:
  "ingest_batch en conn g masked items baseline source st = ((r, res), st') \<Longrightarrow>
   (r \<noteq> None \<longrightarrow> st' = st) \<and>
   (r = None \<longrightarrow> (\<exists>c \<in> set (connections st). c_id c = conn \<and> c_generation c = g \<and> c_state c = Monitoring))"
  by (auto simp: ingest_batch_def fence_ok_def Let_def dest: sel1_Some split: option.splits prod.splits if_splits)

theorem ingest_atomic_fenced_witness:
  "\<exists>c \<in> set (connections demo_bank). c_generation c = 1 \<and> c_state c = Monitoring"
  using ingest_atomic_fenced [OF demo_run_eq] by blast

section \<open>Idempotence\<close>

lemma new_items_covers:
  "it \<in> set its \<Longrightarrow> item_valid it \<Longrightarrow>
   semantic_key (bi_number it) \<in> K \<union> (\<lambda>it. semantic_key (bi_number it)) ` set (new_items K its)"
proof (induction its arbitrary: K)
  case (Cons a its)
  show ?case
  proof (cases "it = a")
    case False
    with Cons.prems have "it \<in> set its" "item_valid it" by auto
    with Cons.IH [of K] Cons.IH [of "insert (semantic_key (bi_number a)) K"] show ?thesis by auto
  qed (use Cons.prems in auto)
qed simp

lemma known_contributes:
  assumes "contributes en masked eps baseline src st st' xs notes"
    "list_all2 (row_of conn baseline src) xs its"
  shows "known conn st' = known conn st \<union> (\<lambda>it. semantic_key (bi_number it)) ` set its"
proof -
  have "tx_key ` {x \<in> set xs. tx_conn x = conn} = (\<lambda>it. semantic_key (bi_number it)) ` set its"
    using assms(2)
  proof (induction rule: list_all2_induct)
    case (Cons x xs it its)
    then show ?case using row_of_simps [OF Cons(1)]
      by (auto simp: image_iff) (metis Cons.IH image_iff mem_Collect_eq)+
  qed simp
  then show ?thesis using contributes_txns [OF assms(1)] by (auto simp: known_def)
qed

lemma ingest_items_known:
  assumes "\<forall>it \<in> set its. item_valid it \<longrightarrow> semantic_key (bi_number it) \<in> known conn st"
  shows "\<exists>q res' k'. ingest_items en conn masked eps baseline source its (st, res, k) = (None, st\<lparr>quarantine := q\<rparr>, res', k')
    \<and> br_inserted res' = br_inserted res \<and> br_events res' = br_events res"
  using assms
proof (induction its arbitrary: st res k)
  case Nil
  show ?case by (intro exI [of _ "quarantine st"]) simp
next
  case (Cons it its)
  obtain r st1 res1 k1 where 1: "ingest_item en conn masked eps baseline source it (st, res, k) = (r, st1, res1, k1)"
    by (cases "ingest_item en conn masked eps baseline source it (st, res, k)") auto
  have f: "\<not> item_valid it \<or> semantic_key (bi_number it) \<in> known conn st" using Cons.prems by simp
  note kn = ingest_item_known [OF 1 f]
  then obtain q where q: "st1 = st\<lparr>quarantine := q\<rparr>" by blast
  have "\<forall>it \<in> set its. item_valid it \<longrightarrow> semantic_key (bi_number it) \<in> known conn st1"
    using Cons.prems q by simp
  from Cons.IH [OF this, of res1 k1] 1 kn q show ?case by auto
qed

text \<open>
  Property C10. Ingesting is idempotent: repeating a batch that succeeded, with whatever identifiers,
  clock and source the repetition has, succeeds and changes nothing but the quarantine; it reports
  no insertion and no event.
\<close>

theorem ingest_idempotent:
  assumes "ingest_batch en conn g masked items baseline source st = ((None, res), st')"
    and "fk_inv st"
  shows "\<exists>q res2. ingest_batch en2 conn g masked2 items baseline2 source2 st' = ((None, res2), st'\<lparr>quarantine := q\<rparr>)
    \<and> br_inserted res2 = 0 \<and> br_events res2 = []"
proof -
  define src where "src = (if source = [] then ''REALTIME'' else source)"
  obtain xs where xs: "list_all2 (row_of conn baseline src) xs (new_items (known conn st) items)"
    "contributes en masked (map fst (active_endpoints st)) baseline src st st' xs (br_events res)"
    using ingest_batch_contributes [OF assms src_def] by blast
  have "connections st' = connections st" using xs(2) by (auto simp: contributes_def)
  then have fence: "fence_ok conn g st' = None" "conn \<noteq> []"
    using assms(1) by (auto simp: fence_ok_def elim: ingest_batch_success)
  have "\<forall>it \<in> set items. item_valid it \<longrightarrow> semantic_key (bi_number it) \<in> known conn st'"
    using new_items_covers known_contributes [OF xs(2,1)] by blast
  from ingest_items_known [OF this, of en2 masked2 "active_endpoints st'" baseline2
      "if source2 = [] then ''REALTIME'' else source2" batch0 0] fence
  show ?thesis by (auto simp: ingest_batch_def)
qed

theorem ingest_idempotent_witness:
  "\<exists>q res2. ingest_batch demo_env ''c'' 1 ''***1'' demo_items False [] (snd demo_run)
     = ((None, res2), (snd demo_run)\<lparr>quarantine := q\<rparr>) \<and> br_inserted res2 = 0"
  using ingest_idempotent [OF demo_run_eq demo_bank_inv] by blast

section \<open>Suppression and replay\<close>

lemma emitting_none:
  "baseline \<or> src = ''FILTER_SYNC'' \<or> src = ''BOOTSTRAP'' \<Longrightarrow> emitting baseline src xs = []"
  "baseline \<or> src = ''FILTER_SYNC'' \<or> src = ''BOOTSTRAP'' \<Longrightarrow> delivering baseline src xs = []"
  by (auto simp: emitting_def delivering_def emits_credit_def delivers_def)

text \<open>
  Baseline, filter synchronisation and bootstrap batches are silent: whatever they
  contain, they add no event, no journal entry and no delivery and notify nobody.
\<close>

theorem ingest_silent:
  assumes "ingest_batch en conn g masked items baseline source st = ((None, res), st')" and "fk_inv st"
    and "baseline \<or> source = ''FILTER_SYNC'' \<or> source = ''BOOTSTRAP''"
  shows "events st' = events st \<and> journal st' = journal st \<and> deliveries st' = deliveries st \<and> br_events res = []"
proof -
  let ?src = "if source = [] then ''REALTIME'' else source"
  have s: "baseline \<or> ?src = ''FILTER_SYNC'' \<or> ?src = ''BOOTSTRAP''" using assms(3) by auto
  obtain xs where xs:
    "contributes en masked (map fst (active_endpoints st)) baseline ?src st st' xs (br_events res)"
    using ingest_batch_contributes [OF assms(1,2) refl] by blast
  have "ds = []" if "new_deliveries en masked eps [] ds" for eps ds
    using that by (cases ds) (auto simp: new_deliveries_def)
  with xs emitting_none [OF s] show ?thesis by (auto simp: contributes_def)
qed

theorem ingest_silent_witness: "events (snd silent_run) = events demo_bank"
  using ingest_silent [OF silent_run_eq demo_bank_inv] by blast

text \<open>
  Property C12. Replay: a client that has read the journal up to the state before a batch and reads on
  gets exactly the entries of the batch's notifications, in order, numbered without gap.
\<close>

theorem ingest_replay:
  assumes "ingest_batch en conn g masked items baseline source st = ((None, res), st')" and "fk_inv st"
  shows "map (\<lambda>j. (jr_seq j, jr_aggregate j, jr_payload j)) (read_journal [] (journal_seq st) limit st') =
      take (journal_limit limit) (map (\<lambda>n. (nt_seq n, nt_txn n, nt_payload n)) (br_events res))
    \<and> map nt_seq (br_events res) = map (\<lambda>i. journal_seq st + 1 + int i) [0..<length (br_events res)]"
proof -
  define src where "src = (if source = [] then ''REALTIME'' else source)"
  obtain xs where xs: "fk_inv st'"
    "contributes en masked (map fst (active_endpoints st)) baseline src st st' xs (br_events res)"
    using ingest_batch_contributes [OF assms src_def] by blast
  define em where "em = emitting baseline src xs"
  let ?new = "numbered (journal_of en masked) (journal_seq st) em"
  have j: "journal st' = journal st @ ?new" "br_events res = numbered (note_of en masked) (journal_seq st) em"
    using xs(2) by (auto simp: contributes_def em_def)
  have seqs: "map g (numbered f n ys) = map (\<lambda>i. n + 1 + int i) [0..<length ys]"
    if "\<And>i x. g (f i x) = i" for g f n and ys :: "txn_row list"
  proof (induction ys arbitrary: n)
    case (Cons y ys)
    have "[0..<length (y # ys)] = 0 # map Suc [0..<length ys]" by (simp add: map_Suc_upt upt_conv_Cons del: upt_Suc)
    with Cons.IH [of "n + 1"] that show ?case by (simp add: algebra_simps del: upt_Suc)
  qed simp
  have old: "\<not> jr_seq x > journal_seq st" if "x \<in> set (journal st)" for x
    using assms(2) that by (auto simp: fk_inv_def)
  have new: "jr_seq x > journal_seq st" "jr_epoch x = ''ep1''" if "x \<in> set ?new" for x
    using numbered_bounds [OF that] by (auto simp: journal_of_def)
  have f: "filter (\<lambda>j. jr_epoch j = default_epoch [] \<and> jr_seq j > journal_seq st) (journal st') = ?new"
    using old new by (simp add: j(1) default_epoch_def filter_empty_conv)
  have "sorted_wrt (<) (map jr_seq ?new)"
    using xs(1) by (simp add: fk_inv_def j(1) sorted_wrt_append)
  then have "sorted (map jr_seq ?new)" using strict_sorted_imp_sorted by blast
  then have "read_journal [] (journal_seq st) limit st' = take (journal_limit limit) ?new"
    by (simp add: read_journal_def f sorted_sort_id sort_key_id_if_sorted)
  moreover have "map (\<lambda>j. (jr_seq j, jr_aggregate j, jr_payload j)) ?new =
      map (\<lambda>n. (nt_seq n, nt_txn n, nt_payload n)) (br_events res)"
    by (simp add: j(2) numbered_map journal_of_def note_of_def)
  moreover have "map nt_seq (br_events res) = map (\<lambda>i. journal_seq st + 1 + int i) [0..<length (br_events res)]"
  proof -
    have "map nt_seq (br_events res) = map (\<lambda>i. journal_seq st + 1 + int i) [0..<length em]"
      unfolding j(2) by (rule seqs) (simp add: note_of_def)
    moreover have "length (br_events res) = length em"
      using arg_cong [OF seqs [of nt_seq "note_of en masked" "journal_seq st" em], of length] j(2)
      by (simp add: note_of_def)
    ultimately show ?thesis by simp
  qed
  ultimately show ?thesis by (simp add: take_map [symmetric])
qed

theorem ingest_replay_witness:
  "map (\<lambda>j. (jr_seq j, jr_aggregate j, jr_payload j)) (read_journal [] 0 10 (snd demo_run)) =
     take 10 (map (\<lambda>n. (nt_seq n, nt_txn n, nt_payload n)) (br_events (snd (fst demo_run))))"
  using ingest_replay [OF demo_run_eq demo_bank_inv, of 10]
  by (simp add: demo_bank_def empty_store_def journal_limit_def)

definition undated :: store where
  "undated = demo_bank\<lparr>transactions := [(txn_of ''t'' [] ''c'' False [] (demo_item ''7'' 500))
     \<lparr>tx_date := ''05/09/2026'', tx_precision := []\<rparr>]\<rparr>"

lemma undated_backlog: "backlog (transactions undated) = 1"
  by code_simp

text \<open>
  Property C13. The backfill terminates and leaves no row pending: every row without a canonical day
  gets the canonical columns of its own date (or the mark \<open>unknown\<close>), every other row is kept, and
  the count returned is that of the dates that normalised.
\<close>

theorem backfill_complete:
  assumes "distinct (map tx_id (transactions st))"
  shows "backfill_dates st = (backlog (transactions st), st\<lparr>transactions := map dated (transactions st)\<rparr>)
    \<and> (\<forall>x \<in> set (transactions (snd (backfill_dates st))). \<not> date_pending x)"
proof -
  have "\<not> date_pending (dated x)" for x by (simp add: dated_def set_dates_not_pending)
  then show ?thesis by (auto simp: backfill_dates_def backfill_loop_spec [OF assms])
qed

theorem backfill_complete_witness: "fst (backfill_dates undated) = 1"
  using backfill_complete [of undated] undated_backlog by (simp add: undated_def)

section \<open>Runs of the ingestion\<close>

inductive ingest_step :: "store \<Rightarrow> store \<Rightarrow> bool" where
  batch: "ingest_step st (snd (ingest_batch en conn g masked items baseline source st))"
| one: "ingest_step st (snd (ingest_one en i st))"
| emit: "ingest_step st (snd (emit_event en txn ty ns key marshalled st))"
| backfill: "ingest_step st (snd (backfill_dates st))"
| append: "ingest_step st (snd (append_journal_event en epoch ty agg bytes st))"
| retention: "ingest_step st (snd (delete_journal_before cutoff st))"

text \<open>What a transaction row keeps for ever.\<close>

definition entry_of :: "txn_row \<Rightarrow> string \<times> string \<times> string \<times> string \<times> int \<times> int \<times> string" where
  "entry_of x = (tx_id x, tx_conn x, tx_key x, tx_hash x, tx_credit x, tx_debit x, tx_date x)"

definition grows :: "store \<Rightarrow> store \<Rightarrow> bool" where
  "grows st st' \<longleftrightarrow>
     (\<exists>es. map entry_of (transactions st') = map entry_of (transactions st) @ es) \<and>
     (\<exists>es. events st' = events st @ es) \<and> (\<exists>ds. deliveries st' = deliveries st @ ds) \<and>
     journal_seq st \<le> journal_seq st' \<and>
     (\<forall>j \<in> set (journal st'). j \<in> set (journal st) \<or> journal_seq st < jr_seq j)"

lemma grows_refl [simp]: "grows st st"
  by (auto simp: grows_def)

lemma grows_trans:
  assumes "grows a b" "grows b c"
  shows "grows a c"
proof -
  have "\<exists>es. map entry_of (transactions c) = map entry_of (transactions a) @ es"
    "\<exists>es. events c = events a @ es" "\<exists>ds. deliveries c = deliveries a @ ds"
    using assms unfolding grows_def by (metis append.assoc)+
  moreover have "journal_seq a \<le> journal_seq c" using assms unfolding grows_def by linarith
  moreover have "\<forall>j \<in> set (journal c). j \<in> set (journal a) \<or> journal_seq a < jr_seq j"
    using assms unfolding grows_def by fastforce
  ultimately show ?thesis unfolding grows_def by blast
qed

lemma contributes_grows: "contributes en masked eps baseline src st st' xs notes \<Longrightarrow> grows st st'"
  by (auto simp: contributes_def grows_def dest: numbered_bounds) (auto simp: journal_of_def dest!: numbered_bounds)

lemma insert_event_grows: "insert_event e st = Inr st' \<Longrightarrow> fk_inv st \<Longrightarrow> fk_inv st' \<and> grows st st'"
proof (cases "st' = st")
  case False
  assume i: "insert_event e st = Inr st'" and fk: "fk_inv st"
  have st': "st' = st\<lparr>events := events st @ [e]\<rparr>" and n: "\<forall>x \<in> set (events st). ev_id x \<noteq> ev_id e"
    and t: "\<exists>x \<in> set (transactions st). tx_id x = ev_txn e"
    using i False by (auto simp: insert_event_def map_sum_Inr insert_row_Inr list_ex_iff split: if_splits)
  have "ev_id e \<notin> ev_id ` set (events st)" using n by fastforce
  moreover have "ev_txn e \<in> tx_id ` set (transactions st)" using t by (auto intro: rev_image_eqI)
  ultimately show ?thesis using fk by (auto simp: st' fk_inv_def grows_def)
qed simp

lemma append_journal_grows: "grows st (snd (append_journal ep ty a p ts st))"
  by (auto simp: append_journal_def Let_def grows_def)

lemma insert_deliveries_grows: "insert_deliveries en p ev ts eps k st = Inr st' \<Longrightarrow> grows st st'"
  by (drule insert_deliveries_effect) (auto simp: grows_def)

lemma dated_entry: "entry_of (dated x) = entry_of x"
  by (simp add: entry_of_def dated_def set_dates_def split: prod.splits)

lemma ingest_step_inv:
  assumes "ingest_step st st'" "fk_inv st"
  shows "fk_inv st' \<and> grows st st'"
  using assms
proof cases
  case (batch en conn g masked items baseline source)
  obtain r res where r: "ingest_batch en conn g masked items baseline source st = ((r, res), st')"
    using batch by (cases "ingest_batch en conn g masked items baseline source st") auto
  show ?thesis
  proof (cases r)
    case None
    with ingest_batch_contributes [OF r [unfolded None] assms(2) refl] show ?thesis
      using contributes_grows by blast
  next
    case (Some e)
    then have "st' = st" using r by (auto simp: ingest_batch_def Let_def split: option.splits prod.splits if_splits)
    with assms(2) show ?thesis by simp
  qed
next
  case (one en i)
  have q: "insert_quarantine q st = Inr s \<Longrightarrow> fk_inv s \<and> grows st s" for q s
    using assms(2) by (auto simp: insert_quarantine_def map_sum_Inr grows_def)
  have x: "insert_txn x st = Inr s \<Longrightarrow> fk_inv s \<and> grows st s" for x s
    using insert_txn_inv [OF _ assms(2)] by (auto simp: insert_txn_Inr grows_def)
  show ?thesis
    using assms(2) unfolding one
    by (auto simp: ingest_one_def Let_def dest: q x split: option.splits sum.splits prod.splits)
next
  case (emit en txn ty ns key marshalled)
  show ?thesis
  proof (cases "st' = st")
    case False
    then obtain e ev ts p s1 s2 where s: "insert_event e st = Inr s1"
      "insert_deliveries en ''del'' ev ts (active_endpoints s1) 0 s1 = Inr s2"
      "st' = snd (append_journal ''ep1'' ty txn p ts s2)"
      unfolding emit by (auto simp: emit_event_def Let_def rbind_Inr_iff split: sum.splits if_splits)
    then have "fk_inv s1" "grows st s1" using insert_event_grows assms(2) by blast+
    then have "fk_inv s2" "grows st s2"
      using insert_deliveries_inv [OF s(2)] insert_deliveries_grows [OF s(2)] grows_trans by blast+
    then show ?thesis
      unfolding s(3) using append_journal_inv append_journal_grows grows_trans by blast
  qed (use assms(2) in simp)
next
  case backfill
  have d: "distinct (map tx_id (transactions st))" using assms(2) by (simp add: fk_inv_def)
  have st': "st' = st\<lparr>transactions := map dated (transactions st)\<rparr>"
    using backfill_loop_spec [OF d, of 0] unfolding backfill by (simp add: backfill_dates_def)
  have e: "map entry_of (map dated t) = map entry_of t" for t by (simp add: dated_entry)
  have k: "tx_id (dated x) = tx_id x" "tx_conn (dated x) = tx_conn x" "tx_key (dated x) = tx_key x" for x
    using dated_entry [of x] by (simp_all add: entry_of_def)
  show ?thesis
    using assms(2) unfolding st' by (simp add: fk_inv_def grows_def dated_entry k o_def image_image)
next
  case (append en epoch ty agg bytes)
  then show ?thesis using append_journal_inv [OF assms(2)] append_journal_grows
    by (simp add: append_journal_event_def)
next
  case (retention cutoff)
  have "sorted_wrt (<) (map jr_seq (del p (journal st)))" for p
    using assms(2) by (simp add: fk_inv_def del_def sorted_wrt_map sorted_wrt_filter)
  with assms(2) show ?thesis
    unfolding retention by (auto simp: delete_journal_before_def Let_def fk_inv_def grows_def del_def)
qed

text \<open>
  Property C9. From a database that satisfies the referential invariant (the empty one does), every
  run of ingestion operations, failed ones included, keeps it; transactions, events and deliveries are
  only ever appended, the recorded part of a transaction never changes, and a sequence number
  is never used again, retention of old journal entries included.
\<close>

theorem ingest_append_only:
  "ingest_step\<^sup>*\<^sup>* st st' \<Longrightarrow> fk_inv st \<Longrightarrow> fk_inv st' \<and> grows st st'"
proof (induction rule: rtranclp_induct)
  case (step y z)
  then show ?case using ingest_step_inv [of y z] grows_trans by blast
qed simp
theorem ingest_append_only_witness: "grows demo_bank (snd demo_run)"
proof -
  have "ingest_step demo_bank (snd demo_run)" unfolding demo_run_def by (rule ingest_step.batch)
  then have "ingest_step\<^sup>*\<^sup>* demo_bank (snd demo_run)" by blast
  from ingest_append_only [OF this demo_bank_inv] show ?thesis by blast
qed

end
