(* ===== verification/Base64.thy ===== *)
theory Base64
  imports Prelude
begin

text \<open>
  Base64 without padding (\<open>encoding/base64\<close>, \<open>RawStdEncoding\<close> and \<open>RawURLEncoding\<close>): groups of
  three bytes become four letters of a 64-letter alphabet. Decoding skips line breaks, as
  \<open>DecodeString\<close> does, and does not insist on zero bits in the last letter.
\<close>

section \<open>Groups of bytes and groups of letters\<close>

fun to_sextets :: "nat list \<Rightarrow> nat list" where
  "to_sextets [] = []"
| "to_sextets [a] = [a div 4, (a mod 4) * 16]"
| "to_sextets [a, b] = [a div 4, (a mod 4) * 16 + b div 16, (b mod 16) * 4]"
| "to_sextets (a # b # c # r) =
     a div 4 # ((a mod 4) * 16 + b div 16) # ((b mod 16) * 4 + c div 64) # (c mod 64) # to_sextets r"

fun of_sextets :: "nat list \<Rightarrow> nat list option" where
  "of_sextets [] = Some []"
| "of_sextets [w] = None"
| "of_sextets [w, x] = Some [w * 4 + x div 16]"
| "of_sextets [w, x, y] = Some [w * 4 + x div 16, (x mod 16) * 16 + y div 4]"
| "of_sextets (w # x # y # z # r) =
     map_option (\<lambda>bs. (w * 4 + x div 16) # ((x mod 16) * 16 + y div 4) # ((y mod 4) * 64 + z) # bs)
       (of_sextets r)"

lemma glue: "(y :: nat) < k \<Longrightarrow> (x * k + y) div k = x" "(y :: nat) < k \<Longrightarrow> (x * k + y) mod k = y"
  by simp_all

lemma of_to_sextets: "\<forall>b \<in> set bs. b < 256 \<Longrightarrow> of_sextets (to_sextets bs) = Some bs"
proof (induction bs rule: to_sextets.induct)
  case (3 a b)
  have "b div 16 < 16" using 3 by (simp add: div_less_iff_less_mult)
  then show ?case by (simp add: glue)
next
  case (4 a b c r)
  have "b div 16 < 16" "c div 64 < 4" using 4 by (simp_all add: div_less_iff_less_mult)
  with 4 show ?case by (simp add: glue)
qed simp_all

lemma to_sextets_less: "\<forall>b \<in> set bs. b < 256 \<Longrightarrow> \<forall>s \<in> set (to_sextets bs). s < 64"
proof (induction bs rule: to_sextets.induct)
  case (2 a)
  have "a mod 4 \<le> 3" using mod_less_divisor [of 4 a] by linarith
  with 2 show ?case by auto
next
  case (3 a b)
  have "a mod 4 \<le> 3" "b mod 16 \<le> 15" "b div 16 < 16"
    using 3 mod_less_divisor [of 4 a] mod_less_divisor [of 16 b] by auto
  with 3 show ?case by auto
next
  case (4 a b c r)
  have "a mod 4 \<le> 3" "b mod 16 \<le> 15" "b div 16 < 16" "c div 64 < 4"
    using 4 mod_less_divisor [of 4 a] mod_less_divisor [of 16 b] by auto
  with 4 show ?case by auto
qed simp

section \<open>Alphabets\<close>

definition std_alphabet :: string where
  "std_alphabet = ''ABCDEFGHIJKLMNOPQRSTUVWXYZabcdefghijklmnopqrstuvwxyz0123456789+/''"

definition url_alphabet :: string where
  "url_alphabet = ''ABCDEFGHIJKLMNOPQRSTUVWXYZabcdefghijklmnopqrstuvwxyz0123456789-_''"

fun letter_index :: "string \<Rightarrow> char \<Rightarrow> nat option" where
  "letter_index [] c = None"
| "letter_index (d # ds) c = (if d = c then Some 0 else map_option Suc (letter_index ds c))"

fun letter_indices :: "string \<Rightarrow> string \<Rightarrow> nat list option" where
  "letter_indices alphabet [] = Some []"
| "letter_indices alphabet (c # s) =
     (case letter_index alphabet c of None \<Rightarrow> None
      | Some i \<Rightarrow> map_option (Cons i) (letter_indices alphabet s))"

definition bytes_of :: "string \<Rightarrow> nat list" where
  "bytes_of s = map of_char s"

definition b64_encode :: "string \<Rightarrow> string \<Rightarrow> string" where
  "b64_encode alphabet s = map (\<lambda>i. alphabet ! i) (to_sextets (bytes_of s))"

definition b64_decode :: "string \<Rightarrow> string \<Rightarrow> string option" where
  "b64_decode alphabet s =
     (case letter_indices alphabet (filter (\<lambda>c. c \<noteq> CHR 0x0A \<and> c \<noteq> CHR 0x0D) s) of
        None \<Rightarrow> None
      | Some is \<Rightarrow> map_option (map char_of) (of_sextets is))"

definition good_alphabet :: "string \<Rightarrow> bool" where
  "good_alphabet al \<longleftrightarrow> length al = 64 \<and> distinct al \<and> CHR 0x0A \<notin> set al \<and> CHR 0x0D \<notin> set al"

lemma alphabets_good: "good_alphabet std_alphabet" "good_alphabet url_alphabet"
  by (simp_all add: good_alphabet_def std_alphabet_def url_alphabet_def)

lemma letter_index_nth: "distinct al \<Longrightarrow> i < length al \<Longrightarrow> letter_index al (al ! i) = Some i"
  by (induction al arbitrary: i) (auto simp: nth_Cons split: nat.splits)

lemma letter_indices_map:
  "distinct al \<Longrightarrow> \<forall>i \<in> set is. i < length al \<Longrightarrow> letter_indices al (map (\<lambda>i. al ! i) is) = Some is"
  by (induction "is") (simp_all add: letter_index_nth)

lemma bytes_of_less: "\<forall>b \<in> set (bytes_of s). b < 256"
  by (auto simp: bytes_of_def of_char_def)

lemma b64_roundtrip:
  assumes "good_alphabet al"
  shows "b64_decode al (b64_encode al s) = Some s"
proof -
  let ?is = "to_sextets (bytes_of s)"
  have less: "\<forall>i \<in> set ?is. i < length al"
    using to_sextets_less [OF bytes_of_less] assms by (auto simp: good_alphabet_def)
  then have "\<forall>c \<in> set (map (\<lambda>i. al ! i) ?is). c \<in> set al" by auto
  then have "filter (\<lambda>c. c \<noteq> CHR 0x0A \<and> c \<noteq> CHR 0x0D) (map (\<lambda>i. al ! i) ?is) = map (\<lambda>i. al ! i) ?is"
    using assms by (intro filter_True) (auto simp: good_alphabet_def)
  then show ?thesis
    using letter_indices_map [OF _ less] of_to_sextets [OF bytes_of_less, of s] assms
    by (simp add: b64_decode_def b64_encode_def good_alphabet_def bytes_of_def o_def)
qed
end
