(* ===== verification/Crypto.thy ===== *)
theory Crypto
  imports Base64
begin

text \<open>
  \<open>src/internal/security/crypto.go\<close>: the master keyring and its sealed envelopes. AES-GCM is not
  code of the repository: sealing and opening are the parameters \<open>va_seal\<close> and \<open>va_open\<close> of a
  \<open>vault\<close>, with their law as the hypothesis \<open>opens_sealed\<close>; the JSON reader for envelopes is
  \<open>va_parse\<close>. Random bytes and the content of the key file are arguments.
\<close>

section \<open>Hexadecimal\<close>

definition hex_value :: "char \<Rightarrow> nat option" where
  "hex_value c =
     (let n = (of_char c :: nat)
      in if 48 \<le> n \<and> n \<le> 57 then Some (n - 48)
         else if 97 \<le> n \<and> n \<le> 102 then Some (n - 87)
         else if 65 \<le> n \<and> n \<le> 70 then Some (n - 55) else None)"

text \<open>\<open>hex.DecodeString\<close>: an odd length or a foreign letter is an error.\<close>

fun hex_decode :: "string \<Rightarrow> string option" where
  "hex_decode [] = Some []"
| "hex_decode [c] = None"
| "hex_decode (c # d # s) =
     (case (hex_value c, hex_value d) of
        (Some a, Some b) \<Rightarrow> map_option (Cons (char_of (16 * a + b))) (hex_decode s)
      | _ \<Rightarrow> None)"

section \<open>Keyring\<close>

record envelope =
  kx_version :: string
  kx_key :: string
  kx_nonce :: string
  kx_cipher :: string

record keyring =
  kr_current :: string
  kr_keys :: "string \<Rightarrow> string option"

record vault =
  va_seal :: "string \<Rightarrow> string \<Rightarrow> string \<Rightarrow> string \<Rightarrow> string"   \<comment> \<open>key, nonce, plain text, associated data\<close>
  va_open :: "string \<Rightarrow> string \<Rightarrow> string \<Rightarrow> string \<Rightarrow> string option"   \<comment> \<open>key, nonce, cipher text, associated data\<close>
  va_parse :: "string \<Rightarrow> envelope option"   \<comment> \<open>\<open>json.Unmarshal\<close> into an envelope\<close>

definition envelope_version :: string where "envelope_version = ''v1''"

definition gcm_nonce_size :: nat where "gcm_nonce_size = 12"

text \<open>\<open>aes.NewCipher\<close> accepts keys of 16, 24 and 32 bytes.\<close>

definition aes_key :: "string \<Rightarrow> bool" where
  "aes_key k \<longleftrightarrow> length k = 16 \<or> length k = 24 \<or> length k = 32"

text \<open>
  \<open>LoadKeyring\<close>: the content of the file, trimmed, is tried as 64 hexadecimal digits, as base64
  without and with padding, and finally as 32 raw bytes. \<open>padded\<close> is \<open>base64.StdEncoding\<close>.
\<close>

definition key_of_file :: "(string \<Rightarrow> string option) \<Rightarrow> string \<Rightarrow> string" where
  "key_of_file padded b =
     (let str = trim_space b;
          fits = (\<lambda>k. case k of Some x \<Rightarrow> length x = 32 | None \<Rightarrow> False);
          hx = (if length str = 64 then hex_decode str else None)
      in if fits hx then the hx
         else if fits (b64_decode std_alphabet str) then the (b64_decode std_alphabet str)
         else if fits (padded str) then the (padded str)
         else if length b = 32 then b else [])"

definition load_keyring :: "(string \<Rightarrow> string option) \<Rightarrow> string \<Rightarrow> string result \<Rightarrow> keyring result" where
  "load_keyring padded path content =
     (if path = [] then Inl (ErrMsg ''master key file is not configured'')
      else (case content of
        Inl e \<Rightarrow> Inl (ErrWrap ''read master key'' e)
      | Inr b \<Rightarrow>
          if length (key_of_file padded b) \<noteq> 32 then Inl (ErrMsg ''master key must be 32 bytes'')
          else Inr \<lparr>kr_current = ''k1'', kr_keys = [''k1'' \<mapsto> key_of_file padded b]\<rparr>))"

text \<open>A missing current key is the empty key, which AES refuses.\<close>

definition encrypt :: "vault \<Rightarrow> keyring \<Rightarrow> string \<Rightarrow> string \<Rightarrow> string \<Rightarrow> envelope result" where
  "encrypt v k nonce plain aad =
     (let key = (case kr_keys k (kr_current k) of None \<Rightarrow> [] | Some x \<Rightarrow> x)
      in if \<not> aes_key key then Inl (ErrMsg ''crypto/aes: invalid key size'')
         else Inr \<lparr>kx_version = envelope_version, kx_key = kr_current k,
                   kx_nonce = b64_encode std_alphabet nonce,
                   kx_cipher = b64_encode std_alphabet (va_seal v key nonce plain aad)\<rparr>)"

text \<open>\<open>gcm.Open\<close> panics on a nonce of another size than its own.\<close>

definition decrypt :: "vault \<Rightarrow> keyring \<Rightarrow> envelope \<Rightarrow> string \<Rightarrow> string result" where
  "decrypt v k e aad =
     (if kx_version e \<noteq> envelope_version then Inl (ErrMsg ''unsupported envelope version'')
      else (case kr_keys k (kx_key e) of
        None \<Rightarrow> Inl (ErrMsg ''unknown key id'')
      | Some key \<Rightarrow>
          if \<not> aes_key key then Inl (ErrMsg ''crypto/aes: invalid key size'')
          else (case b64_decode std_alphabet (kx_nonce e) of
            None \<Rightarrow> Inl (ErrMsg ''invalid nonce'')
          | Some nonce \<Rightarrow>
              (case b64_decode std_alphabet (kx_cipher e) of
                None \<Rightarrow> Inl (ErrMsg ''invalid ciphertext'')
              | Some c \<Rightarrow>
                  if length nonce \<noteq> gcm_nonce_size then Inl (ErrMsg ''panic: incorrect nonce length given to GCM'')
                  else (case va_open v key nonce c aad of
                    None \<Rightarrow> Inl (ErrMsg ''cipher: message authentication failed'')
                  | Some plain \<Rightarrow> Inr plain)))))"

text \<open>The law of an AEAD: what was sealed opens under the same key, nonce and associated data.\<close>

definition opens_sealed :: "vault \<Rightarrow> bool" where
  "opens_sealed v \<longleftrightarrow> (\<forall>k n p a. va_open v k n (va_seal v k n p a) a = Some p)"

definition keyring_ok :: "keyring \<Rightarrow> bool" where
  "keyring_ok k \<longleftrightarrow>
     (\<exists>key. kr_keys k (kr_current k) = Some key \<and> aes_key key) \<and> CHR 0x22 \<notin> set (kr_current k)"

lemma load_keyring_ok: "load_keyring padded path content = Inr k \<Longrightarrow> keyring_ok k"
  by (auto simp: load_keyring_def keyring_ok_def aes_key_def split: if_splits sum.splits)

lemma encrypt_succeeds: "keyring_ok k \<Longrightarrow> \<exists>e. encrypt v k nonce plain aad = Inr e"
  by (auto simp: encrypt_def keyring_ok_def)

lemma decrypt_encrypt:
  assumes "opens_sealed v" "encrypt v k nonce plain aad = Inr e" "length nonce = gcm_nonce_size"
  shows "decrypt v k e aad = Inr plain"
proof -
  obtain key where "kr_keys k (kr_current k) = Some key" "aes_key key"
    using assms(2) by (auto simp: encrypt_def Let_def aes_key_def split: option.splits if_splits)
  then show ?thesis
    using assms alphabets_good(1)
    by (auto simp: encrypt_def decrypt_def b64_roundtrip opens_sealed_def)
qed

text \<open>
  \<open>json.Marshal\<close> of an envelope; the values that \<open>encrypt\<close> puts in it need no escaping.
\<close>

definition envelope_json :: "envelope \<Rightarrow> string" where
  "envelope_json e =
     ''{\"Version\":\"'' @ kx_version e @ ''\",\"KeyID\":\"'' @ kx_key e @ ''\",\"Nonce\":\"'' @ kx_nonce e
       @ ''\",\"Ciphertext\":\"'' @ kx_cipher e @ ''\"}''"

definition unquoted :: "envelope \<Rightarrow> bool" where
  "unquoted e \<longleftrightarrow> CHR 0x22 \<notin> set (kx_version e) \<and> CHR 0x22 \<notin> set (kx_key e)
     \<and> CHR 0x22 \<notin> set (kx_nonce e) \<and> CHR 0x22 \<notin> set (kx_cipher e)"

text \<open>The law of the JSON reader: it reads back what \<open>json.Marshal\<close> wrote.\<close>

definition parses_marshalled :: "vault \<Rightarrow> bool" where
  "parses_marshalled v \<longleftrightarrow> (\<forall>e. unquoted e \<longrightarrow> va_parse v (envelope_json e) = Some e)"

lemma b64_unquoted: "CHR 0x22 \<notin> set (b64_encode std_alphabet s)"
proof -
  have "\<forall>i \<in> set (to_sextets (bytes_of s)). std_alphabet ! i \<in> set std_alphabet"
    using to_sextets_less [OF bytes_of_less, of s] alphabets_good(1) by (auto simp: good_alphabet_def)
  moreover have "CHR 0x22 \<notin> set std_alphabet" by (simp add: std_alphabet_def)
  ultimately show ?thesis by (auto simp: b64_encode_def)
qed

lemma encrypt_unquoted: "encrypt v k nonce plain aad = Inr e \<Longrightarrow> keyring_ok k \<Longrightarrow> unquoted e"
  using b64_unquoted
  by (auto simp: encrypt_def keyring_ok_def unquoted_def envelope_version_def Let_def split: if_splits)

definition verify_hmac :: "string \<Rightarrow> string \<Rightarrow> bool" where
  "verify_hmac expected actual = (expected = actual)"

text \<open>
  Sealing and opening as the storage package uses them: encrypt and marshal, unmarshal and decrypt.
\<close>

definition seal_blob :: "vault \<Rightarrow> keyring \<Rightarrow> string \<Rightarrow> string \<Rightarrow> string \<Rightarrow> string result" where
  "seal_blob v k nonce plain aad = map_sum id envelope_json (encrypt v k nonce plain aad)"

definition open_blob :: "vault \<Rightarrow> keyring \<Rightarrow> string \<Rightarrow> string \<Rightarrow> string result" where
  "open_blob v k blob aad =
     (case va_parse v blob of
        None \<Rightarrow> Inl (ErrMsg ''unmarshal envelope'')
      | Some e \<Rightarrow> map_sum (ErrWrap ''decrypt'') id (decrypt v k e aad))"

lemma open_seal_blob:
  assumes "opens_sealed v" "parses_marshalled v" "seal_blob v k nonce plain aad = Inr blob"
    "length nonce = gcm_nonce_size" "keyring_ok k"
  shows "open_blob v k blob aad = Inr plain"
proof -
  obtain e where e: "encrypt v k nonce plain aad = Inr e" "blob = envelope_json e"
    using assms(3) by (cases "encrypt v k nonce plain aad") (auto simp: seal_blob_def)
  then show ?thesis
    using decrypt_encrypt [OF assms(1) e(1) assms(4)] encrypt_unquoted [OF e(1) assms(5)] assms(2)
    by (simp add: open_blob_def parses_marshalled_def)
qed

text \<open>
  A concrete vault on which the two laws hold: sealing that hides nothing, and a reader that splits
  the text at its quotation marks.
\<close>

definition open_vault :: vault where
  "open_vault = \<lparr>va_seal = (\<lambda>k n p a. p), va_open = (\<lambda>k n c a. Some c),
     va_parse = (\<lambda>j. case split_on (CHR 0x22) j of
        [_, _, _, v, _, _, _, k, _, _, _, n, _, _, _, c, _] \<Rightarrow>
          Some \<lparr>kx_version = v, kx_key = k, kx_nonce = n, kx_cipher = c\<rparr>
      | _ \<Rightarrow> None)\<rparr>"

lemma open_vault_laws: "opens_sealed open_vault" "parses_marshalled open_vault"
  by (simp_all add: opens_sealed_def parses_marshalled_def unquoted_def open_vault_def envelope_json_def
      split_on_append)

text \<open>A stored envelope whose nonce is not 12 bytes long makes \<open>Decrypt\<close> panic instead of failing.\<close>

lemma decrypt_panics:
  "decrypt v \<lparr>kr_current = ''k1'', kr_keys = [''k1'' \<mapsto> replicate 32 (CHR 0x00)]\<rparr>
     \<lparr>kx_version = ''v1'', kx_key = ''k1'', kx_nonce = [], kx_cipher = []\<rparr> aad
   = Inl (ErrMsg ''panic: incorrect nonce length given to GCM'')"
  by (simp add: decrypt_def aes_key_def envelope_version_def gcm_nonce_size_def b64_decode_def)

end
