(* ===== verification/Url.thy ===== *)
theory Url
  imports Prelude
begin

text \<open>
  \<open>src/internal/security/url.go\<close> and the address checks of \<open>src/internal/webhook/webhook.go\<close>: which
  targets a webhook may have. \<open>url.Parse\<close> and \<open>net.ParseIP\<close> are the parameters of \<open>net_lib\<close>; an IP
  address is its sixteen bytes, as in \<open>net.IP\<close>, an IPv4 address being mapped into \<open>::ffff:0:0/96\<close>.
\<close>

type_synonym ip = "nat list"

record url =
  u_scheme :: string
  u_host :: string
  u_user :: bool      \<comment> \<open>whether user information is present\<close>
  u_query :: string
  u_fragment :: string

record net_lib =
  nl_url :: "string \<Rightarrow> url option"
  nl_ip :: "string \<Rightarrow> ip option"

section \<open>Host and port\<close>

text \<open>\<open>URL.Hostname\<close> and \<open>URL.Port\<close>: a port is a final colon and digits; brackets are removed.\<close>

definition split_last :: "char \<Rightarrow> string \<Rightarrow> (string \<times> string) option" where
  "split_last d s =
     (if d \<notin> set s then None
      else let r = rev s; tail = takeWhile (\<lambda>c. c \<noteq> d) r
           in Some (rev (drop (Suc (length tail)) r), rev tail))"

definition split_host_port :: "string \<Rightarrow> string \<times> string" where
  "split_host_port h =
     (let (host, port) = (case split_last (CHR '':'') h of
            Some (a, b) \<Rightarrow> if list_all is_digit b then (a, b) else (h, [])
          | None \<Rightarrow> (h, []))
      in (if has_prefix host ''['' \<and> has_suffix host '']'' then butlast (tl host) else host, port))"

section \<open>Public addresses\<close>

definition to4 :: "ip \<Rightarrow> nat list option" where
  "to4 ip =
     (if length ip = 4 then Some ip
      else if length ip = 16 \<and> take 12 ip = replicate 10 0 @ [255, 255] then Some (drop 12 ip)
      else None)"

definition ip6_loopback :: ip where "ip6_loopback = replicate 15 0 @ [1]"

definition is_loopback :: "ip \<Rightarrow> bool" where
  "is_loopback ip = (case to4 ip of Some v \<Rightarrow> v ! 0 = 127 | None \<Rightarrow> ip = ip6_loopback)"

definition is_private :: "ip \<Rightarrow> bool" where
  "is_private ip =
     (case to4 ip of
        Some v \<Rightarrow> v ! 0 = 10 \<or> (v ! 0 = 172 \<and> v ! 1 div 16 = 1) \<or> (v ! 0 = 192 \<and> v ! 1 = 168)
      | None \<Rightarrow> length ip = 16 \<and> ip ! 0 div 2 = 126)"

definition is_link_local_unicast :: "ip \<Rightarrow> bool" where
  "is_link_local_unicast ip =
     (case to4 ip of
        Some v \<Rightarrow> v ! 0 = 169 \<and> v ! 1 = 254
      | None \<Rightarrow> length ip = 16 \<and> ip ! 0 = 254 \<and> ip ! 1 div 64 = 2)"

definition is_link_local_multicast :: "ip \<Rightarrow> bool" where
  "is_link_local_multicast ip =
     (case to4 ip of
        Some v \<Rightarrow> v ! 0 = 224 \<and> v ! 1 = 0 \<and> v ! 2 = 0
      | None \<Rightarrow> length ip = 16 \<and> ip ! 0 = 255 \<and> ip ! 1 mod 16 = 2)"

definition is_multicast :: "ip \<Rightarrow> bool" where
  "is_multicast ip =
     (case to4 ip of Some v \<Rightarrow> v ! 0 div 16 = 14 | None \<Rightarrow> length ip = 16 \<and> ip ! 0 = 255)"

definition is_unspecified :: "ip \<Rightarrow> bool" where
  "is_unspecified ip = (case to4 ip of Some v \<Rightarrow> v = [0, 0, 0, 0] | None \<Rightarrow> ip = replicate 16 0)"

text \<open>\<open>isPublicIP\<close>, and the same test again as \<open>validPublicIP\<close> in the webhook package.\<close>

definition is_public_ip :: "ip \<Rightarrow> bool" where
  "is_public_ip ip =
     (if is_loopback ip \<or> is_private ip \<or> is_link_local_unicast ip \<or> is_link_local_multicast ip
         \<or> is_multicast ip \<or> is_unspecified ip then False
      else (case to4 ip of
        Some v \<Rightarrow> \<not> (v ! 0 = 100 \<and> v ! 1 \<ge> 64 \<and> v ! 1 \<le> 127) \<and> \<not> v ! 0 \<ge> 224
      | None \<Rightarrow> True))"

definition valid_public_ip :: "ip \<Rightarrow> bool" where
  "valid_public_ip ip =
     (if is_loopback ip \<or> is_private ip \<or> is_link_local_unicast ip \<or> is_link_local_multicast ip
         \<or> is_multicast ip \<or> is_unspecified ip then False
      else (case to4 ip of
        Some v \<Rightarrow> \<not> (v ! 0 = 100 \<and> v ! 1 \<ge> 64 \<and> v ! 1 \<le> 127) \<and> \<not> v ! 0 \<ge> 224
      | None \<Rightarrow> True))"

section \<open>ValidateWebhookURL\<close>

definition validate_webhook_url :: "net_lib \<Rightarrow> string \<Rightarrow> url result" where
  "validate_webhook_url nl raw =
     (case nl_url nl raw of
        None \<Rightarrow> Inl (ErrMsg ''webhook URL must be an absolute HTTPS URL without userinfo or fragment'')
      | Some u \<Rightarrow>
          if u_scheme u \<noteq> ''https'' \<or> u_host u = [] \<or> u_user u \<or> u_fragment u \<noteq> []
          then Inl (ErrMsg ''webhook URL must be an absolute HTTPS URL without userinfo or fragment'')
          else (let (name, port) = split_host_port (u_host u); host = trim_suffix (to_lower name) ''.''
                in if port \<noteq> [] \<and> (case parse_int64 port of None \<Rightarrow> True | Some p \<Rightarrow> p < 1 \<or> p > 65535)
                   then Inl (ErrMsg ''invalid webhook port'')
                   else if host = [] then Inl (ErrMsg ''webhook hostname is required'')
                   else if (case nl_ip nl host of Some ip \<Rightarrow> \<not> is_public_ip ip | None \<Rightarrow> False)
                   then Inl (ErrMsg ''webhook IP address must be public'')
                   else Inr u))"

section \<open>PublicDialer\<close>

text \<open>
  \<open>DialContext\<close>: every address the name resolves to must be public; then they are tried in
  order and the last failure is reported. \<open>resolve\<close> and \<open>connect\<close> are the network.
\<close>

fun try_addresses :: "(ip \<Rightarrow> 'c result) \<Rightarrow> err option \<Rightarrow> ip list \<Rightarrow> 'c result" where
  "try_addresses connect prior [] = (case prior of None \<Rightarrow> Inl (ErrMsg ''nil'') | Some e \<Rightarrow> Inl e)"
| "try_addresses connect prior (a # as) =
     (case connect a of Inr c \<Rightarrow> Inr c | Inl e \<Rightarrow> try_addresses connect (Some e) as)"

definition public_dial ::
  "(string \<Rightarrow> (string \<times> string) result) \<Rightarrow> (string \<Rightarrow> ip list result) \<Rightarrow> (ip \<Rightarrow> string \<Rightarrow> 'c result) \<Rightarrow>
   string \<Rightarrow> 'c result" where
  "public_dial split resolve connect address =
     (case split address of
        Inl e \<Rightarrow> Inl e
      | Inr (host, port) \<Rightarrow>
          (case resolve host of
            Inl e \<Rightarrow> Inl e
          | Inr ips \<Rightarrow>
              if ips = [] then Inl (ErrMsg ''hostname has no addresses'')
              else if list_ex (\<lambda>a. \<not> valid_public_ip a) ips
              then Inl (ErrMsg ''webhook host has non-public address'')
              else try_addresses (\<lambda>a. connect a port) None ips))"

section \<open>Properties\<close>

text \<open>An IPv4 address as a 32-bit number, and as the sixteen bytes of its mapped form.\<close>

definition v4_num :: "nat list \<Rightarrow> nat" where
  "v4_num v = ((v ! 0 * 256 + v ! 1) * 256 + v ! 2) * 256 + v ! 3"

definition mapped :: "nat list \<Rightarrow> ip" where
  "mapped v = replicate 10 0 @ [255, 255] @ v"

text \<open>The address blocks that are refused: first address and size.\<close>

definition refused_blocks :: "(nat list \<times> nat) list" where
  "refused_blocks =
     [([0, 0, 0, 0], 1), ([10, 0, 0, 0], 2 ^ 24), ([100, 64, 0, 0], 2 ^ 22), ([127, 0, 0, 0], 2 ^ 24),
      ([169, 254, 0, 0], 2 ^ 16), ([172, 16, 0, 0], 2 ^ 20), ([192, 168, 0, 0], 2 ^ 16),
      ([224, 0, 0, 0], 2 ^ 29)]"

definition in_block :: "nat \<Rightarrow> nat list \<times> nat \<Rightarrow> bool" where
  "in_block n b = (v4_num (fst b) \<le> n \<and> n < v4_num (fst b) + snd b)"

lemma to4_mapped: "length v = 4 \<Longrightarrow> to4 (mapped v) = Some v"
  by (simp add: to4_def mapped_def)

lemma quotient_eq: "0 < k \<Longrightarrow> (b :: nat) div k = q \<longleftrightarrow> q * k \<le> b \<and> b < Suc q * k"
proof -
  assume k: "0 < k"
  have "b div k = q \<longleftrightarrow> q \<le> b div k \<and> \<not> Suc q \<le> b div k" by auto
  then show ?thesis using k by (simp add: less_eq_div_iff_mult_less_eq not_le)
qed

text \<open>A block whose size is a power of 256 or less is a condition on the leading bytes.\<close>

lemma block_iff:
  fixes m k x r :: nat
  assumes "r < k"
  shows "x * k \<le> m * k + r \<and> m * k + r < x * k + k \<longleftrightarrow> m = x"
    and "x * k \<le> m * k + r \<longleftrightarrow> x \<le> m"
    and "m * k + r < x * k \<longleftrightarrow> m < x"
proof -
  have le: "x * k \<le> m * k + r \<longleftrightarrow> x \<le> m" for x
  proof
    assume a: "x * k \<le> m * k + r"
    show "x \<le> m"
    proof (rule ccontr)
      assume "\<not> x \<le> m"
      then have "Suc m * k \<le> x * k" by (intro mult_le_mono1) simp
      with a assms show False by simp
    qed
  next
    assume "x \<le> m"
    then have "x * k \<le> m * k" by (rule mult_le_mono1)
    then show "x * k \<le> m * k + r" by (rule trans_le_add1)
  qed
  show "x * k \<le> m * k + r \<longleftrightarrow> x \<le> m" by (rule le)
  show "m * k + r < x * k \<longleftrightarrow> m < x" using le [of x] by auto
  have "m * k + r < x * k + k \<longleftrightarrow> m < Suc x" using le [of "Suc x"] by auto
  with le [of x] show "x * k \<le> m * k + r \<and> m * k + r < x * k + k \<longleftrightarrow> m = x" by auto
qed

lemma v4_blocks:
  assumes "a < 256" "b < 256" "c < 256" "d < 256"
  shows "list_ex (in_block (v4_num [a, b, c, d])) refused_blocks \<longleftrightarrow>
     (a = 0 \<and> b = 0 \<and> c = 0 \<and> d = 0) \<or> a = 10 \<or> (a = 100 \<and> 64 \<le> b \<and> b < 128) \<or> a = 127 \<or>
     (a = 169 \<and> b = 254) \<or> (a = 172 \<and> 16 \<le> b \<and> b < 32) \<or> (a = 192 \<and> b = 168) \<or> 224 \<le> a"
proof -
  let ?n = "v4_num [a, b, c, d]"
  have r2: "c * 256 + d < 65536" using assms by linarith
  have "(b * 256 + c) * 256 + d = b * 65536 + (c * 256 + d)" by (simp add: algebra_simps)
  then have r1: "(b * 256 + c) * 256 + d < 16777216" using assms(2) r2 by linarith
  have n1: "?n = a * 16777216 + ((b * 256 + c) * 256 + d)" and n2: "?n = (a * 256 + b) * 65536 + (c * 256 + d)"
    by (simp_all add: v4_num_def)
  have ab: "a * 256 + b = x * 256 + y \<longleftrightarrow> a = x \<and> b = y" if "y < 256" for x y
    using assms that by (cases "a < x"; cases "x < a") auto
  have z: "in_block ?n ([0, 0, 0, 0], 1) \<longleftrightarrow> a = 0 \<and> b = 0 \<and> c = 0 \<and> d = 0"
    by (auto simp: in_block_def v4_num_def)
  have x1: "v4_num [x, 0, 0, 0] = x * 16777216" and x2: "v4_num [x, y, 0, 0] = (x * 256 + y) * 65536" for x y
    by (simp_all add: v4_num_def)
  have p: "(2 :: nat) ^ 24 = 16777216" "(2 :: nat) ^ 16 = 65536" by simp_all
  note unf = in_block_def fst_conv snd_conv x2 p
  have e8: "in_block ?n ([x, 0, 0, 0], 2 ^ 24) \<longleftrightarrow> a = x" for x
    unfolding in_block_def fst_conv snd_conv x1 p n1 by (rule block_iff(1) [OF r1])
  have e16: "in_block ?n ([x, y, 0, 0], 2 ^ 16) \<longleftrightarrow> a = x \<and> b = y" if "y < 256" for x y
    unfolding unf n2 block_iff(1) [OF r2] by (rule ab [OF that])
  have e12: "in_block ?n ([x, y, 0, 0], s * 65536) \<longleftrightarrow> a = x \<and> y \<le> b \<and> b < y + s" if "y + s \<le> 256" for x y s
  proof -
    have "(x * 256 + y) * 65536 + s * 65536 = (x * 256 + y + s) * 65536" by (simp add: add_mult_distrib)
    then have "in_block ?n ([x, y, 0, 0], s * 65536) \<longleftrightarrow> x * 256 + y \<le> a * 256 + b \<and> a * 256 + b < x * 256 + y + s"
      unfolding unf n2 by (simp only: block_iff(2,3) [OF r2])
    moreover have "x * 256 + y \<le> a * 256 + b \<and> a * 256 + b < x * 256 + y + s \<longleftrightarrow> a = x \<and> y \<le> b \<and> b < y + s"
      using assms that by (cases "a < x"; cases "a > x") auto
    ultimately show ?thesis by simp
  qed
  have e3: "in_block ?n ([224, 0, 0, 0], 2 ^ 29) \<longleftrightarrow> 224 \<le> a"
  proof -
    have "224 * 16777216 + (2 :: nat) ^ 29 = 256 * 16777216" by simp
    then have "in_block ?n ([224, 0, 0, 0], 2 ^ 29) \<longleftrightarrow> 224 \<le> a \<and> a < 256"
      unfolding in_block_def fst_conv snd_conv x1 n1 by (simp only: block_iff(2,3) [OF r1])
    with assms(1) show ?thesis by simp
  qed
  show ?thesis
    using z e8 e16 e3 e12 [of 64 64 100] e12 [of 16 16 172] by (simp add: refused_blocks_def)
qed

text \<open>
  The addresses a webhook may connect to over IPv4 are exactly those outside the eight
  refused blocks (unspecified, the private ranges, carrier-grade NAT, loopback, link-local, and
  everything from 224.0.0.0 on); the two copies of the test agree.
\<close>

theorem public_v4_blocks:
  assumes "length v = 4" and "\<forall>b \<in> set v. b < 256"
  shows "(is_public_ip (mapped v) \<longleftrightarrow> \<not> list_ex (in_block (v4_num v)) refused_blocks)
    \<and> valid_public_ip (mapped v) = is_public_ip (mapped v)"
proof -
  obtain a b c d where v: "v = [a, b, c, d]" using assms(1) by (auto simp: length_Suc_conv numeral_eq_Suc)
  have lt: "a < 256" "b < 256" "c < 256" "d < 256" using assms(2) v by auto
  have q: "b div 16 = Suc 0 \<longleftrightarrow> 16 \<le> b \<and> b < 32" "a div 16 = 14 \<longleftrightarrow> 224 \<le> a \<and> a < 240"
    by (auto simp: quotient_eq)
  have "is_public_ip (mapped v) \<longleftrightarrow>
      \<not> (a = 127 \<or> (a = 10 \<or> (a = 172 \<and> 16 \<le> b \<and> b < 32) \<or> (a = 192 \<and> b = 168)) \<or> (a = 169 \<and> b = 254)
        \<or> (a = 224 \<and> b = 0 \<and> c = 0) \<or> (224 \<le> a \<and> a < 240) \<or> (a = 0 \<and> b = 0 \<and> c = 0 \<and> d = 0))
      \<and> \<not> (a = 100 \<and> 64 \<le> b \<and> b \<le> 127) \<and> \<not> 224 \<le> a"
    by (simp add: v is_public_ip_def is_loopback_def is_private_def is_link_local_unicast_def
        is_link_local_multicast_def is_multicast_def is_unspecified_def to4_mapped q)
  moreover have "b \<le> 127 \<longleftrightarrow> b < 128" "a = 224 \<Longrightarrow> 224 \<le> a" by auto
  ultimately have "is_public_ip (mapped v) \<longleftrightarrow> \<not> list_ex (in_block (v4_num v)) refused_blocks"
    unfolding v v4_blocks [OF lt] by blast
  then show ?thesis by (simp add: valid_public_ip_def is_public_ip_def)
qed

theorem public_v4_blocks_witness: "\<not> is_public_ip (mapped [100, 64, 0, 1]) \<and> is_public_ip (mapped [8, 8, 8, 8])"
  using public_v4_blocks [of "[100, 64, 0, 1]"] public_v4_blocks [of "[8, 8, 8, 8]"]
  by (simp add: refused_blocks_def in_block_def v4_num_def)

lemma try_addresses_Inr:
  "try_addresses connect prior as = Inr c \<Longrightarrow> \<exists>a \<in> set as. connect a = Inr c"
  by (induction as arbitrary: prior) (auto split: option.splits sum.splits)



text \<open>
  IPv6 addresses that embed a private IPv4 address through NAT64 (\<open>64:ff9b::/96\<close>) or as an
  IPv4-compatible address (\<open>::/96\<close>) pass the test.
\<close>

lemma embedded_private_passes:
  "is_public_ip (replicate 12 0 @ [127, 0, 0, 1])" "is_public_ip ([0, 100, 255, 155] @ replicate 8 0 @ [10, 0, 0, 1])"
  by code_simp+

end
