(* ===== verification/Channels.thy ===== *)
theory Channels
  imports Store Crypto Url
begin

text \<open>
  Notification channels: \<open>notifications.go\<close> and the endpoint part of \<open>events.go\<close> in
  \<open>src/internal/storage\<close>. Creating a channel, changing it under its revision, rotating its secret,
  and resolving the target of a delivery from the snapshot (revision and key) that the delivery
  carries. The JSON text of a Bark configuration is kept as the value it encodes, \<open>None\<close> being \<open>{}\<close>;
  the keyring of the store is an optional argument, identifiers, clock and random bytes arguments.
\<close>

section \<open>Bark configuration\<close>

definition default_bark :: bark_config where
  "default_bark = \<lparr>bk_group = ''ACB'', bk_level = ''timeSensitive'', bk_sound = ''shake'',
     bk_balance = False, bk_desc = True, bk_link = True\<rparr>"

definition bark_level :: "string \<Rightarrow> bool" where
  "bark_level l \<longleftrightarrow> l = ''passive'' \<or> l = ''active'' \<or> l = ''timeSensitive''"

definition normalize_bark :: "bark_config option \<Rightarrow> bark_config result" where
  "normalize_bark cfg =
     (case cfg of
        None \<Rightarrow> Inr default_bark
      | Some c \<Rightarrow>
          (let g = trim_space (bk_group c); l = trim_space (bk_level c); s = trim_space (bk_sound c)
           in if g \<noteq> [] \<and> length g > 64 then Inl (ErrMsg (''group name too long (max 64): '' @ g))
              else if l \<noteq> [] \<and> \<not> bark_level l then Inl (ErrMsg (''invalid level '' @ l))
              else if s \<noteq> [] \<and> length s > 64 then Inl (ErrMsg (''sound name too long (max 64): '' @ s))
              else Inr \<lparr>bk_group = (if g \<noteq> [] then g else bk_group default_bark),
                        bk_level = (if l \<noteq> [] then l else bk_level default_bark),
                        bk_sound = (if s \<noteq> [] then s else bk_sound default_bark),
                        bk_balance = bk_balance c, bk_desc = bk_desc c, bk_link = bk_link c\<rparr>))"

text \<open>The checks of a Bark device key, trimmed; control characters are single bytes in UTF-8.\<close>

definition check_device_key :: "string \<Rightarrow> unit result" where
  "check_device_key k =
     (if k = [] then Inl (ErrMsg ''bark device key is required'')
      else if length k > 500 then Inl (ErrMsg ''bark device key exceeds max length of 500 characters'')
      else if list_ex (\<lambda>c. (of_char c :: nat) < 32 \<or> (of_char c :: nat) = 127) k
      then Inl (ErrMsg ''bark device key contains invalid control characters'')
      else Inr ())"

section \<open>Channels\<close>

record channel =
  ch_id :: string
  ch_name :: string
  ch_provider :: string
  ch_status :: ep_status
  ch_revision :: int
  ch_url :: string
  ch_bark :: "bark_config option"
  ch_has_key :: bool
  ch_created :: string
  ch_updated :: string

definition bark_aad :: "string \<Rightarrow> string \<Rightarrow> string" where
  "bark_aad ep key = ''notification-secret:BARK:'' @ ep @ '':'' @ key"

definition webhook_aad :: "string \<Rightarrow> string \<Rightarrow> string" where
  "webhook_aad ep key = ''webhook-secret:'' @ ep @ '':'' @ key"

definition new_secret :: "string \<Rightarrow> string \<Rightarrow> string \<Rightarrow> string \<Rightarrow> string \<Rightarrow> string \<Rightarrow> secret_row" where
  "new_secret ep key kind blob ts encoding =
     \<lparr>sc_endpoint = ep, sc_key = key, sc_envelope = blob, sc_status = SecActive, sc_created = ts,
      sc_retired = None, sc_encoding = encoding, sc_kind = kind\<rparr>"

text \<open>The three insertions of a new channel, in one transaction.\<close>

definition insert_channel :: "endpoint_row \<Rightarrow> version_row \<Rightarrow> secret_row \<Rightarrow> store \<Rightarrow> (store \<times> unit) result" where
  "insert_channel e v c s =
     rbind (insert_endpoint e s) (\<lambda>s1. rbind (insert_version v s1) (\<lambda>s2.
       rbind (insert_secret c s2) (\<lambda>s3. Inr (s3, ()))))"

definition create_bark_channel ::
  "vault \<Rightarrow> keyring option \<Rightarrow> string \<Rightarrow> string \<Rightarrow> instant \<Rightarrow> string \<Rightarrow> string \<Rightarrow> bark_config option \<Rightarrow> store \<Rightarrow>
   channel result \<times> store" where
  "create_bark_channel v kr nonce i t name0 key0 cfg st =
     (let name = trim_space name0; device = trim_space key0; ts = rfc3339nano t
      in if name = [] then (Inl (ErrMsg ''channel name is required''), st)
         else (case rbind (check_device_key device) (\<lambda>_. rbind (normalize_bark cfg) (\<lambda>norm.
                 (case kr of None \<Rightarrow> Inl (ErrMsg ''master keyring required to store Bark device key'')
                  | Some k \<Rightarrow> map_sum (ErrWrap ''encrypt bark device key'') (\<lambda>blob. (norm, blob))
                      (seal_blob v k nonce device (bark_aad i ''k1''))))) of
            Inl e \<Rightarrow> (Inl e, st)
          | Inr (norm, blob) \<Rightarrow>
              (case with_tx st (insert_channel
                      \<lparr>ep_id = i, ep_name = name, ep_status = EpDisabled, ep_revision = 1,
                       ep_created = ts, ep_updated = ts, ep_provider = ''BARK''\<rparr>
                      \<lparr>vs_endpoint = i, vs_revision = 1, vs_url = [], vs_config = Some norm, vs_created = ts\<rparr>
                      (new_secret i ''k1'' ''BARK_DEVICE_KEY'' blob ts ''aes-gcm-v1'')) of
                 (Inl e, st') \<Rightarrow> (Inl e, st')
               | (Inr _, st') \<Rightarrow>
                   (Inr \<lparr>ch_id = i, ch_name = name, ch_provider = ''BARK'', ch_status = EpDisabled,
                         ch_revision = 1, ch_url = [], ch_bark = Some norm, ch_has_key = True,
                         ch_created = ts, ch_updated = ts\<rparr>, st'))))"

text \<open>
  The secret of a webhook endpoint: 32 random bytes in hexadecimal, sealed when the store has a
  keyring; the stored text and its encoding.
\<close>

definition webhook_blob ::
  "vault \<Rightarrow> keyring option \<Rightarrow> string \<Rightarrow> string \<Rightarrow> string \<Rightarrow> string \<Rightarrow> (string \<times> string) result" where
  "webhook_blob v kr nonce secret ep key =
     (case kr of
        None \<Rightarrow> Inr (secret, ''legacy-hex'')
      | Some k \<Rightarrow> map_sum (ErrWrap ''encrypt webhook secret'') (\<lambda>b. (b, ''aes-gcm-v1''))
          (seal_blob v k nonce secret (webhook_aad ep key)))"

definition create_endpoint_with_secret ::
  "vault \<Rightarrow> keyring option \<Rightarrow> string \<Rightarrow> string \<Rightarrow> string \<Rightarrow> instant \<Rightarrow> string \<Rightarrow> string \<Rightarrow> store \<Rightarrow>
   (endpoint_view \<times> string) result \<times> store" where
  "create_endpoint_with_secret v kr nonce random i t name url st =
     (let secret = hex_encode random; ts = rfc3339nano t
      in if name = [] \<or> url = [] then (Inl (ErrMsg ''name and URL are required''), st)
         else (case webhook_blob v kr nonce secret i ''k1'' of
            Inl e \<Rightarrow> (Inl e, st)
          | Inr (blob, encoding) \<Rightarrow>
              (case with_tx st (insert_channel
                      \<lparr>ep_id = i, ep_name = name, ep_status = EpDisabled, ep_revision = 1,
                       ep_created = ts, ep_updated = ts, ep_provider = ''WEBHOOK''\<rparr>
                      \<lparr>vs_endpoint = i, vs_revision = 1, vs_url = url, vs_config = None, vs_created = ts\<rparr>
                      (new_secret i ''k1'' ''WEBHOOK_HMAC'' blob ts encoding)) of
                 (Inl e, st') \<Rightarrow> (Inl e, st')
               | (Inr _, st') \<Rightarrow>
                   (Inr (\<lparr>epv_id = i, epv_name = name, epv_url = url, epv_status = EpDisabled,
                          epv_revision = 1, epv_created = ts, epv_updated = ts\<rparr>, secret), st'))))"

definition find_endpoint :: "store \<Rightarrow> string \<Rightarrow> endpoint_row option" where
  "find_endpoint st i = sel1 (\<lambda>e. ep_id e = i) (endpoints st)"

definition active_secret :: "store \<Rightarrow> string \<Rightarrow> secret_row option" where
  "active_secret st i = sel1 (\<lambda>c. sc_endpoint c = i \<and> sc_status c = SecActive) (secrets st)"

definition channel_of :: "store \<Rightarrow> endpoint_row \<Rightarrow> version_row \<Rightarrow> channel" where
  "channel_of st e w =
     \<lparr>ch_id = ep_id e, ch_name = ep_name e, ch_provider = ep_provider e, ch_status = ep_status e,
      ch_revision = ep_revision e, ch_url = vs_url w,
      ch_bark = (if ep_provider e = ''BARK'' then vs_config w else None),
      ch_has_key = (active_secret st (ep_id e) \<noteq> None), ch_created = ep_created e,
      ch_updated = ep_updated e\<rparr>"

definition notification_channels :: "store \<Rightarrow> channel list" where
  "notification_channels st =
     List.map_filter (\<lambda>e. map_option (channel_of st e) (version_at st (ep_id e) (ep_revision e)))
       (rev (sort_key ep_created (endpoints st)))"

definition channel_by_id :: "string \<Rightarrow> store \<Rightarrow> channel result" where
  "channel_by_id i st =
     (case find_endpoint st i of
        None \<Rightarrow> Inl ErrNoRows
      | Some e \<Rightarrow> (case version_at st i (ep_revision e) of
                     None \<Rightarrow> Inl ErrNoRows | Some w \<Rightarrow> Inr (channel_of st e w)))"

text \<open>The version text of an update: a checked URL for a webhook, a configuration for Bark.\<close>

definition update_values ::
  "net_lib \<Rightarrow> string \<Rightarrow> string \<Rightarrow> bark_config option \<Rightarrow> (string \<times> bark_config option) result" where
  "update_values nl provider url0 cfg =
     (if provider = ''WEBHOOK'' then
        (let url = trim_space url0
         in if url = [] then Inl (ErrMsg ''target URL is required for webhook channel'')
            else (case validate_webhook_url nl url of
                    Inl e \<Rightarrow> Inl (ErrWrap ''invalid webhook URL'' e) | Inr _ \<Rightarrow> Inr (url, None)))
      else if provider = ''BARK'' then map_sum id (\<lambda>norm. ([], Some norm)) (normalize_bark cfg)
      else Inl (ErrMsg (''unknown provider '' @ provider)))"

definition update_tx ::
  "net_lib \<Rightarrow> instant \<Rightarrow> string \<Rightarrow> int \<Rightarrow> string \<Rightarrow> string \<Rightarrow> bark_config option \<Rightarrow> store \<Rightarrow>
   (store \<times> unit) result" where
  "update_tx nl t i expected name url cfg s =
     (case find_endpoint s i of
        None \<Rightarrow> Inl ErrNoRows
      | Some e \<Rightarrow>
          if ep_revision e \<noteq> expected then Inl (ErrWrap ''expected revision'' ErrRevisionConflict)
          else rbind (update_values nl (ep_provider e) url cfg) (\<lambda>(u, c).
            rbind (insert_version \<lparr>vs_endpoint = i, vs_revision = ep_revision e + 1, vs_url = u,
                    vs_config = c, vs_created = rfc3339nano t\<rparr> s) (\<lambda>s1.
              Inr (s1\<lparr>endpoints := upd (\<lambda>x. ep_id x = i)
                     (\<lambda>x. x\<lparr>ep_name := name, ep_revision := ep_revision e + 1,
                            ep_updated := rfc3339nano t\<rparr>) (endpoints s1)\<rparr>, ()))))"

definition update_channel ::
  "net_lib \<Rightarrow> instant \<Rightarrow> string \<Rightarrow> int \<Rightarrow> string \<Rightarrow> string \<Rightarrow> bark_config option \<Rightarrow> store \<Rightarrow>
   channel result \<times> store" where
  "update_channel nl t i expected name0 url cfg st =
     (let name = trim_space name0
      in if name = [] then (Inl (ErrMsg ''channel name is required''), st)
         else (case with_tx st (update_tx nl t i expected name url cfg) of
                (Inl e, st') \<Rightarrow> (Inl e, st')
              | (Inr _, st') \<Rightarrow> (channel_by_id i st', st')))"

section \<open>Secrets\<close>

definition retire_secrets :: "string \<Rightarrow> string \<Rightarrow> store \<Rightarrow> store" where
  "retire_secrets i ts s =
     s\<lparr>secrets := upd (\<lambda>c. sc_endpoint c = i \<and> sc_status c = SecActive)
         (\<lambda>c. c\<lparr>sc_status := SecRetired, sc_retired := Some ts\<rparr>) (secrets s)\<rparr>"

text \<open>
  \<open>RotateSecret\<close>: the new secret is handed out for a webhook only. The Go function has set its
  result before the insertion, and returns it also when the insertion fails.
\<close>

definition rotate_tx ::
  "vault \<Rightarrow> keyring option \<Rightarrow> string \<Rightarrow> string \<Rightarrow> string \<Rightarrow> instant \<Rightarrow> string \<Rightarrow> string \<Rightarrow> store \<Rightarrow>
   (store \<times> unit) result" where
  "rotate_tx v kr nonce random key t i device0 s =
     (case find_endpoint s i of
        None \<Rightarrow> Inl ErrNoRows
      | Some e \<Rightarrow>
          if ep_provider e = ''WEBHOOK'' then
            rbind (webhook_blob v kr nonce (hex_encode random) i key) (\<lambda>(blob, encoding).
              rbind (insert_secret (new_secret i key ''WEBHOOK_HMAC'' blob (rfc3339nano t) encoding)
                       (retire_secrets i (rfc3339nano t) s)) (\<lambda>s1. Inr (s1, ())))
          else if ep_provider e = ''BARK'' then
            (let device = trim_space device0
             in rbind (check_device_key device) (\<lambda>_.
                  (case kr of
                     None \<Rightarrow> Inl (ErrMsg ''master keyring required to rotate Bark device key'')
                   | Some k \<Rightarrow>
                       rbind (map_sum (ErrWrap ''encrypt bark device key'') id
                               (seal_blob v k nonce device (bark_aad i key))) (\<lambda>blob.
                         rbind (insert_secret (new_secret i key ''BARK_DEVICE_KEY'' blob (rfc3339nano t) ''aes-gcm-v1'')
                                  (retire_secrets i (rfc3339nano t) s)) (\<lambda>s1. Inr (s1, ()))))))
          else Inl (ErrMsg (''unknown provider '' @ ep_provider e)))"

definition rotate_secret ::
  "vault \<Rightarrow> keyring option \<Rightarrow> string \<Rightarrow> string \<Rightarrow> string \<Rightarrow> instant \<Rightarrow> string \<Rightarrow> string \<Rightarrow> store \<Rightarrow>
   (err option \<times> string) \<times> store" where
  "rotate_secret v kr nonce random key t i device st =
     (let out = (case find_endpoint st i of
            Some e \<Rightarrow> if ep_provider e = ''WEBHOOK'' then hex_encode random else []
          | None \<Rightarrow> [])
      in (case with_tx st (rotate_tx v kr nonce random key t i device) of
            (Inl e, st') \<Rightarrow> ((Some e, out), st')
          | (Inr _, st') \<Rightarrow> ((None, out), st')))"

text \<open>The secret of a row: opened when it is marked or looks sealed, else as it is.\<close>

definition sealed_row :: "secret_row \<Rightarrow> bool" where
  "sealed_row c \<longleftrightarrow> sc_encoding c = ''aes-gcm-v1'' \<or> has_prefix (sc_envelope c) ''{\"Version\":''"

definition webhook_secret :: "vault \<Rightarrow> keyring option \<Rightarrow> secret_row \<Rightarrow> string result" where
  "webhook_secret v kr c =
     (case kr of
        None \<Rightarrow> Inl (ErrMsg ''master keyring required to decrypt webhook secret'')
      | Some k \<Rightarrow> open_blob v k (sc_envelope c) (webhook_aad (sc_endpoint c) (sc_key c)))"

definition endpoint_details ::
  "vault \<Rightarrow> keyring option \<Rightarrow> string \<Rightarrow> store \<Rightarrow> (string \<times> string) result" where
  "endpoint_details v kr i st =
     (case (find_endpoint st i, active_secret st i) of
        (Some e, Some c) \<Rightarrow>
          (case version_at st i (ep_revision e) of
             None \<Rightarrow> Inl ErrNoRows
           | Some w \<Rightarrow>
               if sealed_row c then map_sum id (\<lambda>s. (vs_url w, s)) (webhook_secret v kr c)
               else if sc_encoding c \<noteq> ''legacy-hex''
               then Inl (ErrMsg (''unsupported webhook secret encoding '' @ sc_encoding c))
               else Inr (vs_url w, sc_envelope c))
      | _ \<Rightarrow> Inl ErrNoRows)"

section \<open>The target of a delivery\<close>

record target =
  tg_delivery :: string
  tg_endpoint :: string
  tg_provider :: string
  tg_url :: string
  tg_bark :: "bark_config option"
  tg_secret :: string
  tg_revision :: int
  tg_key :: string

text \<open>
  \<open>DeliveryTargetForDelivery\<close>. The snapshot selects version and secret; without one (revision not
  positive, empty key) the current version and the active secret are used.
\<close>

definition snapshot_version :: "store \<Rightarrow> endpoint_row \<Rightarrow> int \<Rightarrow> version_row option" where
  "snapshot_version st e r = version_at st (ep_id e) (if r > 0 then r else ep_revision e)"

definition snapshot_secret :: "store \<Rightarrow> string \<Rightarrow> string \<Rightarrow> secret_row option" where
  "snapshot_secret st i key =
     (if key \<noteq> [] then sel1 (\<lambda>c. sc_endpoint c = i \<and> sc_key c = key) (secrets st)
      else (case active_secret st i of
              None \<Rightarrow> None
            | Some a \<Rightarrow> sel1 (\<lambda>c. sc_endpoint c = i \<and> sc_key c = sc_key a) (secrets st)))"

definition delivery_target ::
  "vault \<Rightarrow> keyring option \<Rightarrow> string \<Rightarrow> string \<Rightarrow> int \<Rightarrow> string \<Rightarrow> store \<Rightarrow> target result" where
  "delivery_target v kr d i r key st =
     (case find_endpoint st i of
        None \<Rightarrow> Inl (ErrWrap ''fetch delivery target for endpoint'' ErrNoRows)
      | Some e \<Rightarrow>
          (case (snapshot_version st e r, snapshot_secret st i key) of
             (Some w, Some c) \<Rightarrow>
               (let tg = (\<lambda>bark s. \<lparr>tg_delivery = d, tg_endpoint = i, tg_provider = ep_provider e,
                       tg_url = vs_url w, tg_bark = bark, tg_secret = s, tg_revision = r, tg_key = sc_key c\<rparr>)
                in if ep_provider e = ''BARK'' then
                     (case kr of
                        None \<Rightarrow> Inl (ErrMsg ''master keyring required to decrypt Bark device key'')
                      | Some k \<Rightarrow>
                          map_sum id (tg (Some (case vs_config w of Some b \<Rightarrow> b | None \<Rightarrow> default_bark)))
                            (open_blob v k (sc_envelope c) (bark_aad i (sc_key c))))
                   else if sealed_row c then map_sum id (tg None) (webhook_secret v kr c)
                   else Inr (tg None (sc_envelope c)))
           | _ \<Rightarrow> Inl (ErrWrap ''fetch delivery target for endpoint'' ErrNoRows)))"

end
