(* ===== verification/ChannelProps.thy ===== *)
theory ChannelProps
  imports Channels
begin

text \<open>
  Channels as a transition system: the invariant of endpoints, versions and secrets, the
  stability of a delivery's snapshot under every later change, and the secret after a rotation.
\<close>

section \<open>Steps and invariant\<close>

inductive channel_step :: "store \<Rightarrow> store \<Rightarrow> bool" where
  plain: "channel_step st (snd (create_endpoint i t name url st))"
| webhook: "channel_step st (snd (create_endpoint_with_secret v kr nonce random i t name url st))"
| bark: "channel_step st (snd (create_bark_channel v kr nonce i t name key cfg st))"
| update: "channel_step st (snd (update_channel nl t i expected name url cfg st))"
| rotate: "channel_step st (snd (rotate_secret v kr nonce random key t i device st))"
| status: "channel_step st (snd (set_endpoint_status t i status st))"

definition ep_ids :: "store \<Rightarrow> string set" where "ep_ids st = ep_id ` set (endpoints st)"

definition vs_key :: "version_row \<Rightarrow> string \<times> int" where "vs_key w = (vs_endpoint w, vs_revision w)"

definition sc_id :: "secret_row \<Rightarrow> string \<times> string" where "sc_id c = (sc_endpoint c, sc_key c)"

definition one_active_secret :: "secret_row list \<Rightarrow> bool" where
  "one_active_secret cs \<longleftrightarrow>
     (\<forall>i. length (filter (\<lambda>c. sc_endpoint c = i \<and> sc_status c = SecActive) cs) \<le> 1)"

definition channel_inv :: "store \<Rightarrow> bool" where
  "channel_inv st \<longleftrightarrow>
     distinct (map ep_id (endpoints st)) \<and> distinct (map vs_key (versions st)) \<and>
     distinct (map sc_id (secrets st)) \<and> one_active_secret (secrets st) \<and>
     (\<forall>w \<in> set (versions st). \<exists>e \<in> set (endpoints st).
        ep_id e = vs_endpoint w \<and> 1 \<le> vs_revision w \<and> vs_revision w \<le> ep_revision e) \<and>
     (\<forall>e \<in> set (endpoints st). \<exists>w \<in> set (versions st). vs_key w = (ep_id e, ep_revision e)) \<and>
     (\<forall>c \<in> set (secrets st). sc_endpoint c \<in> ep_ids st)"

lemma channel_invD:
  assumes "channel_inv st"
  shows "distinct (map ep_id (endpoints st))" "distinct (map vs_key (versions st))"
    "distinct (map sc_id (secrets st))" "one_active_secret (secrets st)"
    "w \<in> set (versions st) \<Longrightarrow> \<exists>e \<in> set (endpoints st).
        ep_id e = vs_endpoint w \<and> 1 \<le> vs_revision w \<and> vs_revision w \<le> ep_revision e"
    "e \<in> set (endpoints st) \<Longrightarrow> \<exists>w \<in> set (versions st). vs_key w = (ep_id e, ep_revision e)"
    "c \<in> set (secrets st) \<Longrightarrow> sc_endpoint c \<in> ep_ids st"
  using assms unfolding channel_inv_def by simp_all

lemma map_endpoints_inv:
  assumes "channel_inv st" "\<And>x. ep_id (g x) = ep_id x" "\<And>x. ep_revision (g x) = ep_revision x"
  shows "channel_inv (st\<lparr>endpoints := map g (endpoints st)\<rparr>)"
  using assms by (simp add: channel_inv_def ep_ids_def o_def image_image)

lemma ids_list_ex: "list_ex (\<lambda>e. k e = x) t \<longleftrightarrow> x \<in> k ` set t"
  by (auto simp: list_ex_iff)

lemma channel_inv_empty: "channel_inv empty_store"
  by (simp add: channel_inv_def empty_store_def one_active_secret_def)

section \<open>Effects of the statements\<close>

lemma insert_endpoint_Inr:
  "insert_endpoint e s = Inr s' \<longleftrightarrow>
     (\<forall>x \<in> set (endpoints s). ep_id x \<noteq> ep_id e) \<and> s' = s\<lparr>endpoints := endpoints s @ [e]\<rparr>"
  by (cases "insert_row ''webhook_endpoints.id'' (\<lambda>x. ep_id x = ep_id e) True e (endpoints s)")
    (auto simp: insert_endpoint_def insert_row_def list_ex_iff split: if_splits)

lemma map_sum_Inr2: "map_sum f g r = Inr y \<longleftrightarrow> (\<exists>x. r = Inr x \<and> g x = y)"
  by (cases r) auto

lemma insert_version_Inr:
  "insert_version w s = Inr s' \<longleftrightarrow>
     (\<forall>x \<in> set (versions s). vs_key x \<noteq> vs_key w) \<and> vs_endpoint w \<in> ep_ids s \<and>
     s' = s\<lparr>versions := versions s @ [w]\<rparr>"
  by (auto simp: insert_version_def map_sum_Inr2 insert_row_Inr vs_key_def ep_ids_def ids_list_ex)

lemma insert_secret_Inr:
  "insert_secret c s = Inr s' \<longleftrightarrow>
     (\<forall>x \<in> set (secrets s). sc_id x \<noteq> sc_id c) \<and> sc_endpoint c \<in> ep_ids s \<and>
     s' = s\<lparr>secrets := secrets s @ [c]\<rparr>"
  by (auto simp: insert_secret_def map_sum_Inr2 insert_row_Inr sc_id_def ep_ids_def ids_list_ex)

text \<open>A new endpoint with its first version, and possibly a secret.\<close>

definition added :: "endpoint_row \<Rightarrow> version_row \<Rightarrow> secret_row list \<Rightarrow> store \<Rightarrow> store" where
  "added e w cs st = st\<lparr>endpoints := endpoints st @ [e], versions := versions st @ [w], secrets := secrets st @ cs\<rparr>"

definition fresh_channel :: "endpoint_row \<Rightarrow> version_row \<Rightarrow> secret_row list \<Rightarrow> store \<Rightarrow> bool" where
  "fresh_channel e w cs st \<longleftrightarrow>
     (\<forall>x \<in> set (endpoints st). ep_id x \<noteq> ep_id e) \<and> vs_key w = (ep_id e, 1) \<and> ep_revision e = 1 \<and>
     length cs \<le> 1 \<and> (\<forall>c \<in> set cs. sc_endpoint c = ep_id e)"

lemma insert_channel_Inr:
  "insert_channel e w c s = Inr (s', u) \<Longrightarrow> s' = added e w [c] s \<and> (\<forall>x \<in> set (endpoints s). ep_id x \<noteq> ep_id e)"
  by (auto simp: insert_channel_def rbind_Inr_iff insert_endpoint_Inr insert_version_Inr insert_secret_Inr added_def)

lemma added_inv:
  assumes inv: "channel_inv st" and fresh: "fresh_channel e w cs st"
  shows "channel_inv (added e w cs st)"
proof -
  have ne: "ep_id e \<notin> ep_id ` set (endpoints st)" using fresh by (auto simp: fresh_channel_def)
  have vn: "vs_endpoint x \<noteq> ep_id e" if x: "x \<in> set (versions st)" for x
    using channel_invD(5) [OF inv x] fresh unfolding fresh_channel_def by metis
  have sn: "sc_endpoint x \<noteq> ep_id e" if x: "x \<in> set (secrets st)" for x
    using channel_invD(7) [OF inv x] ne by (auto simp: ep_ids_def)
  have w: "vs_endpoint w = ep_id e" "vs_revision w = 1" "ep_revision e = 1"
    using fresh by (auto simp: fresh_channel_def vs_key_def)
  have cs: "cs = [] \<or> (\<exists>c. cs = [c] \<and> sc_endpoint c = ep_id e)"
    using fresh by (cases cs) (auto simp: fresh_channel_def)
  have "length (filter (\<lambda>c. sc_endpoint c = i \<and> sc_status c = SecActive) (secrets st @ cs)) \<le> 1" for i
  proof -
    have "filter (\<lambda>c. sc_endpoint c = ep_id e \<and> sc_status c = SecActive) (secrets st) = []"
      using sn by (simp add: filter_empty_conv)
    then show ?thesis
      using cs channel_invD(4) [OF inv] by (cases "i = ep_id e") (auto simp: one_active_secret_def)
  qed
  then have s: "one_active_secret (secrets st @ cs)" by (simp add: one_active_secret_def)
  have d: "distinct (map sc_id (secrets st @ cs))"
    using channel_invD(3) [OF inv] cs sn by (auto simp: sc_id_def)
  have k: "distinct (map vs_key (versions st @ [w]))"
  proof -
    have "vs_key x \<noteq> vs_key w" if "x \<in> set (versions st)" for x
      using vn [OF that] w by (simp add: vs_key_def)
    then have "vs_key w \<notin> vs_key ` set (versions st)" by (metis imageE)
    then show ?thesis using channel_invD(2) [OF inv] by simp
  qed
  have "distinct (map ep_id (endpoints st @ [e]))" using channel_invD(1) [OF inv] ne by simp
  moreover have "\<exists>y \<in> set (endpoints st @ [e]). ep_id y = vs_endpoint x \<and> 1 \<le> vs_revision x \<and> vs_revision x \<le> ep_revision y"
    if "x \<in> set (versions st @ [w])" for x
    using that channel_invD(5) [OF inv, of x] w by auto
  moreover have "\<exists>x \<in> set (versions st @ [w]). vs_key x = (ep_id y, ep_revision y)" if "y \<in> set (endpoints st @ [e])" for y
    using that channel_invD(6) [OF inv, of y] w by (auto simp: vs_key_def)
  moreover have "sc_endpoint c \<in> ep_id ` set (endpoints st @ [e])" if "c \<in> set (secrets st @ cs)" for c
    using that channel_invD(7) [OF inv, of c] cs by (auto simp: ep_ids_def)
  ultimately show ?thesis
    using s d k unfolding channel_inv_def added_def ep_ids_def by simp
qed

section \<open>Stability\<close>

text \<open>
  What later steps leave of a store: no endpoint disappears or changes its provider, no version
  changes, and of a secret only status and retirement date change; deliveries, their attempts and
  the events are untouched.
\<close>

definition sc_core :: "secret_row \<Rightarrow> string \<times> string \<times> string \<times> string" where
  "sc_core c = (sc_endpoint c, sc_key c, sc_envelope c, sc_encoding c)"

definition keeps :: "store \<Rightarrow> store \<Rightarrow> bool" where
  "keeps st st' \<longleftrightarrow>
     (\<exists>es. map (\<lambda>e. (ep_id e, ep_provider e)) (endpoints st') = map (\<lambda>e. (ep_id e, ep_provider e)) (endpoints st) @ es) \<and>
     (\<exists>ws. versions st' = versions st @ ws) \<and>
     (\<exists>cs. map sc_core (secrets st') = map sc_core (secrets st) @ cs) \<and>
     deliveries st' = deliveries st \<and> attempt_logs st' = attempt_logs st \<and> events st' = events st"

lemma keeps_refl [simp]: "keeps st st"
  by (simp add: keeps_def)

lemma keeps_trans: "keeps a b \<Longrightarrow> keeps b c \<Longrightarrow> keeps a c"
  by (auto simp: keeps_def)

lemma added_keeps: "keeps st (added e w cs st)"
  by (simp add: keeps_def added_def)

lemma retire_secrets_inv:
  assumes "channel_inv st"
  shows "channel_inv (retire_secrets i ts st)"
    "\<forall>c \<in> set (secrets (retire_secrets i ts st)). sc_endpoint c = i \<longrightarrow> sc_status c \<noteq> SecActive"
    "keeps st (retire_secrets i ts st)"
proof -
  define f :: "secret_row \<Rightarrow> secret_row" where
    "f = (\<lambda>c. if sc_endpoint c = i \<and> sc_status c = SecActive then c\<lparr>sc_status := SecRetired, sc_retired := Some ts\<rparr> else c)"
  have s: "secrets (retire_secrets i ts st) = map f (secrets st)"
    by (simp add: retire_secrets_def upd_def f_def)
  have f: "sc_id (f c) = sc_id c" "sc_core (f c) = sc_core c" "sc_endpoint (f c) = sc_endpoint c" for c
    by (simp_all add: sc_id_def sc_core_def f_def)
  have le: "length (filter (\<lambda>c. sc_endpoint c = j \<and> sc_status c = SecActive) (map f cs))
      \<le> length (filter (\<lambda>c. sc_endpoint c = j \<and> sc_status c = SecActive) cs)" for j cs
    by (induction cs) (auto simp: f_def)
  have "length (filter (\<lambda>c. sc_endpoint c = j \<and> sc_status c = SecActive) (map f (secrets st))) \<le> 1" for j
  proof -
    have "length (filter (\<lambda>c. sc_endpoint c = j \<and> sc_status c = SecActive) (secrets st)) \<le> 1"
      using channel_invD(4) [OF assms] by (simp add: one_active_secret_def)
    then show ?thesis using le [of j "secrets st"] by linarith
  qed
  then have "one_active_secret (map f (secrets st))" by (simp add: one_active_secret_def)
  moreover have eqs: "endpoints (retire_secrets i ts st) = endpoints st" "versions (retire_secrets i ts st) = versions st"
    by (simp_all add: retire_secrets_def)
  moreover have "distinct (map sc_id (map f (secrets st)))"
    using channel_invD(3) [OF assms] by (simp add: f o_def)
  moreover have "sc_endpoint c \<in> ep_ids st" if "c \<in> set (map f (secrets st))" for c
    using that channel_invD(7) [OF assms] f(3) by auto
  ultimately show "channel_inv (retire_secrets i ts st)"
    using channel_invD(1,2,5,6) [OF assms] unfolding channel_inv_def s ep_ids_def eqs by simp
  show "\<forall>c \<in> set (secrets (retire_secrets i ts st)). sc_endpoint c = i \<longrightarrow> sc_status c \<noteq> SecActive"
  proof
    fix c
    assume "c \<in> set (secrets (retire_secrets i ts st))"
    then obtain x where "c = f x" by (auto simp: s)
    then show "sc_endpoint c = i \<longrightarrow> sc_status c \<noteq> SecActive" by (simp add: f_def)
  qed
  show "keeps st (retire_secrets i ts st)"
    by (simp add: keeps_def s f o_def eqs) (simp add: retire_secrets_def)
qed

lemma rotate_tx_Inr:
  assumes "rotate_tx v kr nonce random key t i device s = Inr (s', u)"
  obtains c where "s' = (retire_secrets i (rfc3339nano t) s)\<lparr>secrets := secrets (retire_secrets i (rfc3339nano t) s) @ [c]\<rparr>"
    "insert_secret c (retire_secrets i (rfc3339nano t) s) = Inr s'" "sc_endpoint c = i" "sc_key c = key"
    "sc_status c = SecActive"
proof -
  have "\<exists>c. insert_secret c (retire_secrets i (rfc3339nano t) s) = Inr s' \<and> sc_endpoint c = i \<and> sc_key c = key
      \<and> sc_status c = SecActive"
    using assms by (auto simp: rotate_tx_def Let_def rbind_Inr_iff new_secret_def split: option.splits if_splits)
  with that show ?thesis by (auto simp: insert_secret_Inr)
qed

lemma rotate_tx_inv:
  assumes "rotate_tx v kr nonce random key t i device s = Inr (s', u)" "channel_inv s"
  shows "channel_inv s' \<and> keeps s s'"
proof -
  let ?r = "retire_secrets i (rfc3339nano t) s"
  note R = retire_secrets_inv [OF assms(2), of i "rfc3339nano t"]
  obtain c where c: "s' = ?r\<lparr>secrets := secrets ?r @ [c]\<rparr>" "insert_secret c ?r = Inr s'" "sc_endpoint c = i"
    "sc_status c = SecActive"
    using rotate_tx_Inr [OF assms(1)] by blast
  have "filter (\<lambda>c. sc_endpoint c = i \<and> sc_status c = SecActive) (secrets ?r) = []"
    using R(2) by (auto simp: filter_empty_conv)
  then have "one_active_secret (secrets ?r @ [c])"
    using R(1) c(3) by (auto simp: channel_inv_def one_active_secret_def)
  moreover have "\<forall>x \<in> set (secrets ?r). sc_id x \<noteq> sc_id c" "sc_endpoint c \<in> ep_ids ?r"
    using c(2) by (simp_all add: insert_secret_Inr)
  ultimately have "channel_inv s'"
    using R(1) unfolding c(1) by (auto simp: channel_inv_def ep_ids_def)
  moreover have "keeps ?r s'" by (simp add: c(1) keeps_def)
  ultimately show ?thesis using R(3) keeps_trans by blast
qed

lemma update_tx_Inr:
  assumes "update_tx nl t i expected name url cfg s = Inr (s', u)"
  obtains e w where "e \<in> set (endpoints s)" "ep_id e = i" "ep_revision e = expected" "vs_key w = (i, expected + 1)"
    "\<forall>x \<in> set (versions s). vs_key x \<noteq> vs_key w"
    "s' = s\<lparr>versions := versions s @ [w], endpoints := upd (\<lambda>x. ep_id x = i)
       (\<lambda>x. x\<lparr>ep_name := name, ep_revision := expected + 1, ep_updated := rfc3339nano t\<rparr>) (endpoints s)\<rparr>"
proof -
  obtain e where e: "find_endpoint s i = Some e" "ep_revision e = expected"
    using assms by (auto simp: update_tx_def split: option.splits if_splits)
  then have in_e: "e \<in> set (endpoints s)" "ep_id e = i" by (auto simp: find_endpoint_def dest: sel1_Some)
  obtain uu c s1 where s1: "insert_version \<lparr>vs_endpoint = i, vs_revision = ep_revision e + 1, vs_url = uu,
        vs_config = c, vs_created = rfc3339nano t\<rparr> s = Inr s1"
    "s' = s1\<lparr>endpoints := upd (\<lambda>x. ep_id x = i)
                     (\<lambda>x. x\<lparr>ep_name := name, ep_revision := ep_revision e + 1,
                            ep_updated := rfc3339nano t\<rparr>) (endpoints s1)\<rparr>"
    using assms e by (auto simp: update_tx_def rbind_Inr_iff split: if_splits prod.splits)
  show ?thesis
    by (rule that [OF in_e e(2), where w = "\<lparr>vs_endpoint = i, vs_revision = ep_revision e + 1, vs_url = uu,
        vs_config = c, vs_created = rfc3339nano t\<rparr>"])
      (use s1 e in \<open>auto simp: insert_version_Inr vs_key_def\<close>)
qed

lemma update_tx_inv:
  assumes "update_tx nl t i expected name url cfg s = Inr (s', u)" "channel_inv s"
  shows "channel_inv s' \<and> keeps s s'"
proof (rule update_tx_Inr [OF assms(1)])
  fix e w
  assume e: "e \<in> set (endpoints s)" "ep_id e = i" "ep_revision e = expected" "vs_key w = (i, expected + 1)"
    and fresh: "\<forall>x \<in> set (versions s). vs_key x \<noteq> vs_key w"
    and s': "s' = s\<lparr>versions := versions s @ [w], endpoints := upd (\<lambda>x. ep_id x = i)
       (\<lambda>x. x\<lparr>ep_name := name, ep_revision := expected + 1, ep_updated := rfc3339nano t\<rparr>) (endpoints s)\<rparr>"
  define g :: "endpoint_row \<Rightarrow> endpoint_row" where
    "g = (\<lambda>x. if ep_id x = i then x\<lparr>ep_name := name, ep_revision := expected + 1, ep_updated := rfc3339nano t\<rparr> else x)"
  have eps: "endpoints s' = map g (endpoints s)" by (simp add: s' upd_def g_def)
  have g: "ep_id (g x) = ep_id x" "ep_provider (g x) = ep_provider x" for x by (simp_all add: g_def)
  have gr: "ep_revision (g x) = (if ep_id x = i then expected + 1 else ep_revision x)" for x by (simp add: g_def)
  have ids: "map ep_id (map g es) = map ep_id es" for es by (simp add: g)
  have uniq: "x = e" if "x \<in> set (endpoints s)" "ep_id x = i" for x
    using distinct_key_eq [of ep_id "endpoints s" x e] assms(2) that e by (simp add: channel_inv_def)
  have revs: "ep_revision x \<le> ep_revision (g x)" if "x \<in> set (endpoints s)" for x
    using uniq [OF that] e(3) by (auto simp: gr)
  have "\<exists>y \<in> set (endpoints s'). ep_id y = vs_endpoint x \<and> 1 \<le> vs_revision x \<and> vs_revision x \<le> ep_revision y"
    if x: "x \<in> set (versions s')" for x
  proof (cases "x = w")
    case True
    then have xe: "vs_endpoint x = i" "vs_revision x = expected + 1" using e(4) by (simp_all add: vs_key_def)
    obtain w0 where "w0 \<in> set (versions s)" "vs_key w0 = (ep_id e, ep_revision e)"
      using assms(2) e(1) by (auto simp: channel_inv_def)
    then have "1 \<le> expected" using assms(2) e(3) by (auto simp: channel_inv_def vs_key_def)
    then show ?thesis using xe e by (intro bexI [of _ "g e"]) (auto simp: eps g gr)
  next
    case False
    then have "x \<in> set (versions s)" using x by (auto simp: s')
    then obtain y where y: "y \<in> set (endpoints s)" "ep_id y = vs_endpoint x" "1 \<le> vs_revision x" "vs_revision x \<le> ep_revision y"
      using assms(2) by (auto simp: channel_inv_def)
    from y revs [OF y(1)] show ?thesis by (intro bexI [of _ "g y"]) (auto simp: eps g)
  qed
  moreover have "\<exists>x \<in> set (versions s'). vs_key x = (ep_id y, ep_revision y)" if y: "y \<in> set (endpoints s')" for y
  proof -
    obtain x where x: "x \<in> set (endpoints s)" "y = g x" using y by (auto simp: eps)
    show ?thesis
    proof (cases "ep_id x = i")
      case True
      then show ?thesis using x e(4) by (intro bexI [of _ w]) (auto simp: s' g gr)
    next
      case False
      then obtain z where "z \<in> set (versions s)" "vs_key z = (ep_id x, ep_revision x)"
        using assms(2) x(1) by (auto simp: channel_inv_def)
      with False x show ?thesis by (intro bexI [of _ z]) (auto simp: s' g gr)
    qed
  qed
  moreover have "distinct (map vs_key (versions s'))"
    using assms(2) fresh by (auto simp: channel_inv_def s')
  moreover have "ep_ids s' = ep_ids s"
    using arg_cong [OF ids [of "endpoints s"], of set] unfolding ep_ids_def eps set_map .
  moreover have "distinct (map ep_id (endpoints s'))" using channel_invD(1) [OF assms(2)] ids unfolding eps by metis
  ultimately have "channel_inv s'"
    using assms(2) unfolding channel_inv_def by (simp add: s')
  moreover have "keeps s s'" by (simp add: keeps_def eps g o_def) (simp add: s')
  ultimately show ?thesis by blast
qed

lemma set_status_inv:
  assumes "channel_inv st"
  shows "channel_inv (snd (set_endpoint_status t i status st)) \<and> keeps st (snd (set_endpoint_status t i status st))"
proof -
  define g :: "endpoint_row \<Rightarrow> endpoint_row"
    where "g = (\<lambda>e. if ep_id e = i then e\<lparr>ep_status := status, ep_updated := rfc3339nano t\<rparr> else e)"
  have g: "ep_id (g x) = ep_id x" "ep_revision (g x) = ep_revision x" "ep_provider (g x) = ep_provider x" for x
    by (simp_all add: g_def)
  have "snd (set_endpoint_status t i status st) = st \<or>
      snd (set_endpoint_status t i status st) = st\<lparr>endpoints := map g (endpoints st)\<rparr>"
    by (simp add: set_endpoint_status_def Let_def upd_def g_def)
  moreover have "channel_inv (st\<lparr>endpoints := map g (endpoints st)\<rparr>)"
    using map_endpoints_inv [OF assms, of g] g by blast
  moreover have "keeps st (st\<lparr>endpoints := map g (endpoints st)\<rparr>)"
    by (simp add: keeps_def g o_def)
  ultimately show ?thesis using assms by auto
qed

lemma insert_channel_inv:
  assumes "insert_channel e w c st = Inr (st', u)" "vs_key w = (ep_id e, 1)" "ep_revision e = 1" "sc_endpoint c = ep_id e" "channel_inv st"
  shows "channel_inv st' \<and> keeps st st'"
proof -
  have "st' = added e w [c] st" "fresh_channel e w [c] st"
    using insert_channel_Inr [OF assms(1)] assms(2-4) by (auto simp: fresh_channel_def)
  then show ?thesis using added_inv [OF assms(5)] added_keeps by blast
qed

lemma create_endpoint_inv:
  assumes "st' = snd (create_endpoint i t name url st)" "channel_inv st"
  shows "channel_inv st' \<and> keeps st st'"
proof (cases "st' = st")
  case False
  define e where "e = \<lparr>ep_id = i, ep_name = trim_space name, ep_status = EpDisabled, ep_revision = 1,
             ep_created = rfc3339nano t, ep_updated = rfc3339nano t, ep_provider = ''WEBHOOK''\<rparr>"
  define w where "w = \<lparr>vs_endpoint = i, vs_revision = 1, vs_url = trim_space url,
                      vs_config = None, vs_created = rfc3339nano t\<rparr>"
  have "rbind (insert_endpoint e st) (\<lambda>s1. rbind (insert_version w s1) (\<lambda>s2. Inr (s2, e))) = Inr (st', e)"
    using False unfolding assms(1)
    by (auto simp: create_endpoint_def Let_def with_tx_def e_def w_def rbind_Inr_iff split: sum.splits if_splits)
  then have "st' = added e w [] st" "\<forall>x \<in> set (endpoints st). ep_id x \<noteq> ep_id e"
    by (auto simp: rbind_Inr_iff insert_endpoint_Inr insert_version_Inr added_def)
  moreover have "fresh_channel e w [] st" using calculation(2) by (simp add: fresh_channel_def e_def w_def vs_key_def)
  ultimately show ?thesis using added_inv [OF assms(2)] added_keeps by blast
qed (use assms in simp)

lemma channel_step_inv:
  assumes "channel_step st st'" "channel_inv st"
  shows "channel_inv st' \<and> keeps st st'"
proof (cases "st' = st")
  case False
  from assms(1) show ?thesis
  proof cases
    case plain
    then show ?thesis by (rule create_endpoint_inv [OF _ assms(2)])
  next
    case (webhook v kr nonce random i t name url)
    then obtain e w c u where "insert_channel e w c st = Inr (st', u)" "vs_key w = (ep_id e, 1)" "ep_revision e = 1"
      "sc_endpoint c = ep_id e"
      using False
      by (auto simp: create_endpoint_with_secret_def Let_def with_tx_def vs_key_def new_secret_def split: sum.splits if_splits prod.splits)
    then show ?thesis by (rule insert_channel_inv) (rule assms(2))
  next
    case (bark v kr nonce i t name key cfg)
    then obtain e w c u where "insert_channel e w c st = Inr (st', u)" "vs_key w = (ep_id e, 1)" "ep_revision e = 1"
      "sc_endpoint c = ep_id e"
      using False
      by (auto simp: create_bark_channel_def Let_def with_tx_def vs_key_def new_secret_def split: sum.splits if_splits prod.splits)
    then show ?thesis by (rule insert_channel_inv) (rule assms(2))
  next
    case (update nl t i expected name url cfg)
    then obtain u where "update_tx nl t i expected (trim_space name) url cfg st = Inr (st', u)"
      using False by (auto simp: update_channel_def Let_def with_tx_def split: sum.splits if_splits)
    then show ?thesis using update_tx_inv assms(2) by blast
  next
    case (rotate v kr nonce random key t i device)
    then obtain u where "rotate_tx v kr nonce random key t i device st = Inr (st', u)"
      using False by (auto simp: rotate_secret_def Let_def with_tx_def split: sum.splits if_splits)
    then show ?thesis using rotate_tx_inv assms(2) by blast
  next
    case (status t i status)
    then show ?thesis using set_status_inv [OF assms(2)] by blast
  qed
qed (use assms in simp)

lemma channel_steps_inv:
  "channel_step\<^sup>*\<^sup>* st st' \<Longrightarrow> channel_inv st \<Longrightarrow> channel_inv st' \<and> keeps st st'"
proof (induction rule: rtranclp_induct)
  case (step y z)
  then show ?case using channel_step_inv [of y z] keeps_trans by blast
qed simp

end
