(* ===== verification/ChannelLife.thy ===== *)
theory ChannelLife
  imports ChannelProps
begin

text \<open>
  The properties of channels: uniqueness and at most one active secret in every reachable store,
  the stability of a delivery's snapshot, and what a rotation promises.
\<close>

section \<open>Snapshots\<close>

lemma find_map_prefix:
  assumes "map f t' = map f t @ es" "\<And>x y. f x = f y \<Longrightarrow> p x = p y" "List.find p t = Some a"
  shows "\<exists>b. List.find p t' = Some b \<and> f b = f a"
  using assms
proof (induction t arbitrary: t')
  case (Cons x t)
  have "map f t' = f x # (map f t @ es)" using Cons.prems(1) by simp
  then obtain y u where u: "t' = y # u" "f y = f x" "map f u = map f t @ es"
    unfolding map_eq_Cons_conv by blast
  have p: "p y = p x" by (rule Cons.prems(2) [OF u(2)])
  show ?case
  proof (cases "p x")
    case True
    with Cons.prems(3) u p show ?thesis by simp
  next
    case False
    then have "List.find p t = Some a" using Cons.prems(3) by simp
    from Cons.IH [OF u(3) Cons.prems(2) this] show ?thesis using False p u(1) by simp
  qed
qed simp

lemma keeps_find_endpoint:
  assumes "keeps st st'" "find_endpoint st i = Some e"
  shows "\<exists>e'. find_endpoint st' i = Some e' \<and> ep_id e' = ep_id e \<and> ep_provider e' = ep_provider e"
proof -
  obtain es where "map (\<lambda>e. (ep_id e, ep_provider e)) (endpoints st') = map (\<lambda>e. (ep_id e, ep_provider e)) (endpoints st) @ es"
    using assms(1) by (auto simp: keeps_def)
  from find_map_prefix [OF this, of "\<lambda>e. ep_id e = i" e] assms(2) show ?thesis
    by (auto simp: find_endpoint_def sel1_def)
qed

lemma keeps_version_at:
  assumes "keeps st st'" "version_at st i r = Some w"
  shows "version_at st' i r = Some w"
proof -
  obtain ws where "map id (versions st') = map id (versions st) @ ws" using assms(1) by (auto simp: keeps_def)
  from find_map_prefix [OF this, of "\<lambda>v. vs_endpoint v = i \<and> vs_revision v = r" w] assms(2) show ?thesis
    by (auto simp: version_at_def sel1_def)
qed

lemma keeps_secret:
  assumes "keeps st st'" "key \<noteq> []" "snapshot_secret st i key = Some c"
  shows "\<exists>c'. snapshot_secret st' i key = Some c' \<and> sc_core c' = sc_core c"
proof -
  obtain cs where m: "map sc_core (secrets st') = map sc_core (secrets st) @ cs"
    using assms(1) by (auto simp: keeps_def)
  have "\<exists>b. List.find (\<lambda>c. sc_endpoint c = i \<and> sc_key c = key) (secrets st') = Some b \<and> sc_core b = sc_core c"
    by (rule find_map_prefix [OF m]) (use assms(2,3) in \<open>auto simp: sc_core_def snapshot_secret_def sel1_def\<close>)
  with assms(2) show ?thesis by (auto simp: snapshot_secret_def sel1_def)
qed

text \<open>
  A delivery keeps its target: once the snapshot of a delivery (a revision and a key)
  resolves, every later run of channel operations, updates and rotations included, leaves it
  resolving to the very same URL, configuration and secret.
\<close>

theorem snapshot_stable:
  assumes "channel_step\<^sup>*\<^sup>* st st'" and "channel_inv st"
    and "delivery_target v kr d i r key st = Inr tg" and "0 < r" and "key \<noteq> []"
  shows "delivery_target v kr d i r key st' = Inr tg"
proof -
  have k: "keeps st st'" using channel_steps_inv [OF assms(1,2)] by blast
  obtain e where e: "find_endpoint st i = Some e"
    using assms(3) by (cases "find_endpoint st i") (auto simp: delivery_target_def)
  obtain e' where e': "find_endpoint st' i = Some e'" "ep_id e' = ep_id e" "ep_provider e' = ep_provider e"
    using keeps_find_endpoint [OF k e] by blast
  obtain w where w: "snapshot_version st e r = Some w"
    using assms(3) e by (cases "snapshot_version st e r") (auto simp: delivery_target_def)
  obtain c where c: "snapshot_secret st i key = Some c"
    using assms(3) e w by (cases "snapshot_secret st i key") (auto simp: delivery_target_def)
  have w': "snapshot_version st' e' r = Some w"
    using keeps_version_at [OF k] w e'(2) assms(4) by (simp add: snapshot_version_def)
  obtain c' where c': "snapshot_secret st' i key = Some c'" "sc_core c' = sc_core c"
    using keeps_secret [OF k assms(5) c] by blast
  then have same: "sc_endpoint c' = sc_endpoint c" "sc_key c' = sc_key c" "sc_envelope c' = sc_envelope c"
    "sc_encoding c' = sc_encoding c"
    by (simp_all add: sc_core_def)
  have "sealed_row c' = sealed_row c" "webhook_secret v kr c' = webhook_secret v kr c"
    by (simp_all add: sealed_row_def webhook_secret_def same cong: option.case_cong)
  then have "delivery_target v kr d i r key st' = delivery_target v kr d i r key st"
    by (simp add: delivery_target_def e e'(1,3) w w' c c'(1) same Let_def cong: if_cong option.case_cong)
  with assms(3) show ?thesis by simp
qed

text \<open>
  Property C18. Every run of channel operations keeps identifiers, revisions and keys unique, keeps the
  current version of each endpoint present, and leaves each endpoint at most one active secret.
\<close>

theorem channel_reachable: "channel_step\<^sup>*\<^sup>* st st' \<Longrightarrow> channel_inv st \<Longrightarrow> channel_inv st'"
  using channel_steps_inv by blast

section \<open>Rotation\<close>

lemma hex_digit_range: "n < 16 \<Longrightarrow> hex_digit n \<in> set ''0123456789abcdef''"
  unfolding hex_digit_def by (rule nth_mem) simp

lemma hex_encode_plain: "\<not> has_prefix (hex_encode s) ''{\"Version\":''"
proof (cases s)
  case (Cons c cs)
  have "(of_char c :: nat) div 16 < 16" by (simp add: of_char_def less_mult_imp_div_less)
  then have "hex_digit (of_char c div 16) \<noteq> CHR ''{''" using hex_digit_range by force
  then show ?thesis using Cons by simp
qed simp

lemma find_append: "List.find p (xs @ ys) = (case List.find p xs of Some x \<Rightarrow> Some x | None \<Rightarrow> List.find p ys)"
  by (induction xs) auto

text \<open>
  After a successful rotation of a webhook's secret, the secret that was handed to the
  operator is the one that signs: reading the endpoint back, through the keyring or without one,
  gives the current URL and exactly that secret.
\<close>

theorem rotate_then_read:
  assumes "rotate_secret v kr nonce random key t i device st = ((None, out), st')" and "channel_inv st"
    and "find_endpoint st i = Some e" and "ep_provider e = ''WEBHOOK''"
    and "opens_sealed v" and "parses_marshalled v" and "length nonce = gcm_nonce_size"
    and "\<forall>k. kr = Some k \<longrightarrow> keyring_ok k"
  shows "out = hex_encode random \<and> (\<exists>url. endpoint_details v kr i st' = Inr (url, out))"
proof -
  let ?r = "retire_secrets i (rfc3339nano t) st"
  note R = retire_secrets_inv [OF assms(2), of i "rfc3339nano t"]
  have out: "out = hex_encode random" using assms(1,3,4) by (auto simp: rotate_secret_def Let_def split: prod.splits sum.splits)
  obtain u where "rotate_tx v kr nonce random key t i device st = Inr (st', u)"
    using assms(1) by (auto simp: rotate_secret_def Let_def with_tx_def split: sum.splits)
  then obtain blob encoding where b: "webhook_blob v kr nonce out i key = Inr (blob, encoding)"
    and ins: "insert_secret (new_secret i key ''WEBHOOK_HMAC'' blob (rfc3339nano t) encoding) ?r = Inr st'"
    using assms(3,4) out by (auto simp: rotate_tx_def rbind_Inr_iff)
  let ?c = "new_secret i key ''WEBHOOK_HMAC'' blob (rfc3339nano t) encoding"
  have st': "st' = ?r\<lparr>secrets := secrets ?r @ [?c]\<rparr>" using ins by (simp add: insert_secret_Inr)
  have "List.find (\<lambda>c. sc_endpoint c = i \<and> sc_status c = SecActive) (secrets ?r) = None"
    using R(2) by (auto simp: find_None_iff)
  then have act: "active_secret st' i = Some ?c"
    by (simp add: active_secret_def sel1_def st' find_append new_secret_def)
  have e': "find_endpoint st' i = Some e"
    using assms(3) by (simp add: st' find_endpoint_def retire_secrets_def)
  have eid: "ep_id e = i" "e \<in> set (endpoints st)" using assms(3) by (auto simp: find_endpoint_def dest: sel1_Some)
  obtain x where x: "x \<in> set (versions st)" "vs_key x = (i, ep_revision e)"
    using channel_invD(6) [OF assms(2) eid(2)] eid(1) by auto
  have vs: "version_at st' i (ep_revision e) \<noteq> None"
    using x by (auto simp: version_at_def sel1_None st' retire_secrets_def vs_key_def)
  then obtain w where w: "version_at st' i (ep_revision e) = Some w" by blast
  show ?thesis
  proof (cases kr)
    case None
    then have "blob = out" "encoding = ''legacy-hex''" using b by (auto simp: webhook_blob_def)
    then show ?thesis
      using out hex_encode_plain by (simp add: endpoint_details_def e' act w sealed_row_def new_secret_def)
  next
    case (Some k)
    obtain bl where bl: "seal_blob v k nonce out (webhook_aad i key) = Inr bl" "blob = bl" "encoding = ''aes-gcm-v1''"
      using b Some by (cases "seal_blob v k nonce out (webhook_aad i key)") (auto simp: webhook_blob_def)
    have "open_blob v k bl (webhook_aad i key) = Inr out"
      using open_seal_blob [OF assms(5,6) bl(1) assms(7)] assms(8) Some by blast
    then show ?thesis
      using Some out bl by (simp add: endpoint_details_def e' act w sealed_row_def webhook_secret_def new_secret_def)
  qed
qed

section \<open>A small channel database\<close>

definition demo_keyring :: keyring where
  "demo_keyring = \<lparr>kr_current = ''k1'', kr_keys = [''k1'' \<mapsto> replicate 32 (CHR ''k'')]\<rparr>"

definition demo_nonce :: string where "demo_nonce = replicate 12 (CHR ''n'')"

definition demo_shop :: store where
  "demo_shop = snd (create_endpoint_with_secret open_vault (Some demo_keyring) demo_nonce ''seed'' ''e'' 0
     ''shop'' ''https://shop.example'' empty_store)"

definition demo_rotated :: store where
  "demo_rotated = snd (rotate_secret open_vault (Some demo_keyring) demo_nonce ''fresh'' ''k2'' 0 ''e'' [] demo_shop)"

lemma demo_shop_inv: "channel_inv demo_shop"
  unfolding demo_shop_def using channel_step_inv [OF channel_step.webhook channel_inv_empty] by blast

lemma demo_shop_facts:
  "delivery_target open_vault (Some demo_keyring) ''d'' ''e'' 1 ''k1'' demo_shop =
     Inr \<lparr>tg_delivery = ''d'', tg_endpoint = ''e'', tg_provider = ''WEBHOOK'', tg_url = ''https://shop.example'',
       tg_bark = None, tg_secret = hex_encode ''seed'', tg_revision = 1, tg_key = ''k1''\<rparr>"
  "rotate_secret open_vault (Some demo_keyring) demo_nonce ''fresh'' ''k2'' 0 ''e'' [] demo_shop =
     ((None, hex_encode ''fresh''), demo_rotated)"
  "map_option ep_provider (find_endpoint demo_shop ''e'') = Some ''WEBHOOK''"
  unfolding demo_rotated_def by code_simp+

lemma demo_rotated_steps: "channel_step\<^sup>*\<^sup>* demo_shop demo_rotated"
  unfolding demo_rotated_def by (rule r_into_rtranclp) (rule channel_step.rotate)

theorem snapshot_stable_witness:
  "\<exists>tg. delivery_target open_vault (Some demo_keyring) ''d'' ''e'' 1 ''k1'' demo_rotated = Inr tg
     \<and> tg_secret tg = hex_encode ''seed''"
  using snapshot_stable [OF demo_rotated_steps demo_shop_inv demo_shop_facts(1)] by simp

theorem channel_reachable_witness: "channel_inv demo_rotated"
  using channel_reachable [OF demo_rotated_steps demo_shop_inv] .

theorem rotate_then_read_witness:
  "\<exists>url. endpoint_details open_vault (Some demo_keyring) ''e'' demo_rotated = Inr (url, hex_encode ''fresh'')"
proof -
  obtain e where e: "find_endpoint demo_shop ''e'' = Some e" "ep_provider e = ''WEBHOOK''"
    using demo_shop_facts(3) by auto
  have k: "keyring_ok demo_keyring" by (simp add: keyring_ok_def demo_keyring_def aes_key_def)
  have n: "length demo_nonce = gcm_nonce_size" by (simp add: demo_nonce_def gcm_nonce_size_def)
  show ?thesis
    using rotate_then_read [OF demo_shop_facts(2) demo_shop_inv e open_vault_laws n] k by simp
qed

end
