(* ===== verification/Deliveries.thy ===== *)
theory Deliveries
  imports Channels Ingest "HOL-Library.Product_Lexorder"
begin

text \<open>
  The delivery queue: \<open>deliveries.go\<close>, \<open>FailDelivery\<close> and \<open>RecordAttempt\<close> of \<open>events.go\<close>,
  \<open>ReplayDelivery\<close> of \<open>notifications.go\<close>, and \<open>src/internal/notification/dispatcher.go\<close>, which
  claims one delivery at a time under a lease, sends it, and completes, reschedules or buries it.
  Instants are compared as the texts that the database stores.
\<close>

section \<open>Claiming\<close>

record claim =
  cl_id :: string
  cl_event :: string
  cl_endpoint :: string
  cl_revision :: int
  cl_key :: string
  cl_provider :: string
  cl_status :: delivery_status
  cl_attempts :: int
  cl_cycle :: int
  cl_token :: string
  cl_lease :: string
  cl_next :: string

text \<open>\<open>min(next_attempt_at)\<close> is NULL, which cannot be scanned, without a pending delivery.\<close>

definition next_delivery_due :: "(string \<Rightarrow> instant result) \<Rightarrow> store \<Rightarrow> instant result" where
  "next_delivery_due parse st =
     (case first_by (\<lambda>x. x) (map dl_next (filter (\<lambda>d. dl_status d = DPending) (deliveries st))) of
        None \<Rightarrow> Inl (ErrMsg ''converting NULL to string is unsupported'')
      | Some raw \<Rightarrow> parse raw)"

definition lease_over :: "string \<Rightarrow> delivery_row \<Rightarrow> bool" where
  "lease_over n d = (case dl_lease d of None \<Rightarrow> False | Some l \<Rightarrow> l < n)"

definition lease_live :: "string \<Rightarrow> delivery_row \<Rightarrow> bool" where
  "lease_live n d = (case dl_lease d of None \<Rightarrow> False | Some l \<Rightarrow> n \<le> l)"

definition due :: "string \<Rightarrow> delivery_row \<Rightarrow> bool" where
  "due n d \<longleftrightarrow> (dl_status d = DPending \<and> dl_next d \<le> n) \<or> (dl_status d = DInFlight \<and> lease_over n d)"

text \<open>Another delivery of the same endpoint is in flight under a live lease.\<close>

definition endpoint_busy :: "string \<Rightarrow> delivery_row list \<Rightarrow> delivery_row \<Rightarrow> bool" where
  "endpoint_busy n ds d =
     list_ex (\<lambda>a. dl_endpoint a = dl_endpoint d \<and> dl_status a = DInFlight \<and> lease_live n a
                \<and> dl_id a \<noteq> dl_id d) ds"

definition claimable :: "string \<Rightarrow> store \<Rightarrow> delivery_row \<Rightarrow> bool" where
  "claimable n st d \<longleftrightarrow>
     (case find_endpoint st (dl_endpoint d) of None \<Rightarrow> False | Some e \<Rightarrow> ep_status e = EpActive)
     \<and> due n d \<and> \<not> endpoint_busy n (deliveries st) d"

definition take_claim :: "string \<Rightarrow> string \<Rightarrow> string \<Rightarrow> delivery_row \<Rightarrow> delivery_row" where
  "take_claim token until ts d =
     d\<lparr>dl_status := DInFlight, dl_attempts := dl_attempts d + 1, dl_claim := Some token,
       dl_lease := Some until, dl_updated := ts\<rparr>"

definition claim_of :: "store \<Rightarrow> string \<Rightarrow> string \<Rightarrow> delivery_row \<Rightarrow> claim" where
  "claim_of st token until d =
     \<lparr>cl_id = dl_id d, cl_event = dl_event d, cl_endpoint = dl_endpoint d, cl_revision = dl_revision d,
      cl_key = dl_key d,
      cl_provider = (case find_endpoint st (dl_endpoint d) of None \<Rightarrow> [] | Some e \<Rightarrow> ep_provider e),
      cl_status = DInFlight, cl_attempts = dl_attempts d + 1, cl_cycle = dl_cycle d, cl_token = token,
      cl_lease = until, cl_next = dl_next d\<rparr>"

definition claim_tx :: "string \<Rightarrow> string \<Rightarrow> string \<Rightarrow> string \<Rightarrow> store \<Rightarrow> (store \<times> claim) result" where
  "claim_tx token until ts n s =
     (case first_by (\<lambda>d. (dl_next d, dl_id d)) (filter (claimable n s) (deliveries s)) of
        None \<Rightarrow> Inl ErrNoRows
      | Some d \<Rightarrow>
          (let p = (\<lambda>x. dl_id x = dl_id d \<and> due n x)
           in if affected p (deliveries s) \<noteq> 1 then Inl ErrNoRows
              else Inr (s\<lparr>deliveries := upd p (take_claim token until ts) (deliveries s)\<rparr>,
                        claim_of s token until d)))"

text \<open>The instant is in UTC at the only call; \<open>ts\<close> is the second reading of the clock.\<close>

definition claim_delivery ::
  "string \<Rightarrow> instant \<Rightarrow> instant \<Rightarrow> int \<Rightarrow> store \<Rightarrow> claim result \<times> store" where
  "claim_delivery token t ts lease st =
     (if lease \<le> 0 then (Inl (ErrMsg ''delivery lease must be positive''), st)
      else with_tx st (claim_tx token (rfc3339nano (t + lease)) (rfc3339nano ts) (rfc3339nano t)))"

section \<open>Closing a claim\<close>

definition holds_claim :: "string \<Rightarrow> string \<Rightarrow> delivery_row \<Rightarrow> bool" where
  "holds_claim i token d \<longleftrightarrow> dl_id d = i \<and> dl_status d = DInFlight \<and> dl_claim d = Some token"

definition release :: "delivery_status \<Rightarrow> string \<Rightarrow> string \<Rightarrow> delivery_row \<Rightarrow> delivery_row" where
  "release status nxt ts d =
     d\<lparr>dl_status := status, dl_next := nxt, dl_claim := None, dl_lease := None, dl_updated := ts\<rparr>"

definition complete_delivery ::
  "string \<Rightarrow> string \<Rightarrow> bool \<Rightarrow> instant \<Rightarrow> instant \<Rightarrow> store \<Rightarrow> err option \<times> store" where
  "complete_delivery i token delivered retry ts st =
     (if i = [] \<or> token = [] then (Some (ErrMsg ''delivery claim is required''), st)
      else (case with_tx st (\<lambda>s.
          if affected (holds_claim i token) (deliveries s) \<noteq> 1 then Inl ErrNoRows
          else Inr (s\<lparr>deliveries := upd (holds_claim i token)
                 (release (if delivered then DDelivered else DPending) (rfc3339nano retry) (rfc3339nano ts))
                 (deliveries s)\<rparr>, ())) of
        (Inl e, st') \<Rightarrow> (Some e, st') | (Inr _, st') \<Rightarrow> (None, st')))"

text \<open>
  \<open>FailDelivery\<close> runs outside a transaction and ignores the reason it is given; a claim that is not
  held leaves the table as it was.
\<close>

definition bury :: "string \<Rightarrow> delivery_row \<Rightarrow> delivery_row" where
  "bury ts d = d\<lparr>dl_status := DDeadLetter, dl_claim := None, dl_lease := None, dl_updated := ts\<rparr>"

definition fail_delivery :: "string \<Rightarrow> string \<Rightarrow> string \<Rightarrow> instant \<Rightarrow> store \<Rightarrow> err option \<times> store" where
  "fail_delivery i token reason ts st =
     (if i = [] \<or> token = [] then (Some (ErrMsg ''delivery claim is required''), st)
      else (if affected (holds_claim i token) (deliveries st) \<noteq> 1 then Some ErrNoRows else None,
            st\<lparr>deliveries := upd (holds_claim i token) (bury (rfc3339nano ts)) (deliveries st)\<rparr>))"

definition record_attempt ::
  "string \<Rightarrow> instant \<Rightarrow> string \<Rightarrow> int \<Rightarrow> int \<Rightarrow> int \<Rightarrow> string \<Rightarrow> string \<Rightarrow> string \<Rightarrow> string \<Rightarrow> store \<Rightarrow>
   err option \<times> store" where
  "record_attempt aid ts d n code latency outcome err provider pcode st =
     (case insert_row ''delivery_attempts'' (\<lambda>a. da_id a = aid \<or> (da_delivery a = d \<and> da_number a = n))
        (list_ex (\<lambda>x. dl_id x = d) (deliveries st))
        \<lparr>da_id = aid, da_delivery = d, da_number = n, da_status = code, da_latency = latency,
         da_outcome = outcome, da_error = err,
         da_provider = (if provider = [] then ''WEBHOOK'' else provider), da_code = pcode,
         da_created = rfc3339nano ts\<rparr> (attempt_logs st) of
        Inl e \<Rightarrow> (Some e, st) | Inr l \<Rightarrow> (None, st\<lparr>attempt_logs := l\<rparr>))"

definition revive :: "string \<Rightarrow> delivery_row \<Rightarrow> delivery_row" where
  "revive ts d = d\<lparr>dl_status := DPending, dl_next := ts, dl_cycle := dl_attempts d, dl_updated := ts\<rparr>"

definition replay_tx :: "string \<Rightarrow> string \<Rightarrow> store \<Rightarrow> (store \<times> unit) result" where
  "replay_tx i ts s =
     (case sel1 (\<lambda>d. dl_id d = i \<and> find_endpoint s (dl_endpoint d) \<noteq> None) (deliveries s) of
        None \<Rightarrow> Inl ErrNoRows
      | Some d \<Rightarrow>
          if dl_status d \<noteq> DDeadLetter then Inl ErrDeliveryNotDeadLetter
          else if map_option ep_status (find_endpoint s (dl_endpoint d)) \<noteq> Some EpActive
          then Inl ErrEndpointNotActive
          else (let p = (\<lambda>x. dl_id x = i \<and> dl_status x = DDeadLetter)
                in if affected p (deliveries s) \<noteq> 1 then Inl ErrNoRows
                   else Inr (s\<lparr>deliveries := upd p (revive ts) (deliveries s)\<rparr>, ())))"

definition replay_delivery :: "string \<Rightarrow> instant \<Rightarrow> store \<Rightarrow> err option \<times> store" where
  "replay_delivery i t st =
     (case with_tx st (replay_tx i (rfc3339nano t)) of
        (Inl e, st') \<Rightarrow> (Some e, st') | (Inr _, st') \<Rightarrow> (None, st'))"

section \<open>Dispatcher\<close>

datatype outcome = Success | Retry | TerminalFailure

definition outcome_text :: "outcome \<Rightarrow> string" where
  "outcome_text r = (case r of Success \<Rightarrow> ''SUCCESS'' | Retry \<Rightarrow> ''RETRY'' | TerminalFailure \<Rightarrow> ''TERMINAL_FAILURE'')"

record send_request =
  rq_delivery :: string
  rq_event :: string
  rq_type :: string
  rq_target :: target
  rq_payload :: payload
  rq_attempt :: int

record send_result =
  rs_outcome :: outcome
  rs_code :: int
  rs_latency :: int
  rs_pcode :: string
  rs_error :: string

record dispatcher =
  dp_max :: int
  dp_backoffs :: "int list"
  dp_senders :: "string \<Rightarrow> (send_request \<Rightarrow> send_result) option"

definition default_backoffs :: "int list" where
  "default_backoffs = map (\<lambda>s. s * second) [2, 5, 15, 30, 60, 120, 300, 900]"

definition new_dispatcher :: "(string \<Rightarrow> (send_request \<Rightarrow> send_result) option) \<Rightarrow> dispatcher" where
  "new_dispatcher senders =
     \<lparr>dp_max = int (length default_backoffs), dp_backoffs = default_backoffs, dp_senders = senders\<rparr>"

definition set_max_retries :: "int \<Rightarrow> dispatcher \<Rightarrow> dispatcher" where
  "set_max_retries n d = (if n > 0 then d\<lparr>dp_max := n\<rparr> else d)"

definition set_backoffs :: "int list \<Rightarrow> dispatcher \<Rightarrow> dispatcher" where
  "set_backoffs b d = (if b \<noteq> [] then d\<lparr>dp_backoffs := b, dp_max := int (length b)\<rparr> else d)"

text \<open>What one dispatch draws from its surroundings: identifiers and clock readings.\<close>

record dispatch_env =
  de_now :: instant
  de_clock :: instant
  de_token :: string
  de_attempt :: string

definition effective_attempts :: "claim \<Rightarrow> int" where
  "effective_attempts c = max 1 (cl_attempts c - cl_cycle c)"

definition backoff_at :: "int list \<Rightarrow> int \<Rightarrow> int" where
  "backoff_at bs e =
     (let i = max 0 (e - 1); j = (if i \<ge> int (length bs) then int (length bs) - 1 else i) in bs ! nat j)"

definition final_outcome :: "dispatcher \<Rightarrow> claim \<Rightarrow> send_result \<Rightarrow> outcome" where
  "final_outcome d c r =
     (if rs_outcome r = Retry \<and> effective_attempts c \<ge> dp_max d then TerminalFailure else rs_outcome r)"

definition fail_reason :: "send_result \<Rightarrow> string" where
  "fail_reason r =
     (if rs_pcode r = [] then ''EXHAUSTED_RETRIES_STATUS_'' @ show_int (rs_code r) else rs_pcode r)"

text \<open>After the send: the attempt is logged (a failure to log is ignored), then the claim closed.\<close>

definition settle ::
  "dispatcher \<Rightarrow> dispatch_env \<Rightarrow> claim \<Rightarrow> target \<Rightarrow> send_result \<Rightarrow> store \<Rightarrow> err option \<times> store" where
  "settle d en c tg r st =
     (let st1 = snd (record_attempt (de_attempt en) (de_clock en) (cl_id c) (cl_attempts c) (rs_code r)
                  (rs_latency r) (outcome_text (final_outcome d c r)) (rs_error r) (tg_provider tg) (rs_pcode r) st)
      in if rs_outcome r = Success
         then complete_delivery (cl_id c) (cl_token c) True (- 62135596800 * second) (de_clock en) st1
         else if rs_outcome r = TerminalFailure \<or> effective_attempts c \<ge> dp_max d
         then fail_delivery (cl_id c) (cl_token c) (fail_reason r) (de_clock en) st1
         else complete_delivery (cl_id c) (cl_token c) False
                (de_now en + backoff_at (dp_backoffs d) (effective_attempts c)) (de_clock en) st1)"

definition lease_time :: int where "lease_time = 30 * second"

definition dispatch_one ::
  "vault \<Rightarrow> keyring option \<Rightarrow> dispatcher \<Rightarrow> dispatch_env \<Rightarrow> store \<Rightarrow> (bool \<times> err option) \<times> store" where
  "dispatch_one v kr d en st =
     (case claim_delivery (de_token en) (de_now en) (de_clock en) lease_time st of
        (Inl e, st1) \<Rightarrow> if errors_is e ErrNoRows then ((False, None), st1) else ((False, Some e), st1)
      | (Inr c, st1) \<Rightarrow>
          (let fail = (\<lambda>reason. snd (fail_delivery (cl_id c) (cl_token c) reason (de_clock en) st1))
           in case delivery_target v kr (cl_id c) (cl_endpoint c) (cl_revision c) (cl_key c) st1 of
                Inl e \<Rightarrow> ((True, Some (ErrWrap ''fetch delivery target'' e)), fail ''ENDPOINT_UNAVAILABLE'')
              | Inr tg \<Rightarrow>
                  (case dp_senders d (tg_provider tg) of
                     None \<Rightarrow> ((True, Some (ErrMsg ''provider not registered'')), fail ''PROVIDER_NOT_REGISTERED'')
                   | Some send \<Rightarrow>
                       (case event_payload (cl_event c) st1 of
                          Inl e \<Rightarrow> ((True, Some (ErrWrap ''fetch event payload'' e)), fail ''EVENT_NOT_FOUND'')
                        | Inr p \<Rightarrow>
                            (case settle d en c tg (send \<lparr>rq_delivery = cl_id c, rq_event = cl_event c,
                                  rq_type = ''bank.transaction.credit'', rq_target = tg, rq_payload = p,
                                  rq_attempt = cl_attempts c\<rparr>) st1 of
                               (e, st2) \<Rightarrow> ((True, e), st2))))))"

text \<open>\<open>drain\<close>, over the surroundings of its successive iterations.\<close>

fun drain :: "vault \<Rightarrow> keyring option \<Rightarrow> dispatcher \<Rightarrow> dispatch_env list \<Rightarrow> store \<Rightarrow> store" where
  "drain v kr d [] st = st"
| "drain v kr d (en # ens) st =
     (case dispatch_one v kr d en st of
        ((processed, e), st1) \<Rightarrow> if e \<noteq> None \<or> \<not> processed then st1 else drain v kr d ens st1)"

end
