(* ===== verification/TimeOrder.thy ===== *)
theory TimeOrder
  imports GoTime
begin

text \<open>
  The order of instants printed with layout RFC3339Nano, which the database compares as texts: it
  is the order of the instants up to the second, and not below, because a whole second is printed
  without a fraction and the letter \<open>Z\<close> is greater than the dot.
\<close>

definition in_years :: "instant \<Rightarrow> bool" where
  "in_years t \<longleftrightarrow> days_of 0 1 1 \<le> day_of t \<and> day_of t \<le> days_of 9999 12 31"

lemma append_less_length: "length x = length y \<Longrightarrow> x < y \<Longrightarrow> x @ r < y @ (r' :: string)"
  by (induction x y rule: list_induct2) auto

lemma sec_split:
  "day_of t = (t div second) div 86400" "sec_of_day t = (t div second) mod 86400"
proof -
  have d: "day_ns = second * 86400" by (simp add: day_ns_def hour_def minute_def second_def)
  have s: "0 < second" by (simp add: second_def)
  show "day_of t = (t div second) div 86400"
    unfolding day_of_def d by (rule zdiv_zmult2_eq) simp
  have "t mod (second * 86400) = second * (t div second mod 86400) + t mod second"
    by (rule zmod_zmult2_eq) simp
  then show "sec_of_day t = (t div second) mod 86400"
    unfolding sec_of_day_def d using s by simp
qed

lemma length_fmt_day: "days_of 0 1 1 \<le> n \<Longrightarrow> n \<le> days_of 9999 12 31 \<Longrightarrow> length (fmt_day n) = 10"
proof -
  assume a: "days_of 0 1 1 \<le> n" "n \<le> days_of 9999 12 31"
  obtain y m d where c: "civil n = (y, m, d)" by (metis prod_cases3)
  note r = civil_year_range [OF a c]
  show ?thesis
    using r pad_int_pos [of y 4] pad_int_pos [of m 2] pad_int_pos [of d 2] by (simp add: fmt_day_def c)
qed

lemma clock_parts:
  fixes k l :: int
  assumes "0 \<le> k" "k < l" "l < 86400"
  shows "k div 3600 < l div 3600 \<or> (k div 3600 = l div 3600 \<and> k mod 3600 div 60 < l mod 3600 div 60)
    \<or> (k div 3600 = l div 3600 \<and> k mod 3600 div 60 = l mod 3600 div 60 \<and> k mod 60 < l mod 60)"
    and "0 \<le> k div 3600" "l div 3600 < 24"
proof -
  have parts: "x = 3600 * (x div 3600) + 60 * (x mod 3600 div 60) + x mod 60" for x :: int
  proof -
    have "x mod 3600 mod 60 = x mod 60" by (rule mod_mod_cancel) simp
    moreover have "x = 3600 * (x div 3600) + x mod 3600" "x mod 3600 = 60 * (x mod 3600 div 60) + x mod 3600 mod 60"
      by simp_all
    ultimately show ?thesis by linarith
  qed
  have m: "0 \<le> x mod 60" "x mod 60 < 60" "0 \<le> x mod 3600 div 60" "x mod 3600 div 60 < 60" for x :: int
    by (simp_all add: div_less_iff pos_imp_zdiv_nonneg_iff)
  show "k div 3600 < l div 3600 \<or> (k div 3600 = l div 3600 \<and> k mod 3600 div 60 < l mod 3600 div 60)
    \<or> (k div 3600 = l div 3600 \<and> k mod 3600 div 60 = l mod 3600 div 60 \<and> k mod 60 < l mod 60)"
  proof -
    obtain a b c where k: "a = k div 3600" "b = k mod 3600 div 60" "c = k mod 60" by blast
    obtain a' b' c' where l: "a' = l div 3600" "b' = l mod 3600 div 60" "c' = l mod 60" by blast
    have "3600 * a + 60 * b + c < 3600 * a' + 60 * b' + c'"
      using assms(2) parts [of k] parts [of l] unfolding k l by linarith
    moreover have "0 \<le> c" "c < 60" "0 \<le> b" "b < 60" "0 \<le> c'" "c' < 60" "0 \<le> b'" "b' < 60"
      unfolding k l by (rule m)+
    ultimately have "a < a' \<or> (a = a' \<and> b < b') \<or> (a = a' \<and> b = b' \<and> c < c')" by linarith
    then show ?thesis unfolding k l .
  qed
  show "0 \<le> k div 3600" "l div 3600 < 24" using assms by (simp_all add: div_less_iff pos_imp_zdiv_nonneg_iff)
qed

lemma fmt_clock_less:
  assumes "0 \<le> k" "k < l" "l < 86400"
  shows "fmt_clock k @ r < fmt_clock l @ r'"
proof -
  have less: "pad_int 2 a @ x < pad_int 2 b @ y" if "0 \<le> a" "a < b" "b < 60" for a b x y
    using that by (intro pad_int_less) auto
  have m: "0 \<le> x mod 60" "x mod 60 < 60" "0 \<le> x mod 3600 div 60" "x mod 3600 div 60 < 60" for x :: int
    by (simp_all add: div_less_iff pos_imp_zdiv_nonneg_iff)
  from clock_parts(1) [OF assms] show ?thesis
  proof (elim disjE conjE)
    assume "k div 3600 < l div 3600"
    with clock_parts(2,3) [OF assms] show ?thesis unfolding fmt_clock_def append_assoc by (intro less) auto
  next
    assume h: "k div 3600 = l div 3600" and lt: "k mod 3600 div 60 < l mod 3600 div 60"
    show ?thesis
      unfolding fmt_clock_def append_assoc h append_less_same by (rule less [OF m(3) lt m(4)])
  next
    assume h: "k div 3600 = l div 3600" "k mod 3600 div 60 = l mod 3600 div 60" and lt: "k mod 60 < l mod 60"
    show ?thesis
      unfolding fmt_clock_def append_assoc h append_less_same by (rule less [OF m(1) lt m(2)])
  qed
qed

text \<open>Instants in different seconds are ordered as their texts.\<close>

lemma rfc3339nano_less:
  assumes "in_years a" "in_years b" "a div second < b div second"
  shows "rfc3339nano a < rfc3339nano b"
proof -
  have le: "day_of a \<le> day_of b" 
    using zdiv_mono1 [of "a div second" "b div second" 86400] assms(3) by (simp add: sec_split)
  show ?thesis
  proof (cases "day_of a = day_of b")
    case False
    then have "fmt_day (day_of a) < fmt_day (day_of b)"
      using le assms by (intro fmt_day_less) (auto simp: in_years_def)
    then show ?thesis
      using length_fmt_day assms append_less_length
      by (simp add: rfc3339nano_def fmt_sec_def in_years_def)
  next
    case True
    have "a div second = 86400 * day_of a + sec_of_day a" "b div second = 86400 * day_of b + sec_of_day b"
      unfolding sec_split by simp_all
    then have "sec_of_day a < sec_of_day b" using assms(3) True by linarith
    moreover have "0 \<le> sec_of_day a" "sec_of_day b < 86400" unfolding sec_split by simp_all
    ultimately show ?thesis
      using fmt_clock_less True by (simp add: rfc3339nano_def fmt_sec_def)
  qed
qed

lemma rfc3339nano_lessD:
  "in_years a \<Longrightarrow> in_years b \<Longrightarrow> rfc3339nano a < rfc3339nano b \<Longrightarrow> a div second \<le> b div second"
  using rfc3339nano_less [of b a] by (meson not_le order.asym)

lemma rfc3339nano_leD:
  "in_years a \<Longrightarrow> in_years b \<Longrightarrow> rfc3339nano a \<le> rfc3339nano b \<Longrightarrow> a div second \<le> b div second"
  using rfc3339nano_less [of b a] by (meson not_le order.strict_implies_not_eq leD)

text \<open>Within a second the order is wrong: half a second past is printed before the whole second.\<close>

lemma rfc3339nano_inverts: "rfc3339nano 1788588299500000000 < rfc3339nano 1788588299000000000"
  by code_simp

end
