(* ===== verification/DeliveryLife.thy ===== *)
theory DeliveryLife
  imports Deliveries ChannelProps TimeOrder
begin

text \<open>
  The delivery queue as a transition system: what every step keeps of a delivery row, the invariant
  of claims, the exclusivity of a claim on its endpoint, the fence that a claim token is, and what
  the lease means in real time.
\<close>

section \<open>Row steps\<close>

text \<open>
  Every operation updates rows with one of four functions, or adds a row. \<open>row_le\<close> is what a row
  keeps for ever: its snapshot; attempts and retry cycle never decrease; a delivered row is final.
\<close>

definition row_ok :: "delivery_row \<Rightarrow> bool" where
  "row_ok d \<longleftrightarrow> (dl_status d = DInFlight \<longleftrightarrow> dl_claim d \<noteq> None) \<and> (dl_status d = DInFlight \<longleftrightarrow> dl_lease d \<noteq> None)
     \<and> 0 \<le> dl_cycle d \<and> dl_cycle d \<le> dl_attempts d"

definition snapshot_of :: "delivery_row \<Rightarrow> string \<times> string \<times> string \<times> int \<times> string \<times> string" where
  "snapshot_of d = (dl_id d, dl_event d, dl_endpoint d, dl_revision d, dl_key d, dl_created d)"

definition row_le :: "delivery_row \<Rightarrow> delivery_row \<Rightarrow> bool" where
  "row_le d d' \<longleftrightarrow> snapshot_of d' = snapshot_of d \<and> dl_attempts d \<le> dl_attempts d' \<and> dl_cycle d \<le> dl_cycle d'
     \<and> (dl_status d = DDelivered \<longrightarrow> d' = d)"

lemma row_le_refl [simp]: "row_le d d"
  by (simp add: row_le_def)

lemma row_le_trans: "row_le a b \<Longrightarrow> row_le b c \<Longrightarrow> row_le a c"
  unfolding row_le_def by (cases "dl_status a = DDelivered") auto

definition good_update :: "(delivery_row \<Rightarrow> bool) \<Rightarrow> (delivery_row \<Rightarrow> delivery_row) \<Rightarrow> bool" where
  "good_update p f \<longleftrightarrow> (\<forall>d. p d \<longrightarrow> row_ok d \<longrightarrow> row_ok (f d) \<and> row_le d (f d))"

lemma good_updateI:
  assumes "\<And>d. p d \<Longrightarrow> dl_status d \<noteq> DDelivered"
    and "\<And>d. snapshot_of (f d) = snapshot_of d"
    and "\<And>d. row_ok d \<Longrightarrow> row_ok (f d)"
    and "\<And>d. row_ok d \<Longrightarrow> dl_attempts d \<le> dl_attempts (f d) \<and> dl_cycle d \<le> dl_cycle (f d)"
  shows "good_update p f"
  using assms unfolding good_update_def row_le_def by simp

lemma good_claim: "good_update (\<lambda>x. dl_id x = i \<and> due n x) (take_claim token until ts)"
  by (rule good_updateI) (auto simp: row_ok_def due_def take_claim_def snapshot_of_def)

lemma good_release:
  "status = DPending \<or> status = DDelivered \<Longrightarrow> good_update (holds_claim i token) (release status nxt ts)"
  by (rule good_updateI) (auto simp: row_ok_def holds_claim_def release_def snapshot_of_def)

lemma good_bury: "good_update (holds_claim i token) (bury ts)"
  by (rule good_updateI) (auto simp: row_ok_def holds_claim_def bury_def snapshot_of_def)

lemma good_revive: "good_update (\<lambda>x. dl_id x = i \<and> dl_status x = DDeadLetter) (revive ts)"
  unfolding good_update_def row_le_def by (simp add: row_ok_def revive_def snapshot_of_def)

section \<open>Steps\<close>

inductive delivery_step :: "store \<Rightarrow> store \<Rightarrow> bool" where
  enqueue: "insert_delivery (pending_delivery i ev ts ep) st = Inr st' \<Longrightarrow> delivery_step st st'"
| claim: "delivery_step st (snd (claim_delivery token t ts lease st))"
| complete: "delivery_step st (snd (complete_delivery i token delivered retry ts st))"
| fail: "delivery_step st (snd (fail_delivery i token reason ts st))"
| attempt: "delivery_step st (snd (record_attempt aid ts d n code latency outcome err provider pcode st))"
| replay: "delivery_step st (snd (replay_delivery i t st))"
| channel: "channel_step st st' \<Longrightarrow> channel_inv st \<Longrightarrow> delivery_step st st'"

definition delivery_inv :: "store \<Rightarrow> bool" where
  "delivery_inv st \<longleftrightarrow>
     distinct (map dl_id (deliveries st)) \<and> (\<forall>d \<in> set (deliveries st). row_ok d) \<and>
     distinct (map (\<lambda>a. (da_delivery a, da_number a)) (attempt_logs st))"

definition rows_grow :: "store \<Rightarrow> store \<Rightarrow> bool" where
  "rows_grow st st' \<longleftrightarrow> (\<forall>d \<in> set (deliveries st). \<exists>d' \<in> set (deliveries st'). row_le d d')"

lemma rows_grow_superset: "set (deliveries st) \<subseteq> set (deliveries st') \<Longrightarrow> rows_grow st st'"
  unfolding rows_grow_def using row_le_refl by blast

lemma rows_grow_refl [simp]: "rows_grow st st"
  by (rule rows_grow_superset) simp

lemma rows_grow_trans: "rows_grow a b \<Longrightarrow> rows_grow b c \<Longrightarrow> rows_grow a c"
  unfolding rows_grow_def using row_le_trans by meson

lemma good_update_inv:
  assumes "good_update p f" "delivery_inv st"
  shows "delivery_inv (st\<lparr>deliveries := upd p f (deliveries st)\<rparr>)" "rows_grow st (st\<lparr>deliveries := upd p f (deliveries st)\<rparr>)"
proof -
  define g where "g = (\<lambda>d. if p d then f d else d)"
  have u: "upd p f t = map g t" for t by (simp add: upd_def g_def)
  have ok: "row_ok d" if "d \<in> set (deliveries st)" for d using assms(2) that by (simp add: delivery_inv_def)
  have g: "row_ok (g d) \<and> row_le d (g d)" if d: "d \<in> set (deliveries st)" for d
    using assms(1) ok [OF d] by (simp add: g_def good_update_def)
  have "map dl_id (map g (deliveries st)) = map dl_id (deliveries st)"
    using g by (simp add: row_le_def snapshot_of_def)
  then show "delivery_inv (st\<lparr>deliveries := upd p f (deliveries st)\<rparr>)"
    using assms(2) g unfolding delivery_inv_def by (simp add: u del: map_map)
  show "rows_grow st (st\<lparr>deliveries := upd p f (deliveries st)\<rparr>)"
    unfolding rows_grow_def u
  proof
    fix d
    assume "d \<in> set (deliveries st)"
    with g show "\<exists>d' \<in> set (deliveries (st\<lparr>deliveries := map g (deliveries st)\<rparr>)). row_le d d'"
      by (intro bexI [of _ "g d"]) auto
  qed
qed

lemma claim_tx_Inr:
  assumes "claim_tx token until ts n s = Inr (s', c)"
  obtains d where "first_by (\<lambda>d. (dl_next d, dl_id d)) (filter (claimable n s) (deliveries s)) = Some d"
    "c = claim_of s token until d"
    "affected (\<lambda>x. dl_id x = dl_id d \<and> due n x) (deliveries s) = 1"
    "s' = s\<lparr>deliveries := upd (\<lambda>x. dl_id x = dl_id d \<and> due n x) (take_claim token until ts) (deliveries s)\<rparr>"
  using assms by (auto simp: claim_tx_def Let_def split: option.splits if_splits)

lemma replay_tx_Inr:
  assumes "replay_tx i ts s = Inr (s', u)"
  shows "s' = s\<lparr>deliveries := upd (\<lambda>x. dl_id x = i \<and> dl_status x = DDeadLetter) (revive ts) (deliveries s)\<rparr>"
proof -
  obtain d where "sel1 (\<lambda>d. dl_id d = i \<and> find_endpoint s (dl_endpoint d) \<noteq> None) (deliveries s) = Some d"
    using assms by (cases "sel1 (\<lambda>d. dl_id d = i \<and> find_endpoint s (dl_endpoint d) \<noteq> None) (deliveries s)")
      (simp_all add: replay_tx_def)
  with assms show ?thesis by (simp add: replay_tx_def Let_def split: if_splits)
qed

lemma enqueue_inv:
  assumes "insert_delivery (pending_delivery i ev ts ep) st = Inr st'" "delivery_inv st"
  shows "delivery_inv st' \<and> rows_grow st st'"
proof -
  obtain e r key where ep: "ep = (e, r, key)" by (cases ep)
  have "row_ok (pending_delivery i ev ts ep)" by (simp add: pending_delivery_def ep row_ok_def)
  moreover have "st' = st \<or> st' = st\<lparr>deliveries := deliveries st @ [pending_delivery i ev ts ep]\<rparr> \<and>
      (\<forall>x \<in> set (deliveries st). dl_id x \<noteq> dl_id (pending_delivery i ev ts ep))"
    using assms(1) by (cases "list_ex (\<lambda>x. dl_event x = dl_event (pending_delivery i ev ts ep) \<and>
        dl_endpoint x = dl_endpoint (pending_delivery i ev ts ep)) (deliveries st)")
      (auto simp: insert_delivery_def map_sum_Inr2 insert_row_Inr)
  moreover have "rows_grow st st'" using calculation(2) by (intro rows_grow_superset) auto
  moreover have "x \<notin> dl_id ` set ds" if "\<forall>d \<in> set ds. dl_id d \<noteq> x" for x and ds :: "delivery_row list"
    using that by (metis imageE)
  ultimately show ?thesis using assms(2) unfolding delivery_inv_def by (elim disjE conjE) simp_all
qed

text \<open>A step that leaves the store alone or updates the deliveries well keeps the invariant.\<close>

lemma update_or_same_inv:
  assumes "st' = st \<or> st' = st\<lparr>deliveries := upd p f (deliveries st)\<rparr>" "good_update p f" "delivery_inv st"
  shows "delivery_inv st' \<and> rows_grow st st'"
  using assms good_update_inv [OF assms(2,3)] by auto

lemma claim_update:
  obtains d :: delivery_row where "snd (claim_delivery token t ts lease st) = st \<or>
    snd (claim_delivery token t ts lease st) = st\<lparr>deliveries := upd (\<lambda>x. dl_id x = dl_id d \<and> due (rfc3339nano t) x)
      (take_claim token (rfc3339nano (t + lease)) (rfc3339nano ts)) (deliveries st)\<rparr>"
proof (cases "claim_tx token (rfc3339nano (t + lease)) (rfc3339nano ts) (rfc3339nano t) st")
  case (Inl e)
  then show thesis using that by (simp add: claim_delivery_def with_tx_def)
next
  case (Inr r)
  then have "claim_tx token (rfc3339nano (t + lease)) (rfc3339nano ts) (rfc3339nano t) st = Inr (fst r, snd r)" by simp
  then obtain d :: delivery_row where "fst r = st\<lparr>deliveries := upd (\<lambda>x. dl_id x = dl_id d \<and> due (rfc3339nano t) x)
      (take_claim token (rfc3339nano (t + lease)) (rfc3339nano ts)) (deliveries st)\<rparr>"
    by (rule claim_tx_Inr) blast
  then show thesis by (intro that [of d]) (cases r, auto simp: claim_delivery_def with_tx_def Inr)
qed

lemma replay_update:
  "snd (replay_delivery i t st) = st \<or>
   snd (replay_delivery i t st) = st\<lparr>deliveries := upd (\<lambda>x. dl_id x = i \<and> dl_status x = DDeadLetter) (revive (rfc3339nano t)) (deliveries st)\<rparr>"
  by (auto simp: replay_delivery_def with_tx_def split: sum.splits dest: replay_tx_Inr)

lemma attempt_inv:
  assumes "delivery_inv st"
  shows "delivery_inv (snd (record_attempt aid ts d n code latency outcome err provider pcode st))
    \<and> rows_grow st (snd (record_attempt aid ts d n code latency outcome err provider pcode st))"
proof -
  define l where "l = \<lparr>da_id = aid, da_delivery = d, da_number = n, da_status = code, da_latency = latency,
         da_outcome = outcome, da_error = err,
         da_provider = (if provider = [] then ''WEBHOOK'' else provider), da_code = pcode,
         da_created = rfc3339nano ts\<rparr>"
  have k: "da_delivery l = d" "da_number l = n" by (simp_all add: l_def)
  show ?thesis
  proof (cases "insert_row ''delivery_attempts'' (\<lambda>a. da_id a = aid \<or> (da_delivery a = d \<and> da_number a = n))
        (list_ex (\<lambda>x. dl_id x = d) (deliveries st)) l (attempt_logs st)")
    case (Inl e)
    then show ?thesis using assms by (simp add: record_attempt_def l_def)
  next
    case (Inr ls)
    then have st': "snd (record_attempt aid ts d n code latency outcome err provider pcode st) = st\<lparr>attempt_logs := ls\<rparr>"
      by (simp add: record_attempt_def l_def)
    have ls: "ls = attempt_logs st @ [l]" "(d, n) \<notin> (\<lambda>a. (da_delivery a, da_number a)) ` set (attempt_logs st)"
      using Inr by (auto simp: insert_row_Inr)
    have "delivery_inv (st\<lparr>attempt_logs := ls\<rparr>)" using assms ls(2) k by (simp add: delivery_inv_def ls(1))
    then show ?thesis using rows_grow_superset [of st "st\<lparr>attempt_logs := ls\<rparr>"] by (simp add: st')
  qed
qed

lemma delivery_step_inv:
  assumes "delivery_step st st'" "delivery_inv st"
  shows "delivery_inv st' \<and> rows_grow st st'"
  using assms
proof cases
  case (enqueue i ev ts ep)
  then show ?thesis by (rule enqueue_inv [OF _ assms(2)])
next
  case (claim token t ts lease)
  obtain d :: delivery_row where "st' = st \<or> st' = st\<lparr>deliveries := upd (\<lambda>x. dl_id x = dl_id d \<and> due (rfc3339nano t) x)
      (take_claim token (rfc3339nano (t + lease)) (rfc3339nano ts)) (deliveries st)\<rparr>"
    unfolding claim by (rule claim_update)
  then show ?thesis by (rule update_or_same_inv [OF _ good_claim assms(2)])
next
  case (complete i token delivered retry ts)
  have "st' = st \<or> st' = st\<lparr>deliveries := upd (holds_claim i token)
      (release (if delivered then DDelivered else DPending) (rfc3339nano retry) (rfc3339nano ts)) (deliveries st)\<rparr>"
    unfolding complete by (simp add: complete_delivery_def with_tx_def)
  then show ?thesis by (rule update_or_same_inv) (simp_all add: good_release assms(2))
next
  case (fail i token reason ts)
  then have "st' = st \<or> st' = st\<lparr>deliveries := upd (holds_claim i token) (bury (rfc3339nano ts)) (deliveries st)\<rparr>"
    by (simp add: fail_delivery_def)
  then show ?thesis by (rule update_or_same_inv [OF _ good_bury assms(2)])
next
  case (attempt aid ts d n code latency outcome err provider pcode)
  then show ?thesis using attempt_inv [OF assms(2)] by simp
next
  case (replay i t)
  then show ?thesis using update_or_same_inv [OF replay_update good_revive assms(2)] by simp
next
  case channel
  then have "keeps st st'" using channel_step_inv by blast
  then have "deliveries st' = deliveries st" "attempt_logs st' = attempt_logs st" by (simp_all add: keeps_def)
  then show ?thesis using assms(2) rows_grow_superset [of st st'] by (simp add: delivery_inv_def)
qed


lemma delivery_steps_inv:
  "delivery_step\<^sup>*\<^sup>* st st' \<Longrightarrow> delivery_inv st \<Longrightarrow> delivery_inv st' \<and> rows_grow st st'"
proof (induction rule: rtranclp_induct)
  case (step y z)
  then show ?case using delivery_step_inv [of y z] rows_grow_trans by blast
qed simp

text \<open>
  Property C17. The queue in every run of its operations, channel operations interleaved: delivery
  identifiers and logged attempts stay unique, a claim and a lease are present exactly while a
  delivery is in flight, no row is lost or changes its snapshot, attempt counts never decrease, and a
  delivered row never changes again.
\<close>

theorem delivery_reachable:
  "delivery_step\<^sup>*\<^sup>* st st' \<Longrightarrow> delivery_inv st \<Longrightarrow> delivery_inv st' \<and> rows_grow st st'"
  by (rule delivery_steps_inv)

section \<open>Claims\<close>

lemma inv_unique:
  "delivery_inv st \<Longrightarrow> x \<in> set (deliveries st) \<Longrightarrow> y \<in> set (deliveries st) \<Longrightarrow> dl_id x = dl_id y \<Longrightarrow> x = y"
  using distinct_key_eq [of dl_id "deliveries st" x y] by (simp add: delivery_inv_def)

lemma first_claimable:
  assumes "first_by k (filter (claimable n s) ds) = Some d"
  shows "d \<in> set ds" "claimable n s d" "\<forall>x \<in> set ds. claimable n s x \<longrightarrow> k d \<le> k x"
  using first_by_in [OF assms] first_by_least [OF assms] by auto

lemma claimed_once:
  assumes "delivery_inv st" "d \<in> set (deliveries st)" "due n d"
  shows "affected (\<lambda>x. dl_id x = dl_id d \<and> due n x) (deliveries st) = 1"
proof -
  have "length (filter (\<lambda>x. dl_id x = dl_id d \<and> due n x) (deliveries st)) \<le> 1"
    using assms(1) filter_distinct_key [of dl_id "deliveries st" "dl_id d" "due n"] by (simp add: delivery_inv_def)
  moreover have "affected (\<lambda>x. dl_id x = dl_id d \<and> due n x) (deliveries st) \<noteq> 0"
    unfolding affected_pos using assms(2,3) by blast
  ultimately show ?thesis unfolding affected_def by linarith
qed

text \<open>
  Property C14. What a claim is: the delivery is one that may be claimed (its endpoint active, pending
  and due or its lease run out, no live claim on the endpoint), the first of those by due time and
  identifier; only its row changes; and afterwards it is the only delivery of its endpoint in
  flight under a live lease.
\<close>

theorem claim_exclusive:
  assumes "claim_delivery token t ts lease st = (Inr c, st')" and "delivery_inv st"
  shows "\<exists>d \<in> set (deliveries st). claimable (rfc3339nano t) st d
    \<and> (\<forall>x \<in> set (deliveries st). claimable (rfc3339nano t) st x \<longrightarrow> (dl_next d, dl_id d) \<le> (dl_next x, dl_id x))
    \<and> c = claim_of st token (rfc3339nano (t + lease)) d
    \<and> deliveries st' = upd (\<lambda>x. x = d) (take_claim token (rfc3339nano (t + lease)) (rfc3339nano ts)) (deliveries st)
    \<and> (\<forall>x \<in> set (deliveries st'). dl_endpoint x = cl_endpoint c \<and> dl_status x = DInFlight
          \<and> lease_live (rfc3339nano t) x \<longrightarrow> dl_id x = cl_id c)"
proof -
  let ?n = "rfc3339nano t"
  have "claim_tx token (rfc3339nano (t + lease)) (rfc3339nano ts) ?n st = Inr (st', c)"
    using assms(1) by (auto simp: claim_delivery_def with_tx_commit split: if_splits)
  then show ?thesis
  proof (rule claim_tx_Inr)
    fix d
    assume f: "first_by (\<lambda>d. (dl_next d, dl_id d)) (filter (claimable ?n st) (deliveries st)) = Some d"
      and c: "c = claim_of st token (rfc3339nano (t + lease)) d"
      and st': "st' = st\<lparr>deliveries := upd (\<lambda>x. dl_id x = dl_id d \<and> due ?n x)
          (take_claim token (rfc3339nano (t + lease)) (rfc3339nano ts)) (deliveries st)\<rparr>"
    note fc = first_claimable [OF f]
    have same: "(dl_id x = dl_id d \<and> due ?n x) = (x = d)" if "x \<in> set (deliveries st)" for x
      using inv_unique [OF assms(2) that fc(1)] fc(2) by (auto simp: claimable_def)
    have u: "deliveries st' = upd (\<lambda>x. x = d) (take_claim token (rfc3339nano (t + lease)) (rfc3339nano ts)) (deliveries st)"
      unfolding st' using same by (simp add: upd_def cong: map_cong)
    have "dl_id x = cl_id c"
      if x: "x \<in> set (deliveries st')" "dl_endpoint x = cl_endpoint c" "dl_status x = DInFlight" "lease_live ?n x" for x
    proof (cases "x = take_claim token (rfc3339nano (t + lease)) (rfc3339nano ts) d")
      case True
      then show ?thesis by (simp add: c claim_of_def take_claim_def)
    next
      case False
      then have "x \<in> set (deliveries st)" using x(1) by (auto simp: u in_upd split: if_splits)
      moreover have "\<not> endpoint_busy ?n (deliveries st) d" using fc(2) by (simp add: claimable_def)
      ultimately show ?thesis using x(2-4) by (auto simp: endpoint_busy_def list_ex_iff c claim_of_def)
    qed
    then show ?thesis using fc c u by blast
  qed
qed

text \<open>
  A claim succeeds exactly when some delivery may be claimed; otherwise it reports that
  there is none and changes nothing.
\<close>

theorem claim_progress:
  assumes "delivery_inv st" and "0 < lease"
  shows "if (\<exists>d \<in> set (deliveries st). claimable (rfc3339nano t) st d)
    then \<exists>c. fst (claim_delivery token t ts lease st) = Inr c
    else claim_delivery token t ts lease st = (Inl ErrNoRows, st)"
proof -
  have none: "claim_delivery token t ts lease st = (Inl ErrNoRows, st)"
    if "\<not> (\<exists>d \<in> set (deliveries st). claimable (rfc3339nano t) st d)"
  proof -
    have "filter (claimable (rfc3339nano t) st) (deliveries st) = []" using that by (simp add: filter_empty_conv)
    then show ?thesis using assms(2) by (simp add: claim_delivery_def claim_tx_def with_tx_def)
  qed
  have "\<exists>c. fst (claim_delivery token t ts lease st) = Inr c"
    if "\<exists>d \<in> set (deliveries st). claimable (rfc3339nano t) st d"
  proof -
    have "filter (claimable (rfc3339nano t) st) (deliveries st) \<noteq> []" using that by (auto simp: filter_empty_conv)
    then obtain d where f: "first_by (\<lambda>d. (dl_next d, dl_id d)) (filter (claimable (rfc3339nano t) st) (deliveries st)) = Some d"
      by (metis first_by_None not_None_eq)
    note fc = first_claimable [OF f]
    have "due (rfc3339nano t) d" using fc(2) by (simp add: claimable_def)
    from claimed_once [OF assms(1) fc(1) this] f assms(2) show ?thesis
      by (simp add: claim_delivery_def claim_tx_def with_tx_def)
  qed
  with none show ?thesis by simp
qed

lemma holds_claim_zero:
  "\<forall>d \<in> set (deliveries st). dl_id d = i \<longrightarrow> dl_claim d \<noteq> Some token \<Longrightarrow>
   affected (holds_claim i token) (deliveries st) = 0 \<and> upd (holds_claim i token) f (deliveries st) = deliveries st"
  by (simp add: affected_zero holds_claim_def upd_none)

lemma holds_claim_fun:
  "holds_claim i token = (\<lambda>d. dl_id d = i \<and> dl_status d = DInFlight \<and> dl_claim d = Some token)"
  by (simp add: fun_eq_iff holds_claim_def)

lemma holds_claim_one:
  assumes "delivery_inv st" "d \<in> set (deliveries st)" "dl_claim d = Some token"
  shows "affected (holds_claim (dl_id d) token) (deliveries st) = 1"
    "upd (holds_claim (dl_id d) token) f (deliveries st) = upd (\<lambda>x. x = d) f (deliveries st)"
proof -
  have ok: "row_ok d" using assms by (simp add: delivery_inv_def)
  have iff: "holds_claim (dl_id d) token x = (x = d)" if "x \<in> set (deliveries st)" for x
    using inv_unique [OF assms(1) that assms(2)] assms(3) ok by (auto simp: holds_claim_def row_ok_def)
  have "length (filter (holds_claim (dl_id d) token) (deliveries st)) \<le> 1"
    using assms(1) filter_distinct_key [of dl_id "deliveries st" "dl_id d" "\<lambda>x. dl_status x = DInFlight \<and> dl_claim x = Some token"]
    unfolding holds_claim_fun by (simp add: delivery_inv_def)
  moreover have "affected (holds_claim (dl_id d) token) (deliveries st) \<noteq> 0"
    unfolding affected_pos using iff [OF assms(2)] assms(2) by blast
  ultimately show "affected (holds_claim (dl_id d) token) (deliveries st) = 1" unfolding affected_def by linarith
  show "upd (holds_claim (dl_id d) token) f (deliveries st) = upd (\<lambda>x. x = d) f (deliveries st)"
    using iff by (simp add: upd_def cong: map_cong)
qed

text \<open>
  Property C15. The claim token is a fence: completing or failing a delivery with a token other than
  that of its current claim (a worker whose lease was taken over, a delivery closed already)
  reports that nothing matched and leaves the database as it was, while the holder succeeds and
  changes only its row.
\<close>

theorem claim_token_fences:
  assumes "delivery_inv st" and "d \<in> set (deliveries st)" and "token \<noteq> []" and "dl_id d \<noteq> []"
  shows "if dl_claim d = Some token
    then complete_delivery (dl_id d) token ok retry ts st =
        (None, st\<lparr>deliveries := upd (\<lambda>x. x = d) (release (if ok then DDelivered else DPending)
           (rfc3339nano retry) (rfc3339nano ts)) (deliveries st)\<rparr>)
      \<and> fail_delivery (dl_id d) token reason ts st =
        (None, st\<lparr>deliveries := upd (\<lambda>x. x = d) (bury (rfc3339nano ts)) (deliveries st)\<rparr>)
    else complete_delivery (dl_id d) token ok retry ts st = (Some ErrNoRows, st)
      \<and> fail_delivery (dl_id d) token reason ts st = (Some ErrNoRows, st)"
proof (cases "dl_claim d = Some token")
  case True
  note one = holds_claim_one [OF assms(1,2) True]
  show ?thesis using True assms(3,4) by (simp add: complete_delivery_def fail_delivery_def with_tx_def one)
next
  case False
  then have "\<forall>x \<in> set (deliveries st). dl_id x = dl_id d \<longrightarrow> dl_claim x \<noteq> Some token"
    using inv_unique [OF assms(1) _ assms(2)] by blast
  note zero = holds_claim_zero [OF this]
  show ?thesis using False assms(3,4) by (simp add: complete_delivery_def fail_delivery_def with_tx_def zero)
qed

section \<open>Leases in real time\<close>

text \<open>
  A lease holds to within its last second: when a delivery in flight under a lease until
  \<open>u\<close> is claimed at \<open>t\<close>, the second of \<open>t\<close> is not before that of \<open>u\<close>. (Within that second
  the text order can hand the delivery over up to a second early.)
\<close>

theorem lease_respected:
  assumes "claim_delivery token t ts lease st = (Inr c, st')" and "delivery_inv st"
    and "d \<in> set (deliveries st)" and "dl_id d = cl_id c" and "dl_status d = DInFlight"
    and "dl_lease d = Some (rfc3339nano u)" and "in_years t" and "in_years u"
  shows "u div second \<le> t div second"
proof -
  obtain x where x: "x \<in> set (deliveries st)" "claimable (rfc3339nano t) st x"
    "c = claim_of st token (rfc3339nano (t + lease)) x"
    using claim_exclusive [OF assms(1,2)] by blast
  have "x = d" using inv_unique [OF assms(2) x(1) assms(3)] assms(4) x(3) by (simp add: claim_of_def)
  then have "rfc3339nano u < rfc3339nano t"
    using x(2) assms(5,6) by (simp add: claimable_def due_def lease_over_def)
  then show ?thesis using rfc3339nano_lessD [OF assms(8,7)] by blast
qed

text \<open>
  The early hand-over on a concrete queue: the lease runs until half a second past the whole second
  at which another worker asks, and the delivery is handed over all the same.
\<close>

definition demo_delivery :: "instant \<Rightarrow> delivery_row" where
  "demo_delivery u = \<lparr>dl_id = ''d'', dl_event = ''ev'', dl_endpoint = ''e'', dl_revision = 1, dl_key = ''k1'',
     dl_status = DInFlight, dl_attempts = 1, dl_next = ''2026'', dl_claim = Some ''w1'',
     dl_lease = Some (rfc3339nano u), dl_created = ''2026'', dl_updated = ''2026'', dl_cycle = 0\<rparr>"

definition demo_queue :: "instant \<Rightarrow> store" where
  "demo_queue u = empty_store\<lparr>
     endpoints := [\<lparr>ep_id = ''e'', ep_name = ''shop'', ep_status = EpActive, ep_revision = 1,
                    ep_created = [], ep_updated = [], ep_provider = ''WEBHOOK''\<rparr>],
     deliveries := [demo_delivery u]\<rparr>"

lemma demo_queue_inv: "delivery_inv (demo_queue u)"
  by (simp add: delivery_inv_def demo_queue_def demo_delivery_def empty_store_def row_ok_def)

definition demo_end :: instant where "demo_end = 1788588299500000000"

definition demo_taken :: "claim result \<times> store" where
  "demo_taken = claim_delivery ''w2'' 1788588299000000000 1788588299000000000 lease_time (demo_queue demo_end)"

lemma lease_taken_early: "1788588299000000000 < demo_end \<and> \<not> isl (fst demo_taken)"
  by code_simp

lemma demo_taken_claim:
  obtains c st' where "demo_taken = (Inr c, st')" "cl_id c = ''d''"
proof -
  have "case fst demo_taken of Inl _ \<Rightarrow> False | Inr c \<Rightarrow> cl_id c = ''d''" by code_simp
  then obtain c where c: "fst demo_taken = Inr c" "cl_id c = ''d''" by (cases "fst demo_taken") simp_all
  then have "demo_taken = (Inr c, snd demo_taken)" by (simp add: prod_eq_iff)
  then show ?thesis using that c(2) by blast
qed

theorem claim_exclusive_witness:
  "\<exists>c st'. demo_taken = (Inr c, st') \<and> (\<exists>d \<in> set (deliveries (demo_queue demo_end)). cl_id c = dl_id d)"
proof (rule demo_taken_claim)
  fix c st'
  assume a: "demo_taken = (Inr c, st')"
  obtain d where d: "d \<in> set (deliveries (demo_queue demo_end))"
    "c = claim_of (demo_queue demo_end) ''w2'' (rfc3339nano (1788588299000000000 + lease_time)) d"
    using claim_exclusive [OF a [unfolded demo_taken_def] demo_queue_inv] by blast
  then have "cl_id c = dl_id d" by (simp add: claim_of_def)
  with a d(1) show ?thesis by blast
qed

theorem claim_progress_witness: "\<exists>c. fst demo_taken = Inr c"
proof -
  have l: "0 < lease_time" by (simp add: lease_time_def second_def)
  have "\<exists>d \<in> set (deliveries (demo_queue demo_end)). claimable (rfc3339nano 1788588299000000000) (demo_queue demo_end) d"
    by code_simp
  with claim_progress [OF demo_queue_inv [of demo_end] l, of 1788588299000000000 "''w2''" 1788588299000000000]
  show ?thesis unfolding demo_taken_def by simp
qed

theorem claim_token_fences_witness:
  "complete_delivery ''d'' ''w2'' True 0 0 (demo_queue demo_end) = (Some ErrNoRows, demo_queue demo_end)"
proof -
  have d: "demo_delivery demo_end \<in> set (deliveries (demo_queue demo_end))" "dl_claim (demo_delivery demo_end) = Some ''w1''"
    "dl_id (demo_delivery demo_end) = ''d''"
    by (simp_all add: demo_queue_def demo_delivery_def)
  show ?thesis
    using claim_token_fences [OF demo_queue_inv d(1), of "''w2''" True 0 0] unfolding d(2,3) by simp
qed

theorem lease_respected_witness:
  "demo_end div second \<le> 1788588299000000000 div second"
proof (rule demo_taken_claim)
  fix c st'
  assume a: "demo_taken = (Inr c, st')" "cl_id c = ''d''"
  have d: "demo_delivery demo_end \<in> set (deliveries (demo_queue demo_end))" "dl_id (demo_delivery demo_end) = cl_id c"
    "dl_status (demo_delivery demo_end) = DInFlight" "dl_lease (demo_delivery demo_end) = Some (rfc3339nano demo_end)"
    by (simp_all add: demo_queue_def demo_delivery_def a(2))
  have y: "in_years 1788588299000000000" "in_years demo_end" by code_simp+
  show ?thesis by (rule lease_respected [OF a(1) [unfolded demo_taken_def] demo_queue_inv d y])
qed

theorem delivery_reachable_witness:
  "delivery_inv (snd demo_taken) \<and> rows_grow (demo_queue demo_end) (snd demo_taken)"
proof -
  have "delivery_step\<^sup>*\<^sup>* (demo_queue demo_end) (snd demo_taken)"
    unfolding demo_taken_def using delivery_step.claim by blast
  then show ?thesis by (rule delivery_reachable [OF _ demo_queue_inv])
qed

end
