(* ===== verification/Dispatch.thy ===== *)
theory Dispatch
  imports DeliveryLife
begin

text \<open>
  The dispatcher at work: what settling a claim does to its row, and several workers side by side,
  each between its claim and its settlement, any of which may die without settling. The retry limit
  holds through all of it.
\<close>

section \<open>Settling\<close>

lemma record_attempt_deliveries [simp]:
  "deliveries (snd (record_attempt aid ts d n code latency outcome err provider pcode st)) = deliveries st"
  by (simp add: record_attempt_def split: sum.split)

lemma record_attempt_inv:
  "delivery_inv st \<Longrightarrow> delivery_inv (snd (record_attempt aid ts d n code latency outcome err provider pcode st))"
  using delivery_step_inv [OF delivery_step.attempt] by blast

text \<open>What settling makes of the row: the two limits of the code in one place.\<close>

definition closed_row :: "dispatcher \<Rightarrow> dispatch_env \<Rightarrow> claim \<Rightarrow> send_result \<Rightarrow> delivery_row \<Rightarrow> delivery_row" where
  "closed_row d en c r =
     (if final_outcome d c r = Success then release DDelivered (rfc3339nano (- 62135596800 * second)) (rfc3339nano (de_clock en))
      else if final_outcome d c r = TerminalFailure then bury (rfc3339nano (de_clock en))
      else release DPending (rfc3339nano (de_now en + backoff_at (dp_backoffs d) (effective_attempts c)))
             (rfc3339nano (de_clock en)))"

lemma backoff_at_eq:
  assumes "bs \<noteq> []"
  shows "backoff_at bs (max 1 e) = bs ! min (nat (e - 1)) (length bs - 1)"
proof -
  have "0 < length bs" using assms by simp
  then have "nat (if max 0 (max 1 e - 1) \<ge> int (length bs) then int (length bs) - 1 else max 0 (max 1 e - 1))
      = min (nat (e - 1)) (length bs - 1)" by (auto simp: min_def max_def)
  then show ?thesis unfolding backoff_at_def Let_def by (rule arg_cong [where f = "nth bs"])
qed

lemma settle_cases:
  assumes "delivery_inv st"
  obtains (held) x where "x \<in> set (deliveries st)" "dl_id x = cl_id c" "dl_claim x = Some (cl_token c)"
      "fst (settle d en c tg r st) = None"
      "deliveries (snd (settle d en c tg r st)) = upd (\<lambda>y. y = x) (closed_row d en c r) (deliveries st)"
  | (lost) "fst (settle d en c tg r st) \<noteq> None"
      "deliveries (snd (settle d en c tg r st)) = deliveries st"
proof -
  define st1 where "st1 = snd (record_attempt (de_attempt en) (de_clock en) (cl_id c) (cl_attempts c) (rs_code r)
      (rs_latency r) (outcome_text (final_outcome d c r)) (rs_error r) (tg_provider tg) (rs_pcode r) st)"
  have s: "settle d en c tg r st =
      (if rs_outcome r = Success
       then complete_delivery (cl_id c) (cl_token c) True (- 62135596800 * second) (de_clock en) st1
       else if rs_outcome r = TerminalFailure \<or> effective_attempts c \<ge> dp_max d
       then fail_delivery (cl_id c) (cl_token c) (fail_reason r) (de_clock en) st1
       else complete_delivery (cl_id c) (cl_token c) False
              (de_now en + backoff_at (dp_backoffs d) (effective_attempts c)) (de_clock en) st1)"
    unfolding settle_def st1_def Let_def by (rule refl)
  have inv: "delivery_inv st1" unfolding st1_def by (rule record_attempt_inv [OF assms(1)])
  have ds: "deliveries st1 = deliveries st" by (simp add: st1_def)
  consider (holds) x where "x \<in> set (deliveries st)" "dl_id x = cl_id c" "dl_claim x = Some (cl_token c)"
        "cl_token c \<noteq> []" "cl_id c \<noteq> []"
    | (none) "\<forall>x \<in> set (deliveries st). dl_id x = cl_id c \<longrightarrow> dl_claim x \<noteq> Some (cl_token c)"
        "cl_token c \<noteq> []" "cl_id c \<noteq> []"
    | (blank) "cl_token c = [] \<or> cl_id c = []"
    by blast
  then show ?thesis
  proof cases
    case (holds x)
    then have x: "x \<in> set (deliveries st)" "dl_id x = cl_id c" "dl_claim x = Some (cl_token c)" by blast+
    note one = holds_claim_one [OF inv, unfolded ds, OF x(1) x(3), unfolded x(2)]
    have closed: "complete_delivery (cl_id c) (cl_token c) ok retry ts st1 =
        (None, st1\<lparr>deliveries := upd (\<lambda>y. y = x) (release (if ok then DDelivered else DPending)
           (rfc3339nano retry) (rfc3339nano ts)) (deliveries st)\<rparr>)"
      "fail_delivery (cl_id c) (cl_token c) reason ts st1 =
        (None, st1\<lparr>deliveries := upd (\<lambda>y. y = x) (bury (rfc3339nano ts)) (deliveries st)\<rparr>)" for ok retry ts reason
      using holds(4,5) by (simp_all add: complete_delivery_def fail_delivery_def with_tx_def one ds)
    have "fst (settle d en c tg r st) = None"
      "deliveries (snd (settle d en c tg r st)) = upd (\<lambda>y. y = x) (closed_row d en c r) (deliveries st)"
      unfolding s closed by (cases "rs_outcome r"; simp add: closed_row_def final_outcome_def)+
    with x show ?thesis by (rule held)
  next
    case none
    then have "\<forall>x \<in> set (deliveries st1). dl_id x = cl_id c \<longrightarrow> dl_claim x \<noteq> Some (cl_token c)" by (simp add: ds)
    note zero = holds_claim_zero [OF this]
    have "complete_delivery (cl_id c) (cl_token c) ok retry ts st1 = (Some ErrNoRows, st1)"
      "fail_delivery (cl_id c) (cl_token c) reason ts st1 = (Some ErrNoRows, st1)" for ok retry ts reason
      using none(2,3) by (simp_all add: complete_delivery_def fail_delivery_def with_tx_def zero)
    then show ?thesis by (intro lost) (simp_all add: s ds)
  next
    case blank
    then have "complete_delivery (cl_id c) (cl_token c) ok retry ts st1 = (Some (ErrMsg ''delivery claim is required''), st1)"
      "fail_delivery (cl_id c) (cl_token c) reason ts st1 = (Some (ErrMsg ''delivery claim is required''), st1)"
      for ok retry ts reason
      by (auto simp: complete_delivery_def fail_delivery_def)
    then show ?thesis by (intro lost) (simp_all add: s ds)
  qed
qed

text \<open>
  What settling does, for the holder of the claim: a success delivers, a terminal failure
  or a retry at the limit buries, any other retry makes the row pending again at the instant of the
  claim plus the backoff of its attempt, the last backoff repeating; no other row changes.
\<close>

theorem settle_effect:
  assumes "delivery_inv st" and "x \<in> set (deliveries st)" and "dl_id x = cl_id c"
    and "dl_claim x = Some (cl_token c)" and "cl_token c \<noteq> []" and "cl_id c \<noteq> []" and "dp_backoffs d \<noteq> []"
  shows "fst (settle d en c tg r st) = None \<and>
    deliveries (snd (settle d en c tg r st)) = upd (\<lambda>y. y = x)
      (if rs_outcome r = Success
       then (\<lambda>y. y\<lparr>dl_status := DDelivered, dl_next := rfc3339nano (- 62135596800 * second), dl_claim := None,
                  dl_lease := None, dl_updated := rfc3339nano (de_clock en)\<rparr>)
       else if rs_outcome r = TerminalFailure \<or> dp_max d \<le> max 1 (cl_attempts c - cl_cycle c)
       then (\<lambda>y. y\<lparr>dl_status := DDeadLetter, dl_claim := None, dl_lease := None, dl_updated := rfc3339nano (de_clock en)\<rparr>)
       else (\<lambda>y. y\<lparr>dl_status := DPending, dl_next := rfc3339nano (de_now en +
                    dp_backoffs d ! min (nat (cl_attempts c - cl_cycle c - 1)) (length (dp_backoffs d) - 1)),
                  dl_claim := None, dl_lease := None, dl_updated := rfc3339nano (de_clock en)\<rparr>))
      (deliveries st)"
proof -
  note b = backoff_at_eq [OF assms(7), of "cl_attempts c - cl_cycle c", folded effective_attempts_def]
  have row: "closed_row d en c r = (if rs_outcome r = Success
       then (\<lambda>y. y\<lparr>dl_status := DDelivered, dl_next := rfc3339nano (- 62135596800 * second), dl_claim := None,
                  dl_lease := None, dl_updated := rfc3339nano (de_clock en)\<rparr>)
       else if rs_outcome r = TerminalFailure \<or> dp_max d \<le> effective_attempts c
       then (\<lambda>y. y\<lparr>dl_status := DDeadLetter, dl_claim := None, dl_lease := None, dl_updated := rfc3339nano (de_clock en)\<rparr>)
       else (\<lambda>y. y\<lparr>dl_status := DPending, dl_next := rfc3339nano (de_now en +
                    dp_backoffs d ! min (nat (cl_attempts c - cl_cycle c - 1)) (length (dp_backoffs d) - 1)),
                  dl_claim := None, dl_lease := None, dl_updated := rfc3339nano (de_clock en)\<rparr>))"
    unfolding b [symmetric]
    by (rule ext, cases "rs_outcome r")
      (simp_all add: closed_row_def final_outcome_def release_def bury_def del: minus_mult_left)
  show ?thesis
    using assms(1)
  proof (cases rule: settle_cases [where c = c and d = d and en = en and tg = tg and r = r])
    case (held z)
    then have "z = x" using inv_unique [OF assms(1) held(1) assms(2)] assms(3) by simp
    with held(4,5) show ?thesis unfolding row effective_attempts_def by blast
  next
    case lost
    have "affected (holds_claim (cl_id c) (cl_token c)) (deliveries st) = 1"
      using holds_claim_one(1) [OF assms(1,2,4)] assms(3) by simp
    then show ?thesis
      using lost(1) assms(5,6)
      by (simp add: settle_def Let_def complete_delivery_def fail_delivery_def with_tx_def split: if_splits)
  qed
qed

definition demo_target :: target where
  "demo_target = \<lparr>tg_delivery = ''d'', tg_endpoint = ''e'', tg_provider = ''WEBHOOK'', tg_url = [], tg_bark = None,
     tg_secret = [], tg_revision = 1, tg_key = ''k1''\<rparr>"

theorem settle_effect_witness:
  "\<exists>c. deliveries (snd (settle (new_dispatcher (\<lambda>_. None)) \<lparr>de_now = 0, de_clock = 0, de_token = [], de_attempt = ''a''\<rparr> c demo_target
       \<lparr>rs_outcome = Retry, rs_code = 503, rs_latency = 1, rs_pcode = [], rs_error = []\<rparr> (demo_queue demo_end)))
     = [release DPending (rfc3339nano (2 * second)) (rfc3339nano 0) (demo_delivery demo_end)]"
proof -
  define c where "c = claim_of (demo_queue demo_end) ''w1'' [] (demo_delivery demo_end\<lparr>dl_attempts := 0\<rparr>)"
  have c: "cl_token c = ''w1''" "cl_id c = ''d''" "cl_attempts c - cl_cycle c = 1"
    by (simp_all add: c_def claim_of_def demo_delivery_def)
  have x: "demo_delivery demo_end \<in> set (deliveries (demo_queue demo_end))" "dl_id (demo_delivery demo_end) = cl_id c"
    "dl_claim (demo_delivery demo_end) = Some (cl_token c)" "cl_token c \<noteq> []" "cl_id c \<noteq> []"
    "dp_backoffs (new_dispatcher (\<lambda>_. None)) \<noteq> []"
    by (simp_all add: c demo_queue_def demo_delivery_def new_dispatcher_def default_backoffs_def)
  have "release DPending (rfc3339nano (2 * second)) (rfc3339nano 0) (demo_delivery demo_end) =
      demo_delivery demo_end\<lparr>dl_status := DPending, dl_next := rfc3339nano (2 * second), dl_claim := None,
                  dl_lease := None, dl_updated := rfc3339nano 0\<rparr>" by (simp add: release_def)
  then show ?thesis
    using settle_effect [OF demo_queue_inv x]
    by (intro exI [of _ c]) (simp add: c new_dispatcher_def default_backoffs_def upd_def demo_queue_def)
qed

section \<open>Workers side by side\<close>

text \<open>
  The database together with the claims that workers hold. Between its claim and its settlement a
  worker is only a claim; it may settle with any result, give up for want of a target, or die.
  Tokens are fresh identifiers.
\<close>

definition fresh_token :: "string \<Rightarrow> store \<Rightarrow> claim list \<Rightarrow> bool" where
  "fresh_token token st cs \<longleftrightarrow> token \<noteq> [] \<and> (\<forall>x \<in> set (deliveries st). dl_claim x \<noteq> Some token)
     \<and> (\<forall>c \<in> set cs. cl_token c \<noteq> token)"

inductive fleet_step :: "dispatcher \<Rightarrow> store \<times> claim list \<Rightarrow> store \<times> claim list \<Rightarrow> bool" for d where
  grab: "claim_delivery token t ts lease st = (Inr c, st') \<Longrightarrow> fresh_token token st cs \<Longrightarrow>
     fleet_step d (st, cs) (st', c # cs)"
| idle: "claim_delivery token t ts lease st = (Inl e, st') \<Longrightarrow> fleet_step d (st, cs) (st', cs)"
| close: "c \<in> set cs \<Longrightarrow> fleet_step d (st, cs) (snd (settle d en c tg r st), remove1 c cs)"
| give_up: "c \<in> set cs \<Longrightarrow> fleet_step d (st, cs) (snd (fail_delivery (cl_id c) (cl_token c) reason ts st), remove1 c cs)"
| die: "fleet_step d (st, cs) (st, remove1 c cs)"
| enqueue: "insert_delivery (pending_delivery i ev ts ep) st = Inr st' \<Longrightarrow> fleet_step d (st, cs) (st', cs)"
| replay: "fleet_step d (st, cs) (snd (replay_delivery i t st), cs)"
| channel: "channel_step st st' \<Longrightarrow> channel_inv st \<Longrightarrow> fleet_step d (st, cs) (st', cs)"

text \<open>\<open>DispatchOne\<close> and \<open>drain\<close> are runs of this system.\<close>

lemma claim_delivery_Inl: "claim_delivery token t ts lease st = (Inl e, st') \<Longrightarrow> st' = st"
  by (auto simp: claim_delivery_def with_tx_def split: if_splits sum.splits prod.splits)

lemma claim_of_token:
  "claim_delivery token t ts lease st = (Inr c, st') \<Longrightarrow> cl_token c = token"
  by (auto simp: claim_delivery_def with_tx_def claim_of_def split: if_splits sum.splits elim!: claim_tx_Inr)

lemma dispatch_one_fleet:
  assumes "fresh_token (de_token en) st cs"
  shows "(fleet_step d)\<^sup>*\<^sup>* (st, cs) (snd (dispatch_one v kr d en st), cs)"
proof (cases "claim_delivery (de_token en) (de_now en) (de_clock en) lease_time st")
  case (Pair r st1)
  show ?thesis
  proof (cases r)
    case (Inl e)
    then have "snd (dispatch_one v kr d en st) = st1" by (simp add: dispatch_one_def Pair)
    with fleet_step.idle [OF Pair [unfolded Inl]] show ?thesis by (simp add: r_into_rtranclp)
  next
    case (Inr c)
    have g: "fleet_step d (st, cs) (st1, c # cs)" by (rule fleet_step.grab [OF Pair [unfolded Inr] assms])
    have s: "fleet_step d (st1, c # cs) (snd (settle d en c tg q st1), cs)" for tg q
      using fleet_step.close [of c "c # cs" d st1 en tg q] by simp
    have f: "fleet_step d (st1, c # cs) (snd (fail_delivery (cl_id c) (cl_token c) reason (de_clock en) st1), cs)" for reason
      using fleet_step.give_up [of c "c # cs" d st1 reason "de_clock en"] by simp
    have "fleet_step d (st1, c # cs) (snd (dispatch_one v kr d en st), cs)"
    proof (cases "delivery_target v kr (cl_id c) (cl_endpoint c) (cl_revision c) (cl_key c) st1")
      case (Inl e)
      then show ?thesis using f by (simp add: dispatch_one_def Pair Inr)
    next
      case tg: (Inr tg)
      show ?thesis
      proof (cases "dp_senders d (tg_provider tg)")
        case None
        then show ?thesis using f tg by (simp add: dispatch_one_def Pair Inr)
      next
        case (Some send)
        show ?thesis
        proof (cases "event_payload (cl_event c) st1")
          case (Inl e)
          then show ?thesis using f tg Some by (simp add: dispatch_one_def Pair Inr)
        next
          case p: (Inr p)
          show ?thesis using s tg Some p by (simp add: dispatch_one_def Pair Inr Let_def split: prod.split) (metis snd_conv)
        qed
      qed
    qed
    with g show ?thesis by (rule converse_rtranclp_into_rtranclp [OF _ r_into_rtranclp])
  qed
qed

text \<open>The invariant of a row: pending rows are below the limit, and held claims know their row.\<close>

definition fleet_row :: "int \<Rightarrow> claim list \<Rightarrow> delivery_row \<Rightarrow> bool" where
  "fleet_row m cs x \<longleftrightarrow> (dl_status x = DPending \<longrightarrow> dl_attempts x - dl_cycle x < m)
     \<and> (\<forall>c \<in> set cs. dl_claim x = Some (cl_token c) \<longrightarrow> dl_attempts x = cl_attempts c \<and> dl_cycle x = cl_cycle c)"

definition fleet_inv :: "int \<Rightarrow> store \<times> claim list \<Rightarrow> bool" where
  "fleet_inv m s \<longleftrightarrow> delivery_inv (fst s) \<and> (\<forall>x \<in> set (deliveries (fst s)). fleet_row m (snd s) x)"

lemma fleet_row_fewer: "fleet_row m cs x \<Longrightarrow> set cs' \<subseteq> set cs \<Longrightarrow> fleet_row m cs' x"
  by (auto simp: fleet_row_def)

lemma fleet_row_unclaimed:
  "dl_claim x = None \<Longrightarrow> dl_status x = DPending \<longrightarrow> dl_attempts x - dl_cycle x < m \<Longrightarrow> fleet_row m cs x"
  by (simp add: fleet_row_def)

lemma fleet_updI:
  assumes "\<forall>x \<in> set ds. fleet_row m cs x" and "set cs' \<subseteq> set cs"
    and "\<And>x. x \<in> set ds \<Longrightarrow> p x \<Longrightarrow> fleet_row m cs' (f x)"
  shows "\<forall>x \<in> set (upd p f ds). fleet_row m cs' x"
  using assms fleet_row_fewer [OF _ assms(2)] by (auto simp: in_upd)

lemma settle_inv: "delivery_inv st \<Longrightarrow> delivery_inv (snd (settle d en c tg r st))"
proof -
  assume "delivery_inv st"
  note inv = record_attempt_inv [OF this]
  show ?thesis
    unfolding settle_def Let_def using inv delivery_step_inv
    by (simp split: if_split) (blast intro: delivery_step.intros)
qed

lemma fleet_inv_upd:
  assumes "fleet_inv m (st, cs)" and "delivery_inv st'" and "deliveries st' = upd p f (deliveries st)"
    and "set cs' \<subseteq> set cs" and "\<And>x. x \<in> set (deliveries st) \<Longrightarrow> p x \<Longrightarrow> fleet_row m cs' (f x)"
  shows "fleet_inv m (st', cs')"
  using assms fleet_updI [of "deliveries st" m cs cs' p f] by (simp add: fleet_inv_def)

lemma fleet_inv_same:
  assumes "fleet_inv m (st, cs)" and "delivery_inv st'" and "deliveries st' = deliveries st" and "set cs' \<subseteq> set cs"
  shows "fleet_inv m (st', cs')"
  using assms fleet_row_fewer [OF _ assms(4)] by (simp add: fleet_inv_def)

lemma fleet_grab:
  assumes "fleet_inv m (st, cs)" "claim_delivery token t ts lease st = (Inr c, st')" "fresh_token token st cs"
  shows "fleet_inv m (st', c # cs)"
proof -
  have inv: "delivery_inv st" and rows: "\<forall>x \<in> set (deliveries st). fleet_row m cs x"
    using assms(1) by (simp_all add: fleet_inv_def)
  have "delivery_step st st'" using delivery_step.claim [of st token t ts lease] assms(2) by simp
  then have inv': "delivery_inv st'" using delivery_step_inv inv by blast
  have "claim_tx token (rfc3339nano (t + lease)) (rfc3339nano ts) (rfc3339nano t) st = Inr (st', c)"
    using assms(2) by (auto simp: claim_delivery_def with_tx_commit split: if_splits)
  then obtain x where x: "x \<in> set (deliveries st)" "c = claim_of st token (rfc3339nano (t + lease)) x"
      and st': "st' = st\<lparr>deliveries := upd (\<lambda>y. dl_id y = dl_id x \<and> due (rfc3339nano t) y)
        (take_claim token (rfc3339nano (t + lease)) (rfc3339nano ts)) (deliveries st)\<rparr>"
    by (rule claim_tx_Inr) (use first_claimable(1) in blast)
  have "fleet_row m (c # cs) y" if "y \<in> set (deliveries st')" for y
  proof -
    obtain z where z: "z \<in> set (deliveries st)"
      "y = (if dl_id z = dl_id x \<and> due (rfc3339nano t) z
            then take_claim token (rfc3339nano (t + lease)) (rfc3339nano ts) z else z)"
      using \<open>y \<in> set (deliveries st')\<close> by (auto simp: st' in_upd)
    show ?thesis
    proof (cases "dl_id z = dl_id x \<and> due (rfc3339nano t) z")
      case True
      then have "z = x" using inv_unique [OF inv z(1) x(1)] by blast
      with True z(2) assms(3) show ?thesis
        by (auto simp: fleet_row_def take_claim_def x(2) claim_of_def fresh_token_def)
    next
      case False
      with z assms(3) rows show ?thesis by (auto simp: fleet_row_def fresh_token_def x(2) claim_of_def)
    qed
  qed
  with inv' show ?thesis by (simp add: fleet_inv_def)
qed

lemma fleet_update_or_same:
  assumes "st' = st \<or> st' = st\<lparr>deliveries := upd p f (deliveries st)\<rparr>" "delivery_inv st'" "fleet_inv m (st, cs)"
    and "set cs' \<subseteq> set cs" "\<And>x. x \<in> set (deliveries st) \<Longrightarrow> p x \<Longrightarrow> fleet_row m cs' (f x)"
  shows "fleet_inv m (st', cs')"
  using assms(1)
proof
  assume "st' = st"
  then show ?thesis using fleet_inv_same [OF assms(3,2) _ assms(4)] by simp
next
  assume "st' = st\<lparr>deliveries := upd p f (deliveries st)\<rparr>"
  then show ?thesis using fleet_inv_upd [OF assms(3,2) _ assms(4,5)] by simp
qed

lemma fleet_close:
  assumes "fleet_inv (dp_max d) (st, cs)" "c \<in> set cs"
  shows "fleet_inv (dp_max d) (snd (settle d en c tg r st), remove1 c cs)"
proof -
  have inv: "delivery_inv st" and rows: "\<forall>x \<in> set (deliveries st). fleet_row (dp_max d) cs x"
    using assms(1) by (simp_all add: fleet_inv_def)
  note inv' = settle_inv [OF inv, of d en c tg r]
  show ?thesis
  proof (cases rule: settle_cases [OF inv, of c d en tg r])
    case (1 x)
    have n: "dl_attempts x = cl_attempts c" "dl_cycle x = cl_cycle c"
      using rows 1(1,3) assms(2) by (auto simp: fleet_row_def)
    have "fleet_row (dp_max d) (remove1 c cs) (closed_row d en c r x)"
      by (rule fleet_row_unclaimed; cases "rs_outcome r")
        (auto simp: closed_row_def release_def bury_def final_outcome_def n effective_attempts_def)
    then show ?thesis using fleet_inv_upd [OF assms(1) inv' 1(5) set_remove1_subset] by blast
  next
    case 2
    show ?thesis by (rule fleet_inv_same [OF assms(1) inv' 2(2) set_remove1_subset])
  qed
qed

lemma fleet_enqueue:
  assumes "fleet_inv m (st, cs)" "1 \<le> m" "insert_delivery (pending_delivery i ev ts ep) st = Inr st'"
  shows "fleet_inv m (st', cs)"
proof -
  have "delivery_inv st'" using delivery_step_inv [OF delivery_step.enqueue [OF assms(3)]] assms(1) by (simp add: fleet_inv_def)
  moreover have "deliveries st' = deliveries st \<or> deliveries st' = deliveries st @ [pending_delivery i ev ts ep]"
    using assms(3) by (auto simp: insert_delivery_def map_sum_Inr2 insert_row_Inr split: if_splits)
  moreover have "fleet_row m cs (pending_delivery i ev ts ep)"
    using assms(2) by (intro fleet_row_unclaimed) (simp_all add: pending_delivery_def split: prod.split)
  ultimately show ?thesis using assms(1) by (auto simp: fleet_inv_def)
qed

lemma fleet_revive:
  assumes "fleet_inv m (st, cs)" "1 \<le> m"
  shows "fleet_inv m (snd (replay_delivery i t st), cs)"
proof (rule fleet_update_or_same [OF replay_update _ assms(1) subset_refl])
  have inv: "delivery_inv st" using assms(1) by (simp add: fleet_inv_def)
  show "delivery_inv (snd (replay_delivery i t st))" using delivery_step_inv [OF delivery_step.replay inv] by blast
  show "fleet_row m cs (revive (rfc3339nano t) x)" if "x \<in> set (deliveries st)" "dl_id x = i \<and> dl_status x = DDeadLetter" for x
    using inv that assms(2) by (intro fleet_row_unclaimed) (auto simp: delivery_inv_def row_ok_def revive_def)
qed

lemma fleet_step_inv:
  assumes "fleet_step d s s'" and "1 \<le> dp_max d" and "fleet_inv (dp_max d) s"
  shows "fleet_inv (dp_max d) s'"
  using assms(1,3)
proof cases
  case (grab token t ts lease st c st' cs)
  then show ?thesis using fleet_grab assms(3) by blast
next
  case (idle token t ts lease st e st' cs)
  then show ?thesis using claim_delivery_Inl [OF idle(3)] assms(3) by simp
next
  case (close c cs st en tg r)
  then show ?thesis using fleet_close assms(3) by blast
next
  case (give_up c cs st reason ts)
  then have inv: "delivery_inv st" using assms(3) by (simp add: fleet_inv_def)
  have "fleet_inv (dp_max d) (snd (fail_delivery (cl_id c) (cl_token c) reason ts st), remove1 c cs)"
  proof (rule fleet_update_or_same [OF _ _ assms(3) [unfolded give_up(1)] set_remove1_subset])
    show "snd (fail_delivery (cl_id c) (cl_token c) reason ts st) = st \<or> snd (fail_delivery (cl_id c) (cl_token c) reason ts st)
        = st\<lparr>deliveries := upd (holds_claim (cl_id c) (cl_token c)) (bury (rfc3339nano ts)) (deliveries st)\<rparr>"
      by (simp add: fail_delivery_def)
    show "delivery_inv (snd (fail_delivery (cl_id c) (cl_token c) reason ts st))"
      using delivery_step_inv [OF delivery_step.fail inv] by blast
    show "fleet_row (dp_max d) (remove1 c cs) (bury (rfc3339nano ts) x)" for x
      by (rule fleet_row_unclaimed) (simp_all add: bury_def)
  qed
  then show ?thesis by (simp add: give_up(2))
next
  case (die st cs c)
  then show ?thesis using assms(3) fleet_row_fewer [OF _ set_remove1_subset] by (auto simp: fleet_inv_def)
next
  case (enqueue i ev ts ep st st' cs)
  then show ?thesis using fleet_enqueue assms(2,3) by blast
next
  case (replay st cs i t)
  then show ?thesis using fleet_revive assms(2,3) by blast
next
  case (channel st st' cs)
  then have inv: "delivery_inv st" using assms(3) by (simp add: fleet_inv_def)
  have "delivery_inv st'" using delivery_step_inv [OF delivery_step.channel inv] channel(3,4) by blast
  moreover have "keeps st st'" using channel_step_inv channel(3,4) by blast
  then have "deliveries st' = deliveries st" by (simp add: keeps_def)
  ultimately show ?thesis using fleet_inv_same [OF assms(3) [unfolded channel(1)]] channel(2) by blast
qed

lemma fleet_steps_inv:
  "(fleet_step d)\<^sup>*\<^sup>* s s' \<Longrightarrow> 1 \<le> dp_max d \<Longrightarrow> fleet_inv (dp_max d) s \<Longrightarrow> fleet_inv (dp_max d) s'"
  by (induction rule: rtranclp_induct) (simp_all add: fleet_step_inv)

text \<open>
  Property C16. The retry limit: however workers claim, settle, give up, die and are taken over, with
  deliveries enqueued and replayed and channels changed meanwhile, a delivery that waits for another
  attempt has had fewer than \<open>maxRetries\<close> attempts since it was created or last replayed.
\<close>

theorem retries_bounded:
  assumes "(fleet_step d)\<^sup>*\<^sup>* (st, cs) (st', cs')" and "1 \<le> dp_max d" and "fleet_inv (dp_max d) (st, cs)"
  shows "\<forall>x \<in> set (deliveries st'). dl_status x = DPending \<longrightarrow> dl_attempts x - dl_cycle x < dp_max d"
  using fleet_steps_inv [OF assms] by (simp add: fleet_inv_def fleet_row_def)

theorem retries_bounded_witness:
  "filter (\<lambda>x. dl_status x = DPending \<and> 8 \<le> dl_attempts x - dl_cycle x) (deliveries (snd (dispatch_one open_vault None (new_dispatcher (\<lambda>_. None))
     \<lparr>de_now = 0, de_clock = 0, de_token = ''w2'', de_attempt = ''a''\<rparr> (demo_queue demo_end)))) = []"
proof -
  have f: "fresh_token ''w2'' (demo_queue demo_end) []"
    by (simp add: fresh_token_def demo_queue_def demo_delivery_def)
  have m: "dp_max (new_dispatcher (\<lambda>_. None)) = 8" by (simp add: new_dispatcher_def default_backoffs_def)
  have i: "fleet_inv (dp_max (new_dispatcher (\<lambda>_. None))) (demo_queue demo_end, [])"
    using demo_queue_inv [of demo_end] by (simp add: fleet_inv_def fleet_row_def demo_queue_def demo_delivery_def)
  let ?en = "\<lparr>de_now = 0, de_clock = 0, de_token = ''w2'', de_attempt = ''a''\<rparr>"
  have "(fleet_step (new_dispatcher (\<lambda>_. None)))\<^sup>*\<^sup>* (demo_queue demo_end, [])
      (snd (dispatch_one open_vault None (new_dispatcher (\<lambda>_. None)) ?en (demo_queue demo_end)), [])"
    by (rule dispatch_one_fleet) (simp add: f)
  from retries_bounded [OF this _ i] show ?thesis by (fastforce simp: m filter_empty_conv)
qed

text \<open>
  The last default backoff, fifteen minutes, is never used: the eighth attempt of a cycle is the last
  one, so a retry waits for one of the first seven.
\<close>

lemma last_backoff_unused:
  assumes "\<not> dp_max (new_dispatcher s) \<le> effective_attempts c"
  shows "backoff_at (dp_backoffs (new_dispatcher s)) (effective_attempts c) \<le> 300 * second"
proof -
  have "max 0 (effective_attempts c - 1) \<in> {0, 1, 2, 3, 4, 5, 6}"
    using assms by (auto simp: new_dispatcher_def default_backoffs_def effective_attempts_def)
  then show ?thesis
    by (auto simp: backoff_at_def Let_def new_dispatcher_def default_backoffs_def second_def)
qed

end
