(* ===== verification/Rfc3339.thy ===== *)
theory Rfc3339
  imports AcbDate TimeOrder
begin

text \<open>
  \<open>time.Parse\<close> with the layouts RFC3339 and RFC3339Nano, which read the same texts, and its round
  trip with the printed instants of \<open>GoTime\<close>.
\<close>

definition rfc_chunks :: "chunk list" where
  "rfc_chunks = ymd_chunks @ [Lit (CHR ''T'')] @ hms_chunks @ [ZoneColon]"

definition parse_rfc3339 :: "string \<Rightarrow> instant option" where
  "parse_rfc3339 s = go_parse 0 rfc_chunks s"

lemma read_nat_append_zeros: "read_nat (s @ replicate k (CHR ''0'')) = read_nat s * 10 ^ k"
proof (induction k)
  case (Suc k)
  have "s @ replicate (Suc k) (CHR ''0'') = (s @ replicate k (CHR ''0'')) @ [CHR ''0'']"
    by (simp add: replicate_append_same)
  then show ?case using Suc by (simp only: read_nat_snoc) (simp add: digit_val_def)
qed simp

lemma strip_zeros: "\<exists>k. s = rev (dropWhile (\<lambda>c. c = z) (rev s)) @ replicate k z"
proof -
  have "takeWhile (\<lambda>c. c = z) (rev s) = replicate (length (takeWhile (\<lambda>c. c = z) (rev s))) z"
    by (rule replicate_length_same [symmetric]) (blast dest: set_takeWhileD)
  then obtain k where "takeWhile (\<lambda>c. c = z) (rev s) = replicate k z" by blast
  then have "rev s = replicate k z @ dropWhile (\<lambda>c. c = z) (rev s)" by (metis takeWhile_dropWhile_id)
  then have "s = rev (dropWhile (\<lambda>c. c = z) (rev s)) @ replicate k z" by (metis rev_append rev_replicate rev_rev_ident)
  then show ?thesis by blast
qed

lemma get_fraction_frac:
  assumes "0 \<le> ns" "ns < second"
  shows "get_fraction (fmt_frac ns @ ''Z'') = (ns, ''Z'')"
proof (cases "ns = 0")
  case True
  then show ?thesis by (simp add: fmt_frac_def get_fraction_def)
next
  case False
  define ds where "ds = rev (dropWhile (\<lambda>c. c = CHR ''0'') (rev (pad_int 9 ns)))"
  obtain k where k: "pad_int 9 ns = ds @ replicate k (CHR ''0'')"
    using strip_zeros [of "pad_int 9 ns" "CHR ''0''"] unfolding ds_def by blast
  have p: "length (pad_int 9 ns) = 9" "list_all is_digit (pad_int 9 ns)" "int (read_nat (pad_int 9 ns)) = ns"
    using pad_int_pos [of ns 9] assms by (simp_all add: second_def)
  have d: "list_all is_digit ds" "length ds + k = 9" using p(1,2) by (simp_all add: k)
  have r: "int (read_nat ds) * 10 ^ (9 - length ds) = ns"
    using p(3) d(2) by (simp add: k read_nat_append_zeros) (metis add_diff_cancel_left')
  have "ds \<noteq> []" using r False by auto
  then obtain a x where a: "ds = a # x" "is_digit a" using d(1) by (cases ds) auto
  have t: "takeWhile is_digit (ds @ ''Z'') = ds"
    using d(1) by (simp add: takeWhile_append list_all_iff is_digit_def)
  have "fmt_frac ns = CHR ''.'' # ds" using False by (simp add: fmt_frac_def ds_def)
  then have "get_fraction (fmt_frac ns @ ''Z'') =
      (let n = min 9 (length ds) in (int (read_nat (take n ds)) * 10 ^ (9 - n), ''Z''))"
    using a(2) t unfolding a(1) by (simp add: get_fraction_def Let_def)
  then show ?thesis using d(2) r by (simp add: Let_def)
qed

lemma scan_hms_frac:
  assumes "0 \<le> h" "h < 24" "0 \<le> mi" "mi < 60" "0 \<le> se" "se < 60" "0 \<le> ns" "ns < second"
  shows "go_scan (hms_chunks @ [ZoneColon]) (pad_int 2 h @ '':'' @ pad_int 2 mi @ '':'' @ pad_int 2 se @ fmt_frac ns @ ''Z'') c =
    Some (c\<lparr>ck_hour := h, ck_min := mi, ck_sec := se, ck_nsec := ns, ck_zone := Some 0\<rparr>)"
  using assms get_fraction_frac [OF assms(7,8)]
  by (simp add: hms_chunks_def hm_chunks_def ranged_def get_zone_def)

lemma scan_ymd_day:
  assumes "days_of 0 1 1 \<le> n" "n \<le> days_of 9999 12 31" "civil n = (y, m, d)"
  shows "go_scan (ymd_chunks @ cs) (fmt_day n @ r) c = go_scan cs r (c\<lparr>ck_year := y, ck_month := m, ck_day := d\<rparr>)"
  using civil_year_range [OF assms] scan_ymd [of y m d cs r c] by (simp add: fmt_day_def assms(3))

text \<open>Printing and parsing an instant of the years 0 to 9999 gives the instant back.\<close>

lemma parse_rfc3339nano:
  assumes "in_years t"
  shows "parse_rfc3339 (rfc3339nano t) = Some t"
proof -
  obtain y m d where c: "civil (day_of t) = (y, m, d)" by (metis prod_cases3)
  define k where "k = sec_of_day t"
  have s: "0 < second" "day_ns = second * 86400" by (simp_all add: day_ns_def hour_def minute_def second_def)
  have k: "0 \<le> k" "k < 86400" unfolding k_def sec_split by simp_all
  have ns: "0 \<le> t mod second" "t mod second < second" using s(1) by simp_all
  note kp = fmt_clock_parts [OF k]
  let ?c = "clock0\<lparr>ck_year := y, ck_month := m, ck_day := d, ck_hour := k div 3600,
      ck_min := k mod 3600 div 60, ck_sec := k mod 60, ck_nsec := t mod second, ck_zone := Some 0\<rparr>"
  have "go_scan rfc_chunks (rfc3339nano t) clock0 = Some ?c"
    using assms scan_hms_frac [OF kp(1-6) ns]
    unfolding rfc_chunks_def rfc3339nano_def fmt_sec_def k_def [symmetric] append_assoc in_years_def fmt_clock_def
    by (simp add: scan_ymd_day [OF _ _ c])
  moreover have "clock_instant 0 ?c = Some t"
  proof -
    have "day_of t * day_ns + k * second + t mod second = t"
    proof -
      have "t div second = day_of t * 86400 + k" unfolding k_def sec_split by simp
      then have "(day_of t * 86400 + k) * second + t mod second = t" by (metis div_mult_mod_eq)
      then show ?thesis by (simp add: s(2) algebra_simps)
    qed
    moreover have "k div 3600 * hour + k mod 3600 div 60 * minute + k mod 60 * second = k * second"
      using kp(7) by (simp add: time_units)
    ultimately show ?thesis using civil_valid [OF c] by (simp add: clock_instant_def clock0_def)
  qed
  ultimately show ?thesis by (simp add: parse_rfc3339_def go_parse_def)
qed

end
