(* ===== verification/Settings.thy ===== *)
theory Settings
  imports Channels Rfc3339
begin

text \<open>
  The settings an operator edits and the small tables beside them: \<open>monitor_settings.go\<close>,
  \<open>voice_settings.go\<close>, \<open>payment_qr.go\<close>, \<open>checkpoints.go\<close> and \<open>coverage.go\<close> of
  \<open>src/internal/storage\<close>. Monitor settings, voice settings and channels are saved under the
  revision they were read at; the contract of such a save is the locale \<open>revisioned\<close>.
\<close>

section \<open>Monitor settings\<close>

text \<open>The two JSON columns are kept as the values that they encode.\<close>

definition get_monitor_settings :: "store \<Rightarrow> monitor_settings" where
  "get_monitor_settings st = (case monitor_row st of None \<Rightarrow> default_monitor_settings | Some m \<Rightarrow> m)"

definition save_monitor_settings ::
  "(string \<Rightarrow> location result) \<Rightarrow> instant \<Rightarrow> monitor_settings \<Rightarrow> store \<Rightarrow> monitor_settings result \<times> store" where
  "save_monitor_settings load t settings0 st =
     (case validate_settings load settings0 of
        Inl e \<Rightarrow> (Inl e, st)
      | Inr settings \<Rightarrow>
          (let saved = settings\<lparr>ms_revision := wrap64 (ms_revision settings + 1), ms_updated := rfc3339nano t\<rparr>
           in with_tx st (\<lambda>s.
                case monitor_row s of
                  Some cur \<Rightarrow>
                    if ms_revision cur \<noteq> ms_revision settings then Inl ErrSettingsConflict
                    else Inr (s\<lparr>monitor_row := Some saved\<rparr>, saved)
                | None \<Rightarrow> Inr (s\<lparr>monitor_row := Some saved\<rparr>, saved))))"

section \<open>Voice settings\<close>

definition default_voice_settings :: voice_settings where
  "default_voice_settings =
     \<lparr>vo_revision = 1, vo_mode = ''ONLINE_AUTO'', vo_voice = ''vi-VN-HoaiMyNeural'', vo_fallback = True,
      vo_updated = ''2026-09-12T00:00:00Z''\<rparr>"

definition get_voice_settings :: "store \<Rightarrow> voice_settings" where
  "get_voice_settings st = (case voice_row st of None \<Rightarrow> default_voice_settings | Some v \<Rightarrow> v)"

definition save_voice_settings :: "instant \<Rightarrow> voice_settings \<Rightarrow> store \<Rightarrow> voice_settings result \<times> store" where
  "save_voice_settings t settings st =
     (if vo_mode settings \<noteq> ''ONLINE_AUTO'' \<and> vo_mode settings \<noteq> ''EDGE_ONLY'' \<and> vo_mode settings \<noteq> ''BROWSER_ONLY''
      then (Inl (ErrMsg ''invalid providerMode: must be ONLINE_AUTO, EDGE_ONLY, or BROWSER_ONLY''), st)
      else if vo_voice settings \<noteq> ''vi-VN-HoaiMyNeural'' \<and> vo_voice settings \<noteq> ''vi-VN-NamMinhNeural''
      then (Inl (ErrMsg ''invalid edgeVoice: must be vi-VN-HoaiMyNeural or vi-VN-NamMinhNeural''), st)
      else (let saved = settings\<lparr>vo_revision := wrap64 (vo_revision settings + 1), vo_updated := rfc3339nano t\<rparr>
            in with_tx st (\<lambda>s.
                 case voice_row s of
                   None \<Rightarrow> Inr (s\<lparr>voice_row := Some saved\<rparr>, saved)
                 | Some cur \<Rightarrow>
                     if vo_revision cur \<noteq> vo_revision settings then Inl ErrVoiceSettingsConflict
                     else Inr (s\<lparr>voice_row := Some saved\<rparr>, saved))))"

section \<open>Payment QR\<close>

text \<open>An empty connection identifier stands for the connection.\<close>

definition qr_connection :: "string \<Rightarrow> store \<Rightarrow> string result" where
  "qr_connection i st = (if i = [] then map_sum id c_id (get_connection st) else Inr i)"

definition get_payment_qr :: "string \<Rightarrow> store \<Rightarrow> qr_row option result" where
  "get_payment_qr i st =
     map_sum id (\<lambda>c. sel1 (\<lambda>q. qr_conn q = c) (qr_settings st)) (qr_connection i st)"

definition or_default :: "string \<Rightarrow> string \<Rightarrow> string" where
  "or_default d s = (if s = [] then d else s)"

text \<open>On an update the row keeps identifier and creation time; the value returned has the creation
  time the caller passed.\<close>

definition save_payment_qr :: "string \<Rightarrow> instant \<Rightarrow> qr_row \<Rightarrow> store \<Rightarrow> qr_row result \<times> store" where
  "save_payment_qr new_qr t q0 st =
     (case qr_connection (qr_conn q0) st of
        Inl e \<Rightarrow> (Inl e, st)
      | Inr c \<Rightarrow>
          if qr_account q0 = [] \<or> qr_name q0 = []
          then (Inl (ErrMsg ''account number and account name are required''), st)
          else (let q = q0\<lparr>qr_conn := c, qr_bin := or_default ''970416'' (qr_bin q0),
                           qr_bank := or_default ''ACB'' (qr_bank q0),
                           qr_provider := or_default ''UPLOAD'' (qr_provider q0)\<rparr>;
                    ts = rfc3339nano t
                in with_tx st (\<lambda>s.
                     case sel1 (\<lambda>x. qr_conn x = c) (qr_settings s) of
                       Some old \<Rightarrow>
                         (let r = q\<lparr>qr_id := qr_id old, qr_revision := wrap64 (qr_revision old + 1), qr_updated := ts\<rparr>
                          in Inr (s\<lparr>qr_settings := upd (\<lambda>x. qr_id x = qr_id old)
                                      (\<lambda>x. r\<lparr>qr_id := qr_id x, qr_conn := qr_conn x, qr_created := qr_created x\<rparr>)
                                      (qr_settings s)\<rparr>, r))
                     | None \<Rightarrow>
                         (let r = q\<lparr>qr_id := new_qr, qr_revision := 1, qr_updated := ts\<rparr>
                          in map_sum id (\<lambda>rows. (s\<lparr>qr_settings := rows\<rparr>, r))
                               (insert_row ''payment_qr_settings'' (\<lambda>x. qr_id x = new_qr \<or> qr_conn x = c)
                                  (has_connection s c) (r\<lparr>qr_created := ts\<rparr>) (qr_settings s))))))"

definition delete_payment_qr :: "string \<Rightarrow> store \<Rightarrow> err option \<times> store" where
  "delete_payment_qr i st =
     (case qr_connection i st of
        Inl e \<Rightarrow> (Some e, st)
      | Inr c \<Rightarrow> (None, st\<lparr>qr_settings := del (\<lambda>q. qr_conn q = c) (qr_settings st)\<rparr>))"

section \<open>Checkpoints\<close>

definition get_checkpoint :: "string \<Rightarrow> store \<Rightarrow> checkpoint_row option" where
  "get_checkpoint c st = sel1 (\<lambda>p. cp_conn p = c) (checkpoints st)"

definition save_checkpoint :: "instant \<Rightarrow> checkpoint_row \<Rightarrow> store \<Rightarrow> err option \<times> store" where
  "save_checkpoint t p0 st =
     (let p = p0\<lparr>cp_updated := rfc3339nano t\<rparr>
      in if list_ex (\<lambda>x. cp_conn x = cp_conn p) (checkpoints st)
         then (None, st\<lparr>checkpoints := upd (\<lambda>x. cp_conn x = cp_conn p) (\<lambda>_. p) (checkpoints st)\<rparr>)
         else (case insert_row ''checkpoints.connection_id'' (\<lambda>_. False) (has_connection st (cp_conn p)) p (checkpoints st) of
                 Inl e \<Rightarrow> (Some e, st) | Inr rows \<Rightarrow> (None, st\<lparr>checkpoints := rows\<rparr>)))"

section \<open>Coverage\<close>

definition coverage_ttl :: "instant \<Rightarrow> int \<Rightarrow> int" where
  "coverage_ttl now d =
     (let today = day_of (now + default_offset * second)
      in if fmt_day d = fmt_day today then 30 * second
         else if fmt_day d = fmt_day (today - 1) then 2 * hour else 24 * hour)"

definition day_covered :: "string \<Rightarrow> instant \<Rightarrow> store \<Rightarrow> int \<Rightarrow> bool" where
  "day_covered conn now st d =
     (case sel1 (\<lambda>r. cv_conn r = conn \<and> cv_day r = fmt_day d) (coverage st) of
        None \<Rightarrow> False
      | Some r \<Rightarrow>
          if cv_status r \<noteq> ''COMPLETE'' then False
          else (case parse_rfc3339 (cv_sync r) of
                  None \<Rightarrow> False
                | Some s \<Rightarrow> \<not> now - s > coverage_ttl now d))"

fun check_days :: "string \<Rightarrow> instant \<Rightarrow> store \<Rightarrow> int list \<Rightarrow> bool" where
  "check_days conn now st [] = True"
| "check_days conn now st (d # ds) = (if \<not> day_covered conn now st d then False else check_days conn now st ds)"

definition check_range_coverage :: "string \<Rightarrow> string \<Rightarrow> string \<Rightarrow> instant \<Rightarrow> store \<Rightarrow> bool result" where
  "check_range_coverage conn from_day to_day now st =
     (case parse_day from_day of
        None \<Rightarrow> Inl (ErrMsg ''parsing time'')
      | Some a \<Rightarrow>
          (case parse_day to_day of
             None \<Rightarrow> Inl (ErrMsg ''parsing time'')
           | Some b \<Rightarrow>
               if a > b then Inl (ErrMsg ''from date must not be after to date'')
               else Inr (check_days conn now st [a..b])))"

text \<open>One row of \<open>RecordCoveragePerDay\<close>; the map of days is a list with an identifier for each.\<close>

definition upsert_coverage :: "string \<Rightarrow> string \<Rightarrow> string \<times> string \<times> int \<Rightarrow> store \<Rightarrow> store result" where
  "upsert_coverage conn ts x s =
     (case x of (i, day, n) \<Rightarrow>
        if list_ex (\<lambda>r. cv_conn r = conn \<and> cv_day r = day) (coverage s)
        then Inr (s\<lparr>coverage := upd (\<lambda>r. cv_conn r = conn \<and> cv_day r = day)
                     (\<lambda>r. r\<lparr>cv_status := ''COMPLETE'', cv_sync := ts, cv_rows := n\<rparr>) (coverage s)\<rparr>)
        else map_sum id (\<lambda>rows. s\<lparr>coverage := rows\<rparr>)
               (insert_row ''history_coverage.id'' (\<lambda>r. cv_id r = i) (has_connection s conn)
                 \<lparr>cv_id = i, cv_conn = conn, cv_day = day, cv_status = ''COMPLETE'', cv_sync = ts, cv_rows = n\<rparr>
                 (coverage s)))"

fun upsert_days :: "string \<Rightarrow> string \<Rightarrow> (string \<times> string \<times> int) list \<Rightarrow> store \<Rightarrow> store result" where
  "upsert_days conn ts [] s = Inr s"
| "upsert_days conn ts (x # xs) s = rbind (upsert_coverage conn ts x s) (upsert_days conn ts xs)"

definition record_coverage_per_day ::
  "string \<Rightarrow> instant \<Rightarrow> (string \<times> string \<times> int) list \<Rightarrow> store \<Rightarrow> err option \<times> store" where
  "record_coverage_per_day conn t xs st =
     (if conn = [] \<or> xs = [] then (None, st)
      else (case with_tx st (\<lambda>s. map_sum id (\<lambda>s1. (s1, ())) (upsert_days conn (rfc3339nano t) xs s)) of
              (Inl e, st') \<Rightarrow> (Some e, st') | (Inr _, st') \<Rightarrow> (None, st')))"

text \<open>\<open>RecordCoverage\<close>: the same count for each of the days, given with their identifiers.\<close>

definition record_coverage ::
  "string \<Rightarrow> instant \<Rightarrow> (string \<times> string) list \<Rightarrow> int \<Rightarrow> store \<Rightarrow> err option \<times> store" where
  "record_coverage conn t days n st =
     (if days = [] then (None, st)
      else record_coverage_per_day conn t (map (\<lambda>(i, d). (i, d, n)) days) st)"

end
