(* ===== verification/SettingsLife.thy ===== *)
theory SettingsLife
  imports Settings ChannelProps
begin

text \<open>
  The contract of a save under a revision, as a locale with its instances (monitor settings, voice
  settings, channels); that everything stored by the settings operations is well formed; and that
  recorded coverage is found again while it is fresh.
\<close>

section \<open>Saves\<close>

text \<open>Commands run one after the other: those accepted, and the state they lead to.\<close>

fun run_saves :: "('c \<Rightarrow> 's \<Rightarrow> 'v result \<times> 's) \<Rightarrow> 'c list \<Rightarrow> 's \<Rightarrow> 'c list \<times> 's" where
  "run_saves save [] s = ([], s)"
| "run_saves save (c # cs) s =
     (case save c s of
        (Inl _, s1) \<Rightarrow> run_saves save cs s1
      | (Inr _, s1) \<Rightarrow> (case run_saves save cs s1 of (acc, s2) \<Rightarrow> (c # acc, s2)))"

locale atomic_save =
  fixes save :: "'c \<Rightarrow> 's \<Rightarrow> 'v result \<times> 's"
  assumes refused: "save c s = (Inl e, s') \<Longrightarrow> s' = s"
begin

text \<open>Refused commands leave no trace: the accepted ones alone lead to the same state.\<close>

lemma accepted_suffice: "run_saves save cs s = (acc, s') \<Longrightarrow> run_saves save acc s = (acc, s')"
proof (induction cs arbitrary: s acc)
  case (Cons c cs)
  show ?case
  proof (cases "save c s")
    case (Pair r s1)
    show ?thesis
    proof (cases r)
      case (Inl e)
      then show ?thesis using Cons Pair refused [of c s e s1] by simp
    next
      case (Inr v)
      obtain acc1 where "run_saves save cs s1 = (acc1, s')" "acc = c # acc1"
        using Cons(2) Pair Inr by (cases "run_saves save cs s1") simp
      then show ?thesis using Cons(1) Pair Inr by simp
    qed
  qed
qed simp

lemma accepted_subset: "set (fst (run_saves save cs s)) \<subseteq> set cs"
proof (induction cs arbitrary: s)
  case (Cons c cs)
  obtain r s1 where c: "save c s = (r, s1)" by (cases "save c s")
  have "set (fst (run_saves save cs s1)) \<subseteq> set cs" by (rule Cons)
  then show ?case using c by (cases r) (auto split: prod.split)
qed simp

end

text \<open>A save names the revision it was read at, and is accepted at that revision only.\<close>

locale revisioned = atomic_save +
  fixes rev :: "'b \<Rightarrow> int option" and want :: "'a \<Rightarrow> int" and bump :: "int \<Rightarrow> int"
  assumes accepted: "save c s = (Inr v, s') \<Longrightarrow> rev s = Some r \<Longrightarrow> want c = r \<and> rev s' = Some (bump r)"
begin

text \<open>No lost update: each accepted save was read at the state that its predecessor left.\<close>

lemma chain:
  "run_saves save cs s = (acc, s') \<Longrightarrow> rev s = Some r \<Longrightarrow>
   map want acc = map (\<lambda>i. (bump ^^ i) r) [0..<length acc] \<and> rev s' = Some ((bump ^^ length acc) r)"
proof (induction cs arbitrary: s acc r)
  case (Cons c cs)
  show ?case
  proof (cases "save c s")
    case (Pair q s1)
    show ?thesis
    proof (cases q)
      case (Inl e)
      then show ?thesis using Cons Pair refused [of c s e s1] by simp
    next
      case (Inr v)
      note ok = accepted [OF Pair [unfolded Inr] Cons(3)]
      obtain acc1 where a: "run_saves save cs s1 = (acc1, s')" "acc = c # acc1"
        using Cons(2) Pair Inr by (cases "run_saves save cs s1") simp
      have "map want acc1 = map (\<lambda>i. (bump ^^ i) (bump r)) [0..<length acc1] \<and>
          rev s' = Some ((bump ^^ length acc1) (bump r))"
        by (rule Cons(1) [OF a(1)]) (use ok in blast)
      moreover have "map (\<lambda>i. (bump ^^ i) r) [0..<Suc n] = r # map (\<lambda>i. (bump ^^ i) (bump r)) [0..<n]" for n
        by (simp add: map_upt_Suc funpow_Suc_right del: funpow.simps upt_Suc)
      ultimately show ?thesis using ok a(2) by (simp add: funpow_Suc_right del: funpow.simps upt_Suc)
    qed
  qed
qed simp

text \<open>Two saves read at the same revision are not both accepted.\<close>

lemma one_wins:
  assumes "save c s = (Inr v, s1)" "rev s = Some r" "want c' = want c" "bump r \<noteq> r"
  shows "isl (fst (save c' s1))"
proof (rule ccontr)
  assume "\<not> isl (fst (save c' s1))"
  then obtain v' s2 where "save c' s1 = (Inr v', s2)" by (cases "save c' s1"; cases "fst (save c' s1)") auto
  then show False using accepted [OF assms(1,2)] accepted [of c' s1 v' s2 "bump r"] assms(3,4) by simp
qed

end

definition next64 :: "int \<Rightarrow> int" where "next64 r = wrap64 (r + 1)"

lemma next64_pow: "- (2 ^ 63) \<le> r \<Longrightarrow> r + int n < 2 ^ 63 \<Longrightarrow> (next64 ^^ n) r = r + int n"
proof (induction n)
  case (Suc n)
  then show ?case using wrap64_id [of "r + int n + 1"] by (simp add: next64_def)
qed simp

lemma save_monitor_Inr:
  assumes "save_monitor_settings load t settings st = (Inr v, st')"
  shows "st' = st\<lparr>monitor_row := Some v\<rparr>" "ms_revision v = next64 (ms_revision settings)"
    "\<forall>cur. monitor_row st = Some cur \<longrightarrow> ms_revision settings = ms_revision cur"
    "\<exists>s. validate_settings load settings = Inr s \<and> v = s\<lparr>ms_revision := ms_revision v, ms_updated := rfc3339nano t\<rparr>"
proof -
  obtain s where s: "validate_settings load settings = Inr s"
    using assms by (cases "validate_settings load settings") (simp_all add: save_monitor_settings_def)
  have r: "ms_revision s = ms_revision settings"
    using s by (auto simp: validate_settings_def Let_def split: sum.splits option.splits if_splits)
  show "st' = st\<lparr>monitor_row := Some v\<rparr>" "ms_revision v = next64 (ms_revision settings)"
    "\<forall>cur. monitor_row st = Some cur \<longrightarrow> ms_revision settings = ms_revision cur"
    "\<exists>s. validate_settings load settings = Inr s \<and> v = s\<lparr>ms_revision := ms_revision v, ms_updated := rfc3339nano t\<rparr>"
    using assms s r
    by (cases "monitor_row st";
        auto simp: save_monitor_settings_def Let_def with_tx_def next64_def split: if_splits)+
qed

lemma save_monitor_Inl: "save_monitor_settings load t settings st = (Inl e, st') \<Longrightarrow> st' = st"
  by (auto simp: save_monitor_settings_def Let_def with_tx_def split: sum.splits option.splits if_splits prod.splits)

interpretation monitor_saves:
  revisioned "\<lambda>(t, settings). save_monitor_settings load t settings"
    "\<lambda>st. map_option ms_revision (monitor_row st)" "\<lambda>(t, settings). ms_revision settings" next64 for load
proof (unfold_locales, goal_cases)
  case (1 c s e s')
  then show ?case using save_monitor_Inl by (cases c) auto
next
  case (2 c s v s' r)
  obtain t settings where "c = (t, settings)" by (cases c)
  with 2 show ?case using save_monitor_Inr(1-3) [of load t settings s v s'] by auto
qed

lemma save_voice_Inr:
  assumes "save_voice_settings t settings st = (Inr v, st')"
  shows "st' = st\<lparr>voice_row := Some v\<rparr>" "vo_revision v = next64 (vo_revision settings)"
    "\<forall>cur. voice_row st = Some cur \<longrightarrow> vo_revision settings = vo_revision cur"
    "vo_mode v = vo_mode settings" "vo_voice v = vo_voice settings"
    "vo_mode settings \<in> {''ONLINE_AUTO'', ''EDGE_ONLY'', ''BROWSER_ONLY''}"
    "vo_voice settings \<in> {''vi-VN-HoaiMyNeural'', ''vi-VN-NamMinhNeural''}"
  using assms
  by (cases "voice_row st"; auto simp: save_voice_settings_def Let_def with_tx_def next64_def split: if_splits)+

lemma save_voice_Inl: "save_voice_settings t settings st = (Inl e, st') \<Longrightarrow> st' = st"
  by (auto simp: save_voice_settings_def Let_def with_tx_def split: sum.splits option.splits if_splits prod.splits)

interpretation voice_saves:
  revisioned "\<lambda>(t, settings). save_voice_settings t settings"
    "\<lambda>st. map_option vo_revision (voice_row st)" "\<lambda>(t, settings). vo_revision settings" next64
proof (unfold_locales, goal_cases)
  case (1 c s e s')
  then show ?case using save_voice_Inl by (cases c) auto
next
  case (2 c s v s' r)
  obtain t settings where "c = (t, settings)" by (cases c)
  with 2 show ?case using save_voice_Inr(1-3) [of t settings s v s'] by auto
qed

lemma sel1_upd: "(\<And>x. p x \<Longrightarrow> p (f x)) \<Longrightarrow> sel1 p (upd p f t) = map_option f (sel1 p t)"
  by (induction t) (auto simp: sel1_def)

lemma sel1_snoc: "\<forall>x \<in> set t. \<not> p x \<Longrightarrow> p y \<Longrightarrow> sel1 p (t @ [y]) = Some y"
  by (induction t) (auto simp: sel1_def)

lemma update_channel_Inr:
  assumes "update_tx nl t i expected name url cfg s = Inr (s', u)"
  shows "map_option ep_revision (find_endpoint s i) = Some expected"
    "map_option ep_revision (find_endpoint s' i) = Some (expected + 1)" "\<exists>c. channel_by_id i s' = Inr c"
proof -
  obtain e where e: "find_endpoint s i = Some e" "ep_revision e = expected"
    using assms by (auto simp: update_tx_def split: option.splits if_splits)
  then show "map_option ep_revision (find_endpoint s i) = Some expected" by simp
  obtain e' w where w: "vs_key w = (i, expected + 1)" "\<forall>x \<in> set (versions s). vs_key x \<noteq> vs_key w"
    and s': "s' = s\<lparr>versions := versions s @ [w], endpoints := upd (\<lambda>x. ep_id x = i)
       (\<lambda>x. x\<lparr>ep_name := name, ep_revision := expected + 1, ep_updated := rfc3339nano t\<rparr>) (endpoints s)\<rparr>"
    by (rule update_tx_Inr [OF assms])
  have e': "find_endpoint s' i = Some (e\<lparr>ep_name := name, ep_revision := expected + 1, ep_updated := rfc3339nano t\<rparr>)"
    using e(1) by (simp add: s' find_endpoint_def sel1_upd)
  then show "map_option ep_revision (find_endpoint s' i) = Some (expected + 1)" by simp
  have "version_at s' i (expected + 1) = Some w"
    unfolding version_at_def s' using w by (simp, intro sel1_snoc) (auto simp: vs_key_def)
  then show "\<exists>c. channel_by_id i s' = Inr c" by (simp add: channel_by_id_def e')
qed

lemma update_channel_cases:
  assumes "update_channel nl t i expected name url cfg s = (r, s')"
  obtains (refused) "s' = s" "isl r"
    | (commit) u where "update_tx nl t i expected (trim_space name) url cfg s = Inr (s', u)" "r = channel_by_id i s'"
  using assms by (auto simp: update_channel_def Let_def with_tx_def split: if_splits sum.splits prod.splits)

interpretation channel_saves:
  revisioned "\<lambda>(t, expected, name, url, cfg). update_channel nl t i expected name url cfg"
    "\<lambda>st. map_option ep_revision (find_endpoint st i)" "\<lambda>(t, expected, name, url, cfg). expected" "\<lambda>r. r + 1" for nl i
proof (unfold_locales, goal_cases)
  case (1 c s e s')
  obtain t expected name url cfg where c: "c = (t, expected, name, url, cfg)" by (metis prod_cases5)
  from 1 have "update_channel nl t i expected name url cfg s = (Inl e, s')" by (simp add: c)
  then show ?case
  proof (cases rule: update_channel_cases)
    case (commit u)
    then show ?thesis using update_channel_Inr(3) [OF commit(1)] by auto
  qed
next
  case (2 c s v s' r)
  obtain t expected name url cfg where c: "c = (t, expected, name, url, cfg)" by (metis prod_cases5)
  from 2 have "update_channel nl t i expected name url cfg s = (Inr v, s')" by (simp add: c)
  then show ?case
  proof (cases rule: update_channel_cases)
    case (commit u)
    then show ?thesis using update_channel_Inr(1,2) [OF commit(1)] 2(2) by (simp add: c)
  qed simp
qed


text \<open>Without a row the first save is accepted at any revision, also a stale one.\<close>

lemma first_save_any_revision:
  "\<not> isl (fst (save_monitor_settings (\<lambda>_. Inr default_location) 0 (default_monitor_settings\<lparr>ms_revision := 41\<rparr>) empty_store))"
  by code_simp

definition demo_load :: "string \<Rightarrow> location result" where "demo_load z = Inr default_location"

definition demo_configured :: store where
  "demo_configured = empty_store\<lparr>monitor_row := Some default_monitor_settings\<rparr>"

definition demo_edits :: "(instant \<times> monitor_settings) list" where
  "demo_edits = [(0, default_monitor_settings), (1, default_monitor_settings\<lparr>ms_enabled := False\<rparr>)]"

lemma demo_edits_accepted:
  "fst (run_saves (\<lambda>(t, settings). save_monitor_settings demo_load t settings) demo_edits demo_configured)
     = [(0, default_monitor_settings)]"
  by code_simp


section \<open>Well-formed settings\<close>

definition bark_ok :: "bark_config \<Rightarrow> bool" where
  "bark_ok b \<longleftrightarrow> bk_group b \<noteq> [] \<and> length (bk_group b) \<le> 64 \<and> bark_level (bk_level b)
     \<and> bk_sound b \<noteq> [] \<and> length (bk_sound b) \<le> 64"

definition voice_ok :: "voice_settings \<Rightarrow> bool" where
  "voice_ok v \<longleftrightarrow> vo_mode v \<in> {''ONLINE_AUTO'', ''EDGE_ONLY'', ''BROWSER_ONLY''}
     \<and> vo_voice v \<in> {''vi-VN-HoaiMyNeural'', ''vi-VN-NamMinhNeural''}"

definition qr_ok :: "qr_row \<Rightarrow> bool" where
  "qr_ok q \<longleftrightarrow> qr_account q \<noteq> [] \<and> qr_name q \<noteq> [] \<and> qr_bin q \<noteq> [] \<and> qr_bank q \<noteq> [] \<and> qr_provider q \<noteq> []"

definition settings_wf :: "(string \<Rightarrow> location result) \<Rightarrow> store \<Rightarrow> bool" where
  "settings_wf load st \<longleftrightarrow>
     (\<forall>m. monitor_row st = Some m \<longrightarrow> validate_settings load m = Inr m) \<and>
     (\<forall>v. voice_row st = Some v \<longrightarrow> voice_ok v) \<and>
     (\<forall>q \<in> set (qr_settings st). qr_ok q) \<and> distinct (map qr_conn (qr_settings st)) \<and>
     (\<forall>w \<in> set (versions st). \<forall>b. vs_config w = Some b \<longrightarrow> bark_ok b)"

inductive settings_step :: "(string \<Rightarrow> location result) \<Rightarrow> store \<Rightarrow> store \<Rightarrow> bool" for load where
  monitor: "settings_step load st (snd (save_monitor_settings load t m st))"
| voice: "settings_step load st (snd (save_voice_settings t v st))"
| qr: "settings_step load st (snd (save_payment_qr i t q st))"
| no_qr: "settings_step load st (snd (delete_payment_qr c st))"
| bark: "settings_step load st (snd (create_bark_channel v kr nonce i t name key cfg st))"
| channel: "settings_step load st (snd (update_channel nl t i expected name url cfg st))"

lemma validate_idem:
  "validate_settings load m = Inr s \<Longrightarrow>
   validate_settings load (s\<lparr>ms_revision := r, ms_updated := u\<rparr>) = Inr (s\<lparr>ms_revision := r, ms_updated := u\<rparr>)"
  by (auto simp: validate_settings_def Let_def default_timezone_def split: sum.splits option.splits if_splits)

lemma normalize_bark_ok: "normalize_bark cfg = Inr b \<Longrightarrow> bark_ok b"
  by (auto simp: normalize_bark_def Let_def bark_ok_def default_bark_def bark_level_def split: option.splits if_splits)

lemma wf_versions:
  assumes "settings_wf load st" and "monitor_row st' = monitor_row st" and "voice_row st' = voice_row st"
    and "qr_settings st' = qr_settings st" and "set (versions st') \<subseteq> insert w (set (versions st))"
    and "\<forall>b. vs_config w = Some b \<longrightarrow> bark_ok b"
  shows "settings_wf load st'"
  using assms(1,6) subsetD [OF assms(5)] unfolding settings_wf_def assms(2-4) by (metis insertE)

lemma wf_bark:
  assumes "settings_wf load st"
  shows "settings_wf load (snd (create_bark_channel v kr nonce i t name key cfg st))"
proof (cases "snd (create_bark_channel v kr nonce i t name key cfg st) = st")
  case False
  then obtain e w c u norm where ins: "insert_channel e w c st = Inr (snd (create_bark_channel v kr nonce i t name key cfg st), u)"
    and n: "vs_config w = Some norm" "normalize_bark cfg = Inr norm"
    by (auto simp: create_bark_channel_def Let_def with_tx_def rbind_Inr_iff map_sum_Inr2
        split: sum.splits if_splits prod.splits option.splits)
  show ?thesis
    using insert_channel_Inr [OF ins] n normalize_bark_ok
    by (intro wf_versions [OF assms, of _ w]) (auto simp: added_def)
qed (use assms in simp)

lemma update_tx_version:
  assumes "update_tx nl t i expected name url cfg s = Inr (s', u)"
  shows "\<exists>w. versions s' = versions s @ [w] \<and> (\<forall>b. vs_config w = Some b \<longrightarrow> bark_ok b)
    \<and> monitor_row s' = monitor_row s \<and> voice_row s' = voice_row s \<and> qr_settings s' = qr_settings s"
proof -
  obtain e where f: "find_endpoint s i = Some e" "ep_revision e = expected"
    using assms by (cases "find_endpoint s i") (auto simp: update_tx_def split: if_splits)
  obtain uu c where e: "update_values nl (ep_provider e) url cfg = Inr (uu, c)"
    using assms f by (cases "update_values nl (ep_provider e) url cfg") (auto simp: update_tx_def)
  obtain s1 where s1: "insert_version \<lparr>vs_endpoint = i, vs_revision = ep_revision e + 1, vs_url = uu,
        vs_config = c, vs_created = rfc3339nano t\<rparr> s = Inr s1"
    using assms f e by (auto simp: update_tx_def rbind_Inr_iff)
  then have s': "s' = s1\<lparr>endpoints := upd (\<lambda>x. ep_id x = i)
       (\<lambda>x. x\<lparr>ep_name := name, ep_revision := ep_revision e + 1, ep_updated := rfc3339nano t\<rparr>) (endpoints s1)\<rparr>"
    using assms f e by (simp add: update_tx_def)
  have "\<forall>b. c = Some b \<longrightarrow> bark_ok b"
    using e normalize_bark_ok
    by (auto simp: update_values_def Let_def map_sum_Inr2 split: if_splits sum.splits)
  then show ?thesis using s1 by (auto simp: s' insert_version_Inr)
qed

lemma wf_update:
  assumes "settings_wf load st"
  shows "settings_wf load (snd (update_channel nl t i expected name url cfg st))"
proof (cases "update_channel nl t i expected name url cfg st")
  case (Pair r st')
  then show ?thesis
  proof (cases rule: update_channel_cases)
    case (commit u)
    obtain w where "versions st' = versions st @ [w]" "\<forall>b. vs_config w = Some b \<longrightarrow> bark_ok b"
      "monitor_row st' = monitor_row st" "voice_row st' = voice_row st" "qr_settings st' = qr_settings st"
      using update_tx_version [OF commit(1)] by blast
    then show ?thesis using Pair by (intro wf_versions [OF assms, of _ w]) auto
  qed (use assms Pair in simp)
qed

lemma wf_qr:
  assumes "settings_wf load st"
  shows "settings_wf load (snd (save_payment_qr i t q0 st))"
proof (cases "snd (save_payment_qr i t q0 st) = st")
  case changed: False
  then obtain c where c: "qr_connection (qr_conn q0) st = Inr c" "qr_account q0 \<noteq> []" "qr_name q0 \<noteq> []"
    by (auto simp: save_payment_qr_def split: sum.splits if_splits)
  define q where "q = q0\<lparr>qr_conn := c, qr_bin := or_default ''970416'' (qr_bin q0),
      qr_bank := or_default ''ACB'' (qr_bank q0), qr_provider := or_default ''UPLOAD'' (qr_provider q0)\<rparr>"
  have q: "qr_ok q" "qr_conn q = c" using c by (simp_all add: q_def qr_ok_def or_default_def)
  have rows: "\<forall>x \<in> set (qr_settings st). qr_ok x" "distinct (map qr_conn (qr_settings st))"
    using assms by (simp_all add: settings_wf_def)
  have keep: "settings_wf load (st\<lparr>qr_settings := t'\<rparr>)" if "\<forall>x \<in> set t'. qr_ok x" "distinct (map qr_conn t')" for t'
    using assms that by (simp add: settings_wf_def)
  show ?thesis
  proof (cases "sel1 (\<lambda>x. qr_conn x = c) (qr_settings st)")
    case (Some old)
    define f where "f = (\<lambda>x :: qr_row. (q\<lparr>qr_id := qr_id old, qr_revision := wrap64 (qr_revision old + 1), qr_updated := rfc3339nano t\<rparr>)
        \<lparr>qr_id := qr_id x, qr_conn := qr_conn x, qr_created := qr_created x\<rparr>)"
    have s: "snd (save_payment_qr i t q0 st) = st\<lparr>qr_settings := upd (\<lambda>x. qr_id x = qr_id old) f (qr_settings st)\<rparr>"
      using c Some by (simp add: save_payment_qr_def Let_def with_tx_def f_def q_def)
    have "qr_ok (f x)" "qr_conn (f x) = qr_conn x" for x using q(1) by (simp_all add: f_def qr_ok_def)
    then show ?thesis unfolding s using rows by (intro keep) (auto simp: in_upd map_upd_same)
  next
    case None
    define r where "r = (q\<lparr>qr_id := i, qr_revision := 1, qr_updated := rfc3339nano t\<rparr>)\<lparr>qr_created := rfc3339nano t\<rparr>"
    have r: "qr_ok r" "qr_conn r = c" using q by (simp_all add: r_def qr_ok_def)
    have n: "\<forall>x \<in> set (qr_settings st). qr_conn x \<noteq> c" using None by (simp add: sel1_None)
    have "snd (save_payment_qr i t q0 st) = st \<or> snd (save_payment_qr i t q0 st) = st\<lparr>qr_settings := qr_settings st @ [r]\<rparr>"
      using c None
      by (simp add: save_payment_qr_def Let_def with_tx_def q_def [symmetric] insert_row_def r_def)
    then show ?thesis
    proof
      assume "snd (save_payment_qr i t q0 st) = st\<lparr>qr_settings := qr_settings st @ [r]\<rparr>"
      moreover have "qr_conn r \<notin> qr_conn ` set (qr_settings st)" using n r(2) by (metis imageE)
      ultimately show ?thesis using keep [of "qr_settings st @ [r]"] rows r by simp
    qed (use assms in simp)
  qed
qed (use assms in simp)

lemma settings_step_wf:
  assumes "settings_step load st st'" "settings_wf load st"
  shows "settings_wf load st'"
  using assms
proof cases
  case (monitor t m)
  show ?thesis
  proof (cases "save_monitor_settings load t m st")
    case (Pair r s)
    show ?thesis
    proof (cases r)
      case (Inl e)
      then show ?thesis using save_monitor_Inl [of load t m st e s] Pair monitor assms(2) by simp
    next
      case (Inr v)
      note ok = save_monitor_Inr [OF Pair [unfolded Inr]]
      have "validate_settings load v = Inr v" using ok(4) validate_idem by metis
      then show ?thesis using ok(1) Pair monitor assms(2) by (simp add: settings_wf_def)
    qed
  qed
next
  case (voice t v)
  show ?thesis
  proof (cases "save_voice_settings t v st")
    case (Pair r s)
    show ?thesis
    proof (cases r)
      case (Inl e)
      then show ?thesis using save_voice_Inl [of t v st e s] Pair voice assms(2) by simp
    next
      case (Inr w)
      note ok = save_voice_Inr [OF Pair [unfolded Inr]]
      then show ?thesis using Pair voice assms(2) by (simp add: settings_wf_def voice_ok_def)
    qed
  qed
next
  case (qr i t q)
  then show ?thesis using wf_qr [OF assms(2)] by simp
next
  case (no_qr c)
  then show ?thesis using assms(2)
    by (auto simp: delete_payment_qr_def settings_wf_def del_def distinct_map_filter split: sum.splits)
next
  case (bark v kr nonce i t name key cfg)
  then show ?thesis using wf_bark [OF assms(2)] by simp
next
  case (channel nl t i expected name url cfg)
  then show ?thesis using wf_update [OF assms(2)] by simp
qed

text \<open>
  Property C22. Everything that the settings operations store is well formed, after any sequence of
  them: the monitor settings pass their validation unchanged, the voice settings name a known mode
  and voice, payment codes are complete and at most one per connection, and every Bark version
  carries a configuration within its limits.
\<close>

theorem settings_well_formed:
  assumes "(settings_step load)\<^sup>*\<^sup>* st st'" and "settings_wf load st"
  shows "settings_wf load st'"
  using assms by (induction rule: rtranclp_induct) (simp_all add: settings_step_wf)

theorem settings_well_formed_witness:
  "settings_wf demo_load (snd (save_monitor_settings demo_load 0 default_monitor_settings empty_store))"
proof -
  have "settings_wf demo_load empty_store" by (simp add: settings_wf_def empty_store_def)
  then show ?thesis using settings_well_formed [OF r_into_rtranclp [of "settings_step demo_load", OF settings_step.monitor]] by blast
qed

section \<open>Coverage\<close>

text \<open>All rows of a day of the connection are complete and synchronised at \<open>ts\<close>, and there is one.\<close>

definition synced :: "string \<Rightarrow> string \<Rightarrow> store \<Rightarrow> string \<Rightarrow> bool" where
  "synced conn ts st day \<longleftrightarrow>
     (\<exists>r \<in> set (coverage st). cv_conn r = conn \<and> cv_day r = day) \<and>
     (\<forall>r \<in> set (coverage st). cv_conn r = conn \<and> cv_day r = day \<longrightarrow> cv_status r = ''COMPLETE'' \<and> cv_sync r = ts)"

lemma upsert_synced:
  assumes "upsert_coverage conn ts (i, day, n) s = Inr s'"
  shows "synced conn ts s' day" "\<And>d. synced conn ts s d \<Longrightarrow> synced conn ts s' d"
proof -
  define f where "f = (\<lambda>r :: coverage_row. r\<lparr>cv_status := ''COMPLETE'', cv_sync := ts, cv_rows := n\<rparr>)"
  define r where "r = \<lparr>cv_id = i, cv_conn = conn, cv_day = day, cv_status = ''COMPLETE'', cv_sync = ts, cv_rows = n\<rparr>"
  have f: "cv_conn (f x) = cv_conn x" "cv_day (f x) = cv_day x" "cv_status (f x) = ''COMPLETE''" "cv_sync (f x) = ts" for x
    by (simp_all add: f_def)
  have r: "cv_conn r = conn" "cv_day r = day" "cv_status r = ''COMPLETE''" "cv_sync r = ts" by (simp_all add: r_def)
  consider (old) "\<exists>x \<in> set (coverage s). cv_conn x = conn \<and> cv_day x = day"
      "coverage s' = upd (\<lambda>r. cv_conn r = conn \<and> cv_day r = day) f (coverage s)"
    | (new) "\<not> (\<exists>x \<in> set (coverage s). cv_conn x = conn \<and> cv_day x = day)" "coverage s' = coverage s @ [r]"
  proof (cases "list_ex (\<lambda>r. cv_conn r = conn \<and> cv_day r = day) (coverage s)")
    case True
    then have "coverage s' = upd (\<lambda>r. cv_conn r = conn \<and> cv_day r = day) f (coverage s)"
      using assms unfolding upsert_coverage_def f_def by auto
    with True that(1) show ?thesis by (simp add: list_ex_iff)
  next
    case False
    then have "coverage s' = coverage s @ [r]"
      using assms unfolding upsert_coverage_def r_def by (auto simp: map_sum_Inr2 insert_row_Inr)
    with False that(2) show ?thesis by (simp add: list_ex_iff)
  qed
  then have "synced conn ts s' day \<and> (\<forall>d. synced conn ts s d \<longrightarrow> synced conn ts s' d)"
  proof cases
    case old
    define g where "g = (\<lambda>x :: coverage_row. if cv_conn x = conn \<and> cv_day x = day then f x else x)"
    have g: "cv_conn (g x) = cv_conn x" "cv_day (g x) = cv_day x"
      "cv_conn x = conn \<and> cv_day x = day \<longrightarrow> cv_status (g x) = ''COMPLETE'' \<and> cv_sync (g x) = ts"
      "\<not> (cv_conn x = conn \<and> cv_day x = day) \<longrightarrow> g x = x" for x
      by (simp_all add: g_def f)
    have s': "coverage s' = map g (coverage s)" unfolding old(2) upd_def g_def by (rule refl)
    have "synced conn ts s' day" using old(1) g(1-3) unfolding synced_def s' by simp
    moreover have "synced conn ts s' d" if "synced conn ts s d" "d \<noteq> day" for d
      using that g(1,2,4) unfolding synced_def s' by simp
    ultimately show ?thesis by blast
  next
    case new
    then show ?thesis by (auto simp: synced_def r)
  qed
  then show "synced conn ts s' day" "\<And>d. synced conn ts s d \<Longrightarrow> synced conn ts s' d" by blast+
qed

lemma upsert_days_synced:
  "upsert_days conn ts xs s = Inr s' \<Longrightarrow>
   (\<forall>x \<in> set xs. synced conn ts s' (fst (snd x))) \<and> (\<forall>d. synced conn ts s d \<longrightarrow> synced conn ts s' d)"
proof (induction xs arbitrary: s)
  case (Cons x xs)
  obtain i day n where x: "x = (i, day, n)" by (cases x)
  obtain s1 where s1: "upsert_coverage conn ts x s = Inr s1" "upsert_days conn ts xs s1 = Inr s'"
    using Cons(2) by (auto simp: rbind_Inr_iff)
  note up = upsert_synced [OF s1(1) [unfolded x]]
  show ?case using Cons(1) [OF s1(2)] up by (auto simp: x)
qed simp

lemma check_days_all: "check_days conn now st ds \<longleftrightarrow> (\<forall>d \<in> set ds. day_covered conn now st d)"
  by (induction ds) auto

lemma synced_covered:
  assumes "synced conn (rfc3339nano t) st (fmt_day d)" and "in_years t" and "now - t \<le> 30 * second"
  shows "day_covered conn now st d"
proof -
  obtain r where r: "sel1 (\<lambda>r. cv_conn r = conn \<and> cv_day r = fmt_day d) (coverage st) = Some r"
    using assms(1) by (cases "sel1 (\<lambda>r. cv_conn r = conn \<and> cv_day r = fmt_day d) (coverage st)")
      (auto simp: synced_def sel1_None)
  have rc: "cv_status r = ''COMPLETE''" "cv_sync r = rfc3339nano t"
    using sel1_Some [OF r] assms(1) by (auto simp: synced_def)
  have "30 * second \<le> coverage_ttl now d"
    by (simp add: coverage_ttl_def Let_def hour_def minute_def second_def)
  then show ?thesis
    using assms(3) by (simp add: day_covered_def r rc parse_rfc3339nano [OF assms(2)])
qed

text \<open>
  Coverage that was recorded is found: once the days of a range were recorded in one
  transaction at \<open>t\<close>, asking for the range up to thirty seconds later answers that it is covered.
\<close>

theorem recorded_then_covered:
  assumes "record_coverage_per_day conn t xs st = (None, st')" and "conn \<noteq> []"
    and "parse_day from_day = Some a" and "parse_day to_day = Some b" and "a \<le> b"
    and "\<forall>d \<in> {a..b}. fmt_day d \<in> set (map (\<lambda>x. fst (snd x)) xs)"
    and "in_years t" and "now - t \<le> 30 * second"
  shows "check_range_coverage conn from_day to_day now st' = Inr True"
proof -
  have "xs \<noteq> []" using assms(5,6) by auto
  then have "upsert_days conn (rfc3339nano t) xs st = Inr st'"
    using assms(1,2)
    by (cases "upsert_days conn (rfc3339nano t) xs st") (simp_all add: record_coverage_per_day_def with_tx_def)
  note s = upsert_days_synced [OF this]
  have "day_covered conn now st' d" if d: "d \<in> {a..b}" for d
  proof (rule synced_covered [OF _ assms(7,8)])
    obtain x where "x \<in> set xs" "fst (snd x) = fmt_day d" using bspec [OF assms(6) d] by force
    then show "synced conn (rfc3339nano t) st' (fmt_day d)" using s by metis
  qed
  then have "check_days conn now st' [a..b]" unfolding check_days_all by simp
  then show ?thesis using assms(3,4,5) by (simp add: check_range_coverage_def)
qed

definition demo_account :: store where
  "demo_account = empty_store\<lparr>connections := [\<lparr>c_id = ''c'', c_state = Monitoring, c_masked = [],
     c_generation = 1, c_started = [], c_created = [], c_updated = []\<rparr>]\<rparr>"

definition demo_recorded :: "err option \<times> store" where
  "demo_recorded = record_coverage_per_day ''c'' 1788588299500000000
     [(''i'', ''2026-09-04'', 3), (''j'', ''2026-09-05'', 0)] demo_account"

theorem recorded_then_covered_witness:
  "check_range_coverage ''c'' ''2026-09-04'' ''2026-09-05'' 1788588320000000000 (snd demo_recorded) = Inr True"
proof -
  have r: "record_coverage_per_day ''c'' 1788588299500000000 [(''i'', ''2026-09-04'', 3), (''j'', ''2026-09-05'', 0)] demo_account
      = (None, snd demo_recorded)"
  proof -
    have "fst demo_recorded = None" by code_simp
    then show ?thesis unfolding demo_recorded_def by (metis prod.collapse)
  qed
  have d: "parse_day ''2026-09-04'' = Some 20700" "parse_day ''2026-09-05'' = Some 20701"
    "fmt_day 20700 = ''2026-09-04''" "fmt_day 20701 = ''2026-09-05''" by code_simp+
  have i: "{20700..20701} = {20700, 20701 :: int}" by auto
  have y: "in_years 1788588299500000000" by code_simp
  show ?thesis
    by (rule recorded_then_covered [OF r _ d(1,2) _ _ y]) (simp_all add: i d(3,4) second_def)
qed

end
