(* ===== verification/Queries.thy ===== *)
theory Queries
  imports Deliveries "HOL-Library.Sublist"
begin

text \<open>
  The listings of \<open>src/internal/storage/queries.go\<close>: keyset pagination behind an opaque cursor,
  newest first, over transactions (with a filter and its totals), deliveries, poll runs and audit
  entries. SQL conditions are predicates on rows; \<open>LIKE\<close> with the escape character backslash is
  defined on bytes, which for valid UTF-8 and the patterns built here is SQLite's matching by
  characters.
\<close>

section \<open>Cursors and pages\<close>

definition normalize_page_size :: "int \<Rightarrow> int" where
  "normalize_page_size limit = (if limit \<le> 0 then 50 else if limit > 100 then 100 else limit)"

definition nul :: char where "nul = CHR 0x00"

definition encode_cursor :: "string \<Rightarrow> string \<Rightarrow> string" where
  "encode_cursor sort_value i =
     (if sort_value = [] \<or> i = [] then [] else b64_encode url_alphabet (sort_value @ [nul] @ i))"

definition decode_cursor :: "string \<Rightarrow> (string \<times> string) result" where
  "decode_cursor cursor =
     (if cursor = [] then Inr ([], [])
      else (case b64_decode url_alphabet cursor of
              None \<Rightarrow> Inl (ErrMsg ''invalid pagination cursor'')
            | Some raw \<Rightarrow>
                (case split_on nul raw of
                   [a, b] \<Rightarrow> if a = [] \<or> b = [] then Inl (ErrMsg ''invalid pagination cursor'') else Inr (a, b)
                 | _ \<Rightarrow> Inl (ErrMsg ''invalid pagination cursor''))))"

record 'v page =
  pg_items :: "'v list"
  pg_next :: string

text \<open>\<open>ORDER BY key DESC, id DESC LIMIT n\<close> below the cursor.\<close>

definition below :: "('r \<Rightarrow> string) \<Rightarrow> ('r \<Rightarrow> string) \<Rightarrow> string \<times> string \<Rightarrow> 'r \<Rightarrow> bool" where
  "below key ident cur r =
     (fst cur = [] \<or> key r < fst cur \<or> (key r = fst cur \<and> ident r < snd cur))"

definition newest_first :: "('r \<Rightarrow> string) \<Rightarrow> ('r \<Rightarrow> string) \<Rightarrow> 'r list \<Rightarrow> 'r list" where
  "newest_first key ident t = rev (sort_key (\<lambda>r. (key r, ident r)) t)"

text \<open>One row more than the limit is read; if it is there, the last row kept makes the next cursor.\<close>

definition cut_page :: "('r \<Rightarrow> string) \<Rightarrow> ('r \<Rightarrow> string) \<Rightarrow> nat \<Rightarrow> 'r list \<Rightarrow> 'r page" where
  "cut_page key ident limit items =
     (if length items > limit
      then (let final = items ! (limit - 1)
            in \<lparr>pg_items = take limit items, pg_next = encode_cursor (key final) (ident final)\<rparr>)
      else \<lparr>pg_items = items, pg_next = []\<rparr>)"

definition keyset_page ::
  "('r \<Rightarrow> string) \<Rightarrow> ('r \<Rightarrow> string) \<Rightarrow> int \<Rightarrow> string \<Rightarrow> 'r list \<Rightarrow> 'r page result" where
  "keyset_page key ident limit0 cursor rows =
     (let limit = nat (normalize_page_size limit0)
      in case decode_cursor cursor of
           Inl e \<Rightarrow> Inl e
         | Inr cur \<Rightarrow>
             Inr (cut_page key ident limit
                   (take (limit + 1) (newest_first key ident (filter (below key ident cur) rows)))))"

definition map_page :: "('r \<Rightarrow> 'v) \<Rightarrow> 'r page \<Rightarrow> 'v page" where
  "map_page f p = \<lparr>pg_items = map f (pg_items p), pg_next = pg_next p\<rparr>"

section \<open>LIKE\<close>

definition escape_like :: "string \<Rightarrow> string" where
  "escape_like s =
     concat (map (\<lambda>c. if c = CHR ''%'' \<or> c = CHR ''_'' \<or> c = CHR 0x5C then [CHR 0x5C, c] else [c]) s)"

fun sql_like :: "string \<Rightarrow> string \<Rightarrow> bool" where
  "sql_like [] t = (t = [])"
| "sql_like (p # ps) t =
     (if p = CHR ''%'' then list_ex (sql_like ps) (suffixes t)
      else if p = CHR ''_'' then t \<noteq> [] \<and> sql_like ps (tl t)
      else if p = CHR 0x5C
      then (case ps of [] \<Rightarrow> False | q # qs \<Rightarrow> t \<noteq> [] \<and> ascii_lower (hd t) = ascii_lower q \<and> sql_like qs (tl t))
      else t \<noteq> [] \<and> ascii_lower (hd t) = ascii_lower p \<and> sql_like ps (tl t))"

section \<open>Transactions\<close>

record txn_view =
  tv_id :: string
  tv_key :: string
  tv_at :: string
  tv_day :: string
  tv_precision :: string
  tv_effective :: string
  tv_debit :: int
  tv_credit :: int
  tv_balance :: "int option"
  tv_desc :: string
  tv_seen :: string
  tv_source :: string

definition txn_view_of :: "txn_row \<Rightarrow> txn_view" where
  "txn_view_of x =
     \<lparr>tv_id = tx_id x, tv_key = tx_key x, tv_at = (if tx_iso x \<noteq> [] then tx_iso x else tx_date x),
      tv_day = tx_day x, tv_precision = tx_precision x, tv_effective = tx_effective x,
      tv_debit = tx_debit x, tv_credit = tx_credit x, tv_balance = tx_balance x, tv_desc = tx_desc x,
      tv_seen = tx_seen x, tv_source = tx_source x\<rparr>"

record txn_filter =
  fl_from :: string
  fl_to :: string
  fl_direction :: string
  fl_query :: string
  fl_limit :: int
  fl_cursor :: string

definition matches :: "txn_filter \<Rightarrow> txn_row \<Rightarrow> bool" where
  "matches f x \<longleftrightarrow>
     (fl_from f \<noteq> [] \<longrightarrow> fl_from f \<le> tx_day x \<or> (tx_day x = [] \<and> fl_from f \<le> take 10 (tx_seen x))) \<and>
     (fl_to f \<noteq> [] \<longrightarrow> tx_day x \<le> fl_to f \<or> (tx_day x = [] \<and> take 10 (tx_seen x) \<le> fl_to f)) \<and>
     (fl_direction f = ''credit'' \<longrightarrow> tx_credit x > 0) \<and>
     (fl_direction f = ''debit'' \<longrightarrow> tx_debit x > 0) \<and>
     (fl_query f \<noteq> [] \<longrightarrow>
        (let pattern = ''%'' @ escape_like (fl_query f) @ ''%''
         in sql_like pattern (tx_desc x) \<or> sql_like pattern (tx_key x)))"

record txn_summary =
  sm_count :: nat
  sm_incoming :: int
  sm_outgoing :: int

definition summarise :: "txn_row list \<Rightarrow> txn_summary" where
  "summarise t =
     \<lparr>sm_count = length t,
      sm_incoming = sum_list (map (\<lambda>x. if tx_credit x > 0 then tx_credit x else 0) t),
      sm_outgoing = sum_list (map (\<lambda>x. if tx_debit x > 0 then tx_debit x else 0) t)\<rparr>"

definition list_transactions_filtered :: "txn_filter \<Rightarrow> store \<Rightarrow> (txn_view page \<times> txn_summary) result" where
  "list_transactions_filtered f st =
     (let rows = filter (matches f) (transactions st)
      in map_sum id (\<lambda>p. (map_page txn_view_of p, summarise rows))
           (keyset_page tx_seen tx_id (fl_limit f) (fl_cursor f) rows))"

definition no_filter :: "int \<Rightarrow> string \<Rightarrow> txn_filter" where
  "no_filter limit cursor =
     \<lparr>fl_from = [], fl_to = [], fl_direction = [], fl_query = [], fl_limit = limit, fl_cursor = cursor\<rparr>"

definition list_transactions_page :: "int \<Rightarrow> string \<Rightarrow> store \<Rightarrow> txn_view page result" where
  "list_transactions_page limit cursor st =
     map_sum id fst (list_transactions_filtered (no_filter limit cursor) st)"

definition transaction_by_id :: "string \<Rightarrow> store \<Rightarrow> txn_view result" where
  "transaction_by_id i st =
     (case sel1 (\<lambda>x. tx_id x = i) (transactions st) of None \<Rightarrow> Inl ErrNoRows | Some x \<Rightarrow> Inr (txn_view_of x))"

section \<open>Deliveries, polls, audit\<close>

record delivery_view =
  dv_id :: string
  dv_event :: string
  dv_endpoint :: string
  dv_name :: string
  dv_provider :: string
  dv_status :: delivery_status
  dv_attempts :: int
  dv_next :: string
  dv_created :: string
  dv_updated :: string

definition delivery_view_of :: "store \<Rightarrow> delivery_row \<Rightarrow> delivery_view" where
  "delivery_view_of st d =
     (let e = find_endpoint st (dl_endpoint d)
      in \<lparr>dv_id = dl_id d, dv_event = dl_event d, dv_endpoint = dl_endpoint d,
          dv_name = (case e of None \<Rightarrow> [] | Some e \<Rightarrow> ep_name e),
          dv_provider = (case e of None \<Rightarrow> ''WEBHOOK'' | Some e \<Rightarrow> ep_provider e),
          dv_status = dl_status d, dv_attempts = dl_attempts d, dv_next = dl_next d,
          dv_created = dl_created d, dv_updated = dl_updated d\<rparr>)"

definition list_deliveries_page :: "int \<Rightarrow> string \<Rightarrow> store \<Rightarrow> delivery_view page result" where
  "list_deliveries_page limit cursor st =
     map_sum id (map_page (delivery_view_of st)) (keyset_page dl_created dl_id limit cursor (deliveries st))"

definition list_poll_runs_page :: "int \<Rightarrow> string \<Rightarrow> store \<Rightarrow> poll_row page result" where
  "list_poll_runs_page limit cursor st = keyset_page pr_started pr_id limit cursor (poll_runs st)"

record audit_view =
  av_id :: string
  av_subject :: string
  av_role :: string
  av_action :: string
  av_target :: string
  av_created :: string

definition audit_view_of :: "audit_row \<Rightarrow> audit_view" where
  "audit_view_of a = \<lparr>av_id = au_id a, av_subject = au_subject a, av_role = au_role a,
     av_action = au_action a, av_target = au_target a, av_created = au_created a\<rparr>"

definition list_audit_logs_page :: "int \<Rightarrow> string \<Rightarrow> store \<Rightarrow> audit_view page result" where
  "list_audit_logs_page limit cursor st =
     map_sum id (map_page audit_view_of) (keyset_page au_created au_id limit cursor (audits st))"

text \<open>The first page's items.\<close>

definition list_transactions :: "int \<Rightarrow> store \<Rightarrow> txn_view list result" where
  "list_transactions limit st = map_sum id pg_items (list_transactions_page limit [] st)"

definition list_deliveries :: "int \<Rightarrow> store \<Rightarrow> delivery_view list result" where
  "list_deliveries limit st = map_sum id pg_items (list_deliveries_page limit [] st)"

definition list_poll_runs :: "int \<Rightarrow> store \<Rightarrow> poll_row list result" where
  "list_poll_runs limit st = map_sum id pg_items (list_poll_runs_page limit [] st)"

definition list_audit_logs :: "int \<Rightarrow> store \<Rightarrow> audit_view list result" where
  "list_audit_logs limit st = map_sum id pg_items (list_audit_logs_page limit [] st)"

text \<open>
  The upper bound of the day lets every undated row through, since the empty day is less than any
  bound; the condition on the day it was first seen never decides.
\<close>

lemma undated_passes_to:
  "matches ((no_filter 50 [])\<lparr>fl_to := ''2026-01-01''\<rparr>)
     \<lparr>tx_id = ''t'', tx_conn = ''c'', tx_key = ''k'', tx_hash = [], tx_date = [], tx_effective = [],
      tx_debit = 0, tx_credit = 1, tx_balance = None, tx_desc = [], tx_parser = [], tx_baseline = [],
      tx_seen = ''2026-09-05T00:00:00Z'', tx_iso = [], tx_day = [], tx_precision = ''unknown'',
      tx_source = ''REALTIME''\<rparr>"
  by (simp add: matches_def no_filter_def)

end
