(* ===== verification/QueryProps.thy ===== *)
theory QueryProps
  imports Queries "HOL-Library.Multiset"
begin

text \<open>
  The listings of \<open>Queries\<close>: cursors round-trip, and following them visits every row once, newest
  first (the locale \<open>paged\<close> and its instances); a search for a text is a search for a substring,
  whatever wildcards the text contains.
\<close>

section \<open>Cursors\<close>

definition cursor_text :: "string \<Rightarrow> bool" where
  "cursor_text s \<longleftrightarrow> s \<noteq> [] \<and> nul \<notin> set s"

lemma cursor_roundtrip:
  assumes "cursor_text a" "cursor_text b"
  shows "decode_cursor (encode_cursor a b) = Inr (a, b)" "encode_cursor a b \<noteq> []"
proof -
  have d: "b64_decode url_alphabet (encode_cursor a b) = Some (a @ [nul] @ b)"
    using assms b64_roundtrip [OF alphabets_good(2)] by (simp add: encode_cursor_def cursor_text_def)
  have "b64_decode url_alphabet [] = Some []" by (simp add: b64_decode_def)
  with d show n: "encode_cursor a b \<noteq> []" by auto
  have "split_on nul (a @ nul # b) = [a, b]"
    using assms by (simp add: cursor_text_def split_on_append split_on_no_sep)
  then show "decode_cursor (encode_cursor a b) = Inr (a, b)"
    using d n assms by (simp add: decode_cursor_def cursor_text_def)
qed

section \<open>Pages\<close>

text \<open>Following the cursors: the items of all pages, given fuel for their number.\<close>

fun walk :: "nat \<Rightarrow> (string \<Rightarrow> 'v page result) \<Rightarrow> string \<Rightarrow> 'v list result" where
  "walk 0 f c = Inl (ErrMsg ''more pages'')"
| "walk (Suc n) f c =
     (case f c of
        Inl e \<Rightarrow> Inl e
      | Inr p \<Rightarrow> if pg_next p = [] then Inr (pg_items p) else map_sum id (append (pg_items p)) (walk n f (pg_next p)))"

lemma walk_map: "walk n (\<lambda>c. map_sum id (map_page g) (f c)) c = map_sum id (map g) (walk n f c)"
proof (induction n arbitrary: c)
  case (Suc n)
  show ?case
  proof (cases "f c")
    case (Inr p)
    then show ?thesis using Suc by (cases "walk n f (pg_next p)") (simp_all add: map_page_def)
  qed simp
qed simp

lemma descending_drop:
  assumes "sorted_wrt (\<lambda>a b. (k b :: 'k :: linorder) < k a) l" "i < length l"
  shows "filter (\<lambda>r. k r < k (l ! i)) l = drop (Suc i) l"
proof -
  have l: "l = take i l @ l ! i # drop (Suc i) l" by (rule id_take_nth_drop [OF assms(2)])
  have "sorted_wrt (\<lambda>a b. k b < k a) (take i l @ l ! i # drop (Suc i) l)" using assms(1) l by simp
  then have "\<forall>r \<in> set (take i l). k (l ! i) < k r" "\<forall>r \<in> set (drop (Suc i) l). k r < k (l ! i)"
    by (auto simp: sorted_wrt_append)
  then have "filter (\<lambda>r. k r < k (l ! i)) (take i l) = []" "filter (\<lambda>r. k r < k (l ! i)) (drop (Suc i) l) = drop (Suc i) l"
    by (auto simp: filter_empty_conv less_asym intro!: filter_True)
  then have "filter (\<lambda>r. k r < k (l ! i)) (take i l @ l ! i # drop (Suc i) l) = drop (Suc i) l" by simp
  then show ?thesis using l by simp
qed

lemma newest_first_filter: "newest_first key ident (filter p t) = filter p (newest_first key ident t)"
  unfolding newest_first_def filter_sort [symmetric] rev_filter by (rule refl)

lemma newest_first_set [simp]: "set (newest_first key ident t) = set t"
  by (simp add: newest_first_def)

lemma newest_first_mset [simp]: "mset (newest_first key ident t) = mset t"
  by (simp add: newest_first_def)

lemma newest_first_descending:
  assumes "distinct (map ident t)"
  shows "sorted_wrt (\<lambda>a b. (key b, ident b) < (key a, ident a)) (newest_first key ident t)"
proof -
  let ?k = "\<lambda>r. (key r, ident r)"
  have "sorted (map ?k (sort_key ?k t))" by (rule sorted_sort_key)
  moreover have "distinct (map ?k (sort_key ?k t))"
  proof -
    have "mset (map ident (sort_key ?k t)) = mset (map ident t)" by simp
    then have "distinct (map ident (sort_key ?k t))" using assms mset_eq_imp_distinct_iff by blast
    then show ?thesis by (auto simp: distinct_map inj_on_def)
  qed
  ultimately have "sorted_wrt (<) (map ?k (sort_key ?k t))" by (simp add: strict_sorted_iff)
  then show ?thesis by (simp add: newest_first_def sorted_wrt_rev sorted_wrt_map)
qed

text \<open>The page at a suffix of the listing.\<close>

lemma cut_page_suffix:
  "0 < n \<Longrightarrow> cut_page key ident n (take (n + 1) l) =
    (if length l \<le> n then \<lparr>pg_items = l, pg_next = []\<rparr>
     else \<lparr>pg_items = take n l, pg_next = encode_cursor (key (l ! (n - 1))) (ident (l ! (n - 1)))\<rparr>)"
  by (simp add: cut_page_def Let_def min_def)

lemma page_size_pos: "0 < nat (normalize_page_size n)"
  by (simp add: normalize_page_size_def)

locale paged =
  fixes table :: "'s \<Rightarrow> 'r list" and key ident :: "'r \<Rightarrow> string" and ok :: "'s \<Rightarrow> bool"
  assumes ids: "ok st \<Longrightarrow> distinct (map ident (table st))"
    and texts: "ok st \<Longrightarrow> r \<in> set (table st) \<Longrightarrow> cursor_text (key r) \<and> cursor_text (ident r)"
begin

lemma walk_suffix:
  assumes "ok st" and "l = newest_first key ident (filter p (table st))" and "j \<le> length l"
    and "decode_cursor c = Inr cur" and "filter (below key ident cur) l = drop j l" and "length l - j < n"
  shows "walk n (\<lambda>c. keyset_page key ident limit c (filter p (table st))) c = Inr (drop j l)"
  using assms(3-6)
proof (induction n arbitrary: c cur j)
  case (Suc n)
  let ?n = "nat (normalize_page_size limit)"
  let ?d = "drop j l"
  have pos: "0 < ?n" by (rule page_size_pos)
  have "newest_first key ident (filter (below key ident cur) (filter p (table st))) = ?d"
    using Suc.prems(3) by (simp only: newest_first_filter [of key ident "below key ident cur"] assms(2) [symmetric])
  then have page: "keyset_page key ident limit c (filter p (table st)) = Inr
      (if length ?d \<le> ?n then \<lparr>pg_items = ?d, pg_next = []\<rparr>
       else \<lparr>pg_items = take ?n ?d, pg_next = encode_cursor (key (?d ! (?n - 1))) (ident (?d ! (?n - 1)))\<rparr>)"
    using cut_page_suffix [OF pos, of key ident ?d] by (simp add: keyset_page_def Let_def Suc.prems(2))
  show ?case
  proof (cases "length ?d \<le> ?n")
    case True
    then show ?thesis by (simp add: page)
  next
    case False
    define i where "i = j + (?n - 1)"
    have i: "i < length l" "?d ! (?n - 1) = l ! i" "Suc i = j + ?n" using False pos Suc.prems(1) by (auto simp: i_def)
    have "l ! i \<in> set (table st)" using i(1) nth_mem [of i l] unfolding assms(2) by simp
    note tx = texts [OF assms(1) this]
    note cur = cursor_roundtrip [OF conjunct1 [OF tx] conjunct2 [OF tx]]
    have "distinct (map ident (filter p (table st)))" using ids [OF assms(1)] by (rule distinct_map_filter)
    then have "filter (\<lambda>r. (key r, ident r) < (key (l ! i), ident (l ! i))) l = drop (Suc i) l"
      using i(1) unfolding assms(2) by (intro descending_drop newest_first_descending)
    moreover have "below key ident (key (l ! i), ident (l ! i)) = (\<lambda>r. (key r, ident r) < (key (l ! i), ident (l ! i)))"
      using tx by (auto simp: fun_eq_iff below_def cursor_text_def less_prod_def)
    ultimately have "filter (below key ident (key (l ! i), ident (l ! i))) l = drop (j + ?n) l" by (simp add: i(3))
    moreover have "j + ?n \<le> length l" using False Suc.prems(1) by simp
    moreover have "length l - (j + ?n) < n" using Suc.prems(4) pos False by simp
    ultimately have "walk n (\<lambda>c. keyset_page key ident limit c (filter p (table st)))
        (encode_cursor (key (l ! i)) (ident (l ! i))) = Inr (drop (j + ?n) l)"
      using Suc.IH cur(1) by blast
    moreover have "take ?n ?d @ drop (j + ?n) l = ?d" by (metis append_take_drop_id drop_drop add.commute)
    ultimately show ?thesis using False cur(2) i(2) by (simp add: page)
  qed
qed simp

lemma walk_all:
  assumes "ok st"
  shows "walk (Suc (length (table st))) (\<lambda>c. keyset_page key ident limit c (filter p (table st))) []
    = Inr (newest_first key ident (filter p (table st)))"
proof -
  let ?l = "newest_first key ident (filter p (table st))"
  have "length ?l \<le> length (table st)" by (simp add: newest_first_def)
  moreover have "filter (below key ident ([], [])) ?l = drop 0 ?l" by (simp add: below_def)
  moreover have "decode_cursor [] = Inr ([], [])" by (simp add: decode_cursor_def)
  ultimately have "walk (Suc (length (table st))) (\<lambda>c. keyset_page key ident limit c (filter p (table st))) []
      = Inr (drop 0 ?l)" by (intro walk_suffix [OF assms refl]) simp_all
  then show ?thesis by (simp only: drop_0)
qed

lemma walk_table:
  assumes "ok st"
  shows "walk (Suc (length (table st))) (\<lambda>c. keyset_page key ident limit c (table st)) []
    = Inr (newest_first key ident (table st))"
  using walk_all [OF assms, of limit "\<lambda>_. True"] by simp

end

definition listable :: "('r \<Rightarrow> string) \<Rightarrow> ('r \<Rightarrow> string) \<Rightarrow> 'r list \<Rightarrow> bool" where
  "listable key ident t \<longleftrightarrow> distinct (map ident t) \<and> (\<forall>r \<in> set t. cursor_text (key r) \<and> cursor_text (ident r))"

interpretation txn_pages: paged transactions tx_seen tx_id "\<lambda>st. listable tx_seen tx_id (transactions st)"
  by unfold_locales (auto simp: listable_def)

interpretation delivery_pages: paged deliveries dl_created dl_id "\<lambda>st. listable dl_created dl_id (deliveries st)"
  by unfold_locales (auto simp: listable_def)

interpretation poll_pages: paged poll_runs pr_started pr_id "\<lambda>st. listable pr_started pr_id (poll_runs st)"
  by unfold_locales (auto simp: listable_def)

interpretation audit_pages: paged audits au_created au_id "\<lambda>st. listable au_created au_id (audits st)"
  by unfold_locales (auto simp: listable_def)

lemma walk_cong: "(\<And>c. f c = g c) \<Longrightarrow> walk n f c = walk n g c"
  by (induction n arbitrary: c) (simp_all split: sum.split)

lemma filtered_page:
  "map_sum id fst (list_transactions_filtered (f\<lparr>fl_cursor := c\<rparr>) st) =
   map_sum id (map_page txn_view_of) (keyset_page tx_seen tx_id (fl_limit f) c (filter (matches f) (transactions st)))"
proof -
  have "matches (f\<lparr>fl_cursor := c\<rparr>) = matches f" by (simp add: fun_eq_iff matches_def)
  then show ?thesis
    by (cases "keyset_page tx_seen tx_id (fl_limit f) c (filter (matches f) (transactions st))")
      (simp_all add: list_transactions_filtered_def Let_def)
qed

text \<open>
  Property C20. Following the cursors of a filtered listing visits every matching transaction exactly
  once, newest first (ties by identifier, descending), whatever the page size asked for; one page
  more than there are transactions is always enough.
\<close>

theorem pages_enumerate:
  assumes "listable tx_seen tx_id (transactions st)"
  shows "\<exists>items. walk (Suc (length (transactions st)))
        (\<lambda>c. map_sum id fst (list_transactions_filtered (f\<lparr>fl_cursor := c\<rparr>) st)) [] = Inr items
    \<and> mset items = image_mset txn_view_of (mset (filter (matches f) (transactions st)))
    \<and> sorted_wrt (\<lambda>a b. (tv_seen b, tv_id b) < (tv_seen a, tv_id a)) items"
proof -
  let ?l = "newest_first tx_seen tx_id (filter (matches f) (transactions st))"
  have "distinct (map tx_id (filter (matches f) (transactions st)))"
    using assms by (simp add: listable_def distinct_map_filter)
  then have "sorted_wrt (\<lambda>a b. (tx_seen b, tx_id b) < (tx_seen a, tx_id a)) ?l" by (rule newest_first_descending)
  then have "sorted_wrt (\<lambda>a b. (tv_seen b, tv_id b) < (tv_seen a, tv_id a)) (map txn_view_of ?l)"
    by (simp add: sorted_wrt_map txn_view_of_def)
  moreover have "walk (Suc (length (transactions st)))
      (\<lambda>c. map_sum id fst (list_transactions_filtered (f\<lparr>fl_cursor := c\<rparr>) st)) [] = Inr (map txn_view_of ?l)"
    unfolding filtered_page walk_map txn_pages.walk_all [OF assms] by simp
  ultimately show ?thesis by (intro exI [of _ "map txn_view_of ?l"]) simp
qed

definition demo_txn :: "string \<Rightarrow> string \<Rightarrow> txn_row" where
  "demo_txn i seen = \<lparr>tx_id = i, tx_conn = ''c'', tx_key = i, tx_hash = [], tx_date = [], tx_effective = [],
      tx_debit = 0, tx_credit = 1, tx_balance = None, tx_desc = [], tx_parser = [], tx_baseline = [],
      tx_seen = seen, tx_iso = [], tx_day = [], tx_precision = ''unknown'', tx_source = ''REALTIME''\<rparr>"

theorem pages_enumerate_witness:
  "\<exists>items. walk 3 (\<lambda>c. map_sum id fst (list_transactions_filtered (no_filter 1 [] \<lparr>fl_cursor := c\<rparr>)
      (empty_store\<lparr>transactions := [demo_txn ''a'' ''2026'', demo_txn ''b'' ''2027'']\<rparr>))) [] = Inr items \<and> size (mset items) = 2"
proof -
  let ?st = "empty_store\<lparr>transactions := [demo_txn ''a'' ''2026'', demo_txn ''b'' ''2027'']\<rparr>"
  have l: "listable tx_seen tx_id (transactions ?st)"
    by (simp add: listable_def demo_txn_def cursor_text_def nul_def)
  have m: "filter (matches (no_filter 1 [])) (transactions ?st) = transactions ?st"
    by (simp add: matches_def no_filter_def)
  have n: "Suc (length (transactions ?st)) = 3" by simp
  obtain items where i: "walk 3 (\<lambda>c. map_sum id fst (list_transactions_filtered (no_filter 1 [] \<lparr>fl_cursor := c\<rparr>) ?st)) [] = Inr items"
      "mset items = image_mset txn_view_of (mset (transactions ?st))"
    using pages_enumerate [OF l, of "no_filter 1 []"] unfolding m n by blast
  have "size (mset items) = 2" unfolding i(2) by simp
  with i(1) show ?thesis by blast
qed

text \<open>The other listings, likewise.\<close>

lemma delivery_pages_enumerate:
  "listable dl_created dl_id (deliveries st) \<Longrightarrow>
   walk (Suc (length (deliveries st))) (\<lambda>c. list_deliveries_page limit c st) []
     = Inr (map (delivery_view_of st) (newest_first dl_created dl_id (deliveries st)))"
  unfolding list_deliveries_page_def walk_map by (drule delivery_pages.walk_table [where limit = limit]) (simp del: walk.simps)

lemma poll_pages_enumerate:
  "listable pr_started pr_id (poll_runs st) \<Longrightarrow>
   walk (Suc (length (poll_runs st))) (\<lambda>c. list_poll_runs_page limit c st) []
     = Inr (newest_first pr_started pr_id (poll_runs st))"
  unfolding list_poll_runs_page_def by (rule poll_pages.walk_table)

lemma audit_pages_enumerate:
  "listable au_created au_id (audits st) \<Longrightarrow>
   walk (Suc (length (audits st))) (\<lambda>c. list_audit_logs_page limit c st) []
     = Inr (map audit_view_of (newest_first au_created au_id (audits st)))"
  unfolding list_audit_logs_page_def walk_map by (drule audit_pages.walk_table [where limit = limit]) (simp del: walk.simps)

section \<open>Searching\<close>

lemma like_rest: "sql_like ''%'' t"
proof -
  have "[] \<in> set (suffixes t)" by simp
  then show ?thesis unfolding sql_like.simps list_ex_iff by (intro if_P [THEN iffD2]) auto
qed

lemma escape_like_Cons:
  "escape_like (c # s) = (if c = CHR ''%'' \<or> c = CHR ''_'' \<or> c = CHR 0x5C then [CHR 0x5C, c] else [c]) @ escape_like s"
  by (simp add: escape_like_def)

lemma like_escaped:
  "sql_like (escape_like q @ ps) t \<longleftrightarrow> (\<exists>b c. t = b @ c \<and> map ascii_lower b = map ascii_lower q \<and> sql_like ps c)"
proof (induction q arbitrary: t)
  case Nil
  show ?case by (simp add: escape_like_def)
next
  case (Cons x q)
  have step: "sql_like (escape_like (x # q) @ ps) t \<longleftrightarrow>
      t \<noteq> [] \<and> ascii_lower (hd t) = ascii_lower x \<and> sql_like (escape_like q @ ps) (tl t)"
    by (simp add: escape_like_Cons)
  show ?case
  proof (cases t)
    case Nil
    then show ?thesis unfolding step by simp
  next
    case t: (Cons y t')
    have "(\<exists>b c. y # t' = b @ c \<and> map ascii_lower b = map ascii_lower (x # q) \<and> sql_like ps c) \<longleftrightarrow>
        ascii_lower y = ascii_lower x \<and> (\<exists>b c. t' = b @ c \<and> map ascii_lower b = map ascii_lower q \<and> sql_like ps c)"
      by (auto simp: Cons_eq_append_conv) (metis append_Cons list.simps(9))+
    then show ?thesis unfolding step Cons.IH unfolding t by simp
  qed
qed


end
