(* ===== verification/Webhook.thy ===== *)
theory Webhook
  imports Deliveries
begin

text \<open>
  \<open>src/internal/webhook\<close>: signing a webhook, the check a receiver makes, and the sender. HMAC-SHA256
  (\<open>mac key text\<close>), the JSON text of a payload, \<open>url.Parse\<close> and the HTTP client are parameters.
\<close>

section \<open>Signatures\<close>

record signed_request =
  sg_timestamp :: string
  sg_nonce :: string
  sg_signature :: string

definition signed_text :: "string \<Rightarrow> string \<Rightarrow> string \<Rightarrow> string" where
  "signed_text timestamp nonce body = timestamp @ ''.'' @ nonce @ ''.'' @ body"

definition sign :: "(string \<Rightarrow> string \<Rightarrow> string) \<Rightarrow> string \<Rightarrow> string \<Rightarrow> instant \<Rightarrow> string \<Rightarrow> signed_request" where
  "sign mac secret body t nonce =
     (let timestamp = show_int (t div second)
      in \<lparr>sg_timestamp = timestamp, sg_nonce = nonce,
          sg_signature = ''v1='' @ hex_encode (mac secret (signed_text timestamp nonce body))\<rparr>)"

text \<open>\<open>Verify\<close>; \<open>None\<close> is success. The timestamp is read and printed again for the expected signature.\<close>

definition verify ::
  "(string \<Rightarrow> string \<Rightarrow> string) \<Rightarrow> string \<Rightarrow> string \<Rightarrow> string \<Rightarrow> string \<Rightarrow> string \<Rightarrow> instant \<Rightarrow> int \<Rightarrow> err option" where
  "verify mac secret body timestamp nonce signature now leeway =
     (if nonce = [] \<or> length nonce > 256 then Some (ErrMsg ''invalid nonce'')
      else (case parse_int64 timestamp of
              None \<Rightarrow> Some (ErrMsg ''invalid timestamp'')
            | Some at \<Rightarrow>
                (let delta = now - at * second
                 in if delta > leeway \<or> delta < - leeway then Some (ErrMsg ''timestamp outside replay window'')
                    else if sg_signature (sign mac secret body (at * second) nonce) \<noteq> signature
                    then Some (ErrMsg ''invalid signature'') else None)))"

definition webhook_headers :: "string \<Rightarrow> string \<Rightarrow> string \<Rightarrow> signed_request \<Rightarrow> (string \<times> string) list" where
  "webhook_headers event delivery key s =
     [(''Content-Type'', ''application/json''), (''X-Bank-Event-Id'', event), (''X-Bank-Delivery-Id'', delivery),
      (''X-Bank-Timestamp'', sg_timestamp s), (''X-Bank-Nonce'', sg_nonce s), (''X-Bank-Key-Id'', key),
      (''X-Bank-Signature'', sg_signature s)]"

definition stable_event_id :: "(string \<Rightarrow> string) \<Rightarrow> string \<Rightarrow> string \<Rightarrow> string \<Rightarrow> string" where
  "stable_event_id sha ns key ty = ''bevt_'' @ hex_encode (take 16 (sha (event_seed ns key ty)))"

definition is_retriable :: "int \<Rightarrow> bool" where
  "is_retriable status \<longleftrightarrow> status = 0 \<or> status = 408 \<or> status = 429 \<or> status \<ge> 500"

definition next_attempt :: "int \<Rightarrow> instant \<Rightarrow> instant" where
  "next_attempt attempt now =
     (let schedule = map (\<lambda>s. s * second) [2, 5, 15, 30, 60, 120, 300, 900];
          a = (if attempt < 0 then 0 else attempt);
          i = (if a \<ge> int (length schedule) then int (length schedule) - 1 else a)
      in now + schedule ! nat i)"

section \<open>Sending\<close>

record http_request =
  hq_url :: string
  hq_headers :: "(string \<times> string) list"
  hq_body :: string

datatype http_reply =
    NetworkError string
  | Reply int "string option"   \<comment> \<open>status, and the body unless reading it fails\<close>

definition failed_send :: "outcome \<Rightarrow> int \<Rightarrow> int \<Rightarrow> string \<Rightarrow> string \<Rightarrow> send_result" where
  "failed_send r status latency code msg =
     \<lparr>rs_outcome = r, rs_code = status, rs_latency = latency, rs_pcode = code, rs_error = msg\<rparr>"

definition webhook_outcome :: "int \<Rightarrow> outcome" where
  "webhook_outcome status =
     (if status \<ge> 200 \<and> status < 300 then Success
      else if status \<ge> 400 \<and> status < 500 \<and> status \<noteq> 408 \<and> status \<noteq> 429 then TerminalFailure
      else Retry)"

text \<open>
  The surroundings of one send: whether the URL check is switched off, the random nonce (absent if
  the system has no randomness), the clock, whether a request can be built for a URL, the client's
  reply and the time it took.
\<close>

record send_env =
  sv_net :: net_lib
  sv_mac :: "string \<Rightarrow> string \<Rightarrow> string"
  sv_json :: "payload \<Rightarrow> string"
  sv_skip :: bool
  sv_nonce :: "string option"
  sv_now :: instant
  sv_buildable :: "string \<Rightarrow> bool"
  sv_do :: "http_request \<Rightarrow> http_reply"
  sv_latency :: int

definition url_error :: "send_env \<Rightarrow> string \<Rightarrow> string option" where
  "url_error sv raw =
     (if sv_skip sv then None
      else (case validate_webhook_url (sv_net sv) raw of Inr _ \<Rightarrow> None | Inl (ErrMsg m) \<Rightarrow> Some m | Inl _ \<Rightarrow> Some []))"

definition webhook_request :: "send_env \<Rightarrow> send_request \<Rightarrow> string \<Rightarrow> http_request" where
  "webhook_request sv rq nonce =
     (let body = sv_json sv (rq_payload rq);
          s = sign (sv_mac sv) (tg_secret (rq_target rq)) body (sv_now sv) nonce
      in \<lparr>hq_url = tg_url (rq_target rq),
          hq_headers = [(''Content-Type'', ''application/json''), (''X-Bank-Event-Id'', rq_event rq),
             (''X-Bank-Delivery-Id'', rq_delivery rq), (''X-Bank-Timestamp'', sg_timestamp s),
             (''X-Bank-Nonce'', sg_nonce s), (''X-Bank-Signature'', sg_signature s)],
          hq_body = body\<rparr>)"

definition webhook_send :: "send_env \<Rightarrow> send_request \<Rightarrow> send_result" where
  "webhook_send sv rq =
     (case url_error sv (tg_url (rq_target rq)) of
        Some m \<Rightarrow> failed_send TerminalFailure 0 0 ''INVALID_URL'' m
      | None \<Rightarrow>
          (case sv_nonce sv of
             None \<Rightarrow> failed_send Retry 0 0 ''NONCE_ERROR'' ''failed to generate nonce''
           | Some bytes \<Rightarrow>
               if \<not> sv_buildable sv (tg_url (rq_target rq))
               then failed_send TerminalFailure 0 0 ''INVALID_REQUEST'' ''failed to create request''
               else (case sv_do sv (webhook_request sv rq (hex_encode bytes)) of
                       NetworkError m \<Rightarrow> failed_send Retry 0 (sv_latency sv) ''NETWORK_ERROR'' (take 500 m)
                     | Reply status _ \<Rightarrow>
                         if webhook_outcome status = Success
                         then failed_send Success status (sv_latency sv) [] []
                         else failed_send (webhook_outcome status) status (sv_latency sv)
                                (''HTTP_'' @ show_int status) (''endpoint returned HTTP '' @ show_int status))))"

section \<open>Registry and webhook dispatcher\<close>

type_synonym registry = "string \<Rightarrow> (send_request \<Rightarrow> send_result) option"

definition new_registry :: registry where "new_registry = (\<lambda>_. None)"

definition register :: "string \<Rightarrow> (send_request \<Rightarrow> send_result) \<Rightarrow> registry \<Rightarrow> registry" where
  "register provider s r = r(provider := Some s)"

record webhook_dispatcher =
  wd_inner :: dispatcher
  wd_max :: int

definition new_webhook_dispatcher :: "send_env \<Rightarrow> webhook_dispatcher" where
  "new_webhook_dispatcher sv =
     \<lparr>wd_inner = new_dispatcher (register ''WEBHOOK'' (webhook_send (sv\<lparr>sv_skip := False\<rparr>)) new_registry), wd_max = 0\<rparr>"

definition wd_set_max_retries :: "int \<Rightarrow> webhook_dispatcher \<Rightarrow> webhook_dispatcher" where
  "wd_set_max_retries n d = d\<lparr>wd_max := n, wd_inner := set_max_retries n (wd_inner d)\<rparr>"

definition wd_dispatch_one ::
  "vault \<Rightarrow> keyring option \<Rightarrow> webhook_dispatcher \<Rightarrow> dispatch_env \<Rightarrow> store \<Rightarrow> (bool \<times> err option) \<times> store" where
  "wd_dispatch_one v kr d en st =
     dispatch_one v kr (if wd_max d > 0 then set_max_retries (wd_max d) (wd_inner d) else wd_inner d) en st"

section \<open>Properties\<close>

lemma verify_None:
  "verify mac secret body timestamp nonce signature now leeway = None \<longleftrightarrow>
     nonce \<noteq> [] \<and> length nonce \<le> 256 \<and>
     (\<exists>at. parse_int64 timestamp = Some at \<and> now - at * second \<le> leeway \<and> - leeway \<le> now - at * second \<and>
        signature = ''v1='' @ hex_encode (mac secret (signed_text (show_int at) nonce body)))"
  by (auto simp: verify_def Let_def sign_def second_def split: option.splits)

text \<open>What the sender signs, a receiver with the secret accepts within the replay window.\<close>

lemma verify_sign:
  assumes "nonce \<noteq> []" "length nonce \<le> 256" "- (2 ^ 63) \<le> t div second" "t div second < 2 ^ 63"
    and "now - t div second * second \<le> leeway" "- leeway \<le> now - t div second * second"
  shows "let s = sign mac secret body t nonce
    in verify mac secret body (sg_timestamp s) (sg_nonce s) (sg_signature s) now leeway = None"
  using assms parse_show_int [of "t div second"] by (simp add: Let_def verify_None sign_def)

lemma dot_split: "CHR ''.'' \<notin> set a \<Longrightarrow> CHR ''.'' \<notin> set b \<Longrightarrow> a @ ''.'' @ x = b @ ''.'' @ y \<Longrightarrow> a = b \<and> x = y"
proof (induction a arbitrary: b)
  case (Cons x a)
  then show ?case by (cases b) auto
next
  case Nil
  then show ?case by (cases b) auto
qed

lemma show_int_no_dot: "CHR ''.'' \<notin> set (show_int i)"
proof -
  have "CHR ''.'' \<notin> set (show_nat n)" for n
    using show_nat_digits [of n] by (auto simp: list_all_iff is_digit_def)
  then show ?thesis by (simp add: show_int_def)
qed

lemma show_int_inj64:
  "- (2 ^ 63) \<le> a \<Longrightarrow> a < 2 ^ 63 \<Longrightarrow> - (2 ^ 63) \<le> b \<Longrightarrow> b < 2 ^ 63 \<Longrightarrow> show_int a = show_int b \<Longrightarrow> a = b"
  by (metis option.inject parse_show_int)

lemma parse_int64_range: "parse_int64 s = Some v \<Longrightarrow> - (2 ^ 63) \<le> v \<and> v < 2 ^ 63"
  by (auto simp: parse_int64_def Let_def split: if_splits)

lemma signed_text_inj:
  assumes "CHR ''.'' \<notin> set n" "CHR ''.'' \<notin> set n'"
    and "signed_text (show_int a) n body = signed_text (show_int a') n' body'"
  shows "show_int a = show_int a' \<and> n = n' \<and> body = body'"
proof -
  have "show_int a = show_int a' \<and> n @ ''.'' @ body = n' @ ''.'' @ body'"
    using assms(3) by (intro dot_split show_int_no_dot) (simp add: signed_text_def)
  then show ?thesis using dot_split [OF assms(1,2)] by blast
qed

text \<open>
  Property C24. What a signature binds: if one signature is accepted under the same secret with two
  nonces free of dots, then timestamp, nonce and body are the same, unless exactly these two signed
  texts are a collision of the MAC.
\<close>

theorem signature_binds:
  assumes "verify mac secret body ts nonce sig now leeway = None"
    and "verify mac secret body' ts' nonce' sig now' leeway' = None"
    and "CHR ''.'' \<notin> set nonce" and "CHR ''.'' \<notin> set nonce'"
  shows "\<exists>a a'. parse_int64 ts = Some a \<and> parse_int64 ts' = Some a'
    \<and> mac secret (signed_text (show_int a) nonce body) = mac secret (signed_text (show_int a') nonce' body')
    \<and> (signed_text (show_int a) nonce body = signed_text (show_int a') nonce' body'
         \<longleftrightarrow> a = a' \<and> nonce = nonce' \<and> body = body')"
proof -
  obtain a a' where a: "parse_int64 ts = Some a" "parse_int64 ts' = Some a'"
    "mac secret (signed_text (show_int a) nonce body) = mac secret (signed_text (show_int a') nonce' body')"
    using assms(1,2) unfolding verify_None by (auto dest: hex_encode_inj)
  have "a = a' \<and> nonce = nonce' \<and> body = body'"
    if "signed_text (show_int a) nonce body = signed_text (show_int a') nonce' body'"
  proof -
    from signed_text_inj [OF assms(3,4) that] have "show_int a = show_int a'" "nonce = nonce'" "body = body'" by blast+
    then show ?thesis using show_int_inj64 parse_int64_range [OF a(1)] parse_int64_range [OF a(2)] by blast
  qed
  with a show ?thesis by blast
qed

definition demo_mac :: "string \<Rightarrow> string \<Rightarrow> string" where "demo_mac key text = key @ text"

theorem signature_binds_witness:
  "let s = sign demo_mac ''k'' ''{}'' 0 ''ab'' in parse_int64 (sg_timestamp s) = parse_int64 ''0''"
proof -
  let ?s = "sign demo_mac ''k'' ''{}'' 0 ''ab''"
  have "verify demo_mac ''k'' ''{}'' (sg_timestamp ?s) ''ab'' (sg_signature ?s) 0 0 = None"
    "verify demo_mac ''k'' ''{}'' ''0'' ''ab'' (sg_signature ?s) 0 0 = None"
    by code_simp+
  from signature_binds [OF this] obtain a a' where "parse_int64 (sg_timestamp ?s) = Some a" "parse_int64 ''0'' = Some a'"
    "demo_mac ''k'' (signed_text (show_int a) ''ab'' ''{}'') = demo_mac ''k'' (signed_text (show_int a') ''ab'' ''{}'')"
    "(signed_text (show_int a) ''ab'' ''{}'' = signed_text (show_int a') ''ab'' ''{}'') = (a = a')" by auto
  then show ?thesis by (simp add: Let_def demo_mac_def)
qed

text \<open>
  A receiver that accepts any nonce can be given another split of the signed text: the nonce takes
  the first piece of the body.
\<close>

lemma nonce_boundary_shifts:
  "let s = sign mac secret (x @ ''.'' @ y) 0 ''ab''
   in length x \<le> 200 \<longrightarrow> verify mac secret y (sg_timestamp s) (''ab.'' @ x) (sg_signature s) 0 0 = None"
  using parse_show_int [of 0] by (simp add: Let_def verify_None sign_def signed_text_def)

text \<open>A redirect is retried by the sender, but not retriable for \<open>IsRetriable\<close>.\<close>

lemma redirect_disagrees: "webhook_outcome 302 = Retry \<and> \<not> is_retriable 302"
  by (simp add: webhook_outcome_def is_retriable_def)

lemma webhook_send_request:
  "rs_outcome (webhook_send sv rq) = Success \<Longrightarrow>
   \<exists>bytes status body. sv_nonce sv = Some bytes \<and> sv_do sv (webhook_request sv rq (hex_encode bytes)) = Reply status body
     \<and> 200 \<le> status \<and> status < 300 \<and> rs_code (webhook_send sv rq) = status"
  by (auto simp: webhook_send_def failed_send_def webhook_outcome_def split: option.splits http_reply.splits if_splits)

end
