(* ===== verification/Utf8.thy ===== *)
theory Utf8
  imports Prelude
begin

text \<open>
  Go strings as UTF-8: \<open>utf8.DecodeRuneInString\<close>, the loop \<open>for _, r := range s\<close>, and the conversions
  \<open>[]rune(s)\<close> and \<open>string(runes)\<close>. An invalid byte counts as one replacement rune.
\<close>

definition byte :: "char \<Rightarrow> nat" where "byte c = of_char c"

definition chr_of :: "nat \<Rightarrow> char" where "chr_of n = char_of n"

definition replacement :: nat where "replacement = 65533"

definition cont :: "nat \<Rightarrow> nat \<Rightarrow> char \<Rightarrow> bool" where
  "cont lo hi c \<longleftrightarrow> lo \<le> byte c \<and> byte c \<le> hi"

text \<open>The accepted second bytes, which exclude long forms, surrogates and what is above the last plane.\<close>

definition second_ok :: "nat \<Rightarrow> char \<Rightarrow> bool" where
  "second_ok b c =
     cont (if b = 224 then 160 else if b = 240 then 144 else 128) (if b = 237 then 159 else if b = 244 then 143 else 191) c"

text \<open>The rune at the head of a non-empty string and the rest.\<close>

definition decode_rune :: "string \<Rightarrow> nat \<times> string" where
  "decode_rune s =
     (case s of
        [] \<Rightarrow> (replacement, [])
      | a # r \<Rightarrow>
          (let b = byte a; bad = (replacement, r)
           in if b < 128 then (b, r)
              else if 194 \<le> b \<and> b < 224 then
                (case r of c # r' \<Rightarrow> if cont 128 191 c then ((b - 192) * 64 + (byte c - 128), r') else bad | [] \<Rightarrow> bad)
              else if 224 \<le> b \<and> b < 240 then
                (case r of
                   c # d # r' \<Rightarrow>
                     if second_ok b c \<and> cont 128 191 d
                     then ((b - 224) * 4096 + (byte c - 128) * 64 + (byte d - 128), r') else bad
                 | _ \<Rightarrow> bad)
              else if 240 \<le> b \<and> b < 245 then
                (case r of
                   c # d # e # r' \<Rightarrow>
                     if second_ok b c \<and> cont 128 191 d \<and> cont 128 191 e
                     then ((b - 240) * 262144 + (byte c - 128) * 4096 + (byte d - 128) * 64 + (byte e - 128), r') else bad
                 | _ \<Rightarrow> bad)
              else bad))"

lemma decode_rune_shorter: "s \<noteq> [] \<Longrightarrow> length (snd (decode_rune s)) < length s"
  by (auto simp: decode_rune_def Let_def split: list.splits if_splits)

function runes :: "string \<Rightarrow> nat list" where
  "runes s = (if s = [] then [] else fst (decode_rune s) # runes (snd (decode_rune s)))"
  by pat_completeness auto
termination
  by (relation "measure length") (simp_all add: decode_rune_shorter)

declare runes.simps [simp del]

text \<open>Evaluation takes the ASCII case first, by a case analysis, and without its large numbers.\<close>

definition decode_wide :: "string \<Rightarrow> nat \<times> string" where
  "decode_wide s = decode_rune s"

lemma decode_rune_code [code]:
  "decode_rune s =
     (case s of [] \<Rightarrow> (replacement, []) | a # r \<Rightarrow> (case byte a < 128 of True \<Rightarrow> (byte a, r) | False \<Rightarrow> decode_wide s))"
  by (cases s) (auto simp: decode_rune_def decode_wide_def Let_def split: bool.splits)

lemmas decode_wide_code [code] = decode_rune_def [folded decode_wide_def]


lemma runes_code [code]: "runes s = (case s of [] \<Rightarrow> [] | c # r \<Rightarrow> fst (decode_rune s) # runes (snd (decode_rune s)))"
  by (subst runes.simps) (auto split: list.splits)

definition scalar :: "nat \<Rightarrow> bool" where
  "scalar r \<longleftrightarrow> r < 55296 \<or> (57344 \<le> r \<and> r < 1114112)"

definition encode_rune :: "nat \<Rightarrow> string" where
  "encode_rune r0 =
     (let r = (if scalar r0 then r0 else replacement)
      in if r < 128 then [chr_of r]
         else if r < 2048 then [chr_of (192 + r div 64), chr_of (128 + r mod 64)]
         else if r < 65536 then [chr_of (224 + r div 4096), chr_of (128 + r div 64 mod 64), chr_of (128 + r mod 64)]
         else [chr_of (240 + r div 262144), chr_of (128 + r div 4096 mod 64), chr_of (128 + r div 64 mod 64),
               chr_of (128 + r mod 64)])"

definition encode_wide :: "nat \<Rightarrow> string" where
  "encode_wide r = encode_rune r"

lemma encode_rune_code [code]:
  "encode_rune r = (case r < 128 of True \<Rightarrow> [chr_of r] | False \<Rightarrow> encode_wide r)"
  by (auto simp: encode_wide_def encode_rune_def scalar_def split: bool.splits)

lemmas encode_wide_code [code] = encode_rune_def [folded encode_wide_def]

definition of_runes :: "nat list \<Rightarrow> string" where
  "of_runes rs = concat (map encode_rune rs)"

text \<open>The first \<open>n\<close> runes of a string that has more.\<close>

definition truncate_runes :: "nat \<Rightarrow> string \<Rightarrow> string" where
  "truncate_runes n s = (if length (runes s) > n then of_runes (take n (runes s)) else s)"

section \<open>Round trip\<close>

lemma byte_chr [simp]: "n < 256 \<Longrightarrow> byte (chr_of n) = n"
  by (simp add: byte_def chr_of_def)

lemma byte_less: "byte c < 256"
  by (simp add: byte_def of_char_def)

lemma low_digit: "(a :: nat) < 64 \<Longrightarrow> 128 + a < 256" by simp

lemma split64: "(r :: nat) div 64 * 64 + r mod 64 = r" by (rule div_mult_mod_eq)

lemma div_div_64: "(r :: nat) div 64 div 64 = r div 4096" "(r :: nat) div 4096 div 64 = r div 262144"
  by (simp_all add: div_mult2_eq [symmetric])

lemma decode_encode:
  assumes "scalar r"
  shows "decode_rune (encode_rune r @ t) = (r, t)"
proof -
  have s: "r < 55296 \<or> (57344 \<le> r \<and> r < 1114112)" using assms by (simp add: scalar_def)
  define a b c where "a = r mod 64" and "b = r div 64 mod 64" and "c = r div 4096 mod 64"
  have abc: "a < 64" "b < 64" "c < 64" by (simp_all add: a_def b_def c_def)
  have r2: "r = r div 64 * 64 + a" unfolding a_def by simp
  have r3: "r = r div 4096 * 4096 + b * 64 + a"
    using r2 div_mult_mod_eq [of "r div 64" 64] unfolding div_div_64 b_def by linarith
  have r4: "r = r div 262144 * 262144 + c * 4096 + b * 64 + a"
    using r3 div_mult_mod_eq [of "r div 4096" 64] unfolding div_div_64 c_def by linarith
  consider (one) "r < 128" | (two) "128 \<le> r" "r < 2048" | (three) "2048 \<le> r" "r < 65536" | (four) "65536 \<le> r"
    by linarith
  then show ?thesis
  proof cases
    case one
    then show ?thesis using assms by (simp add: encode_rune_def decode_rune_def)
  next
    case two
    define h where "h = r div 64"
    have h: "2 \<le> h" "h < 32" using two r2 abc(1) unfolding h_def [symmetric] by linarith+
    have "encode_rune r = [chr_of (192 + h), chr_of (128 + a)]"
      using assms two by (simp add: encode_rune_def h_def a_def)
    then show ?thesis using h abc r2 by (simp add: decode_rune_def cont_def h_def [symmetric])
  next
    case three
    define h where "h = r div 4096"
    have h: "h < 16" using three r3 unfolding h_def [symmetric] by linarith
    have r: "r = h * 4096 + b * 64 + a" using r3 by (simp add: h_def)
    have low: "h = 0 \<Longrightarrow> 32 \<le> b" using three r abc by linarith
    have sur: "h = 13 \<Longrightarrow> b < 32" using s three r abc by linarith
    have "encode_rune r = [chr_of (224 + h), chr_of (128 + b), chr_of (128 + a)]"
      using assms three by (simp add: encode_rune_def h_def a_def b_def)
    then show ?thesis using h abc low sur by (auto simp: decode_rune_def second_ok_def cont_def r Let_def)
  next
    case four
    define h where "h = r div 262144"
    have h: "h < 5" using s four r4 unfolding h_def [symmetric] by linarith
    have r: "r = h * 262144 + c * 4096 + b * 64 + a" using r4 by (simp add: h_def)
    have low: "h = 0 \<Longrightarrow> 16 \<le> c" using four r abc by linarith
    have high: "h = 4 \<Longrightarrow> c < 16" using s four r abc by linarith
    have "encode_rune r = [chr_of (240 + h), chr_of (128 + c), chr_of (128 + b), chr_of (128 + a)]"
      using assms four by (simp add: encode_rune_def h_def a_def b_def c_def)
    then show ?thesis using h abc low high by (auto simp: decode_rune_def second_ok_def cont_def r Let_def)
  qed
qed

lemma encode_nonempty: "encode_rune r \<noteq> []"
  by (simp add: encode_rune_def Let_def)

lemma runes_of_runes: "\<forall>r \<in> set rs. scalar r \<Longrightarrow> runes (of_runes rs) = rs"
proof (induction rs)
  case (Cons r rs)
  then show ?case
    using decode_encode [of r "of_runes rs"] encode_nonempty [of r]
    by (subst runes.simps) (simp add: of_runes_def)
qed (simp add: of_runes_def runes.simps)

lemma scalar_parts:
  "h < 32 \<Longrightarrow> u < 64 \<Longrightarrow> scalar (h * 64 + u)"
  "h < 16 \<Longrightarrow> u < 64 \<Longrightarrow> v < 64 \<Longrightarrow> h = 13 \<longrightarrow> u < 32 \<Longrightarrow> scalar (h * 4096 + u * 64 + v)"
  "h < 5 \<Longrightarrow> u < 64 \<Longrightarrow> v < 64 \<Longrightarrow> w < 64 \<Longrightarrow> h = 0 \<longrightarrow> 16 \<le> u \<Longrightarrow> h = 4 \<longrightarrow> u < 16 \<Longrightarrow>
   scalar (h * 262144 + u * 4096 + v * 64 + w)"
proof -
  show "h < 32 \<Longrightarrow> u < 64 \<Longrightarrow> scalar (h * 64 + u)" by (simp add: scalar_def)
  assume a: "h < 16" "u < 64" "v < 64" "h = 13 \<longrightarrow> u < 32"
  consider "h \<le> 12" | "h = 13" | "14 \<le> h" by linarith
  then show "scalar (h * 4096 + u * 64 + v)" using a by cases (simp_all add: scalar_def)
next
  assume a: "h < 5" "u < 64" "v < 64" "w < 64" "h = 0 \<longrightarrow> 16 \<le> u" "h = 4 \<longrightarrow> u < 16"
  consider "h = 0" | "1 \<le> h" "h \<le> 3" | "h = 4" using a(1) by linarith
  then show "scalar (h * 262144 + u * 4096 + v * 64 + w)" using a by cases (simp_all add: scalar_def)
qed

lemma decode_scalar: "scalar (fst (decode_rune s))"
proof -
  have bad: "scalar replacement" "\<And>b. b < 128 \<Longrightarrow> scalar b" by (simp_all add: scalar_def replacement_def)
  have two: "scalar ((byte a - 192) * 64 + (byte c - 128))" if "194 \<le> byte a" "byte a < 224" "cont 128 191 c" for a c
    using that by (intro scalar_parts(1)) (auto simp: cont_def)
  have three: "scalar ((byte a - 224) * 4096 + (byte c - 128) * 64 + (byte d - 128))"
    if "224 \<le> byte a" "byte a < 240" "second_ok (byte a) c" "cont 128 191 d" for a c d
    using that by (intro scalar_parts(2)) (auto simp: second_ok_def cont_def split: if_splits)
  have four: "scalar ((byte a - 240) * 262144 + (byte c - 128) * 4096 + (byte d - 128) * 64 + (byte e - 128))"
    if "240 \<le> byte a" "byte a < 245" "second_ok (byte a) c"
      "cont 128 191 d" "cont 128 191 e" for a c d e
    using that by (intro scalar_parts(3)) (auto simp: second_ok_def cont_def split: if_splits)
  show ?thesis
    unfolding decode_rune_def Let_def
    by (simp add: bad two three four split: list.split)
qed

lemma runes_scalar: "\<forall>r \<in> set (runes s). scalar r"
proof (induction s rule: runes.induct)
  case (1 s)
  show ?case
  proof (cases "s = []")
    case False
    then have "runes s = fst (decode_rune s) # runes (snd (decode_rune s))" by (subst runes.simps) simp
    then show ?thesis using 1 [OF False] decode_scalar [of s] by simp
  qed (simp add: runes.simps)
qed

text \<open>A truncated text has at most the number of runes asked for.\<close>

lemma truncate_runes_bound: "length (runes (truncate_runes n s)) \<le> n"
proof (cases "length (runes s) > n")
  case True
  have "\<forall>r \<in> set (take n (runes s)). scalar r" using runes_scalar [of s] in_set_takeD by metis
  then have "runes (of_runes (take n (runes s))) = take n (runes s)" by (rule runes_of_runes)
  then show ?thesis using True by (simp add: truncate_runes_def)
qed (simp add: truncate_runes_def)

section \<open>Unicode\<close>

text \<open>
  The white space of \<open>unicode.IsSpace\<close>; the tables of letters, digits and lower case are parameters.
  \<open>strings.ToLower\<close> maps every rune, and \<open>strings.EqualFold\<close> with an ASCII text folds ASCII
  letters, the long s and the Kelvin sign.
\<close>

definition is_space_rune :: "nat \<Rightarrow> bool" where
  "is_space_rune r \<longleftrightarrow> (9 \<le> r \<and> r \<le> 13) \<or> r = 32 \<or> r = 133 \<or> r = 160 \<or> r = 5760 \<or> (8192 \<le> r \<and> r \<le> 8202)
     \<or> r = 8232 \<or> r = 8233 \<or> r = 8239 \<or> r = 8287 \<or> r = 12288"

record unicode =
  uc_letter :: "nat \<Rightarrow> bool"
  uc_digit :: "nat \<Rightarrow> bool"
  uc_lower :: "nat \<Rightarrow> nat"

definition utf_lower :: "unicode \<Rightarrow> string \<Rightarrow> string" where
  "utf_lower u s = of_runes (map (uc_lower u) (runes s))"

definition fold_rune :: "nat \<Rightarrow> nat" where
  "fold_rune r = (if 65 \<le> r \<and> r \<le> 90 then r + 32 else if r = 383 then 115 else if r = 8490 then 107 else r)"

lemma fold_rune_code [code]:
  "fold_rune r = (if 65 \<le> r \<and> r \<le> 90 then r + 32 else if int r = 383 then 115 else if int r = 8490 then 107 else r)"
  by (auto simp: fold_rune_def)

definition fold_ascii :: "string \<Rightarrow> string \<Rightarrow> bool" where
  "fold_ascii s t \<longleftrightarrow> map fold_rune (runes s) = map fold_rune (runes t)"

text \<open>The ASCII part of the tables, and tables that have nothing else.\<close>

definition ascii_tables :: "unicode \<Rightarrow> bool" where
  "ascii_tables u \<longleftrightarrow>
     (\<forall>r < 128. uc_lower u r = (if 65 \<le> r \<and> r \<le> 90 then r + 32 else r)
        \<and> uc_digit u r = (48 \<le> r \<and> r \<le> 57)
        \<and> uc_letter u r = ((65 \<le> r \<and> r \<le> 90) \<or> (97 \<le> r \<and> r \<le> 122)))"

definition ascii_unicode :: unicode where
  "ascii_unicode = \<lparr>uc_letter = (\<lambda>r. (65 \<le> r \<and> r \<le> 90) \<or> (97 \<le> r \<and> r \<le> 122)),
     uc_digit = (\<lambda>r. 48 \<le> r \<and> r \<le> 57), uc_lower = (\<lambda>r. if 65 \<le> r \<and> r \<le> 90 then r + 32 else r)\<rparr>"

lemma ascii_unicode_tables: "ascii_tables ascii_unicode"
  by (simp add: ascii_tables_def ascii_unicode_def)

definition ascii_text :: "string \<Rightarrow> bool" where
  "ascii_text s \<longleftrightarrow> list_all (\<lambda>c. byte c < 128) s"

lemma runes_ascii: "ascii_text s \<Longrightarrow> runes s = map byte s"
proof (induction s)
  case Nil
  show ?case by (subst runes.simps) simp
next
  case (Cons c s)
  then have "byte c < 128" "ascii_text s" by (simp_all add: ascii_text_def)
  then have "decode_rune (c # s) = (byte c, s)" by (simp add: decode_rune_def Let_def)
  then show ?case using Cons \<open>ascii_text s\<close> by (subst runes.simps) simp
qed

lemma chr_of_byte [simp]: "chr_of (byte c) = c"
  by (simp add: chr_of_def byte_def)

lemma encode_ascii: "r < 128 \<Longrightarrow> encode_rune r = [chr_of r]"
  by (simp add: encode_rune_def scalar_def)

lemma of_runes_simps [simp]: "of_runes [] = []" "of_runes (r # rs) = encode_rune r @ of_runes rs"
  by (simp_all add: of_runes_def)

text \<open>On ASCII text both operations are those on bytes.\<close>

lemma utf_lower_ascii:
  assumes "ascii_tables u" "ascii_text s"
  shows "utf_lower u s = to_lower s"
proof -
  have "of_runes (map (uc_lower u) (map byte s)) = to_lower s"
    using assms(2)
  proof (induction s)
    case (Cons c s)
    then have "byte c < 128" by (simp add: ascii_text_def)
    then have "uc_lower u (byte c) = (if 65 \<le> byte c \<and> byte c \<le> 90 then byte c + 32 else byte c)"
      using assms(1) by (simp add: ascii_tables_def)
    moreover have "encode_rune (if 65 \<le> byte c \<and> byte c \<le> 90 then byte c + 32 else byte c) = [ascii_lower c]"
      using \<open>byte c < 128\<close> by (simp add: encode_ascii ascii_lower_def byte_def chr_of_def Let_def)
    ultimately show ?case using Cons by (simp add: to_lower_def ascii_text_def)
  qed (simp add: to_lower_def)
  then show ?thesis using runes_ascii [OF assms(2)] by (simp add: utf_lower_def)
qed

end
