(* ===== verification/Bark.thy ===== *)
theory Bark
  imports Webhook Utf8 Rfc3339
begin

text \<open>
  \<open>src/internal/bark\<close>: the text of a push notification for a credit, its configuration from the
  environment, and the sender. The JSON map of an event gives the text at a key, empty when it is
  absent or not a text; reading an opaque payload, marshalling a push, the answer of the Bark
  server and \<open>url.Parse\<close> are parameters.
\<close>

section \<open>Amounts\<close>

definition dong_sign :: string where "dong_sign = [CHR 0xC4, CHR 0x91]"

definition group_thousands :: "string \<Rightarrow> string" where
  "group_thousands s =
     (let l = length s
      in concat (map (\<lambda>i. (if i > 0 \<and> (l - i) mod 3 = 0 then ''.'' else []) @ [s ! i]) [0..<l]))"

definition format_vnd :: "string \<Rightarrow> string" where
  "format_vnd amount =
     (case parse_int64 (trim_space amount) of
        None \<Rightarrow> amount @ dong_sign
      | Some n0 \<Rightarrow>
          (let neg = n0 < 0; n = (if neg then wrap64 (- n0) else n0);
               res = group_thousands (show_int n) @ dong_sign
           in if neg then ''-'' @ res else res))"

section \<open>Masking\<close>

definition is_word :: "char \<Rightarrow> bool" where
  "is_word c \<longleftrightarrow> is_digit c \<or> (65 \<le> byte c \<and> byte c \<le> 90) \<or> (97 \<le> byte c \<and> byte c \<le> 122) \<or> byte c = 95"

definition account_like :: "string \<Rightarrow> bool" where
  "account_like w \<longleftrightarrow> list_all is_digit w \<and> 8 \<le> length w \<and> length w \<le> 20"

text \<open>
  The pattern \<open>\b\d{8,20}\b\<close> matches exactly the maximal runs of word characters that are eight to
  twenty digits.
\<close>

definition mask_word :: "string \<Rightarrow> string" where
  "mask_word w =
     (if account_like w then (if length w \<le> 6 then w else take 3 w @ ''...'' @ drop (length w - 3) w) else w)"

function mask_numbers :: "string \<Rightarrow> string" where
  "mask_numbers s =
     (case s of
        [] \<Rightarrow> []
      | c # r \<Rightarrow> if is_word c then mask_word (takeWhile is_word s) @ mask_numbers (dropWhile is_word s)
                 else c # mask_numbers r)"
  by pat_completeness auto
termination
  by (relation "measure length") (auto simp: length_dropWhile_le less_Suc_eq_le)

declare mask_numbers.simps [simp del]

section \<open>Notification text\<close>

type_synonym event_data = "string \<Rightarrow> string"

definition credit_fields :: "credit_data \<Rightarrow> event_data" where
  "credit_fields d k =
     (if k = ''bank'' then cr_bank d else if k = ''accountMasked'' then cr_masked d
      else if k = ''transactionId'' then cr_txn d else if k = ''transactionNumber'' then cr_number d
      else if k = ''credit'' then cr_credit d else if k = ''debit'' then cr_debit d
      else if k = ''currency'' then cr_currency d else if k = ''transactionDate'' then cr_date d
      else if k = ''transactionDay'' then cr_day d else if k = ''datePrecision'' then cr_precision d
      else if k = ''source'' then cr_source d else if k = ''description'' then cr_desc d
      else if k = ''detectedAt'' then cr_detected d
      else if k = ''balance'' then (case cr_balance d of None \<Rightarrow> [] | Some b \<Rightarrow> b) else [])"

definition event_fields :: "(string \<Rightarrow> event_data option) \<Rightarrow> payload \<Rightarrow> event_data option" where
  "event_fields opaque p = (case p of CreditEvent d \<Rightarrow> Some (credit_fields d) | OpaqueJson s \<Rightarrow> opaque s)"

definition or_else :: "string \<Rightarrow> string \<Rightarrow> string" where
  "or_else s d = (if s = [] then d else s)"

definition trim_slashes :: "string \<Rightarrow> string" where
  "trim_slashes s = rev (dropWhile (\<lambda>c. c = CHR ''/'') (rev s))"

definition bark_title :: "event_data \<Rightarrow> string" where
  "bark_title ev =
     (let amount = format_vnd (or_else (ev ''credit'') ''0'')
      in if ev ''source'' = ''CATCH_UP''
         then [CHR 0xF0, CHR 0x9F, CHR 0x95, CHR 0x93] @ '' ACB +'' @ amount @ ('' (b'' @ [CHR 0xC3, CHR 0xB9] @ '' d'' @ [CHR 0xE1, CHR 0xBB, CHR 0xAF] @ '' li'' @ [CHR 0xE1, CHR 0xBB, CHR 0x87] @ ''u)'')
         else [CHR 0xF0, CHR 0x9F, CHR 0x92, CHR 0xB0] @ '' ACB +'' @ amount)"

definition desc_line :: "event_data \<Rightarrow> bark_config \<Rightarrow> string list" where
  "desc_line ev cfg =
     (let desc = trim_space (ev ''description'')
      in if \<not> bk_desc cfg \<or> desc = [] then []
         else (let masked = mask_numbers desc;
                   shown = (if length (runes masked) > 300 then of_runes (take 300 (runes masked)) @ ''...'' else masked)
               in [(''M'' @ [CHR 0xC3, CHR 0xB4] @ '' t'' @ [CHR 0xE1, CHR 0xBA, CHR 0xA3] @ '': '') @ shown]))"

definition balance_line :: "event_data \<Rightarrow> bark_config \<Rightarrow> string list" where
  "balance_line ev cfg =
     (let bal = trim_space (ev ''balance'')
      in if \<not> bk_balance cfg \<or> bal = [] then [] else [(''S'' @ [CHR 0xE1, CHR 0xBB, CHR 0x91] @ '' d'' @ [CHR 0xC6, CHR 0xB0] @ '': '') @ format_vnd bal])"

text \<open>Layout \<open>02/01/2006 15:04\<close> in the bank's zone.\<close>

definition fmt_local_minute :: "instant \<Rightarrow> string" where
  "fmt_local_minute t =
     (let u = t + default_offset * second; k = sec_of_day u
      in fmt_dmy (day_of u) @ '' '' @ pad_int 2 (k div 3600) @ '':'' @ pad_int 2 (k mod 3600 div 60))"

definition time_line :: "event_data \<Rightarrow> string list" where
  "time_line ev =
     (let raw = ev ''transactionDate''
      in if raw = [] then []
         else [(''Th'' @ [CHR 0xE1, CHR 0xBB, CHR 0x9D] @ ''i gian: '') @ (case parse_rfc3339 raw of Some t \<Rightarrow> fmt_local_minute t | None \<Rightarrow> raw)])"

definition catchup_line :: "event_data \<Rightarrow> string list" where
  "catchup_line ev = (if ev ''source'' = ''CATCH_UP'' then [(''Giao d'' @ [CHR 0xE1, CHR 0xBB, CHR 0x8B] @ ''ch '' @ [CHR 0xC4, CHR 0x91, CHR 0xC6, CHR 0xB0, CHR 0xE1, CHR 0xBB, CHR 0xA3] @ ''c ph'' @ [CHR 0xC3, CHR 0xA1] @ ''t hi'' @ [CHR 0xE1, CHR 0xBB, CHR 0x87] @ ''n trong chu k'' @ [CHR 0xE1, CHR 0xBB, CHR 0xB3] @ '' '' @ [CHR 0xC4, CHR 0x91, CHR 0xE1, CHR 0xBB, CHR 0x93] @ ''ng b'' @ [CHR 0xE1, CHR 0xBB, CHR 0x99] @ '' b'' @ [CHR 0xC3, CHR 0xB9] @ ''.'')] else [])"

definition bark_body :: "event_data \<Rightarrow> bark_config \<Rightarrow> string" where
  "bark_body ev cfg =
     join_with [CHR 0x0A] (desc_line ev cfg @ balance_line ev cfg @ time_line ev @ catchup_line ev)"

definition bark_link :: "event_data \<Rightarrow> bark_config \<Rightarrow> string \<Rightarrow> string" where
  "bark_link ev cfg origin =
     (if bk_link cfg \<and> origin \<noteq> []
      then trim_slashes origin @ ''/transactions'' @ (if ev ''transactionId'' \<noteq> [] then ''/'' @ ev ''transactionId'' else [])
      else [])"

record push =
  pu_key :: string
  pu_title :: string
  pu_body :: string
  pu_group :: string
  pu_sound :: string
  pu_level :: string
  pu_url :: string

definition format_transaction :: "event_data \<Rightarrow> bark_config \<Rightarrow> string \<Rightarrow> string \<Rightarrow> push" where
  "format_transaction ev cfg origin key =
     \<lparr>pu_key = key, pu_title = truncate_runes 120 (bark_title ev), pu_body = truncate_runes 1800 (bark_body ev cfg),
      pu_group = or_else (bk_group cfg) ''ACB'', pu_sound = or_else (bk_sound cfg) ''shake'',
      pu_level = or_else (bk_level cfg) ''timeSensitive'', pu_url = bark_link ev cfg origin\<rparr>"

definition format_test :: "bark_config \<Rightarrow> string \<Rightarrow> push" where
  "format_test cfg key =
     \<lparr>pu_key = key, pu_title = ([CHR 0xE2, CHR 0x9C, CHR 0x85] @ '' Bark '' @ [CHR 0xC4, CHR 0x91, CHR 0xC3, CHR 0xA3] @ '' k'' @ [CHR 0xE1, CHR 0xBA, CHR 0xBF] @ ''t n'' @ [CHR 0xE1, CHR 0xBB, CHR 0x91] @ ''i''), pu_body = (''ACB Transaction Webhook c'' @ [CHR 0xC3, CHR 0xB3] @ '' th'' @ [CHR 0xE1, CHR 0xBB, CHR 0x83] @ '' g'' @ [CHR 0xE1, CHR 0xBB, CHR 0xAD] @ ''i th'' @ [CHR 0xC3, CHR 0xB4] @ ''ng b'' @ [CHR 0xC3, CHR 0xA1] @ ''o t'' @ [CHR 0xE1, CHR 0xBB, CHR 0x9B] @ ''i thi'' @ [CHR 0xE1, CHR 0xBA, CHR 0xBF] @ ''t b'' @ [CHR 0xE1, CHR 0xBB, CHR 0x8B] @ '' n'' @ [CHR 0xC3, CHR 0xA0] @ ''y.''),
      pu_group = or_else (bk_group cfg) ''ACB'', pu_sound = or_else (bk_sound cfg) ''shake'',
      pu_level = or_else (bk_level cfg) ''timeSensitive'', pu_url = []\<rparr>"

section \<open>Configuration\<close>

record bark_env =
  be_server :: string
  be_public :: string
  be_user :: string
  be_password :: string
  be_timeout :: int
  be_group :: string
  be_level :: string
  be_sound :: string

definition bark_configured :: "bark_env \<Rightarrow> bool" where
  "bark_configured c \<longleftrightarrow> trim_space (be_server c) \<noteq> []"

definition validate_bark_env :: "(string \<Rightarrow> url option) \<Rightarrow> bark_env \<Rightarrow> err option" where
  "validate_bark_env parse c =
     (if be_server c = [] then None
      else (case parse (be_server c) of
              None \<Rightarrow> Some (ErrMsg ''BARK_SERVER_URL must be a valid absolute URL (e.g. http://bark:8080)'')
            | Some u \<Rightarrow>
                if u_scheme u = [] \<or> u_host u = [] then Some (ErrMsg ''BARK_SERVER_URL must be a valid absolute URL (e.g. http://bark:8080)'')
                else if u_fragment u \<noteq> [] \<or> u_query u \<noteq> [] \<or> u_user u
                then Some (ErrMsg ''BARK_SERVER_URL must not contain userinfo, query, or fragment'')
                else if be_public c \<noteq> [] \<and>
                  (case parse (be_public c) of None \<Rightarrow> True | Some p \<Rightarrow> u_scheme p = [] \<or> u_host p = [])
                then Some (ErrMsg ''BARK_PUBLIC_URL must be a valid absolute URL (e.g. https://push.example.com)'') else None))"

text \<open>A secret from the environment, overridden by the file that a second variable names.\<close>

definition env_or_file :: "(string \<Rightarrow> string) \<Rightarrow> (string \<Rightarrow> string option) \<Rightarrow> string \<Rightarrow> string" where
  "env_or_file getenv read name =
     (let file = getenv (name @ ''_FILE'')
      in if file \<noteq> [] then (case read file of Some b \<Rightarrow> trim_space b | None \<Rightarrow> trim_space (getenv name))
         else trim_space (getenv name))"

definition load_bark_env ::
  "(string \<Rightarrow> url option) \<Rightarrow> (string \<Rightarrow> int option) \<Rightarrow> (string \<Rightarrow> string) \<Rightarrow> (string \<Rightarrow> string option) \<Rightarrow> bark_env result" where
  "load_bark_env parse scan getenv read =
     (let timeout = (case scan (getenv ''BARK_TIMEOUT_MS'') of
              Some ms \<Rightarrow> if getenv ''BARK_TIMEOUT_MS'' \<noteq> [] \<and> 500 \<le> ms \<and> ms \<le> 15000 then ms else 5000
            | None \<Rightarrow> 5000);
          cfg = \<lparr>be_server = trim_space (getenv ''BARK_SERVER_URL''), be_public = trim_space (getenv ''BARK_PUBLIC_URL''),
             be_user = env_or_file getenv read ''BARK_BASIC_AUTH_USER'',
             be_password = env_or_file getenv read ''BARK_BASIC_AUTH_PASSWORD'',
             be_timeout = timeout * 1000000,
             be_group = or_else (trim_space (getenv ''BARK_DEFAULT_GROUP'')) ''ACB'',
             be_level = or_else (trim_space (getenv ''BARK_DEFAULT_LEVEL'')) ''timeSensitive'',
             be_sound = or_else (trim_space (getenv ''BARK_DEFAULT_SOUND'')) ''shake''\<rparr>
      in if bark_configured cfg
         then (case validate_bark_env parse cfg of Some e \<Rightarrow> Inl e | None \<Rightarrow> Inr cfg) else Inr cfg)"

section \<open>Sending\<close>

text \<open>
  The surroundings of a push: the codec of the push, whether a request can be built, the server,
  the code in its JSON answer (absent when it does not parse), the codec of opaque events.
\<close>

record push_env =
  ps_json :: "push \<Rightarrow> string"
  ps_buildable :: "string \<Rightarrow> bool"
  ps_do :: "http_request \<Rightarrow> http_reply"
  ps_code :: "string \<Rightarrow> int option"
  ps_latency :: int
  ps_opaque :: "string \<Rightarrow> event_data option"
  ps_basic :: "string \<Rightarrow> string \<Rightarrow> string"

definition push_request :: "push_env \<Rightarrow> bark_env \<Rightarrow> push \<Rightarrow> http_request" where
  "push_request ps c p =
     \<lparr>hq_url = trim_slashes (be_server c) @ ''/push'',
      hq_headers = (''Content-Type'', ''application/json'') #
        (if be_user c \<noteq> [] \<or> be_password c \<noteq> [] then [(''Authorization'', ps_basic ps (be_user c) (be_password c))] else []),
      hq_body = ps_json ps p\<rparr>"

definition push_status :: "push_env \<Rightarrow> int \<Rightarrow> string \<Rightarrow> send_result" where
  "push_status ps status body =
     (if status = 418 \<or> status = 401 \<or> status = 403
      then failed_send TerminalFailure status (ps_latency ps) ''BARK_AUTH_FAILED''
             ''Bark server authentication failed (check basic auth credentials)''
      else if status \<ge> 200 \<and> status < 300
      then (case ps_code ps body of
              None \<Rightarrow> failed_send Retry status (ps_latency ps) ''BARK_BAD_RESPONSE'' ''invalid JSON returned from Bark server''
            | Some code \<Rightarrow>
                if code = 200 then failed_send Success status (ps_latency ps) [] []
                else failed_send (if code = 400 \<or> code = 404 \<or> code = 413 \<or> code = 422 then TerminalFailure else Retry)
                       status (ps_latency ps) (''BARK_APP_'' @ show_int code) (''Bark server error '' @ show_int code))
      else failed_send
             (if status = 400 \<or> status = 404 \<or> status = 410 \<or> status = 413 \<or> status = 422 then TerminalFailure else Retry)
             status (ps_latency ps) (''HTTP_'' @ show_int status) (''Bark server returned HTTP '' @ show_int status))"

definition do_push :: "push_env \<Rightarrow> bark_env \<Rightarrow> push \<Rightarrow> send_result" where
  "do_push ps c p =
     (let rq = push_request ps c p
      in if \<not> ps_buildable ps (hq_url rq)
         then failed_send TerminalFailure 0 0 ''INVALID_REQUEST'' ''failed to create HTTP request''
         else (case ps_do ps rq of
                 NetworkError m \<Rightarrow> failed_send Retry 0 (ps_latency ps) ''NETWORK_ERROR'' (take 500 m)
               | Reply status None \<Rightarrow> failed_send Retry status (ps_latency ps) ''READ_ERROR'' ''failed to read response body''
               | Reply status (Some body) \<Rightarrow> push_status ps status (take 65536 body)))"

definition bark_not_configured :: send_result where
  "bark_not_configured = failed_send TerminalFailure 0 0 ''BARK_NOT_CONFIGURED'' ''Bark server URL is not configured''"

definition target_config :: "target \<Rightarrow> bark_config" where
  "target_config tg = (case tg_bark tg of None \<Rightarrow> default_bark | Some c \<Rightarrow> c)"

definition bark_send :: "push_env \<Rightarrow> bark_env \<Rightarrow> string \<Rightarrow> send_request \<Rightarrow> send_result" where
  "bark_send ps c origin rq =
     (if \<not> bark_configured c then bark_not_configured
      else (case event_fields (ps_opaque ps) (rq_payload rq) of
              None \<Rightarrow> failed_send TerminalFailure 0 0 ''MALFORMED_EVENT_PAYLOAD'' ''failed to parse event payload JSON''
            | Some ev \<Rightarrow>
                do_push ps c (format_transaction ev (target_config (rq_target rq)) origin (tg_secret (rq_target rq)))))"

definition bark_send_test :: "push_env \<Rightarrow> bark_env \<Rightarrow> target \<Rightarrow> send_result" where
  "bark_send_test ps c tg =
     (if \<not> bark_configured c then bark_not_configured
      else do_push ps c (format_test (target_config tg) (tg_secret tg)))"

section \<open>Properties\<close>

lemma push_limits:
  "length (runes (pu_title (format_transaction ev cfg origin key))) \<le> 120"
  "length (runes (pu_body (format_transaction ev cfg origin key))) \<le> 1800"
  by (simp_all add: format_transaction_def truncate_runes_bound)

text \<open>The least 64-bit amount is its own negation and keeps a second sign.\<close>

lemma format_min_int64: "format_vnd ''-9223372036854775808'' = ''--9.223.372.036.854.775.808'' @ dong_sign"
  by code_simp

lemma format_example: "format_vnd '' 1250000 '' = ''1.250.000'' @ dong_sign"
  by code_simp

text \<open>No account number is left by the masking: the maximal word runs of the result.\<close>

fun words_of :: "string \<Rightarrow> string \<Rightarrow> string list" where
  "words_of w [] = [rev w]"
| "words_of w (c # s) = (if is_word c then words_of (c # w) s else rev w # words_of [] s)"

lemma words_of_run: "list_all is_word v \<Longrightarrow> words_of w (v @ s) = words_of (rev v @ w) s"
  by (induction v arbitrary: w) auto

lemma words_of_stop: "s = [] \<or> \<not> is_word (hd s) \<Longrightarrow> words_of w s = rev w # tl (words_of [] s)"
  by (cases s) auto

lemma mask_numbers_stop: "s = [] \<or> \<not> is_word (hd s) \<Longrightarrow> mask_numbers s = [] \<or> \<not> is_word (hd (mask_numbers s))"
  by (cases s) (simp_all add: mask_numbers.simps)

lemma digits_words: "list_all is_digit w \<Longrightarrow> list_all is_word w"
  by (auto simp: list_all_iff is_word_def)

lemma masked_no_account: "w \<in> set (words_of [] (mask_numbers s)) \<Longrightarrow> \<not> account_like w"
proof (induction s arbitrary: w rule: mask_numbers.induct)
  case (1 s)
  show ?case
  proof (cases s)
    case Nil
    then have "mask_numbers s = []" by (simp add: mask_numbers.simps)
    with 1(3) show ?thesis by (simp add: account_like_def)
  next
    case (Cons c r)
    show ?thesis
    proof (cases "is_word c")
      case False
      then have "mask_numbers s = c # mask_numbers r" using Cons by (simp add: mask_numbers.simps [of "c # r"])
      then show ?thesis using 1(2) [OF Cons False] 1(3) False by (auto simp: account_like_def)
    next
      case True
      define v where "v = takeWhile is_word s"
      define t where "t = mask_numbers (dropWhile is_word s)"
      have v: "list_all is_word v" by (auto simp: v_def list_all_iff dest: set_takeWhileD)
      have m: "mask_numbers s = mask_word v @ t"
        using True Cons by (simp add: mask_numbers.simps [of "c # r"] v_def t_def)
      have "dropWhile is_word s = [] \<or> \<not> is_word (hd (dropWhile is_word s))" using hd_dropWhile by blast
      then have stop: "t = [] \<or> \<not> is_word (hd t)" unfolding t_def by (rule mask_numbers_stop)
      have rest: "\<not> account_like x" if "x \<in> set (tl (words_of [] t))" for x
        using 1(1) [OF Cons True, of x] that by (cases "words_of [] t") (auto simp: t_def Cons)
      have run: "words_of [] (u @ t) = u # tl (words_of [] t)" if "list_all is_word u" for u
        using words_of_run [OF that, of "[]" t] words_of_stop [OF stop, of "rev u"] by simp
      show ?thesis
      proof (cases "account_like v")
        case False
        then have "mask_word v = v" by (simp add: mask_word_def)
        then show ?thesis using 1(3) m run [OF v] rest False by auto
      next
        case acc: True
        define a z where "a = take 3 v" and "z = drop (length v - 3) v"
        have w: "list_all is_word a" "list_all is_word z"
          using v by (auto simp: a_def z_def list_all_iff dest: in_set_takeD in_set_dropD)
        have l: "length a \<le> 3" "length z \<le> 3" by (simp_all add: a_def z_def)
        have "mask_word v = a @ ''...'' @ z" using acc by (simp add: mask_word_def account_like_def a_def z_def)
        moreover have "\<not> is_word (CHR ''.'')" by (simp add: is_word_def is_digit_def byte_def)
        ultimately have "words_of [] (mask_numbers s) = a # [] # [] # z # tl (words_of [] t)"
          using words_of_run [OF w(1), of "[]" "''...'' @ z @ t"] run [OF w(2)] by (simp add: m)
        then show ?thesis using 1(3) rest l by (auto simp: account_like_def)
      qed
    qed
  qed
qed

end
