(* ===== verification/Voice.thy ===== *)
theory Voice
  imports Prelude
begin

text \<open>
  \<open>src/internal/voicecopy/money_vi.go\<close>: an amount as spoken Vietnamese. A word is its UTF-8 bytes.
  The text can be heard back: \<open>hear\<close> reads the words group by group, and gives the amount for
  every amount below a thousand billion.
\<close>

section \<open>Words\<close>

definition digit_words :: "string list" where
  "digit_words = [''kh'' @ [CHR 0xC3, CHR 0xB4] @ ''ng'',
     ''m'' @ [CHR 0xE1, CHR 0xBB, CHR 0x99] @ ''t'',
     ''hai'',
     ''ba'',
     ''b'' @ [CHR 0xE1, CHR 0xBB, CHR 0x91] @ ''n'',
     ''n'' @ [CHR 0xC4, CHR 0x83] @ ''m'',
     ''s'' @ [CHR 0xC3, CHR 0xA1] @ ''u'',
     ''b'' @ [CHR 0xE1, CHR 0xBA, CHR 0xA3] @ ''y'',
     ''t'' @ [CHR 0xC3, CHR 0xA1] @ ''m'',
     ''ch'' @ [CHR 0xC3, CHR 0xAD] @ ''n'']"

definition w_tram :: string where "w_tram = ''tr'' @ [CHR 0xC4, CHR 0x83] @ ''m''"

definition w_muoi_tens :: string where "w_muoi_tens = ''m'' @ [CHR 0xC6, CHR 0xB0, CHR 0xC6, CHR 0xA1] @ ''i''"

definition w_mot_unit :: string where "w_mot_unit = ''m'' @ [CHR 0xE1, CHR 0xBB, CHR 0x91] @ ''t''"

definition w_tu :: string where "w_tu = ''t'' @ [CHR 0xC6, CHR 0xB0]"

definition w_lam :: string where "w_lam = ''l'' @ [CHR 0xC4, CHR 0x83] @ ''m''"

definition w_muoi :: string where "w_muoi = ''m'' @ [CHR 0xC6, CHR 0xB0, CHR 0xE1, CHR 0xBB, CHR 0x9D] @ ''i''"

definition w_linh :: string where "w_linh = ''linh''"

definition w_nghin :: string where "w_nghin = ''ngh'' @ [CHR 0xC3, CHR 0xAC] @ ''n''"

definition w_trieu :: string where "w_trieu = ''tri'' @ [CHR 0xE1, CHR 0xBB, CHR 0x87] @ ''u''"

definition w_ty :: string where "w_ty = ''t'' @ [CHR 0xE1, CHR 0xBB, CHR 0xB7]"

definition w_dong :: string where "w_dong = [CHR 0xC4, CHR 0x91, CHR 0xE1, CHR 0xBB, CHR 0x93] @ ''ng''"


section \<open>Speaking\<close>

definition read_three_digits :: "int \<Rightarrow> bool \<Rightarrow> string list" where
  "read_three_digits n has_higher =
     (let hundreds = n div 100; tens = n mod 100 div 10; units = n mod 10;
          word = (\<lambda>i. digit_words ! nat i)
      in (if hundreds > 0 \<or> has_higher then [word hundreds, w_tram] else []) @
         (if tens > 1 then
            [word tens, w_muoi_tens] @
            (if units = 1 then [w_mot_unit] else if units = 4 then [w_tu] else if units = 5 then [w_lam]
             else if units > 0 then [word units] else [])
          else if tens = 1 then
            [w_muoi] @ (if units = 5 then [w_lam] else if units > 0 then [word units] else [])
          else if units > 0 then
            (if hundreds > 0 \<or> has_higher then [w_linh, word units] else [word units])
          else []))"

text \<open>The groups of three digits, the lowest first.\<close>

function groups_of :: "int \<Rightarrow> int list" where
  "groups_of v = (if v > 0 then (v mod 1000) # groups_of (v div 1000) else [])"
  by pat_completeness auto
termination
  by (relation "measure nat") auto

declare groups_of.simps [simp del]

definition scale_unit :: "nat \<Rightarrow> string" where
  "scale_unit i = [[], w_nghin, w_trieu, w_ty] ! i"

text \<open>
  The scale of a group; beyond four groups "ty" is repeated, with the trailing space that the
  repetition leaves when a smaller unit precedes it.
\<close>

definition scale_of :: "nat \<Rightarrow> string" where
  "scale_of i =
     (if i < 4 then scale_unit i
      else (let count = i div 3; rem = i mod 3; ties = concat (replicate count (w_ty @ '' ''))
            in if rem > 0 then scale_unit rem @ '' '' @ ties else trim_space ties))"

definition speak_group :: "nat \<Rightarrow> nat \<Rightarrow> int \<Rightarrow> string list" where
  "speak_group n_groups i g =
     (if g = 0 then []
      else (let words = read_three_digits g (Suc i < n_groups)
            in if words = [] then []
               else [join_with '' '' words @ (if scale_of i = [] then [] else '' '' @ scale_of i)]))"

definition speak_vnd :: "int \<Rightarrow> string" where
  "speak_vnd amount =
     (if amount \<le> 0 then digit_words ! 0 @ '' '' @ w_dong
      else (let gs = groups_of amount;
                parts = concat (rev (map (\<lambda>(i, g). speak_group (length gs) i g) (zip [0..<length gs] gs)))
            in if parts = [] then digit_words ! 0 @ '' '' @ w_dong
               else join_with '' '' parts @ '' '' @ w_dong))"

section \<open>Hearing\<close>

text \<open>A listener keeps the amount of the finished groups and the value of the current group.\<close>

fun word_pos :: "string list \<Rightarrow> string \<Rightarrow> nat option" where
  "word_pos [] w = None"
| "word_pos (v # vs) w = (if v = w then Some 0 else map_option Suc (word_pos vs w))"

definition hear_word :: "int \<times> int \<Rightarrow> string \<Rightarrow> int \<times> int" where
  "hear_word s w =
     (let (acc, cur) = s
      in if w = w_tram then (acc, cur * 100)
         else if w = w_muoi_tens then (acc, cur - cur mod 10 + cur mod 10 * 10)
         else if w = w_muoi then (acc, cur + 10)
         else if w = w_mot_unit then (acc, cur + 1)
         else if w = w_tu then (acc, cur + 4)
         else if w = w_lam then (acc, cur + 5)
         else if w = w_linh then s
         else if w = w_nghin then (acc + cur * 1000, 0)
         else if w = w_trieu then (acc + cur * 1000000, 0)
         else if w = w_ty then (acc + cur * 1000000000, 0)
         else if w = w_dong then (acc + cur, 0)
         else (case word_pos digit_words w of Some d \<Rightarrow> (acc, cur + int d) | None \<Rightarrow> s))"

definition hear :: "string \<Rightarrow> int" where
  "hear text = fst (foldl hear_word (0, 0) (split_on (CHR '' '') text))"

lemmas word_defs = w_tram_def w_muoi_tens_def w_muoi_def w_mot_unit_def w_tu_def w_lam_def w_linh_def
  w_nghin_def w_trieu_def w_ty_def w_dong_def

lemma hear_small [simp]:
  "hear_word (a, c) w_tram = (a, c * 100)"
  "hear_word (a, c) w_muoi_tens = (a, c - c mod 10 + c mod 10 * 10)"
  "hear_word (a, c) w_muoi = (a, c + 10)"
  "hear_word (a, c) w_mot_unit = (a, c + 1)"
  "hear_word (a, c) w_tu = (a, c + 4)"
  "hear_word (a, c) w_lam = (a, c + 5)"
  "hear_word (a, c) w_linh = (a, c)"
  "hear_word (a, c) w_dong = (a + c, 0)"
  by (simp_all add: hear_word_def word_defs)

lemma hear_scale: "0 < i \<Longrightarrow> i < 4 \<Longrightarrow> hear_word (a, c) (scale_unit i) = (a + c * 1000 ^ i, 0)"
proof -
  assume "0 < i" "i < 4"
  then have "i = 1 \<or> i = 2 \<or> i = 3" by auto
  then show ?thesis by (elim disjE) (simp_all add: hear_word_def word_defs scale_unit_def)
qed

lemma digit_cases:
  assumes "0 \<le> d" "d < (10 :: int)"
  shows "d \<in> {0, 1, 2, 3, 4, 5, 6, 7, 8, 9}"
  using assms by (simp only: insert_iff empty_iff) presburger

lemma hear_digit [simp]:
  assumes "0 \<le> d" "d < 10"
  shows "hear_word (a, c) (digit_words ! nat d) = (a, c + d)"
  using digit_cases [OF assms]
  by (elim insertE emptyE) (simp_all add: hear_word_def word_defs digit_words_def)

lemma hear_group:
  assumes "0 \<le> n" "n < 1000"
  shows "foldl hear_word (a, 0) (read_three_digits n h) = (a, n)"
proof -
  define x y z where "x = n div 100" and "y = n mod 100 div 10" and "z = n mod 10"
  have "n mod 100 mod 10 = n mod 10" by (rule mod_mod_cancel) simp
  then have "n = 100 * x + 10 * y + z" unfolding x_def y_def z_def
    using div_mult_mod_eq [of n 100] div_mult_mod_eq [of "n mod 100" 10] by linarith
  moreover have "0 \<le> x" "x < 10" "0 \<le> y" "y < 10" "0 \<le> z" "z < 10"
    using assms unfolding x_def y_def z_def by (simp_all add: div_less_iff_less_mult pos_imp_zdiv_nonneg_iff)
  ultimately have n: "n = 100 * x + 10 * y + z" "0 \<le> x" "x < 10" "0 \<le> y" "y < 10" "0 \<le> z" "z < 10" by blast+
  have y: "y mod 10 = y" using n(4,5) by simp
  have "100 * x + y = y + 10 * x * 10" by simp
  then have m: "(100 * x + y) mod 10 = y" by (simp only: mod_mult_self1 y)
  show ?thesis
    unfolding read_three_digits_def Let_def x_def [symmetric] y_def [symmetric] z_def [symmetric]
    using n(2-7) m y hear_digit [of 5, simplified] by (auto simp: n(1) mult.commute [of x])
qed

section \<open>Hearing what was spoken\<close>

fun amount_of :: "int list \<Rightarrow> int" where
  "amount_of [] = 0"
| "amount_of (g # gs) = g + 1000 * amount_of gs"

definition group_words :: "nat \<Rightarrow> nat \<Rightarrow> int \<Rightarrow> string list" where
  "group_words n_groups i g =
     (if g = 0 then [] else read_three_digits g (Suc i < n_groups) @ (if i = 0 then [] else [scale_unit i]))"

fun all_words :: "nat \<Rightarrow> nat \<Rightarrow> int list \<Rightarrow> string list" where
  "all_words n_groups i [] = []"
| "all_words n_groups i (g # gs) = all_words n_groups (Suc i) gs @ group_words n_groups i g"

lemma groups_of_spec:
  "0 \<le> v \<Longrightarrow> amount_of (groups_of v) = v \<and> (\<forall>g \<in> set (groups_of v). 0 \<le> g \<and> g < 1000)"
proof (induction v rule: groups_of.induct)
  case (1 v)
  show ?case
  proof (cases "v > 0")
    case True
    then have "0 \<le> v div 1000" by (simp add: pos_imp_zdiv_nonneg_iff)
    note ih = 1(1) [OF True this]
    have g: "groups_of v = v mod 1000 # groups_of (v div 1000)" using True by (subst groups_of.simps) simp
    have "v mod 1000 + 1000 * (v div 1000) = v" by (rule mod_mult_div_eq)
    then show ?thesis using ih by (simp add: g)
  next
    case False
    then have "v = 0" using 1(2) by simp
    then show ?thesis by (simp add: groups_of.simps)
  qed
qed

lemma groups_of_length: "v < 1000 ^ k \<Longrightarrow> length (groups_of v) \<le> k"
proof (induction k arbitrary: v)
  case 0
  then show ?case by (simp add: groups_of.simps)
next
  case (Suc k)
  then have "v div 1000 < 1000 ^ k" by (simp add: div_less_iff_less_mult)
  then show ?case using Suc.IH by (subst groups_of.simps) simp
qed

lemma hear_high_groups:
  "\<forall>g \<in> set gs. 0 \<le> g \<and> g < 1000 \<Longrightarrow> 0 < i \<Longrightarrow> i + length gs \<le> 4 \<Longrightarrow>
   foldl hear_word (a, 0) (all_words n i gs) = (a + 1000 ^ i * amount_of gs, 0)"
proof (induction gs arbitrary: i)
  case (Cons g gs)
  have "foldl hear_word (a, 0) (all_words n (Suc i) gs) = (a + 1000 ^ Suc i * amount_of gs, 0)"
    using Cons by simp
  moreover have "foldl hear_word (b, 0) (group_words n i g) = (b + g * 1000 ^ i, 0)" for b
    using Cons.prems hear_group [of g] hear_scale [of i] by (simp add: group_words_def)
  ultimately show ?case by (simp add: algebra_simps)
qed simp

lemma hear_all_words:
  assumes "0 \<le> v" "v < 1000 ^ 4"
  shows "foldl hear_word (0, 0) (all_words n 0 (groups_of v) @ [w_dong]) = (v, 0)"
proof (cases "groups_of v")
  case Nil
  then show ?thesis using groups_of_spec [OF assms(1)] by simp
next
  case (Cons g gs)
  have len: "length (groups_of v) \<le> 4" by (rule groups_of_length [OF assms(2)])
  have r: "\<forall>g \<in> set gs. 0 \<le> g \<and> g < 1000" "0 \<le> g" "g < 1000" "v = g + 1000 * amount_of gs"
    using groups_of_spec [OF assms(1)] by (auto simp: Cons)
  have h: "foldl hear_word (0, 0) (all_words n (Suc 0) gs) = (1000 * amount_of gs, 0)"
    using hear_high_groups [OF r(1), of "Suc 0" 0 n] len by (simp add: Cons)
  have "foldl hear_word (b, 0) (group_words n 0 g) = (b, g)" for b
    using hear_group [OF r(2,3), of b "Suc 0 < n"] by (cases "g = 0") (simp_all add: group_words_def)
  moreover have "1000 * amount_of gs + g = v" using r(4) by linarith
  ultimately show ?thesis by (simp add: Cons h)
qed

text \<open>Words have no space, so joining and splitting lose nothing.\<close>

lemma join_append:
  "xs \<noteq> [] \<Longrightarrow> ys \<noteq> [] \<Longrightarrow> join_with d (xs @ ys) = join_with d xs @ d @ join_with d ys"
proof (induction xs rule: induct_list012)
  case (2 x)
  then show ?case by (cases ys) simp_all
qed simp_all

lemma split_join:
  "ws \<noteq> [] \<Longrightarrow> \<forall>w \<in> set ws. CHR '' '' \<notin> set w \<Longrightarrow> split_on (CHR '' '') (join_with '' '' ws) = ws"
  by (induction ws rule: induct_list012) (simp_all add: split_on_no_sep split_on_append)

definition plain_words :: "string list \<Rightarrow> bool" where
  "plain_words ws \<longleftrightarrow> (\<forall>w \<in> set ws. CHR '' '' \<notin> set w)"

lemma plain_simps [simp]:
  "plain_words []" "plain_words (w # ws) \<longleftrightarrow> CHR '' '' \<notin> set w \<and> plain_words ws"
  "plain_words (ws @ vs) \<longleftrightarrow> plain_words ws \<and> plain_words vs"
  by (auto simp: plain_words_def)

lemma plain_vocabulary: "plain_words (digit_words @ [w_tram, w_muoi_tens, w_muoi, w_mot_unit, w_tu, w_lam, w_linh, w_dong])"
  by (simp add: digit_words_def word_defs)

lemma plain_digit: "0 \<le> d \<Longrightarrow> d < 10 \<Longrightarrow> CHR '' '' \<notin> set (digit_words ! nat d)"
proof -
  assume "0 \<le> d" "d < 10"
  then have "nat d < length digit_words" by (simp add: digit_words_def)
  then have "digit_words ! nat d \<in> set digit_words" by simp
  then show ?thesis using plain_vocabulary by (simp add: plain_words_def)
qed

lemma plain_group: "0 \<le> n \<Longrightarrow> n < 1000 \<Longrightarrow> plain_words (read_three_digits n h)"
proof -
  assume n: "0 \<le> n" "n < 1000"
  have d: "0 \<le> n div 100" "n div 100 < 10" "0 \<le> n mod 100 div 10" "n mod 100 div 10 < 10" "0 \<le> n mod 10" "n mod 10 < 10"
    using n by (simp_all add: div_less_iff_less_mult pos_imp_zdiv_nonneg_iff)
  define x y z where "x = n div 100" and "y = n mod 100 div 10" and "z = n mod 10"
  note e = x_def [symmetric] y_def [symmetric] z_def [symmetric]
  show ?thesis
    using plain_vocabulary plain_digit [OF d(1,2)] plain_digit [OF d(3,4)] plain_digit [OF d(5,6)] plain_digit [of 5]
    unfolding read_three_digits_def Let_def e by simp
qed

lemma plain_scale: "0 < i \<Longrightarrow> i < 4 \<Longrightarrow> CHR '' '' \<notin> set (scale_unit i)"
proof -
  assume "0 < i" "i < 4"
  then have "i = 1 \<or> i = 2 \<or> i = 3" by auto
  then show ?thesis by (elim disjE) (simp_all add: word_defs scale_unit_def)
qed

lemma plain_all_words:
  "\<forall>g \<in> set gs. 0 \<le> g \<and> g < 1000 \<Longrightarrow> i + length gs \<le> 4 \<Longrightarrow> plain_words (all_words n i gs)"
proof (induction gs arbitrary: i)
  case (Cons g gs)
  then have "plain_words (all_words n (Suc i) gs)" by simp
  moreover have "plain_words (group_words n i g)"
    using Cons.prems plain_group [of g "Suc i < n"] plain_scale [of i] by (auto simp: group_words_def)
  ultimately show ?case by simp
qed simp

lemma group_nonempty: "0 < n \<Longrightarrow> n < 1000 \<Longrightarrow> read_three_digits n h \<noteq> []"
proof
  assume n: "0 < n" "n < 1000" "read_three_digits n h = []"
  then have "n div 100 \<le> 0" "n mod 100 div 10 \<le> 0" "n mod 10 \<le> 0"
    by (auto simp: read_three_digits_def Let_def split: if_splits)
  moreover have "n mod 100 mod 10 = n mod 10" by (rule mod_mod_cancel) simp
  moreover have "0 \<le> n div 100" using n(1) by (simp add: pos_imp_zdiv_nonneg_iff)
  moreover have "0 \<le> n mod 100 div 10" by (simp add: pos_imp_zdiv_nonneg_iff)
  ultimately show False
    using n(1) div_mult_mod_eq [of n 100] div_mult_mod_eq [of "n mod 100" 10] by linarith
qed

lemma speak_group_words:
  assumes "0 \<le> g" "g < 1000" "i < 4"
  shows "speak_group n i g = (if g = 0 then [] else [join_with '' '' (group_words n i g)])"
proof -
  have "scale_unit i = [] \<longleftrightarrow> i = 0"
  proof -
    have "i = 0 \<or> i = 1 \<or> i = 2 \<or> i = 3" using assms(3) by auto
    then show ?thesis by (elim disjE) (simp_all add: scale_unit_def word_defs)
  qed
  then show ?thesis
    using assms group_nonempty [of g] by (auto simp: speak_group_def group_words_def Let_def scale_of_def join_append)
qed

definition spoken_parts :: "nat \<Rightarrow> nat \<Rightarrow> int list \<Rightarrow> string list" where
  "spoken_parts n i gs = concat (rev (map (\<lambda>(i, g). speak_group n i g) (zip [i..<i + length gs] gs)))"

lemma speak_vnd_parts:
  "0 < v \<Longrightarrow> speak_vnd v =
     (if spoken_parts (length (groups_of v)) 0 (groups_of v) = [] then digit_words ! 0 @ '' '' @ w_dong
      else join_with '' '' (spoken_parts (length (groups_of v)) 0 (groups_of v)) @ '' '' @ w_dong)"
  unfolding speak_vnd_def spoken_parts_def Let_def add_0 by (rule if_not_P) simp

lemma spoken_parts_Cons: "spoken_parts n i (g # gs) = spoken_parts n (Suc i) gs @ speak_group n i g"
proof -
  have "i + length (g # gs) = Suc i + length gs" by simp
  then have "[i..<i + length (g # gs)] = i # [Suc i..<Suc i + length gs]"
    using upt_conv_Cons [of i "Suc i + length gs"] by simp
  then show ?thesis by (simp add: spoken_parts_def)
qed

lemma spoken_parts_words:
  "\<forall>g \<in> set gs. 0 \<le> g \<and> g < 1000 \<Longrightarrow> i + length gs \<le> 4 \<Longrightarrow>
   (spoken_parts n i gs = [] \<longleftrightarrow> all_words n i gs = []) \<and> join_with '' '' (spoken_parts n i gs) = join_with '' '' (all_words n i gs)"
proof (induction gs arbitrary: i)
  case Nil
  show ?case by (simp add: spoken_parts_def)
next
  case (Cons g gs)
  note g = speak_group_words [of g i n]
  have e: "group_words n i g = [] \<longleftrightarrow> g = 0"
    using Cons.prems group_nonempty [of g] by (auto simp: group_words_def)
  have ih: "(spoken_parts n (Suc i) gs = [] \<longleftrightarrow> all_words n (Suc i) gs = []) \<and>
      join_with '' '' (spoken_parts n (Suc i) gs) = join_with '' '' (all_words n (Suc i) gs)"
    using Cons by simp
  show ?case
  proof (cases "g = 0 \<or> spoken_parts n (Suc i) gs = []")
    case True
    then show ?thesis using ih e g Cons.prems by (auto simp: spoken_parts_Cons)
  next
    case False
    then show ?thesis using ih e g Cons.prems by (simp add: spoken_parts_Cons join_append)
  qed
qed

text \<open>
  Property C25. A spoken amount is unambiguous: whoever hears the words of an amount below a thousand
  billion, group by group, understands that amount.
\<close>

theorem hear_speak:
  assumes "0 \<le> v" and "v < 1000000000000"
  shows "hear (speak_vnd v) = v"
proof (cases "v = 0")
  case True
  have "hear (digit_words ! 0 @ '' '' @ w_dong) = 0" by code_simp
  then show ?thesis by (simp add: True speak_vnd_def)
next
  case False
  let ?n = "length (groups_of v)"
  let ?w = "all_words ?n 0 (groups_of v)"
  note s = groups_of_spec [OF assms(1)]
  have len: "?n \<le> 4" using assms(2) by (intro groups_of_length) simp
  have j: "(spoken_parts ?n 0 (groups_of v) = [] \<longleftrightarrow> ?w = []) \<and>
      join_with '' '' (spoken_parts ?n 0 (groups_of v)) = join_with '' '' ?w"
    using s len by (intro spoken_parts_words) simp_all
  have heard: "foldl hear_word (0, 0) (?w @ [w_dong]) = (v, 0)" using assms by (intro hear_all_words) simp_all
  have ne: "?w \<noteq> []" using heard False by auto
  have "speak_vnd v = join_with '' '' ?w @ '' '' @ w_dong"
    using j ne assms False by (simp add: speak_vnd_parts)
  then have "speak_vnd v = join_with '' '' (?w @ [w_dong])" using ne by (simp add: join_append)
  moreover have "plain_words (?w @ [w_dong])"
    using plain_all_words [of "groups_of v" 0 ?n] s len plain_vocabulary by simp
  ultimately have "split_on (CHR '' '') (speak_vnd v) = ?w @ [w_dong]"
    using split_join [of "?w @ [w_dong]"] by (simp add: plain_words_def)
  then show ?thesis using heard by (simp add: hear_def)
qed

theorem hear_speak_witness: "hear (speak_vnd 1005021) = 1005021"
  by (rule hear_speak) simp_all

text \<open>From a thousand billion on, the scale ends in a space, and two spaces follow one another.\<close>

lemma speak_double_space:
  "speak_vnd 1000000000000 = digit_words ! 1 @ '' '' @ w_nghin @ '' '' @ w_ty @ ''  '' @ w_dong"
  by code_simp

lemma speak_examples:
  "speak_vnd 500000 = digit_words ! 5 @ '' '' @ w_tram @ '' '' @ w_nghin @ '' '' @ w_dong"
  by code_simp

end
