(* ===== verification/Announce.thy ===== *)
theory Announce
  imports Voice Utf8
begin

text \<open>
  \<open>src/internal/voicecopy/announcement.go\<close>: the phrases that are synthesised for a credit. The
  Unicode categories of letters and digits are parameters.
\<close>

text \<open>\<open>https?://\S+\<close>, each match replaced by a space; \<open>\S\<close> excludes ASCII white space only.\<close>

definition re_space :: "char \<Rightarrow> bool" where
  "re_space c \<longleftrightarrow> c = CHR 0x09 \<or> c = CHR 0x0A \<or> c = CHR 0x0C \<or> c = CHR 0x0D \<or> c = CHR '' ''"

definition url_prefix_len :: "string \<Rightarrow> nat option" where
  "url_prefix_len s =
     (if has_prefix s ''https://'' \<and> drop 8 s \<noteq> [] \<and> \<not> re_space (hd (drop 8 s)) then Some 8
      else if has_prefix s ''http://'' \<and> drop 7 s \<noteq> [] \<and> \<not> re_space (hd (drop 7 s)) then Some 7 else None)"

function strip_urls :: "string \<Rightarrow> string" where
  "strip_urls s =
     (case s of
        [] \<Rightarrow> []
      | c # r \<Rightarrow>
          (case url_prefix_len s of
             Some n \<Rightarrow> CHR '' '' # strip_urls (dropWhile (\<lambda>x. \<not> re_space x) (drop n s))
           | None \<Rightarrow> c # strip_urls r))"
  by pat_completeness auto
termination
proof (relation "measure length", goal_cases)
  case (3 s c r n)
  have "length (dropWhile (\<lambda>x. \<not> re_space x) (drop n s)) \<le> length s - n"
    using length_dropWhile_le [of "\<lambda>x. \<not> re_space x" "drop n s"] by simp
  moreover have "0 < n" using 3(2) by (auto simp: url_prefix_len_def split: if_splits)
  ultimately show ?case using 3(1) by simp
qed auto

declare strip_urls.simps [simp del]

definition spoken_rune :: "unicode \<Rightarrow> nat \<Rightarrow> bool" where
  "spoken_rune u r \<longleftrightarrow> uc_letter u r \<or> uc_digit u r \<or> is_space_rune r \<or> r = 44 \<or> r = 46 \<or> r = 45"

text \<open>\<open>strings.Fields\<close> on runes.\<close>

fun fields :: "nat list \<Rightarrow> nat list \<Rightarrow> nat list list" where
  "fields w [] = (if w = [] then [] else [rev w])"
| "fields w (r # rs) =
     (if is_space_rune r then (if w = [] then fields [] rs else rev w # fields [] rs) else fields (r # w) rs)"

fun join_runes :: "nat list list \<Rightarrow> nat list" where
  "join_runes [] = []"
| "join_runes [w] = w"
| "join_runes (w # v # ws) = w @ 32 # join_runes (v # ws)"

definition sanitize_runes :: "unicode \<Rightarrow> string \<Rightarrow> nat list" where
  "sanitize_runes u desc =
     join_runes (fields [] (map (\<lambda>r. if spoken_rune u r then r else 32) (runes (strip_urls desc))))"

definition sanitize_description :: "unicode \<Rightarrow> string \<Rightarrow> int \<Rightarrow> string" where
  "sanitize_description u desc max_length0 =
     (if desc = [] then []
      else (let max_length = nat (if max_length0 \<le> 0 then 80 else max_length0);
                cleaned = of_runes (sanitize_runes u desc)
            in if length (runes cleaned) > max_length then trim_space (of_runes (take max_length (runes cleaned)))
               else cleaned))"

definition credit_announcement :: "unicode \<Rightarrow> int \<Rightarrow> string \<Rightarrow> bool \<Rightarrow> string" where
  "credit_announcement u amount desc include_desc =
     (let phrase = (''B'' @ [CHR 0xE1, CHR 0xBA, CHR 0xA1] @ ''n v'' @ [CHR 0xE1, CHR 0xBB, CHR 0xAB] @ ''a nh'' @ [CHR 0xE1, CHR 0xBA, CHR 0xAD] @ ''n '' @ [CHR 0xC4, CHR 0x91, CHR 0xC6, CHR 0xB0, CHR 0xE1, CHR 0xBB, CHR 0xA3] @ ''c '') @ speak_vnd amount @ ''.''
      in if include_desc \<and> trim_space desc \<noteq> []
         then (let sanitized = sanitize_description u desc 80
               in if sanitized \<noteq> [] then phrase @ ('' N'' @ [CHR 0xE1, CHR 0xBB, CHR 0x99] @ ''i dung: '') @ sanitized @ ''.'' else phrase)
         else phrase)"

definition burst_announcement :: "int \<Rightarrow> int \<Rightarrow> string" where
  "burst_announcement count amount =
     (''B'' @ [CHR 0xE1, CHR 0xBA, CHR 0xA1] @ ''n v'' @ [CHR 0xE1, CHR 0xBB, CHR 0xAB] @ ''a nh'' @ [CHR 0xE1, CHR 0xBA, CHR 0xAD] @ ''n '' @ [CHR 0xC4, CHR 0x91, CHR 0xC6, CHR 0xB0, CHR 0xE1, CHR 0xBB, CHR 0xA3] @ ''c '') @ show_int count @ ('' giao d'' @ [CHR 0xE1, CHR 0xBB, CHR 0x8B] @ ''ch m'' @ [CHR 0xE1, CHR 0xBB, CHR 0x9B] @ ''i, t'' @ [CHR 0xE1, CHR 0xBB, CHR 0x95] @ ''ng c'' @ [CHR 0xE1, CHR 0xBB, CHR 0x99] @ ''ng '') @ speak_vnd amount @ ''.''"

section \<open>Properties\<close>

lemma fields_runes: "r \<in> set w' \<Longrightarrow> w' \<in> set (fields w rs) \<Longrightarrow> (r \<in> set w \<or> r \<in> set rs \<and> \<not> is_space_rune r)"
proof (induction rs arbitrary: w)
  case Nil
  then show ?case by (auto split: if_splits)
next
  case (Cons a rs)
  show ?case
  proof (cases "is_space_rune a")
    case True
    then have "w' = rev w \<or> w' \<in> set (fields [] rs)" using Cons.prems(2) by (auto split: if_splits)
    then show ?thesis using Cons.IH [of "[]"] Cons.prems(1) by auto
  next
    case False
    then have "w' \<in> set (fields (a # w) rs)" using Cons.prems(2) by simp
    from Cons.IH [OF Cons.prems(1) this] show ?thesis using False by auto
  qed
qed

lemma join_runes_set: "set (join_runes ws) \<subseteq> insert 32 (\<Union> (set ` set ws))"
  by (induction ws rule: join_runes.induct) auto

text \<open>What is synthesised has letters, digits, single spaces and simple punctuation only.\<close>

lemma sanitize_spoken: "r \<in> set (sanitize_runes u desc) \<Longrightarrow> spoken_rune u r"
proof -
  define rs where "rs = map (\<lambda>r. if spoken_rune u r then r else 32) (runes (strip_urls desc))"
  have sp: "spoken_rune u 32" by (simp add: spoken_rune_def is_space_rune_def)
  then have all: "spoken_rune u x" if "x \<in> set rs" for x using that by (auto simp: rs_def)
  assume "r \<in> set (sanitize_runes u desc)"
  then consider "r = 32" | w where "w \<in> set (fields [] rs)" "r \<in> set w"
    using join_runes_set [of "fields [] rs"] unfolding sanitize_runes_def rs_def [symmetric] by blast
  then show ?thesis
  proof cases
    case 1
    with sp show ?thesis by simp
  next
    case 2
    from fields_runes [OF 2(2,1)] all show ?thesis by simp
  qed
qed

end
