(* ===== verification/Html.thy ===== *)
theory Html
  imports Utf8
begin

text \<open>
  The tree of \<open>golang.org/x/net/html\<close> as \<open>src/internal/acb\<close> reads it: the parser is a parameter, a
  node is a text, an element with its attributes and children, or another node (the document, a
  comment, a doctype) with children. The traversals are those of \<open>parser.go\<close>.
\<close>

datatype node =
    TextNode string
  | ElementNode string "(string \<times> string) list" "node list"
  | OtherNode "node list"

fun node_children :: "node \<Rightarrow> node list" where
  "node_children (TextNode t) = []"
| "node_children (ElementNode d a cs) = cs"
| "node_children (OtherNode cs) = cs"

fun node_attrs :: "node \<Rightarrow> (string \<times> string) list" where
  "node_attrs (ElementNode d a cs) = a"
| "node_attrs n = []"

text \<open>\<open>walk\<close>: the nodes in the order of the visits.\<close>

fun walk_nodes :: "node \<Rightarrow> node list" where
  "walk_nodes (TextNode t) = [TextNode t]"
| "walk_nodes (ElementNode d a cs) = ElementNode d a cs # concat (map walk_nodes cs)"
| "walk_nodes (OtherNode cs) = OtherNode cs # concat (map walk_nodes cs)"

fun is_element :: "string \<Rightarrow> node \<Rightarrow> bool" where
  "is_element tag (ElementNode d a cs) = (d = tag)"
| "is_element tag n = False"

fun text_data :: "node \<Rightarrow> string list" where
  "text_data (TextNode t) = [t]"
| "text_data n = []"

definition all_text :: "node \<Rightarrow> string list" where
  "all_text n = concat (map text_data (walk_nodes n))"

text \<open>\<open>text\<close> joins the texts by spaces, \<open>nodeText\<close> puts a space after each and trims.\<close>

definition text_of :: "node \<Rightarrow> string" where
  "text_of n = join_with '' '' (all_text n)"

definition node_text :: "node \<Rightarrow> string" where
  "node_text n = trim_space (concat (map (\<lambda>t. t @ '' '') (all_text n)))"

definition attr_val :: "node \<Rightarrow> string \<Rightarrow> string" where
  "attr_val n key = (case List.find (\<lambda>(k, v). fold_ascii k key) (node_attrs n) of None \<Rightarrow> [] | Some (k, v) \<Rightarrow> v)"

definition has_attr :: "node \<Rightarrow> string \<Rightarrow> bool" where
  "has_attr n key \<longleftrightarrow> list_ex (\<lambda>(k, v). fold_ascii k key) (node_attrs n)"

text \<open>The cells of the rows that are children of a table or of one of its sections.\<close>

definition row_cells :: "node \<Rightarrow> string list" where
  "row_cells tr = concat (map (\<lambda>c. if is_element ''th'' c \<or> is_element ''td'' c then [trim_space (text_of c)] else []) (node_children tr))"

definition append_row :: "node \<Rightarrow> string list list" where
  "append_row tr = (if row_cells tr = [] then [] else [row_cells tr])"

definition section_rows :: "node \<Rightarrow> string list list" where
  "section_rows n =
     (if is_element ''tr'' n then append_row n
      else if is_element ''tbody'' n \<or> is_element ''thead'' n \<or> is_element ''tfoot'' n
      then concat (map (\<lambda>c. if is_element ''tr'' c then append_row c else []) (node_children n)) else [])"

definition table_rows :: "node \<Rightarrow> string list list" where
  "table_rows table = concat (map section_rows (node_children table))"

lemma table_rows_nonempty: "row \<in> set (table_rows t) \<Longrightarrow> row \<noteq> []"
  by (auto simp: table_rows_def section_rows_def append_row_def split: if_splits)

end
