(* ===== verification/HistoryTable.thy ===== *)
theory HistoryTable
  imports Html
begin

text \<open>
  \<open>src/internal/acb/parser.go\<close>: transactions and navigation of an ACB history page, from the tree of
  the page. Unicode tables and the HTML parser are parameters; a page of the model is its tree.
\<close>

section \<open>Rows\<close>

record acb_txn =
  tr_number :: string
  tr_effective :: string
  tr_at :: string
  tr_debit :: int
  tr_credit :: int
  tr_balance :: "int option"
  tr_desc :: string

text \<open>The columns of a table; \<open>- 1\<close> where there is none.\<close>

record columns =
  co_number :: int
  co_effective :: int
  co_transaction :: int
  co_debit :: int
  co_credit :: int
  co_balance :: int
  co_desc :: int

definition columns_valid :: "columns \<Rightarrow> bool" where
  "columns_valid c \<longleftrightarrow> co_number c \<ge> 0 \<and> co_transaction c \<ge> 0 \<and> co_debit c \<ge> 0 \<and> co_credit c \<ge> 0"

text \<open>\<open>strings.Replacer\<close> with single runes to replace, in one pass over the text.\<close>

definition accents :: "(string \<times> string) list" where
  "accents =
     (map (\<lambda>s. (s, ''a'')) [[CHR 0xC3, CHR 0xA0], [CHR 0xC3, CHR 0xA1], [CHR 0xE1, CHR 0xBA, CHR 0xA3], [CHR 0xC3, CHR 0xA3], [CHR 0xE1, CHR 0xBA, CHR 0xA1], [CHR 0xC4, CHR 0x83], [CHR 0xE1, CHR 0xBA, CHR 0xB1], [CHR 0xE1, CHR 0xBA, CHR 0xAF], [CHR 0xE1, CHR 0xBA, CHR 0xB3], [CHR 0xE1, CHR 0xBA, CHR 0xB5], [CHR 0xE1, CHR 0xBA, CHR 0xB7], [CHR 0xC3, CHR 0xA2], [CHR 0xE1, CHR 0xBA, CHR 0xA7], [CHR 0xE1, CHR 0xBA, CHR 0xA5], [CHR 0xE1, CHR 0xBA, CHR 0xA9], [CHR 0xE1, CHR 0xBA, CHR 0xAB], [CHR 0xE1, CHR 0xBA, CHR 0xAD]] @
      map (\<lambda>s. (s, ''e'')) [[CHR 0xC3, CHR 0xA8], [CHR 0xC3, CHR 0xA9], [CHR 0xE1, CHR 0xBA, CHR 0xBB], [CHR 0xE1, CHR 0xBA, CHR 0xBD], [CHR 0xE1, CHR 0xBA, CHR 0xB9], [CHR 0xC3, CHR 0xAA], [CHR 0xE1, CHR 0xBB, CHR 0x81], [CHR 0xE1, CHR 0xBA, CHR 0xBF], [CHR 0xE1, CHR 0xBB, CHR 0x83], [CHR 0xE1, CHR 0xBB, CHR 0x85], [CHR 0xE1, CHR 0xBB, CHR 0x87]] @
      map (\<lambda>s. (s, ''i'')) [[CHR 0xC3, CHR 0xAC], [CHR 0xC3, CHR 0xAD], [CHR 0xE1, CHR 0xBB, CHR 0x89], [CHR 0xC4, CHR 0xA9], [CHR 0xE1, CHR 0xBB, CHR 0x8B]] @
      map (\<lambda>s. (s, ''o'')) [[CHR 0xC3, CHR 0xB2], [CHR 0xC3, CHR 0xB3], [CHR 0xE1, CHR 0xBB, CHR 0x8F], [CHR 0xC3, CHR 0xB5], [CHR 0xE1, CHR 0xBB, CHR 0x8D], [CHR 0xC3, CHR 0xB4], [CHR 0xE1, CHR 0xBB, CHR 0x93], [CHR 0xE1, CHR 0xBB, CHR 0x91], [CHR 0xE1, CHR 0xBB, CHR 0x95], [CHR 0xE1, CHR 0xBB, CHR 0x97], [CHR 0xE1, CHR 0xBB, CHR 0x99], [CHR 0xC6, CHR 0xA1], [CHR 0xE1, CHR 0xBB, CHR 0x9D], [CHR 0xE1, CHR 0xBB, CHR 0x9B], [CHR 0xE1, CHR 0xBB, CHR 0x9F], [CHR 0xE1, CHR 0xBB, CHR 0xA1], [CHR 0xE1, CHR 0xBB, CHR 0xA3]] @
      map (\<lambda>s. (s, ''u'')) [[CHR 0xC3, CHR 0xB9], [CHR 0xC3, CHR 0xBA], [CHR 0xE1, CHR 0xBB, CHR 0xA7], [CHR 0xC5, CHR 0xA9], [CHR 0xE1, CHR 0xBB, CHR 0xA5], [CHR 0xC6, CHR 0xB0], [CHR 0xE1, CHR 0xBB, CHR 0xAB], [CHR 0xE1, CHR 0xBB, CHR 0xA9], [CHR 0xE1, CHR 0xBB, CHR 0xAD], [CHR 0xE1, CHR 0xBB, CHR 0xAF], [CHR 0xE1, CHR 0xBB, CHR 0xB1]] @
      map (\<lambda>s. (s, ''y'')) [[CHR 0xE1, CHR 0xBB, CHR 0xB3], [CHR 0xC3, CHR 0xBD], [CHR 0xE1, CHR 0xBB, CHR 0xB7], [CHR 0xE1, CHR 0xBB, CHR 0xB9], [CHR 0xE1, CHR 0xBB, CHR 0xB5]] @
      map (\<lambda>s. (s, ''d'')) [[CHR 0xC4, CHR 0x91]])"

fun replace_at :: "(string \<times> string) list \<Rightarrow> string \<Rightarrow> (string \<times> nat) option" where
  "replace_at [] s = None"
| "replace_at ((a, b) # ps) s = (if has_prefix s a then Some (b, length a) else replace_at ps s)"

fun replace_from :: "nat \<Rightarrow> (string \<times> string) list \<Rightarrow> string \<Rightarrow> string" where
  "replace_from k ps [] = []"
| "replace_from (Suc k) ps (c # s) = replace_from k ps s"
| "replace_from 0 ps (c # s) =
     (case replace_at ps (c # s) of
        Some (b, n) \<Rightarrow> b @ replace_from (n - 1) ps s
      | None \<Rightarrow> c # replace_from 0 ps s)"

definition replace_all :: "(string \<times> string) list \<Rightarrow> string \<Rightarrow> string" where
  "replace_all ps s = replace_from 0 ps s"

definition remove_char :: "char \<Rightarrow> string \<Rightarrow> string" where
  "remove_char c s = filter (\<lambda>x. x \<noteq> c) s"

definition normalized :: "unicode \<Rightarrow> string \<Rightarrow> string" where
  "normalized u raw =
     (let v = replace_all accents (utf_lower u (trim_space raw))
      in remove_char (CHR '' '') (of_runes (filter (\<lambda>r. uc_letter u r \<or> uc_digit u r \<or> r = 32) (runes v))))"

definition set_column :: "string \<Rightarrow> int \<Rightarrow> columns \<Rightarrow> columns" where
  "set_column name i c =
     (if name \<in> set [''sogd'', ''sogiaodich'', ''sogiao dich'', ''transactionnumber''] then c\<lparr>co_number := i\<rparr>
      else if name \<in> set [''ngayhieuluc'', ''effective date''] then c\<lparr>co_effective := i\<rparr>
      else if name \<in> set [''ngaygiaodich'', ''transaction date''] then c\<lparr>co_transaction := i\<rparr>
      else if name \<in> set [''ghino'', ''debit''] then c\<lparr>co_debit := i\<rparr>
      else if name \<in> set [''ghico'', ''credit''] then c\<lparr>co_credit := i\<rparr>
      else if name \<in> set [''sodu'', ''balance''] then c\<lparr>co_balance := i\<rparr>
      else if name \<in> set [''noidunggiaodich'', ''description'', ''content''] then c\<lparr>co_desc := i\<rparr>
      else c)"

fun index_columns :: "unicode \<Rightarrow> int \<Rightarrow> string list \<Rightarrow> columns \<Rightarrow> columns" where
  "index_columns u i [] c = c"
| "index_columns u i (name # names) c = index_columns u (i + 1) names (set_column (normalized u name) i c)"

definition no_columns :: columns where
  "no_columns = \<lparr>co_number = - 1, co_effective = - 1, co_transaction = - 1, co_debit = - 1, co_credit = - 1,
     co_balance = - 1, co_desc = - 1\<rparr>"

definition column_indexes :: "unicode \<Rightarrow> string list \<Rightarrow> columns" where
  "column_indexes u header = index_columns u 0 header no_columns"

text \<open>The columns of the first header row, and the rows after it.\<close>

fun history_header :: "unicode \<Rightarrow> string list list \<Rightarrow> (columns \<times> string list list) option" where
  "history_header u [] = None"
| "history_header u (row # rows) =
     (let c = column_indexes u row in if columns_valid c then Some (c, rows) else history_header u rows)"

section \<open>Amounts\<close>

definition money_rune :: "nat \<Rightarrow> bool" where
  "money_rune r \<longleftrightarrow> r \<in> set [46, 44, 32, 8363, 86, 78, 68, 118, 110, 100]"

lemma money_rune_code [code]:
  "money_rune r \<longleftrightarrow> int r \<in> set [46, 44, 32, 8363, 86, 78, 68, 118, 110, 100]"
  by (auto simp: money_rune_def)

definition parse_money :: "unicode \<Rightarrow> string \<Rightarrow> int result" where
  "parse_money u raw =
     (let v = trim_space (remove_char (CHR '' '') raw)
      in if v = [] \<or> v = ''-'' then Inr 0
         else (let negative = (has_prefix v ''('' \<and> has_suffix v '')'');
                   rs = runes (trim_by (\<lambda>c. c = CHR ''('' \<or> c = CHR '')'') v);
                   ds = filter (uc_digit u) rs
               in if \<not> list_all (\<lambda>r. uc_digit u r \<or> money_rune r) rs then Inl (ErrMsg ''unexpected currency character'')
                  else if ds = [] then Inl (ErrMsg ''missing amount'')
                  else (case parse_int64 (of_runes ds) of
                          None \<Rightarrow> Inl (ErrMsg ''strconv.ParseInt'')
                        | Some n \<Rightarrow> Inr (if negative then - n else n))))"

section \<open>Transactions of a table\<close>

definition get_cell :: "string list \<Rightarrow> int \<Rightarrow> string" where
  "get_cell row i = (if i < 0 \<or> i \<ge> int (length row) then [] else trim_space (row ! nat i))"

definition wrap_err :: "string \<Rightarrow> 'a result \<Rightarrow> 'a result" where
  "wrap_err m r = (case r of Inl e \<Rightarrow> Inl (ErrWrap m e) | Inr x \<Rightarrow> Inr x)"

definition parse_row :: "unicode \<Rightarrow> string list \<Rightarrow> columns \<Rightarrow> acb_txn result" where
  "parse_row u row c =
     rbind (wrap_err ''invalid debit'' (parse_money u (get_cell row (co_debit c)))) (\<lambda>debit.
     rbind (wrap_err ''invalid credit'' (parse_money u (get_cell row (co_credit c)))) (\<lambda>credit.
       if get_cell row (co_number c) = [] \<or> get_cell row (co_transaction c) = []
       then Inl (ErrMsg ''transaction row is missing transaction number or date'')
       else (let t = \<lparr>tr_number = get_cell row (co_number c), tr_effective = get_cell row (co_effective c),
                  tr_at = get_cell row (co_transaction c), tr_debit = debit, tr_credit = credit, tr_balance = None,
                  tr_desc = get_cell row (co_desc c)\<rparr>
             in if get_cell row (co_balance c) = [] then Inr t
                else rbind (wrap_err ''invalid balance'' (parse_money u (get_cell row (co_balance c))))
                       (\<lambda>b. Inr (t\<lparr>tr_balance := Some b\<rparr>)))))"

definition all_blank :: "string list \<Rightarrow> bool" where
  "all_blank row \<longleftrightarrow> list_all (\<lambda>v. trim_space v = []) row"

definition non_blank :: "string list \<Rightarrow> string list" where
  "non_blank row = filter (\<lambda>t. t \<noteq> []) (map trim_space row)"

definition set_last_desc :: "string \<Rightarrow> acb_txn list \<Rightarrow> acb_txn list" where
  "set_last_desc d ts = butlast ts @ [(last ts)\<lparr>tr_desc := d\<rparr>]"

definition empty_markers :: "string list" where
  "empty_markers = [''khong co giao dich'', (''kh'' @ [CHR 0xC3, CHR 0xB4] @ ''ng c'' @ [CHR 0xC3, CHR 0xB3] @ '' giao d'' @ [CHR 0xE1, CHR 0xBB, CHR 0x8B] @ ''ch''), ''no transaction'', ''chua co giao dich'', (''ch'' @ [CHR 0xC6, CHR 0xB0] @ ''a c'' @ [CHR 0xC3, CHR 0xB3] @ '' giao d'' @ [CHR 0xE1, CHR 0xBB, CHR 0x8B] @ ''ch'')]"

definition is_table_footer :: "string \<Rightarrow> bool" where
  "is_table_footer t =
     contains_any t [''trang truoc'', (''trang tr'' @ [CHR 0xC6, CHR 0xB0, CHR 0xE1, CHR 0xBB, CHR 0x9B] @ ''c''), ''trang sau'', ''next'', ''previous'', ''xuat excel'', (''xu'' @ [CHR 0xE1, CHR 0xBA, CHR 0xA5] @ ''t excel'')]"

definition row_text :: "unicode \<Rightarrow> string list \<Rightarrow> string" where
  "row_text u row = utf_lower u (join_with '' '' row)"

text \<open>
  What becomes of a row that is no transaction: the description of the transaction before it, the
  marker of an empty history, a footer, or an error.
\<close>

datatype odd_row = Absorbed | EmptyMarker | Footer | Malformed

definition classify_row :: "unicode \<Rightarrow> acb_txn list \<Rightarrow> string list \<Rightarrow> odd_row" where
  "classify_row u ts row =
     (if ts \<noteq> [] \<and> non_blank row \<noteq> [] \<and> tr_desc (last ts) = [] then Absorbed
      else if contains_any (row_text u row) empty_markers then EmptyMarker
      else if is_table_footer (row_text u row) then Footer else Malformed)"

text \<open>
  Where the table has no column of descriptions, a row after a transaction that is none itself is
  its description, and is skipped.
\<close>

definition next_is_desc :: "unicode \<Rightarrow> columns \<Rightarrow> string list list \<Rightarrow> bool" where
  "next_is_desc u c rows =
     (co_desc c < 0 \<and>
      (case rows of [] \<Rightarrow> False
       | row # _ \<Rightarrow> row \<noteq> [] \<and> \<not> all_blank row \<and> (case parse_row u row c of Inl _ \<Rightarrow> non_blank row \<noteq> [] | Inr _ \<Rightarrow> False)))"

text \<open>
  The loop over the rows: \<open>skip\<close> says that the next row was taken as a description, \<open>seen\<close> that an
  empty-history marker was seen.
\<close>

fun scan_rows :: "unicode \<Rightarrow> columns \<Rightarrow> bool \<Rightarrow> string list list \<Rightarrow> acb_txn list \<Rightarrow> bool \<Rightarrow> (acb_txn list \<times> bool) result" where
  "scan_rows u c skip [] ts seen = Inr (ts, seen)"
| "scan_rows u c skip (row # rows) ts seen =
     (if skip then scan_rows u c False rows ts seen
      else if row = [] \<or> all_blank row then scan_rows u c False rows ts seen
      else (case parse_row u row c of
              Inl e \<Rightarrow>
                (case classify_row u ts row of
                   Absorbed \<Rightarrow> scan_rows u c False rows (set_last_desc (join_with '' '' (non_blank row)) ts) seen
                 | EmptyMarker \<Rightarrow> scan_rows u c False rows ts True
                 | Footer \<Rightarrow> scan_rows u c False rows ts seen
                 | Malformed \<Rightarrow> Inl e)
            | Inr t \<Rightarrow>
                if next_is_desc u c rows
                then scan_rows u c True rows (ts @ [t\<lparr>tr_desc := join_with '' '' (non_blank (hd rows))\<rparr>]) seen
                else scan_rows u c False rows (ts @ [t]) seen))"

text \<open>The loop over the tables; \<open>recognized\<close> and \<open>seen\<close> are remembered from table to table.\<close>

fun scan_tables :: "unicode \<Rightarrow> node list \<Rightarrow> bool \<Rightarrow> bool \<Rightarrow> (acb_txn list \<times> bool \<times> bool) result" where
  "scan_tables u [] recognized seen = Inr ([], recognized, seen)"
| "scan_tables u (table # tables) recognized seen =
     (case history_header u (table_rows table) of
        None \<Rightarrow> scan_tables u tables recognized seen
      | Some (c, rows) \<Rightarrow>
          (case scan_rows u c False rows [] seen of
             Inl e \<Rightarrow> Inl e
           | Inr (ts, seen') \<Rightarrow> if ts \<noteq> [] then Inr (ts, True, seen') else scan_tables u tables True seen'))"

definition tables_of :: "node \<Rightarrow> node list" where
  "tables_of doc = filter (is_element ''table'') (walk_nodes doc)"

definition page_transactions :: "unicode \<Rightarrow> node \<Rightarrow> acb_txn list result" where
  "page_transactions u doc =
     (case scan_tables u (tables_of doc) False False of
        Inl e \<Rightarrow> Inl e
      | Inr (ts, recognized, seen) \<Rightarrow>
          if ts \<noteq> [] then Inr ts
          else if recognized \<and> seen then Inr []
          else if recognized
          then Inl (ErrMsg ''ACB history table has no transactions and no recognized empty-state marker'')
          else Inl (ErrMsg ''ACB history table schema not recognized''))"

end
