(* ===== verification/HistoryForm.thy ===== *)
theory HistoryForm
  imports HistoryTable AcbDate "HOL-Library.AList"
begin

text \<open>
  \<open>src/internal/acb/form.go\<close> and the navigation part of \<open>parser.go\<close>: the form state of an ACB page,
  the query by dates, the next page and the number of rows. The fields of a form are an association
  list; an absent field is the empty text, and a nil map is the empty list.
\<close>

type_synonym fields_map = "(string \<times> string) list"

definition field :: "fields_map \<Rightarrow> string \<Rightarrow> string" where
  "field f k = (case map_of f k of None \<Rightarrow> [] | Some v \<Rightarrow> v)"

definition set_field :: "string \<Rightarrow> string \<Rightarrow> fields_map \<Rightarrow> fields_map" where
  "set_field k v f = AList.update k v f"

definition drop_field :: "string \<Rightarrow> fields_map \<Rightarrow> fields_map" where
  "drop_field k f = AList.delete k f"

lemma field_set [simp]: "field (set_field k v f) j = (if j = k then v else field f j)"
  by (simp add: field_def set_field_def update_conv')

lemma field_drop [simp]: "field (drop_field k f) j = (if j = k then [] else field f j)"
  by (simp add: field_def drop_field_def delete_conv')

lemma field_Nil [simp]: "field [] k = []"
  by (simp add: field_def)

text \<open>
  What the package uses of other code: the Unicode tables, the HTML parser (none for an error),
  \<open>html.UnescapeString\<close>, the host name of a URL, and the resolution of a reference against the
  base URL, which gives the text and the host name of the result.
\<close>

record acb_lib =
  lb_unicode :: unicode
  lb_html :: "string \<Rightarrow> node option"
  lb_unescape :: "string \<Rightarrow> string"
  lb_host :: "string \<Rightarrow> string"
  lb_resolve :: "string \<Rightarrow> (string \<times> string) option"

record form_state =
  fo_action :: string
  fo_fields :: fields_map

section \<open>The form of a page\<close>

definition last_attr :: "(string \<Rightarrow> bool) \<Rightarrow> string \<Rightarrow> node \<Rightarrow> string" where
  "last_attr p init n = foldl (\<lambda>acc (k, v). if p k then v else acc) init (node_attrs n)"

fun element_tag :: "node \<Rightarrow> string option" where
  "element_tag (ElementNode d a cs) = Some d"
| "element_tag n = None"

definition folded_tag :: "string \<Rightarrow> node \<Rightarrow> bool" where
  "folded_tag t n = (case element_tag n of None \<Rightarrow> False | Some d \<Rightarrow> fold_ascii d t)"

definition add_option :: "string option \<times> string \<Rightarrow> node \<Rightarrow> string option \<times> string" where
  "add_option acc opt =
     (let v = last_attr (\<lambda>k. fold_ascii k ''value'') [] opt
      in (if has_attr opt ''selected'' then Some v else fst acc, if snd acc = [] then v else snd acc))"

definition select_value :: "node \<Rightarrow> string option" where
  "select_value sel =
     (case foldl add_option (None, []) (filter (folded_tag ''option'') (walk_nodes sel)) of
        (Some v, _) \<Rightarrow> Some v
      | (None, v) \<Rightarrow> if v \<noteq> [] then Some v else None)"

definition add_control :: "unicode \<Rightarrow> fields_map \<Rightarrow> node \<Rightarrow> fields_map" where
  "add_control u f n =
     (case element_tag n of
        None \<Rightarrow> f
      | Some d \<Rightarrow>
          (let tag = utf_lower u d
           in if tag = ''input'' \<or> tag = ''textarea'' then
                (let name = last_attr (\<lambda>k. utf_lower u k = ''name'') [] n
                 in if name = [] then f else set_field name (last_attr (\<lambda>k. utf_lower u k = ''value'') [] n) f)
              else if tag = ''select'' then
                (let name = last_attr (\<lambda>k. fold_ascii k ''name'') [] n
                 in if name = [] then f else (case select_value n of None \<Rightarrow> f | Some v \<Rightarrow> set_field name v f))
              else f))"

definition extract_fields :: "unicode \<Rightarrow> node \<Rightarrow> form_state" where
  "extract_fields u root =
     \<lparr>fo_action = (if folded_tag ''form'' root then last_attr (\<lambda>k. fold_ascii k ''action'') [] root else []),
      fo_fields = foldl (add_control u) [] (walk_nodes root)\<rparr>"

definition has_state :: "fields_map \<Rightarrow> bool" where
  "has_state f \<longleftrightarrow> field f ''dse_processorState'' \<noteq> [] \<and> field f ''dse_operationName'' \<noteq> []"

definition form_score :: "form_state \<Rightarrow> int" where
  "form_score s =
     1 + (if field (fo_fields s) ''dse_operationName'' = ''ibkacctDetailProc'' then 5 else 0)
       + (if field (fo_fields s) ''dse_nextEventName'' = ''byDate''
            \<or> (field (fo_fields s) ''FromDate'' \<noteq> [] \<and> field (fo_fields s) ''ToDate'' \<noteq> []) then 10 else 0)
       + (if field (fo_fields s) ''AccountNbr'' \<noteq> [] then 2 else 0)"

definition better_form :: "(int \<times> form_state) option \<Rightarrow> form_state \<Rightarrow> (int \<times> form_state) option" where
  "better_form best s =
     (if fo_action s \<noteq> [] \<and> has_state (fo_fields s)
         \<and> (case best of None \<Rightarrow> True | Some (b, _) \<Rightarrow> form_score s > b)
      then Some (form_score s, s) else best)"

definition whole_form :: "unicode \<Rightarrow> node \<Rightarrow> node list \<Rightarrow> form_state" where
  "whole_form u doc forms =
     (let w = extract_fields u doc;
          a = (if fo_action w = [] \<and> forms \<noteq> [] then last_attr (\<lambda>k. fold_ascii k ''action'') [] (hd forms) else fo_action w)
      in w\<lparr>fo_action := (if a = [] then ''/acbib/Request'' else a)\<rparr>)"

definition form_of_page :: "unicode \<Rightarrow> node \<Rightarrow> form_state result" where
  "form_of_page u doc =
     (let forms = filter (folded_tag ''form'') (walk_nodes doc)
      in case foldl better_form None (map (extract_fields u) forms) of
           Some (_, s) \<Rightarrow> Inr s
         | None \<Rightarrow> if has_state (fo_fields (whole_form u doc forms)) then Inr (whole_form u doc forms)
                   else Inl (ErrMsg ''ACB account form state is incomplete''))"

definition extract_history_form :: "acb_lib \<Rightarrow> string \<Rightarrow> form_state result" where
  "extract_history_form lb markup =
     (case lb_html lb markup of None \<Rightarrow> Inl (ErrMsg ''html.Parse'') | Some doc \<Rightarrow> form_of_page (lb_unicode lb) doc)"

section \<open>The query by dates\<close>

definition prepare_range :: "fields_map \<Rightarrow> string \<Rightarrow> string \<Rightarrow> fields_map result" where
  "prepare_range f from_date to_date =
     (if field f ''dse_operationName'' = [] \<or> field f ''dse_processorState'' = []
      then Inl (ErrMsg ''ACB history request is missing current form state'')
      else Inr (drop_field ''YearCurr'' (drop_field ''MonthCurr'' (drop_field ''activeDatetimeByMonth''
             (set_field ''CheckDoiUng'' ''false'' (set_field ''CheckRef'' ''false''
             (set_field ''ToDate'' to_date (set_field ''FromDate'' from_date
             (set_field ''activeDatetimeYN'' ''N'' (set_field ''dse_nextEventName'' ''byDate'' f))))))))))"

text \<open>The location is its offset from UTC in seconds.\<close>

definition prepare_history_fields :: "fields_map \<Rightarrow> instant \<Rightarrow> int option \<Rightarrow> fields_map result" where
  "prepare_history_fields f now location =
     (if field f ''_raw'' = ''true'' then Inr (drop_field ''_raw'' f)
      else (case location of
              None \<Rightarrow> Inl (ErrMsg ''ACB history timezone is required'')
            | Some off \<Rightarrow>
                (let today = fmt_dmy (day_of (now + off * second));
                     explicit = (field f ''_explicitRange'' = ''true'' \<and> field f ''FromDate'' \<noteq> [] \<and> field f ''ToDate'' \<noteq> [])
                 in rbind (prepare_range f (if explicit then field f ''FromDate'' else today)
                             (if explicit then field f ''ToDate'' else today))
                      (\<lambda>r. Inr (drop_field ''_explicitRange'' r)))))"

section \<open>The next page\<close>

definition lowered :: "unicode \<Rightarrow> string \<Rightarrow> string" where
  "lowered u s = utf_lower u (trim_space s)"

definition next_words :: "string list" where
  "next_words = [''trang sau'', ''trang tiep'', (''trang ti'' @ [CHR 0xE1, CHR 0xBA, CHR 0xBF] @ ''p''), (''trang k'' @ [CHR 0xE1, CHR 0xBA, CHR 0xBF]), (''k'' @ [CHR 0xE1, CHR 0xBA, CHR 0xBF] @ '' ti'' @ [CHR 0xE1, CHR 0xBA, CHR 0xBF] @ ''p'')]"

definition is_next :: "unicode \<Rightarrow> node \<Rightarrow> bool" where
  "is_next u n =
     (case element_tag n of
        None \<Rightarrow> False
      | Some d \<Rightarrow>
          utf_lower u d \<in> set [''a'', ''button'', ''input''] \<and>
          (let t = lowered u (node_text n); v = lowered u (attr_val n ''value'');
               class = lowered u (attr_val n ''class''); rel = lowered u (attr_val n ''rel'')
           in rel = ''next'' \<or> contains_any t next_words \<or> contains_any v next_words
              \<or> t = ''next'' \<or> v = ''next'' \<or> t = ''>'' \<or> t = ''>>''
              \<or> contains class ''pagination-next'' \<or> contains class ''next-page''))"

lemma is_next_code [code]:
  "is_next u n =
     (case element_tag n of
        None \<Rightarrow> False
      | Some d \<Rightarrow>
          (case utf_lower u d \<in> set [''a'', ''button'', ''input''] of
             False \<Rightarrow> False
           | True \<Rightarrow>
               (let t = lowered u (node_text n); v = lowered u (attr_val n ''value'');
                    class = lowered u (attr_val n ''class''); rel = lowered u (attr_val n ''rel'')
                in rel = ''next'' \<or> contains_any t next_words \<or> contains_any v next_words
                   \<or> t = ''next'' \<or> v = ''next'' \<or> t = ''>'' \<or> t = ''>>''
                   \<or> contains class ''pagination-next'' \<or> contains class ''next-page'')))"
  by (simp add: is_next_def split: option.split bool.split)

definition usable_next :: "unicode \<Rightarrow> node \<Rightarrow> bool" where
  "usable_next u n =
     (let class = lowered u (attr_val n ''class''); href = trim_space (attr_val n ''href'');
          onclick = trim_space (attr_val n ''onclick'')
      in \<not> (has_attr n ''disabled'' \<or> contains_any class [''disabled'', ''inactive'', ''hidden''])
         \<and> \<not> (is_element ''a'' n \<and> (href = [] \<or> href = ''#'') \<and> onclick = []))"

definition is_quote :: "char \<Rightarrow> bool" where
  "is_quote c \<longleftrightarrow> c = CHR 0x27 \<or> c = CHR 0x22"

definition event_patterns :: "string list" where
  "event_patterns =
     [''dse_nextEventName='' @ [CHR 0x27], ''dse_nextEventName='' @ [CHR 0x22], ''submitEvent('' @ [CHR 0x27],
      ''submitEvent('' @ [CHR 0x22], ''doPage('' @ [CHR 0x27], ''doPage('' @ [CHR 0x22], ''doSubmit('' @ [CHR 0x27],
      ''doSubmit('' @ [CHR 0x22]]"

fun event_name :: "string list \<Rightarrow> string \<Rightarrow> string" where
  "event_name [] s = []"
| "event_name (p # ps) s =
     (case str_index s p of
        None \<Rightarrow> event_name ps s
      | Some i \<Rightarrow>
          (let rem = drop (i + length p) s; w = takeWhile (\<lambda>c. \<not> is_quote c) rem
           in if w \<noteq> [] \<and> length w < length rem then w else event_name ps s))"

definition extract_event_name :: "string \<Rightarrow> string" where
  "extract_event_name s = event_name event_patterns s"

definition next_event :: "node \<Rightarrow> string" where
  "next_event n =
     (if extract_event_name (trim_space (attr_val n ''onclick'')) \<noteq> []
      then extract_event_name (trim_space (attr_val n ''onclick''))
      else if extract_event_name (trim_space (attr_val n ''href'')) \<noteq> []
      then extract_event_name (trim_space (attr_val n ''href'')) else ''nextPage'')"

definition next_navigation :: "acb_lib \<Rightarrow> string \<Rightarrow> node \<Rightarrow> string \<times> fields_map" where
  "next_navigation lb markup n =
     (let u = lb_unicode lb; href = trim_space (attr_val n ''href'');
          action = (if href \<noteq> [] \<and> \<not> has_prefix (utf_lower u href) ''javascript:'' \<and> href \<noteq> ''#'' then href else [])
      in case extract_history_form lb markup of
           Inl _ \<Rightarrow> (action, [])
         | Inr form \<Rightarrow>
             if fo_action form = [] then (action, [])
             else (if action = [] then fo_action form else action,
                   set_field ''dse_nextEventName'' (next_event n) (set_field ''_raw'' ''true'' (fo_fields form))))"

text \<open>
  \<open>extractTotalRows\<close> looks for a label in the lowered text and cuts the text itself at that position,
  which panics where lowering made the text longer.
\<close>

definition total_labels :: "string list" where
  "total_labels = [(''t'' @ [CHR 0xE1, CHR 0xBB, CHR 0x95] @ ''ng s'' @ [CHR 0xE1, CHR 0xBB, CHR 0x91] @ '' d'' @ [CHR 0xC3, CHR 0xB2] @ ''ng:''), (''t'' @ [CHR 0xE1, CHR 0xBB, CHR 0x95] @ ''ng s'' @ [CHR 0xE1, CHR 0xBB, CHR 0x91] @ '' b'' @ [CHR 0xE1, CHR 0xBA, CHR 0xA3] @ ''n ghi:''), (''t'' @ [CHR 0xE1, CHR 0xBB, CHR 0x95] @ ''ng s'' @ [CHR 0xE1, CHR 0xBB, CHR 0x91] @ '' giao d'' @ [CHR 0xE1, CHR 0xBB, CHR 0x8B] @ ''ch:''), ''total rows:'', ''total records:'']"

definition leading_number :: "unicode \<Rightarrow> string \<Rightarrow> int option" where
  "leading_number u s =
     parse_int64 (of_runes (takeWhile (uc_digit u) (dropWhile (\<lambda>r. \<not> uc_digit u r) (runes (trim_space s)))))"

fun find_total :: "unicode \<Rightarrow> string \<Rightarrow> string list \<Rightarrow> int result" where
  "find_total u text [] = Inr 0"
| "find_total u text (l # ls) =
     (case str_index (utf_lower u text) l of
        None \<Rightarrow> find_total u text ls
      | Some i \<Rightarrow>
          if i + length l > length text then Inl (ErrMsg ''panic: slice bounds out of range'')
          else (case leading_number u (drop (i + length l) text) of
                  Some n \<Rightarrow> if n > 0 then Inr n else find_total u text ls
                | None \<Rightarrow> find_total u text ls))"

text \<open>The same search with the text lowered once, for evaluation.\<close>

fun find_lowered :: "unicode \<Rightarrow> string \<Rightarrow> string \<Rightarrow> string list \<Rightarrow> int result" where
  "find_lowered u low text [] = Inr 0"
| "find_lowered u low text (l # ls) =
     (case str_index low l of
        None \<Rightarrow> find_lowered u low text ls
      | Some i \<Rightarrow>
          if i + length l > length text then Inl (ErrMsg ''panic: slice bounds out of range'')
          else (case leading_number u (drop (i + length l) text) of
                  Some n \<Rightarrow> if n > 0 then Inr n else find_lowered u low text ls
                | None \<Rightarrow> find_lowered u low text ls))"

lemma find_total_code [code]: "find_total u text ls = (let low = utf_lower u text in find_lowered u low text ls)"
proof -
  have "find_lowered u (utf_lower u text) text ls = find_total u text ls"
    by (induction ls) (auto split: option.split)
  then show ?thesis by simp
qed

record history_page =
  hp_txns :: "acb_txn list"
  hp_next :: bool
  hp_action :: string
  hp_fields :: fields_map
  hp_total :: int

definition document_text :: "node \<Rightarrow> string" where
  "document_text doc = concat (map (\<lambda>t. t @ '' '') (all_text doc))"

definition detect_pagination :: "acb_lib \<Rightarrow> node \<Rightarrow> string \<Rightarrow> (bool \<times> string \<times> fields_map) \<times> int result" where
  "detect_pagination lb doc markup =
     (let u = lb_unicode lb
      in (case List.find (usable_next u) (filter (is_next u) (walk_nodes doc)) of
            None \<Rightarrow> (False, [], [])
          | Some n \<Rightarrow> (True, next_navigation lb markup n),
          find_total u (document_text doc) total_labels))"

definition parse_history_page :: "acb_lib \<Rightarrow> string \<Rightarrow> history_page result" where
  "parse_history_page lb markup =
     (case lb_html lb markup of
        None \<Rightarrow> Inl (ErrMsg ''html.Parse'')
      | Some doc \<Rightarrow>
          rbind (page_transactions (lb_unicode lb) doc) (\<lambda>ts.
            (case detect_pagination lb doc markup of
               (_, Inl e) \<Rightarrow> Inl e
             | ((nx, action, fs), Inr rows) \<Rightarrow>
                 Inr \<lparr>hp_txns = ts, hp_next = nx, hp_action = action, hp_fields = fs, hp_total = rows\<rparr>)))"

definition parse_history :: "acb_lib \<Rightarrow> string \<Rightarrow> acb_txn list result" where
  "parse_history lb markup = rbind (parse_history_page lb markup) (\<lambda>p. Inr (hp_txns p))"

end
