(* ===== verification/PageKind.thy ===== *)
theory PageKind
  imports HistoryForm
begin

text \<open>
  \<open>src/internal/acb/classify.go\<close>: what kind of page an answer of ACB is, by independent signals in
  its final URL and its unescaped, lowered text.
\<close>

datatype page_kind =
    AccountDetailPage | HistoryPage | LoginPage | OTPChallenge | CaptchaPage | MaintenancePage | UnknownPage

fun kind_text :: "page_kind \<Rightarrow> string" where
  "kind_text AccountDetailPage = ''ACCOUNT_DETAIL_PAGE''"
| "kind_text HistoryPage = ''HISTORY_PAGE''"
| "kind_text LoginPage = ''LOGIN_PAGE''"
| "kind_text OTPChallenge = ''OTP_CHALLENGE''"
| "kind_text CaptchaPage = ''CAPTCHA_PAGE''"
| "kind_text MaintenancePage = ''MAINTENANCE_PAGE''"
| "kind_text UnknownPage = ''UNKNOWN_PAGE''"

definition official_host :: string where "official_host = ''online.acb.com.vn''"

definition maintenance_words :: "string list" where
  "maintenance_words = [(''b'' @ [CHR 0xE1, CHR 0xBA, CHR 0xA3] @ ''o tr'' @ [CHR 0xC3, CHR 0xAC]), ''bao tri'', ''maintenance'']"

definition login_urls :: "string list" where
  "login_urls = [''login.jsp'', ''displaypagenotloginop'', ''obkloginop'', ''/acbib/webmbtt'']"

definition expired_words :: "string list" where
  "expired_words = [(''phi'' @ [CHR 0xC3, CHR 0xAA] @ ''n l'' @ [CHR 0xC3, CHR 0xA0] @ ''m vi'' @ [CHR 0xE1, CHR 0xBB, CHR 0x87] @ ''c '' @ [CHR 0xC4, CHR 0x91, CHR 0xC3, CHR 0xA3] @ '' h'' @ [CHR 0xE1, CHR 0xBA, CHR 0xBF] @ ''t h'' @ [CHR 0xE1, CHR 0xBA, CHR 0xA1] @ ''n''), ''phien lam viec da het han'', (''vui l'' @ [CHR 0xC3, CHR 0xB2] @ ''ng '' @ [CHR 0xC4, CHR 0x91, CHR 0xC4, CHR 0x83] @ ''ng nh'' @ [CHR 0xE1, CHR 0xBA, CHR 0xAD] @ ''p l'' @ [CHR 0xE1, CHR 0xBA, CHR 0xA1] @ ''i''), ''vui long dang nhap lai'']"

definition number_words :: "string list" where
  "number_words = [''sogd'', ''sogiaodich'', ''so gd'', (''s'' @ [CHR 0xE1, CHR 0xBB, CHR 0x91] @ '' gd'')]"

definition debit_words :: "string list" where "debit_words = [''ghino'', ''ghi no'', (''ghi n'' @ [CHR 0xE1, CHR 0xBB, CHR 0xA3])]"

definition credit_words :: "string list" where "credit_words = [''ghico'', ''ghi co'', (''ghi c'' @ [CHR 0xC3, CHR 0xB3])]"

definition login_signals :: "string list" where
  "login_signals = [''username'', (''t'' @ [CHR 0xC3, CHR 0xAA] @ ''n truy c'' @ [CHR 0xE1, CHR 0xBA, CHR 0xAD] @ ''p''), ''ten truy cap'', ''password'', (''m'' @ [CHR 0xE1, CHR 0xBA, CHR 0xAD] @ ''t kh'' @ [CHR 0xE1, CHR 0xBA, CHR 0xA9] @ ''u''), ''mat khau'', ''obkloginop'']"

definition refresh_tags :: "string list" where
  "refresh_tags = [''http-equiv='' @ [CHR 0x22] @ ''refresh'' @ [CHR 0x22], ''http-equiv='' @ [CHR 0x27] @ ''refresh'' @ [CHR 0x27],
     ''http-equiv = '' @ [CHR 0x22] @ ''refresh'' @ [CHR 0x22]]"

definition quoted_attr :: "string \<Rightarrow> string \<Rightarrow> string" where
  "quoted_attr name v = name @ ''='' @ [CHR 0x22] @ v @ [CHR 0x22]"

definition otp_words :: "string list" where
  "otp_words = [(''nh'' @ [CHR 0xE1, CHR 0xBA, CHR 0xAD] @ ''p m'' @ [CHR 0xC3, CHR 0xA3] @ '' otp''), ''nhap ma otp'', (''nh'' @ [CHR 0xE1, CHR 0xBA, CHR 0xAD] @ ''p m'' @ [CHR 0xC3, CHR 0xA3] @ '' safekey''), ''nhap ma safekey'', (''m'' @ [CHR 0xC3, CHR 0xA3] @ '' x'' @ [CHR 0xC3, CHR 0xA1] @ ''c th'' @ [CHR 0xE1, CHR 0xBB, CHR 0xB1] @ ''c otp''), ''ma xac thuc otp'',
     (''x'' @ [CHR 0xC3, CHR 0xA1] @ ''c th'' @ [CHR 0xE1, CHR 0xBB, CHR 0xB1] @ ''c otp''), ''xac thuc otp'', (''x'' @ [CHR 0xC3, CHR 0xA1] @ ''c nh'' @ [CHR 0xE1, CHR 0xBA, CHR 0xAD] @ ''n otp''), ''xac nhan otp'', (''m'' @ [CHR 0xC3, CHR 0xA3] @ '' otp''), ''ma otp'', quoted_attr ''name'' ''otp'',
     quoted_attr ''id'' ''otp'', quoted_attr ''name'' ''safekey'', quoted_attr ''id'' ''safekey'',
     quoted_attr ''name'' ''authcode'', quoted_attr ''id'' ''authcode'']"

definition captcha_words :: "string list" where
  "captcha_words = [(''m'' @ [CHR 0xC3, CHR 0xA3] @ '' x'' @ [CHR 0xC3, CHR 0xA1] @ ''c nh'' @ [CHR 0xE1, CHR 0xBA, CHR 0xAD] @ ''n''), ''ma xac nhan'', (''m'' @ [CHR 0xC3, CHR 0xA3] @ '' ki'' @ [CHR 0xE1, CHR 0xBB, CHR 0x83] @ ''m tra''), ''ma kiem tra'', quoted_attr ''name'' ''captcha'',
     quoted_attr ''id'' ''captcha'']"

text \<open>The decision on the host, the lowered URL and the lowered page.\<close>

definition kind_of_text :: "string \<Rightarrow> string \<Rightarrow> string \<Rightarrow> page_kind" where
  "kind_of_text host url page =
     (if host \<noteq> [] \<and> host \<noteq> official_host then UnknownPage
      else if contains_any page maintenance_words then MaintenancePage
      else if contains_any url login_urls \<or> contains_any page expired_words then LoginPage
      else if contains page ''ibkacctdetailproc'' \<and> contains_any page [''accountnbr'', ''dse_processorstate'']
      then (if contains_any page number_words \<or> (contains_any page debit_words \<and> contains_any page credit_words)
            then HistoryPage else AccountDetailPage)
      else if contains page ''ibkacctsumproc'' \<and> contains_any page [''accountnbr'', ''accountnumber'', ''dse_processorstate'']
      then AccountDetailPage
      else if length (filter (contains page) login_signals) \<ge> 2
        \<or> (contains_any page [''displaypagenotloginop'', ''obkloginop'', ''webmbtt''] \<and> contains_any page refresh_tags)
      then LoginPage
      else if contains_any page otp_words then OTPChallenge
      else if contains_any page captcha_words then CaptchaPage
      else UnknownPage)"

definition classify_page :: "acb_lib \<Rightarrow> string \<Rightarrow> string \<Rightarrow> page_kind" where
  "classify_page lb final_url body =
     (let u = lb_unicode lb
      in kind_of_text (utf_lower u (lb_host lb final_url)) (utf_lower u final_url) (utf_lower u (lb_unescape lb body)))"

section \<open>Properties\<close>

lemma str_index_mid: "str_index (a @ p @ b) p \<noteq> None"
proof (induction a)
  case Nil
  show ?case using has_prefix_append [of p b] by (cases "p @ b") auto
next
  case (Cons c a)
  then show ?case by auto
qed

lemma contains_mid: "contains (a @ p @ b) p"
  using str_index_mid [of a p b] by (simp only: contains_def not_False_eq_True)

lemma contains_any_mid: "p \<in> set ps \<Longrightarrow> contains_any (a @ p @ b) ps"
  using contains_mid by (auto simp: contains_any_def list_ex_iff)

text \<open>A page of another host is never taken for one of the bank.\<close>

lemma foreign_host_unknown:
  "utf_lower (lb_unicode lb) (lb_host lb url) \<noteq> [] \<Longrightarrow> utf_lower (lb_unicode lb) (lb_host lb url) \<noteq> official_host
   \<Longrightarrow> classify_page lb url body = UnknownPage"
  by (simp add: classify_page_def Let_def kind_of_text_def)

text \<open>
  The signal of maintenance goes before all others, and is looked for in the whole page: a history
  page on which some description has the words is taken for a maintenance page.
\<close>

lemma description_stops_monitoring:
  "kind_of_text official_host url (before @ ''bao tri'' @ after) = MaintenancePage"
proof -
  have "contains_any (before @ ''bao tri'' @ after) maintenance_words"
    by (rule contains_any_mid) (simp add: maintenance_words_def)
  then show ?thesis by (simp only: kind_of_text_def if_True simp_thms if_False)
qed

end
