(* ===== verification/Browser.thy ===== *)
theory Browser
  imports Utf8 GoTime Base64 "HOL-Library.AList"
begin

text \<open>
  \<open>src/internal/authbrowser\<close>: the browser state that is handed to the gateway (\<open>cookies.go\<close>), the
  controller of the one interactive browser (\<open>controller.go\<close>) and the HTTP client of the browser
  service (\<open>client.go\<close>). JSON, the browser process and the HTTP transport are parameters.
\<close>

section \<open>Handoff\<close>

text \<open>An expiry is the text of the instant, empty for a session cookie.\<close>

record cookie =
  ck_name :: string
  ck_value :: string
  ck_domain :: string
  ck_path :: string
  ck_expires :: string
  ck_secure :: bool
  ck_http_only :: bool

record handoff =
  ho_version :: int
  ho_url :: string
  ho_action :: string
  ho_fields :: "(string \<times> string) list"
  ho_cookies :: "cookie list"

record handoff_json =
  hj_text :: "handoff \<Rightarrow> string"
  hj_read :: "string \<Rightarrow> handoff option"
  hj_cookies :: "string \<Rightarrow> cookie list option"   \<comment> \<open>the form before versions\<close>

definition encode_handoff :: "handoff_json \<Rightarrow> handoff \<Rightarrow> string \<Rightarrow> string result" where
  "encode_handoff js h0 nonce =
     (let h = (if ho_version h0 = 0 then h0\<lparr>ho_version := 1\<rparr> else h0)
      in if ho_version h \<noteq> 1 \<or> ho_cookies h = [] then Inl (ErrMsg ''invalid ACB browser handoff'')
         else if nonce = [] then Inl (ErrMsg ''ACB browser handoff nonce is required'')
         else Inr (b64_encode url_alphabet (hj_text js h) @ ''.'' @ b64_encode url_alphabet nonce))"

definition decode_handoff :: "handoff_json \<Rightarrow> string \<Rightarrow> handoff result" where
  "decode_handoff js s =
     (let p = takeWhile (\<lambda>c. c \<noteq> CHR ''.'') s
      in if CHR ''.'' \<notin> set s \<or> p = [] then Inl (ErrMsg ''invalid ACB browser handoff framing'')
         else (case b64_decode url_alphabet p of
                 None \<Rightarrow> Inl (ErrMsg ''invalid ACB browser handoff payload'')
               | Some text \<Rightarrow>
                   (case hj_read js text of
                      Some h \<Rightarrow>
                        if ho_version h = 1 \<and> ho_cookies h \<noteq> [] then Inr h
                        else (case hj_cookies js text of
                                Some (c # cs) \<Rightarrow> Inr \<lparr>ho_version = 0, ho_url = [], ho_action = [], ho_fields = [], ho_cookies = c # cs\<rparr>
                              | _ \<Rightarrow> Inl (ErrMsg ''invalid ACB browser handoff''))
                    | None \<Rightarrow>
                        (case hj_cookies js text of
                           Some (c # cs) \<Rightarrow> Inr \<lparr>ho_version = 0, ho_url = [], ho_action = [], ho_fields = [], ho_cookies = c # cs\<rparr>
                         | _ \<Rightarrow> Inl (ErrMsg ''invalid ACB browser handoff'')))))"

section \<open>Controller\<close>

record browser_session =
  br_attempt :: string
  br_status :: string
  br_screen :: string
  br_expires :: string

record controller =
  bc_active :: string
  bc_expires :: "instant option"
  bc_ttl :: int

definition new_controller :: "int \<Rightarrow> controller" where
  "new_controller ttl = \<lparr>bc_active = [], bc_expires = None, bc_ttl = (if ttl \<le> 0 then 15 * minute else ttl)\<rparr>"

definition still_active :: "instant \<Rightarrow> controller \<Rightarrow> bool" where
  "still_active now c \<longleftrightarrow> bc_active c \<noteq> [] \<and> (case bc_expires c of None \<Rightarrow> False | Some e \<Rightarrow> now < e)"

text \<open>\<open>Start\<close>; the clock is read before and after the browser is started.\<close>

definition controller_start ::
  "(string \<Rightarrow> err option) option \<Rightarrow> instant \<Rightarrow> instant \<Rightarrow> string \<Rightarrow> controller \<Rightarrow> browser_session result \<times> controller" where
  "controller_start start now now' attempt c =
     (if attempt = [] then (Inl (ErrMsg ''attempt ID is required''), c)
      else if still_active now c then (Inl (ErrMsg ''another ACB browser session is active''), c)
      else (case start of
              None \<Rightarrow> (Inl (ErrMsg ''browser runtime is unavailable''), c)
            | Some run \<Rightarrow>
                (case run attempt of
                   Some e \<Rightarrow> (Inl e, c)
                 | None \<Rightarrow>
                     (let till = now' + bc_ttl c
                      in (Inr \<lparr>br_attempt = attempt, br_status = ''AWAITING_USER_LOGIN'',
                             br_screen = ''/api/v1/connection/auth/'' @ attempt @ ''/screen/'', br_expires = fmt_sec till @ ''Z''\<rparr>,
                          c\<lparr>bc_active := attempt, bc_expires := Some till\<rparr>)))))"

definition controller_cancel :: "(string \<Rightarrow> err option) option \<Rightarrow> string \<Rightarrow> controller \<Rightarrow> err option \<times> controller" where
  "controller_cancel stop attempt c =
     (if bc_active c \<noteq> attempt then (Some (ErrMsg ''ACB browser session not found''), c)
      else (case (case stop of None \<Rightarrow> None | Some run \<Rightarrow> run attempt) of
              Some e \<Rightarrow> (Some e, c)
            | None \<Rightarrow> (None, c\<lparr>bc_active := [], bc_expires := None\<rparr>)))"

section \<open>Client\<close>

record client_request =
  cq_method :: string
  cq_url :: string
  cq_body :: string

record client_answer =
  ca_status :: nat
  ca_type :: string
  ca_body :: "string option"   \<comment> \<open>absent when reading fails\<close>

text \<open>The session as the client reads it, with the text of an error.\<close>

record client_session = browser_session +
  br_error :: string

record client_env =
  ce_base :: string
  ce_unicode :: unicode
  ce_do :: "client_request \<Rightarrow> client_answer result"
  ce_attempt_json :: "string \<Rightarrow> string"
  ce_session :: "string \<Rightarrow> client_session option"
  ce_handoff :: "string \<Rightarrow> string option"
  ce_error :: "string \<Rightarrow> string option"

definition max_response_body :: nat where "max_response_body = 65536"

definition client_base :: "string \<Rightarrow> string" where
  "client_base url = trim_suffix url ''/''"

definition sessions_url :: "client_env \<Rightarrow> string \<Rightarrow> string \<Rightarrow> string" where
  "sessions_url ce attempt tail = ce_base ce @ ''/sessions/'' @ attempt @ tail"

definition response_error :: "client_env \<Rightarrow> client_answer \<Rightarrow> err" where
  "response_error ce a =
     (case ca_body a of
        None \<Rightarrow> ErrHTTP (ca_status a) []
      | Some body \<Rightarrow>
          ErrHTTP (ca_status a)
            (if contains (utf_lower (ce_unicode ce) (ca_type a)) ''application/json''
             then (case ce_error ce (take max_response_body body) of None \<Rightarrow> [] | Some m \<Rightarrow> trim_space m) else []))"

text \<open>The text of an error answer; HTML never becomes part of it.\<close>

definition http_error_text :: "nat \<Rightarrow> string \<Rightarrow> string" where
  "http_error_text status m =
     (if m = [] then ''ACB browser returned HTTP '' @ show_nat status
      else ''ACB browser returned HTTP '' @ show_nat status @ '': '' @ m)"

fun is_http_status :: "err \<Rightarrow> nat \<Rightarrow> bool" where
  "is_http_status (ErrHTTP s m) t = (s = t)"
| "is_http_status (ErrWrap m e) t = is_http_status e t"
| "is_http_status e t = False"

definition decode_json :: "(string \<Rightarrow> 'a option) \<Rightarrow> client_answer \<Rightarrow> 'a result" where
  "decode_json read a =
     (case ca_body a of
        None \<Rightarrow> Inl (ErrMsg ''read'')
      | Some body \<Rightarrow> (case read (take max_response_body body) of None \<Rightarrow> Inl (ErrMsg ''json'') | Some x \<Rightarrow> Inr x))"

definition session_response :: "client_env \<Rightarrow> client_request \<Rightarrow> nat \<Rightarrow> string \<Rightarrow> client_session result" where
  "session_response ce rq expected operation =
     (case ce_do ce rq of
        Inl e \<Rightarrow> Inl (ErrWrap (operation @ '' ACB browser'') e)
      | Inr a \<Rightarrow>
          if ca_status a \<noteq> expected \<and> \<not> (expected = 201 \<and> ca_status a = 200) then Inl (response_error ce a)
          else (case decode_json (ce_session ce) a of
                  Inl e \<Rightarrow> Inl (ErrWrap ''decode ACB browser response'' e)
                | Inr s \<Rightarrow> if br_attempt s = [] \<or> br_status s = [] then Inl (ErrMsg ''ACB browser response is incomplete'')
                          else Inr s))"

definition client_start :: "client_env \<Rightarrow> string \<Rightarrow> client_session result" where
  "client_start ce attempt =
     session_response ce \<lparr>cq_method = ''POST'', cq_url = ce_base ce @ ''/sessions'', cq_body = ce_attempt_json ce attempt\<rparr>
       201 ''start''"

definition client_status :: "client_env \<Rightarrow> string \<Rightarrow> client_session result" where
  "client_status ce attempt =
     session_response ce \<lparr>cq_method = ''GET'', cq_url = sessions_url ce attempt ''/status'', cq_body = []\<rparr> 200 ''read status''"

text \<open>The calls that are answered without content.\<close>

definition client_call :: "client_env \<Rightarrow> client_request \<Rightarrow> string \<Rightarrow> err option" where
  "client_call ce rq operation =
     (case ce_do ce rq of
        Inl e \<Rightarrow> Some (ErrWrap operation e)
      | Inr a \<Rightarrow> if ca_status a \<noteq> 204 then Some (response_error ce a) else None)"

definition client_cancel :: "client_env \<Rightarrow> string \<Rightarrow> err option" where
  "client_cancel ce attempt =
     client_call ce \<lparr>cq_method = ''DELETE'', cq_url = sessions_url ce attempt [], cq_body = []\<rparr> ''cancel ACB browser''"

definition client_complete :: "client_env \<Rightarrow> string \<Rightarrow> err option" where
  "client_complete ce attempt =
     client_call ce \<lparr>cq_method = ''POST'', cq_url = sessions_url ce attempt ''/complete'', cq_body = []\<rparr>
       ''complete ACB browser handoff''"

definition client_handoff :: "client_env \<Rightarrow> string \<Rightarrow> string result" where
  "client_handoff ce attempt =
     (case ce_do ce \<lparr>cq_method = ''POST'', cq_url = sessions_url ce attempt ''/handoff'', cq_body = []\<rparr> of
        Inl e \<Rightarrow> Inl (ErrWrap ''handoff ACB browser'' e)
      | Inr a \<Rightarrow>
          if ca_status a \<noteq> 200 then Inl (response_error ce a)
          else (case decode_json (ce_handoff ce) a of
                  Inl e \<Rightarrow> Inl (ErrWrap ''decode ACB browser handoff'' e)
                | Inr s \<Rightarrow> if s = [] then Inl (ErrMsg ''ACB browser handoff is empty'') else Inr s))"

section \<open>Properties\<close>

lemma b64_no_dot: "CHR ''.'' \<notin> set (b64_encode url_alphabet s)"
proof -
  have "set (b64_encode url_alphabet s) \<subseteq> set url_alphabet"
    using to_sextets_less [OF bytes_of_less, of s] alphabets_good(2)
    by (auto simp: b64_encode_def good_alphabet_def intro!: nth_mem)
  moreover have "CHR ''.'' \<notin> set url_alphabet" by (simp add: url_alphabet_def)
  ultimately show ?thesis by blast
qed

lemma handoff_framed:
  assumes "encode_handoff js h nonce = Inr s"
    and "hj_read js (hj_text js (h\<lparr>ho_version := 1\<rparr>)) = Some (h\<lparr>ho_version := 1\<rparr>)"
    and "hj_text js (h\<lparr>ho_version := 1\<rparr>) \<noteq> []"
  shows "decode_handoff js s = Inr (h\<lparr>ho_version := 1\<rparr>)"
proof -
  define x where "x = h\<lparr>ho_version := 1\<rparr>"
  have v: "ho_version h = 0 \<or> ho_version h = 1" using assms(1) by (auto simp: encode_handoff_def Let_def split: if_splits)
  have "(if ho_version h = 0 then h\<lparr>ho_version := 1\<rparr> else h) = x"
  proof (cases "ho_version h = 0")
    case False
    with v have "ho_version h = 1" by simp
    then show ?thesis by (cases h) (simp add: x_def)
  qed (simp add: x_def)
  then have x: "ho_version x = 1" "ho_cookies x \<noteq> []"
    "s = b64_encode url_alphabet (hj_text js x) @ ''.'' @ b64_encode url_alphabet nonce"
    using assms(1) by (simp_all add: encode_handoff_def Let_def split: if_splits) 
  have d: "b64_decode url_alphabet (b64_encode url_alphabet (hj_text js x)) = Some (hj_text js x)"
    by (rule b64_roundtrip [OF alphabets_good(2)])
  have n: "b64_encode url_alphabet (hj_text js x) \<noteq> []"
    using d assms(3) by (cases "b64_encode url_alphabet (hj_text js x)") (auto simp: b64_decode_def x_def)
  have t: "takeWhile (\<lambda>c. c \<noteq> CHR ''.'') s = b64_encode url_alphabet (hj_text js x)"
    using b64_no_dot [of "hj_text js x"] by (auto simp: x(3) takeWhile_append)
  have dot: "CHR ''.'' \<in> set s" by (simp add: x(3))
  show ?thesis using n d assms(2) x(2) dot unfolding decode_handoff_def Let_def t by (simp add: x_def)
qed

text \<open>While one browser is active and not expired, no other starts; starting is the only way in.\<close>

lemma controller_one_browser:
  "still_active now c \<Longrightarrow> \<exists>e. controller_start start now now' attempt c = (Inl e, c)"
  by (auto simp: controller_start_def)

lemma cancel_inactive_calls_stop:
  "controller_cancel (Some (\<lambda>_. Some (ErrMsg ''stopped''))) [] (new_controller 0) = (Some (ErrMsg ''stopped''), new_controller 0)"
  by (simp add: controller_cancel_def new_controller_def)

end
