(* ===== verification/AcbClient.thy ===== *)
theory AcbClient
  imports PageKind Browser Url
begin

text \<open>
  \<open>src/internal/acb/client.go\<close>: the HTTP client of the bank. Its state is the bootstrap URL and form,
  the cookie jar and the number of requests sent. The transport, with the cookie jar of
  \<open>net/http/cookiejar\<close>, is a parameter: it answers the n-th request as it likes.
\<close>

section \<open>Requests and answers\<close>

type_synonym jar = string

record bank_request =
  bq_method :: string
  bq_url :: string
  bq_headers :: "(string \<times> string) list"
  bq_form :: fields_map

record bank_answer =
  ba_url :: string
  ba_status :: int
  ba_body :: "string option"   \<comment> \<open>absent when reading fails\<close>

record response =
  re_url :: string
  re_status :: int
  re_body :: string
  re_kind :: page_kind

record transport =
  tp_jar :: "cookie list \<Rightarrow> jar"
  tp_cookies :: "jar \<Rightarrow> string \<Rightarrow> cookie list"
  tp_do :: "nat \<Rightarrow> jar \<Rightarrow> bank_request \<Rightarrow> bank_answer result \<times> jar"

record acb_client =
  ac_boot :: "string option"
  ac_fields :: fields_map
  ac_jar :: jar
  ac_sent :: nat

text \<open>\<open>NewClient\<close> accepts the base URL only over HTTPS and on the official host.\<close>

definition new_client :: "net_lib \<Rightarrow> transport \<Rightarrow> string \<Rightarrow> acb_client result" where
  "new_client nl tp base =
     (case nl_url nl base of
        None \<Rightarrow> Inl (ErrMsg ''ACB base URL must be https://online.acb.com.vn'')
      | Some u \<Rightarrow>
          if u_scheme u \<noteq> ''https'' \<or> \<not> fold_ascii (fst (split_host_port (u_host u))) official_host
          then Inl (ErrMsg ''ACB base URL must be https://online.acb.com.vn'')
          else Inr \<lparr>ac_boot = None, ac_fields = [], ac_jar = tp_jar tp [], ac_sent = 0\<rparr>)"

text \<open>The redirect policy: the request to follow is given by its URL; the default port is dropped.\<close>

definition check_redirect :: "url \<Rightarrow> nat \<Rightarrow> url result" where
  "check_redirect u hops =
     (if hops \<ge> 10 then Inl (ErrMsg ''stopped after 10 redirects'')
      else if \<not> fold_ascii (fst (split_host_port (u_host u))) official_host
      then Inl (ErrMsg ''ACB redirect leaves official host'')
      else if u_scheme u = ''https'' \<and> snd (split_host_port (u_host u)) = ''443''
      then Inr (u\<lparr>u_host := fst (split_host_port (u_host u))\<rparr>) else Inr u)"

definition endpoint_path :: "string \<Rightarrow> string" where
  "endpoint_path e =
     (if has_prefix e ''https://'' \<or> has_prefix e ''http://'' then e
      else (let p = (if has_prefix e ''/'' then e else ''/'' @ e)
            in if has_prefix p ''/acbib'' then p else ''/acbib'' @ p))"

definition endpoint :: "acb_lib \<Rightarrow> string \<Rightarrow> string result" where
  "endpoint lb e =
     (case lb_resolve lb (endpoint_path e) of
        None \<Rightarrow> Inl (ErrMsg ''invalid ACB endpoint'')
      | Some (text, host) \<Rightarrow> if fold_ascii host official_host then Inr text else Inl (ErrMsg ''invalid ACB endpoint''))"

section \<open>Sessions\<close>

definition allowed_cookie_domain :: "unicode \<Rightarrow> string \<Rightarrow> bool" where
  "allowed_cookie_domain u domain \<longleftrightarrow>
     utf_lower u (trim_prefix domain ''.'') \<in> set [[], official_host, ''acb.com.vn'']"

definition cookie_ok :: "unicode \<Rightarrow> cookie \<Rightarrow> bool" where
  "cookie_ok u c \<longleftrightarrow> ck_name c \<noteq> [] \<and> ck_value c \<noteq> [] \<and> allowed_cookie_domain u (ck_domain c)"

definition restore_cookies :: "acb_lib \<Rightarrow> transport \<Rightarrow> cookie list \<Rightarrow> acb_client \<Rightarrow> err option \<times> acb_client" where
  "restore_cookies lb tp cs c =
     (if \<not> list_all (cookie_ok (lb_unicode lb)) cs then (Some (ErrMsg ''invalid ACB session cookie''), c)
      else (None, c\<lparr>ac_jar := tp_jar tp cs\<rparr>))"

definition restore_bootstrap :: "acb_lib \<Rightarrow> handoff \<Rightarrow> acb_client \<Rightarrow> err option \<times> acb_client" where
  "restore_bootstrap lb h c =
     (if ho_url h = [] then (None, c)
      else (case endpoint lb (ho_url h) of
              Inl _ \<Rightarrow> (Some (ErrMsg ''invalid ACB session bootstrap URL''), c)
            | Inr b \<Rightarrow> (None, c\<lparr>ac_boot := Some b\<rparr>)))"

definition restore_action :: "acb_lib \<Rightarrow> handoff \<Rightarrow> acb_client \<Rightarrow> err option \<times> acb_client" where
  "restore_action lb h c =
     (if ho_action h = [] then (None, c)
      else (case endpoint lb (ho_action h) of
              Inl _ \<Rightarrow> (Some (ErrMsg ''invalid ACB session form action''), c)
            | Inr a \<Rightarrow>
                if field (ho_fields h) ''dse_sessionId'' = [] \<or> field (ho_fields h) ''dse_processorState'' = []
                then (Some (ErrMsg ''ACB session form state is incomplete''), c)
                else (None, c\<lparr>ac_boot := Some a, ac_fields := ho_fields h\<rparr>)))"

text \<open>\<open>RestoreSession\<close>; what was changed before an error stays changed.\<close>

definition restore_session :: "acb_lib \<Rightarrow> transport \<Rightarrow> handoff \<Rightarrow> acb_client \<Rightarrow> err option \<times> acb_client" where
  "restore_session lb tp h c =
     (case restore_cookies lb tp (ho_cookies h) c of
        (Some e, c1) \<Rightarrow> (Some e, c1)
      | (None, c1) \<Rightarrow>
          (case restore_bootstrap lb h (c1\<lparr>ac_boot := None, ac_fields := []\<rparr>) of
             (Some e, c2) \<Rightarrow> (Some e, c2)
           | (None, c2) \<Rightarrow> restore_action lb h c2))"

definition snapshot_cookie :: "cookie \<Rightarrow> cookie list" where
  "snapshot_cookie k =
     (if ck_name k = [] \<or> ck_value k = [] then []
      else [\<lparr>ck_name = ck_name k, ck_value = ck_value k, ck_domain = official_host, ck_path = ''/'',
             ck_expires = ck_expires k, ck_secure = True, ck_http_only = ck_http_only k\<rparr>])"

definition snapshot_session :: "transport \<Rightarrow> acb_client \<Rightarrow> handoff result" where
  "snapshot_session tp c =
     (case ac_boot c of
        None \<Rightarrow> Inl (ErrMsg ''ACB authenticated form state is unavailable'')
      | Some b \<Rightarrow>
          if ac_fields c = [] then Inl (ErrMsg ''ACB authenticated form state is unavailable'')
          else (let cs = concat (map snapshot_cookie (tp_cookies tp (ac_jar c) b))
                in if cs = [] then Inl (ErrMsg ''ACB session has no cookies'')
                   else Inr \<lparr>ho_version = 1, ho_url = b, ho_action = b, ho_fields = ac_fields c, ho_cookies = cs\<rparr>))"

section \<open>Exchanges\<close>

text \<open>After an account or history page the form on it is the one to submit next.\<close>

definition update_form_state :: "acb_lib \<Rightarrow> response \<Rightarrow> acb_client \<Rightarrow> acb_client" where
  "update_form_state lb r c =
     (if re_kind r \<noteq> AccountDetailPage \<and> re_kind r \<noteq> HistoryPage then c
      else (case extract_history_form lb (re_body r) of
              Inl _ \<Rightarrow> c
            | Inr f \<Rightarrow>
                (case endpoint lb (fo_action f) of
                   Inl _ \<Rightarrow> c
                 | Inr a \<Rightarrow>
                     if field (fo_fields f) ''dse_sessionId'' = [] \<or> field (fo_fields f) ''dse_processorState'' = [] then c
                     else c\<lparr>ac_boot := Some a, ac_fields := fo_fields f\<rparr>)))"

definition header :: "(string \<times> string) list \<Rightarrow> string \<Rightarrow> string" where
  "header hs k = (case map_of hs k of None \<Rightarrow> [] | Some v \<Rightarrow> v)"

definition default_header :: "string \<times> string \<Rightarrow> (string \<times> string) list \<Rightarrow> (string \<times> string) list" where
  "default_header kv hs = (if header hs (fst kv) = [] then hs @ [kv] else hs)"

definition browser_headers :: "string \<Rightarrow> (string \<times> string) list" where
  "browser_headers meth =
     [(''User-Agent'', ''Mozilla/5.0 (X11; Linux x86_64) AppleWebKit/537.36 (KHTML, like Gecko) Chrome/133.0.0.0 Safari/537.36''),
      (''Accept'', ''text/html,application/xhtml+xml,application/xml;q=0.9,image/avif,image/webp,image/apng,*/*;q=0.8''),
      (''Accept-Language'', ''vi-VN,vi;q=0.9,en-US;q=0.8,en;q=0.7''),
      (''Referer'', ''https://online.acb.com.vn/acbib/Request'')]
     @ (if meth = ''POST'' then [(''Origin'', ''https://online.acb.com.vn'')] else [])
     @ [(''Sec-Ch-Ua'', ([CHR 0x22] @ ''Not(A:Brand'' @ [CHR 0x22] @ '';v='' @ [CHR 0x22] @ ''99'' @ [CHR 0x22] @ '', '' @ [CHR 0x22] @ ''Chromium'' @ [CHR 0x22] @ '';v='' @ [CHR 0x22] @ ''133'' @ [CHR 0x22] @ '', '' @ [CHR 0x22] @ ''Google Chrome'' @ [CHR 0x22] @ '';v='' @ [CHR 0x22] @ ''133'' @ [CHR 0x22])),
        (''Sec-Ch-Ua-Mobile'', ''?0''), (''Sec-Ch-Ua-Platform'', ([CHR 0x22] @ ''Linux'' @ [CHR 0x22])), (''Sec-Fetch-Dest'', ''document''),
        (''Sec-Fetch-Mode'', ''navigate''), (''Sec-Fetch-Site'', ''same-origin''), (''Sec-Fetch-User'', ''?1''),
        (''Upgrade-Insecure-Requests'', ''1'')]"

definition body_limit :: int where "body_limit = 2097152"

definition limit_body :: "string \<Rightarrow> string" where
  "limit_body s = (case int (length s) \<le> body_limit of True \<Rightarrow> s | False \<Rightarrow> take (nat body_limit) s)"

definition do_request :: "acb_lib \<Rightarrow> transport \<Rightarrow> bank_request \<Rightarrow> acb_client \<Rightarrow> response result \<times> acb_client" where
  "do_request lb tp rq c =
     (let rq' = rq\<lparr>bq_headers := fold default_header (browser_headers (bq_method rq)) (bq_headers rq)\<rparr>;
          (answer, jar') = tp_do tp (ac_sent c) (ac_jar c) rq';
          c' = c\<lparr>ac_jar := jar', ac_sent := Suc (ac_sent c)\<rparr>
      in case answer of
           Inl e \<Rightarrow> (Inl e, c')
         | Inr a \<Rightarrow>
             (case ba_body a of
                None \<Rightarrow> (Inl (ErrMsg ''read''), c')
              | Some b \<Rightarrow>
                  (let r = \<lparr>re_url = ba_url a, re_status = ba_status a, re_body = limit_body b,
                         re_kind = classify_page lb (ba_url a) (limit_body b)\<rparr>
                   in (Inr r, update_form_state lb r c'))))"

definition form_post :: "string \<Rightarrow> fields_map \<Rightarrow> bank_request" where
  "form_post url f =
     \<lparr>bq_method = ''POST'', bq_url = url, bq_headers = [(''Content-Type'', ''application/x-www-form-urlencoded'')], bq_form = f\<rparr>"

definition bootstrap :: "acb_lib \<Rightarrow> transport \<Rightarrow> instant \<Rightarrow> acb_client \<Rightarrow> response result \<times> acb_client" where
  "bootstrap lb tp now c =
     (case ac_boot c of
        None \<Rightarrow> (Inl (ErrMsg ''ACB authenticated form state is unavailable''), c)
      | Some b \<Rightarrow>
          if ac_fields c = [] then (Inl (ErrMsg ''ACB authenticated form state is unavailable''), c)
          else (case prepare_history_fields (ac_fields c) now (Some default_offset) of
                  Inl e \<Rightarrow> (Inl e, c)
                | Inr f \<Rightarrow> do_request lb tp (form_post b f) c))"

definition history :: "acb_lib \<Rightarrow> transport \<Rightarrow> instant \<Rightarrow> string \<Rightarrow> fields_map \<Rightarrow> acb_client \<Rightarrow> response result \<times> acb_client" where
  "history lb tp now e fs c =
     (case prepare_history_fields fs now (Some default_offset) of
        Inl er \<Rightarrow> (Inl er, c)
      | Inr f \<Rightarrow>
          (case endpoint lb e of
             Inl er \<Rightarrow> (Inl er, c)
           | Inr url \<Rightarrow> do_request lb tp (form_post url f) c))"

definition get_page :: "acb_lib \<Rightarrow> transport \<Rightarrow> string \<Rightarrow> acb_client \<Rightarrow> response result \<times> acb_client" where
  "get_page lb tp e c =
     (let rq = (\<lambda>url. \<lparr>bq_method = ''GET'', bq_url = url, bq_headers = [], bq_form = []\<rparr>)
      in case (if e = [] then ac_boot c else None) of
           Some b \<Rightarrow> do_request lb tp (rq b) c
         | None \<Rightarrow> (case endpoint lb e of Inl er \<Rightarrow> (Inl er, c) | Inr url \<Rightarrow> do_request lb tp (rq url) c))"

end
