(* ===== verification/BankSession.thy ===== *)
theory BankSession
  imports AcbClient StoreAuth Crypto Dispatch SettingsLife IngestProps
begin

text \<open>
  \<open>src/internal/monitor/session.go\<close> and \<open>verifier.go\<close>: the bank client as the monitor sees it, and the
  loader that restores and persists its encrypted session. The state of the client is a type
  variable; \<open>acb_bank\<close> is the client of \<open>AcbClient\<close>.
\<close>

section \<open>The bank client\<close>

record 'c bank =
  bk_boot :: "instant \<Rightarrow> 'c \<Rightarrow> response result \<times> 'c"
  bk_hist :: "instant \<Rightarrow> string \<Rightarrow> fields_map \<Rightarrow> 'c \<Rightarrow> response result \<times> 'c"
  bk_restore :: "handoff \<Rightarrow> 'c \<Rightarrow> err option \<times> 'c"
  bk_snapshot :: "'c \<Rightarrow> handoff result"

definition acb_bank :: "acb_lib \<Rightarrow> transport \<Rightarrow> acb_client bank" where
  "acb_bank lb tp =
     \<lparr>bk_boot = bootstrap lb tp, bk_hist = history lb tp, bk_restore = restore_session lb tp, bk_snapshot = snapshot_session tp\<rparr>"

section \<open>Session loader\<close>

record session_env =
  sn_vault :: vault
  sn_keyring :: keyring
  sn_json :: handoff_json

text \<open>The session that is loaded: connection and generation.\<close>

type_synonym loaded = "string \<times> int"

definition session_aad :: "string \<Rightarrow> string" where
  "session_aad conn = ''acb-session:'' @ conn"

definition restore_locked ::
  "session_env \<Rightarrow> 'c bank \<Rightarrow> string \<Rightarrow> int \<Rightarrow> string \<Rightarrow> 'c \<times> loaded \<Rightarrow> err option \<times> 'c \<times> loaded" where
  "restore_locked se bk conn g encoded s =
     (case va_parse (sn_vault se) encoded of
        None \<Rightarrow> (Some (ErrMsg ''stored ACB session envelope is invalid''), s)
      | Some e \<Rightarrow>
          (case decrypt (sn_vault se) (sn_keyring se) e (session_aad conn) of
             Inl _ \<Rightarrow> (Some (ErrMsg ''stored ACB session cannot be decrypted''), s)
           | Inr plain \<Rightarrow>
               (case decode_handoff (sn_json se) plain of
                  Inl _ \<Rightarrow> (Some (ErrMsg ''stored ACB session handoff is invalid''), s)
                | Inr h \<Rightarrow>
                    (case bk_restore bk h (fst s) of
                       (Some er, c') \<Rightarrow> (Some er, c', snd s)
                     | (None, c') \<Rightarrow> (None, c', conn, g)))))"

definition restore ::
  "session_env \<Rightarrow> 'c bank \<Rightarrow> string \<Rightarrow> int \<Rightarrow> store \<Rightarrow> 'c \<times> loaded \<Rightarrow> err option \<times> 'c \<times> loaded" where
  "restore se bk conn g st s =
     (if snd s = (conn, g) then (None, s)
      else (case get_session conn g st of
              Inl e \<Rightarrow> (Some e, s)
            | Inr row \<Rightarrow> restore_locked se bk conn g (se_envelope row) s))"

text \<open>\<open>Persist\<close>; the random nonce of the encryption and the time of the update are arguments.\<close>

definition persist ::
  "session_env \<Rightarrow> 'c bank \<Rightarrow> string \<Rightarrow> instant \<Rightarrow> string \<Rightarrow> int \<Rightarrow> 'c \<Rightarrow> store \<Rightarrow> err option \<times> store" where
  "persist se bk nonce t conn g c st =
     (case bk_snapshot bk c of
        Inl e \<Rightarrow> (Some e, st)
      | Inr h \<Rightarrow>
          (case encode_handoff (sn_json se) h ''refresh'' of
             Inl e \<Rightarrow> (Some e, st)
           | Inr plain \<Rightarrow>
               (case encrypt (sn_vault se) (sn_keyring se) nonce plain (session_aad conn) of
                  Inl e \<Rightarrow> (Some e, st)
                | Inr e \<Rightarrow> refresh_session t conn g (envelope_json e) (kx_key e) st)))"

section \<open>Session verifier\<close>

definition challenge :: "page_kind \<Rightarrow> bool" where
  "challenge k \<longleftrightarrow> k = LoginPage \<or> k = OTPChallenge \<or> k = CaptchaPage"

definition verify_session ::
  "session_env \<Rightarrow> 'c bank \<Rightarrow> instant \<Rightarrow> string \<Rightarrow> int \<Rightarrow> string \<Rightarrow> 'c \<times> loaded \<Rightarrow> err option \<times> 'c \<times> loaded" where
  "verify_session se bk now conn g encrypted s =
     (case restore_locked se bk conn g encrypted s of
        (Some e, s') \<Rightarrow> (Some e, s')
      | (None, c1, l1) \<Rightarrow>
          (case bk_boot bk now c1 of
             (Inl e, c2) \<Rightarrow> (Some e, c2, l1)
           | (Inr r, c2) \<Rightarrow>
               (if re_kind r = AccountDetailPage \<or> re_kind r = HistoryPage then None
                else if challenge (re_kind r) then Some (ErrMsg ''ACB authentication was not preserved'')
                else if re_kind r = MaintenancePage then Some (ErrMsg ''ACB is under maintenance'')
                else Some (ErrMsg ''ACB authenticated page is not recognized''), c2, l1)))"

section \<open>Properties\<close>

text \<open>Once loaded, a session is not read again; a restored one is that of the asked generation.\<close>

lemma restore_loaded: "restore se bk conn g st (c, conn, g) = (None, c, conn, g)"
  by (simp add: restore_def)

lemma restore_sets_loaded:
  "restore se bk conn g st s = (None, c', l') \<Longrightarrow> l' = (conn, g)"
  by (auto simp: restore_def restore_locked_def split: if_splits sum.splits option.splits prod.splits)

lemma restore_needs_session:
  assumes "restore se bk conn g st s = (None, c', l')" and "snd s \<noteq> (conn, g)"
  shows "\<exists>row h. get_session conn g st = Inr row \<and> bk_restore bk h (fst s) = (None, c')"
  using assms by (auto simp: restore_def restore_locked_def split: if_splits sum.splits option.splits prod.splits)

end
