(* ===== verification/Monitor.thy ===== *)
theory Monitor
  imports BankSession
begin

text \<open>
  \<open>src/internal/monitor/monitor.go\<close>: manual sync requests, the pages of a history range, filtered
  history on demand, the realtime poll, the keepalive, the catch-up and the main loop. The mutex
  \<open>mu\<close> makes each of these operations one step; the times the code reads, the identifiers it draws
  and the bank's answers are arguments.
\<close>

section \<open>State\<close>

fun err_text :: "err \<Rightarrow> string" where
  "err_text ErrNoRows = ''sql: no rows in result set''"
| "err_text (ErrConstraint c) = ''constraint failed: '' @ c"
| "err_text ErrGenerationFenceMismatch = ''generation fence mismatch''"
| "err_text ErrAuthAttemptActive = ''an auth attempt is already active''"
| "err_text ErrSettingsConflict = ''settings revision conflict: modified by another operator''"
| "err_text ErrVoiceSettingsConflict = ''voice settings revision conflict: modified by another operator''"
| "err_text ErrDeliveryNotDeadLetter = ''delivery is not in dead-letter state''"
| "err_text ErrEndpointNotActive = ''notification channel is not active''"
| "err_text ErrRevisionConflict = ''channel revision conflict''"
| "err_text ErrSyncUnavailable = ''sync unavailable''"
| "err_text ErrCatchUpIncomplete = ''catch-up history sync incomplete''"
| "err_text ErrInvalidDate = ''invalid ACB transaction date''"
| "err_text ErrCancelled = ''context canceled''"
| "err_text (ErrHTTP s m) = http_error_text s m"
| "err_text (ErrMsg m) = m"
| "err_text (ErrWrap m e) = m @ '': '' @ err_text e"

text \<open>
  The monitor with the database and the client it works on. \<open>sy_events\<close> and \<open>sy_polls\<close> are the calls
  of the two notifiers; \<open>sy_signal\<close> is the one-place channel of sync requests.
\<close>

record 'c system =
  sy_store :: store
  sy_client :: 'c
  sy_loaded :: loaded
  sy_backoff :: "instant option"
  sy_pending :: bool
  sy_mode :: "poll_mode option"
  sy_settings :: monitor_settings
  sy_sync :: "(string \<times> int) option"
  sy_signal :: bool
  sy_events :: "event_note list list"
  sy_polls :: "(poll_row \<times> nat) list"

record 'c monitor_env =
  me_lib :: acb_lib
  me_bank :: "'c bank option"
  me_session :: "session_env option"

text \<open>\<open>New\<close>: the intervals it bounds are not used by the loop, which takes those of the schedule.\<close>

definition new_intervals :: "int \<Rightarrow> int \<Rightarrow> int \<times> int" where
  "new_intervals lo hi =
     (let lo' = (if lo < 2 * second then 5 * second else lo) in (lo', if hi < lo' then lo' else hi))"

definition new_system :: "store \<Rightarrow> 'c \<Rightarrow> 'c system" where
  "new_system st c =
     \<lparr>sy_store = st, sy_client = c, sy_loaded = ([], 0), sy_backoff = None, sy_pending = False, sy_mode = None,
      sy_settings = default_monitor_settings, sy_sync = None, sy_signal = False, sy_events = [], sy_polls = []\<rparr>"

section \<open>Sync requests\<close>

definition request_sync :: "'c system \<Rightarrow> err option \<times> 'c system" where
  "request_sync sy =
     (case get_connection (sy_store sy) of
        Inl e \<Rightarrow> (Some (if errors_is e ErrNoRows then ErrSyncUnavailable else e), sy)
      | Inr conn \<Rightarrow>
          if c_state conn \<noteq> Monitoring then (Some ErrSyncUnavailable, sy)
          else if sy_sync sy = Some (c_id conn, c_generation conn) then (None, sy)
          else (None, sy\<lparr>sy_sync := Some (c_id conn, c_generation conn), sy_signal := True\<rparr>))"

section \<open>Pages of a range\<close>

definition item_of :: "acb_txn \<Rightarrow> batch_item" where
  "item_of t =
     \<lparr>bi_number = tr_number t, bi_credit = tr_credit t, bi_debit = tr_debit t, bi_balance = tr_balance t,
      bi_at = tr_at t, bi_effective = tr_effective t, bi_desc = tr_desc t\<rparr>"

text \<open>The items hold one transaction of each number seen: the first.\<close>

definition add_unseen :: "batch_item list \<Rightarrow> acb_txn \<Rightarrow> batch_item list" where
  "add_unseen items t = (if tr_number t \<in> set (map bi_number items) then items else items @ [item_of t])"

definition with_account :: "connection \<Rightarrow> fields_map \<Rightarrow> fields_map" where
  "with_account conn f =
     (if field f ''AccountNbr'' = [] \<and> c_masked conn \<noteq> [] then set_field ''AccountNbr'' (c_masked conn) f else f)"

record fetch_result =
  fr_items :: "batch_item list"
  fr_pages :: nat
  fr_complete :: bool
  fr_truncated :: bool
  fr_last :: "response option"

definition partial_fetch :: "batch_item list \<Rightarrow> nat \<Rightarrow> fetch_result" where
  "partial_fetch items pages =
     \<lparr>fr_items = items, fr_pages = pages, fr_complete = False, fr_truncated = False, fr_last = None\<rparr>"

definition page_budget :: "nat \<Rightarrow> int \<Rightarrow> int \<Rightarrow> nat" where
  "page_budget budget seen rows =
     (if rows > seen \<and> rows div 10 + 2 > int budget \<and> rows div 10 + 2 \<le> 50 then nat (rows div 10 + 2) else budget)"

lemma page_budget_le: "page_budget b s r \<le> max b 50"
  by (auto simp: page_budget_def)

text \<open>What one page of the loop leads to: a result, or the next page to ask for.\<close>

datatype page_step = PageDone fetch_result | PageMore "batch_item list" int nat string fields_map

definition page_effect ::
  "response \<Rightarrow> history_page \<Rightarrow> nat \<Rightarrow> nat \<Rightarrow> int \<Rightarrow> batch_item list \<Rightarrow> page_step" where
  "page_effect r pg pages budget seen items =
     (let items' = foldl add_unseen items (hp_txns pg);
          seen' = (if hp_total pg > seen then hp_total pg else seen);
          stop = (\<lambda>complete cut. PageDone \<lparr>fr_items = items', fr_pages = pages, fr_complete = complete,
                     fr_truncated = cut, fr_last = Some r\<rparr>)
      in if \<not> hp_next pg then
           (if seen' > 0 \<and> int (length items') < seen' then stop False True else stop True False)
         else if hp_action pg = [] \<and> hp_fields pg = [] then stop False False
         else PageMore items' seen' (page_budget budget seen (hp_total pg)) (hp_action pg)
                (set_field ''_raw'' ''true'' (hp_fields pg)))"

text \<open>
  The loop; \<open>clock\<close> gives the time of each request, and the time of the back-off. The result is the
  error, the pages fetched, the client and the back-off, if one was set.
\<close>

function fetch_pages ::
  "acb_lib \<Rightarrow> 'c bank \<Rightarrow> (nat \<Rightarrow> instant) \<Rightarrow> nat \<Rightarrow> nat \<Rightarrow> int \<Rightarrow> batch_item list \<Rightarrow> response option \<Rightarrow> string \<Rightarrow> fields_map \<Rightarrow> 'c
   \<Rightarrow> (err option \<times> fetch_result) \<times> 'c \<times> instant option" where
  "fetch_pages lb bk clock pages budget seen items prev action fs c =
     (if pages \<ge> budget
      then ((None, \<lparr>fr_items = items, fr_pages = pages, fr_complete = False, fr_truncated = False, fr_last = prev\<rparr>), c, None)
      else (case bk_hist bk (clock pages) action fs c of
              (Inl e, c') \<Rightarrow> ((Some (ErrWrap ''query ACB history'' e), partial_fetch items pages), c', None)
            | (Inr r, c') \<Rightarrow>
                if challenge (re_kind r)
                then ((Some (ErrMsg ''ACB session expired or challenge required during query''), partial_fetch items (Suc pages)), c', None)
                else if re_kind r = MaintenancePage
                then ((Some (ErrMsg ''ACB maintenance''), partial_fetch items (Suc pages)), c', Some (clock (Suc pages) + 60 * second))
                else (case parse_history_page lb (re_body r) of
                        Inl e \<Rightarrow> ((Some (ErrWrap (''parse ACB history page '' @ show_nat (Suc pages)) e),
                                 partial_fetch items (Suc pages)), c', None)
                      | Inr pg \<Rightarrow>
                          (case page_effect r pg (Suc pages) budget seen items of
                             PageDone res \<Rightarrow> ((None, res), c', None)
                           | PageMore items' seen' budget' action' fs' \<Rightarrow>
                               fetch_pages lb bk clock (Suc pages) budget' seen' items' (Some r) action' fs' c'))))"
  by pat_completeness auto
termination
proof (relation "measure (\<lambda>(lb, bk, clock, pages, budget, seen, items, prev, action, fs, c). max budget 50 - pages)", goal_cases)
  case (2 lb bk clock pages budget seen items prev action fs c x1 x2 r pg items' seen' budget' action' fs')
  then have "budget' = page_budget budget seen (hp_total pg)"
    by (auto simp: page_effect_def Let_def split: if_splits)
  then have "max budget' 50 \<le> max budget 50" using page_budget_le [of budget seen "hp_total pg"] by simp
  moreover have "pages < max budget 50" using 2(1) by simp
  ultimately show ?case by simp
qed simp

declare fetch_pages.simps [simp del]

definition range_fields :: "string \<Rightarrow> string \<Rightarrow> fields_map \<Rightarrow> fields_map result" where
  "range_fields from_day to_day f =
     (if from_day \<noteq> [] \<and> to_day \<noteq> [] then
        (case parse_day from_day of
           None \<Rightarrow> Inl (ErrMsg ''invalid from date'')
         | Some a \<Rightarrow>
             (case parse_day to_day of
                None \<Rightarrow> Inl (ErrMsg ''invalid to date'')
              | Some b \<Rightarrow> Inr (set_field ''_explicitRange'' ''true'' (set_field ''ToDate'' (fmt_dmy b) (set_field ''FromDate'' (fmt_dmy a) f)))))
      else Inr f)"

definition fetch_range ::
  "acb_lib \<Rightarrow> 'c bank \<Rightarrow> (nat \<Rightarrow> instant) \<Rightarrow> connection \<Rightarrow> response \<Rightarrow> string \<Rightarrow> string \<Rightarrow> int \<Rightarrow> 'c
   \<Rightarrow> (err option \<times> fetch_result) \<times> 'c \<times> instant option" where
  "fetch_range lb bk clock conn start from_day to_day max_pages c =
     (case extract_history_form lb (re_body start) of
        Inl e \<Rightarrow> ((Some (ErrWrap ''extract history form'' e), partial_fetch [] 0), c, None)
      | Inr form \<Rightarrow>
          (case range_fields from_day to_day (with_account conn (fo_fields form)) of
             Inl e \<Rightarrow> ((Some e, partial_fetch [] 0), c, None)
           | Inr fs \<Rightarrow>
               fetch_pages lb bk clock 0 (nat (if max_pages \<le> 0 then 10 else max_pages)) 0 [] None (fo_action form) fs c))"

definition note_backoff :: "instant option \<Rightarrow> 'c system \<Rightarrow> 'c system" where
  "note_backoff b sy = (case b of None \<Rightarrow> sy | Some t \<Rightarrow> sy\<lparr>sy_backoff := Some t\<rparr>)"

definition backing_off :: "instant \<Rightarrow> 'c system \<Rightarrow> bool" where
  "backing_off now sy \<longleftrightarrow> (case sy_backoff sy of None \<Rightarrow> False | Some t \<Rightarrow> now < t)"

text \<open>\<open>sessions.Restore\<close> on the state of the monitor; without a loader nothing is restored.\<close>

definition restore_sys :: "'c monitor_env \<Rightarrow> 'c bank \<Rightarrow> connection \<Rightarrow> 'c system \<Rightarrow> err option \<times> 'c system" where
  "restore_sys me bk conn sy =
     (case me_session me of
        None \<Rightarrow> (None, sy)
      | Some se \<Rightarrow>
          (case restore se bk (c_id conn) (c_generation conn) (sy_store sy) (sy_client sy, sy_loaded sy) of
             (e, c', l') \<Rightarrow> (map_option (ErrWrap ''restore ACB session'') e, sy\<lparr>sy_client := c', sy_loaded := l'\<rparr>)))"

definition persist_sys :: "'c monitor_env \<Rightarrow> 'c bank \<Rightarrow> string \<Rightarrow> instant \<Rightarrow> connection \<Rightarrow> 'c system \<Rightarrow> 'c system" where
  "persist_sys me bk nonce t conn sy =
     (case me_session me of
        None \<Rightarrow> sy
      | Some se \<Rightarrow> sy\<lparr>sy_store := snd (persist se bk nonce t (c_id conn) (c_generation conn) (sy_client sy) (sy_store sy))\<rparr>)"

definition boot_sys :: "'c bank \<Rightarrow> instant \<Rightarrow> 'c system \<Rightarrow> response result \<times> 'c system" where
  "boot_sys bk t sy = (case bk_boot bk t (sy_client sy) of (r, c') \<Rightarrow> (r, sy\<lparr>sy_client := c'\<rparr>))"

section \<open>History on demand\<close>

record history_input =
  hi_check :: instant
  hi_recheck :: instant
  hi_now :: instant
  hi_boot :: instant
  hi_busy :: instant
  hi_page :: "nat \<Rightarrow> instant"
  hi_env :: env
  hi_record :: instant
  hi_id :: "int \<Rightarrow> string"

text \<open>The day of an item: printed as a local date, or taken as it is.\<close>

definition item_day :: "batch_item \<Rightarrow> string" where
  "item_day it =
     (if length (bi_at it) \<ge> 10
      then (case go_parse 0 dmy_chunks (take 10 (bi_at it)) of Some t \<Rightarrow> fmt_day (day_of t) | None \<Rightarrow> bi_at it)
      else bi_at it)"

definition day_rows :: "(int \<Rightarrow> string) \<Rightarrow> int \<Rightarrow> int \<Rightarrow> batch_item list \<Rightarrow> (string \<times> string \<times> int) list" where
  "day_rows ids a b items =
     map (\<lambda>d. (ids d, fmt_day d, int (length (filter (\<lambda>it. item_day it = fmt_day d) items)))) [a..b]"

text \<open>The body that the single-flight group runs once for concurrent callers.\<close>

definition ensure_flight ::
  "'c monitor_env \<Rightarrow> history_input \<Rightarrow> connection \<Rightarrow> string \<Rightarrow> string \<Rightarrow> int \<Rightarrow> int \<Rightarrow> 'c system \<Rightarrow> int result \<times> 'c system" where
  "ensure_flight me hi conn from_day to_day a b sy =
     (if check_range_coverage (c_id conn) from_day to_day (hi_recheck hi) (sy_store sy) = Inr True then (Inr 0, sy)
      else if backing_off (hi_now hi) sy then (Inl (ErrMsg ''circuit breaker backoff active''), sy)
      else (case me_bank me of
              None \<Rightarrow> (Inl (ErrMsg ''bank client not configured''), sy)
            | Some bk \<Rightarrow>
                (case restore_sys me bk conn sy of
                   (Some e, sy1) \<Rightarrow> (Inl e, sy1)
                 | (None, sy1) \<Rightarrow>
                     (case boot_sys bk (hi_boot hi) sy1 of
                        (Inl e, sy2) \<Rightarrow> (Inl (ErrWrap ''bootstrap ACB session'' e), sy2)
                      | (Inr r, sy2) \<Rightarrow>
                          if challenge (re_kind r) then (Inl (ErrMsg ''ACB session expired or challenge required''), sy2)
                          else if re_kind r = MaintenancePage
                          then (Inl (ErrMsg ''ACB maintenance''), sy2\<lparr>sy_backoff := Some (hi_busy hi + 60 * second)\<rparr>)
                          else (case fetch_range (me_lib me) bk (hi_page hi) conn r from_day to_day 10 (sy_client sy2) of
                                  ((Some e, _), c3, bo) \<Rightarrow> (Inl e, note_backoff bo (sy2\<lparr>sy_client := c3\<rparr>))
                                | ((None, res), c3, bo) \<Rightarrow>
                                    (case ingest_batch (hi_env hi) (c_id conn) (c_generation conn) (c_masked conn)
                                            (fr_items res) False ''FILTER_SYNC'' (sy_store sy2) of
                                       ((Some e, _), st') \<Rightarrow>
                                         (Inl (ErrWrap ''ingest history transactions'' e), sy2\<lparr>sy_client := c3, sy_store := st'\<rparr>)
                                     | ((None, _), st') \<Rightarrow>
                                         (let sy4 = sy2\<lparr>sy_client := c3, sy_store := st'\<rparr>
                                          in if \<not> fr_complete res
                                             then (Inl (ErrMsg ''ACB history range incomplete''), sy4)
                                             else (case record_coverage_per_day (c_id conn) (hi_record hi)
                                                           (day_rows (hi_id hi) a b (fr_items res)) st' of
                                                     (Some e, st5) \<Rightarrow> (Inl (ErrWrap ''record coverage'' e), sy4\<lparr>sy_store := st5\<rparr>)
                                                   | (None, st5) \<Rightarrow> (Inr (int (length (fr_items res))), sy4\<lparr>sy_store := st5\<rparr>)))))))))"

definition ensure_history ::
  "'c monitor_env \<Rightarrow> history_input \<Rightarrow> string \<Rightarrow> string \<Rightarrow> 'c system \<Rightarrow> int result \<times> 'c system" where
  "ensure_history me hi from_day to_day sy =
     (case parse_day from_day of
        None \<Rightarrow> (Inl (ErrMsg ''invalid from date''), sy)
      | Some a \<Rightarrow>
          (case parse_day to_day of
             None \<Rightarrow> (Inl (ErrMsg ''invalid to date''), sy)
           | Some b \<Rightarrow>
               if a > b then (Inl (ErrMsg ''from date must not be after to date''), sy)
               else if b - a > 31 then (Inl (ErrMsg ''range too large (max 31 days)''), sy)
               else (case get_connection (sy_store sy) of
                       Inl e \<Rightarrow> (Inl e, sy)
                     | Inr conn \<Rightarrow>
                         if c_state conn \<noteq> Monitoring then (Inl (ErrMsg ''bank connection is not in MONITORING state''), sy)
                         else if check_range_coverage (c_id conn) from_day to_day (hi_check hi) (sy_store sy) = Inr True
                         then (Inr 0, sy)
                         else ensure_flight me hi conn from_day to_day a b sy)))"

section \<open>Poll\<close>

record poll_input =
  pi_now :: instant
  pi_active :: instant
  pi_id :: string
  pi_start :: instant
  pi_boot :: instant
  pi_page :: "nat \<Rightarrow> instant"
  pi_busy :: instant
  pi_env :: env
  pi_finish :: instant
  pi_nonce :: string
  pi_persist :: instant

definition finish_sys :: "poll_input \<Rightarrow> poll_row \<Rightarrow> nat \<Rightarrow> 'c system \<Rightarrow> err option \<times> 'c system" where
  "finish_sys pin p n sy =
     (case finish_poll (pi_finish pin) p (sy_store sy) of
        (e, st') \<Rightarrow> (e, sy\<lparr>sy_store := st', sy_polls := sy_polls sy @ [(p, n)]\<rparr>))"

text \<open>The ends of a poll that failed, that lost the session, and that has to back off.\<close>

definition fail_poll :: "poll_input \<Rightarrow> poll_row \<Rightarrow> err \<Rightarrow> 'c system \<Rightarrow> err option \<times> 'c system" where
  "fail_poll pin p e sy = (Some e, snd (finish_sys pin (p\<lparr>pr_status := PFailed, pr_error := err_text e\<rparr>) 0 sy))"

definition lose_session :: "poll_input \<Rightarrow> poll_row \<Rightarrow> string \<Rightarrow> 'c system \<Rightarrow> err option \<times> 'c system" where
  "lose_session pin p reason sy = (None, snd (finish_sys pin (p\<lparr>pr_status := PAuthRequired, pr_error := reason\<rparr>) 0 sy))"

definition back_off :: "poll_input \<Rightarrow> poll_row \<Rightarrow> string \<Rightarrow> 'c system \<Rightarrow> err option \<times> 'c system" where
  "back_off pin p reason sy =
     (None, snd (finish_sys pin (p\<lparr>pr_status := PFailed, pr_error := reason\<rparr>) 0
              (sy\<lparr>sy_backoff := Some (pi_busy pin + 60 * second)\<rparr>)))"

definition challenge_reason :: "page_kind \<Rightarrow> string" where
  "challenge_reason k = (if k = LoginPage then ''SESSION_EXPIRED'' else kind_text k)"

text \<open>
  The history page of a poll: the bootstrap page itself, or the answer to its form. \<open>Inl\<close> is the end
  of the poll, \<open>Inr\<close> the markup, the poll and the state to go on with.
\<close>

definition poll_markup ::
  "'c monitor_env \<Rightarrow> 'c bank \<Rightarrow> poll_input \<Rightarrow> connection \<Rightarrow> poll_row \<Rightarrow> response \<Rightarrow> 'c system
   \<Rightarrow> (err option \<times> 'c system) + (string \<times> poll_row \<times> 'c system)" where
  "poll_markup me bk pin conn p r sy =
     (if re_kind r = HistoryPage then Inr (re_body r, p, sy)
      else (case extract_history_form (me_lib me) (re_body r) of
              Inl e \<Rightarrow> Inl (fail_poll pin p e sy)
            | Inr form \<Rightarrow>
                (case bk_hist bk (pi_page pin 0) (fo_action form) (with_account conn (fo_fields form)) (sy_client sy) of
                   (Inl e, c') \<Rightarrow> Inl (fail_poll pin p e (sy\<lparr>sy_client := c'\<rparr>))
                 | (Inr h, c') \<Rightarrow>
                     (let p' = p\<lparr>pr_classifier := kind_text (re_kind h), pr_http := re_status h\<rparr>; sy' = sy\<lparr>sy_client := c'\<rparr>
                      in if challenge (re_kind h) then Inl (lose_session pin p' (challenge_reason (re_kind h)) sy')
                         else Inr (re_body h, p', sy')))))"

definition no_navigation :: err where
  "no_navigation = ErrMsg ''pagination unavailable: next page exists but navigation action and fields are empty''"

text \<open>The pages after the first: transactions, pages, whether they are partial and why.\<close>

function poll_pages ::
  "acb_lib \<Rightarrow> 'c bank \<Rightarrow> (nat \<Rightarrow> instant) \<Rightarrow> nat \<Rightarrow> acb_txn list \<Rightarrow> string \<Rightarrow> fields_map \<Rightarrow> 'c
   \<Rightarrow> (acb_txn list \<times> nat \<times> bool \<times> err option) \<times> 'c" where
  "poll_pages lb bk clock n ts action fs c =
     (if n \<ge> 5 then ((ts, n, False, None), c)
      else (case bk_hist bk (clock n) action (set_field ''_raw'' ''true'' fs) c of
              (Inl e, c') \<Rightarrow> ((ts, n, True, Some e), c')
            | (Inr r, c') \<Rightarrow>
                (case parse_history_page lb (re_body r) of
                   Inl e \<Rightarrow> ((ts, Suc n, True, Some e), c')
                 | Inr pg \<Rightarrow>
                     (let ts' = ts @ hp_txns pg
                      in if \<not> hp_next pg then ((ts', Suc n, False, None), c')
                         else if hp_action pg = [] \<and> hp_fields pg = [] then ((ts', Suc n, True, Some no_navigation), c')
                         else if Suc n \<ge> 5 then ((ts', Suc n, True, None), c')
                         else poll_pages lb bk clock (Suc n) ts' (hp_action pg) (hp_fields pg) c'))))"
  by pat_completeness auto
termination
  by (relation "measure (\<lambda>(lb, bk, clock, n, ts, action, fs, c). 5 - n)") auto

declare poll_pages.simps [simp del]

definition all_pages ::
  "acb_lib \<Rightarrow> 'c bank \<Rightarrow> (nat \<Rightarrow> instant) \<Rightarrow> history_page \<Rightarrow> 'c \<Rightarrow> (acb_txn list \<times> nat \<times> bool \<times> err option) \<times> 'c" where
  "all_pages lb bk clock pg c =
     (if \<not> hp_next pg then ((hp_txns pg, 1, False, None), c)
      else if hp_action pg = [] \<and> hp_fields pg = [] then ((hp_txns pg, 1, True, Some no_navigation), c)
      else poll_pages lb bk clock 1 (hp_txns pg) (hp_action pg) (hp_fields pg) c)"

definition poll_verdict :: "bool \<Rightarrow> err option \<Rightarrow> poll_row \<Rightarrow> poll_row" where
  "poll_verdict partial e p =
     (if partial then p\<lparr>pr_status := PPartial, pr_error := (case e of None \<Rightarrow> ''PARTIAL_PAGE_BUDGET_REACHED'' | Some e \<Rightarrow> err_text e)\<rparr>
      else p\<lparr>pr_status := PSucceeded\<rparr>)"

definition announce :: "event_note list \<Rightarrow> 'c system \<Rightarrow> 'c system" where
  "announce ns sy = (if ns = [] then sy else sy\<lparr>sy_events := sy_events sy @ [ns]\<rparr>)"

text \<open>From the first parsed page on: the other pages, the batch, the end of the poll.\<close>

definition poll_ingest ::
  "'c monitor_env \<Rightarrow> 'c bank \<Rightarrow> poll_input \<Rightarrow> connection \<Rightarrow> poll_row \<Rightarrow> history_page \<Rightarrow> 'c system \<Rightarrow> err option \<times> 'c system" where
  "poll_ingest me bk pin conn p pg sy =
     (case all_pages (me_lib me) bk (pi_page pin) pg (sy_client sy) of
        ((ts, n, partial, why), c') \<Rightarrow>
          (let p1 = p\<lparr>pr_rows := int (length ts), pr_pages := int n\<rparr>; sy1 = sy\<lparr>sy_client := c'\<rparr>
           in case ingest_realtime (pi_env pin) (c_id conn) (c_generation conn) (c_masked conn) (map item_of ts) False (sy_store sy1) of
                ((Some e, _), st') \<Rightarrow> fail_poll pin p1 e (sy1\<lparr>sy_store := st'\<rparr>)
              | ((None, res), st') \<Rightarrow>
                  (case finish_sys pin (poll_verdict partial why p1) (br_inserted res) (sy1\<lparr>sy_store := st', sy_backoff := None\<rparr>) of
                     (Some e, sy2) \<Rightarrow> (Some e, sy2)
                   | (None, sy2) \<Rightarrow>
                       (None, persist_sys me bk (pi_nonce pin) (pi_persist pin) conn (announce (br_events res) sy2)))))"

definition poll_answer ::
  "'c monitor_env \<Rightarrow> 'c bank \<Rightarrow> poll_input \<Rightarrow> connection \<Rightarrow> poll_row \<Rightarrow> response \<Rightarrow> 'c system \<Rightarrow> err option \<times> 'c system" where
  "poll_answer me bk pin conn p0 r sy =
     (let p = p0\<lparr>pr_classifier := kind_text (re_kind r), pr_http := re_status r\<rparr>
      in if challenge (re_kind r) then lose_session pin p (challenge_reason (re_kind r)) sy
         else if re_status r = 429 then back_off pin p ''ACB_RATE_LIMITED'' sy
         else if re_kind r = MaintenancePage then back_off pin p ''ACB_MAINTENANCE'' sy
         else (case poll_markup me bk pin conn p r sy of
                 Inl out \<Rightarrow> out
               | Inr (markup, p1, sy1) \<Rightarrow>
                   (case parse_history_page (me_lib me) markup of
                      Inl e \<Rightarrow> fail_poll pin p1 e sy1
                    | Inr pg \<Rightarrow> poll_ingest me bk pin conn p1 pg sy1)))"

definition poll_bank ::
  "'c monitor_env \<Rightarrow> poll_input \<Rightarrow> connection \<Rightarrow> 'c system \<Rightarrow> err option \<times> 'c system" where
  "poll_bank me pin conn sy =
     (case me_bank me of
        None \<Rightarrow> (Some (ErrMsg ''bank client not configured''), sy)
      | Some bk \<Rightarrow>
          (case restore_sys me bk conn sy of
             (Some e, sy1) \<Rightarrow> (Some e, sy1)
           | (None, sy1) \<Rightarrow>
               (case start_poll (pi_id pin) (pi_start pin) (sy_store sy1) of
                  (Inl e, st') \<Rightarrow> (Some (ErrWrap ''start poll'' e), sy1\<lparr>sy_store := st'\<rparr>)
                | (Inr p, st') \<Rightarrow>
                    (case boot_sys bk (pi_boot pin) (sy1\<lparr>sy_store := st'\<rparr>) of
                       (Inl e, sy2) \<Rightarrow> fail_poll pin p e sy2
                     | (Inr r, sy2) \<Rightarrow> poll_answer me bk pin conn p r sy2))))"

definition poll_once ::
  "'c monitor_env \<Rightarrow> poll_input \<Rightarrow> (string \<times> int) option \<Rightarrow> 'c system \<Rightarrow> err option \<times> 'c system" where
  "poll_once me pin expected sy =
     (case get_connection (sy_store sy) of
        Inl e \<Rightarrow> (Some e, sy)
      | Inr conn \<Rightarrow>
          if c_state conn \<noteq> Monitoring then (None, sy)
          else if backing_off (pi_now pin) sy then (None, sy)
          else if has_active_attempt (pi_active pin) (c_id conn) (sy_store sy) then (None, sy)
          else if expected \<noteq> None \<and> expected \<noteq> Some (c_id conn, c_generation conn) then (None, sy)
          else poll_bank me pin conn sy)"

section \<open>Keepalive\<close>

definition keepalive_answer ::
  "'c monitor_env \<Rightarrow> 'c bank \<Rightarrow> poll_input \<Rightarrow> connection \<Rightarrow> poll_row \<Rightarrow> response \<Rightarrow> 'c system \<Rightarrow> err option \<times> 'c system" where
  "keepalive_answer me bk pin conn p0 r sy =
     (let p = p0\<lparr>pr_classifier := kind_text (re_kind r), pr_http := re_status r\<rparr>
      in if challenge (re_kind r) then lose_session pin p ''SESSION_EXPIRED'' sy
         else if re_status r = 429 then back_off pin p ''ACB_RATE_LIMITED'' sy
         else if re_kind r = MaintenancePage then back_off pin p ''ACB_MAINTENANCE'' sy
         else finish_sys pin (p\<lparr>pr_status := PSucceeded, pr_pages := 0, pr_rows := 0\<rparr>) 0
                (persist_sys me bk (pi_nonce pin) (pi_persist pin) conn sy))"

definition keepalive :: "'c monitor_env \<Rightarrow> poll_input \<Rightarrow> 'c system \<Rightarrow> err option \<times> 'c system" where
  "keepalive me pin sy =
     (case get_connection (sy_store sy) of
        Inl e \<Rightarrow> (Some e, sy)
      | Inr conn \<Rightarrow>
          if c_state conn \<noteq> Monitoring then (None, sy)
          else if backing_off (pi_now pin) sy then (None, sy)
          else (case me_bank me of
                  None \<Rightarrow> (Some (ErrMsg ''bank client not configured''), sy)
                | Some bk \<Rightarrow>
                    (case restore_sys me bk conn sy of
                       (Some e, sy1) \<Rightarrow> (Some e, sy1)
                     | (None, sy1) \<Rightarrow>
                         (case start_poll (pi_id pin) (pi_start pin) (sy_store sy1) of
                            (Inl e, st') \<Rightarrow> (Some (ErrWrap ''start poll'' e), sy1\<lparr>sy_store := st'\<rparr>)
                          | (Inr p, st') \<Rightarrow>
                              (case boot_sys bk (pi_boot pin) (sy1\<lparr>sy_store := st'\<rparr>) of
                                 (Inl e, sy2) \<Rightarrow> fail_poll pin p e sy2
                               | (Inr r, sy2) \<Rightarrow> keepalive_answer me bk pin conn p r sy2)))))"

section \<open>Catch-up\<close>

record catchup_input =
  ci_now :: instant
  ci_boot :: instant
  ci_check :: "int \<Rightarrow> instant"
  ci_page :: "int \<Rightarrow> nat \<Rightarrow> instant"
  ci_env :: "int \<Rightarrow> env"
  ci_record :: "int \<Rightarrow> instant"
  ci_id :: "int \<Rightarrow> string"
  ci_save :: "int \<Rightarrow> instant"
  ci_nonce :: string
  ci_persist :: instant

text \<open>
  The first day: that of the checkpoint or yesterday, at most seven days back and not after today.
  The days are compared as texts, as the code does. A checkpoint that is no date is the zero time.
\<close>

definition catchup_from :: "instant \<Rightarrow> string \<Rightarrow> store \<Rightarrow> string" where
  "catchup_from now conn st =
     (let today = day_of (now + default_offset * second);
          f0 = (case get_checkpoint conn st of
                  Some cp \<Rightarrow> if cp_to cp \<noteq> [] then cp_to cp else fmt_day (today - 1)
                | None \<Rightarrow> fmt_day (today - 1));
          f1 = (if f0 < fmt_day (today - 7) then fmt_day (today - 7) else f0)
      in if fmt_day today < f1 then fmt_day today else f1)"

definition zero_day :: int where "zero_day = days_of 1 1 1"

definition day_or_zero :: "string \<Rightarrow> int" where
  "day_or_zero s = (case parse_day s of None \<Rightarrow> zero_day | Some d \<Rightarrow> d)"

definition catchup_checkpoint :: "catchup_input \<Rightarrow> connection \<Rightarrow> string \<Rightarrow> int \<Rightarrow> checkpoint_row" where
  "catchup_checkpoint ci conn from_day d =
     \<lparr>cp_conn = c_id conn, cp_scan = ''scan_'' @ show_int (ci_save ci d div second), cp_from = from_day,
      cp_to = fmt_day d, cp_updated = []\<rparr>"

definition save_day :: "catchup_input \<Rightarrow> connection \<Rightarrow> string \<Rightarrow> int \<Rightarrow> store \<Rightarrow> store" where
  "save_day ci conn from_day d st = snd (save_checkpoint (ci_save ci d) (catchup_checkpoint ci conn from_day d) st)"

definition record_day :: "catchup_input \<Rightarrow> connection \<Rightarrow> int \<Rightarrow> nat \<Rightarrow> store \<Rightarrow> store" where
  "record_day ci conn d n st =
     snd (record_coverage_per_day (c_id conn) (ci_record ci d) [(ci_id ci d, fmt_day d, int n)] st)"

text \<open>One day: \<open>Inl\<close> ends the catch-up with an error.\<close>

definition catchup_day ::
  "'c monitor_env \<Rightarrow> 'c bank \<Rightarrow> catchup_input \<Rightarrow> connection \<Rightarrow> string \<Rightarrow> int \<Rightarrow> int \<Rightarrow> response \<times> 'c system
   \<Rightarrow> (err \<times> 'c system) + (response \<times> 'c system)" where
  "catchup_day me bk ci conn from_day today d rs =
     (case rs of (start, sy) \<Rightarrow>
      if d < today \<and> check_range_coverage (c_id conn) (fmt_day d) (fmt_day d) (ci_check ci d) (sy_store sy) = Inr True
      then Inr (start, sy\<lparr>sy_store := save_day ci conn from_day d (sy_store sy)\<rparr>)
      else (case fetch_range (me_lib me) bk (ci_page ci d) conn start (fmt_day d) (fmt_day d) 20 (sy_client sy) of
              ((Some e, _), c', bo) \<Rightarrow>
                Inl (ErrWrap (''catch-up fetch for '' @ fmt_day d) e, note_backoff bo (sy\<lparr>sy_client := c', sy_pending := True\<rparr>))
            | ((None, res), c', bo) \<Rightarrow>
                (let start' = (case fr_last res of
                         Some l \<Rightarrow> if re_body l = [] then start
                                   else (case extract_history_form (me_lib me) (re_body l) of Inr _ \<Rightarrow> l | Inl _ \<Rightarrow> start)
                       | None \<Rightarrow> start);
                     sy1 = sy\<lparr>sy_client := c'\<rparr>
                 in case ingest_batch (ci_env ci d) (c_id conn) (c_generation conn) (c_masked conn) (fr_items res) False
                           ''CATCH_UP'' (sy_store sy1) of
                      ((Some e, _), st') \<Rightarrow>
                        Inl (ErrWrap (''catch-up ingest for '' @ fmt_day d) e, sy1\<lparr>sy_store := st', sy_pending := True\<rparr>)
                    | ((None, b), st') \<Rightarrow>
                        (let sy2 = announce (br_events b) (sy1\<lparr>sy_store := st'\<rparr>)
                         in if \<not> fr_complete res then Inl (ErrCatchUpIncomplete, sy2\<lparr>sy_pending := True\<rparr>)
                            else Inr (start', sy2\<lparr>sy_store := save_day ci conn from_day d
                                                   (record_day ci conn d (length (fr_items res)) (sy_store sy2))\<rparr>)))))"

fun catchup_days ::
  "'c monitor_env \<Rightarrow> 'c bank \<Rightarrow> catchup_input \<Rightarrow> connection \<Rightarrow> string \<Rightarrow> int \<Rightarrow> int list \<Rightarrow> response \<times> 'c system
   \<Rightarrow> (err \<times> 'c system) + (response \<times> 'c system)" where
  "catchup_days me bk ci conn from_day today [] rs = Inr rs"
| "catchup_days me bk ci conn from_day today (d # ds) rs =
     (case catchup_day me bk ci conn from_day today d rs of
        Inl out \<Rightarrow> Inl out
      | Inr rs' \<Rightarrow> catchup_days me bk ci conn from_day today ds rs')"

definition catch_up :: "'c monitor_env \<Rightarrow> catchup_input \<Rightarrow> 'c system \<Rightarrow> err option \<times> 'c system" where
  "catch_up me ci sy =
     (case get_connection (sy_store sy) of
        Inl e \<Rightarrow> (Some e, sy)
      | Inr conn \<Rightarrow>
          if c_state conn \<noteq> Monitoring then (None, sy)
          else (let today = day_of (ci_now ci + default_offset * second);
                    from_day = catchup_from (ci_now ci) (c_id conn) (sy_store sy)
                in case me_bank me of
                     None \<Rightarrow> (Some (ErrMsg ''bank client not configured''), sy)
                   | Some bk \<Rightarrow>
                       (case restore_sys me bk conn sy of
                          (Some e, sy1) \<Rightarrow> (Some e, sy1)
                        | (None, sy1) \<Rightarrow>
                            (case boot_sys bk (ci_boot ci) sy1 of
                               (Inl e, sy2) \<Rightarrow> (Some (ErrWrap ''bootstrap for catch-up'' e), sy2)
                             | (Inr r, sy2) \<Rightarrow>
                                 if challenge (re_kind r) then (Some (ErrMsg ''session expired''), sy2)
                                 else (case catchup_days me bk ci conn from_day today
                                              [day_or_zero from_day..today] (r, sy2) of
                                         Inl (e, sy3) \<Rightarrow> (Some e, sy3)
                                       | Inr (_, sy3) \<Rightarrow>
                                           (None, persist_sys me bk (ci_nonce ci) (ci_persist ci) conn
                                                    (sy3\<lparr>sy_pending := False\<rparr>)))))))"

section \<open>Main loop\<close>

text \<open>
  The head of a turn: the schedule, the check whether realtime is entered, and how long to wait;
  \<open>draw\<close> is the random interval between the two bounds.
\<close>

definition turn_schedule :: "(string \<Rightarrow> location result) \<Rightarrow> instant \<Rightarrow> 'c system \<Rightarrow> resolved_schedule" where
  "turn_schedule load now sy = resolve_schedule load now (Some (sy_settings sy))"

definition enters_realtime :: "poll_mode option \<Rightarrow> poll_mode \<Rightarrow> bool" where
  "enters_realtime prev mode \<longleftrightarrow>
     (prev = Some ModeKeepaliveOnly \<or> prev = Some ModePaused \<or> prev = None) \<and> mode = ModeRealtime"

definition begin_turn :: "resolved_schedule \<Rightarrow> 'c system \<Rightarrow> 'c system" where
  "begin_turn sch sy =
     sy\<lparr>sy_pending := (sy_pending sy \<or> enters_realtime (sy_mode sy) (rs_mode sch)), sy_mode := Some (rs_mode sch)\<rparr>"

definition next_interval :: "int \<Rightarrow> int \<Rightarrow> int \<Rightarrow> int" where
  "next_interval draw lo hi = (if hi \<le> lo then lo else lo + draw mod (hi - lo + 1))"

definition turn_wait :: "int \<Rightarrow> instant \<Rightarrow> resolved_schedule \<Rightarrow> int" where
  "turn_wait draw now sch =
     (let w0 = next_interval draw (rs_min sch) (rs_max sch);
          w = (if rs_mode sch = ModePaused then 10 * minute else w0)
      in case rs_next sch of
           None \<Rightarrow> w
         | Some t \<Rightarrow> if 0 < t - now \<and> t - now < w then t - now else w)"

datatype wake =
    SettingsChanged
  | SyncRequested poll_input
  | TimerFired catchup_input poll_input

definition run_sync :: "'c monitor_env \<Rightarrow> poll_input \<Rightarrow> 'c system \<Rightarrow> 'c system" where
  "run_sync me pin sy =
     (let sy1 = sy\<lparr>sy_sync := None, sy_signal := False\<rparr>
      in case sy_sync sy of
           None \<Rightarrow> sy1
         | Some rq \<Rightarrow> snd (poll_once me pin (Some rq) sy1))"

definition run_mode :: "'c monitor_env \<Rightarrow> poll_input \<Rightarrow> poll_mode \<Rightarrow> 'c system \<Rightarrow> 'c system" where
  "run_mode me pin mode sy =
     (case mode of
        ModeRealtime \<Rightarrow> snd (poll_once me pin None sy)
      | ModeKeepaliveOnly \<Rightarrow> snd (keepalive me pin sy)
      | _ \<Rightarrow> sy)"

definition run_timer :: "'c monitor_env \<Rightarrow> catchup_input \<Rightarrow> poll_input \<Rightarrow> poll_mode \<Rightarrow> 'c system \<Rightarrow> 'c system" where
  "run_timer me ci pin mode sy =
     (if sy_pending sy \<and> mode = ModeRealtime then
        (case catch_up me ci sy of
           (Some e, sy1) \<Rightarrow> sy1
         | (None, sy1) \<Rightarrow> run_mode me pin mode (sy1\<lparr>sy_pending := False\<rparr>))
      else run_mode me pin mode sy)"

text \<open>The settings that \<open>Run\<close> loads before its first turn; then one turn of its loop.\<close>

definition run_start :: "'c system \<Rightarrow> 'c system" where
  "run_start sy = sy\<lparr>sy_settings := get_monitor_settings (sy_store sy)\<rparr>"

definition run_turn :: "'c monitor_env \<Rightarrow> (string \<Rightarrow> location result) \<Rightarrow> instant \<Rightarrow> wake \<Rightarrow> 'c system \<Rightarrow> 'c system" where
  "run_turn me load now wk sy =
     (let sch = turn_schedule load now sy; sy1 = begin_turn sch sy
      in case wk of
           SettingsChanged \<Rightarrow> sy1\<lparr>sy_settings := get_monitor_settings (sy_store sy1)\<rparr>
         | SyncRequested pin \<Rightarrow> run_sync me pin sy1
         | TimerFired ci pin \<Rightarrow> run_timer me ci pin (rs_mode sch) sy1)"

end
