(* ===== verification/MonitorBounds.thy ===== *)
theory MonitorBounds
  imports Monitor ClientLife
begin

text \<open>
  How much the monitor asks of the bank. The interface of a client that counts its requests is a
  locale; the client of \<open>AcbClient\<close> is its interpretation.
\<close>

section \<open>Pages of a range\<close>

lemma add_unseen_distinct: "distinct (map bi_number items) \<Longrightarrow> distinct (map bi_number (add_unseen items t))"
  by (simp add: add_unseen_def item_of_def)

lemma foldl_unseen_distinct: "distinct (map bi_number items) \<Longrightarrow> distinct (map bi_number (foldl add_unseen items ts))"
  by (induction ts arbitrary: items) (simp_all add: add_unseen_distinct)

lemma page_effect_done: "page_effect r pg pages budget seen items = PageDone res \<Longrightarrow>
    fr_pages res = pages \<and> fr_items res = foldl add_unseen items (hp_txns pg)"
  by (auto simp: page_effect_def Let_def split: if_splits)

lemma page_effect_more: "page_effect r pg pages budget seen items = PageMore items' seen' budget' action' fs' \<Longrightarrow>
    items' = foldl add_unseen items (hp_txns pg) \<and> budget' \<le> max budget 50"
  using page_budget_le by (auto simp: page_effect_def Let_def split: if_splits)

text \<open>
  One turn of the loop: it ends after at most one request more, with one page more, or goes on.
\<close>

lemma fetch_pages_cases:
  fixes lb :: acb_lib and bk :: "'c bank" and clock :: "nat \<Rightarrow> instant"
  defines "go \<equiv> fetch_pages lb bk clock"
  obtains (full) "budget \<le> pages" "fst (snd (go pages budget seen items prev action fs c)) = c"
      "fr_pages (snd (fst (go pages budget seen items prev action fs c))) = pages"
      "fr_items (snd (fst (go pages budget seen items prev action fs c))) = items"
  | (ended) a c' where "pages < budget" "bk_hist bk (clock pages) action fs c = (a, c')"
      "fst (snd (go pages budget seen items prev action fs c)) = c'"
      "fr_pages (snd (fst (go pages budget seen items prev action fs c))) \<le> Suc pages"
      "fr_items (snd (fst (go pages budget seen items prev action fs c))) = items
        \<or> (\<exists>ts. fr_items (snd (fst (go pages budget seen items prev action fs c))) = foldl add_unseen items ts)"
  | (onward) r c' pg items' seen' budget' action' fs' where "pages < budget"
      "bk_hist bk (clock pages) action fs c = (Inr r, c')" "\<not> challenge (re_kind r)" "re_kind r \<noteq> MaintenancePage"
      "parse_history_page lb (re_body r) = Inr pg"
      "page_effect r pg (Suc pages) budget seen items = PageMore items' seen' budget' action' fs'"
      "go pages budget seen items prev action fs c = go (Suc pages) budget' seen' items' (Some r) action' fs' c'"
proof -
  note s = fetch_pages.simps [of lb bk clock pages budget seen items prev action fs c]
  show ?thesis
  proof (cases "budget \<le> pages")
    case True
    then show ?thesis using full s by (simp add: go_def)
  next
    case f: False
    obtain a c' where h: "bk_hist bk (clock pages) action fs c = (a, c')" by (cases "bk_hist bk (clock pages) action fs c")
    show ?thesis
    proof (cases a)
      case (Inl e)
      then show ?thesis using ended [of a c'] f h s by (simp add: go_def partial_fetch_def)
    next
      case (Inr r)
      show ?thesis
      proof (cases "challenge (re_kind r) \<or> re_kind r = MaintenancePage")
        case True
        then show ?thesis using ended [of a c'] f h s Inr by (auto simp: go_def partial_fetch_def)
      next
        case k: False
        show ?thesis
        proof (cases "parse_history_page lb (re_body r)")
          case (Inl e)
          then show ?thesis using ended [of a c'] f h s Inr k by (simp add: go_def partial_fetch_def)
        next
          case p: (Inr pg)
          show ?thesis
          proof (cases "page_effect r pg (Suc pages) budget seen items")
            case (PageDone res)
            then have "go pages budget seen items prev action fs c = ((None, res), c', None)"
              using f h s Inr k p by (simp add: go_def)
            then show ?thesis using ended [of a c'] f h page_effect_done [OF PageDone] by auto
          next
            case (PageMore items' seen' budget' action' fs')
            then have "go pages budget seen items prev action fs c = go (Suc pages) budget' seen' items' (Some r) action' fs' c'"
              using f h s Inr k p by (simp add: go_def)
            then show ?thesis using onward [of r c' pg] f h Inr k p PageMore by auto
          qed
        qed
      qed
    qed
  qed
qed

lemma fetch_pages_bounded:
  "pages \<le> max budget 50 \<Longrightarrow> distinct (map bi_number items) \<Longrightarrow>
   (case fst (fetch_pages lb bk clock pages budget seen items prev action fs c) of
      (e, res) \<Rightarrow> fr_pages res \<le> max budget 50 \<and> distinct (map bi_number (fr_items res)))"
proof (induction lb bk clock pages budget seen items prev action fs c rule: fetch_pages.induct)
  case (1 lb bk clock pages budget seen items prev action fs c)
  let ?go = "fetch_pages lb bk clock pages budget seen items prev action fs c"
  show ?case
  proof (rule fetch_pages_cases [of budget pages lb bk clock seen items prev action fs c])
    assume "budget \<le> pages" "fr_pages (snd (fst ?go)) = pages" "fr_items (snd (fst ?go)) = items"
    then show ?thesis using 1(2,3) by (simp add: case_prod_beta)
  next
    fix a c'
    assume "pages < budget" "fr_pages (snd (fst ?go)) \<le> Suc pages"
      "fr_items (snd (fst ?go)) = items \<or> (\<exists>ts. fr_items (snd (fst ?go)) = foldl add_unseen items ts)"
    then show ?thesis using 1(3) foldl_unseen_distinct [OF 1(3)] by (auto simp: case_prod_beta)
  next
    fix r c' pg items' seen' budget' action' fs'
    assume a: "pages < budget" "bk_hist bk (clock pages) action fs c = (Inr r, c')" "\<not> challenge (re_kind r)"
      "re_kind r \<noteq> MaintenancePage" "parse_history_page lb (re_body r) = Inr pg"
      "page_effect r pg (Suc pages) budget seen items = PageMore items' seen' budget' action' fs'"
      "?go = fetch_pages lb bk clock (Suc pages) budget' seen' items' (Some r) action' fs' c'"
    note more = page_effect_more [OF a(6)]
    have d: "distinct (map bi_number items')" using more foldl_unseen_distinct [OF 1(3)] by simp
    have le: "Suc pages \<le> max budget' 50 \<or> max budget' 50 < Suc pages" by linarith
    show ?thesis
    proof (cases "Suc pages \<le> max budget' 50")
      case True
      have ih: "case fst (fetch_pages lb bk clock (Suc pages) budget' seen' items' (Some r) action' fs' c') of
          (e, res) \<Rightarrow> fr_pages res \<le> max budget' 50 \<and> distinct (map bi_number (fr_items res))"
        by (rule 1(1) [of "Inr r" c' r pg items' seen' budget' action' fs']) (use a d True in auto)
      then show ?thesis using more a(7) by (auto simp: case_prod_beta)
    next
      case False
      then have "budget' \<le> Suc pages" by simp
      then have "fst (fetch_pages lb bk clock (Suc pages) budget' seen' items' (Some r) action' fs' c')
          = (None, \<lparr>fr_items = items', fr_pages = Suc pages, fr_complete = False, fr_truncated = False, fr_last = Some r\<rparr>)"
        by (simp add: fetch_pages.simps [of lb bk clock "Suc pages"])
      then show ?thesis using a(1,7) d by simp
    qed
  qed
qed

section \<open>What leaves the client alone\<close>

lemma finish_sys_client [simp]: "sy_client (snd (finish_sys pin p n sy)) = sy_client sy"
  by (simp add: finish_sys_def case_prod_beta)

lemma poll_ends_client [simp]:
  "sy_client (snd (fail_poll pin p e sy)) = sy_client sy"
  "sy_client (snd (lose_session pin p reason sy)) = sy_client sy"
  "sy_client (snd (back_off pin p reason sy)) = sy_client sy"
  by (simp_all add: fail_poll_def lose_session_def back_off_def)

lemma persist_sys_client [simp]: "sy_client (persist_sys me bk nonce t conn sy) = sy_client sy"
  by (simp add: persist_sys_def split: option.splits)

lemma announce_client [simp]: "sy_client (announce ns sy) = sy_client sy"
  by (simp add: announce_def)

lemma note_backoff_client [simp]: "sy_client (note_backoff b sy) = sy_client sy"
  by (simp add: note_backoff_def split: option.splits)

lemma poll_ingest_client:
  assumes "all_pages (me_lib me) bk (pi_page pin) pg (sy_client sy) = ((ts, n, part, why), c')"
  shows "sy_client (snd (poll_ingest me bk pin conn p pg sy)) = c'"
proof -
  let ?in = "ingest_realtime (pi_env pin) (c_id conn) (c_generation conn) (c_masked conn) (map item_of ts) False (sy_store sy)"
  obtain e res st' where i: "?in = ((e, res), st')" by (metis surj_pair)
  show ?thesis
  proof (cases e)
    case (Some x)
    then show ?thesis by (simp add: poll_ingest_def assms i Let_def)
  next
    case None
    let ?fin = "finish_sys pin (poll_verdict part why (p\<lparr>pr_rows := int (length ts), pr_pages := int n\<rparr>)) (br_inserted res)
      (sy\<lparr>sy_client := c', sy_store := st', sy_backoff := None\<rparr>)"
    obtain fe sy2 where f: "?fin = (fe, sy2)" by (cases ?fin)
    have "sy_client sy2 = c'" using finish_sys_client [of pin _ _ "sy\<lparr>sy_client := c', sy_store := st', sy_backoff := None\<rparr>"] f
      by (metis snd_conv system.select_convs(2) system.surjective system.update_convs(1) system.update_convs(2) system.update_convs(4))
    then show ?thesis using None by (cases fe) (simp_all add: poll_ingest_def assms i f Let_def)
  qed
qed

section \<open>A client that counts\<close>

locale counted_bank =
  fixes bk :: "'c bank" and sent :: "'c \<Rightarrow> nat"
  assumes boot_one: "sent (snd (bk_boot bk t c)) \<le> Suc (sent c)"
    and hist_one: "sent (snd (bk_hist bk t action fs c)) \<le> Suc (sent c)"
    and restore_none: "sent (snd (bk_restore bk h c)) = sent c"
begin

lemma hist_sent: "bk_hist bk t action fs c = (a, c') \<Longrightarrow> sent c' \<le> Suc (sent c)"
  using hist_one [of t action fs c] by simp

lemma fetch_pages_sent:
  "sent (fst (snd (fetch_pages lb bk clock pages budget seen items prev action fs c))) \<le> sent c + (max budget 50 - pages)"
proof (induction "max budget 50 - pages" arbitrary: pages budget seen items prev action fs c rule: less_induct)
  case less
  let ?go = "fetch_pages lb bk clock pages budget seen items prev action fs c"
  show ?case
  proof (rule fetch_pages_cases [of budget pages lb bk clock seen items prev action fs c])
    assume "fst (snd ?go) = c"
    then show ?thesis by simp
  next
    fix a c'
    assume "pages < budget" "bk_hist bk (clock pages) action fs c = (a, c')" "fst (snd ?go) = c'"
    then show ?thesis using hist_sent [of "clock pages" action fs c a c'] by simp
  next
    fix r c' pg items' seen' budget' action' fs'
    assume a: "pages < budget" "bk_hist bk (clock pages) action fs c = (Inr r, c')"
      "page_effect r pg (Suc pages) budget seen items = PageMore items' seen' budget' action' fs'"
      "?go = fetch_pages lb bk clock (Suc pages) budget' seen' items' (Some r) action' fs' c'"
    have b: "budget' \<le> max budget 50" using page_effect_more [OF a(3)] by simp
    then have "max budget' 50 - Suc pages < max budget 50 - pages" using a(1) by simp
    from less [OF this, of seen' items' "Some r" action' fs' c'] hist_sent [OF a(2)] a(1,4) b
    show ?thesis by simp
  qed
qed

lemma fetch_range_sent:
  "sent (fst (snd (fetch_range lb bk clock conn start f t m c))) \<le> sent c + max (nat (if m \<le> 0 then 10 else m)) 50"
  using fetch_pages_sent [of lb clock 0 "nat (if m \<le> 0 then 10 else m)" 0 "[]" None _ _ c]
  by (auto simp: fetch_range_def split: sum.splits)

lemma poll_pages_sent:
  "n \<le> 5 \<Longrightarrow> sent (snd (poll_pages lb bk clock n ts action fs c)) \<le> sent c + (5 - n)"
proof (induction "5 - n" arbitrary: n ts action fs c rule: less_induct)
  case less
  obtain a c' where h: "bk_hist bk (clock n) action (set_field ''_raw'' ''true'' fs) c = (a, c')"
    by (cases "bk_hist bk (clock n) action (set_field ''_raw'' ''true'' fs) c")
  note one = hist_sent [OF h]
  show ?case
  proof (cases "5 \<le> n")
    case True
    then show ?thesis by (simp add: poll_pages.simps [of lb bk clock n])
  next
    case False
    show ?thesis
    proof (cases "\<exists>r pg. a = Inr r \<and> parse_history_page lb (re_body r) = Inr pg \<and> hp_next pg
        \<and> \<not> (hp_action pg = [] \<and> hp_fields pg = []) \<and> \<not> 5 \<le> Suc n")
      case True
      then obtain r pg where g: "a = Inr r" "parse_history_page lb (re_body r) = Inr pg" "hp_next pg"
        "\<not> (hp_action pg = [] \<and> hp_fields pg = [])" "\<not> 5 \<le> Suc n" by blast
      have "poll_pages lb bk clock n ts action fs c
          = poll_pages lb bk clock (Suc n) (ts @ hp_txns pg) (hp_action pg) (hp_fields pg) c'"
        using False h g by (auto simp: poll_pages.simps [of lb bk clock n] Let_def)
      moreover have "5 - Suc n < 5 - n" "Suc n \<le> 5" using g(5) by simp_all
      ultimately show ?thesis
        using less(1) [of "Suc n" "ts @ hp_txns pg" "hp_action pg" "hp_fields pg" c'] one by simp
    next
      case stop: False
      have "snd (poll_pages lb bk clock n ts action fs c) = c'"
        using False h stop by (auto simp: poll_pages.simps [of lb bk clock n] Let_def split: sum.splits)
      then show ?thesis using one False by simp
    qed
  qed
qed

lemma all_pages_sent: "sent (snd (all_pages lb bk clock pg c)) \<le> sent c + 4"
  using poll_pages_sent [of 1 lb clock "hp_txns pg" "hp_action pg" "hp_fields pg" c] by (auto simp: all_pages_def)

lemma restore_sent: "restore se bk conn g st (c, l) = (e, c', l') \<Longrightarrow> sent c' = sent c"
  using restore_none
  by (auto simp: restore_def restore_locked_def split: if_splits sum.splits option.splits prod.splits) (metis snd_conv)+

lemma restore_sys_sent: "sent (sy_client (snd (restore_sys me bk conn sy))) = sent (sy_client sy)"
proof (cases "me_session me")
  case None
  then show ?thesis by (simp add: restore_sys_def)
next
  case (Some se)
  obtain e c' l' where r: "restore se bk (c_id conn) (c_generation conn) (sy_store sy) (sy_client sy, sy_loaded sy) = (e, c', l')"
    by (cases "restore se bk (c_id conn) (c_generation conn) (sy_store sy) (sy_client sy, sy_loaded sy)")
  show ?thesis using restore_sent [OF r] by (simp add: restore_sys_def Some r)
qed

lemma boot_sys_sent: "sent (sy_client (snd (boot_sys bk t sy))) \<le> Suc (sent (sy_client sy))"
  using boot_one [of t "sy_client sy"] by (simp add: boot_sys_def case_prod_beta)

lemma poll_ingest_sent: "sent (sy_client (snd (poll_ingest me bk pin conn p pg sy))) \<le> sent (sy_client sy) + 4"
proof -
  obtain ts n part why c' where a: "all_pages (me_lib me) bk (pi_page pin) pg (sy_client sy) = ((ts, n, part, why), c')"
    by (metis surj_pair)
  have c': "sent c' \<le> sent (sy_client sy) + 4"
    using all_pages_sent [of "me_lib me" "pi_page pin" pg "sy_client sy"] a by simp
  with poll_ingest_client [OF a] show ?thesis by simp
qed

lemma poll_markup_sent:
  "poll_markup me bk pin conn p r sy = Inl out \<Longrightarrow> sent (sy_client (snd out)) \<le> Suc (sent (sy_client sy))"
  "poll_markup me bk pin conn p r sy = Inr (markup, p1, sy1) \<Longrightarrow> sent (sy_client sy1) \<le> Suc (sent (sy_client sy))"
  by (auto simp: poll_markup_def Let_def dest: hist_sent split: if_splits sum.splits prod.splits)

lemma poll_answer_sent: "sent (sy_client (snd (poll_answer me bk pin conn p r sy))) \<le> sent (sy_client sy) + 5"
proof -
  define q where "q = p\<lparr>pr_classifier := kind_text (re_kind r), pr_http := re_status r\<rparr>"
  have "sent (sy_client (snd (case poll_markup me bk pin conn q r sy of
                 Inl out \<Rightarrow> out
               | Inr (markup, p1, sy1) \<Rightarrow>
                   (case parse_history_page (me_lib me) markup of
                      Inl e \<Rightarrow> fail_poll pin p1 e sy1
                    | Inr pg \<Rightarrow> poll_ingest me bk pin conn p1 pg sy1)))) \<le> sent (sy_client sy) + 5"
  proof (cases "poll_markup me bk pin conn q r sy")
    case (Inl out)
    then show ?thesis using poll_markup_sent(1) [OF Inl] by simp
  next
    case (Inr x)
    obtain markup p1 sy1 where x: "x = (markup, p1, sy1)" by (metis surj_pair)
    note m = poll_markup_sent(2) [OF Inr [unfolded x]]
    have "sent (sy_client (snd (poll_ingest me bk pin conn p1 pg sy1))) \<le> sent (sy_client sy) + 5" for pg
      using m poll_ingest_sent [of me pin conn p1 pg sy1] by simp
    then show ?thesis using m Inr x by (auto split: sum.splits)
  qed
  then show ?thesis by (simp add: poll_answer_def q_def Let_def)
qed

lemma poll_bank_sent:
  assumes "me_bank me = Some bk"
  shows "sent (sy_client (snd (poll_bank me pin conn sy))) \<le> sent (sy_client sy) + 6"
proof -
  obtain e1 sy1 where 1: "restore_sys me bk conn sy = (e1, sy1)" by (cases "restore_sys me bk conn sy")
  obtain p st' where 2: "start_poll (pi_id pin) (pi_start pin) (sy_store sy1) = (p, st')"
    by (cases "start_poll (pi_id pin) (pi_start pin) (sy_store sy1)")
  obtain r sy2 where 3: "boot_sys bk (pi_boot pin) (sy1\<lparr>sy_store := st'\<rparr>) = (r, sy2)"
    by (cases "boot_sys bk (pi_boot pin) (sy1\<lparr>sy_store := st'\<rparr>)")
  have s1: "sent (sy_client sy1) = sent (sy_client sy)" using restore_sys_sent [of me conn sy] 1 by simp
  have s2: "sent (sy_client sy2) \<le> Suc (sent (sy_client sy))"
    using boot_sys_sent [of "pi_boot pin" "sy1\<lparr>sy_store := st'\<rparr>"] 3 s1 by simp
  have s3: "sent (sy_client (snd (poll_answer me bk pin conn x y sy2))) \<le> sent (sy_client sy) + 6" for x y
    using poll_answer_sent [of me pin conn x y sy2] s2 by simp
  show ?thesis using s1 s2 s3 by (auto simp: poll_bank_def assms 1 2 3 split: option.splits sum.splits)
qed

lemma poll_once_sent:
  assumes "me_bank me = Some bk"
  shows "sent (sy_client (snd (poll_once me pin expected sy))) \<le> sent (sy_client sy) + 6"
  using poll_bank_sent [OF assms, of pin _ sy] by (auto simp: poll_once_def split: sum.splits)

lemma keepalive_sent:
  assumes "me_bank me = Some bk"
  shows "sent (sy_client (snd (keepalive me pin sy))) \<le> sent (sy_client sy) + 1"
proof -
  have "sent (sy_client (snd (case restore_sys me bk conn sy of
                       (Some e, sy1) \<Rightarrow> (Some e, sy1)
                     | (None, sy1) \<Rightarrow>
                         (case start_poll (pi_id pin) (pi_start pin) (sy_store sy1) of
                            (Inl e, st') \<Rightarrow> (Some (ErrWrap ''start poll'' e), sy1\<lparr>sy_store := st'\<rparr>)
                          | (Inr p, st') \<Rightarrow>
                              (case boot_sys bk (pi_boot pin) (sy1\<lparr>sy_store := st'\<rparr>) of
                                 (Inl e, sy2) \<Rightarrow> fail_poll pin p e sy2
                               | (Inr r, sy2) \<Rightarrow> keepalive_answer me bk pin conn p r sy2))))) \<le> sent (sy_client sy) + 1" for conn
  proof -
    obtain e1 sy1 where 1: "restore_sys me bk conn sy = (e1, sy1)" by (cases "restore_sys me bk conn sy")
    obtain p st' where 2: "start_poll (pi_id pin) (pi_start pin) (sy_store sy1) = (p, st')"
      by (cases "start_poll (pi_id pin) (pi_start pin) (sy_store sy1)")
    obtain r sy2 where 3: "boot_sys bk (pi_boot pin) (sy1\<lparr>sy_store := st'\<rparr>) = (r, sy2)"
      by (cases "boot_sys bk (pi_boot pin) (sy1\<lparr>sy_store := st'\<rparr>)")
    have s1: "sent (sy_client sy1) = sent (sy_client sy)" using restore_sys_sent [of me conn sy] 1 by simp
    have s2: "sent (sy_client sy2) \<le> Suc (sent (sy_client sy))"
      using boot_sys_sent [of "pi_boot pin" "sy1\<lparr>sy_store := st'\<rparr>"] 3 s1 by simp
    have s3: "sy_client (snd (keepalive_answer me bk pin conn x y sy2)) = sy_client sy2" for x y
      by (simp add: keepalive_answer_def Let_def)
    show ?thesis using s1 s2 s3 by (auto simp: 1 2 3 split: option.splits sum.splits)
  qed
  then show ?thesis by (auto simp: keepalive_def assms split: sum.splits)
qed

lemma ensure_flight_sent:
  assumes "me_bank me = Some bk"
  shows "sent (sy_client (snd (ensure_flight me hi conn f t a b sy))) \<le> sent (sy_client sy) + 51"
proof -
  obtain e1 sy1 where 1: "restore_sys me bk conn sy = (e1, sy1)" by (cases "restore_sys me bk conn sy")
  obtain r sy2 where 2: "boot_sys bk (hi_boot hi) sy1 = (r, sy2)" by (cases "boot_sys bk (hi_boot hi) sy1")
  have s1: "sent (sy_client sy1) = sent (sy_client sy)" using restore_sys_sent [of me conn sy] 1 by simp
  have s2: "sent (sy_client sy2) \<le> Suc (sent (sy_client sy))" using boot_sys_sent [of "hi_boot hi" sy1] 2 s1 by simp
  have s3: "sent c' \<le> sent (sy_client sy) + 51"
    if "fetch_range (me_lib me) bk (hi_page hi) conn x f t 10 (sy_client sy2) = (er, c', bo)" for x er c' bo
    using fetch_range_sent [of "me_lib me" "hi_page hi" conn x f t 10 "sy_client sy2"] that s2 by simp
  show ?thesis using s1 s2
    by (auto simp: ensure_flight_def assms 1 2 Let_def dest!: s3 split: option.splits sum.splits prod.splits)
qed

lemma ensure_history_sent:
  assumes "me_bank me = Some bk"
  shows "sent (sy_client (snd (ensure_history me hi f t sy))) \<le> sent (sy_client sy) + 51"
  using ensure_flight_sent [OF assms, of hi _ f t _ _ sy]
  by (auto simp: ensure_history_def split: sum.splits option.splits)

end

section \<open>The client of the bank\<close>

lemma restore_cookies_sent [simp]: "ac_sent (snd (restore_cookies lb tp cs c)) = ac_sent c"
  by (simp add: restore_cookies_def)

lemma restore_bootstrap_sent [simp]: "ac_sent (snd (restore_bootstrap lb h c)) = ac_sent c"
  by (simp add: restore_bootstrap_def split: sum.splits)

lemma restore_action_sent [simp]: "ac_sent (snd (restore_action lb h c)) = ac_sent c"
  by (simp add: restore_action_def split: sum.splits)

lemma restore_session_sent: "ac_sent (snd (restore_session lb tp h c)) = ac_sent c"
proof -
  obtain e1 c1 where 1: "restore_cookies lb tp (ho_cookies h) c = (e1, c1)" by (cases "restore_cookies lb tp (ho_cookies h) c")
  obtain e2 c2 where 2: "restore_bootstrap lb h (c1\<lparr>ac_boot := None, ac_fields := []\<rparr>) = (e2, c2)"
    by (cases "restore_bootstrap lb h (c1\<lparr>ac_boot := None, ac_fields := []\<rparr>)")
  have "ac_sent c1 = ac_sent c" "ac_sent c2 = ac_sent c1"
    using restore_cookies_sent [of lb tp "ho_cookies h" c] restore_bootstrap_sent [of lb h "c1\<lparr>ac_boot := None, ac_fields := []\<rparr>"] 1 2
    by simp_all
  then show ?thesis by (simp add: restore_session_def 1 2 split: option.splits)
qed

lemma update_form_sent [simp]: "ac_sent (update_form_state lb r c) = ac_sent c"
  by (simp add: update_form_state_def split: sum.splits)

lemma do_request_sent: "ac_sent (snd (do_request lb tp rq c)) = Suc (ac_sent c)"
  by (simp add: do_request_def Let_def split: prod.splits sum.splits option.splits)

interpretation acb: counted_bank "acb_bank lb tp" ac_sent for lb tp
proof
  show "ac_sent (snd (bk_boot (acb_bank lb tp) t c)) \<le> Suc (ac_sent c)" for t c
    using do_request_sent [of lb tp _ c] by (auto simp: acb_bank_def bootstrap_def split: option.splits sum.splits intro: le_SucI)
  show "ac_sent (snd (bk_hist (acb_bank lb tp) t action fs c)) \<le> Suc (ac_sent c)" for t action fs c
    using do_request_sent [of lb tp _ c] by (auto simp: acb_bank_def history_def split: sum.splits intro: le_SucI)
  show "ac_sent (snd (bk_restore (acb_bank lb tp) h c)) = ac_sent c" for h c
    by (simp add: acb_bank_def restore_session_sent)
qed


definition demo_monitor :: "acb_client monitor_env" where
  "demo_monitor = \<lparr>me_lib = demo_lib, me_bank = Some (acb_bank demo_lib (demo_transport (\<lambda>u. u))), me_session = None\<rparr>"

definition demo_input :: poll_input where
  "demo_input = \<lparr>pi_now = 0, pi_active = 0, pi_id = ''p1'', pi_start = 0, pi_boot = 0, pi_page = (\<lambda>_. 0), pi_busy = 0,
     pi_env = \<lparr>en_rand = show_nat, en_now = (\<lambda>_. 0), en_sha = (\<lambda>s. s)\<rparr>, pi_finish = 0, pi_nonce = ''n'', pi_persist = 0\<rparr>"


end
