(* ===== verification/HistoryProps.thy ===== *)
theory HistoryProps
  imports HistoryForm Bark
begin

text \<open>
  Properties of the history parser: no transaction row is lost, repeated or invented; amounts printed
  with separators are read back; and what the parser does not see.
\<close>

section \<open>Rows\<close>

text \<open>The transactions of the rows that are transactions, and a transaction without its description.\<close>

definition row_txns :: "unicode \<Rightarrow> columns \<Rightarrow> string list list \<Rightarrow> acb_txn list" where
  "row_txns u c rows = concat (map (\<lambda>r. case parse_row u r c of Inl _ \<Rightarrow> [] | Inr t \<Rightarrow> [t]) rows)"

definition strip :: "acb_txn \<Rightarrow> acb_txn" where "strip t = t\<lparr>tr_desc := []\<rparr>"

lemma row_txns_simps [simp]:
  "row_txns u c [] = []"
  "row_txns u c (r # rs) = (case parse_row u r c of Inl _ \<Rightarrow> [] | Inr t \<Rightarrow> [t]) @ row_txns u c rs"
  by (simp_all add: row_txns_def)

lemma strip_desc [simp]: "strip (t\<lparr>tr_desc := d\<rparr>) = strip t"
  by (simp add: strip_def)

lemma blank_no_txn:
  assumes "columns_valid c" "row = [] \<or> all_blank row"
  shows "\<exists>e. parse_row u row c = Inl e"
proof -
  have "get_cell row (co_number c) = []"
    using assms by (auto simp: get_cell_def all_blank_def list_all_length)
  then show ?thesis
    by (auto simp: parse_row_def rbind_def wrap_err_def split: sum.splits)
qed

lemma strip_set_last: "ts \<noteq> [] \<Longrightarrow> map strip (set_last_desc d ts) = map strip ts"
  by (cases ts rule: rev_cases) (simp_all add: set_last_desc_def)

lemma scan_rows_accounts:
  assumes "columns_valid c"
    and "scan_rows u c skip rows ts seen = Inr (ts', seen')"
    and "skip \<longrightarrow> row_txns u c (take 1 rows) = []"
  shows "map strip ts' = map strip ts @ map strip (row_txns u c rows)"
  using assms(2,3)
proof (induction rows arbitrary: skip ts seen)
  case Nil
  then show ?case by simp
next
  case (Cons row rows)
  show ?case
  proof (cases "skip \<or> row = [] \<or> all_blank row")
    case True
    then have none: "row_txns u c [row] = []"
      using Cons.prems(2) blank_no_txn [OF assms(1), of row u] by auto
    have "scan_rows u c False rows ts seen = Inr (ts', seen')" using Cons.prems(1) True by (auto split: if_splits)
    from Cons.IH [OF this] none show ?thesis by (auto split: sum.splits)
  next
    case False
    show ?thesis
    proof (cases "parse_row u row c")
      case (Inl e)
      consider (absorbed) "classify_row u ts row = Absorbed" | (marker) "classify_row u ts row = EmptyMarker"
        | (footer) "classify_row u ts row = Footer" | (bad) "classify_row u ts row = Malformed"
        by (cases "classify_row u ts row") auto
      then show ?thesis
      proof cases
        case absorbed
        then have ne: "ts \<noteq> []" by (auto simp: classify_row_def split: if_splits)
        have "scan_rows u c False rows (set_last_desc (join_with '' '' (non_blank row)) ts) seen = Inr (ts', seen')"
          using Cons.prems(1) False Inl absorbed by simp
        from Cons.IH [OF this] Inl strip_set_last [OF ne] show ?thesis by simp
      next
        case marker
        then have "scan_rows u c False rows ts True = Inr (ts', seen')" using Cons.prems(1) False Inl by simp
        from Cons.IH [OF this] Inl show ?thesis by simp
      next
        case footer
        then have "scan_rows u c False rows ts seen = Inr (ts', seen')" using Cons.prems(1) False Inl by simp
        from Cons.IH [OF this] Inl show ?thesis by simp
      next
        case bad
        then show ?thesis using Cons.prems(1) False Inl by simp
      qed
    next
      case (Inr t)
      show ?thesis
      proof (cases "next_is_desc u c rows")
        case True
        define t' where "t' = t\<lparr>tr_desc := join_with '' '' (non_blank (hd rows))\<rparr>"
        have s: "scan_rows u c True rows (ts @ [t']) seen = Inr (ts', seen')"
          using Cons.prems(1) False Inr True by (simp add: t'_def)
        have "row_txns u c (take 1 rows) = []"
          using True by (cases rows) (auto simp: next_is_desc_def split: sum.splits)
        with Cons.IH [OF s] Inr show ?thesis by (simp add: t'_def)
      next
        case False': False
        then have "scan_rows u c False rows (ts @ [t]) seen = Inr (ts', seen')"
          using Cons.prems(1) False Inr by simp
        from Cons.IH [OF this] Inr show ?thesis by simp
      qed
    qed
  qed
qed

lemma history_header_valid: "history_header u rows = Some (c, rest) \<Longrightarrow> columns_valid c"
  by (induction rows) (auto simp: Let_def split: if_splits)

text \<open>A table whose rows below the header hold no transaction.\<close>

definition no_txns :: "unicode \<Rightarrow> node \<Rightarrow> bool" where
  "no_txns u t \<longleftrightarrow> (case history_header u (table_rows t) of None \<Rightarrow> True | Some (c, rows) \<Rightarrow> row_txns u c rows = [])"

lemma scan_tables_accounts:
  assumes "scan_tables u tables recognized seen = Inr (ts, recognized', seen')"
  shows "(ts = [] \<and> list_all (no_txns u) tables) \<or>
    (\<exists>pre t post c rows. tables = pre @ t # post \<and> list_all (no_txns u) pre
       \<and> history_header u (table_rows t) = Some (c, rows) \<and> map strip ts = map strip (row_txns u c rows))"
  using assms
proof (induction tables arbitrary: recognized seen)
  case Nil
  then show ?case by simp
next
  case (Cons table tables)
  have step: ?case if no: "no_txns u table" and rest: "scan_tables u tables r s = Inr (ts, recognized', seen')" for r s
    using Cons.IH [OF rest]
  proof
    assume "ts = [] \<and> list_all (no_txns u) tables"
    with no show ?thesis by simp
  next
    assume "\<exists>pre t post c rows. tables = pre @ t # post \<and> list_all (no_txns u) pre
       \<and> history_header u (table_rows t) = Some (c, rows) \<and> map strip ts = map strip (row_txns u c rows)"
    then obtain pre t post c rows where "tables = pre @ t # post" "list_all (no_txns u) pre"
      "history_header u (table_rows t) = Some (c, rows)" "map strip ts = map strip (row_txns u c rows)" by blast
    with no have "table # tables = (table # pre) @ t # post \<and> list_all (no_txns u) (table # pre)
       \<and> history_header u (table_rows t) = Some (c, rows) \<and> map strip ts = map strip (row_txns u c rows)" by simp
    then show ?thesis by blast
  qed
  show ?case
  proof (cases "history_header u (table_rows table)")
    case None
    then have "no_txns u table" "scan_tables u tables recognized seen = Inr (ts, recognized', seen')"
      using Cons.prems by (simp_all add: no_txns_def)
    then show ?thesis by (rule step)
  next
    case (Some h)
    obtain c rows where h: "h = (c, rows)" by (cases h)
    obtain ts1 seen1 where s: "scan_rows u c False rows [] seen = Inr (ts1, seen1)"
      using Cons.prems Some h by (auto split: sum.splits)
    have acc: "map strip ts1 = map strip (row_txns u c rows)"
      using scan_rows_accounts [OF history_header_valid s] Some h by simp
    show ?thesis
    proof (cases "ts1 = []")
      case True
      then have "no_txns u table" using acc Some h by (simp add: no_txns_def)
      moreover have "scan_tables u tables True seen1 = Inr (ts, recognized', seen')"
        using Cons.prems Some h s True by simp
      ultimately show ?thesis by (rule step)
    next
      case False
      then have "ts = ts1" using Cons.prems Some h s by simp
      then have "table # tables = [] @ table # tables \<and> list_all (no_txns u) []
        \<and> history_header u (table_rows table) = Some (c, rows) \<and> map strip ts = map strip (row_txns u c rows)"
        using acc Some h by simp
      then show ?thesis by blast
    qed
  qed
qed

text \<open>
  Property C26. No payment is lost in parsing: if a page is accepted, its transactions are, number,
  dates, amounts and balance, exactly the transaction rows of the first table that has any, in their
  order; where the page has none, no table of it has a transaction row.
\<close>

theorem page_complete:
  assumes "page_transactions u doc = Inr ts"
  shows "(ts = [] \<and> list_all (no_txns u) (tables_of doc)) \<or>
    (\<exists>pre t post c rows. tables_of doc = pre @ t # post \<and> list_all (no_txns u) pre
       \<and> history_header u (table_rows t) = Some (c, rows) \<and> map strip ts = map strip (row_txns u c rows))"
proof -
  from assms obtain ts1 r s where t: "scan_tables u (tables_of doc) False False = Inr (ts1, r, s)" "ts = ts1"
    by (auto simp: page_transactions_def split: sum.splits if_splits)
  from scan_tables_accounts [OF t(1)] show ?thesis unfolding t(2) .
qed

definition cell :: "string \<Rightarrow> node" where "cell s = ElementNode ''td'' [] [TextNode s]"

definition demo_row :: "string list \<Rightarrow> node" where "demo_row cs = ElementNode ''tr'' [] (map cell cs)"

definition demo_page :: node where
  "demo_page = OtherNode [ElementNode ''table'' []
     [ElementNode ''tbody'' [] [demo_row [''so gd'', ''ngay giao dich'', ''ghi no'', ''ghi co''],
        demo_row [''7'', ''01/02/2026'', ''-'', ''1.250.000'']]]]"

theorem page_complete_witness:
  "case page_transactions ascii_unicode demo_page of Inl _ \<Rightarrow> False | Inr ts \<Rightarrow> map tr_credit ts = [1250000]"
proof -
  obtain ts where p: "page_transactions ascii_unicode demo_page = Inr ts" "map tr_credit ts = [1250000]"
  proof -
    have "case page_transactions ascii_unicode demo_page of Inl _ \<Rightarrow> False | Inr ts \<Rightarrow> map tr_credit ts = [1250000]"
      by code_simp
    with that show ?thesis by (auto split: sum.splits)
  qed
  from page_complete [OF p(1)] p show ?thesis by simp
qed

section \<open>What the parser does not see\<close>

text \<open>A normalised name has no space, so the names with a space in \<open>columnIndexes\<close> never match.\<close>

lemma normalized_no_space: "CHR '' '' \<notin> set (normalized u s)"
  by (simp add: normalized_def remove_char_def Let_def)

lemma english_dates_unseen: "normalized u s \<noteq> ''transaction date'' \<and> normalized u s \<noteq> ''effective date''"
  using normalized_no_space [of u s] by auto

text \<open>
  In a table without descriptions a row that does not parse is taken for the description of the
  transaction above it: a payment in an unexpected format is dropped without an error.
\<close>

definition plain_columns :: columns where
  "plain_columns = no_columns\<lparr>co_number := 0, co_transaction := 1, co_debit := 2, co_credit := 3\<rparr>"

lemma payment_absorbed:
  "case scan_rows ascii_unicode plain_columns False
      [[''7'', ''01/02/2026'', ''-'', ''5''], [''8'', ''01/02/2026'', ''-'', ''9 USD'']] [] False of
     Inl _ \<Rightarrow> False
   | Inr (ts, _) \<Rightarrow> map tr_number ts = [''7''] \<and> map tr_desc ts = [''8 01/02/2026 - 9 USD'']"
  by code_simp

section \<open>Amounts\<close>

lemma filter_concat_map: "filter p (concat (map f xs)) = concat (map (\<lambda>x. filter p (f x)) xs)"
  by (induction xs) auto

lemma concat_nth: "concat (map (\<lambda>i. [s ! i]) [0..<length s]) = s"
proof -
  have "concat (map (\<lambda>i. [s ! i]) [0..<length s]) = map ((!) s) [0..<length s]" by (simp add: concat_map_singleton)
  then show ?thesis by (simp add: map_nth)
qed

lemma group_digits:
  assumes "list_all is_digit s"
  shows "filter is_digit (group_thousands s) = s"
proof -
  have dot: "\<not> is_digit (CHR ''.'')" by (simp add: is_digit_def)
  have "filter is_digit (group_thousands s) = concat (map (\<lambda>i. [s ! i]) [0..<length s])"
    unfolding group_thousands_def Let_def filter_concat_map
  proof (intro arg_cong [where f = concat] map_cong refl)
    fix i assume "i \<in> set [0..<length s]"
    then have "is_digit (s ! i)" using assms by (simp add: list_all_length)
    then show "filter is_digit ((if 0 < i \<and> (length s - i) mod 3 = 0 then ''.'' else []) @ [s ! i]) = [s ! i]"
      using dot by simp
  qed
  then show ?thesis by (simp only: concat_nth)
qed

lemma group_chars: "list_all is_digit s \<Longrightarrow> c \<in> set (group_thousands s) \<Longrightarrow> is_digit c \<or> c = CHR ''.''"
  by (auto simp: group_thousands_def Let_def list_all_length split: if_splits)

lemma group_ends:
  assumes "s \<noteq> []"
  shows "group_thousands s \<noteq> []" "hd (group_thousands s) = hd s" "last (group_thousands s) = last s"
proof -
  obtain n where n: "length s = Suc n" using assms by (cases s) auto
  define f where "f i = (if i > 0 \<and> (length s - i) mod 3 = 0 then ''.'' else []) @ [s ! i]" for i
  have g: "group_thousands s = concat (map f [0..<Suc n])"
    by (simp add: group_thousands_def Let_def f_def [abs_def] n)
  have "concat (map f [0..<Suc n]) = f 0 @ concat (map f [1..<Suc n])"
    by (simp add: upt_rec [of 0] del: upt_Suc)
  moreover have "f 0 = [hd s]" using assms by (simp add: f_def hd_conv_nth)
  ultimately show "group_thousands s \<noteq> []" "hd (group_thousands s) = hd s" by (simp_all add: g)
  show "last (group_thousands s) = last s" using assms n by (simp add: g f_def last_conv_nth)
qed

lemma digit_char_cases: "is_digit c \<Longrightarrow> c \<noteq> CHR ''('' \<and> c \<noteq> CHR '')'' \<and> c \<noteq> CHR '' '' \<and> c \<noteq> CHR ''-''"
  by (auto simp: is_digit_def)

lemma trim_by_id: "s \<noteq> [] \<Longrightarrow> \<not> p (hd s) \<Longrightarrow> \<not> p (last s) \<Longrightarrow> trim_by p s = s"
proof -
  assume s: "s \<noteq> []" "\<not> p (hd s)" "\<not> p (last s)"
  then have "dropWhile p s = s" by (cases s) auto
  moreover have "dropWhile p (rev s) = rev s" using s by (cases s rule: rev_cases) auto
  ultimately show ?thesis by (simp add: trim_by_def trim_left_def trim_right_def)
qed

text \<open>Digits and dots are read as the digits.\<close>

lemma money_digits:
  assumes "ascii_tables u" "list_all (\<lambda>c. is_digit c \<or> c = CHR ''.'') g"
  shows "list_all (\<lambda>r. uc_digit u r \<or> money_rune r) (runes g)"
    "of_runes (filter (uc_digit u) (runes g)) = filter is_digit g"
proof -
  have small: "byte c < 128 \<and> (uc_digit u (byte c) \<longleftrightarrow> is_digit c)" if "is_digit c \<or> c = CHR ''.''" for c
    using that assms(1) by (auto simp: ascii_tables_def is_digit_def byte_def)
  have dot: "money_rune (byte (CHR ''.''))" by (simp add: money_rune_def byte_def)
  have "ascii_text g" using assms(2) small by (auto simp: ascii_text_def list_all_iff)
  then have r: "runes g = map byte g" by (rule runes_ascii)
  show "list_all (\<lambda>r. uc_digit u r \<or> money_rune r) (runes g)"
    using assms(2) small dot by (auto simp: r list_all_iff)
  show "of_runes (filter (uc_digit u) (runes g)) = filter is_digit g"
    unfolding r using assms(2)
  proof (induction g)
    case (Cons c g)
    then show ?case using small [of c] by (auto simp: encode_ascii)
  qed simp
qed

lemma show_int_digits: "0 \<le> n \<Longrightarrow> list_all is_digit (show_int n) \<and> show_int n \<noteq> []"
  by (simp add: show_int_def show_nat_digits)

lemma parse_money_plain:
  assumes "ascii_tables u" "0 \<le> n" "n < 2 ^ 63"
  defines "g \<equiv> group_thousands (show_int n)"
  shows "parse_money u g = Inr n" "parse_money u (''('' @ g @ '')'') = Inr (- n)"
proof -
  note d = show_int_digits [OF assms(2)]
  have dg: "list_all (\<lambda>c. is_digit c \<or> c = CHR ''.'') g"
    using group_chars d by (auto simp: g_def list_all_iff)
  have ends: "g \<noteq> []" "is_digit (hd g)" "is_digit (last g)"
    using group_ends [of "show_int n"] d by (auto simp: g_def list_all_iff)
  have sp: "remove_char (CHR '' '') g = g"
    using dg digit_char_cases by (auto simp: remove_char_def list_all_iff intro!: filter_True)
  have tg: "trim_space g = g" using ends by (rule trim_space_digits)
  have par: "trim_by (\<lambda>c. c = CHR ''('' \<or> c = CHR '')'') g = g"
    using ends digit_char_cases by (intro trim_by_id) auto
  have ng: "g \<noteq> ''-''" using ends digit_char_cases [of "hd g"] by auto
  have pre: "\<not> has_prefix g ''(''" using ends digit_char_cases by (cases g) auto
  have digits: "filter is_digit g = show_int n" unfolding g_def by (rule group_digits) (use d in blast)
  have p: "parse_int64 (show_int n) = Some n" using assms(2,3) by (intro parse_show_int) auto
  note m = money_digits [OF assms(1) dg]
  have ne: "filter (uc_digit u) (runes g) \<noteq> []" using m(2) digits d by auto
  show "parse_money u g = Inr n"
    using m ne p by (simp add: parse_money_def Let_def sp tg par ng pre digits ends)
  define w where "w = ''('' @ g @ '')''"
  have ends_w: "trim_space w = w"
  proof -
    have 1: "drop_lead space_runes w = w" by (subst drop_lead.simps) (simp add: w_def lead_len_def space_runes_def)
    have 2: "drop_lead (map rev space_runes) (rev w) = rev w"
      by (subst drop_lead.simps) (simp add: w_def lead_len_def space_runes_def)
    show ?thesis by (simp add: trim_space_def 1 2)
  qed
  have sw: "remove_char (CHR '' '') w = w" using sp by (simp add: w_def remove_char_def)
  have tw: "trim_by (\<lambda>c. c = CHR ''('' \<or> c = CHR '')'') w = g"
  proof -
    let ?p = "\<lambda>c. c = CHR ''('' \<or> c = CHR '')''"
    have h: "\<not> ?p (hd g)" "\<not> ?p (last g)" using ends digit_char_cases by blast+
    have l: "dropWhile ?p (g @ '')'') = g @ '')''" using ends(1) h(1) by (cases g) auto
    have r: "dropWhile ?p (rev g) = rev g" using ends(1) h(2) by (cases g rule: rev_cases) auto
    show ?thesis by (simp add: trim_by_def trim_left_def trim_right_def w_def l r)
  qed
  have neg: "has_prefix w ''(''" "has_suffix w '')''" "w \<noteq> []" "w \<noteq> ''-''" by (simp_all add: w_def has_suffix_def)
  have "parse_money u w = Inr (- n)"
    using m ne p by (simp add: parse_money_def Let_def sw ends_w tw neg digits)
  then show "parse_money u (''('' @ g @ '')'') = Inr (- n)" by (simp add: w_def)
qed

text \<open>
  Amounts round-trip: what is printed with thousands separators is read back, in
  parentheses as its negation, for every amount of the bank's range.
\<close>

theorem money_roundtrip:
  assumes "ascii_tables u" and "0 \<le> n" and "n < 2 ^ 63"
  shows "parse_money u (group_thousands (show_int n)) = Inr n
    \<and> parse_money u (''('' @ group_thousands (show_int n) @ '')'') = Inr (- n)"
  using parse_money_plain [OF assms] by blast

theorem money_roundtrip_witness:
  "parse_money ascii_unicode (group_thousands (show_int 1250000)) = Inr 1250000"
  using money_roundtrip [OF ascii_unicode_tables, of 1250000] by simp

end
