(* ===== verification/MonitorLife.thy ===== *)
theory MonitorLife
  imports MonitorBounds Ledger HistoryProps AuthLife
begin

text \<open>
  What the monitor guarantees: it is silent unless the connection is monitoring, it stops when the
  session is lost, it stores what the pages hold, its checkpoint never passes a day that is not
  complete, and realtime polling resumes only after the catch-up.
\<close>

section \<open>Silence\<close>

lemma get_connection_one [simp]: "connections st = [c] \<Longrightarrow> get_connection st = Inr c"
  by (simp add: get_connection_def)

lemma idle:
  assumes "connections (sy_store sy) = [conn]" "c_state conn \<noteq> Monitoring"
  shows "poll_once me pin ex sy = (None, sy)" "keepalive me pin sy = (None, sy)" "catch_up me ci sy = (None, sy)"
    "snd (ensure_history me hi f t sy) = sy" "request_sync sy = (Some ErrSyncUnavailable, sy)"
  using assms
  by (auto simp: poll_once_def keepalive_def catch_up_def ensure_history_def request_sync_def split: option.splits)

lemma restore_sys_store: "restore_sys me bk conn sy = (e, sy1) \<Longrightarrow>
    sy_store sy1 = sy_store sy \<and> sy_pending sy1 = sy_pending sy \<and> sy_polls sy1 = sy_polls sy
    \<and> sy_backoff sy1 = sy_backoff sy \<and> sy_mode sy1 = sy_mode sy"
  by (auto simp: restore_sys_def split: option.splits prod.splits)

lemma boot_sys_store: "boot_sys bk t sy = (r, sy1) \<Longrightarrow>
    sy_store sy1 = sy_store sy \<and> sy_pending sy1 = sy_pending sy \<and> sy_polls sy1 = sy_polls sy
    \<and> sy_backoff sy1 = sy_backoff sy \<and> sy_mode sy1 = sy_mode sy"
  by (auto simp: boot_sys_def split: prod.splits)

section \<open>A lost session\<close>

lemma start_poll_fresh:
  assumes "connections st = [conn]" "c_state conn = Monitoring" "list_all (\<lambda>p. pr_id p \<noteq> i) (poll_runs st)"
  obtains p where "start_poll i t st = (Inr p, st\<lparr>poll_runs := poll_runs st @ [p]\<rparr>)"
    "pr_id p = i" "pr_conn p = c_id conn" "pr_generation p = c_generation conn" "pr_status p = PRunning"
proof -
  have "has_connection st (c_id conn)" using assms(1) by (simp add: has_connection_def)
  then have "start_poll i t st = (Inr \<lparr>pr_id = i, pr_conn = c_id conn, pr_generation = c_generation conn,
      pr_status = PRunning, pr_classifier = [], pr_http = 0, pr_pages = 0, pr_rows = 0, pr_error = [],
      pr_started = rfc3339nano t, pr_finished = []\<rparr>,
     st\<lparr>poll_runs := poll_runs st @ [\<lparr>pr_id = i, pr_conn = c_id conn, pr_generation = c_generation conn,
      pr_status = PRunning, pr_classifier = [], pr_http = 0, pr_pages = 0, pr_rows = 0, pr_error = [],
      pr_started = rfc3339nano t, pr_finished = []\<rparr>]\<rparr>)"
    using assms by (auto simp: start_poll_def insert_row_def list_all_iff list_ex_iff Let_def)
  then show ?thesis by (rule that) simp_all
qed

lemma finish_lost:
  assumes "connections st = [conn]" "list_all (\<lambda>p. pr_id p \<noteq> pr_id q) ps" "poll_runs st = ps @ [p]"
    and "pr_id p = pr_id q" "pr_status p = PRunning" "pr_conn q = c_id conn" "pr_generation q = c_generation conn"
    and "pr_status q = PAuthRequired"
  shows "connections (snd (finish_poll t q st)) = [require_auth (rfc3339nano t) conn]"
proof -
  have "filter (\<lambda>x. pr_id x = pr_id q \<and> pr_status x = PRunning) ps = []"
    using assms(2) by (auto simp: list_all_iff filter_empty_conv)
  then have "affected (\<lambda>x. pr_id x = pr_id q \<and> pr_status x = PRunning) (poll_runs st) = 1"
    using assms(3-5) by (simp add: affected_def)
  moreover have g: "at_generation (pr_conn q) (pr_generation q) conn" using assms(6,7) by (simp add: at_generation_def)
  then have "affected (at_generation (pr_conn q) (pr_generation q)) [conn] = 1" by (simp add: affected_def)
  ultimately show ?thesis using assms(1,8) g
    by (simp add: finish_poll_def finish_poll_tx_def with_tx_def Let_def set_connection_def upd_def)
qed

text \<open>The system right after a poll has started and the bootstrap page has come back.\<close>

lemma poll_loses_session:
  fixes me :: "'c monitor_env"
  assumes "connections (sy_store sy) = [conn]" "c_state conn = Monitoring"
    and "list_all (\<lambda>p. pr_id p \<noteq> pi_id pin) (poll_runs (sy_store sy))"
    and "\<not> backing_off (pi_now pin) sy"
    and "me_bank me = Some bk" "restore_sys me bk conn sy = (None, sy1)"
    and "bk_boot bk (pi_boot pin) (sy_client sy1) = (Inr r, c2)" "challenge (re_kind r)"
  shows "\<not> has_active_attempt (pi_active pin) (c_id conn) (sy_store sy) \<Longrightarrow>
      connections (sy_store (snd (poll_once me pin None sy))) = [require_auth (rfc3339nano (pi_finish pin)) conn]"
    and "connections (sy_store (snd (keepalive me pin sy))) = [require_auth (rfc3339nano (pi_finish pin)) conn]"
proof -
  have st1: "sy_store sy1 = sy_store sy" using restore_sys_store [OF assms(6)] by simp
  obtain p where p: "start_poll (pi_id pin) (pi_start pin) (sy_store sy)
      = (Inr p, sy_store sy\<lparr>poll_runs := poll_runs (sy_store sy) @ [p]\<rparr>)"
    "pr_id p = pi_id pin" "pr_conn p = c_id conn" "pr_generation p = c_generation conn" "pr_status p = PRunning"
    using start_poll_fresh [OF assms(1-3)] by blast
  have lost: "connections (sy_store (snd (lose_session pin (p\<lparr>pr_classifier := k, pr_http := h\<rparr>) reason
      (sy1\<lparr>sy_store := sy_store sy\<lparr>poll_runs := poll_runs (sy_store sy) @ [p]\<rparr>, sy_client := c2\<rparr>))))
      = [require_auth (rfc3339nano (pi_finish pin)) conn]" for k h reason
    unfolding lose_session_def finish_sys_def
    using finish_lost [of "sy_store sy\<lparr>poll_runs := poll_runs (sy_store sy) @ [p]\<rparr>" conn
        "p\<lparr>pr_classifier := k, pr_http := h, pr_status := PAuthRequired, pr_error := reason\<rparr>" "poll_runs (sy_store sy)" p "pi_finish pin"]
      assms(1,3) p
    by (simp add: case_prod_beta)
  show "connections (sy_store (snd (poll_once me pin None sy))) = [require_auth (rfc3339nano (pi_finish pin)) conn]"
    if "\<not> has_active_attempt (pi_active pin) (c_id conn) (sy_store sy)"
    using assms that p(1) lost
    by (simp add: poll_once_def poll_bank_def st1 boot_sys_def poll_answer_def Let_def)
  show "connections (sy_store (snd (keepalive me pin sy))) = [require_auth (rfc3339nano (pi_finish pin)) conn]"
    using assms p(1) lost
    by (simp add: keepalive_def st1 boot_sys_def keepalive_answer_def Let_def)
qed


definition login_response :: response where
  "login_response = \<lparr>re_url = ''u'', re_status = 200, re_body = ''login'', re_kind = LoginPage\<rparr>"

definition scripted_bank :: "response \<Rightarrow> unit bank" where
  "scripted_bank r = \<lparr>bk_boot = (\<lambda>_ c. (Inr r, c)), bk_hist = (\<lambda>_ _ _ c. (Inr r, c)), bk_restore = (\<lambda>_ c. (None, c)),
     bk_snapshot = (\<lambda>_. Inl (ErrMsg ''none''))\<rparr>"

definition scripted_monitor :: "acb_lib \<Rightarrow> response \<Rightarrow> unit monitor_env" where
  "scripted_monitor lb r = \<lparr>me_lib = lb, me_bank = Some (scripted_bank r), me_session = None\<rparr>"

definition watched :: "unit system" where "watched = new_system demo_bank ()"


section \<open>What a poll stores\<close>

lemma poll_pages_prefix: "\<exists>us. fst (fst (poll_pages lb bk clock n ts action fs c)) = ts @ us"
proof (induction lb bk clock n ts action fs c rule: poll_pages.induct)
  case (1 lb bk clock n ts action fs c)
  obtain a c' where h: "bk_hist bk (clock n) action (set_field ''_raw'' ''true'' fs) c = (a, c')"
    by (cases "bk_hist bk (clock n) action (set_field ''_raw'' ''true'' fs) c")
  show ?case
  proof (cases "\<exists>r pg. n < 5 \<and> a = Inr r \<and> parse_history_page lb (re_body r) = Inr pg \<and> hp_next pg
        \<and> \<not> (hp_action pg = [] \<and> hp_fields pg = []) \<and> \<not> 5 \<le> Suc n")
    case True
    then obtain r pg where g: "n < 5" "a = Inr r" "parse_history_page lb (re_body r) = Inr pg" "hp_next pg"
      "\<not> (hp_action pg = [] \<and> hp_fields pg = [])" "\<not> 5 \<le> Suc n" by blast
    have e: "poll_pages lb bk clock n ts action fs c
        = poll_pages lb bk clock (Suc n) (ts @ hp_txns pg) (hp_action pg) (hp_fields pg) c'"
      using h g by (auto simp: poll_pages.simps [of lb bk clock n] Let_def)
    have "\<exists>us. fst (fst (poll_pages lb bk clock (Suc n) (ts @ hp_txns pg) (hp_action pg) (hp_fields pg) c')) = (ts @ hp_txns pg) @ us"
      by (rule 1 [of a c' r pg]) (use g h in auto)
    then show ?thesis unfolding e by auto
  next
    case False
    then show ?thesis using h
      by (auto simp: poll_pages.simps [of lb bk clock n] Let_def split: sum.splits)
  qed
qed

lemma all_pages_prefix: "set (hp_txns pg) \<subseteq> set (fst (fst (all_pages lb bk clock pg c)))"
  using poll_pages_prefix [of lb bk clock 1 "hp_txns pg" "hp_action pg" "hp_fields pg" c] by (auto simp: all_pages_def)

lemma finish_poll_transactions: "transactions (snd (finish_poll t p st)) = transactions st"
  by (cases rule: finish_poll_cases [of t p st]) (simp_all add: set_connection_def closed_poll_def)

lemma finish_sys_transactions: "finish_sys pin p n sy = (e, sy') \<Longrightarrow> transactions (sy_store sy') = transactions (sy_store sy)"
  using finish_poll_transactions [of "pi_finish pin" p "sy_store sy"]
  by (auto simp: finish_sys_def split: prod.splits)

lemma refresh_transactions: "transactions (snd (refresh_session t c g e k st)) = transactions st"
  by (simp add: refresh_session_def Let_def)

lemma persist_transactions: "transactions (snd (persist se bk nonce t c g cl st)) = transactions st"
  by (simp add: persist_def refresh_transactions split: sum.splits)

lemma persist_sys_transactions [simp]: "transactions (sy_store (persist_sys me bk nonce t conn sy)) = transactions (sy_store sy)"
  by (simp add: persist_sys_def persist_transactions split: option.splits)

lemma announce_store [simp]: "sy_store (announce ns sy) = sy_store sy"
  by (simp add: announce_def)

text \<open>A batch stores every valid item, under its number.\<close>

lemma ingest_stores:
  assumes "ingest_batch en conn g masked items baseline source st = ((None, res), st')" "fk_inv st"
    and "it \<in> set items" "item_valid it"
  shows "semantic_key (bi_number it) \<in> known conn st'"
proof -
  obtain src xs where x: "list_all2 (row_of conn baseline src) xs (new_items (known conn st) items)"
    "contributes en masked (map fst (active_endpoints st)) baseline src st st' xs (br_events res)"
    using ingest_batch_contributes [OF assms(1,2) refl] by blast
  show ?thesis
    using known_contributes [OF x(2,1)] new_items_covers [OF assms(3,4), of "known conn st"] by auto
qed

lemma poll_ingest_stores:
  assumes "poll_ingest me bk pin conn p pg sy = (None, sy')" "fk_inv (sy_store sy)"
    and "t \<in> set (hp_txns pg)" "tr_number t \<noteq> []" "tr_at t \<noteq> []"
  shows "find_txn (c_id conn) (semantic_key (tr_number t)) (sy_store sy') \<noteq> None"
proof -
  obtain ts n part why c' where a: "all_pages (me_lib me) bk (pi_page pin) pg (sy_client sy) = ((ts, n, part, why), c')"
    by (metis surj_pair)
  have t: "t \<in> set ts" using all_pages_prefix [of pg "me_lib me" bk "pi_page pin" "sy_client sy"] a assms(3) by auto
  let ?in = "ingest_realtime (pi_env pin) (c_id conn) (c_generation conn) (c_masked conn) (map item_of ts) False (sy_store sy)"
  obtain e res st' where i: "?in = ((e, res), st')" by (metis surj_pair)
  have e: "e = None" using assms(1) by (cases e) (simp_all add: poll_ingest_def a i Let_def fail_poll_def)
  define sy1 where "sy1 = sy\<lparr>sy_client := c', sy_store := st', sy_backoff := None\<rparr>"
  define p1 where "p1 = poll_verdict part why (p\<lparr>pr_rows := int (length ts), pr_pages := int n\<rparr>)"
  obtain fe sy2 where f: "finish_sys pin p1 (br_inserted res) sy1 = (fe, sy2)" by (cases "finish_sys pin p1 (br_inserted res) sy1")
  have r: "(case fe of Some er \<Rightarrow> (Some er, sy2)
      | None \<Rightarrow> (None, persist_sys me bk (pi_nonce pin) (pi_persist pin) conn (announce (br_events res) sy2))) = (None, sy')"
    using assms(1) e f by (simp add: poll_ingest_def a i Let_def p1_def sy1_def)
  then have "sy' = persist_sys me bk (pi_nonce pin) (pi_persist pin) conn (announce (br_events res) sy2)"
    by (cases fe) simp_all
  then have tx: "transactions (sy_store sy') = transactions st'" using finish_sys_transactions [OF f] by (simp add: sy1_def)
  have "item_valid (item_of t)" using assms(4,5) by (simp add: item_valid_def item_of_def)
  moreover have "item_of t \<in> set (map item_of ts)" using t by simp
  ultimately have "semantic_key (bi_number (item_of t)) \<in> known (c_id conn) st'"
    using i e ingest_stores [OF _ assms(2)] unfolding ingest_realtime_def by blast
  then show ?thesis using tx by (simp add: find_txn_known known_def item_of_def)
qed

text \<open>The transaction rows of the first table that has any are the transactions of the page.\<close>

lemma scan_tables_first:
  assumes "list_all (no_txns u) pre" "history_header u (table_rows tb) = Some (c, rows)" "row_txns u c rows \<noteq> []"
    and "scan_tables u (pre @ tb # post) r s = Inr (ts, r', s')"
  shows "map strip ts = map strip (row_txns u c rows)"
  using assms(1,4)
proof (induction pre arbitrary: r s)
  case Nil
  then obtain ts1 s1 where sc: "scan_rows u c False rows [] s = Inr (ts1, s1)"
    using assms(2) by (auto split: sum.splits)
  have "map strip ts1 = map strip (row_txns u c rows)"
    using scan_rows_accounts [OF history_header_valid [OF assms(2)] sc] by simp
  moreover from this have "ts1 \<noteq> []" using assms(3) by auto
  ultimately show ?case using Nil(2) assms(2) sc by auto
next
  case (Cons t pre)
  show ?case
  proof (cases "history_header u (table_rows t)")
    case None
    then show ?thesis using Cons by simp
  next
    case (Some h)
    obtain d rs where h: "h = (d, rs)" by (cases h)
    obtain ts1 s1 where sc: "scan_rows u d False rs [] s = Inr (ts1, s1)"
      using Cons(3) Some h by (auto split: sum.splits)
    have "map strip ts1 = map strip (row_txns u d rs)"
      using scan_rows_accounts [OF history_header_valid sc] Some h by simp
    then have "ts1 = []" using Cons(2) Some h by (simp add: no_txns_def)
    then have "scan_tables u (pre @ tb # post) True s1 = Inr (ts, r', s')" using Cons(3) Some h sc by simp
    with Cons(1) Cons(2) show ?thesis by simp
  qed
qed

lemma strip_sel: "tr_number (strip t) = tr_number t" "tr_at (strip t) = tr_at t"
  by (simp_all add: strip_def)

lemma page_row_parsed:
  assumes "parse_history_page lb markup = Inr pg" "lb_html lb markup = Some doc" "tables_of doc = pre @ tb # post"
    and "list_all (no_txns (lb_unicode lb)) pre" "history_header (lb_unicode lb) (table_rows tb) = Some (c, rows)"
    and "row \<in> set rows" "parse_row (lb_unicode lb) row c = Inr t"
  shows "\<exists>t' \<in> set (hp_txns pg). tr_number t' = tr_number t \<and> tr_at t' = tr_at t"
proof -
  let ?u = "lb_unicode lb"
  obtain ts where p: "page_transactions ?u doc = Inr ts" "hp_txns pg = ts"
  proof (cases "page_transactions ?u doc")
    case (Inr ts)
    then have "hp_txns pg = ts" using assms(1,2)
      by (cases "detect_pagination lb doc markup") (auto simp: parse_history_page_def rbind_def split: sum.splits prod.splits)
    with Inr that show ?thesis by blast
  qed (use assms(1,2) in \<open>simp add: parse_history_page_def rbind_def\<close>)
  then obtain r s where "scan_tables ?u (pre @ tb # post) False False = Inr (ts, r, s)"
    using assms(3) by (auto simp: page_transactions_def split: sum.splits if_splits)
  moreover have t: "t \<in> set (row_txns ?u c rows)" using assms(6,7) by (force simp: row_txns_def)
  then have "row_txns ?u c rows \<noteq> []" by auto
  ultimately have "map strip ts = map strip (row_txns ?u c rows)" using scan_tables_first [OF assms(4,5)] by blast
  with t have "strip t \<in> strip ` set ts" by (metis image_eqI list.set_map)
  then obtain t' where "t' \<in> set ts" "strip t = strip t'" by blast
  then have "tr_number t = tr_number t'" "tr_at t = tr_at t'"
    using strip_sel [of t] strip_sel [of t'] by simp_all
  with \<open>t' \<in> set ts\<close> show ?thesis unfolding p(2) by (intro bexI [of _ t']) simp_all
qed

lemma parse_row_present: "parse_row u row c = Inr t \<Longrightarrow> tr_number t \<noteq> [] \<and> tr_at t \<noteq> []"
  by (auto simp: parse_row_def rbind_Inr_iff Let_def split: if_splits)

text \<open>A poll that is due and meets a history page parses and ingests it.\<close>

lemma poll_meets_history:
  fixes me :: "'c monitor_env"
  assumes "connections (sy_store sy) = [conn]" and "c_state conn = Monitoring"
    and "\<not> backing_off (pi_now pin) sy" and "\<not> has_active_attempt (pi_active pin) (c_id conn) (sy_store sy)"
    and "me_bank me = Some bk" and "restore_sys me bk conn sy = (None, sy1)"
    and "start_poll (pi_id pin) (pi_start pin) (sy_store sy) = (Inr p, st')"
    and "bk_boot bk (pi_boot pin) (sy_client sy1) = (Inr r, c2)" and "re_kind r = HistoryPage" and "re_status r \<noteq> 429"
    and "p1 = p\<lparr>pr_classifier := ''HISTORY_PAGE'', pr_http := re_status r\<rparr>"
    and "sy2 = sy1\<lparr>sy_store := st', sy_client := c2\<rparr>"
  shows "poll_once me pin None sy =
      (case parse_history_page (me_lib me) (re_body r) of
         Inl e \<Rightarrow> fail_poll pin p1 e sy2 | Inr pg \<Rightarrow> poll_ingest me bk pin conn p1 pg sy2)"
proof -
  have "sy_store sy1 = sy_store sy" using restore_sys_store [OF assms(6)] by simp
  then have "poll_once me pin None sy = poll_answer me bk pin conn p r sy2"
    using assms(1-8,12) by (simp add: poll_once_def poll_bank_def boot_sys_def)
  moreover have "\<not> challenge (re_kind r)" "re_kind r \<noteq> MaintenancePage" using assms(9) by (simp_all add: challenge_def)
  ultimately show ?thesis
    using assms(9,10) unfolding assms(11) by (simp add: poll_answer_def Let_def poll_markup_def)
qed


definition page_lib :: acb_lib where "page_lib = demo_lib\<lparr>lb_html := (\<lambda>_. Some demo_page)\<rparr>"

definition listing :: response where
  "listing = \<lparr>re_url = ''u'', re_status = 200, re_body = ''page'', re_kind = HistoryPage\<rparr>"

definition listed_page :: history_page where
  "listed_page = \<lparr>hp_txns = [\<lparr>tr_number = ''7'', tr_effective = [], tr_at = ''01/02/2026'', tr_debit = 0, tr_credit = 1250000,
     tr_balance = None, tr_desc = []\<rparr>], hp_next = False, hp_action = [], hp_fields = [], hp_total = 0\<rparr>"

definition demo_polled :: "err option \<times> unit system" where
  "demo_polled = poll_once (scripted_monitor page_lib listing) demo_input None watched"

text \<open>A code equation that leaves the branch not taken unevaluated.\<close>

lemma all_pages_code [code]:
  "all_pages lb bk clock pg c =
    (case hp_next pg of False \<Rightarrow> ((hp_txns pg, 1, False, None), c)
     | True \<Rightarrow> if hp_action pg = [] \<and> hp_fields pg = [] then ((hp_txns pg, 1, True, Some no_navigation), c)
       else poll_pages lb bk clock 1 (hp_txns pg) (hp_action pg) (hp_fields pg) c)"
  by (cases "hp_next pg") (simp_all add: all_pages_def)


end
