(* ===== verification/MonitorCatchUp.thy ===== *)
theory MonitorCatchUp
  imports MonitorLife SettingsLife
begin

text \<open>
  The catch-up: a checkpoint only names a day up to which every day since the start of the catch-up
  has a complete listing, and realtime polling resumes only after a catch-up that succeeded.
\<close>

section \<open>What the steps of a day leave alone\<close>

definition complete_on :: "string \<Rightarrow> store \<Rightarrow> int \<Rightarrow> bool" where
  "complete_on conn st d \<longleftrightarrow> list_ex (\<lambda>r. cv_conn r = conn \<and> cv_day r = fmt_day d \<and> cv_status r = ''COMPLETE'') (coverage st)"

text \<open>The tables the catch-up of a day works on, up to what a batch changes.\<close>

definition frame :: "store \<Rightarrow> coverage_row list \<times> checkpoint_row list \<times> connection list" where
  "frame st = (coverage st, checkpoints st, connections st)"

lemma ingest_failed: "ingest_batch en c g m items b source st = ((Some e, res), st') \<Longrightarrow> st' = st"
  by (auto simp: ingest_batch_def Let_def split: option.splits prod.splits if_splits)

lemma ingest_frame:
  assumes "ingest_batch en c g m items b source st = ((e, res), st')" "fk_inv st"
  shows "frame st' = frame st \<and> fk_inv st'"
proof (cases e)
  case None
  obtain xs where "fk_inv st'"
    "contributes en m (map fst (active_endpoints st)) b (if source = [] then ''REALTIME'' else source) st st' xs (br_events res)"
    using ingest_batch_contributes [OF assms(1) [unfolded None] assms(2) refl] by blast
  then show ?thesis by (auto simp: contributes_def frame_def)
next
  case (Some e)
  then show ?thesis using ingest_failed assms by blast
qed

lemma fk_inv_tables [simp]:
  "fk_inv (st\<lparr>coverage := x\<rparr>) = fk_inv st" "fk_inv (st\<lparr>checkpoints := y\<rparr>) = fk_inv st" "fk_inv (st\<lparr>poll_runs := z\<rparr>) = fk_inv st"
  by (simp_all add: fk_inv_def)

lemma save_day_effect:
  "coverage (save_day ci conn f d st) = coverage st" "connections (save_day ci conn f d st) = connections st"
  "fk_inv (save_day ci conn f d st) = fk_inv st"
  "has_connection st (c_id conn) \<Longrightarrow>
     \<exists>cp. get_checkpoint (c_id conn) (save_day ci conn f d st) = Some cp \<and> cp_to cp = fmt_day d"
proof -
  define p where "p = (catchup_checkpoint ci conn f d)\<lparr>cp_updated := rfc3339nano (ci_save ci d)\<rparr>"
  have p: "cp_conn p = c_id conn" "cp_to p = fmt_day d" by (simp_all add: p_def catchup_checkpoint_def)
  have s: "save_day ci conn f d st =
      (if list_ex (\<lambda>x. cp_conn x = c_id conn) (checkpoints st)
       then st\<lparr>checkpoints := upd (\<lambda>x. cp_conn x = c_id conn) (\<lambda>_. p) (checkpoints st)\<rparr>
       else if has_connection st (c_id conn) then st\<lparr>checkpoints := checkpoints st @ [p]\<rparr> else st)"
    unfolding save_day_def save_checkpoint_def Let_def p_def [symmetric] p(1)
    by (simp add: insert_row_def list_ex_iff)
  show "coverage (save_day ci conn f d st) = coverage st" "connections (save_day ci conn f d st) = connections st"
    "fk_inv (save_day ci conn f d st) = fk_inv st"
    by (simp_all add: s)
  show "\<exists>cp. get_checkpoint (c_id conn) (save_day ci conn f d st) = Some cp \<and> cp_to cp = fmt_day d" if "has_connection st (c_id conn)"
  proof (cases "list_ex (\<lambda>x. cp_conn x = c_id conn) (checkpoints st)")
    case True
    then have "sel1 (\<lambda>x. cp_conn x = c_id conn) (checkpoints st) \<noteq> None" by (auto simp: list_ex_iff sel1_None)
    then show ?thesis using True p by (auto simp: s get_checkpoint_def sel1_upd)
  next
    case False
    then have "\<forall>x \<in> set (checkpoints st). \<not> cp_conn x = c_id conn" by (simp add: list_ex_iff)
    then show ?thesis using False that p by (auto simp: s get_checkpoint_def sel1_snoc)
  qed
qed

lemma complete_on_save [simp]: "complete_on c (save_day ci conn f d st) k = complete_on c st k"
  by (simp add: complete_on_def save_day_effect)

lemma record_day_effect:
  assumes "has_connection st (c_id conn)" "c_id conn \<noteq> []" "list_all (\<lambda>r. cv_id r \<noteq> ci_id ci d) (coverage st)"
  shows "complete_on (c_id conn) (record_day ci conn d n st) d"
    "\<And>k. complete_on (c_id conn) st k \<Longrightarrow> complete_on (c_id conn) (record_day ci conn d n st) k"
    "set (map cv_id (coverage (record_day ci conn d n st))) \<subseteq> insert (ci_id ci d) (set (map cv_id (coverage st)))"
    "connections (record_day ci conn d n st) = connections st" "checkpoints (record_day ci conn d n st) = checkpoints st"
    "fk_inv (record_day ci conn d n st) = fk_inv st"
proof -
  define ts where "ts = rfc3339nano (ci_record ci d)"
  define p where "p = (\<lambda>r :: coverage_row. cv_conn r = c_id conn \<and> cv_day r = fmt_day d)"
  define g where "g = (\<lambda>r :: coverage_row. r\<lparr>cv_status := ''COMPLETE'', cv_sync := ts, cv_rows := int n\<rparr>)"
  define r where "r = \<lparr>cv_id = ci_id ci d, cv_conn = c_id conn, cv_day = fmt_day d, cv_status = ''COMPLETE'', cv_sync = ts, cv_rows = int n\<rparr>"
  have e: "record_day ci conn d n st =
      st\<lparr>coverage := (if list_ex p (coverage st) then upd p g (coverage st) else coverage st @ [r])\<rparr>"
    using assms by (auto simp: record_day_def record_coverage_per_day_def with_tx_def rbind_def upsert_coverage_def insert_row_def
        list_all_iff list_ex_iff p_def g_def r_def ts_def)
  have g: "cv_conn (g x) = cv_conn x" "cv_day (g x) = cv_day x" "cv_status (g x) = ''COMPLETE''" "cv_id (g x) = cv_id x" for x
    by (simp_all add: g_def)
  show "complete_on (c_id conn) (record_day ci conn d n st) d"
  proof (cases "list_ex p (coverage st)")
    case True
    then obtain x where "x \<in> set (coverage st)" "p x" by (auto simp: list_ex_iff)
    then have "g x \<in> set (coverage (record_day ci conn d n st))" using True by (auto simp: e upd_def)
    then show ?thesis using \<open>p x\<close> g [of x] by (auto simp: complete_on_def list_ex_iff p_def)
  next
    case False
    then show ?thesis by (simp add: e complete_on_def r_def)
  qed
  show "complete_on (c_id conn) (record_day ci conn d n st) k" if h: "complete_on (c_id conn) st k" for k
  proof -
    obtain x where x: "x \<in> set (coverage st)" "cv_conn x = c_id conn" "cv_day x = fmt_day k" "cv_status x = ''COMPLETE''"
      using h by (auto simp: complete_on_def list_ex_iff)
    have "(if p x then g x else x) \<in> set (coverage (record_day ci conn d n st))" if "list_ex p (coverage st)"
      using x(1) that by (auto simp: e upd_def)
    then have "\<exists>y \<in> set (coverage (record_day ci conn d n st)). cv_conn y = c_id conn \<and> cv_day y = fmt_day k \<and> cv_status y = ''COMPLETE''"
    proof (cases "list_ex p (coverage st)")
      case True
      then show ?thesis using \<open>_ \<Longrightarrow> _ \<in> set _\<close> [OF True] x g [of x] by (intro bexI [of _ "if p x then g x else x"]) auto
    next
      case False
      then show ?thesis using x by (intro bexI [of _ x]) (simp_all add: e)
    qed
    then show ?thesis by (simp add: complete_on_def list_ex_iff)
  qed
  show "set (map cv_id (coverage (record_day ci conn d n st))) \<subseteq> insert (ci_id ci d) (set (map cv_id (coverage st)))"
    by (auto simp: e upd_def g r_def)
  show "connections (record_day ci conn d n st) = connections st" "checkpoints (record_day ci conn d n st) = checkpoints st"
    "fk_inv (record_day ci conn d n st) = fk_inv st"
    by (simp_all add: e)
qed

lemma covered_complete:
  assumes "check_range_coverage c (fmt_day d) (fmt_day d) now st = Inr True" "days_of 0 1 1 \<le> d" "d \<le> days_of 9999 12 31"
  shows "complete_on c st d"
proof -
  have "parse_day (fmt_day d) = Some d" using assms(2,3) by (rule parse_fmt_day)
  then have "day_covered c now st d" using assms(1) by (simp add: check_range_coverage_def split: if_splits)
  then obtain r where "sel1 (\<lambda>r. cv_conn r = c \<and> cv_day r = fmt_day d) (coverage st) = Some r" "cv_status r = ''COMPLETE''"
    by (auto simp: day_covered_def split: option.splits if_splits)
  then show ?thesis using sel1_Some [of _ "coverage st" r] by (auto simp: complete_on_def list_ex_iff)
qed

lemma day_or_zero_low: "days_of 0 1 1 \<le> day_or_zero s"
proof (cases "parse_day s")
  case None
  have "days_of 0 1 1 \<le> zero_day" by code_simp
  then show ?thesis by (simp add: day_or_zero_def None)
next
  case (Some n)
  obtain y m d where c: "civil n = (y, m, d)" by (metis prod_cases3)
  have "valid_date y m d" "0 \<le> y" using civil_valid [OF c] parse_day_Some [OF Some] c by simp_all
  moreover have "civil (days_of 0 1 1) = (0, 1, 1)" by (rule civil_days_of) code_simp
  ultimately have "\<not> n < days_of 0 1 1" using civil_mono [of n "days_of 0 1 1" y m d 0 1 1] c by (auto simp: valid_date_def)
  then show ?thesis by (simp add: day_or_zero_def Some)
qed

section \<open>The loop over the days\<close>

text \<open>
  Before day \<open>k\<close>: all days from \<open>a\<close> on are complete, the identifiers of the days to come are new, and
  the checkpoint is the old one or names one of the days handled.
\<close>

definition caught_up :: "catchup_input \<Rightarrow> connection \<Rightarrow> checkpoint_row option \<Rightarrow> int \<Rightarrow> int \<Rightarrow> int \<Rightarrow> store \<Rightarrow> bool" where
  "caught_up ci conn old a k today st \<longleftrightarrow>
     connections st = [conn] \<and> fk_inv st \<and> (\<forall>d \<in> {a..<k}. complete_on (c_id conn) st d) \<and>
     (\<forall>d \<in> {k..today}. ci_id ci d \<notin> set (map cv_id (coverage st))) \<and>
     (get_checkpoint (c_id conn) st = old \<or>
      (\<exists>cp d. get_checkpoint (c_id conn) st = Some cp \<and> cp_to cp = fmt_day d \<and> a \<le> d \<and> d < k))"

lemma caught_up_frame: "caught_up ci conn old a k today st \<Longrightarrow> frame st' = frame st \<Longrightarrow> fk_inv st' \<Longrightarrow> caught_up ci conn old a k today st'"
  by (auto simp: caught_up_def frame_def get_checkpoint_def complete_on_def)

lemma days_snoc: "a \<le> k \<Longrightarrow> {a..<k + 1} = insert k {a..<k :: int}"
  by auto

lemma caught_up_save:
  assumes "caught_up ci conn old a k today st" "complete_on (c_id conn) st k" "a \<le> k"
  shows "caught_up ci conn old a (k + 1) today (save_day ci conn f k st)"
proof -
  have h: "has_connection st (c_id conn)" using assms(1) by (simp add: caught_up_def has_connection_def)
  obtain cp where cp: "get_checkpoint (c_id conn) (save_day ci conn f k st) = Some cp" "cp_to cp = fmt_day k"
    using save_day_effect(4) [OF h] by blast
  show ?thesis
    using assms cp unfolding caught_up_def save_day_effect complete_on_save days_snoc [OF assms(3)]
    by auto
qed

lemma caught_up_record:
  assumes "caught_up ci conn old a k today st" "a \<le> k" "k \<le> today" "c_id conn \<noteq> []" "inj_on (ci_id ci) {a..today}"
  shows "caught_up ci conn old a (k + 1) today (save_day ci conn f k (record_day ci conn k n st))"
proof -
  have h: "has_connection st (c_id conn)" using assms(1) by (simp add: caught_up_def has_connection_def)
  have "list_all (\<lambda>r. cv_id r \<noteq> ci_id ci k) (coverage st)"
    using assms(1) atLeastAtMost_iff [of k k today] assms(3) by (force simp: caught_up_def list_all_iff)
  note r = record_day_effect [OF h assms(4) this, where n = n]
  define st' where "st' = record_day ci conn k n st"
  have "\<forall>d \<in> {k+1..today}. ci_id ci d \<notin> set (map cv_id (coverage st'))"
  proof
    fix d
    assume d: "d \<in> {k+1..today}"
    then have "ci_id ci d \<noteq> ci_id ci k" using inj_onD [OF assms(5), of d k] assms(2,3) by auto
    moreover have "ci_id ci d \<notin> set (map cv_id (coverage st))" using assms(1) d by (auto simp: caught_up_def)
    ultimately show "ci_id ci d \<notin> set (map cv_id (coverage st'))" using r(3) unfolding st'_def by blast
  qed
  obtain cp where cp: "get_checkpoint (c_id conn) (save_day ci conn f k st') = Some cp" "cp_to cp = fmt_day k"
    using save_day_effect(4) [of st' conn ci f k] h r(4) by (auto simp: st'_def has_connection_def)
  show ?thesis
    using assms(1,2) cp r \<open>\<forall>d \<in> {k+1..today}. _ d\<close>
    unfolding caught_up_def save_day_effect complete_on_save st'_def [symmetric] days_snoc [OF assms(2)]
    by auto
qed


text \<open>How a day of the catch-up ends: covered before, unread, unlisted, or fetched in full.\<close>

lemma catchup_day_cases:
  fixes me :: "'c monitor_env"
  assumes "fetch_range (me_lib me) bk (ci_page ci k) conn start (fmt_day k) (fmt_day k) 20 (sy_client sy) = ((e0, res), c', bo)"
    and "ingest_batch (ci_env ci k) (c_id conn) (c_generation conn) (c_masked conn) (fr_items res) False ''CATCH_UP'' (sy_store sy) = ((e1, b), st')"
  obtains (cov) s1 sy1 where "catchup_day me bk ci conn f today k (start, sy) = Inr (s1, sy1)"
      "sy_store sy1 = save_day ci conn f k (sy_store sy)"
      "k < today" "check_range_coverage (c_id conn) (fmt_day k) (fmt_day k) (ci_check ci k) (sy_store sy) = Inr True"
  | (same) er sy1 where "catchup_day me bk ci conn f today k (start, sy) = Inl (er, sy1)" "sy_store sy1 = sy_store sy"
  | (batch) er sy1 where "catchup_day me bk ci conn f today k (start, sy) = Inl (er, sy1)" "sy_store sy1 = st'"
  | (full) s1 sy1 where "catchup_day me bk ci conn f today k (start, sy) = Inr (s1, sy1)"
      "sy_store sy1 = save_day ci conn f k (record_day ci conn k (length (fr_items res)) st')"
proof (cases "k < today \<and> check_range_coverage (c_id conn) (fmt_day k) (fmt_day k) (ci_check ci k) (sy_store sy) = Inr True")
  case True
  have "catchup_day me bk ci conn f today k (start, sy) = Inr (start, sy\<lparr>sy_store := save_day ci conn f k (sy_store sy)\<rparr>)"
    by (simp only: catchup_day_def prod.case True simp_thms if_True)
  from cov [OF this] True show ?thesis by simp
next
  case nc: False
  note day = catchup_day_def prod.case nc if_False assms(1)
  consider (fetch) er where "e0 = Some er" | (ingest) er where "e0 = None" "e1 = Some er"
    | (whole) "e0 = None" "e1 = None" "fr_complete res" | (part) "e0 = None" "e1 = None" "\<not> fr_complete res"
    by blast
  then show ?thesis
  proof cases
    case fetch
    have "catchup_day me bk ci conn f today k (start, sy)
        = Inl (ErrWrap (''catch-up fetch for '' @ fmt_day k) er, note_backoff bo (sy\<lparr>sy_client := c', sy_pending := True\<rparr>))"
      by (simp only: day fetch option.case)
    from same [OF this] show ?thesis by (cases bo) (simp_all add: note_backoff_def)
  next
    case ingest
    have "catchup_day me bk ci conn f today k (start, sy)
        = Inl (ErrWrap (''catch-up ingest for '' @ fmt_day k) er, sy\<lparr>sy_client := c', sy_store := st', sy_pending := True\<rparr>)"
      by (simp add: day ingest Let_def assms(2))
    from batch [OF this] show ?thesis by simp
  next
    case whole
    have "\<exists>s1 sy1. catchup_day me bk ci conn f today k (start, sy) = Inr (s1, sy1)
        \<and> sy_store sy1 = save_day ci conn f k (record_day ci conn k (length (fr_items res)) st')"
      by (simp add: day whole Let_def assms(2))
    then show ?thesis using full by blast
  next
    case part
    have "catchup_day me bk ci conn f today k (start, sy)
        = Inl (ErrCatchUpIncomplete, (announce (br_events b) (sy\<lparr>sy_client := c', sy_store := st'\<rparr>))\<lparr>sy_pending := True\<rparr>)"
      by (simp add: day part Let_def assms(2))
    from batch [OF this] show ?thesis by simp
  qed
qed

lemma catchup_day_caught_up:
  assumes "caught_up ci conn old a k today (sy_store sy)" "a \<le> k" "k \<le> today" "c_id conn \<noteq> []"
    and "inj_on (ci_id ci) {a..today}" "days_of 0 1 1 \<le> a" "today \<le> days_of 9999 12 31"
  shows "catchup_day me bk ci conn f today k (start, sy) = Inr (start', sy') \<Longrightarrow> caught_up ci conn old a (k + 1) today (sy_store sy')"
    and "catchup_day me bk ci conn f today k (start, sy) = Inl (e, sy') \<Longrightarrow> caught_up ci conn old a k today (sy_store sy')"
proof -
  let ?day = "catchup_day me bk ci conn f today k (start, sy)"
  obtain e0 res c' bo where fr: "fetch_range (me_lib me) bk (ci_page ci k) conn start (fmt_day k) (fmt_day k) 20 (sy_client sy) = ((e0, res), c', bo)"
    by (metis surj_pair)
  obtain e1 b st' where bat: "ingest_batch (ci_env ci k) (c_id conn) (c_generation conn) (c_masked conn) (fr_items res) False ''CATCH_UP''
      (sy_store sy) = ((e1, b), st')"
    by (metis surj_pair)
  have fk: "fk_inv (sy_store sy)" using assms(1) by (simp add: caught_up_def)
  have fr': "caught_up ci conn old a k today st'"
    using caught_up_frame [OF assms(1)] ingest_frame [OF bat fk] by blast
  have "(?day = Inr (start', sy') \<longrightarrow> caught_up ci conn old a (k + 1) today (sy_store sy'))
    \<and> (?day = Inl (e, sy') \<longrightarrow> caught_up ci conn old a k today (sy_store sy'))"
    using fr bat
  proof (cases rule: catchup_day_cases [where f = f and today = today])
    case (cov s1 sy1)
    have "complete_on (c_id conn) (sy_store sy) k"
      using cov(3,4) covered_complete [of "c_id conn" k "ci_check ci k" "sy_store sy"] assms(2,3,6,7) by simp
    from caught_up_save [OF assms(1) this assms(2), of f] cov(1,2) show ?thesis by auto
  next
    case (same er sy1)
    then show ?thesis using assms(1) by auto
  next
    case (batch er sy1)
    then show ?thesis using fr' by auto
  next
    case (full s1 sy1)
    then show ?thesis using caught_up_record [OF fr' assms(2-5), of f] by auto
  qed
  then show "?day = Inr (start', sy') \<Longrightarrow> caught_up ci conn old a (k + 1) today (sy_store sy')"
    and "?day = Inl (e, sy') \<Longrightarrow> caught_up ci conn old a k today (sy_store sy')"
    by blast+
qed

text \<open>What is left of the invariant when the catch-up ends, wherever it ends.\<close>

definition backed :: "string \<Rightarrow> checkpoint_row option \<Rightarrow> int \<Rightarrow> int \<Rightarrow> store \<Rightarrow> bool" where
  "backed c old a today st \<longleftrightarrow>
     get_checkpoint c st = old \<or>
     (\<exists>cp d. get_checkpoint c st = Some cp \<and> cp_to cp = fmt_day d \<and> a \<le> d \<and> d \<le> today \<and> (\<forall>k \<in> {a..d}. complete_on c st k))"

lemma caught_up_backed: "caught_up ci conn old a k today st \<Longrightarrow> k \<le> today + 1 \<Longrightarrow> backed (c_id conn) old a today st"
  unfolding caught_up_def backed_def by (elim conjE disjE exE) (simp, intro disjI2 exI conjI ballI, auto)

lemma catchup_days_backed:
  assumes "caught_up ci conn old a k today (sy_store sy)" "a \<le> k" "k \<le> today + 1" "c_id conn \<noteq> []"
    and "inj_on (ci_id ci) {a..today}" "days_of 0 1 1 \<le> a" "today \<le> days_of 9999 12 31"
  shows "(case catchup_days me bk ci conn f today [k..today] (start, sy) of
            Inl (e, sy') \<Rightarrow> backed (c_id conn) old a today (sy_store sy')
          | Inr (r, sy') \<Rightarrow> backed (c_id conn) old a today (sy_store sy'))"
  using assms(1-3)
proof (induction "nat (today + 1 - k)" arbitrary: k start sy)
  case 0
  then have "[k..today] = []" "k \<le> today + 1" by simp_all
  then show ?case using caught_up_backed [OF 0(2)] by simp
next
  case (Suc m)
  then have k: "k \<le> today" "[k..today] = k # [k + 1..today]" by (simp_all add: upto_rec1)
  note day = catchup_day_caught_up [OF Suc(3,4) k(1) assms(4-7)]
  show ?case
  proof (cases "catchup_day me bk ci conn f today k (start, sy)")
    case (Inl out)
    obtain e sy' where "out = (e, sy')" by (cases out)
    from caught_up_backed [OF day(2) [OF Inl [unfolded this]] Suc(5)] this show ?thesis by (simp add: k Inl)
  next
    case (Inr rs)
    obtain r sy' where rs: "rs = (r, sy')" by (cases rs)
    have "m = nat (today + 1 - (k + 1))" "a \<le> k + 1" "k + 1 \<le> today + 1" using Suc(2,4) k(1) by simp_all
    from Suc(1) [OF this(1) day(1) [OF Inr [unfolded rs]] this(2,3), of r] show ?thesis by (simp add: k Inr rs)
  qed
qed

lemma persist_sys_frame [simp]: "frame (sy_store (persist_sys me bk n t conn sy)) = frame (sy_store sy)"
  by (simp add: persist_sys_def persist_def refresh_session_def frame_def Let_def split: option.splits sum.splits)

lemma backed_frame: "frame st' = frame st \<Longrightarrow> backed c old a today st' = backed c old a today st"
  by (simp add: backed_def frame_def get_checkpoint_def complete_on_def)

text \<open>How a catch-up of a monitoring connection ends.\<close>

lemma catch_up_outcomes:
  assumes "connections (sy_store sy) = [conn]" "catch_up me ci sy = (e, sy')"
    and "today = day_of (ci_now ci + default_offset * second)" "f = catchup_from (ci_now ci) (c_id conn) (sy_store sy)"
  obtains (before) "sy_store sy' = sy_store sy" "sy_pending sy' = sy_pending sy" "sy_polls sy' = sy_polls sy"
  | (stopped) bk start sy0 er where "sy_store sy0 = sy_store sy" "sy_polls sy0 = sy_polls sy"
      "catchup_days me bk ci conn f today [day_or_zero f..today] (start, sy0) = Inl (er, sy')" "e = Some er"
  | (ran) bk start sy0 r sy1 where "sy_store sy0 = sy_store sy"
      "catchup_days me bk ci conn f today [day_or_zero f..today] (start, sy0) = Inr (r, sy1)" "e = None"
      "frame (sy_store sy') = frame (sy_store sy1)"
proof (cases "c_state conn = Monitoring \<and> me_bank me \<noteq> None")
  case False
  then show ?thesis using assms before by (auto simp: catch_up_def Let_def split: if_splits)
next
  case True
  then obtain bk where bk: "me_bank me = Some bk" by blast
  obtain e1 sy1 where r: "restore_sys me bk conn sy = (e1, sy1)" by (cases "restore_sys me bk conn sy")
  obtain b sy2 where b: "boot_sys bk (ci_boot ci) sy1 = (b, sy2)" by (cases "boot_sys bk (ci_boot ci) sy1")
  note same = restore_sys_store [OF r] boot_sys_store [OF b]
  consider er where "e1 = Some er" | er where "e1 = None" "b = Inl er" | rs where "e1 = None" "b = Inr rs" "challenge (re_kind rs)"
    | (days) rs where "e1 = None" "b = Inr rs" "\<not> challenge (re_kind rs)"
    by (cases e1; cases b) auto
  then show ?thesis
  proof cases
    case days
    have e: "catch_up me ci sy = (case catchup_days me bk ci conn f today [day_or_zero f..today] (rs, sy2) of
        Inl (e, sy3) \<Rightarrow> (Some e, sy3)
      | Inr (_, sy3) \<Rightarrow> (None, persist_sys me bk (ci_nonce ci) (ci_persist ci) conn (sy3\<lparr>sy_pending := False\<rparr>)))"
      unfolding catch_up_def assms(3,4) Let_def
      by (simp only: get_connection_one [OF assms(1)] sum.case True simp_thms if_False bk option.case r b days prod.case)
    show ?thesis
    proof (cases "catchup_days me bk ci conn f today [day_or_zero f..today] (rs, sy2)")
      case (Inl out)
      obtain er sy3 where o: "out = (er, sy3)" by (cases out)
      show ?thesis by (rule stopped [of sy2 bk rs er]) (use same assms(2) e Inl o in auto)
    next
      case (Inr out)
      obtain rs' sy3 where o: "out = (rs', sy3)" by (cases out)
      show ?thesis by (rule ran [of sy2 bk rs rs' sy3]) (use same assms(2) e Inr o in auto)
    qed
  qed (rule before; use assms(1,2) True bk r b same in \<open>simp add: catch_up_def Let_def\<close>)+
qed

text \<open>The checkpoint that a catch-up leaves, when its range has a day and when it has none.\<close>

lemma catch_up_backed:
  fixes me :: "'c monitor_env"
  assumes "connections (sy_store sy) = [conn]" and "c_id conn \<noteq> []" and "fk_inv (sy_store sy)"
    and "today = day_of (ci_now ci + default_offset * second)" and "today \<le> days_of 9999 12 31"
    and "a = day_or_zero (catchup_from (ci_now ci) (c_id conn) (sy_store sy))"
    and "inj_on (ci_id ci) {a..today}" and "\<forall>d \<in> {a..today}. ci_id ci d \<notin> set (map cv_id (coverage (sy_store sy)))"
    and "catch_up me ci sy = (e, sy')" and "a \<le> today + 1"
  shows "backed (c_id conn) (get_checkpoint (c_id conn) (sy_store sy)) a today (sy_store sy')"
proof -
  define f where "f = catchup_from (ci_now ci) (c_id conn) (sy_store sy)"
  have low: "days_of 0 1 1 \<le> a" unfolding assms(6) by (rule day_or_zero_low)
  have a: "day_or_zero f = a" by (simp only: f_def assms(6))
  have start: "caught_up ci conn (get_checkpoint (c_id conn) (sy_store sy)) a a today st" if "st = sy_store sy" for st
    using assms(1,3,8) that by (simp add: caught_up_def)
  note loop = catchup_days_backed [OF start order_refl assms(10) assms(2,7) low assms(5), where f = f]
  from assms(1,9,4) f_def show ?thesis
  proof (cases rule: catch_up_outcomes)
    case before
    then show ?thesis by (simp add: backed_def)
  next
    case (stopped bk st sy0 er)
    from loop [OF stopped(1), of me bk st] show ?thesis by (simp only: stopped(3) [unfolded a] sum.case prod.case)
  next
    case (ran bk st sy0 r sy1)
    from loop [OF ran(1), of me bk st] show ?thesis by (simp only: ran(2) [unfolded a] sum.case prod.case backed_frame [OF ran(4)])
  qed
qed

lemma catch_up_empty_backed:
  fixes me :: "'c monitor_env"
  assumes "connections (sy_store sy) = [conn]" and "today = day_of (ci_now ci + default_offset * second)"
    and "a = day_or_zero (catchup_from (ci_now ci) (c_id conn) (sy_store sy))" and "catch_up me ci sy = (e, sy')" and "\<not> a \<le> today + 1"
  shows "backed (c_id conn) (get_checkpoint (c_id conn) (sy_store sy)) a today (sy_store sy')"
  using assms(1,4,2) refl
proof (cases rule: catch_up_outcomes)
  case before
  then show ?thesis by (simp add: backed_def)
next
  case (stopped bk st sy0 er)
  then have "sy_store sy' = sy_store sy" using assms(5) by (simp add: assms(3) [symmetric])
  then show ?thesis by (simp add: backed_def)
next
  case (ran bk st sy0 r sy1)
  then have "frame (sy_store sy') = frame (sy_store sy)" using assms(5) by (simp add: assms(3) [symmetric])
  then show ?thesis by (simp add: backed_def frame_def get_checkpoint_def)
qed

text \<open>
  Property C32. A checkpoint is backed by listings: when the catch-up of a connection, whether it ends
  well or with an error, leaves a new checkpoint, that checkpoint names a day not after today and every
  day from the start of the catch-up up to it is recorded as complete.
\<close>

theorem checkpoint_backed:
  fixes me :: "'c monitor_env"
  assumes "connections (sy_store sy) = [conn]" and "c_id conn \<noteq> []" and "fk_inv (sy_store sy)"
    and "today = day_of (ci_now ci + default_offset * second)" and "today \<le> days_of 9999 12 31"
    and "a = day_or_zero (catchup_from (ci_now ci) (c_id conn) (sy_store sy))"
    and "inj_on (ci_id ci) {a..today}" and "\<forall>d \<in> {a..today}. ci_id ci d \<notin> set (map cv_id (coverage (sy_store sy)))"
    and "catch_up me ci sy = (e, sy')"
    and "get_checkpoint (c_id conn) (sy_store sy') = Some cp" and "get_checkpoint (c_id conn) (sy_store sy) \<noteq> Some cp"
  shows "\<exists>d. a \<le> d \<and> d \<le> today \<and> cp_to cp = fmt_day d \<and> (\<forall>k \<in> {a..d}. complete_on (c_id conn) (sy_store sy') k)"
proof -
  have "backed (c_id conn) (get_checkpoint (c_id conn) (sy_store sy)) a today (sy_store sy')"
    using catch_up_backed [OF assms(1-9)] catch_up_empty_backed [OF assms(1,4,6,9)] by blast
  then show ?thesis using assms(10,11) unfolding backed_def by force
qed

text \<open>Yesterday is complete, the history of today cannot be queried: the checkpoint names yesterday.\<close>

definition half_covered :: store where
  "half_covered = demo_account\<lparr>coverage := [\<lparr>cv_id = ''i'', cv_conn = ''c'', cv_day = ''2026-09-04'', cv_status = ''COMPLETE'',
     cv_sync = ''2026-09-05T06:05:00Z'', cv_rows = 3\<rparr>]\<rparr>"

definition demo_catchup :: catchup_input where
  "demo_catchup = \<lparr>ci_now = 1788588320000000000, ci_boot = 0, ci_check = (\<lambda>_. 1788588320000000000), ci_page = (\<lambda>_ _. 0),
     ci_env = (\<lambda>_. \<lparr>en_rand = show_nat, en_now = (\<lambda>_. 0), en_sha = (\<lambda>s. s)\<rparr>), ci_record = (\<lambda>_. 0),
     ci_id = (\<lambda>d. if d = 20700 then ''j'' else ''k''), ci_save = (\<lambda>_. 0), ci_nonce = ''n'', ci_persist = 0\<rparr>"

definition blank_page :: response where
  "blank_page = \<lparr>re_url = ''u'', re_status = 200, re_body = [], re_kind = AccountDetailPage\<rparr>"

definition demo_caught :: "err option \<times> unit system" where
  "demo_caught = catch_up (scripted_monitor demo_lib blank_page) demo_catchup (new_system half_covered ())"

theorem checkpoint_backed_witness:
  "\<exists>d \<le> 20701. 20700 \<le> d \<and> fst demo_caught \<noteq> None \<and> complete_on ''c'' (sy_store (snd demo_caught)) 20700
     \<and> map_option cp_to (get_checkpoint ''c'' (sy_store (snd demo_caught))) = Some (fmt_day d)"
proof -
  let ?sy = "new_system half_covered ()"
  define conn where "conn = hd (connections demo_account)"
  have c: "connections (sy_store ?sy) = [conn]" "c_id conn = ''c''"
    by (simp_all add: new_system_def half_covered_def demo_account_def conn_def)
  have fk: "fk_inv (sy_store ?sy)"
    by (simp add: fk_inv_def new_system_def half_covered_def demo_account_def empty_store_def)
  have t: "20701 = day_of (ci_now demo_catchup + default_offset * second)" "(20701 :: int) \<le> days_of 9999 12 31" by code_simp+
  have a: "20700 = day_or_zero (catchup_from (ci_now demo_catchup) ''c'' (sy_store ?sy))" by code_simp
  have i: "{20700..20701} = {20700, 20701 :: int}" by auto
  have f: "inj_on (ci_id demo_catchup) {20700..20701}"
    "\<forall>d \<in> {20700..20701}. ci_id demo_catchup d \<notin> set (map cv_id (coverage (sy_store ?sy)))"
    by (simp_all add: i demo_catchup_def new_system_def half_covered_def)
  have r: "catch_up (scripted_monitor demo_lib blank_page) demo_catchup ?sy = (fst demo_caught, snd demo_caught)"
    by (simp add: demo_caught_def)
  have o: "get_checkpoint ''c'' (sy_store ?sy) = None" by code_simp
  have n: "fst demo_caught \<noteq> None" by code_simp
  obtain cp where cp: "get_checkpoint ''c'' (sy_store (snd demo_caught)) = Some cp"
  proof -
    have "get_checkpoint ''c'' (sy_store (snd demo_caught)) \<noteq> None" by code_simp
    then show ?thesis using that by blast
  qed
  have "\<exists>d. 20700 \<le> d \<and> d \<le> 20701 \<and> cp_to cp = fmt_day d \<and> (\<forall>k \<in> {20700..d}. complete_on (c_id conn) (sy_store (snd demo_caught)) k)"
    by (rule checkpoint_backed [OF c(1) _ fk t _ f r]) (use a c(2) cp o in simp_all)
  then obtain d where d: "20700 \<le> d" "d \<le> 20701" "cp_to cp = fmt_day d" "complete_on ''c'' (sy_store (snd demo_caught)) 20700"
    using c(2) by force
  then show ?thesis using cp n by (intro exI [of _ d]) simp
qed

section \<open>Realtime polling after a pause\<close>

lemma catchup_day_keeps:
  assumes "catchup_day me bk ci conn f today k (start, sy) = r"
  shows "case r of Inl (e, sy') \<Rightarrow> sy_polls sy' = sy_polls sy \<and> sy_pending sy' | Inr (start', sy') \<Rightarrow> sy_polls sy' = sy_polls sy"
proof -
  obtain e0 res c' bo where fr: "fetch_range (me_lib me) bk (ci_page ci k) conn start (fmt_day k) (fmt_day k) 20 (sy_client sy) = ((e0, res), c', bo)"
    by (metis surj_pair)
  obtain e1 b st' where bat: "ingest_batch (ci_env ci k) (c_id conn) (c_generation conn) (c_masked conn) (fr_items res) False ''CATCH_UP''
      (sy_store sy) = ((e1, b), st')"
    by (metis surj_pair)
  show ?thesis unfolding assms [symmetric] catchup_day_def
    by (cases bo; cases e0; cases e1; simp add: fr bat Let_def note_backoff_def announce_def)
qed

lemma catchup_days_stop:
  "catchup_days me bk ci conn f today ds (start, sy) = Inl (e, sy') \<Longrightarrow> sy_polls sy' = sy_polls sy \<and> sy_pending sy'"
proof (induction ds arbitrary: start sy)
  case (Cons d ds)
  show ?case
  proof (cases "catchup_day me bk ci conn f today d (start, sy)")
    case (Inl out)
    then show ?thesis using catchup_day_keeps [OF Inl] Cons(2) by simp
  next
    case (Inr rs)
    obtain s1 sy1 where rs: "rs = (s1, sy1)" by (cases rs)
    then have "catchup_days me bk ci conn f today ds (s1, sy1) = Inl (e, sy')" using Inr Cons(2) by simp
    from Cons(1) [OF this] catchup_day_keeps [OF Inr] rs show ?thesis by simp
  qed
qed simp


definition demo_turn :: "unit system" where
  "demo_turn = run_turn (scripted_monitor demo_lib blank_page) (\<lambda>_. Inl (ErrMsg ''none'')) 1788588320000000000
     (TimerFired demo_catchup demo_input) (new_system half_covered ())"


section \<open>A session that is lost before the catch-up\<close>

text \<open>
  A challenge that meets the catch-up is only an error: nothing is stored, the catch-up stays pending
  and the connection stays monitoring, so the next turn in realtime mode is the same again; only a
  poll or a keepalive would notice that a login is needed.
\<close>

lemma catchup_masks_lost_session:
  assumes "connections (sy_store sy) = [conn]" "c_state conn = Monitoring" "me_bank me = Some bk"
    and "restore_sys me bk conn sy = (None, sy1)" "bk_boot bk (ci_boot ci) (sy_client sy1) = (Inr r, c2)" "challenge (re_kind r)"
  shows "catch_up me ci sy = (Some (ErrMsg ''session expired''), sy1\<lparr>sy_client := c2\<rparr>)"
    "sy_store (snd (catch_up me ci sy)) = sy_store sy" "sy_pending (snd (catch_up me ci sy)) = sy_pending sy"
  using assms restore_sys_store [OF assms(4)] by (simp_all add: catch_up_def boot_sys_def Let_def)

end
