(* ===== verification/Web.thy ===== *)
theory Web
  imports Utf8 Prelude
begin

text \<open>
  Requests and responses of the HTTP interface, the JSON values it answers with, and the helpers
  \<open>writeJSON\<close> and \<open>writeError\<close> of \<open>src/internal/httpapi/server.go\<close>. A header or query parameter that is
  absent is the empty text, as \<open>Header.Get\<close> and \<open>Values.Get\<close> give it.
\<close>

text \<open>\<open>JMs\<close> is a fractional number of milliseconds, given in microseconds.\<close>

datatype json = JNull | JBool bool | JInt int | JMs int | JStr string | JList "json list" | JObj "(string \<times> json) list"

record web_request =
  wr_method :: string
  wr_path :: string
  wr_host :: string
  wr_tls :: bool
  wr_header :: "string \<Rightarrow> string"
  wr_cookie :: "string \<Rightarrow> string option"
  wr_query :: "string \<Rightarrow> string"
  wr_body :: string

datatype body = NoBody | JsonBody json | RawBody string

record web_response =
  ws_status :: nat
  ws_headers :: "(string \<times> string) list"
  ws_body :: body

definition set_header :: "string \<Rightarrow> string \<Rightarrow> (string \<times> string) list \<Rightarrow> (string \<times> string) list" where
  "set_header k v hs = filter (\<lambda>h. fst h \<noteq> k) hs @ [(k, v)]"

definition write_json :: "nat \<Rightarrow> json \<Rightarrow> web_response" where
  "write_json status j =
     \<lparr>ws_status = status, ws_headers = [(''Content-Type'', ''application/json; charset=utf-8''), (''Cache-Control'', ''no-store'')],
      ws_body = JsonBody j\<rparr>"

definition write_error :: "nat \<Rightarrow> string \<Rightarrow> web_response" where
  "write_error status code = write_json status (JObj [(''error'', JStr code)])"

lemma status_write [simp]: "ws_status (write_json s j) = s" "ws_status (write_error s c) = s"
  by (simp_all add: write_json_def write_error_def)

text \<open>
  The codec of \<open>encoding/json\<close>: the value a text decodes to (\<open>Unmarshal\<close>) and the first value of a
  stream (\<open>Decoder.Decode\<close>), with the keys of an object spelt as the struct tags spell them, and the
  text of a value. A Go map is encoded with its keys in order.
\<close>

record json_codec =
  jc_parse :: "string \<Rightarrow> json option"
  jc_decode :: "string \<Rightarrow> json option"
  jc_text :: "json \<Rightarrow> string"

definition json_map :: "(string \<times> json) list \<Rightarrow> json" where
  "json_map fs = JObj (sort_key fst fs)"

definition delete_keys :: "string list \<Rightarrow> (string \<times> json) list \<Rightarrow> (string \<times> json) list" where
  "delete_keys ks fs = filter (\<lambda>f. fst f \<notin> set ks) fs"

definition safe_method :: "string \<Rightarrow> bool" where
  "safe_method m \<longleftrightarrow> m = ''GET'' \<or> m = ''HEAD'' \<or> m = ''OPTIONS''"

end
