(* ===== verification/EventStream.thy ===== *)
theory EventStream
  imports Ingest Web "HOL-Library.Word"
begin

text \<open>
  \<open>src/internal/eventhub/hub.go\<close>: the hub that wakes the open event streams, and
  \<open>src/internal/httpapi/sse.go\<close>, \<open>events.go\<close> and \<open>realtime.go\<close>: the stream a browser follows, which
  reads the journal from its cursor and takes a hint of the hub only as a reason to read again. A
  stream is a function of the snapshots of the database its successive reads meet.
\<close>

section \<open>The hub\<close>

record hub_event =
  he_seq :: int
  he_epoch :: string
  he_type :: string
  he_aggregate :: string
  he_payload :: payload
  he_created :: string

text \<open>The subscribers with what waits in their channels.\<close>

record hub =
  hb_subs :: "(64 word \<times> hub_event list) list"
  hb_next :: "64 word"
  hb_dropped :: "64 word"

definition new_hub :: hub where "new_hub = \<lparr>hb_subs = [], hb_next = 0, hb_dropped = 0\<rparr>"

definition subscribe :: "hub \<Rightarrow> 64 word \<times> hub" where
  "subscribe h =
     (let k = hb_next h + 1
      in (k, h\<lparr>hb_next := k, hb_subs := filter (\<lambda>s. fst s \<noteq> k) (hb_subs h) @ [(k, [])]\<rparr>))"

definition unsubscribe :: "64 word \<Rightarrow> hub \<Rightarrow> hub" where
  "unsubscribe k h = h\<lparr>hb_subs := filter (\<lambda>s. fst s \<noteq> k) (hb_subs h)\<rparr>"

definition buffer_size :: nat where "buffer_size = 128"

definition offer :: "hub_event \<Rightarrow> 64 word \<times> hub_event list \<Rightarrow> 64 word \<times> hub_event list" where
  "offer e s = (if length (snd s) < buffer_size then (fst s, snd s @ [e]) else s)"

definition hub_publish :: "hub_event \<Rightarrow> hub \<Rightarrow> hub" where
  "hub_publish e h =
     h\<lparr>hb_subs := map (offer e) (hb_subs h),
       hb_dropped := hb_dropped h + of_nat (length (filter (\<lambda>s. \<not> length (snd s) < buffer_size) (hb_subs h)))\<rparr>"

definition receive :: "64 word \<Rightarrow> hub \<Rightarrow> (hub_event \<times> hub) option" where
  "receive k h =
     (case map_of (hb_subs h) k of
        Some (e # es) \<Rightarrow> Some (e, h\<lparr>hb_subs := map (\<lambda>s. if fst s = k then (k, es) else s) (hb_subs h)\<rparr>)
      | _ \<Rightarrow> None)"

definition subscriber_count :: "hub \<Rightarrow> nat" where "subscriber_count h = length (hb_subs h)"

section \<open>Frames\<close>

text \<open>A frame of the stream: its id (empty when it has none), event name and data; or a heartbeat.\<close>

datatype sse_frame = Frame string string string | Heartbeat

definition newline :: string where "newline = [CHR 0x0A]"

fun frame_text :: "sse_frame \<Rightarrow> string" where
  "frame_text (Frame i ev dat) =
     (if i = [] then [] else ''id: '' @ i @ newline) @ ''event: '' @ ev @ newline @ ''data: '' @ dat @ newline @ newline"
| "frame_text Heartbeat = '': heartbeat'' @ newline @ newline"

definition realtime_epoch :: string where "realtime_epoch = ''ep1''"

definition replay_batch :: int where "replay_batch = 250"

definition credit_json_fields :: "credit_data \<Rightarrow> (string \<times> json) list" where
  "credit_json_fields d =
     [(''bank'', JStr (cr_bank d)), (''accountMasked'', JStr (cr_masked d)), (''transactionId'', JStr (cr_txn d)),
      (''transactionNumber'', JStr (cr_number d)), (''credit'', JStr (cr_credit d)), (''debit'', JStr (cr_debit d)),
      (''currency'', JStr (cr_currency d)), (''transactionDate'', JStr (cr_date d)), (''transactionDay'', JStr (cr_day d)),
      (''datePrecision'', JStr (cr_precision d)), (''source'', JStr (cr_source d)), (''description'', JStr (cr_desc d)),
      (''detectedAt'', JStr (cr_detected d))]
     @ (case cr_balance d of None \<Rightarrow> [] | Some b \<Rightarrow> [(''balance'', JStr b)])"

definition payload_text :: "json_codec \<Rightarrow> payload \<Rightarrow> string" where
  "payload_text jc p = (case p of CreditEvent d \<Rightarrow> jc_text jc (json_map (credit_json_fields d)) | OpaqueJson s \<Rightarrow> s)"

definition private_keys :: "string list" where
  "private_keys = [''balance'', ''accountNumber'', ''sessionToken'']"

text \<open>The data of a credit entry goes out without the private fields; a payload that is no object is sent as it is.\<close>

definition entry_data :: "json_codec \<Rightarrow> string \<Rightarrow> string \<Rightarrow> string" where
  "entry_data jc ty dat =
     (if ty = credit_type
      then (case jc_parse jc dat of Some (JObj fs) \<Rightarrow> jc_text jc (json_map (delete_keys private_keys fs)) | Some JNull \<Rightarrow> jc_text jc JNull
        | _ \<Rightarrow> dat)
      else dat)"

definition entry_id :: "string \<Rightarrow> int \<Rightarrow> string" where "entry_id epoch n = epoch @ '':'' @ show_int n"

definition journal_frame :: "json_codec \<Rightarrow> journal_row \<Rightarrow> sse_frame" where
  "journal_frame jc j =
     Frame (entry_id (jr_epoch j) (jr_seq j)) (jr_type j) (entry_data jc (jr_type j) (payload_text jc (jr_payload j)))"

definition hint_frame :: "json_codec \<Rightarrow> hub_event \<Rightarrow> sse_frame" where
  "hint_frame jc h = Frame (entry_id (he_epoch h) (he_seq h)) (he_type h) (payload_text jc (he_payload h))"

definition reason_json :: "string \<Rightarrow> string" where
  "reason_json reason = ''{\"reason\":\"'' @ reason @ ''\"}''"

definition reset_frame :: "string \<Rightarrow> sse_frame" where "reset_frame reason = Frame [] ''reset_state'' (reason_json reason)"

definition initial_frame :: "int \<Rightarrow> sse_frame" where
  "initial_frame w =
     Frame [] ''initial_state'' (''{\"epoch\":\"'' @ realtime_epoch @ ''\",\"watermark\":'' @ show_int w @ ''}'')"

section \<open>The stream\<close>

text \<open>
  Reading on from a watermark, batch by batch: the frames, the new watermark, and whether the last
  batch was short. When the snapshots end first the connection is gone and the next read fails.
\<close>

fun replay :: "json_codec \<Rightarrow> store list \<Rightarrow> int \<Rightarrow> sse_frame list \<times> int \<times> bool" where
  "replay jc [] w = ([], w, False)"
| "replay jc (st # sts) w =
     (let es = read_journal realtime_epoch w replay_batch st;
          w' = (if es = [] then w else jr_seq (last es))
      in if int (length es) < replay_batch then (map (journal_frame jc) es, w', True)
         else (case replay jc sts w' of (fs, w'', ok) \<Rightarrow> (map (journal_frame jc) es @ fs, w'', ok)))"

text \<open>What happens on an open stream: the ticker, or a hint with the snapshots its reads meet.\<close>

datatype stream_wake = Beat | Hint hub_event "store list"

fun live :: "json_codec \<Rightarrow> stream_wake list \<Rightarrow> int \<Rightarrow> sse_frame list \<times> int \<times> bool" where
  "live jc [] w = ([], w, True)"
| "live jc (Beat # ws) w = (case live jc ws w of (fs, w', ok) \<Rightarrow> (Heartbeat # fs, w', ok))"
| "live jc (Hint h sts # ws) w =
     (case replay jc sts w of
        (fs, w1, False) \<Rightarrow> (fs, w1, False)
      | (fs, w1, True) \<Rightarrow>
          (if he_seq h > w1
           then (case live jc ws (he_seq h) of (gs, w2, ok) \<Rightarrow> (fs @ hint_frame jc h # gs, w2, ok))
           else (case live jc ws w1 of (gs, w2, ok) \<Rightarrow> (fs @ gs, w2, ok))))"

text \<open>Where a stream starts: after the newest entry, after its cursor, or not at all.\<close>

datatype start = StartAt "sse_frame list" int | Refused sse_frame

definition stream_cursor :: "web_request \<Rightarrow> string" where
  "stream_cursor r =
     (if wr_header r ''Last-Event-ID'' \<noteq> [] then wr_header r ''Last-Event-ID'' else wr_query r ''lastEventId'')"

definition split_cursor :: "string \<Rightarrow> (string \<times> string) option" where
  "split_cursor c =
     (if CHR '':'' \<in> set c then Some (takeWhile (\<lambda>x. x \<noteq> CHR '':'') c, tl (dropWhile (\<lambda>x. x \<noteq> CHR '':'') c)) else None)"

definition stream_start :: "store \<Rightarrow> web_request \<Rightarrow> start" where
  "stream_start st r =
     (let c = stream_cursor r
      in if c = [] then (let w = max_journal_seq realtime_epoch st in StartAt [initial_frame w] w)
         else (case split_cursor c of
                 None \<Rightarrow> Refused (reset_frame ''invalid_cursor'')
               | Some (epoch, seq) \<Rightarrow>
                   if epoch \<noteq> realtime_epoch then Refused (reset_frame ''invalid_cursor'')
                   else (case parse_int64 seq of
                           None \<Rightarrow> Refused (reset_frame ''invalid_cursor'')
                         | Some after \<Rightarrow>
                             if after < 0 then Refused (reset_frame ''invalid_cursor'')
                             else (let least = min_journal_seq realtime_epoch st
                                   in if least > 0 \<and> after < least - 1 then Refused (reset_frame ''retention_expired'')
                                      else StartAt [] after))))"

definition stream_headers :: "(string \<times> string) list" where
  "stream_headers =
     [(''Content-Type'', ''text/event-stream''), (''Cache-Control'', ''no-cache, no-transform''), (''Connection'', ''keep-alive''),
      (''X-Accel-Buffering'', ''no'')]"

text \<open>The frames of a stream, and whether it is still open after them.\<close>

definition events_stream :: "json_codec \<Rightarrow> web_request \<Rightarrow> store \<Rightarrow> store list \<Rightarrow> stream_wake list \<Rightarrow> sse_frame list \<times> bool" where
  "events_stream jc r st sts ws =
     (case stream_start st r of
        Refused f \<Rightarrow> ([f], False)
      | StartAt fs w \<Rightarrow>
          (case replay jc sts w of
             (gs, w1, False) \<Rightarrow> (fs @ gs, False)
           | (gs, w1, True) \<Rightarrow> (case live jc ws w1 of (ls, w2, ok) \<Rightarrow> (fs @ gs @ ls, ok))))"

section \<open>Publishing and retention\<close>

text \<open>\<open>publishStateEvent\<close>: the entry is in the journal before the hub is told.\<close>

definition publish_state ::
  "json_codec \<Rightarrow> env \<Rightarrow> instant \<Rightarrow> string \<Rightarrow> string \<Rightarrow> json \<Rightarrow> store \<Rightarrow> hub \<Rightarrow> store \<times> hub" where
  "publish_state jc en at ty agg j st h =
     (case append_journal_event en realtime_epoch ty agg (jc_text jc j) st of
        (n, st') \<Rightarrow> (st', hub_publish \<lparr>he_seq = n, he_epoch = realtime_epoch, he_type = ty, he_aggregate = agg,
                          he_payload = OpaqueJson (jc_text jc j), he_created = rfc3339nano at\<rparr> h))"

definition journal_retention :: "int \<Rightarrow> instant \<Rightarrow> store \<Rightarrow> store" where
  "journal_retention keep now st =
     (let keep' = (if keep \<le> 0 then 24 * hour else keep) in snd (delete_journal_before (now - keep') st))"

end
