(* ===== verification/StreamProps.thy ===== *)
theory StreamProps
  imports EventStream
begin

text \<open>
  What a browser that follows the event stream is sent: the journal entries after its cursor, each
  once, in order and without a gap, however the hints come; and where retention breaks this.
\<close>

section \<open>Windows of the journal\<close>

definition journal_sorted :: "store \<Rightarrow> bool" where
  "journal_sorted st \<longleftrightarrow> sorted_wrt (<) (map jr_seq (journal st))"

definition entries_after :: "int \<Rightarrow> store \<Rightarrow> journal_row list" where
  "entries_after w st = filter (\<lambda>j. jr_epoch j = ''ep1'' \<and> jr_seq j > w) (journal st)"

definition between :: "journal_row list \<Rightarrow> int \<Rightarrow> int \<Rightarrow> journal_row list" where
  "between l a b = filter (\<lambda>j. a < jr_seq j \<and> jr_seq j \<le> b) l"

text \<open>A snapshot shows a log from a position on: its entries after it are the log's, up to some entry.\<close>

definition shows_log :: "journal_row list \<Rightarrow> int \<Rightarrow> store \<Rightarrow> bool" where
  "shows_log l a st \<longleftrightarrow> journal_sorted st \<and> (\<exists>hi. entries_after a st = between l a hi)"

lemma sort_key_sorted: "sorted_wrt (<) (map f xs) \<Longrightarrow> sort_key f xs = (xs :: 'a list)" for f :: "'a \<Rightarrow> int"
proof (induction xs)
  case (Cons x xs)
  then show ?case by (cases xs) (auto simp: less_imp_le)
qed simp

lemma sorted_filter_map: "sorted_wrt (<) (map f xs) \<Longrightarrow> sorted_wrt (<) (map f (filter P xs))" for f :: "'a \<Rightarrow> int"
  by (induction xs) auto

lemma read_ep1:
  assumes "journal_sorted st"
  shows "read_journal realtime_epoch w replay_batch st = take 250 (entries_after w st)"
proof -
  have "sorted_wrt (<) (map jr_seq (entries_after w st))"
    using assms by (simp add: journal_sorted_def entries_after_def sorted_filter_map)
  then show ?thesis
    by (simp add: read_journal_def realtime_epoch_def default_epoch_def replay_batch_def journal_limit_def
        entries_after_def sort_key_sorted)
qed

lemma entries_after_mono: "a \<le> w \<Longrightarrow> entries_after w st = filter (\<lambda>j. jr_seq j > w) (entries_after a st)"
  by (auto simp: entries_after_def intro: filter_cong)

lemma between_empty: "between l a a = []"
  by (simp add: between_def filter_empty_conv)

lemma window_append:
  assumes "sorted_wrt (<) (map jr_seq l)" "a \<le> b" "b \<le> c"
  shows "between l a b @ between l b c = between l a c"
  using assms
proof (induction l)
  case (Cons j l)
  have tail: "between l a b = []" if "b < jr_seq j"
    using Cons.prems(1) that by (auto simp: between_def filter_empty_conv)
  have "between l a b @ between l b c = between l a c" using Cons by simp
  with tail show ?case using Cons.prems(2,3) by (auto simp: between_def)
qed (simp add: between_def)

lemma last_greatest: "sorted_wrt (<) (map f ys) \<Longrightarrow> y \<in> set ys \<Longrightarrow> f y \<le> f (last ys)" for f :: "'a \<Rightarrow> int"
  by (induction ys) (auto simp: less_imp_le)

lemma take_below_last:
  assumes "sorted_wrt (<) (map jr_seq xs)" "take n xs \<noteq> []"
  shows "take n xs = filter (\<lambda>j. jr_seq j \<le> jr_seq (last (take n xs))) xs"
proof -
  let ?m = "jr_seq (last (take n xs))"
  have s: "sorted_wrt (<) (map jr_seq (take n xs @ drop n xs))" using assms(1) by simp
  have lt: "\<forall>x \<in> set (take n xs). \<forall>y \<in> set (drop n xs). jr_seq x < jr_seq y"
    using s unfolding map_append sorted_wrt_append by auto
  have le: "\<forall>x \<in> set (take n xs). jr_seq x \<le> ?m"
    using last_greatest [of jr_seq "take n xs"] sorted_wrt_take [OF assms(1), of n] by (simp add: take_map)
  have gt: "\<forall>y \<in> set (drop n xs). \<not> jr_seq y \<le> ?m"
    using bspec [OF lt last_in_set [OF assms(2)]] by (simp add: not_le)
  have "filter (\<lambda>j. jr_seq j \<le> ?m) (take n xs @ drop n xs) = take n xs"
    unfolding filter_append using le gt by (simp add: filter_empty_conv)
  then show ?thesis by simp
qed

section \<open>Reading on\<close>

lemma read_window:
  assumes "sorted_wrt (<) (map jr_seq l)" "shows_log l a st" "a \<le> w"
    and es: "es = read_journal realtime_epoch w replay_batch st"
    and w': "w' = (if es = [] then w else jr_seq (last es))"
  shows "w \<le> w' \<and> es = between l w w' \<and> (int (length es) < replay_batch \<longrightarrow> (\<forall>j \<in> set (entries_after a st). jr_seq j \<le> w'))"
proof -
  obtain hi where hi: "journal_sorted st" "entries_after a st = between l a hi" using assms(2) by (auto simp: shows_log_def)
  have e: "entries_after w st = between l w hi"
    using assms(3) by (auto simp: entries_after_mono [OF assms(3)] hi(2) between_def intro: filter_cong)
  have es': "es = take 250 (between l w hi)" by (simp add: es read_ep1 [OF hi(1)] e)
  have srt: "sorted_wrt (<) (map jr_seq (between l w hi))" by (simp add: between_def sorted_filter_map assms(1))
  have mem: "w < jr_seq j \<and> jr_seq j \<le> hi" if "j \<in> set es" for j
    using that unfolding es' by (auto simp: between_def dest: in_set_takeD)
  have le: "w \<le> w'" using mem [of "last es"] last_in_set [of es] by (auto simp: w')
  have win: "es = between l w w'"
  proof (cases "es = []")
    case True
    then show ?thesis by (simp add: w' between_empty)
  next
    case False
    have "es = filter (\<lambda>j. jr_seq j \<le> jr_seq (last es)) (between l w hi)"
      using take_below_last [OF srt, of 250] False unfolding es' by blast
    also have "\<dots> = between l w w'"
      using False mem [of "last es"] last_in_set [of es] by (auto simp: w' between_def intro!: filter_cong)
    finally show ?thesis .
  qed
  have "jr_seq j \<le> w'" if short: "int (length es) < replay_batch" and j: "j \<in> set (entries_after a st)" for j
  proof (cases "jr_seq j \<le> w")
    case True
    then show ?thesis using le by simp
  next
    case False
    have "es = between l w hi" using short unfolding es' replay_batch_def by simp
    then have "j \<in> set es" using j False by (auto simp: hi(2) between_def)
    then show ?thesis using win by (auto simp: between_def)
  qed
  with le win show ?thesis by blast
qed

lemma replay_window:
  assumes "sorted_wrt (<) (map jr_seq l)" "\<forall>s \<in> set sts. shows_log l a s" "a \<le> w" "replay jc sts w = (fs, w', ok)"
  shows "w \<le> w' \<and> fs = map (journal_frame jc) (between l w w')
    \<and> (ok \<longrightarrow> (\<exists>s \<in> set sts. \<forall>j \<in> set (entries_after a s). jr_seq j \<le> w'))"
  using assms(2-)
proof (induction sts arbitrary: w fs)
  case Nil
  then show ?case by (simp add: between_empty)
next
  case (Cons st sts)
  define es where "es = read_journal realtime_epoch w replay_batch st"
  define w1 where "w1 = (if es = [] then w else jr_seq (last es))"
  note r = read_window [OF assms(1) _ Cons.prems(2) es_def w1_def]
  have r': "w \<le> w1" "es = between l w w1" using r Cons.prems(1) by auto
  show ?case
  proof (cases "int (length es) < replay_batch")
    case True
    then have "fs = map (journal_frame jc) es" "w' = w1" using Cons.prems(3) by (auto simp: es_def [symmetric] w1_def Let_def)
    then show ?thesis using r Cons.prems(1) True by auto
  next
    case False
    obtain gs where g: "replay jc sts w1 = (gs, w', ok)" "fs = map (journal_frame jc) es @ gs"
      using Cons.prems(3) False by (auto simp: es_def [symmetric] w1_def Let_def split: prod.splits)
    have ih: "w1 \<le> w' \<and> gs = map (journal_frame jc) (between l w1 w')
        \<and> (ok \<longrightarrow> (\<exists>s \<in> set sts. \<forall>j \<in> set (entries_after a s). jr_seq j \<le> w'))"
      using Cons.IH [OF _ _ g(1)] Cons.prems(1,2) r' by simp
    then have "fs = map (journal_frame jc) (between l w w1 @ between l w1 w')" using g(2) r'(2) by simp
    then show ?thesis using ih r'(1) window_append [OF assms(1) r'(1), of w'] by auto
  qed
qed

text \<open>A hint whose entry is in the snapshots its reads meet.\<close>

definition hint_backed :: "hub_event \<Rightarrow> store list \<Rightarrow> bool" where
  "hint_backed h sts \<longleftrightarrow> (\<forall>s \<in> set sts. \<exists>j \<in> set (journal s). jr_epoch j = ''ep1'' \<and> jr_seq j = he_seq h)"

lemma replay_reaches:
  assumes "\<exists>s \<in> set sts. \<forall>j \<in> set (entries_after a s). jr_seq j \<le> w'" "a \<le> w'" "hint_backed h sts"
  shows "he_seq h \<le> w'"
  using assms by (fastforce simp: hint_backed_def entries_after_def)

definition wake_ok :: "journal_row list \<Rightarrow> int \<Rightarrow> stream_wake \<Rightarrow> bool" where
  "wake_ok l a x = (case x of Beat \<Rightarrow> True | Hint h sts \<Rightarrow> (\<forall>s \<in> set sts. shows_log l a s) \<and> hint_backed h sts)"

definition hint_reached :: "int \<Rightarrow> stream_wake \<Rightarrow> bool" where
  "hint_reached w x = (case x of Beat \<Rightarrow> True | Hint h sts \<Rightarrow> he_seq h \<le> w)"

lemma hint_reached_mono: "hint_reached w x \<Longrightarrow> w \<le> w' \<Longrightarrow> hint_reached w' x"
  by (auto simp: hint_reached_def split: stream_wake.splits)

abbreviation entries_of :: "sse_frame list \<Rightarrow> sse_frame list" where "entries_of fs \<equiv> filter (\<lambda>f. f \<noteq> Heartbeat) fs"

lemma journal_frames_entries: "entries_of (map (journal_frame jc) js) = map (journal_frame jc) js"
  by (induction js) (auto simp: journal_frame_def)

lemma live_window:
  assumes "sorted_wrt (<) (map jr_seq l)" "\<forall>x \<in> set ws. wake_ok l a x" "a \<le> w" "live jc ws w = (fs, w', ok)"
  shows "w \<le> w' \<and> entries_of fs = map (journal_frame jc) (between l w w') \<and> (ok \<longrightarrow> (\<forall>x \<in> set ws. hint_reached w' x))"
  using assms(2-)
proof (induction ws arbitrary: w fs)
  case Nil
  then show ?case by (simp add: between_empty)
next
  case (Cons x ws)
  show ?case
  proof (cases x)
    case Beat
    then show ?thesis using Cons by (auto simp: hint_reached_def split: prod.splits)
  next
    case (Hint h sts)
    obtain gs w1 ok1 where g: "replay jc sts w = (gs, w1, ok1)" by (cases "replay jc sts w") auto
    have ok0: "\<forall>s \<in> set sts. shows_log l a s" "hint_backed h sts" using Cons.prems(1) Hint by (auto simp: wake_ok_def)
    note rw = replay_window [OF assms(1) ok0(1) Cons.prems(2) g]
    show ?thesis
    proof (cases ok1)
      case False
      then show ?thesis using Cons.prems(3) g Hint rw by (auto simp: journal_frames_entries)
    next
      case True
      have h1: "he_seq h \<le> w1" using replay_reaches [OF _ _ ok0(2), of a w1] rw True Cons.prems(2) by auto
      obtain ls where ls: "live jc ws w1 = (ls, w', ok)" "fs = gs @ ls"
        using Cons.prems(3) g Hint True h1 by (auto split: prod.splits)
      have ih: "w1 \<le> w' \<and> entries_of ls = map (journal_frame jc) (between l w1 w') \<and> (ok \<longrightarrow> (\<forall>x \<in> set ws. hint_reached w' x))"
        using Cons.IH [OF _ _ ls(1)] Cons.prems(1,2) rw by auto
      have "entries_of fs = map (journal_frame jc) (between l w w1 @ between l w1 w')"
        using rw ih ls(2) by (simp add: journal_frames_entries)
      then show ?thesis
        using rw ih h1 window_append [OF assms(1), of w w1 w'] Hint by (auto simp: hint_reached_def)
    qed
  qed
qed


definition demo_entry :: "int \<Rightarrow> journal_row" where
  "demo_entry n = \<lparr>jr_seq = n, jr_epoch = ''ep1'', jr_type = ''t'', jr_aggregate = ''a'', jr_payload = OpaqueJson ''{}'', jr_created = ''c''\<rparr>"

definition demo_log :: "int list \<Rightarrow> store" where "demo_log ns = empty_store\<lparr>journal := map demo_entry ns, journal_seq := 9\<rparr>"

definition demo_hint :: "int \<Rightarrow> hub_event" where
  "demo_hint n = \<lparr>he_seq = n, he_epoch = ''ep1'', he_type = ''t'', he_aggregate = ''a'', he_payload = OpaqueJson ''{}'', he_created = ''c''\<rparr>"

definition demo_follow :: web_request where
  "demo_follow = \<lparr>wr_method = ''GET'', wr_path = ''/api/v1/events'', wr_host = ''h'', wr_tls = False,
     wr_header = (\<lambda>k. if k = ''Last-Event-ID'' then ''ep1:2'' else []), wr_cookie = (\<lambda>_. None), wr_query = (\<lambda>_. []), wr_body = []\<rparr>"

definition demo_codec :: json_codec where "demo_codec = \<lparr>jc_parse = (\<lambda>_. None), jc_decode = (\<lambda>_. None), jc_text = (\<lambda>_. [])\<rparr>"

lemma demo_shows: "ns = filter (\<lambda>n. n \<le> m) [1, 2, 3, 4, 5] \<Longrightarrow> shows_log (map demo_entry [1, 2, 3, 4, 5]) 2 (demo_log ns)"
  unfolding shows_log_def
  by (intro conjI exI [of _ m])
    (auto simp: journal_sorted_def entries_after_def between_def demo_log_def demo_entry_def)


section \<open>Hints and retention\<close>

text \<open>After a publication every subscriber has something to receive, even when its channel was full.\<close>

lemma publish_wakes:
  assumes "k \<in> fst ` set (hb_subs h)"
  shows "\<exists>x h'. receive k (hub_publish e h) = Some (x, h')"
proof -
  have m: "map_of (map (offer e) ss) k = map_option (\<lambda>es. snd (offer e (k, es))) (map_of ss k)" for ss
    by (induction ss) (auto simp: offer_def)
  obtain es where es: "map_of (hb_subs h) k = Some es"
    using assms by (metis map_of_eq_None_iff not_None_eq)
  have "snd (offer e (k, es)) \<noteq> []" by (auto simp: offer_def buffer_size_def)
  then show ?thesis
    by (cases "snd (offer e (k, es))") (simp_all add: receive_def hub_publish_def m es)
qed

text \<open>A published state event is backed by its journal entry in the database it leaves.\<close>

lemma publish_backed:
  assumes "publish_state jc en at ty agg j st h = (st', h')"
  obtains e where "h' = hub_publish e h" "hint_backed e [st']"
  using assms unfolding publish_state_def append_journal_event_def append_journal_def Let_def
  by (auto simp: hint_backed_def realtime_epoch_def default_epoch_def)

text \<open>
  Once retention has emptied the journal an old cursor is accepted without a reset, although the
  entries after it are lost; and a cursor beyond the journal is accepted, so the entries up to it
  that are still to come are never sent.
\<close>

lemma empty_journal_no_reset:
  "stream_start (demo_log [3, 4, 5]) (demo_follow\<lparr>wr_header := (\<lambda>k. if k = ''Last-Event-ID'' then ''ep1:1'' else [])\<rparr>)
     = Refused (reset_frame ''retention_expired'')"
  "stream_start (demo_log []) (demo_follow\<lparr>wr_header := (\<lambda>k. if k = ''Last-Event-ID'' then ''ep1:1'' else [])\<rparr>) = StartAt [] 1"
  by code_simp+

lemma cursor_ahead_skips:
  "stream_start (demo_log [1]) (demo_follow\<lparr>wr_header := (\<lambda>k. if k = ''Last-Event-ID'' then ''ep1:4'' else [])\<rparr>) = StartAt [] 4"
  "events_stream demo_codec (demo_follow\<lparr>wr_header := (\<lambda>k. if k = ''Last-Event-ID'' then ''ep1:4'' else [])\<rparr>)
     (demo_log [1]) [demo_log [1]] [Hint (demo_hint 2) [demo_log [1, 2]]] = ([], True)"
  by code_simp+

end
