(* ===== verification/Views.thy ===== *)
theory Views
  imports Queries Settings Browser Web
begin

text \<open>
  The JSON values of the structs the HTTP interface answers with, by their struct tags; a field marked
  \<open>omitempty\<close> is left out when it is empty.
\<close>

definition opt_str :: "string \<Rightarrow> string \<Rightarrow> (string \<times> json) list" where
  "opt_str k s = (if s = [] then [] else [(k, JStr s)])"

definition opt_int :: "string \<Rightarrow> int \<Rightarrow> (string \<times> json) list" where
  "opt_int k n = (if n = 0 then [] else [(k, JInt n)])"

definition strs :: "(string \<times> string) list \<Rightarrow> json" where
  "strs fs = json_map (map (\<lambda>f. (fst f, JStr (snd f))) fs)"

fun conn_state_text :: "conn_state \<Rightarrow> string" where
  "conn_state_text Unconfigured = ''UNCONFIGURED''"
| "conn_state_text AuthRequired = ''AUTH_REQUIRED''"
| "conn_state_text AuthStarting = ''AUTH_STARTING''"
| "conn_state_text Monitoring = ''MONITORING''"
| "conn_state_text Paused = ''PAUSED''"

fun attempt_text :: "attempt_status \<Rightarrow> string" where
  "attempt_text AStarting = ''STARTING''"
| "attempt_text AInProgress = ''IN_PROGRESS''"
| "attempt_text AExporting = ''EXPORTING''"
| "attempt_text AVerifying = ''VERIFYING''"
| "attempt_text AVerified = ''VERIFIED''"
| "attempt_text ACancelled = ''CANCELLED''"
| "attempt_text AExpired = ''EXPIRED''"
| "attempt_text AFailed = ''FAILED''"

fun poll_status_text :: "poll_status \<Rightarrow> string" where
  "poll_status_text PRunning = ''RUNNING''"
| "poll_status_text PSucceeded = ''SUCCEEDED''"
| "poll_status_text PFailed = ''FAILED''"
| "poll_status_text PAuthRequired = ''AUTH_REQUIRED''"
| "poll_status_text PProtocolChanged = ''PROTOCOL_CHANGED''"
| "poll_status_text PPartial = ''PARTIAL''"

fun delivery_status_text :: "delivery_status \<Rightarrow> string" where
  "delivery_status_text DPending = ''PENDING''"
| "delivery_status_text DInFlight = ''IN_FLIGHT''"
| "delivery_status_text DDelivered = ''DELIVERED''"
| "delivery_status_text DDeadLetter = ''DEAD_LETTER''"

fun ep_status_text :: "ep_status \<Rightarrow> string" where
  "ep_status_text EpActive = ''ACTIVE''"
| "ep_status_text EpDisabled = ''DISABLED''"
| "ep_status_text (EpOther s) = s"

fun poll_mode_text :: "poll_mode \<Rightarrow> string" where
  "poll_mode_text ModeRealtime = ''REALTIME''"
| "poll_mode_text ModeKeepaliveOnly = ''KEEPALIVE_ONLY''"
| "poll_mode_text ModePaused = ''PAUSED''"
| "poll_mode_text (ModeOther s) = s"

definition connection_json :: "connection \<Rightarrow> json" where
  "connection_json c =
     JObj [(''id'', JStr (c_id c)), (''state'', JStr (conn_state_text (c_state c))), (''accountMasked'', JStr (c_masked c)),
           (''generation'', JInt (c_generation c)), (''startedAt'', JStr (c_started c)), (''updatedAt'', JStr (c_updated c))]"

definition endpoint_fields :: "endpoint_view \<Rightarrow> (string \<times> json) list" where
  "endpoint_fields e =
     [(''id'', JStr (epv_id e)), (''name'', JStr (epv_name e)), (''url'', JStr (epv_url e)),
      (''status'', JStr (ep_status_text (epv_status e))), (''revision'', JInt (epv_revision e)),
      (''createdAt'', JStr (epv_created e)), (''updatedAt'', JStr (epv_updated e))]"

definition created_endpoint_json :: "endpoint_view \<Rightarrow> string \<Rightarrow> json" where
  "created_endpoint_json e secret = JObj (endpoint_fields e @ opt_str ''secret'' secret)"

definition summary_json :: "nat \<times> nat \<Rightarrow> json" where
  "summary_json s = JObj [(''pending'', JInt (int (fst s))), (''deadLetter'', JInt (int (snd s)))]"

definition page_json :: "('v \<Rightarrow> json) \<Rightarrow> 'v page \<Rightarrow> (string \<times> json) list" where
  "page_json f p = (''items'', JList (map f (pg_items p))) # opt_str ''nextCursor'' (pg_next p)"

definition txn_json :: "txn_view \<Rightarrow> json" where
  "txn_json x =
     JObj ([(''id'', JStr (tv_id x)), (''semanticKey'', JStr (tv_key x)), (''transactionDate'', JStr (tv_at x))]
       @ opt_str ''transactionDay'' (tv_day x) @ opt_str ''datePrecision'' (tv_precision x)
       @ [(''effectiveDate'', JStr (tv_effective x)), (''debit'', JInt (tv_debit x)), (''credit'', JInt (tv_credit x))]
       @ (case tv_balance x of None \<Rightarrow> [] | Some b \<Rightarrow> [(''balance'', JInt b)])
       @ [(''description'', JStr (tv_desc x)), (''firstSeenAt'', JStr (tv_seen x))] @ opt_str ''source'' (tv_source x))"

definition txn_summary_json :: "txn_summary \<Rightarrow> json" where
  "txn_summary_json s =
     JObj [(''count'', JInt (int (sm_count s))), (''incoming'', JInt (sm_incoming s)), (''outgoing'', JInt (sm_outgoing s))]"

definition delivery_json :: "delivery_view \<Rightarrow> json" where
  "delivery_json d =
     JObj ([(''id'', JStr (dv_id d)), (''eventId'', JStr (dv_event d)), (''endpointId'', JStr (dv_endpoint d))]
       @ opt_str ''endpointName'' (dv_name d) @ opt_str ''provider'' (dv_provider d)
       @ [(''status'', JStr (delivery_status_text (dv_status d))), (''attempts'', JInt (dv_attempts d)),
          (''nextAttemptAt'', JStr (dv_next d)), (''createdAt'', JStr (dv_created d)), (''updatedAt'', JStr (dv_updated d))])"

definition poll_json :: "poll_row \<Rightarrow> json" where
  "poll_json p =
     JObj ([(''id'', JStr (pr_id p)), (''connectionId'', JStr (pr_conn p)), (''generation'', JInt (pr_generation p)),
            (''status'', JStr (poll_status_text (pr_status p)))]
       @ opt_str ''classifier'' (pr_classifier p) @ opt_int ''httpStatus'' (pr_http p)
       @ [(''pages'', JInt (pr_pages p)), (''rowsSeen'', JInt (pr_rows p))] @ opt_str ''error'' (pr_error p)
       @ [(''startedAt'', JStr (pr_started p))] @ opt_str ''finishedAt'' (pr_finished p))"

definition audit_json :: "audit_view \<Rightarrow> json" where
  "audit_json a =
     JObj [(''id'', JStr (av_id a)), (''subject'', JStr (av_subject a)), (''role'', JStr (av_role a)),
           (''action'', JStr (av_action a)), (''target'', JStr (av_target a)), (''createdAt'', JStr (av_created a))]"

definition profile_json :: "profile \<Rightarrow> json" where
  "profile_json p =
     JObj [(''mode'', JStr (poll_mode_text (pf_mode p))), (''minSeconds'', JInt (pf_min p)), (''maxSeconds'', JInt (pf_max p))]"

definition window_json :: "Schedule.window \<Rightarrow> json" where
  "window_json w =
     JObj [(''name'', JStr (w_name w)), (''daysOfWeek'', JList (map JInt (w_days w))), (''startTime'', JStr (w_start w)),
           (''endTime'', JStr (w_end w)), (''profile'', profile_json (w_profile w))]"

definition settings_json :: "monitor_settings \<Rightarrow> json" where
  "settings_json s =
     JObj [(''revision'', JInt (ms_revision s)), (''enabled'', JBool (ms_enabled s)), (''timezone'', JStr (ms_timezone s)),
           (''defaultProfile'', profile_json (ms_default s)), (''windows'', JList (map window_json (ms_windows s))),
           (''updatedAt'', JStr (ms_updated s))]"

definition voice_json :: "voice_settings \<Rightarrow> json" where
  "voice_json v =
     JObj [(''revision'', JInt (vo_revision v)), (''providerMode'', JStr (vo_mode v)), (''edgeVoice'', JStr (vo_voice v)),
           (''onlineFallback'', JBool (vo_fallback v)), (''updatedAt'', JStr (vo_updated v))]"

definition qr_json :: "qr_row \<Rightarrow> json" where
  "qr_json q =
     JObj ([(''id'', JStr (qr_id q)), (''connectionId'', JStr (qr_conn q)), (''accountNumber'', JStr (qr_account q)),
            (''accountName'', JStr (qr_name q)), (''bin'', JStr (qr_bin q)), (''bankName'', JStr (qr_bank q))]
       @ opt_str ''imagePath'' (qr_image q) @ opt_str ''imageHash'' (qr_hash q) @ opt_str ''imageContentType'' (qr_type q)
       @ [(''provider'', JStr (qr_provider q)), (''revision'', JInt (qr_revision q)), (''createdAt'', JStr (qr_created q)),
          (''updatedAt'', JStr (qr_updated q))])"

definition bark_json :: "bark_config \<Rightarrow> json" where
  "bark_json b =
     JObj (opt_str ''group'' (bk_group b) @ opt_str ''level'' (bk_level b) @ opt_str ''sound'' (bk_sound b)
       @ [(''includeBalance'', JBool (bk_balance b)), (''includeDescription'', JBool (bk_desc b)),
          (''dashboardLink'', JBool (bk_link b))])"

definition channel_json :: "channel \<Rightarrow> string \<Rightarrow> json" where
  "channel_json c secret =
     JObj ([(''id'', JStr (ch_id c)), (''name'', JStr (ch_name c)), (''provider'', JStr (ch_provider c)),
            (''status'', JStr (ep_status_text (ch_status c))), (''revision'', JInt (ch_revision c))]
       @ opt_str ''url'' (ch_url c) @ (case ch_bark c of None \<Rightarrow> [] | Some b \<Rightarrow> [(''barkConfig'', bark_json b)])
       @ (if ch_has_key c then [(''hasDeviceKey'', JBool True)] else []) @ opt_str ''secret'' secret
       @ [(''createdAt'', JStr (ch_created c)), (''updatedAt'', JStr (ch_updated c))])"

definition session_json :: "client_session \<Rightarrow> json" where
  "session_json s =
     JObj ([(''attemptId'', JStr (br_attempt s)), (''status'', JStr (br_status s)), (''screenUrl'', JStr (br_screen s)),
            (''expiresAt'', JStr (br_expires s))] @ opt_str ''error'' (br_error s))"

section \<open>Fields of a decoded body\<close>

text \<open>
  The value of a field: absent and null leave the zero value, a value of another type is an error,
  after which the decoder goes on with the other fields.
\<close>

definition str_field :: "string \<Rightarrow> (string \<times> json) list \<Rightarrow> string option" where
  "str_field k fs =
     (case map_of fs k of None \<Rightarrow> Some [] | Some JNull \<Rightarrow> Some [] | Some (JStr s) \<Rightarrow> Some s | Some _ \<Rightarrow> None)"

definition int_field :: "string \<Rightarrow> (string \<times> json) list \<Rightarrow> int option" where
  "int_field k fs =
     (case map_of fs k of None \<Rightarrow> Some 0 | Some JNull \<Rightarrow> Some 0 | Some (JInt n) \<Rightarrow> Some n | Some _ \<Rightarrow> None)"

definition bool_field :: "string \<Rightarrow> (string \<times> json) list \<Rightarrow> bool option" where
  "bool_field k fs =
     (case map_of fs k of None \<Rightarrow> Some False | Some JNull \<Rightarrow> Some False | Some (JBool b) \<Rightarrow> Some b | Some _ \<Rightarrow> None)"

definition obj_field :: "string \<Rightarrow> (string \<times> json) list \<Rightarrow> (string \<times> json) list option option" where
  "obj_field k fs =
     (case map_of fs k of None \<Rightarrow> Some None | Some JNull \<Rightarrow> Some None | Some (JObj o') \<Rightarrow> Some (Some o') | Some _ \<Rightarrow> None)"

definition list_field :: "string \<Rightarrow> (string \<times> json) list \<Rightarrow> json list option" where
  "list_field k fs =
     (case map_of fs k of None \<Rightarrow> Some [] | Some JNull \<Rightarrow> Some [] | Some (JList l) \<Rightarrow> Some l | Some _ \<Rightarrow> None)"

definition bark_fields :: "(string \<times> json) list \<Rightarrow> bark_config option" where
  "bark_fields fs =
     (case (str_field ''group'' fs, str_field ''level'' fs, str_field ''sound'' fs,
            bool_field ''includeBalance'' fs, bool_field ''includeDescription'' fs, bool_field ''dashboardLink'' fs) of
        (Some g, Some l, Some s, Some b, Some d, Some k) \<Rightarrow>
          Some \<lparr>bk_group = g, bk_level = l, bk_sound = s, bk_balance = b, bk_desc = d, bk_link = k\<rparr>
      | _ \<Rightarrow> None)"

definition mode_of_text :: "string \<Rightarrow> poll_mode" where
  "mode_of_text s =
     (if s = ''REALTIME'' then ModeRealtime else if s = ''KEEPALIVE_ONLY'' then ModeKeepaliveOnly
      else if s = ''PAUSED'' then ModePaused else ModeOther s)"

definition profile_fields :: "(string \<times> json) list \<Rightarrow> profile option" where
  "profile_fields fs =
     (case (str_field ''mode'' fs, int_field ''minSeconds'' fs, int_field ''maxSeconds'' fs) of
        (Some m, Some a, Some b) \<Rightarrow> Some \<lparr>pf_mode = mode_of_text m, pf_min = a, pf_max = b\<rparr>
      | _ \<Rightarrow> None)"

definition obj_profile :: "string \<Rightarrow> (string \<times> json) list \<Rightarrow> profile option" where
  "obj_profile k fs =
     (case obj_field k fs of
        None \<Rightarrow> None
      | Some None \<Rightarrow> profile_fields []
      | Some (Some o') \<Rightarrow> profile_fields o')"

fun all_some :: "'a option list \<Rightarrow> 'a list option" where
  "all_some [] = Some []"
| "all_some (None # xs) = None"
| "all_some (Some x # xs) = map_option ((#) x) (all_some xs)"

definition int_value :: "json \<Rightarrow> int option" where
  "int_value j = (case j of JInt n \<Rightarrow> Some n | JNull \<Rightarrow> Some 0 | _ \<Rightarrow> None)"

definition str_value :: "json \<Rightarrow> string option" where
  "str_value j = (case j of JStr s \<Rightarrow> Some s | JNull \<Rightarrow> Some [] | _ \<Rightarrow> None)"

definition window_fields :: "json \<Rightarrow> Schedule.window option" where
  "window_fields j =
     (case (case j of JObj fs \<Rightarrow> Some fs | JNull \<Rightarrow> Some [] | _ \<Rightarrow> None) of
        None \<Rightarrow> None
      | Some fs \<Rightarrow>
          (case (str_field ''name'' fs, Option.bind (list_field ''daysOfWeek'' fs) (\<lambda>l. all_some (map int_value l)),
                 str_field ''startTime'' fs, str_field ''endTime'' fs, obj_profile ''profile'' fs) of
             (Some n, Some ds, Some a, Some b, Some p) \<Rightarrow>
               Some \<lparr>w_name = n, w_days = ds, w_start = a, w_end = b, w_profile = p\<rparr>
           | _ \<Rightarrow> None))"

definition settings_fields :: "(string \<times> json) list \<Rightarrow> monitor_settings option" where
  "settings_fields fs =
     (case (int_field ''revision'' fs, bool_field ''enabled'' fs, str_field ''timezone'' fs, obj_profile ''defaultProfile'' fs,
            Option.bind (list_field ''windows'' fs) (\<lambda>l. all_some (map window_fields l)), str_field ''updatedAt'' fs) of
        (Some r, Some e, Some z, Some p, Some ws, Some u) \<Rightarrow>
          Some \<lparr>ms_revision = r, ms_enabled = e, ms_timezone = z, ms_default = p, ms_windows = ws, ms_updated = u\<rparr>
      | _ \<Rightarrow> None)"

definition voice_fields :: "(string \<times> json) list \<Rightarrow> voice_settings option" where
  "voice_fields fs =
     (case (int_field ''revision'' fs, str_field ''providerMode'' fs, str_field ''edgeVoice'' fs,
            bool_field ''onlineFallback'' fs, str_field ''updatedAt'' fs) of
        (Some r, Some m, Some v, Some f, Some u) \<Rightarrow>
          Some \<lparr>vo_revision = r, vo_mode = m, vo_voice = v, vo_fallback = f, vo_updated = u\<rparr>
      | _ \<Rightarrow> None)"

end
