(* ===== verification/Config.thy ===== *)
theory Config
  imports Url GoTime Utf8
begin

text \<open>
  \<open>src/internal/config/config.go\<close>: the configuration read from the environment. The environment, the
  files, the zone database, \<open>url.Parse\<close> and \<open>filepath\<close> are parameters; the files \<open>Load\<close> writes are part
  of its result.
\<close>

record config =
  cf_address :: string
  cf_database :: string
  cf_key_file :: string
  cf_zone :: string
  cf_poll_min :: int
  cf_poll_max :: int
  cf_issuer :: string
  cf_audience :: string
  cf_jwks :: string
  cf_owners :: "string list"
  cf_operators :: "string list"
  cf_viewers :: "string list"
  cf_dev_subject :: string
  cf_production :: bool
  cf_origin :: string
  cf_browser :: string
  cf_vnc :: string
  cf_tts :: string
  cf_tts_token :: string
  cf_bark_server :: string
  cf_bark_public :: string
  cf_bark_user :: string
  cf_bark_password :: string
  cf_bark_timeout :: int
  cf_bark_group :: string
  cf_bark_level :: string
  cf_bark_sound :: string

record os_env =
  os_getenv :: "string \<Rightarrow> string"
  os_read :: "string \<Rightarrow> string option"
  os_exists :: "string \<Rightarrow> bool"
  os_zone :: "string \<Rightarrow> bool"
  os_url :: "string \<Rightarrow> url option"
  os_abs :: "string \<Rightarrow> string"
  os_join :: "string \<Rightarrow> string \<Rightarrow> string"

section \<open>Values\<close>

definition value_or :: "os_env \<Rightarrow> string \<Rightarrow> string \<Rightarrow> string" where
  "value_or os key fallback = (let v = trim_space (os_getenv os key) in if v \<noteq> [] then v else fallback)"

definition subject_set :: "os_env \<Rightarrow> string \<Rightarrow> string list" where
  "subject_set os key = filter (\<lambda>v. v \<noteq> []) (map trim_space (split_on (CHR '','') (os_getenv os key)))"

definition config_seconds :: "os_env \<Rightarrow> string \<Rightarrow> int \<Rightarrow> int \<Rightarrow> int \<Rightarrow> int result" where
  "config_seconds os key fallback lo hi =
     (case parse_int64 (value_or os key (show_int fallback)) of
        Some v \<Rightarrow> if v < lo \<or> v > hi then Inl (ErrMsg (key @ '' must be an integer from '' @ show_int lo @ '' to '' @ show_int hi))
                  else Inr (v * second)
      | None \<Rightarrow> Inl (ErrMsg (key @ '' must be an integer from '' @ show_int lo @ '' to '' @ show_int hi)))"

section \<open>Parts of the configuration\<close>

text \<open>The poll intervals.\<close>

definition poll_intervals :: "os_env \<Rightarrow> (int \<times> int) result" where
  "poll_intervals os =
     rbind (config_seconds os ''POLL_MIN_INTERVAL_SEC'' 5 2 300) (\<lambda>lo.
     rbind (config_seconds os ''POLL_MAX_INTERVAL_SEC'' 15 2 300) (\<lambda>hi.
       if lo > hi then Inl (ErrMsg ''POLL_MIN_INTERVAL_SEC must be less than or equal to POLL_MAX_INTERVAL_SEC'')
       else Inr (lo, hi)))"

definition is_production :: "os_env \<Rightarrow> bool" where
  "is_production os \<longleftrightarrow> value_or os ''APP_ENV'' ''development'' = ''production''"

text \<open>Issuer, audience and key set of Cloudflare Access.\<close>

definition access_issuer :: "os_env \<Rightarrow> string" where
  "access_issuer os =
     (let team = os_getenv os ''CLOUDFLARE_ACCESS_TEAM_NAME''; issuer = trim_suffix (os_getenv os ''CF_ACCESS_ISSUER'') ''/''
      in if issuer = [] \<and> team \<noteq> [] then ''https://'' @ team @ ''.cloudflareaccess.com'' else issuer)"

definition access_audience :: "os_env \<Rightarrow> string" where
  "access_audience os =
     (let aud = os_getenv os ''CF_ACCESS_AUDIENCE'' in if aud = [] then os_getenv os ''CLOUDFLARE_ACCESS_AUD'' else aud)"

definition access_jwks :: "os_env \<Rightarrow> string" where
  "access_jwks os =
     (let team = os_getenv os ''CLOUDFLARE_ACCESS_TEAM_NAME''; jwks = os_getenv os ''CF_ACCESS_JWKS_URL''
      in if jwks = [] \<and> team \<noteq> [] then ''https://'' @ team @ ''.cloudflareaccess.com/cdn-cgi/access/certs'' else jwks)"

text \<open>The master key file, with the files that are written for it.\<close>

definition dev_key :: string where
  "dev_key = ''0123456789012345678901234567890123456789012345678901234567890123''"

definition master_key_file :: "os_env \<Rightarrow> string \<times> (string \<times> string) list" where
  "master_key_file os =
     (let dir = os_abs os (value_or os ''DATA_DIR'' ''data''); file = os_getenv os ''APP_MASTER_KEY_FILE'';
          key = os_getenv os ''APP_MASTER_KEY''
      in if file = [] \<and> key \<noteq> [] then (os_join os dir ''app_master_key'', [(os_join os dir ''app_master_key'', key)])
         else if file = [] \<and> \<not> is_production os
         then (os_join os dir ''dev_master.key'',
               if os_exists os (os_join os dir ''dev_master.key'') then [] else [(os_join os dir ''dev_master.key'', dev_key)])
         else (file, []))"

definition owner_set :: "os_env \<Rightarrow> string list" where
  "owner_set os =
     (let owners = subject_set os ''OWNER_SUBJECTS''; email = os_getenv os ''CLOUDFLARE_ACCESS_OWNER_EMAIL''
      in if owners = [] \<and> email \<noteq> [] then [email] else owners)"

definition public_origin :: "os_env \<Rightarrow> string" where
  "public_origin os =
     (let o0 = trim_space (os_getenv os ''PUBLIC_ORIGIN'')
      in if o0 = [] then o0
         else (case os_url os o0 of
                 None \<Rightarrow> o0
               | Some u \<Rightarrow> if u_scheme u \<noteq> [] \<and> u_host u \<noteq> [] then trim_suffix (to_lower (u_scheme u) @ ''://'' @ u_host u) ''/'' else o0))"

text \<open>A value that may be given by a file; \<open>required\<close> refuses an empty file.\<close>

definition from_file :: "os_env \<Rightarrow> string \<Rightarrow> bool \<Rightarrow> string \<Rightarrow> string result" where
  "from_file os key required v =
     (let file = trim_space (os_getenv os key)
      in if file = [] then Inr v
         else (case os_read os file of
                 None \<Rightarrow> Inl (ErrMsg (''read '' @ key @ '' ('' @ file @ '')''))
               | Some d \<Rightarrow> if required \<and> trim_space d = [] then Inl (ErrMsg (key @ '' ('' @ file @ '') is empty''))
                           else Inr (trim_space d)))"

definition bark_timeout_ms :: "os_env \<Rightarrow> int" where
  "bark_timeout_ms os =
     (case parse_int64 (os_getenv os ''BARK_TIMEOUT_MS'') of
        Some ms \<Rightarrow> if os_getenv os ''BARK_TIMEOUT_MS'' \<noteq> [] \<and> ms \<ge> 500 \<and> ms \<le> 15000 then ms else 5000
      | None \<Rightarrow> 5000)"

definition check_bark_server :: "os_env \<Rightarrow> string \<Rightarrow> err option" where
  "check_bark_server os server =
     (if server = [] then None
      else (case os_url os server of
              None \<Rightarrow> Some (ErrMsg ''invalid BARK_SERVER_URL: must be absolute URL'')
            | Some u \<Rightarrow>
                if u_scheme u = [] \<or> u_host u = [] then Some (ErrMsg ''invalid BARK_SERVER_URL: must be absolute URL'')
                else if u_fragment u \<noteq> [] \<or> u_query u \<noteq> [] \<or> u_user u
                then Some (ErrMsg ''BARK_SERVER_URL must not contain userinfo, query, or fragment'') else None))"

definition is_abs :: "string \<Rightarrow> bool" where "is_abs p \<longleftrightarrow> has_prefix p ''/''"

definition check_config :: "config \<Rightarrow> err option" where
  "check_config c =
     (if cf_production c \<and> cf_key_file c = [] then Some (ErrMsg ''APP_MASTER_KEY_FILE is required in production'')
      else if cf_production c \<and> cf_owners c = [] then Some (ErrMsg ''OWNER_SUBJECTS is required in production'')
      else if cf_production c \<and> (cf_issuer c = [] \<or> cf_audience c = [] \<or> cf_jwks c = [] \<or> cf_audience c = ''*''
                \<or> fold_ascii (cf_audience c) ''any'')
      then Some (ErrMsg ''specific Cloudflare Access issuer, audience, and JWKS URL are required in production'')
      else if cf_production c \<and> cf_tts c \<noteq> [] \<and> cf_tts_token c = []
      then Some (ErrMsg ''TTS_INTERNAL_TOKEN or TTS_INTERNAL_TOKEN_FILE is required in production when TTS_GATEWAY_URL is configured'')
      else if cf_key_file c \<noteq> [] \<and> \<not> is_abs (cf_key_file c) then Some (ErrMsg ''APP_MASTER_KEY_FILE must be an absolute path'')
      else None)"

section \<open>Load\<close>

definition make_config :: "os_env \<Rightarrow> int \<times> int \<Rightarrow> string \<Rightarrow> string \<Rightarrow> string \<Rightarrow> config" where
  "make_config os poll token user password =
     \<lparr>cf_address = value_or os ''LISTEN_ADDR'' (''0.0.0.0:'' @ value_or os ''PORT'' ''8090''),
      cf_database = value_or os ''DATABASE_PATH'' (os_join os (value_or os ''DATA_DIR'' ''data'') ''gateway.db''),
      cf_key_file = fst (master_key_file os), cf_zone = value_or os ''TZ'' ''Asia/Ho_Chi_Minh'',
      cf_poll_min = fst poll, cf_poll_max = snd poll,
      cf_issuer = access_issuer os, cf_audience = access_audience os, cf_jwks = access_jwks os,
      cf_owners = owner_set os, cf_operators = subject_set os ''OPERATOR_SUBJECTS'', cf_viewers = subject_set os ''VIEWER_SUBJECTS'',
      cf_dev_subject = value_or os ''DEVELOPMENT_SUBJECT'' ''local-owner'', cf_production = is_production os,
      cf_origin = public_origin os,
      cf_browser = value_or os ''AUTH_BROWSER_URL'' ''http://auth-browser:8181'',
      cf_vnc = value_or os ''AUTH_BROWSER_VNC_URL'' ''http://auth-browser:6080'',
      cf_tts = value_or os ''TTS_GATEWAY_URL'' ''http://tts-gateway:8081'', cf_tts_token = token,
      cf_bark_server = trim_space (os_getenv os ''BARK_SERVER_URL''), cf_bark_public = trim_space (os_getenv os ''BARK_PUBLIC_URL''),
      cf_bark_user = user, cf_bark_password = password, cf_bark_timeout = bark_timeout_ms os * 1000000,
      cf_bark_group = value_or os ''BARK_DEFAULT_GROUP'' ''ACB'', cf_bark_level = value_or os ''BARK_DEFAULT_LEVEL'' ''timeSensitive'',
      cf_bark_sound = value_or os ''BARK_DEFAULT_SOUND'' ''shake''\<rparr>"

text \<open>The files are written once the intervals are accepted, whatever is refused later.\<close>

definition load_config :: "os_env \<Rightarrow> config result \<times> (string \<times> string) list" where
  "load_config os =
     (if \<not> os_zone os (value_or os ''TZ'' ''Asia/Ho_Chi_Minh'') then (Inl (ErrMsg ''load timezone''), [])
      else (case poll_intervals os of
              Inl e \<Rightarrow> (Inl e, [])
            | Inr poll \<Rightarrow>
                (rbind (from_file os ''TTS_INTERNAL_TOKEN_FILE'' True (value_or os ''TTS_INTERNAL_TOKEN'' [])) (\<lambda>token.
                 rbind (from_file os ''BARK_BASIC_AUTH_USER_FILE'' False (trim_space (os_getenv os ''BARK_BASIC_AUTH_USER''))) (\<lambda>user.
                 rbind (from_file os ''BARK_BASIC_AUTH_PASSWORD_FILE'' False (trim_space (os_getenv os ''BARK_BASIC_AUTH_PASSWORD''))) (\<lambda>password.
                 case check_bark_server os (trim_space (os_getenv os ''BARK_SERVER_URL'')) of
                   Some e \<Rightarrow> Inl e
                 | None \<Rightarrow>
                     (let c = make_config os poll token user password
                      in case check_config c of Some e \<Rightarrow> Inl e | None \<Rightarrow> Inr c)))),
                 snd (master_key_file os))))"

lemma load_config_Inr:
  assumes "fst (load_config os) = Inr c"
  obtains poll token user password where "poll_intervals os = Inr poll" "c = make_config os poll token user password" "check_config c = None"
proof -
  obtain poll where p: "poll_intervals os = Inr poll"
    using assms by (cases "poll_intervals os") (auto simp: load_config_def split: if_splits)
  have z: "os_zone os (value_or os ''TZ'' ''Asia/Ho_Chi_Minh'')" using assms by (auto simp: load_config_def split: if_splits)
  from assms obtain token user password where
    "(case check_bark_server os (trim_space (os_getenv os ''BARK_SERVER_URL'')) of
        Some e \<Rightarrow> Inl e
      | None \<Rightarrow> (let c = make_config os poll token user password in case check_config c of Some e \<Rightarrow> Inl e | None \<Rightarrow> Inr c)) = Inr c"
    by (simp add: load_config_def p z rbind_Inr_iff) blast
  then have "check_config (make_config os poll token user password) = None" "c = make_config os poll token user password"
    by (auto simp: Let_def split: option.splits)
  with p that show ?thesis by simp
qed

lemma load_configI:
  assumes "os_zone os (value_or os ''TZ'' ''Asia/Ho_Chi_Minh'')" "poll_intervals os = Inr poll"
    and "from_file os ''TTS_INTERNAL_TOKEN_FILE'' True (value_or os ''TTS_INTERNAL_TOKEN'' []) = Inr token"
    and "from_file os ''BARK_BASIC_AUTH_USER_FILE'' False (trim_space (os_getenv os ''BARK_BASIC_AUTH_USER'')) = Inr user"
    and "from_file os ''BARK_BASIC_AUTH_PASSWORD_FILE'' False (trim_space (os_getenv os ''BARK_BASIC_AUTH_PASSWORD'')) = Inr password"
    and "check_bark_server os (trim_space (os_getenv os ''BARK_SERVER_URL'')) = None"
    and "check_config (make_config os poll token user password) = None"
  shows "fst (load_config os) = Inr (make_config os poll token user password)"
  using assms by (simp add: load_config_def rbind_def)

text \<open>A configuration that loads for production names its owners and one audience, and a key file.\<close>

lemma production_config:
  assumes "fst (load_config os) = Inr c" "cf_production c"
  shows "cf_owners c \<noteq> [] \<and> cf_issuer c \<noteq> [] \<and> cf_jwks c \<noteq> [] \<and> cf_audience c \<noteq> [] \<and> cf_audience c \<noteq> ''*''
    \<and> \<not> fold_ascii (cf_audience c) ''any'' \<and> cf_key_file c \<noteq> [] \<and> is_abs (cf_key_file c)"
proof -
  have "check_config c = None" by (rule load_config_Inr [OF assms(1)])
  then show ?thesis using assms(2) by (auto simp: check_config_def split: if_splits)
qed

lemma load_config_production: "fst (load_config os) = Inr c \<Longrightarrow> cf_production c = is_production os"
  by (erule load_config_Inr) (simp add: make_config_def)

lemma poll_intervals_ordered:
  assumes "fst (load_config os) = Inr c"
  shows "2 * second \<le> cf_poll_min c \<and> cf_poll_min c \<le> cf_poll_max c \<and> cf_poll_max c \<le> 300 * second"
proof (rule load_config_Inr [OF assms])
  fix poll token user password
  assume "poll_intervals os = Inr poll" "c = make_config os poll token user password"
  then show ?thesis
    by (auto simp: poll_intervals_def config_seconds_def make_config_def rbind_Inr_iff second_def split: if_splits option.splits)
qed

end
