(* ===== verification/Access.thy ===== *)
theory Access
  imports Config Web Base64
begin

text \<open>
  \<open>src/internal/auth/auth.go\<close>: who may do what. A verifier turns the token of a request into an identity,
  the configuration gives the identity its role, and a request that changes something must come from
  the own origin and carry the token of its CSRF cookie.
\<close>

datatype role = Owner | Operator | Viewer

fun role_text :: "role \<Rightarrow> string" where
  "role_text Owner = ''OWNER''"
| "role_text Operator = ''OPERATOR''"
| "role_text Viewer = ''VIEWER''"

record identity =
  id_email :: string
  id_subject :: string

section \<open>Tokens\<close>

definition extract_token :: "web_request \<Rightarrow> string" where
  "extract_token r =
     (let h = trim_space (wr_header r ''Cf-Access-Jwt-Assertion'');
          c = (case wr_cookie r ''CF_Authorization'' of None \<Rightarrow> [] | Some v \<Rightarrow> trim_space v);
          a = wr_header r ''Authorization''
      in if h \<noteq> [] then h
         else if c \<noteq> [] then c
         else if has_prefix a ''Bearer '' then trim_space (trim_prefix a ''Bearer '') else [])"

section \<open>Roles\<close>

definition same_subject :: "unicode \<Rightarrow> string \<Rightarrow> string \<Rightarrow> bool" where
  "same_subject u subject s \<longleftrightarrow> s = subject \<or> utf_lower u s = utf_lower u subject"

definition role_of :: "unicode \<Rightarrow> config \<Rightarrow> string \<Rightarrow> role option" where
  "role_of u cfg subject =
     (if \<not> cf_production cfg \<and> subject = cf_dev_subject cfg then Some Owner
      else if list_ex (same_subject u subject) (cf_owners cfg) then Some Owner
      else if list_ex (same_subject u subject) (cf_operators cfg) then Some Operator
      else if list_ex (same_subject u subject) (cf_viewers cfg) then Some Viewer
      else None)"

text \<open>\<open>DevelopmentVerifier\<close>: everybody is the configured subject.\<close>

definition development_verifier :: "string \<Rightarrow> string \<Rightarrow> identity result" where
  "development_verifier subject token = Inr \<lparr>id_email = [], id_subject = subject\<rparr>"

text \<open>\<open>New\<close>: outside production the development verifier stands in for a missing one.\<close>

definition choose_verifier :: "config \<Rightarrow> (string \<Rightarrow> identity result) option \<Rightarrow> (string \<Rightarrow> identity result) option" where
  "choose_verifier cfg v =
     (if v = None \<and> \<not> cf_production cfg then Some (development_verifier (cf_dev_subject cfg)) else v)"

definition identify ::
  "unicode \<Rightarrow> config \<Rightarrow> (string \<Rightarrow> identity result) option \<Rightarrow> web_request \<Rightarrow> (identity \<times> role) result" where
  "identify u cfg verifier r =
     (case verifier of
        None \<Rightarrow> Inl (ErrMsg ''authentication verifier unavailable'')
      | Some verify \<Rightarrow>
          rbind (verify (extract_token r)) (\<lambda>i.
            if cf_production cfg then
              (if id_email i = [] then Inl (ErrMsg ''verified Cloudflare Access JWT is missing email'')
               else (case role_of u cfg (id_email i) of
                       None \<Rightarrow> Inl (ErrMsg ''email is not authorized'') | Some ro \<Rightarrow> Inr (i, ro)))
            else (case role_of u cfg (id_subject i) of
                    None \<Rightarrow> Inl (ErrMsg ''subject is not allowed'') | Some ro \<Rightarrow> Inr (i, ro))))"

section \<open>Origins\<close>

text \<open>
  \<open>net.SplitHostPort\<close>. \<open>strings.EqualFold\<close> compares the orbits of the characters; \<open>fold\<close> gives each
  orbit a representative.
\<close>

definition split_address :: "string \<Rightarrow> (string \<times> string) option" where
  "split_address s =
     (case split_last (CHR '':'') s of
        None \<Rightarrow> None
      | Some (h, port) \<Rightarrow>
          if has_prefix s ''['' then
            (let inner = takeWhile (\<lambda>c. c \<noteq> CHR '']'') (tl s)
             in if CHR '']'' \<notin> set s then None
                else if h \<noteq> ''['' @ inner @ '']'' then None
                else if CHR ''['' \<in> set (tl s) \<or> CHR '']'' \<in> set port then None
                else Some (inner, port))
          else if CHR '':'' \<in> set h then None
          else if CHR ''['' \<in> set s \<or> CHR '']'' \<in> set s then None
          else Some (h, port))"

record access_env =
  ac_unicode :: unicode
  ac_fold :: "nat \<Rightarrow> nat"
  ac_url :: "string \<Rightarrow> url option"
  ac_env :: "string \<Rightarrow> string"

definition fold_equal :: "access_env \<Rightarrow> string \<Rightarrow> string \<Rightarrow> bool" where
  "fold_equal ac s t \<longleftrightarrow> map (ac_fold ac) (runes s) = map (ac_fold ac) (runes t)"

type_synonym origin = "string \<times> string"   \<comment> \<open>scheme and host\<close>

definition url_origin :: "access_env \<Rightarrow> string \<Rightarrow> origin option" where
  "url_origin ac s =
     (case ac_url ac s of
        None \<Rightarrow> None
      | Some p \<Rightarrow> if u_scheme p = [] \<or> u_host p = [] then None else Some (u_scheme p, u_host p))"

definition match_origin :: "access_env \<Rightarrow> string \<Rightarrow> origin \<Rightarrow> bool" where
  "match_origin ac o0 expected =
     (if o0 = [] then False
      else (case url_origin ac (trim_space o0) of
              None \<Rightarrow> False
            | Some (s, h) \<Rightarrow> fold_equal ac s (fst expected) \<and> fold_equal ac h (snd expected)))"

definition forwarded_proto :: "access_env \<Rightarrow> web_request \<Rightarrow> string" where
  "forwarded_proto ac r = utf_lower (ac_unicode ac) (trim_space (wr_header r ''X-Forwarded-Proto''))"

definition effective_origin :: "access_env \<Rightarrow> web_request \<Rightarrow> origin option" where
  "effective_origin ac r =
     (let proto = forwarded_proto ac r;
          scheme = (if proto = ''https'' \<or> proto = ''http'' then proto else if wr_tls r then ''https'' else ''http'');
          f0 = trim_space (wr_header r ''X-Forwarded-Host'');
          f = (if CHR '','' \<in> set f0 then trim_space (takeWhile (\<lambda>c. c \<noteq> CHR '','') f0) else f0);
          host = (if f \<noteq> [] then f else trim_space (wr_host r));
          bare = (if (scheme = ''https'' \<and> has_suffix host '':443'') \<or> (scheme = ''http'' \<and> has_suffix host '':80'')
                  then (case split_address host of Some (h, _) \<Rightarrow> h | None \<Rightarrow> host) else host)
      in if host = [] then None else Some (scheme, bare))"

definition request_origin :: "access_env \<Rightarrow> web_request \<Rightarrow> origin" where
  "request_origin ac r =
     (let configured = trim_space (ac_env ac ''PUBLIC_ORIGIN'')
      in case (if configured = [] then None else url_origin ac configured) of
           Some o1 \<Rightarrow> o1
         | None \<Rightarrow> (if forwarded_proto ac r = ''https'' \<or> wr_tls r then ''https'' else ''http'', wr_host r))"

definition expected_origin :: "access_env \<Rightarrow> config \<Rightarrow> web_request \<Rightarrow> origin" where
  "expected_origin ac cfg r =
     (case (if cf_origin cfg = [] then None else url_origin ac (cf_origin cfg)) of
        Some o1 \<Rightarrow> o1 | None \<Rightarrow> request_origin ac r)"

definition same_origin :: "access_env \<Rightarrow> config \<Rightarrow> web_request \<Rightarrow> bool" where
  "same_origin ac cfg r =
     (let o0 = trim_space (wr_header r ''Origin'')
      in if o0 = [] then False
         else if match_origin ac o0 (expected_origin ac cfg r) then True
         else (case effective_origin ac r of None \<Rightarrow> False | Some e \<Rightarrow> match_origin ac o0 e))"

definition secure_request :: "access_env \<Rightarrow> web_request \<Rightarrow> bool" where
  "secure_request ac r \<longleftrightarrow> wr_tls r \<or> forwarded_proto ac r = ''https'' \<or> fold_equal ac (fst (request_origin ac r)) ''https''"

section \<open>CSRF tokens\<close>

definition csrf_valid :: "web_request \<Rightarrow> bool" where
  "csrf_valid r =
     (case wr_cookie r ''tbg_csrf'' of
        None \<Rightarrow> False
      | Some c \<Rightarrow> c \<noteq> [] \<and> trim_space (wr_header r ''X-CSRF-Token'') \<noteq> [] \<and> c = trim_space (wr_header r ''X-CSRF-Token''))"

text \<open>
  \<open>CSRF\<close>: the token of the cookie again, or a new one of thirty-two random bytes, with the attributes
  of the cookie that is set.
\<close>

record csrf_cookie =
  cc_value :: string
  cc_secure :: bool

definition csrf_token :: "access_env \<Rightarrow> string \<Rightarrow> web_request \<Rightarrow> string \<times> csrf_cookie option" where
  "csrf_token ac random r =
     (case wr_cookie r ''tbg_csrf'' of
        Some c \<Rightarrow> if length c \<ge> 16 then (c, None)
                  else (b64_encode url_alphabet random, Some \<lparr>cc_value = b64_encode url_alphabet random, cc_secure = secure_request ac r\<rparr>)
      | None \<Rightarrow> (b64_encode url_alphabet random, Some \<lparr>cc_value = b64_encode url_alphabet random, cc_secure = secure_request ac r\<rparr>))"

definition csrf_response :: "access_env \<Rightarrow> string \<Rightarrow> web_request \<Rightarrow> web_response" where
  "csrf_response ac random r =
     \<lparr>ws_status = 200, ws_headers = [(''Cache-Control'', ''no-store''), (''Content-Type'', ''application/json'')],
      ws_body = RawBody (''{'' @ [CHR 0x22] @ ''token'' @ [CHR 0x22] @ '':'' @ [CHR 0x22] @ fst (csrf_token ac random r) @ [CHR 0x22] @ ''}'')\<rparr>"

section \<open>The guard\<close>

definition auth_error :: "nat \<Rightarrow> string \<Rightarrow> string \<Rightarrow> web_response" where
  "auth_error status message code =
     \<lparr>ws_status = status, ws_headers = [(''Content-Type'', ''application/json'')],
      ws_body = JsonBody (JObj ((''error'', JStr message) # (if code = [] then [] else [(''code'', JStr code)])))\<rparr>"

text \<open>\<open>Require\<close>: \<open>Inl\<close> is the answer that refuses the request, \<open>Inr\<close> who makes it.\<close>

definition require_roles ::
  "access_env \<Rightarrow> config \<Rightarrow> (string \<Rightarrow> identity result) option \<Rightarrow> (err \<Rightarrow> string) \<Rightarrow> role list \<Rightarrow> web_request
   \<Rightarrow> web_response + (identity \<times> role)" where
  "require_roles ac cfg verifier text roles r =
     (case identify (ac_unicode ac) cfg verifier r of
        Inl e \<Rightarrow> Inl (auth_error 401 (''unauthorized: '' @ text e) [])
      | Inr (i, ro) \<Rightarrow>
          if ro \<notin> set roles then Inl (auth_error 403 (''forbidden: role '' @ role_text ro @ '' not permitted'') [])
          else if \<not> safe_method (wr_method r) then
            (if \<not> same_origin ac cfg r then Inl (auth_error 403 ''csrf validation failed: origin mismatch'' ''ORIGIN_MISMATCH'')
             else if \<not> csrf_valid r then Inl (auth_error 403 ''csrf validation failed: invalid token'' ''CSRF_TOKEN_INVALID'')
             else Inr (i, ro))
          else Inr (i, ro))"

end
