(* ===== verification/Cloudflare.thy ===== *)
theory Cloudflare
  imports Access
begin

text \<open>
  \<open>src/internal/auth/cloudflare.go\<close>: the verifier of Cloudflare Access tokens, with its cache of the
  key set. Parsing of tokens and key sets, signatures and the check of the claims are those of the
  library \<open>go-jose\<close>, parameters of \<open>jose\<close>.
\<close>

record claims =
  cl_issuer :: string
  cl_audience :: "string list"
  cl_subject :: string
  cl_expiry :: "instant option"
  cl_email :: string
  cl_private_subject :: string

record jose =
  jo_kids :: "string \<Rightarrow> string list option"                    \<comment> \<open>key ids of the headers of a token\<close>
  jo_keys :: "string \<Rightarrow> string list option"                    \<comment> \<open>the keys of an encoded key set\<close>
  jo_find :: "string list \<Rightarrow> string \<Rightarrow> string list"            \<comment> \<open>the keys with an id\<close>
  jo_claims :: "string \<Rightarrow> string \<Rightarrow> claims option"             \<comment> \<open>the claims of a token signed by a key\<close>
  jo_validate :: "string \<Rightarrow> string \<Rightarrow> instant \<Rightarrow> claims \<Rightarrow> err option"

text \<open>The answer to the request for the key set: status and body.\<close>

type_synonym fetch = "(nat \<times> string option) result"

record key_cache =
  kc_keys :: "string list"
  kc_fetched :: "instant option"

definition no_keys :: key_cache where "no_keys = \<lparr>kc_keys = [], kc_fetched = None\<rparr>"

definition keyset :: "jose \<Rightarrow> instant \<Rightarrow> instant \<Rightarrow> fetch \<Rightarrow> key_cache \<Rightarrow> string list result \<times> key_cache" where
  "keyset jo now stored answer kc =
     (if kc_keys kc \<noteq> [] \<and> (case kc_fetched kc of None \<Rightarrow> False | Some t \<Rightarrow> now - t < 10 * minute)
      then (Inr (kc_keys kc), kc)
      else (case answer of
              Inl e \<Rightarrow> (Inl (ErrWrap ''fetch JWKS'' e), kc)
            | Inr (status, body) \<Rightarrow>
                if status \<noteq> 200 then (Inl (ErrMsg (''JWKS status '' @ show_nat status)), kc)
                else (case body of
                        None \<Rightarrow> (Inl (ErrMsg ''decode JWKS''), kc)
                      | Some b \<Rightarrow>
                          (case jo_keys jo (take 1048576 b) of
                             None \<Rightarrow> (Inl (ErrMsg ''decode JWKS''), kc)
                           | Some [] \<Rightarrow> (Inl (ErrMsg ''empty JWKS''), kc)
                           | Some ks \<Rightarrow> (Inr ks, \<lparr>kc_keys = ks, kc_fetched = Some stored\<rparr>)))))"

text \<open>The inputs of one verification: the times and the answers of up to two fetches.\<close>

record verify_input =
  vi_time :: instant
  vi_stored :: instant
  vi_fetch :: fetch
  vi_time2 :: instant
  vi_stored2 :: instant
  vi_fetch2 :: fetch
  vi_now :: instant

text \<open>The keys for a key id; an unknown id refreshes the key set once.\<close>

definition matching_keys :: "jose \<Rightarrow> verify_input \<Rightarrow> string \<Rightarrow> key_cache \<Rightarrow> string list result \<times> key_cache" where
  "matching_keys jo vi kid kc =
     (case keyset jo (vi_time vi) (vi_stored vi) (vi_fetch vi) kc of
        (Inl e, kc1) \<Rightarrow> (Inl (ErrWrap ''fetch JWKS'' e), kc1)
      | (Inr ks, kc1) \<Rightarrow>
          if jo_find jo ks kid \<noteq> [] then (Inr (jo_find jo ks kid), kc1)
          else (case keyset jo (vi_time2 vi) (vi_stored2 vi) (vi_fetch2 vi) (kc1\<lparr>kc_fetched := None\<rparr>) of
                  (Inl e, kc2) \<Rightarrow> (Inl (ErrWrap ''refresh JWKS'' e), kc2)
                | (Inr ks2, kc2) \<Rightarrow>
                    if jo_find jo ks2 kid = [] then (Inl (ErrMsg (''no matching key in JWKS for key ID '' @ kid)), kc2)
                    else (Inr (jo_find jo ks2 kid), kc2)))"

fun signed_claims :: "jose \<Rightarrow> string \<Rightarrow> string list \<Rightarrow> claims option" where
  "signed_claims jo raw [] = None"
| "signed_claims jo raw (k # ks) = (case jo_claims jo raw k of Some c \<Rightarrow> Some c | None \<Rightarrow> signed_claims jo raw ks)"

definition insecure_audience :: "string \<Rightarrow> bool" where
  "insecure_audience aud \<longleftrightarrow> aud = [] \<or> aud = ''*'' \<or> fold_ascii aud ''any''"

definition claims_identity :: "claims \<Rightarrow> identity result" where
  "claims_identity c =
     (let s1 = trim_space (cl_private_subject c); s2 = trim_space (cl_subject c); email = trim_space (cl_email c);
          subject = (if s1 \<noteq> [] then s1 else if s2 \<noteq> [] then s2 else email)
      in if subject = [] then Inl (ErrMsg ''JWT missing subject and email'')
         else Inr \<lparr>id_email = email, id_subject = subject\<rparr>)"

definition check_claims :: "jose \<Rightarrow> config \<Rightarrow> instant \<Rightarrow> claims \<Rightarrow> identity result" where
  "check_claims jo cfg now c =
     (if insecure_audience (cf_audience cfg) then Inl (ErrMsg ''Cloudflare Access audience is not configured securely'')
      else (case jo_validate jo (cf_issuer cfg) (cf_audience cfg) now c of
              Some e \<Rightarrow> Inl (ErrWrap ''JWT claims validation failed'' e)
            | None \<Rightarrow> if cl_expiry c = None then Inl (ErrMsg ''JWT missing expiry'') else claims_identity c))"

definition cloudflare_verify :: "jose \<Rightarrow> config \<Rightarrow> verify_input \<Rightarrow> string \<Rightarrow> key_cache \<Rightarrow> identity result \<times> key_cache" where
  "cloudflare_verify jo cfg vi raw kc =
     (if raw = []
      then (Inl (ErrMsg ''missing Cloudflare Access JWT (neither Cf-Access-Jwt-Assertion header nor CF_Authorization cookie found)''), kc)
      else (case jo_kids jo raw of
              None \<Rightarrow> (Inl (ErrMsg ''invalid JWT''), kc)
            | Some kids \<Rightarrow>
                (case kids of
                   [kid] \<Rightarrow>
                     if kid = [] then (Inl (ErrMsg ''JWT missing key id''), kc)
                     else (case matching_keys jo vi kid kc of
                             (Inl e, kc') \<Rightarrow> (Inl e, kc')
                           | (Inr ks, kc') \<Rightarrow>
                               (case signed_claims jo raw ks of
                                  None \<Rightarrow> (Inl (ErrMsg ''JWT signature verification failed''), kc')
                                | Some c \<Rightarrow> (check_claims jo cfg (vi_now vi) c, kc')))
                 | _ \<Rightarrow> (Inl (ErrMsg ''JWT missing key id''), kc))))"

text \<open>The verifier the server installs: that of Cloudflare in production, none otherwise.\<close>

definition server_verifier ::
  "jose \<Rightarrow> config \<Rightarrow> verify_input \<Rightarrow> key_cache \<Rightarrow> (string \<Rightarrow> identity result) option" where
  "server_verifier jo cfg vi kc =
     choose_verifier cfg (if cf_production cfg then Some (\<lambda>raw. fst (cloudflare_verify jo cfg vi raw kc)) else None)"

section \<open>A request that is let through\<close>

lemma signed_claims_Some: "signed_claims jo raw ks = Some c \<Longrightarrow> \<exists>k \<in> set ks. jo_claims jo raw k = Some c"
  by (induction ks) (auto split: option.splits)

lemma cloudflare_verify_Inr:
  assumes "fst (cloudflare_verify jo cfg vi raw kc) = Inr i"
  obtains kid ks k c where "jo_kids jo raw = Some [kid]" "fst (matching_keys jo vi kid kc) = Inr ks" "k \<in> set ks"
    "jo_claims jo raw k = Some c" "jo_validate jo (cf_issuer cfg) (cf_audience cfg) (vi_now vi) c = None"
    "cl_expiry c \<noteq> None" "\<not> insecure_audience (cf_audience cfg)" "id_email i = trim_space (cl_email c)"
proof -
  from assms obtain kid where kid: "jo_kids jo raw = Some [kid]"
    by (auto simp: cloudflare_verify_def split: if_splits option.splits list.splits)
  obtain m kc' where m: "matching_keys jo vi kid kc = (m, kc')" by (cases "matching_keys jo vi kid kc")
  from assms kid m obtain ks where ks: "m = Inr ks"
    by (auto simp: cloudflare_verify_def split: if_splits sum.splits)
  from assms kid m ks obtain c where c: "signed_claims jo raw ks = Some c" "check_claims jo cfg (vi_now vi) c = Inr i"
    by (auto simp: cloudflare_verify_def split: if_splits option.splits)
  obtain k where k: "k \<in> set ks" "jo_claims jo raw k = Some c" using signed_claims_Some [OF c(1)] by blast
  have v: "jo_validate jo (cf_issuer cfg) (cf_audience cfg) (vi_now vi) c = None" "cl_expiry c \<noteq> None"
    "\<not> insecure_audience (cf_audience cfg)" "claims_identity c = Inr i"
    using c(2) by (auto simp: check_claims_def split: if_splits option.splits)
  have "id_email i = trim_space (cl_email c)" using v(4) by (auto simp: claims_identity_def Let_def split: if_splits)
  with that [OF kid _ k v(1-3)] m ks show ?thesis by simp
qed

lemma require_roles_Inr:
  assumes "require_roles ac cfg v text roles r = Inr (i, ro)"
  shows "identify (ac_unicode ac) cfg v r = Inr (i, ro)" "ro \<in> set roles"
    "\<not> safe_method (wr_method r) \<Longrightarrow> same_origin ac cfg r \<and> csrf_valid r"
  using assms by (auto simp: require_roles_def split: sum.splits if_splits prod.splits)

text \<open>
  Property C34. In production nobody acts without a valid Cloudflare token: if the configuration loads
  for production and the guard lets a request through, the token of the request is signed by a key
  with its key id, its claims pass the check for the configured issuer and the one configured audience,
  it has an expiry, and its email is listed for the role; a request that is not a read comes from the
  own origin and repeats the token of its CSRF cookie.
\<close>

theorem production_requires_token:
  assumes "fst (load_config os) = Inr cfg" and "is_production os"
    and "require_roles ac cfg (server_verifier jo cfg vi kc) text roles r = Inr (i, ro)"
  shows "ro \<in> set roles
    \<and> (\<exists>kid ks k c. jo_kids jo (extract_token r) = Some [kid] \<and> fst (matching_keys jo vi kid kc) = Inr ks \<and> k \<in> set ks
         \<and> jo_claims jo (extract_token r) k = Some c
         \<and> jo_validate jo (cf_issuer cfg) (cf_audience cfg) (vi_now vi) c = None \<and> cl_expiry c \<noteq> None
         \<and> cf_audience cfg \<noteq> [] \<and> cf_audience cfg \<noteq> ''*'' \<and> trim_space (cl_email c) \<noteq> []
         \<and> role_of (ac_unicode ac) cfg (trim_space (cl_email c)) = Some ro
         \<and> list_ex (same_subject (ac_unicode ac) (trim_space (cl_email c)))
             (case ro of Owner \<Rightarrow> cf_owners cfg | Operator \<Rightarrow> cf_operators cfg | Viewer \<Rightarrow> cf_viewers cfg))
    \<and> (safe_method (wr_method r) \<or> same_origin ac cfg r \<and> csrf_valid r)"
proof -
  have prod: "cf_production cfg"
    using load_config_production [OF assms(1)] assms(2) by simp
  note g = require_roles_Inr [OF assms(3)]
  have v: "server_verifier jo cfg vi kc = Some (\<lambda>raw. fst (cloudflare_verify jo cfg vi raw kc))"
    using prod by (simp add: server_verifier_def choose_verifier_def)
  have i: "fst (cloudflare_verify jo cfg vi (extract_token r) kc) = Inr i" "id_email i \<noteq> []"
    "role_of (ac_unicode ac) cfg (id_email i) = Some ro"
    using g(1) prod by (auto simp: identify_def v rbind_Inr_iff split: if_splits option.splits)
  obtain kid ks k c where c: "jo_kids jo (extract_token r) = Some [kid]" "fst (matching_keys jo vi kid kc) = Inr ks" "k \<in> set ks"
    "jo_claims jo (extract_token r) k = Some c" "jo_validate jo (cf_issuer cfg) (cf_audience cfg) (vi_now vi) c = None"
    "cl_expiry c \<noteq> None" "\<not> insecure_audience (cf_audience cfg)" "id_email i = trim_space (cl_email c)"
    by (rule cloudflare_verify_Inr [OF i(1)])
  have "list_ex (same_subject (ac_unicode ac) (id_email i))
      (case ro of Owner \<Rightarrow> cf_owners cfg | Operator \<Rightarrow> cf_operators cfg | Viewer \<Rightarrow> cf_viewers cfg)"
    using i(3) prod by (auto simp: role_of_def split: if_splits)
  then show ?thesis using g(2,3) c i by (auto simp: insecure_audience_def)
qed

definition demo_vars :: "(string \<times> string) list" where
  "demo_vars = [(''APP_ENV'', ''production''), (''APP_MASTER_KEY_FILE'', ''/k''), (''OWNER_SUBJECTS'', ''o@x''),
     (''CLOUDFLARE_ACCESS_TEAM_NAME'', ''t''), (''CF_ACCESS_AUDIENCE'', ''a''), (''TTS_INTERNAL_TOKEN'', ''s'')]"

definition demo_os :: os_env where
  "demo_os = \<lparr>os_getenv = (\<lambda>k. case map_of demo_vars k of None \<Rightarrow> [] | Some v \<Rightarrow> v), os_read = (\<lambda>_. None),
     os_exists = (\<lambda>_. False), os_zone = (\<lambda>_. True), os_url = (\<lambda>_. None), os_abs = (\<lambda>p. ''/'' @ p),
     os_join = (\<lambda>a b. a @ ''/'' @ b)\<rparr>"

definition demo_jose :: jose where
  "demo_jose = \<lparr>jo_kids = (\<lambda>_. Some [''k'']), jo_keys = (\<lambda>_. Some [''key'']), jo_find = (\<lambda>ks _. ks),
     jo_claims = (\<lambda>_ _. Some \<lparr>cl_issuer = ''i'', cl_audience = [''a''], cl_subject = ''s'', cl_expiry = Some 1,
        cl_email = ''o@x'', cl_private_subject = ''s''\<rparr>),
     jo_validate = (\<lambda>_ _ _ _. None)\<rparr>"

definition demo_verify :: verify_input where
  "demo_verify = \<lparr>vi_time = 0, vi_stored = 0, vi_fetch = Inr (200, Some ''x''), vi_time2 = 0, vi_stored2 = 0,
     vi_fetch2 = Inr (200, Some ''x''), vi_now = 0\<rparr>"

definition demo_read :: web_request where
  "demo_read = \<lparr>wr_method = ''GET'', wr_path = ''/'', wr_host = ''h'', wr_tls = True,
     wr_header = (\<lambda>k. if k = ''Cf-Access-Jwt-Assertion'' then ''jwt'' else []), wr_cookie = (\<lambda>_. None), wr_query = (\<lambda>_. []),
     wr_body = []\<rparr>"

definition demo_access :: access_env where
  "demo_access = \<lparr>ac_unicode = ascii_unicode, ac_fold = (\<lambda>r. r), ac_url = (\<lambda>_. None), ac_env = (\<lambda>_. [])\<rparr>"

definition demo_cfg :: config where
  "demo_cfg = make_config demo_os (5 * second, 15 * second) ''s'' [] []"

lemma demo_cfg_fields:
  "cf_production demo_cfg" "cf_key_file demo_cfg = ''/k''" "cf_owners demo_cfg = [''o@x'']" "cf_audience demo_cfg = ''a''"
  "cf_issuer demo_cfg \<noteq> []" "cf_jwks demo_cfg \<noteq> []" "cf_tts_token demo_cfg = ''s''"
  unfolding demo_cfg_def make_config_def config.simps by code_simp+

lemma demo_cfg_loads: "fst (load_config demo_os) = Inr demo_cfg"
  unfolding demo_cfg_def
proof (rule load_configI)
  show "check_config (make_config demo_os (5 * second, 15 * second) ''s'' [] []) = None"
  proof -
    have "\<not> fold_ascii ''a'' ''any''" "is_abs ''/k''" by code_simp+
    then have "check_config demo_cfg = None" by (simp add: check_config_def demo_cfg_fields)
    then show ?thesis unfolding demo_cfg_def .
  qed
qed code_simp+

theorem production_requires_token_witness:
  "\<exists>k c. fst (load_config demo_os) = Inr demo_cfg \<and> jo_claims demo_jose (extract_token demo_read) k = Some c
     \<and> role_of ascii_unicode demo_cfg (trim_space (cl_email c)) = Some Owner"
proof -
  define i where "i = \<lparr>id_email = ''o@x'', id_subject = ''s''\<rparr>"
  have v: "server_verifier demo_jose demo_cfg demo_verify no_keys
      = Some (\<lambda>raw. fst (cloudflare_verify demo_jose demo_cfg demo_verify raw no_keys))"
    by (simp add: server_verifier_def choose_verifier_def demo_cfg_fields)
  have t: "extract_token demo_read = ''jwt''" "trim_space ''s'' = ''s''" "trim_space ''o@x'' = ''o@x''" "\<not> insecure_audience ''a''"
    by code_simp+
  have "fst (cloudflare_verify demo_jose demo_cfg demo_verify ''jwt'' no_keys) = Inr i"
    by (simp add: cloudflare_verify_def demo_jose_def matching_keys_def keyset_def no_keys_def demo_verify_def check_claims_def
        demo_cfg_fields t claims_identity_def i_def)
  moreover have "role_of ascii_unicode demo_cfg ''o@x'' = Some Owner"
    by (simp add: role_of_def demo_cfg_fields same_subject_def)
  moreover have u: "ac_unicode demo_access = ascii_unicode" by (simp add: demo_access_def)
  moreover have m: "safe_method (wr_method demo_read)" by (simp add: demo_read_def safe_method_def)
  ultimately have g: "require_roles demo_access demo_cfg (server_verifier demo_jose demo_cfg demo_verify no_keys) (\<lambda>_. []) [Owner] demo_read
      = Inr (i, Owner)"
    by (simp add: require_roles_def identify_def v t rbind_def demo_cfg_fields i_def u m)
  have p: "is_production demo_os" by code_simp
  from production_requires_token [OF demo_cfg_loads p g] u demo_cfg_loads show ?thesis by auto
qed

end
