(* ===== verification/Tts.thy ===== *)
theory Tts
  imports Web Prelude
begin

text \<open>
  \<open>src/internal/ttsclient/client.go\<close>: the client of the speech service. The HTTP transport is a
  parameter; audio beyond 4 MB is cut off.
\<close>

record synth_request =
  sq_text :: string
  sq_voice :: string
  sq_rate :: string
  sq_pitch :: string
  sq_cacheable :: bool
  sq_fallback :: "bool option"
  sq_mode :: string

record synth_result =
  sy_audio :: string
  sy_provider :: string
  sy_voice :: string
  sy_fallback :: bool
  sy_cached :: bool

record tts_call =
  tq_url :: string
  tq_headers :: "(string \<times> string) list"
  tq_body :: string

record tts_answer =
  ta_status :: nat
  ta_header :: "string \<Rightarrow> string"
  ta_body :: "string option"   \<comment> \<open>absent when reading fails\<close>

record tts_client =
  tt_base :: string
  tt_token :: string
  tt_do :: "tts_call \<Rightarrow> tts_answer result"

definition trim_right_slashes :: "string \<Rightarrow> string" where
  "trim_right_slashes s = rev (dropWhile (\<lambda>c. c = CHR ''/'') (rev s))"

definition new_tts :: "string \<Rightarrow> string \<Rightarrow> (tts_call \<Rightarrow> tts_answer result) \<Rightarrow> tts_client" where
  "new_tts url token send =
     \<lparr>tt_base = trim_right_slashes (if url = [] then ''http://127.0.0.1:8081'' else url), tt_token = token, tt_do = send\<rparr>"

definition unless_empty :: "string \<Rightarrow> string \<Rightarrow> (string \<times> json) list" where
  "unless_empty k v = (if v = [] then [] else [(k, JStr v)])"

definition synth_json :: "synth_request \<Rightarrow> json" where
  "synth_json q =
     JObj ([(''text'', JStr (sq_text q))] @ unless_empty ''voice'' (sq_voice q) @ unless_empty ''rate'' (sq_rate q)
       @ unless_empty ''pitch'' (sq_pitch q) @ [(''cacheable'', JBool (sq_cacheable q))]
       @ (case sq_fallback q of None \<Rightarrow> [] | Some b \<Rightarrow> [(''allow_fallback'', JBool b)])
       @ unless_empty ''provider_mode'' (sq_mode q))"

definition tts_unavailable :: string where "tts_unavailable = ''tts_service_unavailable''"

definition audio_limit :: nat where "audio_limit = 4194304"

definition synth_call :: "json_codec \<Rightarrow> tts_client \<Rightarrow> synth_request \<Rightarrow> tts_call" where
  "synth_call jc c q =
     \<lparr>tq_url = tt_base c @ ''/synthesize'',
      tq_headers = (''Content-Type'', ''application/json'')
        # (if tt_token c \<noteq> [] then [(''X-Internal-TTS-Token'', tt_token c)] else []),
      tq_body = jc_text jc (synth_json q)\<rparr>"

definition synthesize :: "json_codec \<Rightarrow> tts_client \<Rightarrow> synth_request \<Rightarrow> synth_result result" where
  "synthesize jc c q =
     (case tt_do c (synth_call jc c q) of
        Inl e \<Rightarrow> Inl (ErrWrap tts_unavailable e)
      | Inr a \<Rightarrow>
          if ta_status a = 401 then Inl (ErrMsg ''tts_unauthorized'')
          else if ta_status a \<noteq> 200
          then Inl (ErrMsg (''tts_synthesis_failed (status '' @ show_nat (ta_status a) @ ''): ''
                     @ (case ta_body a of None \<Rightarrow> [] | Some b \<Rightarrow> take 1024 b)))
          else (case ta_body a of
                  None \<Rightarrow> Inl (ErrMsg ''read audio'')
                | Some b \<Rightarrow>
                    Inr \<lparr>sy_audio = take audio_limit b,
                         sy_provider = (if ta_header a ''X-TTS-Provider'' = [] then ''edge'' else ta_header a ''X-TTS-Provider''),
                         sy_voice = ta_header a ''X-TTS-Voice'', sy_fallback = fold_ascii (ta_header a ''X-TTS-Fallback'') ''true'',
                         sy_cached = fold_ascii (ta_header a ''X-TTS-Cached'') ''true''\<rparr>))"

end
