(* ===== verification/FilePath.thy ===== *)
theory FilePath
  imports Prelude
begin

text \<open>
  What the payment QR handlers use of \<open>path/filepath\<close> on a system with slashes (\<open>Clean\<close>, \<open>Join\<close>, \<open>Dir\<close>,
  \<open>Rel\<close>) and of the escapes of \<open>net/url\<close>, and the records of an upload and of the disk.
\<close>

section \<open>Paths\<close>

text \<open>The components of a path that count: dots and empty ones go, a double dot takes the one before it.\<close>

fun clean_parts :: "bool \<Rightarrow> string list \<Rightarrow> string list \<Rightarrow> string list" where
  "clean_parts rooted [] stack = rev stack"
| "clean_parts rooted (p # ps) stack =
     (if p = [] \<or> p = ''.'' then clean_parts rooted ps stack
      else if p = ''..'' then
        (case stack of
           [] \<Rightarrow> clean_parts rooted ps (if rooted then [] else [''..''])
         | q # qs \<Rightarrow> clean_parts rooted ps (if q = ''..'' then ''..'' # stack else qs))
      else clean_parts rooted ps (p # stack))"

definition rooted :: "string \<Rightarrow> bool" where "rooted p \<longleftrightarrow> has_prefix p ''/''"

definition parts :: "string \<Rightarrow> string list" where "parts p = clean_parts (rooted p) (split_on CHR ''/'' p) []"

definition path_clean :: "string \<Rightarrow> string" where
  "path_clean p =
     (let body = join_with ''/'' (parts p)
      in if rooted p then ''/'' @ body else if body = [] then ''.'' else body)"

definition path_join :: "string \<Rightarrow> string \<Rightarrow> string" where
  "path_join a b = (if a = [] \<and> b = [] then [] else if a = [] then path_clean b else path_clean (a @ ''/'' @ b))"

definition path_dir :: "string \<Rightarrow> string" where
  "path_dir p = path_clean (rev (dropWhile (\<lambda>c. c \<noteq> CHR ''/'') (rev p)))"

text \<open>
  \<open>Rel\<close>: what is left of the target after the components both share, behind a double dot for each that
  is left of the base; none when the base leaves a double dot or only one of them is rooted.
\<close>

fun strip_common :: "string list \<Rightarrow> string list \<Rightarrow> string list \<times> string list" where
  "strip_common (a # as) (b # bs) = (if a = b then strip_common as bs else (a # as, b # bs))"
| "strip_common as bs = (as, bs)"

definition path_rel :: "string \<Rightarrow> string \<Rightarrow> string option" where
  "path_rel base tgt =
     (if rooted base \<noteq> rooted tgt then None
      else (case strip_common (parts base) (parts tgt) of
              (a, b) \<Rightarrow>
                if a = [] \<and> b = [] then Some ''.''
                else if ''..'' \<in> set a then None
                else Some (join_with ''/'' (map (\<lambda>_. ''..'') a @ b))))"

text \<open>A target whose relative path does not begin with two dots lies below the base.\<close>

lemma strip_common_base: "strip_common as bs = ([], r) \<Longrightarrow> bs = as @ r"
  by (induction as bs rule: strip_common.induct) (auto split: if_splits)

lemma strip_common_append: "strip_common as (as @ r) = ([], r)"
  by (induction as) (cases r; simp)+

lemma join_with_prefix: "has_prefix (join_with ''/'' (''..'' # ps)) ''..''"
  by (cases ps) simp_all

lemma path_rel_below:
  assumes "path_rel base tgt = Some r" "\<not> has_prefix r ''..''"
  shows "rooted tgt = rooted base \<and> (\<exists>rest. parts tgt = parts base @ rest)"
proof -
  obtain a b where ab: "strip_common (parts base) (parts tgt) = (a, b)" by (metis surj_pair)
  have "a = []"
  proof (cases a)
    case (Cons x xs)
    have "r = join_with ''/'' (''..'' # (map (\<lambda>_. ''..'') xs @ b))"
      using assms(1) ab Cons by (auto simp: path_rel_def split: if_splits)
    then show ?thesis using join_with_prefix assms(2) by blast
  qed simp
  then show ?thesis using ab assms(1) strip_common_base by (auto simp: path_rel_def split: if_splits)
qed

section \<open>Escapes\<close>

definition hex_upper :: "nat \<Rightarrow> char" where "hex_upper n = (if n < 10 then char_of (48 + n) else char_of (55 + n))"

definition percent :: "char \<Rightarrow> string" where
  "percent c = [CHR 0x25, hex_upper (of_char c div 16), hex_upper (of_char c mod 16)]"

definition unreserved :: "char \<Rightarrow> bool" where
  "unreserved c \<longleftrightarrow> (CHR ''a'' \<le> c \<and> c \<le> CHR ''z'') \<or> (CHR ''A'' \<le> c \<and> c \<le> CHR ''Z'') \<or> (CHR ''0'' \<le> c \<and> c \<le> CHR ''9'')
     \<or> c \<in> set ''-_.~''"

definition path_escape :: "string \<Rightarrow> string" where
  "path_escape s = concat (map (\<lambda>c. if unreserved c \<or> c \<in> set ''$&+=:@'' then [c] else percent c) s)"

definition query_escape :: "string \<Rightarrow> string" where
  "query_escape s = concat (map (\<lambda>c. if unreserved c then [c] else if c = CHR '' '' then ''+'' else percent c) s)"

section \<open>Uploads and the disk\<close>

text \<open>A parsed multipart form: the image, if there is one, and the text fields.\<close>

record upload =
  up_image :: "string option"
  up_field :: "string \<Rightarrow> string"

text \<open>Which writes and renames succeed.\<close>

record disk =
  di_write :: "string \<Rightarrow> bool"
  di_rename :: "string \<Rightarrow> string \<Rightarrow> bool"

end
