(* ===== verification/Api.thy ===== *)
theory Api
  imports Views Monitor Cloudflare EventStream Bark Tts FilePath
begin

text \<open>
  The frame of the HTTP interface (\<open>src/internal/httpapi/server.go\<close>): what the server is built from, the
  state its handlers work on, the context of a request, and the helpers the handlers share. A
  handler is a function from the state to a response and the state after it.
\<close>

section \<open>Server, state and request\<close>

text \<open>
  \<open>gs_cfg\<close> and the parts that \<open>New\<close> and the \<open>With...\<close> methods install; a part that is absent is
  \<open>None\<close> or \<open>False\<close>. \<open>gs_browser\<close> is the browser service, by the number of the call within the request;
  \<open>gs_vault\<close> the cipher, \<open>gs_keyring\<close> the keyring of the server, \<open>gs_store_keys\<close> that of the store; \<open>gs_meanwhile\<close> is
  what the other requests and the monitor do to the database while such a call is under way.
\<close>

record 'c server =
  gs_cfg :: config
  gs_codec :: json_codec
  gs_zone :: "string \<Rightarrow> location result"
  gs_net :: net_lib
  gs_sha :: "string \<Rightarrow> string"
  gs_unicode :: unicode
  gs_vault :: vault
  gs_keyring :: "keyring option"
  gs_store_keys :: "keyring option"
  gs_browser :: "nat \<Rightarrow> client_env"
  gs_verifier :: "(session_env \<times> 'c bank) option"
  gs_monitor :: "'c monitor_env option"
  gs_history :: history_input
  gs_notifier :: bool
  gs_waker :: bool
  gs_bark :: "(target \<Rightarrow> send_result) option"
  gs_senders :: "(string \<Rightarrow> (send_request \<Rightarrow> send_result) option) option"
  gs_tts :: "tts_client option"
  gs_disk :: disk
  gs_form :: "web_request \<Rightarrow> upload option"
  gs_sniff :: "string \<Rightarrow> string"
  gs_fetch :: "string \<Rightarrow> (nat \<times> string option) result"
  gs_started :: instant
  gs_meanwhile :: "nat \<Rightarrow> store \<Rightarrow> store"

text \<open>
  The state: the monitor with the database, the client of the session verifier, the hub, the times of
  the last channel tests, how often the dispatcher was woken and the monitor told of new settings, and
  the files under the data directory.
\<close>

record 'c gateway =
  gw_sys :: "'c system"
  gw_verify :: "'c \<times> loaded"
  gw_hub :: hub
  gw_tests :: "string \<Rightarrow> instant option"
  gw_wakes :: nat
  gw_notes :: nat
  gw_files :: "string \<Rightarrow> string option"

text \<open>A request that was let through: who asks, its id, and the times and random texts of its calls.\<close>

record call =
  cl_req :: web_request
  cl_param :: "string \<Rightarrow> string"
  cl_who :: identity
  cl_role :: role
  cl_id :: string
  cl_fresh :: "nat \<Rightarrow> string"
  cl_now :: "nat \<Rightarrow> instant"

type_synonym 'c handler = "'c gateway \<Rightarrow> web_response \<times> 'c gateway"

definition gw_store :: "'c gateway \<Rightarrow> store" where "gw_store g = sy_store (gw_sys g)"

definition put_store :: "store \<Rightarrow> 'c gateway \<Rightarrow> 'c gateway" where
  "put_store st g = g\<lparr>gw_sys := (gw_sys g)\<lparr>sy_store := st\<rparr>\<rparr>"

lemma gw_store_put [simp]: "gw_store (put_store st g) = st"
  by (simp add: gw_store_def put_store_def)

lemma put_store_fields [simp]:
  "gw_hub (put_store st g) = gw_hub g" "gw_verify (put_store st g) = gw_verify g" "gw_tests (put_store st g) = gw_tests g"
  "sy_client (gw_sys (put_store st g)) = sy_client (gw_sys g)" "sy_loaded (gw_sys (put_store st g)) = sy_loaded (gw_sys g)"
  "put_store st (put_store st' g) = put_store st g" "put_store (gw_store g) g = g"
  by (simp_all add: put_store_def gw_store_def)

section \<open>Shared helpers\<close>

text \<open>\<open>audit\<close>: its error is dropped.\<close>

definition audit_call :: "call \<Rightarrow> nat \<Rightarrow> string \<Rightarrow> string \<Rightarrow> 'c gateway \<Rightarrow> 'c gateway" where
  "audit_call cl k action tgt g =
     put_store (snd (audit (cl_fresh cl k) (cl_now cl k) (id_subject (cl_who cl)) (role_text (cl_role cl)) action tgt (cl_id cl)
                       (gw_store g))) g"

definition call_env :: "'c server \<Rightarrow> call \<Rightarrow> nat \<Rightarrow> env" where
  "call_env sv cl k = \<lparr>en_rand = (\<lambda>i. cl_fresh cl (k + i)), en_now = (\<lambda>i. cl_now cl (k + i)), en_sha = gs_sha sv\<rparr>"

definition publish_call :: "'c server \<Rightarrow> call \<Rightarrow> nat \<Rightarrow> string \<Rightarrow> string \<Rightarrow> json \<Rightarrow> 'c gateway \<Rightarrow> 'c gateway" where
  "publish_call sv cl k ty agg j g =
     (case publish_state (gs_codec sv) (call_env sv cl k) (cl_now cl k) ty agg j (gw_store g) (gw_hub g) of
        (st, h) \<Rightarrow> (put_store st g)\<lparr>gw_hub := h\<rparr>)"

text \<open>
  \<open>decode\<close>: the fields of a JSON object of at most 64 KiB with known fields only, or the answer it writes.
  A handler that ignores the answer goes on with the fields that were read.
\<close>

definition json_object :: "json option \<Rightarrow> (string \<times> json) list option" where
  "json_object j = (case j of Some (JObj fs) \<Rightarrow> Some fs | Some JNull \<Rightarrow> Some [] | _ \<Rightarrow> None)"

definition body_fields :: "json_codec \<Rightarrow> web_request \<Rightarrow> (string \<times> json) list option" where
  "body_fields jc r = json_object (jc_decode jc (wr_body r))"

definition json_type :: string where "json_type = ''application/json''"

definition body_limit64 :: nat where "body_limit64 = 65536"

definition decode_strict :: "json_codec \<Rightarrow> string list \<Rightarrow> web_request \<Rightarrow> (web_response + (string \<times> json) list) \<times> (string \<times> json) list" where
  "decode_strict jc allowed r =
     (if \<not> has_prefix (wr_header r ''Content-Type'') json_type
      then (Inl (write_error 415 ''content_type_must_be_json''), [])
      else (case json_object (jc_decode jc (take body_limit64 (wr_body r))) of
              None \<Rightarrow> (Inl (write_error 400 ''invalid_json''), [])
            | Some fs \<Rightarrow>
                if list_all (\<lambda>f. fst f \<in> set allowed) fs then (Inr fs, fs)
                else (Inl (write_error 400 ''invalid_json''), fs)))"

definition bad_json :: web_response where "bad_json = write_error 400 ''invalid_json''"

definition bad_body :: web_response where "bad_body = write_error 400 ''invalid request body''"

text \<open>A second answer after a first one: the status of the first, both bodies.\<close>

definition body_text :: "json_codec \<Rightarrow> body \<Rightarrow> string" where
  "body_text jc b = (case b of NoBody \<Rightarrow> [] | JsonBody j \<Rightarrow> jc_text jc j @ newline | RawBody s \<Rightarrow> s)"

definition answer_twice :: "json_codec \<Rightarrow> web_response \<Rightarrow> web_response \<Rightarrow> web_response" where
  "answer_twice jc a b = a\<lparr>ws_body := RawBody (body_text jc (ws_body a) @ body_text jc (ws_body b))\<rparr>"

text \<open>\<open>pageParams\<close>\<close>

definition page_params :: "web_request \<Rightarrow> (int \<times> string) result" where
  "page_params r =
     (let raw = wr_query r ''limit'' in
      if raw = [] then Inr (50, wr_query r ''cursor'')
      else (case parse_int64 raw of
              None \<Rightarrow> Inl (ErrMsg ''limit must be between 1 and 100'')
            | Some n \<Rightarrow> if n < 1 \<or> n > 100 then Inl (ErrMsg ''limit must be between 1 and 100'') else Inr (n, wr_query r ''cursor'')))"

definition answer_code :: "nat \<Rightarrow> string \<Rightarrow> string \<Rightarrow> web_response" where
  "answer_code status code msg = write_json status (strs [(''code'', code), (''error'', msg)])"

definition answer_status :: "nat \<Rightarrow> string \<Rightarrow> web_response" where
  "answer_status status s = write_json status (strs [(''status'', s)])"

section \<open>Middleware\<close>

definition content_policy :: string where
  "content_policy =
     ''default-src 'self'; base-uri 'none'; frame-ancestors 'self'; form-action 'self'; object-src 'none'; connect-src 'self'' @ [CHR 0x27]"

text \<open>The headers that \<open>requestID\<close> and \<open>securityHeaders\<close> set before the handler; it may replace them.\<close>

definition base_headers :: "string \<Rightarrow> web_request \<Rightarrow> (string \<times> string) list" where
  "base_headers i r =
     [(''X-Request-Id'', i), (''X-Content-Type-Options'', ''nosniff''), (''X-Frame-Options'', ''SAMEORIGIN''),
      (''Referrer-Policy'', ''no-referrer''), (''Permissions-Policy'', ''camera=(), microphone=(), geolocation=(), payment=()''),
      (''Cross-Origin-Resource-Policy'', ''same-origin''), (''Content-Security-Policy'', content_policy)]
     @ (if wr_tls r then [(''Strict-Transport-Security'', ''max-age=31536000; includeSubDomains'')] else [])"

definition with_base_headers :: "string \<Rightarrow> web_request \<Rightarrow> web_response \<Rightarrow> web_response" where
  "with_base_headers i r w = w\<lparr>ws_headers := foldl (\<lambda>hs h. set_header (fst h) (snd h) hs) (base_headers i r) (ws_headers w)\<rparr>"

text \<open>A time in a zone, as \<open>Format(time.RFC3339)\<close> writes it.\<close>

definition zone_text :: "int \<Rightarrow> string" where
  "zone_text off =
     (if off = 0 then ''Z''
      else (if off < 0 then ''-'' else ''+'') @ pad 2 (nat (\<bar>off\<bar> div 3600)) @ '':'' @ pad 2 (nat (\<bar>off\<bar> div 60 mod 60)))"

definition rfc3339_in :: "location \<Rightarrow> instant \<Rightarrow> string" where
  "rfc3339_in loc t = fmt_sec (to_local loc t) @ zone_text (loc t)"

end
