(* ===== verification/ApiAuth.thy ===== *)
theory ApiAuth
  imports Api
begin

text \<open>
  The login handlers of \<open>src/internal/httpapi/server.go\<close>: \<open>currentAuth\<close>, \<open>startAuth\<close>, \<open>cancelAuth\<close>,
  \<open>authStatus\<close> and \<open>browserScreen\<close>. They hold no lock: while the browser service or the session
  verifier is called the database may change, which \<open>wait\<close> lets it do.
\<close>

definition wait :: "'c server \<Rightarrow> nat \<Rightarrow> 'c gateway \<Rightarrow> 'c gateway" where
  "wait sv k g = put_store (gs_meanwhile sv k (gw_store g)) g"

definition terminal_auth :: "string \<Rightarrow> bool" where
  "terminal_auth s \<longleftrightarrow> s = ''FAILED'' \<or> s = ''EXPIRED'' \<or> s = ''CANCELLED'' \<or> s = ''VERIFIED''"

text \<open>The status a text names; any other text is none that \<open>FinishAuthAttempt\<close> accepts.\<close>

definition status_of_text :: "string \<Rightarrow> attempt_status" where
  "status_of_text s =
     (if s = ''CANCELLED'' then ACancelled else if s = ''EXPIRED'' then AExpired else if s = ''FAILED'' then AFailed
      else AVerified)"

definition screen_url :: "string \<Rightarrow> string" where
  "screen_url i =
     ''/api/v1/connection/auth/'' @ i @ ''/screen/vnc.html?autoconnect=true&resize=remote&path=api/v1/connection/auth/'' @ i
       @ ''/screen/websockify''"

definition finish_call :: "instant \<Rightarrow> string \<Rightarrow> attempt_status \<Rightarrow> 'c gateway \<Rightarrow> 'c gateway" where
  "finish_call t i s g = put_store (snd (finish_attempt t i s (gw_store g))) g"

definition expire_call :: "instant \<Rightarrow> 'c gateway \<Rightarrow> 'c gateway" where
  "expire_call t g = put_store (snd (expire_stale_attempts t (gw_store g))) g"

section \<open>currentAuth\<close>

definition no_attempt :: web_response where "no_attempt = write_json 200 (json_map [(''attempt'', JNull)])"

definition attempt_answer :: "attempt_row \<Rightarrow> bool \<Rightarrow> web_response" where
  "attempt_answer a unavailable =
     write_json 200 (json_map [(''attempt'', json_map
       ([(''attemptId'', JStr (aa_id a)), (''status'', JStr (attempt_text (aa_status a))),
         (''screenUrl'', JStr (screen_url (aa_id a))), (''expiresAt'', JStr (aa_expires a))]
        @ (if unavailable then [(''browserUnavailable'', JBool True)] else [])))])"

definition current_auth :: "'c server \<Rightarrow> call \<Rightarrow> 'c handler" where
  "current_auth sv cl g =
     (let g1 = expire_call (cl_now cl 0) g in
      case active_attempt_for_owner (cl_now cl 1) (id_email (cl_who cl)) (gw_store g1) of
        Inl e \<Rightarrow> (no_attempt, g1)
      | Inr None \<Rightarrow> (no_attempt, g1)
      | Inr (Some a) \<Rightarrow>
          (let r = client_status (gs_browser sv 0) (aa_id a); g2 = wait sv 0 g1 in
           case r of
             Inl e \<Rightarrow>
               if is_http_status e 404 then (no_attempt, finish_call (cl_now cl 2) (aa_id a) AFailed g2)
               else (attempt_answer a True, g2)
           | Inr s \<Rightarrow>
               if terminal_auth (br_status s)
               then (no_attempt, finish_call (cl_now cl 2) (aa_id a) (status_of_text (br_status s)) g2)
               else (attempt_answer a False, g2)))"

section \<open>startAuth\<close>

definition auth_event :: "string \<Rightarrow> string \<Rightarrow> json" where
  "auth_event i s = strs [(''attemptId'', i), (''status'', s)]"

definition superseded :: "string \<Rightarrow> web_response" where "superseded m = answer_code 409 ''AUTH_SESSION_SUPERSEDED'' m"

definition msg_replaced :: string where "msg_replaced = (''Phi'' @ [CHR 0xC3, CHR 0xAA] @ ''n '' @ [CHR 0xC4, CHR 0x91, CHR 0xC4, CHR 0x83] @ ''ng nh'' @ [CHR 0xE1, CHR 0xBA, CHR 0xAD] @ ''p ACB '' @ [CHR 0xC4, CHR 0x91, CHR 0xC3, CHR 0xA3] @ '' '' @ [CHR 0xC4, CHR 0x91, CHR 0xC6, CHR 0xB0, CHR 0xE1, CHR 0xBB, CHR 0xA3] @ ''c thay th'' @ [CHR 0xE1, CHR 0xBA, CHR 0xBF] @ ''. Vui l'' @ [CHR 0xC3, CHR 0xB2] @ ''ng m'' @ [CHR 0xE1, CHR 0xBB, CHR 0x9F] @ '' phi'' @ [CHR 0xC3, CHR 0xAA] @ ''n m'' @ [CHR 0xE1, CHR 0xBB, CHR 0x9B] @ ''i.'')"

definition auth_ttl :: int where "auth_ttl = 15 * minute"

definition start_new :: "'c server \<Rightarrow> call \<Rightarrow> 'c handler" where
  "start_new sv cl g =
     (case start_auth_attempt (cl_fresh cl 0) (cl_now cl 3) (id_email (cl_who cl)) auth_ttl (gw_store g) of
        (Inl e, st) \<Rightarrow>
          (if errors_is e ErrAuthAttemptActive
           then write_error 409 (''M'' @ [CHR 0xE1, CHR 0xBB, CHR 0x99] @ ''t phi'' @ [CHR 0xC3, CHR 0xAA] @ ''n '' @ [CHR 0xC4, CHR 0x91, CHR 0xC4, CHR 0x83] @ ''ng nh'' @ [CHR 0xE1, CHR 0xBA, CHR 0xAD] @ ''p ACB '' @ [CHR 0xC4, CHR 0x91] @ ''ang '' @ [CHR 0xC4, CHR 0x91, CHR 0xC6, CHR 0xB0, CHR 0xE1, CHR 0xBB, CHR 0xA3] @ ''c th'' @ [CHR 0xE1, CHR 0xBB, CHR 0xB1] @ ''c hi'' @ [CHR 0xE1, CHR 0xBB, CHR 0x87] @ ''n b'' @ [CHR 0xE1, CHR 0xBB, CHR 0x9F] @ ''i qu'' @ [CHR 0xE1, CHR 0xBA, CHR 0xA3] @ ''n tr'' @ [CHR 0xE1, CHR 0xBB, CHR 0x8B] @ '' vi'' @ [CHR 0xC3, CHR 0xAA] @ ''n kh'' @ [CHR 0xC3, CHR 0xA1] @ ''c.'')
           else write_error 400 (err_text e), put_store st g)
      | (Inr a, st) \<Rightarrow>
          (let g1 = put_store st g; r = client_start (gs_browser sv 1) (aa_id a); g2 = wait sv 1 g1 in
           case r of
             Inl e \<Rightarrow>
               (write_error 503 (''Kh'' @ [CHR 0xC3, CHR 0xB4] @ ''ng th'' @ [CHR 0xE1, CHR 0xBB, CHR 0x83] @ '' kh'' @ [CHR 0xE1, CHR 0xBB, CHR 0x9F] @ ''i '' @ [CHR 0xC4, CHR 0x91, CHR 0xE1, CHR 0xBB, CHR 0x99] @ ''ng tr'' @ [CHR 0xC3, CHR 0xAC] @ ''nh duy'' @ [CHR 0xE1, CHR 0xBB, CHR 0x87] @ ''t ACB. Vui l'' @ [CHR 0xC3, CHR 0xB2] @ ''ng th'' @ [CHR 0xE1, CHR 0xBB, CHR 0xAD] @ '' l'' @ [CHR 0xE1, CHR 0xBA, CHR 0xA1] @ ''i.''),
                finish_call (cl_now cl 4) (aa_id a) AFailed g2)
           | Inr s \<Rightarrow>
               (case mark_in_progress (aa_id a) (gw_store g2) of
                  (Some e, st3) \<Rightarrow>
                    (superseded msg_replaced, finish_call (cl_now cl 4) (aa_id a) AFailed (wait sv 2 (put_store st3 g2)))
                | (None, st3) \<Rightarrow>
                    (write_json 201 (session_json (s\<lparr>br_screen := screen_url (aa_id a)\<rparr>)),
                     publish_call sv cl 6 ''auth.changed'' (aa_id a) (auth_event (aa_id a) ''IN_PROGRESS'')
                       (audit_call cl 5 ''auth.start'' (aa_id a) (put_store st3 g2))))))"

definition start_auth :: "'c server \<Rightarrow> call \<Rightarrow> 'c handler" where
  "start_auth sv cl g =
     (let g1 = expire_call (cl_now cl 0) g in
      case active_attempt_for_owner (cl_now cl 1) (id_email (cl_who cl)) (gw_store g1) of
        Inl e \<Rightarrow> (write_error 500 ((''L'' @ [CHR 0xE1, CHR 0xBB, CHR 0x97] @ ''i ki'' @ [CHR 0xE1, CHR 0xBB, CHR 0x83] @ ''m tra phi'' @ [CHR 0xC3, CHR 0xAA] @ ''n '' @ [CHR 0xC4, CHR 0x91, CHR 0xC4, CHR 0x83] @ ''ng nh'' @ [CHR 0xE1, CHR 0xBA, CHR 0xAD] @ ''p ACB: '') @ err_text e), g1)
      | Inr None \<Rightarrow> start_new sv cl g1
      | Inr (Some a) \<Rightarrow>
          (let r = client_status (gs_browser sv 0) (aa_id a); g2 = wait sv 0 g1 in
           case r of
             Inr s \<Rightarrow>
               if \<not> terminal_auth (br_status s)
               then (write_json 200 (session_json (s\<lparr>br_screen := screen_url (aa_id a)\<rparr>)),
                     publish_call sv cl 6 ''auth.changed'' (aa_id a) (auth_event (aa_id a) (attempt_text (aa_status a)))
                       (audit_call cl 5 ''auth.resume'' (aa_id a) g2))
               else start_new sv cl (finish_call (cl_now cl 2) (aa_id a) (status_of_text (br_status s)) g2)
           | Inl e \<Rightarrow>
               if is_http_status e 404 then start_new sv cl (finish_call (cl_now cl 2) (aa_id a) AFailed g2)
               else (write_error 503 (''Kh'' @ [CHR 0xC3, CHR 0xB4] @ ''ng th'' @ [CHR 0xE1, CHR 0xBB, CHR 0x83] @ '' k'' @ [CHR 0xE1, CHR 0xBA, CHR 0xBF] @ ''t n'' @ [CHR 0xE1, CHR 0xBB, CHR 0x91] @ ''i '' @ [CHR 0xC4, CHR 0x91, CHR 0xE1, CHR 0xBA, CHR 0xBF] @ ''n tr'' @ [CHR 0xC3, CHR 0xAC] @ ''nh duy'' @ [CHR 0xE1, CHR 0xBB, CHR 0x87] @ ''t ACB. Vui l'' @ [CHR 0xC3, CHR 0xB2] @ ''ng th'' @ [CHR 0xE1, CHR 0xBB, CHR 0xAD] @ '' l'' @ [CHR 0xE1, CHR 0xBA, CHR 0xA1] @ ''i sau gi'' @ [CHR 0xC3, CHR 0xA2] @ ''y l'' @ [CHR 0xC3, CHR 0xA1] @ ''t.''), g2)))"

section \<open>cancelAuth\<close>

definition cancel_auth :: "'c server \<Rightarrow> call \<Rightarrow> 'c handler" where
  "cancel_auth sv cl g =
     (case decode_strict (gs_codec sv) [''attemptId''] (cl_req cl) of
        (Inl w, _) \<Rightarrow> (w, g)
      | (Inr fs, _) \<Rightarrow>
          (case str_field ''attemptId'' fs of
             None \<Rightarrow> (bad_json, g)
           | Some i \<Rightarrow>
               if i = [] then (write_error 400 ''attemptId is required'', g)
               else (case attempt_status_for_owner i (id_email (cl_who cl)) (gw_store g) of
                       Inl e \<Rightarrow> (write_error 404 ''ACB browser session not found'', g)
                     | Inr a \<Rightarrow>
                         if aa_status a = ACancelled then (answer_status 200 ''CANCELLED'', g)
                         else if aa_status a \<noteq> AStarting \<and> aa_status a \<noteq> AInProgress
                         then (write_error 400 ''auth attempt cannot be cancelled'', g)
                         else
                           (let r = client_cancel (gs_browser sv 0) i; g1 = wait sv 0 g in
                            if (case r of None \<Rightarrow> False | Some e \<Rightarrow> \<not> is_http_status e 404)
                            then (write_error 502 (''Kh'' @ [CHR 0xC3, CHR 0xB4] @ ''ng th'' @ [CHR 0xE1, CHR 0xBB, CHR 0x83] @ '' k'' @ [CHR 0xE1, CHR 0xBA, CHR 0xBF] @ ''t n'' @ [CHR 0xE1, CHR 0xBB, CHR 0x91] @ ''i d'' @ [CHR 0xE1, CHR 0xBB, CHR 0x8B] @ ''ch v'' @ [CHR 0xE1, CHR 0xBB, CHR 0xA5] @ '' tr'' @ [CHR 0xC3, CHR 0xAC] @ ''nh duy'' @ [CHR 0xE1, CHR 0xBB, CHR 0x87] @ ''t ACB. Vui l'' @ [CHR 0xC3, CHR 0xB2] @ ''ng th'' @ [CHR 0xE1, CHR 0xBB, CHR 0xAD] @ '' l'' @ [CHR 0xE1, CHR 0xBA, CHR 0xA1] @ ''i.''), g1)
                            else (case finish_attempt (cl_now cl 0) i ACancelled (gw_store g1) of
                                    (Some e, st) \<Rightarrow> (write_error 400 (err_text e), put_store st g1)
                                  | (None, st) \<Rightarrow>
                                      (answer_status 200 ''CANCELLED'',
                                       publish_call sv cl 2 ''auth.changed'' i (auth_event i ''CANCELLED'')
                                         (audit_call cl 1 ''auth.cancel'' i (put_store st g1))))))))"

section \<open>authStatus\<close>

definition status_error :: "string \<Rightarrow> string \<Rightarrow> web_response" where
  "status_error s m = write_json 200 (strs [(''status'', s), (''error'', m)])"

definition msg_expired :: string where "msg_expired = (''Phi'' @ [CHR 0xC3, CHR 0xAA] @ ''n '' @ [CHR 0xC4, CHR 0x91, CHR 0xC4, CHR 0x83] @ ''ng nh'' @ [CHR 0xE1, CHR 0xBA, CHR 0xAD] @ ''p ACB '' @ [CHR 0xC4, CHR 0x91, CHR 0xC3, CHR 0xA3] @ '' h'' @ [CHR 0xE1, CHR 0xBA, CHR 0xBF] @ ''t h'' @ [CHR 0xE1, CHR 0xBA, CHR 0xA1] @ ''n. Vui l'' @ [CHR 0xC3, CHR 0xB2] @ ''ng m'' @ [CHR 0xE1, CHR 0xBB, CHR 0x9F] @ '' phi'' @ [CHR 0xC3, CHR 0xAA] @ ''n m'' @ [CHR 0xE1, CHR 0xBB, CHR 0x9B] @ ''i.'')"

definition msg_ended :: string where "msg_ended = (''Phi'' @ [CHR 0xC3, CHR 0xAA] @ ''n tr'' @ [CHR 0xC3, CHR 0xAC] @ ''nh duy'' @ [CHR 0xE1, CHR 0xBB, CHR 0x87] @ ''t ACB '' @ [CHR 0xC4, CHR 0x91, CHR 0xC3, CHR 0xA3] @ '' k'' @ [CHR 0xE1, CHR 0xBA, CHR 0xBF] @ ''t th'' @ [CHR 0xC3, CHR 0xBA] @ ''c. Vui l'' @ [CHR 0xC3, CHR 0xB2] @ ''ng m'' @ [CHR 0xE1, CHR 0xBB, CHR 0x9F] @ '' phi'' @ [CHR 0xC3, CHR 0xAA] @ ''n m'' @ [CHR 0xE1, CHR 0xBB, CHR 0x9B] @ ''i.'')"

definition zero_time :: instant where "zero_time = - 62135596800 * second"

definition attempt_lapsed :: "instant \<Rightarrow> attempt_row \<Rightarrow> bool" where
  "attempt_lapsed now a \<longleftrightarrow>
     (case parse_rfc3339 (aa_expires a) of None \<Rightarrow> False | Some e \<Rightarrow> e \<noteq> zero_time \<and> \<not> now < e)"

text \<open>The answer for an attempt that has ended.\<close>

definition ended_answer :: "attempt_row \<Rightarrow> store \<Rightarrow> web_response option" where
  "ended_answer a st =
     (case aa_status a of
        AVerified \<Rightarrow>
          (case get_connection st of
             Inl e \<Rightarrow> Some (write_error 500 ''storage_error'')
           | Inr c \<Rightarrow>
               Some (if c_generation c \<noteq> aa_generation a \<or> c_state c \<noteq> Monitoring
                     then superseded (''Phi'' @ [CHR 0xC3, CHR 0xAA] @ ''n '' @ [CHR 0xC4, CHR 0x91, CHR 0xC4, CHR 0x83] @ ''ng nh'' @ [CHR 0xE1, CHR 0xBA, CHR 0xAD] @ ''p ACB '' @ [CHR 0xC4, CHR 0x91, CHR 0xC3, CHR 0xA3] @ '' '' @ [CHR 0xC4, CHR 0x91, CHR 0xC6, CHR 0xB0, CHR 0xE1, CHR 0xBB, CHR 0xA3] @ ''c thay th'' @ [CHR 0xE1, CHR 0xBA, CHR 0xBF] @ ''. Vui l'' @ [CHR 0xC3, CHR 0xB2] @ ''ng t'' @ [CHR 0xE1, CHR 0xBA, CHR 0xA3] @ ''i l'' @ [CHR 0xE1, CHR 0xBA, CHR 0xA1] @ ''i tr'' @ [CHR 0xE1, CHR 0xBA, CHR 0xA1] @ ''ng th'' @ [CHR 0xC3, CHR 0xA1] @ ''i k'' @ [CHR 0xE1, CHR 0xBA, CHR 0xBF] @ ''t n'' @ [CHR 0xE1, CHR 0xBB, CHR 0x91] @ ''i.'')
                     else answer_status 200 ''MONITORING''))
      | ACancelled \<Rightarrow> Some (answer_status 200 ''CANCELLED'')
      | AExpired \<Rightarrow> Some (status_error ''EXPIRED'' msg_expired)
      | AFailed \<Rightarrow> Some (status_error ''FAILED'' msg_ended)
      | _ \<Rightarrow> None)"

text \<open>The generation moved on: the browser is stopped and the attempt failed.\<close>

definition drop_attempt :: "'c server \<Rightarrow> call \<Rightarrow> nat \<Rightarrow> string \<Rightarrow> 'c handler" where
  "drop_attempt sv cl k i g = (superseded msg_replaced, finish_call (cl_now cl 1) i AFailed (wait sv k g))"

text \<open>The end of a login: the session is stored with the connection set to monitoring.\<close>

definition store_session :: "'c server \<Rightarrow> call \<Rightarrow> attempt_row \<Rightarrow> string \<Rightarrow> 'c handler" where
  "store_session sv cl a encrypted g =
     (case complete_auth_session (cl_now cl 3) (aa_id a) encrypted (gw_store g) of
        (Inl e, st) \<Rightarrow> drop_attempt sv cl 3 (aa_id a) (put_store st g)
      | (Inr c, st) \<Rightarrow>
          (answer_status 200 ''MONITORING'',
           publish_call sv cl 6 ''auth.changed'' (aa_id a) (auth_event (aa_id a) ''MONITORING'')
             (publish_call sv cl 5 ''connection.changed'' (c_id c) (connection_json c)
               (audit_call cl 4 ''auth.verified'' (c_id c) (wait sv 3 (put_store st g))))))"

definition msg_pick_account :: string where
  "msg_pick_account = ([CHR 0xC4, CHR 0x90, CHR 0xC3, CHR 0xA3] @ '' '' @ [CHR 0xC4, CHR 0x91, CHR 0xC4, CHR 0x83] @ ''ng nh'' @ [CHR 0xE1, CHR 0xBA, CHR 0xAD] @ ''p ACB th'' @ [CHR 0xC3, CHR 0xA0] @ ''nh c'' @ [CHR 0xC3, CHR 0xB4] @ ''ng. Vui l'' @ [CHR 0xC3, CHR 0xB2] @ ''ng b'' @ [CHR 0xE1, CHR 0xBA, CHR 0xA5] @ ''m v'' @ [CHR 0xC3, CHR 0xA0] @ ''o t'' @ [CHR 0xC3, CHR 0xA0] @ ''i kho'' @ [CHR 0xE1, CHR 0xBA, CHR 0xA3] @ ''n thanh to'' @ [CHR 0xC3, CHR 0xA1] @ ''n tr'' @ [CHR 0xC3, CHR 0xAA] @ ''n m'' @ [CHR 0xC3, CHR 0xA0] @ ''n h'' @ [CHR 0xC3, CHR 0xAC] @ ''nh '' @ [CHR 0xC4, CHR 0x91, CHR 0xE1, CHR 0xBB, CHR 0x83] @ '' k'' @ [CHR 0xE1, CHR 0xBA, CHR 0xBF] @ ''t n'' @ [CHR 0xE1, CHR 0xBB, CHR 0x91] @ ''i l'' @ [CHR 0xE1, CHR 0xBB, CHR 0x8B] @ ''ch s'' @ [CHR 0xE1, CHR 0xBB, CHR 0xAD] @ '' giao d'' @ [CHR 0xE1, CHR 0xBB, CHR 0x8B] @ ''ch.'')"

definition verify_login :: "'c server \<Rightarrow> call \<Rightarrow> attempt_row \<Rightarrow> 'c handler" where
  "verify_login sv cl a g =
     (case gs_keyring sv of
        None \<Rightarrow> (write_error 503 ''session encryption is unavailable'', g)
      | Some kr \<Rightarrow>
          (let r = client_handoff (gs_browser sv 1) (aa_id a); g1 = wait sv 1 g in
           case r of
             Inl e \<Rightarrow> (write_error 502 ''ACB browser session handoff failed'', g1)
           | Inr plain \<Rightarrow>
               (case encrypt (gs_vault sv) kr (cl_fresh cl 3) plain (session_aad (aa_conn a)) of
                  Inl e \<Rightarrow> (write_error 500 ''session encryption failed'', g1)
                | Inr env \<Rightarrow>
                    (case gs_verifier sv of
                       None \<Rightarrow> (write_error 503 ''ACB session verification is unavailable'', g1)
                     | Some (se, bk) \<Rightarrow>
                         (case verify_session se bk (cl_now cl 2) (aa_conn a) (aa_generation a) (envelope_json env) (gw_verify g1) of
                            (Some e, s) \<Rightarrow> (status_error ''VERIFYING'' msg_pick_account, wait sv 2 (g1\<lparr>gw_verify := s\<rparr>))
                          | (None, s) \<Rightarrow> store_session sv cl a (envelope_json env) (wait sv 2 (g1\<lparr>gw_verify := s\<rparr>)))))))"

definition browser_answer :: "'c server \<Rightarrow> call \<Rightarrow> attempt_row \<Rightarrow> string \<Rightarrow> 'c handler" where
  "browser_answer sv cl a s g =
     (if s = ''FAILED'' \<or> s = ''EXPIRED''
      then (status_error s (if s = ''EXPIRED'' then msg_expired
              else (''Kh'' @ [CHR 0xC3, CHR 0xB4] @ ''ng th'' @ [CHR 0xE1, CHR 0xBB, CHR 0x83] @ '' kh'' @ [CHR 0xE1, CHR 0xBB, CHR 0x9F] @ ''i '' @ [CHR 0xC4, CHR 0x91, CHR 0xE1, CHR 0xBB, CHR 0x99] @ ''ng tr'' @ [CHR 0xC3, CHR 0xAC] @ ''nh duy'' @ [CHR 0xE1, CHR 0xBB, CHR 0x87] @ ''t ACB. Vui l'' @ [CHR 0xC3, CHR 0xB2] @ ''ng m'' @ [CHR 0xE1, CHR 0xBB, CHR 0x9F] @ '' phi'' @ [CHR 0xC3, CHR 0xAA] @ ''n m'' @ [CHR 0xE1, CHR 0xBB, CHR 0x9B] @ ''i.'')),
            finish_call (cl_now cl 1) (aa_id a) (status_of_text s) g)
      else if s = ''CANCELLED'' then (answer_status 200 ''CANCELLED'', finish_call (cl_now cl 1) (aa_id a) ACancelled g)
      else if s = ''VERIFIED'' then verify_login sv cl a g
      else (answer_status 200 s, g))"

definition auth_status :: "'c server \<Rightarrow> call \<Rightarrow> 'c handler" where
  "auth_status sv cl g =
     (let i = cl_param cl ''attemptID'' in
      case attempt_status_for_owner i (id_email (cl_who cl)) (gw_store g) of
        Inl e \<Rightarrow> (answer_code 404 ''AUTH_SESSION_NOT_FOUND'' (''Kh'' @ [CHR 0xC3, CHR 0xB4] @ ''ng t'' @ [CHR 0xC3, CHR 0xAC] @ ''m th'' @ [CHR 0xE1, CHR 0xBA, CHR 0xA5] @ ''y phi'' @ [CHR 0xC3, CHR 0xAA] @ ''n '' @ [CHR 0xC4, CHR 0x91, CHR 0xC4, CHR 0x83] @ ''ng nh'' @ [CHR 0xE1, CHR 0xBA, CHR 0xAD] @ ''p ACB. Vui l'' @ [CHR 0xC3, CHR 0xB2] @ ''ng m'' @ [CHR 0xE1, CHR 0xBB, CHR 0x9F] @ '' phi'' @ [CHR 0xC3, CHR 0xAA] @ ''n m'' @ [CHR 0xE1, CHR 0xBB, CHR 0x9B] @ ''i.''), g)
      | Inr a \<Rightarrow>
          (case ended_answer a (gw_store g) of
             Some w \<Rightarrow> (w, g)
           | None \<Rightarrow>
               if attempt_lapsed (cl_now cl 0) a
               then (status_error ''EXPIRED'' msg_expired, finish_call (cl_now cl 1) i AExpired (wait sv 0 g))
               else
                 (case get_connection (gw_store g) of
                    Inl e \<Rightarrow> (write_error 500 (err_text e), g)
                  | Inr c \<Rightarrow>
                      if c_generation c \<noteq> aa_generation a then drop_attempt sv cl 0 i g
                      else
                        (let r = client_status (gs_browser sv 0) i; g1 = wait sv 0 g in
                         case r of
                           Inl e \<Rightarrow>
                             if is_http_status e 404
                             then (status_error ''FAILED'' msg_ended, finish_call (cl_now cl 1) i AFailed g1)
                             else (answer_code 502 ''AUTH_SESSION_UNAVAILABLE''
                                     (''Kh'' @ [CHR 0xC3, CHR 0xB4] @ ''ng th'' @ [CHR 0xE1, CHR 0xBB, CHR 0x83] @ '' k'' @ [CHR 0xE1, CHR 0xBA, CHR 0xBF] @ ''t n'' @ [CHR 0xE1, CHR 0xBB, CHR 0x91] @ ''i d'' @ [CHR 0xE1, CHR 0xBB, CHR 0x8B] @ ''ch v'' @ [CHR 0xE1, CHR 0xBB, CHR 0xA5] @ '' tr'' @ [CHR 0xC3, CHR 0xAC] @ ''nh duy'' @ [CHR 0xE1, CHR 0xBB, CHR 0x87] @ ''t ACB. Vui l'' @ [CHR 0xC3, CHR 0xB2] @ ''ng th'' @ [CHR 0xE1, CHR 0xBB, CHR 0xAD] @ '' l'' @ [CHR 0xE1, CHR 0xBA, CHR 0xA1] @ ''i.''), g1)
                         | Inr s \<Rightarrow>
                             (case get_connection (gw_store g1) of
                                Inl e \<Rightarrow> (write_error 500 (err_text e), g1)
                              | Inr c1 \<Rightarrow>
                                  if c_generation c1 \<noteq> aa_generation a then drop_attempt sv cl 1 i g1
                                  else browser_answer sv cl a (br_status s) g1)))))"

section \<open>browserScreen\<close>

text \<open>The upstream a screen request goes to: the host of the screen service and the path after the prefix.\<close>

definition browser_screen :: "'c server \<Rightarrow> call \<Rightarrow> store \<Rightarrow> web_response + (string \<times> string)" where
  "browser_screen sv cl st =
     (case attempt_for_owner (cl_now cl 0) (cl_param cl ''attemptID'') (id_email (cl_who cl)) st of
        Inl e \<Rightarrow> Inl (write_error 404 ''ACB browser session not found'')
      | Inr a \<Rightarrow>
          (case nl_url (gs_net sv) (cf_vnc (gs_cfg sv)) of
             None \<Rightarrow> Inl (write_error 503 ''ACB browser screen unavailable'')
           | Some u \<Rightarrow>
               if u_scheme u = [] \<or> u_host u = [] then Inl (write_error 503 ''ACB browser screen unavailable'')
               else Inr (u_host u, ''/'' @ trim_prefix (cl_param cl ''*'') ''/'')))"

definition screen_policy :: "string \<Rightarrow> nat \<Rightarrow> string option" where
  "screen_policy tail status =
     (if tail = ''vnc.html'' \<and> status = 200 then Some (content_policy @ ''; img-src '' @ [CHR 0x27] @ ''self'' @ [CHR 0x27] @ '' data:'')
      else None)"

end
