(* ===== verification/DemoServer.thy ===== *)
theory DemoServer
  imports ApiAuth AuthLife ChannelLife ClientLife StreamProps MonitorLife
begin

text \<open>
  A small server for the witnesses: a development configuration, a browser service whose login is
  verified and handed over, and a bank that shows the history page.
\<close>

definition demo_dev :: config where
  "demo_dev = demo_cfg\<lparr>cf_production := False, cf_dev_subject := ''dev''\<rparr>"

definition demo_browser :: client_env where
  "demo_browser = \<lparr>ce_base = ''http://b'', ce_unicode = ascii_unicode,
     ce_do = (\<lambda>rq. Inr \<lparr>ca_status = 200, ca_type = ''application/json'', ca_body = Some ''b''\<rparr>), ce_attempt_json = (\<lambda>s. s),
     ce_session = (\<lambda>_. Some \<lparr>br_attempt = ''a'', br_status = ''VERIFIED'', br_screen = [], br_expires = [], br_error = []\<rparr>),
     ce_handoff = (\<lambda>_. Some ''QQ.n''), ce_error = (\<lambda>_. None)\<rparr>"

definition history_response :: response where
  "history_response = \<lparr>re_url = ''u'', re_status = 200, re_body = ''history'', re_kind = HistoryPage\<rparr>"

definition demo_handoffs :: handoff_json where
  "demo_handoffs = \<lparr>hj_text = (\<lambda>_. ''A''),
     hj_read = (\<lambda>_. Some \<lparr>ho_version = 1, ho_url = [], ho_action = [], ho_fields = [],
        ho_cookies = [\<lparr>ck_name = ''n'', ck_value = ''v'', ck_domain = ''online.acb.com.vn'', ck_path = ''/'',
          ck_expires = [], ck_secure = True, ck_http_only = True\<rparr>]\<rparr>),
     hj_cookies = (\<lambda>_. None)\<rparr>"

definition demo_session :: session_env where
  "demo_session = \<lparr>sn_vault = open_vault, sn_keyring = demo_keyring, sn_json = demo_handoffs\<rparr>"

definition demo_history :: history_input where
  "demo_history = \<lparr>hi_check = 0, hi_recheck = 0, hi_now = 0, hi_boot = 0, hi_busy = 0, hi_page = (\<lambda>_. 0),
     hi_env = \<lparr>en_rand = (\<lambda>_. []), en_now = (\<lambda>_. 0), en_sha = (\<lambda>s. s)\<rparr>, hi_record = 0,
     hi_id = (\<lambda>_. [])\<rparr>"

definition demo_server :: "unit server" where
  "demo_server = \<lparr>gs_cfg = demo_dev, gs_codec = demo_codec, gs_zone = (\<lambda>_. Inl (ErrMsg ''no zone'')), gs_net = demo_net,
     gs_sha = (\<lambda>s. s), gs_unicode = ascii_unicode, gs_vault = open_vault, gs_keyring = Some demo_keyring,
     gs_store_keys = Some demo_keyring, gs_browser = (\<lambda>_. demo_browser),
     gs_verifier = Some (demo_session, scripted_bank history_response), gs_monitor = None, gs_history = demo_history,
     gs_notifier = False, gs_waker = False, gs_bark = None, gs_senders = None, gs_tts = None,
     gs_disk = \<lparr>di_write = (\<lambda>_. True), di_rename = (\<lambda>_ _. True)\<rparr>, gs_form = (\<lambda>_. None), gs_sniff = (\<lambda>_. []),
     gs_fetch = (\<lambda>_. Inl (ErrMsg ''offline'')), gs_started = 0, gs_meanwhile = (\<lambda>_ st. st)\<rparr>"

definition demo_gateway :: "store \<Rightarrow> unit gateway" where
  "demo_gateway st = \<lparr>gw_sys = new_system st (), gw_verify = ((), [], 0), gw_hub = new_hub, gw_tests = (\<lambda>_. None),
     gw_wakes = 0, gw_notes = 0, gw_files = (\<lambda>_. None)\<rparr>"

definition demo_call :: call where
  "demo_call = \<lparr>cl_req = demo_read, cl_param = (\<lambda>k. if k = ''attemptID'' then ''a'' else []),
     cl_who = \<lparr>id_email = ''owner'', id_subject = ''owner''\<rparr>, cl_role = Owner, cl_id = ''r'',
     cl_fresh = (\<lambda>k. if k = 3 then demo_nonce else show_nat k), cl_now = (\<lambda>_. 2 * second)\<rparr>"

lemma demo_store [simp]: "gw_store (demo_gateway st) = st"
  by (simp add: gw_store_def demo_gateway_def new_system_def)

lemma demo_wait [simp]: "wait demo_server k g = g"
  by (simp add: wait_def demo_server_def)

end
