(* ===== verification/LoginLife.thy ===== *)
theory LoginLife
  imports ApiAuth AuthLife DemoServer
begin

text \<open>
  What the login handlers do to the life cycle of the connection: every one of them is a sequence of
  its operations, whatever happens in the meantime; and the answer that the bank is being monitored
  is given only for a session that the verifier accepted and that the monitor will restore.
\<close>

section \<open>The tables of the life cycle\<close>

definition auth_tables :: "store \<Rightarrow> connection list \<times> attempt_row list \<times> session_row list" where
  "auth_tables st = (connections st, auth_attempts st, sessions st)"

lemma auth_inv_tables: "auth_tables st = auth_tables st' \<Longrightarrow> auth_inv st = auth_inv st'"
  by (simp add: auth_tables_def auth_inv_def)

lemma audit_tables [simp]: "auth_tables (gw_store (audit_call cl k a t g)) = auth_tables (gw_store g)"
  by (simp add: audit_call_def auth_tables_def audit_def split: sum.splits)

lemma publish_tables [simp]: "auth_tables (gw_store (publish_call sv cl k ty a j g)) = auth_tables (gw_store g)"
  by (simp add: publish_call_def publish_state_def append_journal_event_def append_journal_def auth_tables_def Let_def gw_store_def
      put_store_def)

section \<open>Attempts keep who they belong to\<close>

definition attempt_key :: "attempt_row \<Rightarrow> string \<times> string \<times> int" where
  "attempt_key a = (aa_id a, aa_conn a, aa_generation a)"

definition keys_le :: "store \<Rightarrow> store \<Rightarrow> bool" where
  "keys_le st st' \<longleftrightarrow> attempt_key ` set (auth_attempts st) \<subseteq> attempt_key ` set (auth_attempts st')"

lemma keys_le_refl: "auth_attempts st' = auth_attempts st \<Longrightarrow> keys_le st st'"
  by (simp add: keys_le_def)

lemma keys_le_trans: "keys_le a b \<Longrightarrow> keys_le b c \<Longrightarrow> keys_le a c"
  by (auto simp: keys_le_def)

lemma keys_le_upd:
  assumes "auth_attempts st' = upd p f (auth_attempts st)" "\<And>a. attempt_key (f a) = attempt_key a"
  shows "keys_le st st'"
proof -
  have "map attempt_key (upd p f t) = map attempt_key t" for t by (induction t) (auto simp: assms(2))
  then have "attempt_key ` set (auth_attempts st') = attempt_key ` set (auth_attempts st)"
    unfolding assms(1) by (metis set_map)
  then show ?thesis by (simp add: keys_le_def)
qed


lemma keys_le_expire_one: "keys_le st (expire_one ts a st)"
  by (rule keys_le_upd [where p = "\<lambda>x. aa_id x = aa_id a" and f = "\<lambda>x. x\<lparr>aa_status := AExpired, aa_finished := Some ts\<rparr>"])
    (simp_all add: expire_one_def set_attempt_def set_connection_def attempt_key_def)

lemma keys_le_expire: "keys_le st (snd (expire_stale_attempts t st))"
proof -
  have "keys_le st (fold (expire_one ts) as st)" for ts as
    by (induction as arbitrary: st) (auto simp: keys_le_refl intro: keys_le_trans [OF keys_le_expire_one])
  then show ?thesis by (simp add: expire_stale_attempts_def Let_def)
qed

lemma keys_le_step: "auth_step st st' \<Longrightarrow> keys_le st st'"
proof (induction rule: auth_step.induct)
  case (expire st t)
  show ?case by (rule keys_le_expire)
next
  case (start st i t owner ttl c)
  then show ?case
    by (auto simp: start_attempt_tx_def Let_def insert_attempt_def insert_row_def set_connection_def keys_le_def with_tx_def
        split: sum.splits if_splits)
next
  case (mark st i)
  show ?case
    by (rule keys_le_upd [where f = "\<lambda>a. a\<lparr>aa_status := AInProgress\<rparr>"])
      (auto simp: mark_in_progress_def set_attempt_def attempt_key_def Let_def)
next
  case (finish st t i status)
  show ?case
    by (cases "\<exists>a. sel1 (\<lambda>a. aa_id a = i \<and> active a) (auth_attempts st) = Some a")
      (auto simp: finish_attempt_def with_tx_def set_attempt_def set_connection_def attempt_key_def
        intro: keys_le_refl keys_le_upd split: option.splits)
next
  case (complete st t i envelope)
  show ?case
    by (cases rule: complete_cases [of t i envelope st])
      (auto simp: attempt_key_def intro: keys_le_refl keys_le_upd elim!: complete_tx_Inr)
qed (auto intro!: keys_le_refl simp: configure_connection_def transition_connection_def refresh_session_def start_poll_def
    finish_poll_def finish_poll_tx_def with_tx_def set_connection_def Let_def insert_row_def split: sum.splits option.splits if_splits prod.splits)

text \<open>What the others do to the database while a call is under way keeps the invariant and the attempts' keys.\<close>

definition quiet :: "'c server \<Rightarrow> bool" where
  "quiet sv \<longleftrightarrow> (\<forall>k st. auth_inv st \<longrightarrow> auth_inv (gs_meanwhile sv k st) \<and> keys_le st (gs_meanwhile sv k st))"

lemma steps_quiet: "auth_step\<^sup>*\<^sup>* st st' \<Longrightarrow> auth_inv st \<Longrightarrow> auth_inv st' \<and> keys_le st st'"
  by (induction rule: rtranclp_induct) (auto simp: keys_le_refl intro: keys_le_trans keys_le_step auth_step_inv)

lemma quiet_wait:
  assumes "quiet sv" "auth_inv (gw_store g)"
  shows "auth_inv (gw_store (wait sv k g))" "keys_le (gw_store g) (gw_store (wait sv k g))"
  using assms by (simp_all add: quiet_def wait_def)

section \<open>The end of a login\<close>

lemma status_answers:
  "ws_status (answer_status n s) = n" "ws_status (answer_code n c m) = n" "ws_status (superseded m) = 409"
  "answer_status n s = answer_status n t \<longleftrightarrow> s = t" "status_error s m \<noteq> answer_status 200 t"
proof -
  show "answer_status n s = answer_status n t \<longleftrightarrow> s = t"
    by (auto simp: answer_status_def write_json_def strs_def json_map_def)
  have "sort_key fst [x, y] \<noteq> sort_key fst [z]" for x y z :: "string \<times> json"
    by (metis length_Cons length_sort list.size(3) n_not_Suc_n)
  then show "status_error s m \<noteq> answer_status 200 t"
    by (simp add: status_error_def answer_status_def write_json_def strs_def json_map_def del: sort_key_simps)
qed (simp_all add: answer_status_def answer_code_def superseded_def)

text \<open>An answer that the bank is monitored, to a login that had not ended, comes from storing its session.\<close>

lemma monitoring_from_browser:
  assumes "aa_status a \<noteq> AVerified" "attempt_status_for_owner (cl_param cl ''attemptID'') (id_email (cl_who cl)) (gw_store g) = Inr a"
    and "auth_status sv cl g = (answer_status 200 ''MONITORING'', g')"
  obtains s where "client_status (gs_browser sv 0) (cl_param cl ''attemptID'') = Inr s"
    "browser_answer sv cl a (br_status s) (wait sv 0 g) = (answer_status 200 ''MONITORING'', g')"
proof -
  have e: "ended_answer a (gw_store g) = None \<or> (\<exists>w. ended_answer a (gw_store g) = Some w \<and> w \<noteq> answer_status 200 ''MONITORING'')"
    using assms(1) by (cases "aa_status a") (auto simp: ended_answer_def status_answers)
  have ne: "n \<noteq> 200 \<Longrightarrow> write_error n c \<noteq> answer_status 200 s" "n \<noteq> 200 \<Longrightarrow> answer_code n c m \<noteq> answer_status 200 s"
    "superseded m \<noteq> answer_status 200 s" for n c m s
    by (metis status_write(2) status_answers(1)) (metis status_answers(1,2), metis status_answers(1,3) num.distinct(5) numeral_eq_iff semiring_norm(88))
  show thesis
    using e assms(2,3) that
    by (auto simp: auth_status_def Let_def drop_attempt_def status_answers ne split: option.splits sum.splits if_splits)
qed

lemma verify_login_stored:
  assumes "verify_login sv cl a g = (answer_status 200 ''MONITORING'', g')"
  obtains kr plain env se bk v st c where
    "gs_keyring sv = Some kr" "client_handoff (gs_browser sv 1) (aa_id a) = Inr plain"
    "encrypt (gs_vault sv) kr (cl_fresh cl 3) plain (session_aad (aa_conn a)) = Inr env" "gs_verifier sv = Some (se, bk)"
    "verify_session se bk (cl_now cl 2) (aa_conn a) (aa_generation a) (envelope_json env) (gw_verify (wait sv 1 g)) = (None, v)"
    "complete_auth_session (cl_now cl 3) (aa_id a) (envelope_json env) (gw_store (wait sv 2 ((wait sv 1 g)\<lparr>gw_verify := v\<rparr>))) = (Inr c, st)"
    "auth_tables (gw_store g') = auth_tables (gs_meanwhile sv 3 st)"
proof -
  have ne: "n \<noteq> 200 \<Longrightarrow> write_error n c \<noteq> answer_status 200 s" "superseded m \<noteq> answer_status 200 s" for n c m s
    by (metis status_write(2) status_answers(1)) (metis status_answers(1,3) num.distinct(5) numeral_eq_iff semiring_norm(88))
  obtain kr plain env se bk v where k: "gs_keyring sv = Some kr" "client_handoff (gs_browser sv 1) (aa_id a) = Inr plain"
    "encrypt (gs_vault sv) kr (cl_fresh cl 3) plain (session_aad (aa_conn a)) = Inr env" "gs_verifier sv = Some (se, bk)"
    "verify_session se bk (cl_now cl 2) (aa_conn a) (aa_generation a) (envelope_json env) (gw_verify (wait sv 1 g)) = (None, v)"
    "store_session sv cl a (envelope_json env) (wait sv 2 ((wait sv 1 g)\<lparr>gw_verify := v\<rparr>)) = (answer_status 200 ''MONITORING'', g')"
    using assms by (auto simp: verify_login_def Let_def status_answers ne split: option.splits sum.splits prod.splits)
  obtain c st where "complete_auth_session (cl_now cl 3) (aa_id a) (envelope_json env)
      (gw_store (wait sv 2 ((wait sv 1 g)\<lparr>gw_verify := v\<rparr>))) = (Inr c, st)"
    "auth_tables (gw_store g') = auth_tables (gs_meanwhile sv 3 st)"
    using k(6) by (auto simp: store_session_def drop_attempt_def ne wait_def split: sum.splits prod.splits)
  with k(1-5) that show thesis by blast
qed

lemma gw_store_verify [simp]: "gw_store (g\<lparr>gw_verify := v\<rparr>) = gw_store g"
  by (simp add: gw_store_def)

lemma quiet_three:
  assumes "quiet sv" "auth_inv (gw_store g)"
  shows "auth_inv (gw_store (wait sv 2 ((wait sv 1 (wait sv 0 g))\<lparr>gw_verify := v\<rparr>)))"
    "keys_le (gw_store g) (gw_store (wait sv 2 ((wait sv 1 (wait sv 0 g))\<lparr>gw_verify := v\<rparr>)))"
proof -
  note w0 = quiet_wait [OF assms(1,2), of 0]
  note w1 = quiet_wait [OF assms(1) w0(1), of 1]
  have "auth_inv (gw_store ((wait sv 1 (wait sv 0 g))\<lparr>gw_verify := v\<rparr>))" using w1(1) by simp
  note w2 = quiet_wait [OF assms(1) this, of 2]
  show "auth_inv (gw_store (wait sv 2 ((wait sv 1 (wait sv 0 g))\<lparr>gw_verify := v\<rparr>)))" by (rule w2(1))
  show "keys_le (gw_store g) (gw_store (wait sv 2 ((wait sv 1 (wait sv 0 g))\<lparr>gw_verify := v\<rparr>)))"
    using w0(2) w1(2) w2(2) by (auto intro: keys_le_trans)
qed

text \<open>A session that is stored belongs to the attempt, as far back as the attempt is known.\<close>

lemma stored_session:
  assumes "complete_auth_session t (aa_id a) env st0 = (Inr c, st)" "auth_inv st0" "keys_le st1 st0" "a \<in> set (auth_attempts st1)"
  obtains c1 row where "connections st = [c1]" "c_id c1 = aa_conn a" "c_generation c1 = aa_generation a" "c_state c1 = Monitoring"
    "get_session (aa_conn a) (aa_generation a) st = Inr row" "se_envelope row = env"
proof -
  have ct: "complete_tx t (aa_id a) env st0 = Inr (st, ())"
    using assms(1) by (simp add: complete_auth_session_def with_tx_def split: sum.splits prod.splits)
  obtain c0 a' row where o: "connections st0 = [c0]" "a' \<in> set (auth_attempts st0)" "aa_id a' = aa_id a" "active a'"
    "aa_generation a' = c_generation c0" "c_state c0 = AuthStarting"
    "connections st = [c0\<lparr>c_state := Monitoring, c_updated := rfc3339nano t\<rparr>]"
    "auth_attempts st = upd (\<lambda>x. aa_id x = aa_id a)
       (\<lambda>x. x\<lparr>aa_status := AVerified, aa_finished := Some (rfc3339nano t)\<rparr>) (auth_attempts st0)"
    "sessions st = [row]" "se_conn row = c_id c0" "se_generation row = c_generation c0" "se_envelope row = env"
    by (rule complete_one [OF ct assms(2)])
  obtain b where b: "b \<in> set (auth_attempts st0)" "attempt_key b = attempt_key a"
    using assms(3,4) by (auto simp: keys_le_def image_subset_iff)
  have ok: "conn_ok c0 (auth_attempts st0) (sessions st0)" "distinct (map aa_id (auth_attempts st0))"
    using assms(2) o(1) by (auto simp: auth_inv_def)
  have "b = a'" using distinct_key_eq [OF ok(2) b(1) o(2)] b(2) o(3) by (simp add: attempt_key_def)
  then have key: "c_id c0 = aa_conn a" "c_generation c0 = aa_generation a"
    using b(2) o(2,5) ok(1) by (auto simp: attempt_key_def conn_ok_def attempt_ok_def)
  show thesis
    by (rule that [OF o(7)]) (use o(9-12) key in \<open>simp_all add: get_session_def sel1_def\<close>)
qed

lemma status_attempt: "attempt_status_for_owner i m st = Inr a \<Longrightarrow> a \<in> set (auth_attempts st)"
  by (auto simp: attempt_status_for_owner_def split: option.splits dest: sel1_Some)

text \<open>
  Property C36. When the interface answers a login that had not ended with MONITORING, the verifier
  accepted the session the browser handed over, encrypted, for the attempt's connection and
  generation; it was stored under that generation with the connection set to monitoring, whatever
  other requests did while the browser and the bank were asked; and the monitor, with nothing loaded
  for that generation, restores exactly this session.
\<close>

theorem login_reaches_monitor:
  assumes "auth_inv (gw_store g)" and "quiet sv"
    and "attempt_status_for_owner (cl_param cl ''attemptID'') (id_email (cl_who cl)) (gw_store g) = Inr a" and "aa_status a \<noteq> AVerified"
    and "\<forall>s. client_status (gs_browser sv 0) (cl_param cl ''attemptID'') = Inr s \<longrightarrow> br_status s \<noteq> ''MONITORING''"
    and "auth_status sv cl g = (answer_status 200 ''MONITORING'', g')"
  shows "\<exists>kr plain env se bk v v' st c row.
      gs_keyring sv = Some kr \<and> client_handoff (gs_browser sv 1) (aa_id a) = Inr plain
    \<and> encrypt (gs_vault sv) kr (cl_fresh cl 3) plain (session_aad (aa_conn a)) = Inr env
    \<and> gs_verifier sv = Some (se, bk)
    \<and> verify_session se bk (cl_now cl 2) (aa_conn a) (aa_generation a) (envelope_json env) v = (None, v')
    \<and> connections st = [c] \<and> c_id c = aa_conn a \<and> c_generation c = aa_generation a \<and> c_state c = Monitoring
    \<and> get_session (aa_conn a) (aa_generation a) st = Inr row \<and> se_envelope row = envelope_json env
    \<and> (\<forall>bk' s. snd s \<noteq> (aa_conn a, aa_generation a) \<longrightarrow>
         restore se bk' (aa_conn a) (aa_generation a) st s = restore_locked se bk' (aa_conn a) (aa_generation a) (envelope_json env) s)
    \<and> auth_tables (gw_store g') = auth_tables (gs_meanwhile sv 3 st)"
proof -
  obtain s where s: "client_status (gs_browser sv 0) (cl_param cl ''attemptID'') = Inr s"
    "browser_answer sv cl a (br_status s) (wait sv 0 g) = (answer_status 200 ''MONITORING'', g')"
    by (rule monitoring_from_browser [OF assms(4,3,6)])
  have "verify_login sv cl a (wait sv 0 g) = (answer_status 200 ''MONITORING'', g')"
    using s assms(5) by (auto simp: browser_answer_def status_answers split: if_splits)
  then obtain kr plain env se bk v st c where kr: "gs_keyring sv = Some kr" and k: "client_handoff (gs_browser sv 1) (aa_id a) = Inr plain"
    "encrypt (gs_vault sv) kr (cl_fresh cl 3) plain (session_aad (aa_conn a)) = Inr env" "gs_verifier sv = Some (se, bk)"
    "verify_session se bk (cl_now cl 2) (aa_conn a) (aa_generation a) (envelope_json env) (gw_verify (wait sv 1 (wait sv 0 g))) = (None, v)"
    "complete_auth_session (cl_now cl 3) (aa_id a) (envelope_json env)
       (gw_store (wait sv 2 ((wait sv 1 (wait sv 0 g))\<lparr>gw_verify := v\<rparr>))) = (Inr c, st)"
    "auth_tables (gw_store g') = auth_tables (gs_meanwhile sv 3 st)"
    by (rule verify_login_stored)
  obtain c1 row where c1: "connections st = [c1]" "c_id c1 = aa_conn a" "c_generation c1 = aa_generation a" "c_state c1 = Monitoring"
    "get_session (aa_conn a) (aa_generation a) st = Inr row" "se_envelope row = envelope_json env"
    by (rule stored_session [OF k(5) quiet_three [OF assms(2,1)] status_attempt [OF assms(3)]])
  have rs: "\<forall>bk' s. snd s \<noteq> (aa_conn a, aa_generation a) \<longrightarrow>
      restore se bk' (aa_conn a) (aa_generation a) st s = restore_locked se bk' (aa_conn a) (aa_generation a) (envelope_json env) s"
    using c1(5,6) by (simp add: restore_def)
  show ?thesis
    by (rule exI [of _ kr], rule exI [of _ plain], rule exI [of _ env], rule exI [of _ se], rule exI [of _ bk],
        rule exI [of _ "gw_verify (wait sv 1 (wait sv 0 g))"], rule exI [of _ v], rule exI [of _ st], rule exI [of _ c1],
        rule exI [of _ row], intro conjI) (fact kr k c1 rs)+
qed

text \<open>The login of the small server, evaluated call by call.\<close>

definition demo_attempt :: attempt_row where "demo_attempt = hd (auth_attempts demo1)"

lemma demo_attempt_facts:
  "attempt_status_for_owner ''a'' ''owner'' demo1 = Inr demo_attempt" "aa_id demo_attempt = ''a''" "aa_conn demo_attempt = ''c''"
  "aa_generation demo_attempt = 1" "aa_status demo_attempt = AStarting" "\<not> attempt_lapsed (2 * second) demo_attempt"
  "get_connection demo1 = Inr (hd (connections demo1))" "c_generation (hd (connections demo1)) = 1"
  unfolding demo_attempt_def by code_simp+

lemma demo_attempt_not_ended: "ended_answer demo_attempt demo1 = None"
  by (simp add: ended_answer_def demo_attempt_facts)

definition demo_envelope :: envelope where
  "demo_envelope = (case encrypt open_vault demo_keyring demo_nonce ''QQ.n'' (session_aad ''c'') of Inr e \<Rightarrow> e)"

lemma demo_keyring_ok: "keyring_ok demo_keyring"
  by (simp add: keyring_ok_def demo_keyring_def aes_key_def)

lemma demo_encrypted: "encrypt open_vault demo_keyring demo_nonce ''QQ.n'' (session_aad ''c'') = Inr demo_envelope"
  using encrypt_succeeds [OF demo_keyring_ok, of open_vault demo_nonce "''QQ.n''" "session_aad ''c''"]
  by (auto simp: demo_envelope_def)

lemma demo_handed_over:
  "client_status demo_browser ''a'' = Inr \<lparr>br_attempt = ''a'', br_status = ''VERIFIED'', br_screen = [], br_expires = [], br_error = []\<rparr>"
  "client_handoff demo_browser ''a'' = Inr ''QQ.n''"
  by (simp_all add: client_status_def client_handoff_def session_response_def decode_json_def demo_browser_def)

lemma demo_accepted:
  "verify_session demo_session (scripted_bank history_response) t ''c'' 1 (envelope_json demo_envelope) s = (None, (), ''c'', 1)"
proof -
  have p: "va_parse open_vault (envelope_json demo_envelope) = Some demo_envelope"
    using open_vault_laws(2) encrypt_unquoted [OF demo_encrypted demo_keyring_ok] by (simp add: parses_marshalled_def)
  have d: "decrypt open_vault demo_keyring demo_envelope (session_aad ''c'') = Inr ''QQ.n''"
    by (rule decrypt_encrypt [OF open_vault_laws(1) demo_encrypted]) (simp add: demo_nonce_def gcm_nonce_size_def)
  have h: "b64_decode url_alphabet ''QQ'' \<noteq> None" by code_simp
  show ?thesis
    using h by (auto simp: verify_session_def restore_locked_def demo_session_def p d decode_handoff_def demo_handoffs_def
        scripted_bank_def history_response_def)
qed

lemma demo_completed:
  obtains c st where "complete_auth_session (2 * second) ''a'' x demo1 = (Inr c, st)"
proof -
  have f: "auth_attempts demo1 = [demo_attempt]" "sessions demo1 = []" "connections demo1 = [hd (connections demo1)]"
    "c_id (hd (connections demo1)) = ''c''" "c_generation (hd (connections demo1)) = 1" "c_state (hd (connections demo1)) = AuthStarting"
    unfolding demo_attempt_def by code_simp+
  define k where "k = hd (connections demo1)"
  have "isl (fst (complete_auth_session (2 * second) ''a'' x demo1)) = False"
    using f by (simp add: k_def [symmetric] complete_auth_session_def with_tx_def complete_tx_def sel1_def demo_attempt_facts
        set_attempt_def upsert_session_def has_connection_def affected_def at_generation_def set_connection_def get_connection_def Let_def)
  then show thesis using that by (cases "complete_auth_session (2 * second) ''a'' x demo1"; cases "fst (complete_auth_session (2 * second) ''a'' x demo1)") auto
qed

theorem login_reaches_monitor_witness:
  "\<exists>row st. get_session ''c'' 1 st = Inr row \<and> se_envelope row = envelope_json demo_envelope
     \<and> auth_tables (gw_store (snd (auth_status demo_server demo_call (demo_gateway demo1)))) = auth_tables st"
proof -
  have inv: "auth_inv (gw_store (demo_gateway demo1))"
    using auth_steps_inv [OF demo1_steps auth_inv_empty] by simp
  have q: "quiet demo_server" by (simp add: quiet_def demo_server_def keys_le_refl)
  have p: "cl_param demo_call ''attemptID'' = ''a''" "id_email (cl_who demo_call) = ''owner''" "cl_now demo_call k = 2 * second"
    "cl_fresh demo_call 3 = demo_nonce" for k
    by (simp_all add: demo_call_def)
  have sv: "gs_browser demo_server k = demo_browser" "gs_keyring demo_server = Some demo_keyring" "gs_vault demo_server = open_vault"
    "gs_verifier demo_server = Some (demo_session, scripted_bank history_response)" for k
    by (simp_all add: demo_server_def)
  obtain c st where c: "complete_auth_session (2 * second) ''a'' (envelope_json demo_envelope) demo1 = (Inr c, st)"
    by (rule demo_completed)
  define g' where "g' = snd (auth_status demo_server demo_call (demo_gateway demo1))"
  have run: "auth_status demo_server demo_call (demo_gateway demo1) = (answer_status 200 ''MONITORING'', g')"
    unfolding g'_def
    by (simp add: auth_status_def p demo_attempt_facts demo_attempt_not_ended sv demo_handed_over browser_answer_def verify_login_def
        demo_encrypted demo_accepted store_session_def c Let_def)
  have "attempt_status_for_owner (cl_param demo_call ''attemptID'') (id_email (cl_who demo_call)) (gw_store (demo_gateway demo1)) = Inr demo_attempt"
    by (simp add: p demo_attempt_facts)
  moreover have "aa_status demo_attempt \<noteq> AVerified" by (simp add: demo_attempt_facts)
  moreover have "\<forall>s. client_status (gs_browser demo_server 0) (cl_param demo_call ''attemptID'') = Inr s \<longrightarrow> br_status s \<noteq> ''MONITORING''"
    by (simp add: sv p demo_handed_over)
  ultimately obtain kr plain env row st where e: "gs_keyring demo_server = Some kr" "client_handoff (gs_browser demo_server 1) (aa_id demo_attempt) = Inr plain"
    "encrypt (gs_vault demo_server) kr (cl_fresh demo_call 3) plain (session_aad (aa_conn demo_attempt)) = Inr env"
    "get_session (aa_conn demo_attempt) (aa_generation demo_attempt) st = Inr row" "se_envelope row = envelope_json env"
    "auth_tables (gw_store g') = auth_tables (gs_meanwhile demo_server 3 st)"
    using login_reaches_monitor [OF inv q _ _ _ run] by blast
  have "kr = demo_keyring" "plain = ''QQ.n''" using e(1,2) by (simp_all add: sv demo_attempt_facts demo_handed_over)
  then have "env = demo_envelope" using e(3) by (simp add: sv p demo_attempt_facts demo_encrypted)
  then show ?thesis using e(4-6) unfolding g'_def by (auto simp: demo_attempt_facts demo_server_def)
qed

end
