(* ===== verification/ApiBank.thy ===== *)
theory ApiBank
  imports Api
begin

text \<open>
  The handlers of \<open>src/internal/httpapi/server.go\<close> for the status, the bank connection, the listings, the
  history on demand and the monitor settings. Their database errors other than those the model of the
  database can have are left out.
\<close>

section \<open>Status\<close>

definition health :: "'c handler" where "health g = (answer_status 200 ''ok'', g)"

definition ready :: "bool \<Rightarrow> 'c handler" where
  "ready alive g = ((if alive then answer_status 200 ''ready'' else answer_status 503 ''not_ready''), g)"

definition acb_status :: "'c server \<Rightarrow> instant \<Rightarrow> store \<Rightarrow> (string \<times> json) list" where
  "acb_status sv now st =
     (case get_connection st of
        Inl _ \<Rightarrow> [(''state'', JStr ''UNCONFIGURED''), (''coverage'', JStr ''NOT_STARTED''), (''lastSuccessfulPollAt'', JNull)]
      | Inr c \<Rightarrow>
          (let r = resolve_schedule (gs_zone sv) now (Some (get_monitor_settings st))
           in [(''state'', JStr (conn_state_text (c_state c))), (''coverage'', JStr ''PENDING_ACB_POC''),
               (''lastSuccessfulPollAt'', JNull), (''accountMasked'', JStr (c_masked c)), (''generation'', JInt (c_generation c)),
               (''scheduleMode'', JStr (poll_mode_text (rs_mode r))), (''scheduleWindow'', JStr (rs_window r)),
               (''scheduleMinSeconds'', JInt (rs_min r div second)), (''scheduleMaxSeconds'', JInt (rs_max r div second))]))"

definition status_handler :: "'c server \<Rightarrow> call \<Rightarrow> 'c handler" where
  "status_handler sv cl g =
     (let st = gw_store g; s = summary_json (delivery_summary st)
      in (write_json 200 (json_map
            [(''service'', JStr ''HEALTHY''), (''version'', JStr ''2.0.0-dev''),
             (''uptimeSeconds'', JInt ((cl_now cl 1 - gs_started sv) div second)),
             (''acb'', json_map (acb_status sv (cl_now cl 0) st)), (''storage'', strs [(''status'', ''READY'')]),
             (''webhooks'', s), (''notifications'', s)]), g))"

section \<open>Connection\<close>

definition connection_handler :: "'c handler" where
  "connection_handler g =
     (case get_connection (gw_store g) of
        Inl e \<Rightarrow> ((if errors_is e ErrNoRows then write_json 200 (json_map [(''configured'', JBool False)])
                  else write_error 500 ''storage_error''), g)
      | Inr c \<Rightarrow> (write_json 200 (json_map [(''configured'', JBool True), (''connection'', connection_json c)]), g))"

definition configure_handler :: "'c server \<Rightarrow> call \<Rightarrow> 'c handler" where
  "configure_handler sv cl g =
     (case decode_strict (gs_codec sv) [''accountMasked''] (cl_req cl) of
        (Inl w, _) \<Rightarrow> (w, g)
      | (Inr fs, _) \<Rightarrow>
          (case str_field ''accountMasked'' fs of
             None \<Rightarrow> (bad_json, g)
           | Some masked \<Rightarrow>
               (case configure_connection (cl_fresh cl 0) (cl_now cl 0) masked (gw_store g) of
                  (Inl e, st) \<Rightarrow> (write_error 409 (err_text e), put_store st g)
                | (Inr c, st) \<Rightarrow>
                    (write_json 201 (connection_json c),
                     publish_call sv cl 2 ''connection.changed'' (c_id c) (connection_json c)
                       (audit_call cl 1 ''connection.configure'' (c_id c) (put_store st g))))))"

definition sync_unavailable :: "string \<Rightarrow> web_response" where
  "sync_unavailable m = answer_code 409 ''SYNC_UNAVAILABLE'' m"

definition sync_handler :: "'c server \<Rightarrow> call \<Rightarrow> 'c handler" where
  "sync_handler sv cl g =
     (case get_connection (gw_store g) of
        Inl e \<Rightarrow> (write_error 404 ''connection_not_found'', g)
      | Inr c \<Rightarrow>
          if c_state c \<noteq> Monitoring
          then (sync_unavailable (''Ch'' @ [CHR 0xE1, CHR 0xBB, CHR 0x89] @ '' c'' @ [CHR 0xC3, CHR 0xB3] @ '' th'' @ [CHR 0xE1, CHR 0xBB, CHR 0x83] @ '' '' @ [CHR 0xC4, CHR 0x91, CHR 0xE1, CHR 0xBB, CHR 0x93] @ ''ng b'' @ [CHR 0xE1, CHR 0xBB, CHR 0x99] @ '' khi ACB '' @ [CHR 0xC4, CHR 0x91] @ ''ang theo d'' @ [CHR 0xC3, CHR 0xB5] @ ''i giao d'' @ [CHR 0xE1, CHR 0xBB, CHR 0x8B] @ ''ch. Phi'' @ [CHR 0xC3, CHR 0xAA] @ ''n hi'' @ [CHR 0xE1, CHR 0xBB, CHR 0x87] @ ''n t'' @ [CHR 0xE1, CHR 0xBA, CHR 0xA1] @ ''i '' @ [CHR 0xC4, CHR 0x91, CHR 0xC6, CHR 0xB0, CHR 0xE1, CHR 0xBB, CHR 0xA3] @ ''c gi'' @ [CHR 0xE1, CHR 0xBB, CHR 0xAF] @ '' nguy'' @ [CHR 0xC3, CHR 0xAA] @ ''n.''), g)
          else if gs_monitor sv = None then (write_error 503 (''B'' @ [CHR 0xE1, CHR 0xBB, CHR 0x99] @ '' '' @ [CHR 0xC4, CHR 0x91, CHR 0xE1, CHR 0xBB, CHR 0x93] @ ''ng b'' @ [CHR 0xE1, CHR 0xBB, CHR 0x99] @ '' ACB ch'' @ [CHR 0xC6, CHR 0xB0] @ ''a s'' @ [CHR 0xE1, CHR 0xBA, CHR 0xB5] @ ''n s'' @ [CHR 0xC3, CHR 0xA0] @ ''ng.''), g)
          else (case request_sync (gw_sys g) of
                  (Some e, sy) \<Rightarrow>
                    ((if errors_is e ErrSyncUnavailable
                      then sync_unavailable (''Tr'' @ [CHR 0xE1, CHR 0xBA, CHR 0xA1] @ ''ng th'' @ [CHR 0xC3, CHR 0xA1] @ ''i ACB '' @ [CHR 0xC4, CHR 0x91, CHR 0xC3, CHR 0xA3] @ '' thay '' @ [CHR 0xC4, CHR 0x91, CHR 0xE1, CHR 0xBB, CHR 0x95] @ ''i. Vui l'' @ [CHR 0xC3, CHR 0xB2] @ ''ng t'' @ [CHR 0xE1, CHR 0xBA, CHR 0xA3] @ ''i l'' @ [CHR 0xE1, CHR 0xBA, CHR 0xA1] @ ''i tr'' @ [CHR 0xC6, CHR 0xB0, CHR 0xE1, CHR 0xBB, CHR 0x9B] @ ''c khi '' @ [CHR 0xC4, CHR 0x91, CHR 0xE1, CHR 0xBB, CHR 0x93] @ ''ng b'' @ [CHR 0xE1, CHR 0xBB, CHR 0x99] @ ''.'')
                      else write_error 503 (''Kh'' @ [CHR 0xC3, CHR 0xB4] @ ''ng th'' @ [CHR 0xE1, CHR 0xBB, CHR 0x83] @ '' ti'' @ [CHR 0xE1, CHR 0xBA, CHR 0xBF] @ ''p nh'' @ [CHR 0xE1, CHR 0xBA, CHR 0xAD] @ ''n y'' @ [CHR 0xC3, CHR 0xAA] @ ''u c'' @ [CHR 0xE1, CHR 0xBA, CHR 0xA7] @ ''u '' @ [CHR 0xC4, CHR 0x91, CHR 0xE1, CHR 0xBB, CHR 0x93] @ ''ng b'' @ [CHR 0xE1, CHR 0xBB, CHR 0x99] @ '' ACB.'')), g\<lparr>gw_sys := sy\<rparr>)
                | (None, sy) \<Rightarrow>
                    (answer_status 202 ''ACCEPTED'', audit_call cl 0 ''connection.sync'' (c_id c) (g\<lparr>gw_sys := sy\<rparr>))))"

definition connection_action :: "'c server \<Rightarrow> call \<Rightarrow> 'c handler" where
  "connection_action sv cl g =
     (let action = cl_param cl ''action'' in
      if action = ''sync'' then sync_handler sv cl g
      else (case transition_connection (cl_now cl 0) action (gw_store g) of
              (Inl e, st) \<Rightarrow>
                ((if errors_is e ErrNoRows then write_error 404 ''connection_not_found'' else write_error 400 (err_text e)), put_store st g)
            | (Inr c, st) \<Rightarrow>
                (write_json 202 (connection_json c),
                 publish_call sv cl 2 ''connection.changed'' (c_id c) (connection_json c)
                   (audit_call cl 1 (''connection.'' @ action) (c_id c) (put_store st g)))))"

section \<open>Listings\<close>

definition page_status :: "string \<Rightarrow> nat" where "page_status cursor = (if cursor \<noteq> [] then 400 else 500)"

definition txn_request :: "web_request \<Rightarrow> txn_filter result" where
  "txn_request r =
     (case page_params r of
        Inl e \<Rightarrow> Inl e
      | Inr (limit, cursor) \<Rightarrow>
          (let q = take 200 (trim_space (wr_query r ''q'')); a = trim_space (wr_query r ''from''); b = trim_space (wr_query r ''to'');
               d = trim_space (wr_query r ''direction'')
           in if a \<noteq> [] \<and> parse_day a = None then Inl (ErrMsg ''invalid from date: expected YYYY-MM-DD'')
              else if b \<noteq> [] \<and> parse_day b = None then Inl (ErrMsg ''invalid to date: expected YYYY-MM-DD'')
              else if a \<noteq> [] \<and> b \<noteq> [] \<and> a > b then Inl (ErrMsg ''from date must not be after to date'')
              else Inr \<lparr>fl_from = a, fl_to = b, fl_direction = (if d = ''credit'' \<or> d = ''debit'' then d else ''all''),
                        fl_query = q, fl_limit = limit, fl_cursor = cursor\<rparr>))"

definition transactions_handler :: "call \<Rightarrow> 'c handler" where
  "transactions_handler cl g =
     (case txn_request (cl_req cl) of
        Inl e \<Rightarrow> (write_error 400 (err_text e), g)
      | Inr f \<Rightarrow>
          (case list_transactions_filtered f (gw_store g) of
             Inl e \<Rightarrow> (write_error (page_status (fl_cursor f)) ''query transactions failed'', g)
           | Inr (p, s) \<Rightarrow> (write_json 200 (JObj (page_json txn_json p @ [(''summary'', txn_summary_json s)])), g)))"

definition transaction_detail :: "call \<Rightarrow> 'c handler" where
  "transaction_detail cl g =
     (let i = cl_param cl ''id'' in
      if i = [] then (write_error 400 ''transaction id is required'', g)
      else (case transaction_by_id i (gw_store g) of
              Inl e \<Rightarrow> ((if errors_is e ErrNoRows then write_error 404 ''transaction not found''
                        else write_error 500 ''failed to get transaction''), g)
            | Inr x \<Rightarrow> (write_json 200 (txn_json x), g)))"

definition page_handler ::
  "(int \<Rightarrow> string \<Rightarrow> store \<Rightarrow> 'v page result) \<Rightarrow> ('v \<Rightarrow> json) \<Rightarrow> call \<Rightarrow> 'c handler" where
  "page_handler query view cl g =
     (case page_params (cl_req cl) of
        Inl e \<Rightarrow> (write_error 400 (err_text e), g)
      | Inr (limit, cursor) \<Rightarrow>
          (case query limit cursor (gw_store g) of
             Inl e \<Rightarrow> (write_error (page_status cursor) ''pagination request failed'', g)
           | Inr p \<Rightarrow> (write_json 200 (JObj (page_json view p)), g)))"

definition deliveries_handler :: "call \<Rightarrow> 'c handler" where
  "deliveries_handler = page_handler list_deliveries_page delivery_json"

definition poll_runs_handler :: "call \<Rightarrow> 'c handler" where
  "poll_runs_handler = page_handler list_poll_runs_page poll_json"

definition audit_handler :: "call \<Rightarrow> 'c handler" where
  "audit_handler = page_handler list_audit_logs_page audit_json"

section \<open>History on demand\<close>

definition history_request :: "json_codec \<Rightarrow> web_request \<Rightarrow> (string \<times> string) result" where
  "history_request jc r =
     (case body_fields jc r of
        None \<Rightarrow> Inl (ErrMsg ''invalid request body'')
      | Some fs \<Rightarrow>
          (case (str_field ''from'' fs, str_field ''to'' fs) of
             (Some a0, Some b0) \<Rightarrow>
               (let a = trim_space a0; b = trim_space b0 in
                if a = [] \<or> b = [] then Inl (ErrMsg ''from and to dates are required (YYYY-MM-DD)'')
                else (case (parse_day a, parse_day b) of
                        (None, _) \<Rightarrow> Inl (ErrMsg ''invalid from date: expected YYYY-MM-DD'')
                      | (_, None) \<Rightarrow> Inl (ErrMsg ''invalid to date: expected YYYY-MM-DD'')
                      | (Some x, Some y) \<Rightarrow>
                          if x > y then Inl (ErrMsg ''from date must not be after to date'')
                          else if y - x > 31 then Inl (ErrMsg ''range too large: maximum 31 days'')
                          else Inr (a, b)))
           | _ \<Rightarrow> Inl (ErrMsg ''invalid request body'')))"

definition ensure_handler :: "'c server \<Rightarrow> call \<Rightarrow> 'c handler" where
  "ensure_handler sv cl g =
     (case gs_monitor sv of
        None \<Rightarrow> (write_error 503 ''history sync unavailable'', g)
      | Some me \<Rightarrow>
          (case history_request (gs_codec sv) (cl_req cl) of
             Inl e \<Rightarrow> (write_error 400 (err_text e), g)
           | Inr (a, b) \<Rightarrow>
               (case ensure_history me (gs_history sv) a b (gw_sys g) of
                  (Inl e, sy) \<Rightarrow> (write_error 502 (''failed to sync history: '' @ err_text e), g\<lparr>gw_sys := sy\<rparr>)
                | (Inr n, sy) \<Rightarrow>
                    (write_json 200 (json_map [(''status'', JStr ''COMPLETE''), (''coverage'', JStr ''COMPLETE''),
                       (''synced'', JBool True), (''rowsSeen'', JInt n)]), g\<lparr>gw_sys := sy\<rparr>))))"

section \<open>Monitor settings\<close>

definition settings_zone :: "'c server \<Rightarrow> monitor_settings \<Rightarrow> location" where
  "settings_zone sv s = (case gs_zone sv (ms_timezone s) of Inr l \<Rightarrow> l | Inl _ \<Rightarrow> default_location)"

definition settings_answer :: "'c server \<Rightarrow> instant \<Rightarrow> monitor_settings \<Rightarrow> web_response" where
  "settings_answer sv now s =
     (let r = resolve_schedule (gs_zone sv) now (Some s)
      in write_json 200 (json_map
           [(''settings'', settings_json s),
            (''current'', json_map
               [(''mode'', JStr (poll_mode_text (rs_mode r))), (''minSeconds'', JInt (rs_min r div second)),
                (''maxSeconds'', JInt (rs_max r div second)), (''activeWindow'', JStr (rs_window r)),
                (''nextTransitionAt'', JStr (rfc3339_in (settings_zone sv s) (case rs_next r of None \<Rightarrow> now | Some t \<Rightarrow> t))),
                (''nextMode'', JStr (poll_mode_text (rs_next_mode r)))])]))"

definition get_settings_handler :: "'c server \<Rightarrow> call \<Rightarrow> 'c handler" where
  "get_settings_handler sv cl g = (settings_answer sv (cl_now cl 0) (get_monitor_settings (gw_store g)), g)"

definition update_settings_handler :: "'c server \<Rightarrow> call \<Rightarrow> 'c handler" where
  "update_settings_handler sv cl g =
     (case Option.bind (body_fields (gs_codec sv) (cl_req cl)) settings_fields of
        None \<Rightarrow> (bad_body, g)
      | Some s \<Rightarrow>
          (case save_monitor_settings (gs_zone sv) (cl_now cl 0) s (gw_store g) of
             (Inl e, st) \<Rightarrow>
               ((if errors_is e ErrSettingsConflict
                 then write_error 409 ''settings conflict: revision mismatch, please reload and retry''
                 else write_error 400 (''invalid settings: '' @ err_text e)), put_store st g)
           | (Inr saved, st) \<Rightarrow>
               (let g1 = audit_call cl 1 ''monitor.settings.update'' ''singleton'' (put_store st g);
                    g2 = (if gs_notifier sv then g1\<lparr>gw_notes := gw_notes g1 + 1\<rparr> else g1)
                in (settings_answer sv (cl_now cl 2) saved, g2))))"

end
