(* ===== verification/ApiChannels.thy ===== *)
theory ApiChannels
  imports Api
begin

text \<open>
  The handlers of webhook endpoints in \<open>src/internal/httpapi/server.go\<close> and of notification channels in
  \<open>src/internal/httpapi/notifications.go\<close>.
\<close>

section \<open>Webhook endpoints\<close>

definition endpoints_handler :: "'c handler" where
  "endpoints_handler g =
     (write_json 200 (json_map [(''items'', JList (map (\<lambda>e. JObj (endpoint_fields e)) (list_endpoints (gw_store g))))]), g)"

definition channel_event :: "string \<Rightarrow> string \<Rightarrow> json" where
  "channel_event i status = strs [(''id'', i), (''status'', status)]"

definition provider_event :: "string \<Rightarrow> string \<Rightarrow> string \<Rightarrow> json" where
  "provider_event i status provider = strs [(''id'', i), (''status'', status), (''provider'', provider)]"

text \<open>The endpoint and its secret, made under the store's keyring.\<close>

definition make_endpoint :: "'c server \<Rightarrow> call \<Rightarrow> string \<Rightarrow> string \<Rightarrow> store \<Rightarrow> (endpoint_view \<times> string) result \<times> store" where
  "make_endpoint sv cl name url st =
     create_endpoint_with_secret (gs_vault sv) (gs_store_keys sv) (cl_fresh cl 1) (cl_fresh cl 2) (cl_fresh cl 0) (cl_now cl 0) name url st"

definition create_endpoint_handler :: "'c server \<Rightarrow> call \<Rightarrow> 'c handler" where
  "create_endpoint_handler sv cl g =
     (case decode_strict (gs_codec sv) [''name'', ''url''] (cl_req cl) of
        (Inl w, _) \<Rightarrow> (w, g)
      | (Inr fs, _) \<Rightarrow>
          (case (str_field ''name'' fs, str_field ''url'' fs) of
             (Some name, Some url) \<Rightarrow>
               (case validate_webhook_url (gs_net sv) url of
                  Inl e \<Rightarrow> (write_error 400 (err_text e), g)
                | Inr _ \<Rightarrow>
                    (case make_endpoint sv cl name url (gw_store g) of
                       (Inl e, st) \<Rightarrow> (write_error 400 (err_text e), put_store st g)
                     | (Inr (e, secret), st) \<Rightarrow>
                         (write_json 201 (created_endpoint_json e secret),
                          publish_call sv cl 4 ''webhook.changed'' (epv_id e) (channel_event (epv_id e) (ep_status_text (epv_status e)))
                            (audit_call cl 3 ''webhook.create'' (epv_id e) (put_store st g)))))
           | _ \<Rightarrow> (bad_json, g)))"

definition action_status :: "string \<Rightarrow> ep_status" where
  "action_status action = (if action = ''disable'' then EpDisabled else EpActive)"

fun status_word :: "ep_status \<Rightarrow> string" where
  "status_word EpActive = ''active''"
| "status_word EpDisabled = ''disabled''"
| "status_word (EpOther s) = s"

definition endpoint_action :: "'c server \<Rightarrow> call \<Rightarrow> 'c handler" where
  "endpoint_action sv cl g =
     (let i = cl_param cl ''id''; s = action_status (cl_param cl ''action'') in
      case set_endpoint_status (cl_now cl 0) i s (gw_store g) of
        (Some e, st) \<Rightarrow>
          ((if errors_is e ErrNoRows then write_error 404 ''endpoint_not_found'' else write_error 400 (err_text e)), put_store st g)
      | (None, st) \<Rightarrow>
          (answer_status 200 (ep_status_text s),
           publish_call sv cl 2 ''webhook.changed'' i (channel_event i (ep_status_text s))
             (audit_call cl 1 (''webhook.'' @ status_word s) i (put_store st g))))"

section \<open>Channels\<close>

definition providers_handler :: "'c server \<Rightarrow> 'c handler" where
  "providers_handler sv g =
     (write_json 200 (json_map [(''providers'', JList
        [json_map [(''id'', JStr ''WEBHOOK''), (''name'', JStr ''Webhook''),
           (''description'', JStr (''G'' @ [CHR 0xE1, CHR 0xBB, CHR 0xAD] @ ''i JSON c'' @ [CHR 0xC3, CHR 0xB3] @ '' ch'' @ [CHR 0xE1, CHR 0xBB, CHR 0xAF] @ '' k'' @ [CHR 0xC3, CHR 0xBD] @ '' HMAC t'' @ [CHR 0xE1, CHR 0xBB, CHR 0x9B] @ ''i h'' @ [CHR 0xE1, CHR 0xBB, CHR 0x87] @ '' th'' @ [CHR 0xE1, CHR 0xBB, CHR 0x91] @ ''ng kh'' @ [CHR 0xC3, CHR 0xA1] @ ''c.'')), (''configured'', JBool True)],
         json_map [(''id'', JStr ''BARK''), (''name'', JStr ''Bark (iOS)''),
           (''description'', JStr ([CHR 0xC4, CHR 0x90, CHR 0xE1, CHR 0xBA, CHR 0xA9] @ ''y th'' @ [CHR 0xC3, CHR 0xB4] @ ''ng b'' @ [CHR 0xC3, CHR 0xA1] @ ''o tr'' @ [CHR 0xE1, CHR 0xBB, CHR 0xB1] @ ''c ti'' @ [CHR 0xE1, CHR 0xBA, CHR 0xBF] @ ''p t'' @ [CHR 0xE1, CHR 0xBB, CHR 0x9B] @ ''i iPhone qua Bark self-host.'')),
           (''configured'', JBool (gs_bark sv \<noteq> None \<or> cf_bark_server (gs_cfg sv) \<noteq> [])),
           (''publicUrl'', JStr (cf_bark_public (gs_cfg sv)))]])]), g)"

text \<open>No channel at all is a nil slice, which is encoded as null.\<close>

definition channels_handler :: "'c handler" where
  "channels_handler g =
     (let cs = notification_channels (gw_store g)
      in (write_json 200 (json_map [(''items'', (if cs = [] then JNull else JList (map (\<lambda>c. channel_json c []) cs)))]), g))"

text \<open>The letters of the two provider names are the upper case of no character beyond ASCII.\<close>

definition upper_char :: "char \<Rightarrow> char" where
  "upper_char c = (if CHR ''a'' \<le> c \<and> c \<le> CHR ''z'' then char_of (of_char c - 32 :: nat) else c)"

definition upper_ascii :: "string \<Rightarrow> string" where "upper_ascii s = map upper_char s"

definition bark_keys :: "string list" where
  "bark_keys = [''group'', ''level'', ''sound'', ''includeBalance'', ''includeDescription'', ''dashboardLink'']"

definition bark_object :: "(string \<times> json) list \<Rightarrow> bark_config option option" where
  "bark_object fs =
     (case obj_field ''barkConfig'' fs of
        None \<Rightarrow> None
      | Some None \<Rightarrow> Some None
      | Some (Some o') \<Rightarrow> if list_all (\<lambda>f. fst f \<in> set bark_keys) o' then map_option Some (bark_fields o') else None)"

record channel_request =
  cn_provider :: string
  cn_name :: string
  cn_url :: string
  cn_device :: string
  cn_bark :: "bark_config option"

definition channel_request_of :: "(string \<times> json) list \<Rightarrow> channel_request option" where
  "channel_request_of fs =
     (case (str_field ''provider'' fs, str_field ''name'' fs, str_field ''url'' fs, str_field ''deviceKey'' fs, bark_object fs) of
        (Some p, Some n, Some u, Some d, Some b) \<Rightarrow>
          Some \<lparr>cn_provider = upper_ascii (trim_space p), cn_name = trim_space n, cn_url = u, cn_device = d, cn_bark = b\<rparr>
      | _ \<Rightarrow> None)"

definition webhook_channel :: "endpoint_view \<Rightarrow> channel" where
  "webhook_channel e =
     \<lparr>ch_id = epv_id e, ch_name = epv_name e, ch_provider = ''WEBHOOK'', ch_status = epv_status e, ch_revision = epv_revision e,
      ch_url = epv_url e, ch_bark = None, ch_has_key = False, ch_created = epv_created e, ch_updated = epv_updated e\<rparr>"

definition create_webhook :: "'c server \<Rightarrow> call \<Rightarrow> channel_request \<Rightarrow> 'c handler" where
  "create_webhook sv cl rq g =
     (case validate_webhook_url (gs_net sv) (cn_url rq) of
        Inl e \<Rightarrow> (write_error 400 (err_text e), g)
      | Inr _ \<Rightarrow>
          (case make_endpoint sv cl (cn_name rq) (cn_url rq) (gw_store g) of
             (Inl e, st) \<Rightarrow> (write_error 400 (err_text e), put_store st g)
           | (Inr (e, secret), st) \<Rightarrow>
               (let i = epv_id e; s = ep_status_text (epv_status e)
                in (write_json 201 (channel_json (webhook_channel e) secret),
                    publish_call sv cl 5 ''webhook.changed'' i (channel_event i s)
                      (publish_call sv cl 4 ''notification.changed'' i (provider_event i s ''WEBHOOK'')
                        (audit_call cl 3 ''webhook.create'' i (put_store st g)))))))"

definition create_bark :: "'c server \<Rightarrow> call \<Rightarrow> channel_request \<Rightarrow> 'c handler" where
  "create_bark sv cl rq g =
     (let device = trim_space (cn_device rq) in
      if device = [] then (write_error 400 ''deviceKey is required for Bark channel'', g)
      else (case create_bark_channel (gs_vault sv) (gs_store_keys sv) (cl_fresh cl 1) (cl_fresh cl 0) (cl_now cl 0)
                   (cn_name rq) device (cn_bark rq) (gw_store g) of
              (Inl e, st) \<Rightarrow> (write_error 400 (err_text e), put_store st g)
            | (Inr c, st) \<Rightarrow>
                (write_json 201 (channel_json c []),
                 publish_call sv cl 4 ''notification.changed'' (ch_id c) (provider_event (ch_id c) (ep_status_text (ch_status c)) ''BARK'')
                   (audit_call cl 3 ''notification_channel.create'' (ch_id c) (put_store st g)))))"

definition create_channel :: "'c server \<Rightarrow> call \<Rightarrow> 'c handler" where
  "create_channel sv cl g =
     (case decode_strict (gs_codec sv) [''provider'', ''name'', ''url'', ''deviceKey'', ''barkConfig''] (cl_req cl) of
        (Inl w, _) \<Rightarrow> (w, g)
      | (Inr fs, _) \<Rightarrow>
          (case channel_request_of fs of
             None \<Rightarrow> (bad_json, g)
           | Some rq \<Rightarrow>
               if cn_name rq = [] then (write_error 400 ''name is required'', g)
               else if cn_provider rq = ''WEBHOOK'' then create_webhook sv cl rq g
               else if cn_provider rq = ''BARK'' then create_bark sv cl rq g
               else (write_error 400 ''invalid provider: must be WEBHOOK or BARK'', g)))"

definition update_channel_handler :: "'c server \<Rightarrow> call \<Rightarrow> 'c handler" where
  "update_channel_handler sv cl g =
     (case decode_strict (gs_codec sv) [''expectedRevision'', ''name'', ''url'', ''barkConfig''] (cl_req cl) of
        (Inl w, _) \<Rightarrow> (w, g)
      | (Inr fs, _) \<Rightarrow>
          (case (int_field ''expectedRevision'' fs, str_field ''name'' fs, str_field ''url'' fs, bark_object fs) of
             (Some r, Some name, Some url, Some b) \<Rightarrow>
               (let i = cl_param cl ''id'' in
                case update_channel (gs_net sv) (cl_now cl 0) i r name url b (gw_store g) of
                  (Inl e, st) \<Rightarrow>
                    ((if errors_is e ErrRevisionConflict then write_error 409 (err_text e)
                      else if errors_is e ErrNoRows then write_error 404 ''channel_not_found''
                      else write_error 400 (err_text e)), put_store st g)
                | (Inr c, st) \<Rightarrow>
                    (let s = ep_status_text (ch_status c);
                         g1 = publish_call sv cl 2 ''notification.changed'' i (provider_event i s (ch_provider c))
                                (audit_call cl 1 ''notification_channel.update'' i (put_store st g))
                     in (write_json 200 (channel_json c []),
                         if ch_provider c = ''WEBHOOK'' then publish_call sv cl 3 ''webhook.changed'' i (channel_event i s) g1
                         else g1)))
           | _ \<Rightarrow> (bad_json, g)))"

definition toggle_channel :: "'c server \<Rightarrow> call \<Rightarrow> 'c handler" where
  "toggle_channel sv cl g =
     (let i = cl_param cl ''id''; s = action_status (cl_param cl ''action'') in
      case set_endpoint_status (cl_now cl 0) i s (gw_store g) of
        (Some e, st) \<Rightarrow>
          ((if errors_is e ErrNoRows then write_error 404 ''channel_not_found'' else write_error 400 (err_text e)), put_store st g)
      | (None, st) \<Rightarrow>
          (let provider = (case channel_by_id i st of Inl _ \<Rightarrow> [] | Inr c \<Rightarrow> ch_provider c)
           in (answer_status 200 (ep_status_text s),
               publish_call sv cl 3 ''webhook.changed'' i (channel_event i (ep_status_text s))
                 (publish_call sv cl 2 ''notification.changed'' i (provider_event i (ep_status_text s) provider)
                   (audit_call cl 1 (''notification_channel.'' @ status_word s) i (put_store st g))))))"

text \<open>\<open>rotateChannelSecret\<close> goes on when \<open>decode\<close> has answered with an error.\<close>

definition rotate_channel :: "'c server \<Rightarrow> call \<Rightarrow> 'c handler" where
  "rotate_channel sv cl g =
     (let i = cl_param cl ''id'';
          (decoded, fs) = decode_strict (gs_codec sv) [''deviceKey''] (cl_req cl);
          device = (case str_field ''deviceKey'' fs of None \<Rightarrow> [] | Some d \<Rightarrow> d);
          first = (case decoded of Inl w \<Rightarrow> Some w | Inr _ \<Rightarrow> if str_field ''deviceKey'' fs = None then Some bad_json else None);
          answer = (\<lambda>w. case first of None \<Rightarrow> w | Some w0 \<Rightarrow> answer_twice (gs_codec sv) w0 w)
      in case rotate_secret (gs_vault sv) (gs_store_keys sv) (cl_fresh cl 2) (cl_fresh cl 1) (cl_fresh cl 0) (cl_now cl 0) i device
                (gw_store g) of
           ((Some e, _), st) \<Rightarrow>
             (answer (if errors_is e ErrNoRows then write_error 404 ''channel_not_found'' else write_error 400 (err_text e)), put_store st g)
         | ((None, secret), st) \<Rightarrow>
             (answer (if secret \<noteq> [] then write_json 200 (strs [(''secret'', secret), (''status'', ''ROTATED'')])
                      else answer_status 200 ''ROTATED''),
              publish_call sv cl 4 ''notification.changed'' i (strs [(''id'', i)])
                (audit_call cl 3 ''notification_channel.rotate_secret'' i (put_store st g))))"

section \<open>Test and replay\<close>

definition test_cooldown :: int where "test_cooldown = 5 * second"

definition sent_answer :: "send_result \<Rightarrow> string \<Rightarrow> web_response" where
  "sent_answer r m =
     (if rs_outcome r = Success
      then write_json 200 (json_map [(''status'', JStr ''DELIVERED''), (''latencyMs'', JInt (rs_latency r)), (''message'', JStr m)])
      else write_json 502 (json_map [(''status'', JStr ''FAILED''), (''code'', JStr (rs_pcode r)), (''error'', JStr (rs_error r))]))"

definition test_payload :: string where
  "test_payload =
     ''{\"bank\":\"ACB\",\"credit\":\"0\",\"debit\":\"0\",\"description\":\"Test Webhook Ping\",\"source\":\"TEST\"}''"

definition test_request :: "string \<Rightarrow> target \<Rightarrow> send_request" where
  "test_request i tg =
     \<lparr>rq_delivery = ''del_test_'' @ i, rq_event = ''evt_test_ping'', rq_type = credit_type, rq_target = tg,
      rq_payload = OpaqueJson test_payload, rq_attempt = 0\<rparr>"

definition send_test :: "'c server \<Rightarrow> call \<Rightarrow> channel \<Rightarrow> target \<Rightarrow> 'c handler" where
  "send_test sv cl c tg g =
     (let i = cl_param cl ''id''; audited = audit_call cl 1 ''notification_channel.test'' i g in
      if ch_provider c = ''BARK'' then
        (case gs_bark sv of
           None \<Rightarrow> (write_error 503 (''Bark server URL ch'' @ [CHR 0xC6, CHR 0xB0] @ ''a '' @ [CHR 0xC4, CHR 0x91, CHR 0xC6, CHR 0xB0, CHR 0xE1, CHR 0xBB, CHR 0xA3] @ ''c c'' @ [CHR 0xE1, CHR 0xBA, CHR 0xA5] @ ''u h'' @ [CHR 0xC3, CHR 0xAC] @ ''nh tr'' @ [CHR 0xC3, CHR 0xAA] @ ''n gateway''), g)
         | Some send \<Rightarrow> (sent_answer (send tg) (''Bark '' @ [CHR 0xC4, CHR 0x91, CHR 0xC3, CHR 0xA3] @ '' ch'' @ [CHR 0xE1, CHR 0xBA, CHR 0xA5] @ ''p nh'' @ [CHR 0xE1, CHR 0xBA, CHR 0xAD] @ ''n th'' @ [CHR 0xC3, CHR 0xB4] @ ''ng b'' @ [CHR 0xC3, CHR 0xA1] @ ''o th'' @ [CHR 0xE1, CHR 0xBB, CHR 0xAD] @ '' '' @ [CHR 0xE2, CHR 0x80, CHR 0x94] @ '' h'' @ [CHR 0xC3, CHR 0xA3] @ ''y ki'' @ [CHR 0xE1, CHR 0xBB, CHR 0x83] @ ''m tra iPhone''), audited))
      else
        (case Option.bind (gs_senders sv) (\<lambda>f. f ''WEBHOOK'') of
           None \<Rightarrow> (write_json 200 (json_map [(''status'', JStr ''DELIVERED''), (''message'', JStr (''Th'' @ [CHR 0xC3, CHR 0xB4] @ ''ng b'' @ [CHR 0xC3, CHR 0xA1] @ ''o th'' @ [CHR 0xE1, CHR 0xBB, CHR 0xAD] @ '' '' @ [CHR 0xC4, CHR 0x91, CHR 0xC3, CHR 0xA3] @ '' '' @ [CHR 0xC4, CHR 0x91, CHR 0xC6, CHR 0xB0, CHR 0xE1, CHR 0xBB, CHR 0xA3] @ ''c g'' @ [CHR 0xE1, CHR 0xBB, CHR 0xAD] @ ''i''))]), g)
         | Some send \<Rightarrow> (sent_answer (send (test_request i tg)) (''Webhook endpoint '' @ [CHR 0xC4, CHR 0x91, CHR 0xC3, CHR 0xA3] @ '' nh'' @ [CHR 0xE1, CHR 0xBA, CHR 0xAD] @ ''n th'' @ [CHR 0xC3, CHR 0xB4] @ ''ng b'' @ [CHR 0xC3, CHR 0xA1] @ ''o th'' @ [CHR 0xE1, CHR 0xBB, CHR 0xAD] @ '' th'' @ [CHR 0xC3, CHR 0xA0] @ ''nh c'' @ [CHR 0xC3, CHR 0xB4] @ ''ng''), audited)))"

definition test_channel :: "'c server \<Rightarrow> call \<Rightarrow> 'c handler" where
  "test_channel sv cl g =
     (let i = cl_param cl ''id'' in
      if (case gw_tests g i of None \<Rightarrow> False | Some t \<Rightarrow> cl_now cl 0 - t < test_cooldown)
      then (write_error 429 (''vui l'' @ [CHR 0xC3, CHR 0xB2] @ ''ng '' @ [CHR 0xC4, CHR 0x91, CHR 0xE1, CHR 0xBB, CHR 0xA3] @ ''i v'' @ [CHR 0xC3, CHR 0xA0] @ ''i gi'' @ [CHR 0xC3, CHR 0xA2] @ ''y tr'' @ [CHR 0xC6, CHR 0xB0, CHR 0xE1, CHR 0xBB, CHR 0x9B] @ ''c khi g'' @ [CHR 0xE1, CHR 0xBB, CHR 0xAD] @ ''i th'' @ [CHR 0xE1, CHR 0xBB, CHR 0xAD] @ '' l'' @ [CHR 0xE1, CHR 0xBA, CHR 0xA1] @ ''i''), g)
      else (let g1 = g\<lparr>gw_tests := (gw_tests g)(i := Some (cl_now cl 0))\<rparr> in
            case channel_by_id i (gw_store g1) of
              Inl e \<Rightarrow> ((if errors_is e ErrNoRows then write_error 404 ''channel_not_found'' else write_error 500 ''storage_error''), g1)
            | Inr c \<Rightarrow>
                (case delivery_target (gs_vault sv) (gs_store_keys sv) [] (ch_id c) (ch_revision c) [] (gw_store g1) of
                   Inl e \<Rightarrow> (write_error 400 (''cannot decrypt channel target: '' @ err_text e), g1)
                 | Inr tg \<Rightarrow> send_test sv cl c tg g1)))"

definition replay_handler :: "'c server \<Rightarrow> call \<Rightarrow> 'c handler" where
  "replay_handler sv cl g =
     (let i = cl_param cl ''id'' in
      case replay_delivery i (cl_now cl 0) (gw_store g) of
        (Some e, st) \<Rightarrow>
          ((if errors_is e ErrDeliveryNotDeadLetter then write_error 409 (''ch'' @ [CHR 0xE1, CHR 0xBB, CHR 0x89] @ '' c'' @ [CHR 0xC3, CHR 0xB3] @ '' th'' @ [CHR 0xE1, CHR 0xBB, CHR 0x83] @ '' g'' @ [CHR 0xE1, CHR 0xBB, CHR 0xAD] @ ''i l'' @ [CHR 0xE1, CHR 0xBA, CHR 0xA1] @ ''i l'' @ [CHR 0xC6, CHR 0xB0, CHR 0xE1, CHR 0xBB, CHR 0xA3] @ ''t ph'' @ [CHR 0xC3, CHR 0xA2] @ ''n ph'' @ [CHR 0xE1, CHR 0xBB, CHR 0x91] @ ''i '' @ [CHR 0xE1, CHR 0xBB, CHR 0x9F] @ '' tr'' @ [CHR 0xE1, CHR 0xBA, CHR 0xA1] @ ''ng th'' @ [CHR 0xC3, CHR 0xA1] @ ''i DEAD_LETTER'')
            else if errors_is e ErrEndpointNotActive then write_error 400 (''k'' @ [CHR 0xC3, CHR 0xAA] @ ''nh th'' @ [CHR 0xC3, CHR 0xB4] @ ''ng b'' @ [CHR 0xC3, CHR 0xA1] @ ''o '' @ [CHR 0xC4, CHR 0x91] @ ''ang b'' @ [CHR 0xE1, CHR 0xBB, CHR 0x8B] @ '' t'' @ [CHR 0xE1, CHR 0xBA, CHR 0xAF] @ ''t, h'' @ [CHR 0xC3, CHR 0xA3] @ ''y b'' @ [CHR 0xE1, CHR 0xBA, CHR 0xAD] @ ''t k'' @ [CHR 0xC3, CHR 0xAA] @ ''nh tr'' @ [CHR 0xC6, CHR 0xB0, CHR 0xE1, CHR 0xBB, CHR 0x9B] @ ''c khi g'' @ [CHR 0xE1, CHR 0xBB, CHR 0xAD] @ ''i l'' @ [CHR 0xE1, CHR 0xBA, CHR 0xA1] @ ''i'')
            else if errors_is e ErrNoRows then write_error 404 ''delivery_not_found''
            else write_error 400 (err_text e)), put_store st g)
      | (None, st) \<Rightarrow>
          (let g1 = publish_call sv cl 2 ''delivery.changed'' i (channel_event i ''PENDING'')
                      (audit_call cl 1 ''delivery.replay'' i (put_store st g))
           in (answer_status 200 ''PENDING'', if gs_waker sv then g1\<lparr>gw_wakes := gw_wakes g1 + 1\<rparr> else g1)))"

end
