(* ===== verification/ApiVoice.thy ===== *)
theory ApiVoice
  imports Api Announce
begin

text \<open>
  \<open>src/internal/httpapi/voice.go\<close>: the voice settings, and the audio of a test, of a transaction, of a
  replayed one and of a summary.
\<close>

section \<open>Settings\<close>

definition get_voice_handler :: "'c handler" where
  "get_voice_handler g = (write_json 200 (voice_json (get_voice_settings (gw_store g))), g)"

definition update_voice_handler :: "'c server \<Rightarrow> call \<Rightarrow> 'c handler" where
  "update_voice_handler sv cl g =
     (case Option.bind (body_fields (gs_codec sv) (cl_req cl)) voice_fields of
        None \<Rightarrow> (bad_body, g)
      | Some v \<Rightarrow>
          (case save_voice_settings (cl_now cl 0) v (gw_store g) of
             (Inl e, st) \<Rightarrow>
               ((if errors_is e ErrVoiceSettingsConflict then write_error 409 ''voice settings modified by another operator''
                 else write_error 400 (err_text e)), put_store st g)
           | (Inr saved, st) \<Rightarrow>
               (write_json 200 (voice_json saved),
                publish_call sv cl 2 ''voice.settings.changed'' ''singleton'' (voice_json saved)
                  (audit_call cl 1 ''voice_settings.update'' (''rev_'' @ show_int (vo_revision saved)) (put_store st g)))))"

definition voice_status :: "'c server \<Rightarrow> 'c handler" where
  "voice_status sv g =
     (let v = get_voice_settings (gw_store g)
      in (write_json 200 (json_map
            [(''available'', JBool (gs_tts sv \<noteq> None)), (''primary'', JStr ''edge''), (''fallback'', JStr ''gtts''),
             (''providerMode'', JStr (vo_mode v)), (''edgeVoice'', JStr (vo_voice v)), (''onlineFallback'', JBool (vo_fallback v))]), g))"

section \<open>Audio\<close>

definition bool_text :: "bool \<Rightarrow> string" where "bool_text b = (if b then ''true'' else ''false'')"

definition audio_answer :: "synth_result \<Rightarrow> web_response" where
  "audio_answer r =
     \<lparr>ws_status = 200,
      ws_headers = [(''Content-Type'', ''audio/mpeg''), (''Cache-Control'', ''private, no-store''), (''X-Content-Type-Options'', ''nosniff''),
        (''X-TTS-Provider'', sy_provider r), (''X-TTS-Voice'', sy_voice r), (''X-TTS-Fallback'', bool_text (sy_fallback r)),
        (''X-TTS-Cached'', bool_text (sy_cached r))],
      ws_body = RawBody (sy_audio r)\<rparr>"

text \<open>A body that cannot be read is ignored; of one with a wrong field the others count.\<close>

definition lenient_fields :: "json_codec \<Rightarrow> web_request \<Rightarrow> (string \<times> json) list" where
  "lenient_fields jc r = (case body_fields jc r of None \<Rightarrow> [] | Some fs \<Rightarrow> fs)"

definition lenient_str :: "string \<Rightarrow> (string \<times> json) list \<Rightarrow> string" where
  "lenient_str k fs = (case str_field k fs of None \<Rightarrow> [] | Some s \<Rightarrow> s)"

definition lenient_bool :: "string \<Rightarrow> (string \<times> json) list \<Rightarrow> bool" where
  "lenient_bool k fs = (case bool_field k fs of None \<Rightarrow> False | Some b \<Rightarrow> b)"

definition known_voice :: "string \<Rightarrow> bool" where
  "known_voice v \<longleftrightarrow> v = ''vi-VN-HoaiMyNeural'' \<or> v = ''vi-VN-NamMinhNeural''"

text \<open>The end all audio handlers share: the settings decide the voice and the fallback, and browser-only mode refuses.\<close>

definition speak :: "json_codec \<Rightarrow> tts_client \<Rightarrow> voice_settings \<Rightarrow> string \<Rightarrow> string \<Rightarrow> bool \<Rightarrow> web_response" where
  "speak jc c v wanted phrase cacheable =
     (if vo_mode v = ''BROWSER_ONLY'' then write_error 422 ''provider_mode_browser_only''
      else (case synthesize jc c
                   \<lparr>sq_text = phrase, sq_voice = (if known_voice wanted then wanted else vo_voice v), sq_rate = [], sq_pitch = [],
                    sq_cacheable = cacheable,
                    sq_fallback = Some (vo_fallback v \<and> vo_mode v = ''ONLINE_AUTO''), sq_mode = vo_mode v\<rparr> of
              Inl e \<Rightarrow> write_error 502 (''tts_synthesis_failed: '' @ err_text e)
            | Inr r \<Rightarrow> audio_answer r))"

definition test_phrase :: string where
  "test_phrase = ([CHR 0xC4, CHR 0x90, CHR 0xC3, CHR 0xA3] @ '' b'' @ [CHR 0xE1, CHR 0xBA, CHR 0xAD] @ ''t '' @ [CHR 0xC4, CHR 0x91, CHR 0xE1, CHR 0xBB, CHR 0x8D] @ ''c giao d'' @ [CHR 0xE1, CHR 0xBB, CHR 0x8B] @ ''ch m'' @ [CHR 0xE1, CHR 0xBB, CHR 0x9B] @ ''i. B'' @ [CHR 0xE1, CHR 0xBA, CHR 0xA1] @ ''n v'' @ [CHR 0xE1, CHR 0xBB, CHR 0xAB] @ ''a nh'' @ [CHR 0xE1, CHR 0xBA, CHR 0xAD] @ ''n '' @ [CHR 0xC4, CHR 0x91, CHR 0xC6, CHR 0xB0, CHR 0xE1, CHR 0xBB, CHR 0xA3] @ ''c n'' @ [CHR 0xC4, CHR 0x83] @ ''m tr'' @ [CHR 0xC4, CHR 0x83] @ ''m ngh'' @ [CHR 0xC3, CHR 0xAC] @ ''n '' @ [CHR 0xC4, CHR 0x91, CHR 0xE1, CHR 0xBB, CHR 0x93] @ ''ng.'')"

definition test_audio :: "'c server \<Rightarrow> call \<Rightarrow> 'c handler" where
  "test_audio sv cl g =
     (case gs_tts sv of
        None \<Rightarrow> (write_error 503 ''tts_client_not_configured'', g)
      | Some c \<Rightarrow>
          (speak (gs_codec sv) c (get_voice_settings (gw_store g)) (lenient_str ''voiceId'' (lenient_fields (gs_codec sv) (cl_req cl)))
             test_phrase True, g))"

definition audio_age :: int where "audio_age = 5 * minute"

definition seen_long_ago :: "instant \<Rightarrow> txn_view \<Rightarrow> bool" where
  "seen_long_ago now x \<longleftrightarrow>
     tv_seen x \<noteq> [] \<and> (case parse_rfc3339 (tv_seen x) of None \<Rightarrow> False | Some t \<Rightarrow> now - t > audio_age)"

definition transaction_speech :: "'c server \<Rightarrow> call \<Rightarrow> tts_client \<Rightarrow> txn_view \<Rightarrow> store \<Rightarrow> web_response" where
  "transaction_speech sv cl c x st =
     (let fs = lenient_fields (gs_codec sv) (cl_req cl); described = lenient_bool ''includeDescription'' fs
      in speak (gs_codec sv) c (get_voice_settings st) (lenient_str ''voiceId'' fs)
           (credit_announcement (gs_unicode sv) (tv_credit x) (tv_desc x) described) (\<not> described))"

definition transaction_audio :: "'c server \<Rightarrow> call \<Rightarrow> 'c handler" where
  "transaction_audio sv cl g =
     (case gs_tts sv of
        None \<Rightarrow> (write_error 503 ''tts_client_not_configured'', g)
      | Some c \<Rightarrow>
          if cl_param cl ''id'' = [] then (write_error 400 ''transaction_id_required'', g)
          else (case transaction_by_id (cl_param cl ''id'') (gw_store g) of
                  Inl e \<Rightarrow> (write_error 404 ''transaction_not_found'', g)
                | Inr x \<Rightarrow>
                    if tv_credit x \<le> 0 then (write_error 422 ''voice_credit_zero_or_negative'', g)
                    else if tv_source x \<noteq> ''REALTIME'' then (write_error 422 ''voice_source_not_realtime'', g)
                    else if seen_long_ago (cl_now cl 0) x then (write_error 422 ''voice_event_expired'', g)
                    else (transaction_speech sv cl c x (gw_store g), g)))"

definition replay_audio :: "'c server \<Rightarrow> call \<Rightarrow> 'c handler" where
  "replay_audio sv cl g =
     (case gs_tts sv of
        None \<Rightarrow> (write_error 503 ''tts_client_not_configured'', g)
      | Some c \<Rightarrow>
          if cl_param cl ''id'' = [] then (write_error 400 ''transaction_id_required'', g)
          else (case transaction_by_id (cl_param cl ''id'') (gw_store g) of
                  Inl e \<Rightarrow> (write_error 404 ''transaction_not_found'', g)
                | Inr x \<Rightarrow>
                    if tv_credit x \<le> 0 then (write_error 422 ''voice_credit_zero_or_negative'', g)
                    else (transaction_speech sv cl c x (gw_store g), g)))"

section \<open>Summary\<close>

text \<open>The number and the wrapping sum of the realtime credits among the named transactions; one named twice counts twice.\<close>

fun summary_credits :: "store \<Rightarrow> string list \<Rightarrow> int \<times> int \<Rightarrow> int \<times> int" where
  "summary_credits st [] acc = acc"
| "summary_credits st (i # is) (n, s) =
     (case transaction_by_id i st of
        Inl e \<Rightarrow> summary_credits st is (n, s)
      | Inr x \<Rightarrow>
          if tv_credit x > 0 \<and> tv_source x = ''REALTIME'' then summary_credits st is (n + 1, wrap64 (s + tv_credit x))
          else summary_credits st is (n, s))"

definition summary_request :: "(string \<times> json) list \<Rightarrow> (string list \<times> string) option" where
  "summary_request fs =
     (case (Option.bind (list_field ''transactionIds'' fs) (\<lambda>l. all_some (map str_value l)), bool_field ''includeDescription'' fs,
            str_field ''voiceId'' fs) of
        (Some ids, Some _, Some v) \<Rightarrow> Some (ids, v)
      | _ \<Rightarrow> None)"

definition summary_audio :: "'c server \<Rightarrow> call \<Rightarrow> 'c handler" where
  "summary_audio sv cl g =
     (case gs_tts sv of
        None \<Rightarrow> (write_error 503 ''tts_client_not_configured'', g)
      | Some c \<Rightarrow>
          (case Option.bind (body_fields (gs_codec sv) (cl_req cl)) summary_request of
             None \<Rightarrow> (bad_body, g)
           | Some (ids, voice) \<Rightarrow>
               if length ids < 2 \<or> length ids > 50 then (write_error 400 ''transactionIds count must be between 2 and 50'', g)
               else (case summary_credits (gw_store g) ids (0, 0) of
                       (n, s) \<Rightarrow>
                         if n = 0 then (write_error 422 ''no_valid_realtime_credits_in_summary'', g)
                         else (speak (gs_codec sv) c (get_voice_settings (gw_store g)) voice (burst_announcement n s) True, g))))"

end
