(* ===== verification/ApiQr.thy ===== *)
theory ApiQr
  imports Api
begin

text \<open>
  The payment QR handlers of \<open>src/internal/httpapi/server.go\<close>, with the image files they write and remove.
  The multipart parser, the sniffing of the content type, the QR provider and the outcome of disk
  operations are parameters.
\<close>

section \<open>Reading\<close>

definition image_url :: "qr_row \<Rightarrow> string" where
  "image_url q = ''/api/v1/payment-qr/image?v='' @ show_int (qr_revision q)"

definition get_qr_handler :: "'c handler" where
  "get_qr_handler g =
     (case get_payment_qr [] (gw_store g) of
        Inl e \<Rightarrow> (write_error 500 ''failed to get payment qr'', g)
      | Inr None \<Rightarrow> (write_json 200 (json_map [(''configured'', JBool False)]), g)
      | Inr (Some q) \<Rightarrow>
          (write_json 200 (json_map [(''configured'', JBool True), (''qr'', qr_json q), (''hasImage'', JBool (qr_image q \<noteq> [])),
             (''imageURL'', JStr (image_url q))]), g))"

definition qr_dir :: "'c server \<Rightarrow> string" where
  "qr_dir sv = path_join (path_dir (cf_database (gs_cfg sv))) ''qr''"

definition qr_image_handler :: "'c server \<Rightarrow> 'c handler" where
  "qr_image_handler sv g =
     (case get_payment_qr [] (gw_store g) of
        Inr (Some q) \<Rightarrow>
          if qr_image q = [] then (write_error 404 ''payment qr image not found'', g)
          else (let file = path_clean (qr_image q)
                in case path_rel (path_clean (qr_dir sv)) file of
                     None \<Rightarrow> (write_error 403 ''invalid image path'', g)
                   | Some rel \<Rightarrow>
                       if has_prefix rel ''..'' then (write_error 403 ''invalid image path'', g)
                       else (case gw_files g file of
                               None \<Rightarrow> (write_error 404 ''qr image file missing'', g)
                             | Some dat \<Rightarrow>
                                 (\<lparr>ws_status = 200,
                                   ws_headers = [(''Content-Type'', if qr_type q = [] then ''image/png'' else qr_type q),
                                     (''ETag'', [CHR 0x22] @ qr_hash q @ [CHR 0x22]), (''Cache-Control'', ''private, max-age=3600'')],
                                   ws_body = RawBody dat\<rparr>, g)))
      | _ \<Rightarrow> (write_error 404 ''payment qr image not found'', g))"

section \<open>Saving\<close>

definition existing_qr :: "store \<Rightarrow> qr_row option" where
  "existing_qr st = (case get_payment_qr [] st of Inr q \<Rightarrow> q | Inl _ \<Rightarrow> None)"

definition new_qr :: "string \<Rightarrow> string \<Rightarrow> string \<Rightarrow> qr_row" where
  "new_qr number name provider =
     \<lparr>qr_id = [], qr_conn = [], qr_account = number, qr_name = name, qr_bin = [], qr_bank = [], qr_image = [], qr_hash = [],
      qr_type = [], qr_provider = provider, qr_revision = 0, qr_created = [], qr_updated = []\<rparr>"

definition account_request :: "json_codec \<Rightarrow> web_request \<Rightarrow> (string \<times> string) result" where
  "account_request jc r =
     (case body_fields jc r of
        None \<Rightarrow> Inl (ErrMsg ''invalid request body'')
      | Some fs \<Rightarrow>
          (case (str_field ''accountNumber'' fs, str_field ''accountName'' fs) of
             (Some n0, Some a0) \<Rightarrow>
               (let n = trim_space n0; a = trim_space a0
                in if n = [] \<or> a = [] then Inl (ErrMsg ''accountNumber and accountName are required'') else Inr (n, a))
           | _ \<Rightarrow> Inl (ErrMsg ''invalid request body'')))"

definition save_qr :: "call \<Rightarrow> qr_row \<Rightarrow> store \<Rightarrow> qr_row result \<times> store" where
  "save_qr cl q st = save_payment_qr (cl_fresh cl 0) (cl_now cl 1) q st"

definition save_qr_handler :: "'c server \<Rightarrow> call \<Rightarrow> 'c handler" where
  "save_qr_handler sv cl g =
     (case account_request (gs_codec sv) (cl_req cl) of
        Inl e \<Rightarrow> (write_error 400 (err_text e), g)
      | Inr (n, a) \<Rightarrow>
          (let q0 = new_qr n a ''UPLOAD'';
               q = (case existing_qr (gw_store g) of
                      None \<Rightarrow> q0
                    | Some x \<Rightarrow> q0\<lparr>qr_image := qr_image x, qr_hash := qr_hash x, qr_type := qr_type x, qr_provider := qr_provider x,
                                  qr_revision := qr_revision x\<rparr>)
           in case save_qr cl q (gw_store g) of
                (Inl e, st) \<Rightarrow> (write_error 400 (err_text e), put_store st g)
              | (Inr saved, st) \<Rightarrow>
                  (write_json 200 (qr_json saved), audit_call cl 1 ''payment_qr.save'' (qr_id saved) (put_store st g))))"

section \<open>Image files\<close>

definition image_type :: "string \<Rightarrow> bool" where
  "image_type t \<longleftrightarrow> has_prefix t ''image/png'' \<or> has_prefix t ''image/jpeg'' \<or> has_prefix t ''image/webp''"

text \<open>Writing under a temporary name and renaming; the error names the step that failed.\<close>

definition place_file :: "'c server \<Rightarrow> string \<Rightarrow> string \<Rightarrow> string \<Rightarrow> 'c gateway \<Rightarrow> bool option \<times> 'c gateway" where
  "place_file sv temp path dat g =
     (if \<not> di_write (gs_disk sv) temp then (Some False, g)
      else if \<not> di_rename (gs_disk sv) temp path then (Some True, g\<lparr>gw_files := (gw_files g)(temp := None)\<rparr>)
      else (None, g\<lparr>gw_files := (gw_files g)(temp := None, path := Some dat)\<rparr>))"

definition remove_file :: "string \<Rightarrow> 'c gateway \<Rightarrow> 'c gateway" where
  "remove_file path g = g\<lparr>gw_files := (gw_files g)(path := None)\<rparr>"

text \<open>An image that is not saved is removed, unless the stored setting uses the same file.\<close>

definition discard :: "qr_row option \<Rightarrow> string \<Rightarrow> 'c gateway \<Rightarrow> 'c gateway" where
  "discard existing path g = (if map_option qr_image existing \<noteq> Some path then remove_file path g else g)"

definition qr_saved :: "qr_row \<Rightarrow> web_response" where
  "qr_saved q = write_json 200 (json_map [(''status'', JStr ''OK''), (''qr'', qr_json q), (''imageURL'', JStr (image_url q))])"

definition upload_limit :: nat where "upload_limit = 2097152"

definition image_hash :: "'c server \<Rightarrow> string \<Rightarrow> string" where "image_hash sv dat = hex_encode (gs_sha sv dat)"

definition store_upload :: "'c server \<Rightarrow> call \<Rightarrow> upload \<Rightarrow> string \<Rightarrow> string \<Rightarrow> 'c handler" where
  "store_upload sv cl f dat path g =
     (let existing = existing_qr (gw_store g);
          n = trim_space (up_field f ''accountNumber''); a = trim_space (up_field f ''accountName'');
          keep = (\<lambda>s sel. if s = [] then (case existing of None \<Rightarrow> [] | Some x \<Rightarrow> sel x) else s);
          q = (new_qr (keep n qr_account) (keep a qr_name) ''UPLOAD'')
                \<lparr>qr_image := path, qr_hash := image_hash sv dat, qr_type := gs_sniff sv dat\<rparr>
      in if qr_account q = [] \<or> qr_name q = []
         then (write_error 400 ''accountNumber and accountName are required'', discard existing path g)
         else (case save_qr cl q (gw_store g) of
                 (Inl e, st) \<Rightarrow>
                   (write_error 500 (''failed to save payment qr: '' @ err_text e), discard existing path (put_store st g))
               | (Inr saved, st) \<Rightarrow> (qr_saved saved, audit_call cl 1 ''payment_qr.upload'' (qr_id saved) (put_store st g))))"

definition upload_qr_handler :: "'c server \<Rightarrow> call \<Rightarrow> 'c handler" where
  "upload_qr_handler sv cl g =
     (case (if length (wr_body (cl_req cl)) > upload_limit then None else gs_form sv (cl_req cl)) of
        None \<Rightarrow> (write_error 400 ''image too large (max 2MB)'', g)
      | Some f \<Rightarrow>
          (case up_image f of
             None \<Rightarrow> (write_error 400 ''image file is required'', g)
           | Some dat \<Rightarrow>
               (let t = gs_sniff sv dat;
                    ext = (if contains t ''jpeg'' then ''.jpg'' else if contains t ''webp'' then ''.webp'' else ''.png'');
                    path = path_join (qr_dir sv) (''qr_'' @ take 16 (image_hash sv dat) @ ext);
                    temp = path_join (qr_dir sv) (''.tmp_upload_'' @ show_int (cl_now cl 0))
                in if \<not> image_type t then (write_error 400 ''invalid image format: only PNG, JPEG and WebP allowed'', g)
                   else (case place_file sv temp path dat g of
                           (Some False, g1) \<Rightarrow> (write_error 500 ''failed to store image file'', g1)
                         | (Some True, g1) \<Rightarrow> (write_error 500 ''failed to move image file'', g1)
                         | (None, g1) \<Rightarrow> store_upload sv cl f dat path g1))))"

definition viet_qr_url :: "string \<Rightarrow> string \<Rightarrow> string" where
  "viet_qr_url n a =
     ''https://img.vietqr.io/image/970416-'' @ path_escape n @ ''-compact.png?accountName='' @ query_escape a"

text \<open>The generated image is removed when the save fails, also when the stored setting uses the same file.\<close>

definition generate_qr_handler :: "'c server \<Rightarrow> call \<Rightarrow> 'c handler" where
  "generate_qr_handler sv cl g =
     (case account_request (gs_codec sv) (cl_req cl) of
        Inl e \<Rightarrow> (write_error 400 (err_text e), g)
      | Inr (n, a) \<Rightarrow>
          (case gs_fetch sv (viet_qr_url n a) of
             Inr (status, got) \<Rightarrow>
               if status \<noteq> 200 then (write_error 502 ''failed to generate QR from VietQR provider'', g)
               else (case got of
                       None \<Rightarrow> (write_error 502 ''failed to read generated QR data'', g)
                     | Some dat \<Rightarrow>
                         if length dat > upload_limit then (write_error 502 ''failed to read generated QR data'', g)
                         else if \<not> image_type (gs_sniff sv dat)
                         then (write_error 502 ''invalid image received from VietQR provider'', g)
                         else
                           (let path = path_join (qr_dir sv) (''qr_gen_'' @ take 16 (image_hash sv dat) @ ''.png'');
                                temp = path_join (qr_dir sv) (''.tmp_gen_'' @ show_int (cl_now cl 0));
                                q = (new_qr n a ''VIETQR'')
                                      \<lparr>qr_image := path, qr_hash := image_hash sv dat, qr_type := gs_sniff sv dat\<rparr>
                            in case place_file sv temp path dat g of
                                 (Some False, g1) \<Rightarrow> (write_error 500 ''failed to save generated QR image'', g1)
                               | (Some True, g1) \<Rightarrow> (write_error 500 ''failed to move generated QR image'', g1)
                               | (None, g1) \<Rightarrow>
                                   (case save_qr cl q (gw_store g1) of
                                      (Inl e, st) \<Rightarrow>
                                        (write_error 500 (''failed to save qr: '' @ err_text e), remove_file path (put_store st g1))
                                    | (Inr saved, st) \<Rightarrow>
                                        (qr_saved saved, audit_call cl 1 ''payment_qr.generate'' (qr_id saved) (put_store st g1)))))
           | Inl _ \<Rightarrow> (write_error 502 ''failed to generate QR from VietQR provider'', g)))"

definition delete_qr_handler :: "call \<Rightarrow> 'c handler" where
  "delete_qr_handler cl g =
     (case delete_payment_qr [] (gw_store g) of
        (Some e, st) \<Rightarrow> (write_error 500 ''failed to delete payment qr'', put_store st g)
      | (None, st) \<Rightarrow> (answer_status 200 ''DELETED'', audit_call cl 1 ''payment_qr.delete'' ''singleton'' (put_store st g)))"

end
