(* ===== verification/Telemetry.thy ===== *)
theory Telemetry
  imports GoTime Web "HOL-Library.Multiset"
begin

text \<open>
  \<open>src/internal/telemetry/metrics.go\<close>: the counters and the windows of the last 1000 samples, kept in
  microseconds. The index of the percentile, computed with floating point numbers in the code, is the
  integer quotient for the at most 1000 samples of a window.
\<close>

record metrics =
  mt_ingest :: "int list"
  mt_sse :: "int list"
  mt_webhook :: "int list"
  mt_clients :: int
  mt_open :: bool
  mt_poll :: string
  mt_ingested :: nat
  mt_sent :: nat

definition new_metrics :: metrics where
  "new_metrics = \<lparr>mt_ingest = [], mt_sse = [], mt_webhook = [], mt_clients = 0, mt_open = False, mt_poll = [],
     mt_ingested = 0, mt_sent = 0\<rparr>"

definition sample_limit :: nat where "sample_limit = 1000"

definition add_sample :: "int \<Rightarrow> int list \<Rightarrow> int list" where
  "add_sample d xs = (if length xs \<ge> sample_limit then tl xs else xs) @ [d div 1000]"

definition record_ingest :: "int \<Rightarrow> metrics \<Rightarrow> metrics" where
  "record_ingest d m = m\<lparr>mt_ingested := mt_ingested m + 1, mt_ingest := add_sample d (mt_ingest m)\<rparr>"

definition record_sse :: "int \<Rightarrow> metrics \<Rightarrow> metrics" where
  "record_sse d m = m\<lparr>mt_sse := add_sample d (mt_sse m)\<rparr>"

text \<open>Without a flag a webhook counts as delivered.\<close>

definition record_webhook :: "int \<Rightarrow> bool list \<Rightarrow> metrics \<Rightarrow> metrics" where
  "record_webhook d delivered m =
     m\<lparr>mt_sent := (if delivered = [] \<or> hd delivered then mt_sent m + 1 else mt_sent m), mt_webhook := add_sample d (mt_webhook m)\<rparr>"

definition set_clients :: "int \<Rightarrow> metrics \<Rightarrow> metrics" where "set_clients n m = m\<lparr>mt_clients := n\<rparr>"

definition set_breaker :: "bool \<Rightarrow> metrics \<Rightarrow> metrics" where "set_breaker b m = m\<lparr>mt_open := b\<rparr>"

definition set_last_poll :: "instant \<Rightarrow> metrics \<Rightarrow> metrics" where "set_last_poll t m = m\<lparr>mt_poll := rfc3339 t\<rparr>"

definition percentile_index :: "nat \<Rightarrow> nat" where
  "percentile_index n = (let i = n * 95 div 100 in if i \<ge> n then n - 1 else i)"

definition calc_p95 :: "int list \<Rightarrow> int" where
  "calc_p95 xs = (if xs = [] then 0 else sort xs ! percentile_index (length xs))"

definition metrics_report :: "metrics \<Rightarrow> json" where
  "metrics_report m =
     JObj ([(''connectedClients'', JInt (mt_clients m)), (''circuitBreakerOpen'', JBool (mt_open m))]
       @ (if mt_poll m = [] then [] else [(''lastAcbPollAt'', JStr (mt_poll m))])
       @ [(''p95IngestMs'', JMs (calc_p95 (mt_ingest m))), (''p95SseMs'', JMs (calc_p95 (mt_sse m))),
          (''p95WebhookMs'', JMs (calc_p95 (mt_webhook m))), (''totalIngested'', JInt (int (mt_ingested m))),
          (''totalWebhooksSent'', JInt (int (mt_sent m)))])"

text \<open>A window never holds more than its limit; the percentile is one of the samples, and at least 95 in a hundred do not exceed it.\<close>

lemma add_sample_limit: "length xs \<le> sample_limit \<Longrightarrow> length (add_sample d xs) \<le> sample_limit"
  by (auto simp: add_sample_def sample_limit_def)

lemma percentile_index_less: "xs \<noteq> [] \<Longrightarrow> percentile_index (length xs) < length xs"
  by (cases xs) (auto simp: percentile_index_def Let_def)

lemma p95_covers:
  assumes "xs \<noteq> []"
  shows "calc_p95 xs \<in> set xs \<and> 95 * length xs \<le> 100 * length (filter (\<lambda>x. x \<le> calc_p95 xs) xs)"
proof -
  let ?s = "sort xs" and ?i = "percentile_index (length xs)"
  have i: "?i < length ?s" using percentile_index_less [OF assms] by simp
  have p: "calc_p95 xs = ?s ! ?i" using assms by (simp add: calc_p95_def)
  have le: "\<forall>x \<in> set (take (Suc ?i) ?s). x \<le> ?s ! ?i"
    using i by (auto simp: in_set_conv_nth sorted_nth_mono)
  have "Suc ?i = length (take (Suc ?i) ?s)" using i by simp
  also have "\<dots> = length (filter (\<lambda>x. x \<le> ?s ! ?i) (take (Suc ?i) ?s))" using le by (metis filter_True)
  also have "\<dots> \<le> length (filter (\<lambda>x. x \<le> ?s ! ?i) (take (Suc ?i) ?s @ drop (Suc ?i) ?s))"
    unfolding filter_append by simp
  also have "\<dots> = size (filter_mset (\<lambda>x. x \<le> ?s ! ?i) (mset xs))"
    by (metis append_take_drop_id mset_filter mset_sort size_mset)
  also have "\<dots> = length (filter (\<lambda>x. x \<le> ?s ! ?i) xs)" by (metis mset_filter size_mset)
  finally have "Suc ?i \<le> length (filter (\<lambda>x. x \<le> calc_p95 xs) xs)" using p by simp
  moreover have "95 * length xs \<le> 100 * Suc ?i" using assms by (cases xs) (auto simp: percentile_index_def Let_def)
  moreover have "calc_p95 xs \<in> set xs" using i p by (metis nth_mem set_sort)
  ultimately show ?thesis by simp
qed

end
