(* ===== verification/Routes.thy ===== *)
theory Routes
  imports ApiAuth ApiBank ApiChannels ApiVoice ApiQr Telemetry
begin

text \<open>
  The routes of \<open>New\<close> in \<open>src/internal/httpapi/server.go\<close>: the table of method, pattern, further roles and
  handler, the guard in front of it, and the static files. Which entry of the table a request selects
  is the router's work and a parameter.
\<close>

section \<open>The table\<close>

datatype route =
    RStatus | RCsrf | RConnection | REndpoints | RTransactions | RTransaction | REnsureHistory | RDeliveries | RPollRuns | RAudit
  | REvents | RRealtime | RGetMonitor | RPutMonitor | RGetQr | RQrImage | RSaveQr | RUploadQr | RGenerateQr | RDeleteQr
  | RGetVoice | RPutVoice | RVoiceStatus | RVoiceTest | RVoiceTxn | RVoiceReplay | RVoiceSummary
  | RConfigure | RConnectionAction | RStartAuth | RCurrentAuth | RCancelAuth | RAuthStatus | RScreen
  | RCreateEndpoint | REndpointAction | RProviders | RChannels | RCreateChannel | RUpdateChannel | RToggleChannel
  | RRotateSecret | RTestChannel | RReplay

definition staff :: "role list" where "staff = [Owner, Operator]"

definition owner_only :: "role list" where "owner_only = [Owner]"

text \<open>Method, pattern below \<open>/api/v1\<close>, the roles a second guard asks for (none: no second guard), handler.\<close>

definition api_routes :: "(string \<times> string \<times> role list option \<times> route) list" where
  "api_routes =
     [(''GET'', ''/status'', None, RStatus), (''GET'', ''/csrf'', None, RCsrf), (''GET'', ''/connection'', None, RConnection),
      (''GET'', ''/webhooks'', None, REndpoints), (''GET'', ''/transactions'', None, RTransactions),
      (''GET'', ''/transactions/{id}'', None, RTransaction), (''POST'', ''/transactions/ensure-history'', None, REnsureHistory),
      (''GET'', ''/deliveries'', None, RDeliveries), (''GET'', ''/poll-runs'', None, RPollRuns), (''GET'', ''/audit'', None, RAudit),
      (''GET'', ''/events'', None, REvents), (''GET'', ''/events/stream'', None, REvents),
      (''GET'', ''/realtime/status'', None, RRealtime), (''GET'', ''/monitor/settings'', None, RGetMonitor),
      (''PUT'', ''/monitor/settings'', Some staff, RPutMonitor), (''GET'', ''/payment-qr'', None, RGetQr),
      (''GET'', ''/payment-qr/image'', None, RQrImage), (''POST'', ''/payment-qr'', Some staff, RSaveQr),
      (''POST'', ''/payment-qr/upload'', Some staff, RUploadQr), (''POST'', ''/payment-qr/generate'', Some staff, RGenerateQr),
      (''DELETE'', ''/payment-qr'', Some staff, RDeleteQr), (''GET'', ''/voice/settings'', None, RGetVoice),
      (''PUT'', ''/voice/settings'', Some staff, RPutVoice), (''GET'', ''/voice/status'', None, RVoiceStatus),
      (''POST'', ''/voice/test'', None, RVoiceTest), (''POST'', ''/voice/transactions/{id}'', None, RVoiceTxn),
      (''POST'', ''/voice/transactions/{id}/replay'', None, RVoiceReplay), (''POST'', ''/voice/transactions/summary'', None, RVoiceSummary),
      (''POST'', ''/connection/configure'', Some owner_only, RConfigure),
      (''POST'', ''/connection/{action:pause|resume|sync}'', Some staff, RConnectionAction),
      (''POST'', ''/connection/auth/start'', Some owner_only, RStartAuth), (''GET'', ''/connection/auth/current'', Some owner_only, RCurrentAuth),
      (''POST'', ''/connection/auth/cancel'', Some owner_only, RCancelAuth),
      (''GET'', ''/connection/auth/{attemptID}/status'', Some owner_only, RAuthStatus),
      (''*'', ''/connection/auth/{attemptID}/screen/*'', Some owner_only, RScreen), (''POST'', ''/webhooks'', Some owner_only, RCreateEndpoint),
      (''POST'', ''/webhooks/{id}/{action:enable|disable}'', Some owner_only, REndpointAction),
      (''GET'', ''/notification-providers'', None, RProviders), (''GET'', ''/notification-channels'', None, RChannels),
      (''POST'', ''/notification-channels'', Some owner_only, RCreateChannel),
      (''PUT'', ''/notification-channels/{id}'', Some owner_only, RUpdateChannel),
      (''POST'', ''/notification-channels/{id}/{action:enable|disable}'', Some owner_only, RToggleChannel),
      (''POST'', ''/notification-channels/{id}/rotate-secret'', Some owner_only, RRotateSecret),
      (''POST'', ''/notification-channels/{id}/test'', Some owner_only, RTestChannel),
      (''POST'', ''/deliveries/{id}/replay'', Some owner_only, RReplay)]"

section \<open>Handling\<close>

text \<open>What a request is answered with: a response, an event stream, or a proxied screen.\<close>

datatype reply = Reply web_response | Streamed "sse_frame list" | Proxied string string | Static string "(string \<times> string) list"

text \<open>What a handler is given beyond the request: the snapshots and hints of a stream, the random token, the metrics.\<close>

record inputs =
  ip_reads :: "store list"
  ip_wakes :: "stream_wake list"
  ip_token :: string
  ip_metrics :: metrics

definition answer :: "web_response \<times> 'c gateway \<Rightarrow> reply \<times> 'c gateway" where
  "answer x = (Reply (fst x), snd x)"

definition handle :: "access_env \<Rightarrow> 'c server \<Rightarrow> inputs \<Rightarrow> call \<Rightarrow> route \<Rightarrow> 'c gateway \<Rightarrow> reply \<times> 'c gateway" where
  "handle ac sv ip cl rt g =
     (case rt of
        RStatus \<Rightarrow> answer (status_handler sv cl g)
      | RCsrf \<Rightarrow> (Reply (csrf_response ac (ip_token ip) (cl_req cl)), g)
      | RConnection \<Rightarrow> answer (connection_handler g)
      | REndpoints \<Rightarrow> answer (endpoints_handler g)
      | RTransactions \<Rightarrow> answer (transactions_handler cl g)
      | RTransaction \<Rightarrow> answer (transaction_detail cl g)
      | REnsureHistory \<Rightarrow> answer (ensure_handler sv cl g)
      | RDeliveries \<Rightarrow> answer (deliveries_handler cl g)
      | RPollRuns \<Rightarrow> answer (poll_runs_handler cl g)
      | RAudit \<Rightarrow> answer (audit_handler cl g)
      | REvents \<Rightarrow> (Streamed (fst (events_stream (gs_codec sv) (cl_req cl) (gw_store g) (ip_reads ip) (ip_wakes ip))), g)
      | RRealtime \<Rightarrow> (Reply (write_json 200 (metrics_report (set_clients (int (subscriber_count (gw_hub g))) (ip_metrics ip)))), g)
      | RGetMonitor \<Rightarrow> answer (get_settings_handler sv cl g)
      | RPutMonitor \<Rightarrow> answer (update_settings_handler sv cl g)
      | RGetQr \<Rightarrow> answer (get_qr_handler g)
      | RQrImage \<Rightarrow> answer (qr_image_handler sv g)
      | RSaveQr \<Rightarrow> answer (save_qr_handler sv cl g)
      | RUploadQr \<Rightarrow> answer (upload_qr_handler sv cl g)
      | RGenerateQr \<Rightarrow> answer (generate_qr_handler sv cl g)
      | RDeleteQr \<Rightarrow> answer (delete_qr_handler cl g)
      | RGetVoice \<Rightarrow> answer (get_voice_handler g)
      | RPutVoice \<Rightarrow> answer (update_voice_handler sv cl g)
      | RVoiceStatus \<Rightarrow> answer (voice_status sv g)
      | RVoiceTest \<Rightarrow> answer (test_audio sv cl g)
      | RVoiceTxn \<Rightarrow> answer (transaction_audio sv cl g)
      | RVoiceReplay \<Rightarrow> answer (replay_audio sv cl g)
      | RVoiceSummary \<Rightarrow> answer (summary_audio sv cl g)
      | RConfigure \<Rightarrow> answer (configure_handler sv cl g)
      | RConnectionAction \<Rightarrow> answer (connection_action sv cl g)
      | RStartAuth \<Rightarrow> answer (start_auth sv cl g)
      | RCurrentAuth \<Rightarrow> answer (current_auth sv cl g)
      | RCancelAuth \<Rightarrow> answer (cancel_auth sv cl g)
      | RAuthStatus \<Rightarrow> answer (auth_status sv cl g)
      | RScreen \<Rightarrow> ((case browser_screen sv cl (gw_store g) of Inl w \<Rightarrow> Reply w | Inr (h, p) \<Rightarrow> Proxied h p), g)
      | RCreateEndpoint \<Rightarrow> answer (create_endpoint_handler sv cl g)
      | REndpointAction \<Rightarrow> answer (endpoint_action sv cl g)
      | RProviders \<Rightarrow> answer (providers_handler sv g)
      | RChannels \<Rightarrow> answer (channels_handler g)
      | RCreateChannel \<Rightarrow> answer (create_channel sv cl g)
      | RUpdateChannel \<Rightarrow> answer (update_channel_handler sv cl g)
      | RToggleChannel \<Rightarrow> answer (toggle_channel sv cl g)
      | RRotateSecret \<Rightarrow> answer (rotate_channel sv cl g)
      | RTestChannel \<Rightarrow> answer (test_channel sv cl g)
      | RReplay \<Rightarrow> answer (replay_handler sv cl g))"

text \<open>
  \<open>spa\<close>: a file of the bundle, with long-lived caching below \<open>assets/\<close>, or the start page, never cached.
\<close>

definition not_found :: web_response where
  "not_found = \<lparr>ws_status = 404, ws_headers = [(''Content-Type'', ''text/plain; charset=utf-8'')], ws_body = RawBody (''404 page not found'' @ newline)\<rparr>"

definition spa :: "(string \<Rightarrow> bool) \<Rightarrow> web_request \<Rightarrow> reply" where
  "spa present r =
     (if wr_method r \<noteq> ''GET'' \<and> wr_method r \<noteq> ''HEAD'' then Reply not_found
      else (let p = trim_prefix (path_clean (wr_path r)) ''/''
            in if p \<noteq> ''.'' \<and> p \<noteq> [] \<and> present p
               then Static p (if has_prefix p ''assets/'' then [(''Cache-Control'', ''public, max-age=31536000, immutable'')] else [])
               else Static [] [(''Cache-Control'', ''no-cache, no-store, must-revalidate''), (''Pragma'', ''no-cache''), (''Expires'', ''0'')]))"

text \<open>
  The router: the entry of the table a request selects, with the parameters of the pattern. A guard
  is run with the verifier as it is at that moment, so the second one may see other keys.
\<close>

record router =
  ro_find :: "(string \<times> string) list \<Rightarrow> web_request \<Rightarrow> (nat \<times> (string \<Rightarrow> string)) option"
  ro_verifier :: "nat \<Rightarrow> (string \<Rightarrow> identity result) option"
  ro_alive :: bool
  ro_files :: "string \<Rightarrow> bool"

definition in_api :: "string \<Rightarrow> bool" where "in_api p \<longleftrightarrow> p = ''/api/v1'' \<or> has_prefix p ''/api/v1/''"

definition open_route :: "router \<Rightarrow> web_request \<Rightarrow> 'c gateway \<Rightarrow> reply \<times> 'c gateway" where
  "open_route ro r g =
     (if wr_method r = ''GET'' \<and> (wr_path r = ''/healthz'' \<or> wr_path r = ''/health'') then answer (health g)
      else if wr_method r = ''GET'' \<and> (wr_path r = ''/readyz'' \<or> wr_path r = ''/ready'') then answer (ready (ro_alive ro) g)
      else (spa (ro_files ro) r, g))"

definition api_patterns :: "(string \<times> string) list" where "api_patterns = map (\<lambda>(m, p, _). (m, p)) api_routes"

definition with_identity :: "web_request \<Rightarrow> (string \<Rightarrow> string) \<Rightarrow> identity \<times> role \<Rightarrow> call \<Rightarrow> call" where
  "with_identity r ps w cl = cl\<lparr>cl_req := r, cl_param := ps, cl_who := fst w, cl_role := snd w\<rparr>"

text \<open>A request to the interface: the guard for all roles, the route, its own guard, the handler.\<close>

definition serve ::
  "access_env \<Rightarrow> 'c server \<Rightarrow> router \<Rightarrow> inputs \<Rightarrow> call \<Rightarrow> web_request \<Rightarrow> 'c gateway \<Rightarrow> reply \<times> 'c gateway" where
  "serve ac sv ro ip cl r g =
     (if \<not> in_api (wr_path r) then open_route ro r g
      else (case require_roles ac (gs_cfg sv) (ro_verifier ro 0) err_text [Owner, Operator, Viewer] r of
              Inl w \<Rightarrow> (Reply w, g)
            | Inr who \<Rightarrow>
                (case ro_find ro api_patterns r of
                   None \<Rightarrow> (Reply not_found, g)
                 | Some (n, ps) \<Rightarrow>
                     if n \<ge> length api_routes then (Reply not_found, g)
                     else (case api_routes ! n of
                             (_, _, None, rt) \<Rightarrow> handle ac sv ip (with_identity r ps who cl) rt g
                           | (_, _, Some roles, rt) \<Rightarrow>
                               (case require_roles ac (gs_cfg sv) (ro_verifier ro 1) err_text roles r of
                                  Inl w \<Rightarrow> (Reply w, g)
                                | Inr who2 \<Rightarrow> handle ac sv ip (with_identity r ps who2 cl) rt g)))))"

text \<open>The headers of \<open>requestID\<close> and \<open>securityHeaders\<close> around it; a refused request has them as well.\<close>

definition answer_request ::
  "access_env \<Rightarrow> 'c server \<Rightarrow> router \<Rightarrow> inputs \<Rightarrow> call \<Rightarrow> web_request \<Rightarrow> 'c gateway \<Rightarrow> reply \<times> 'c gateway" where
  "answer_request ac sv ro ip cl r g =
     (case serve ac sv ro ip cl r g of
        (Reply w, g') \<Rightarrow> (Reply (with_base_headers (cl_id cl) r w), g')
      | (out, g') \<Rightarrow> (out, g'))"

section \<open>What a request may change\<close>

text \<open>The routes that work on the state; two of them answer to \<open>GET\<close>.\<close>

fun changes :: "route \<Rightarrow> bool" where
  "changes REnsureHistory = True" | "changes RPutMonitor = True" | "changes RSaveQr = True" | "changes RUploadQr = True"
| "changes RGenerateQr = True" | "changes RDeleteQr = True" | "changes RPutVoice = True" | "changes RConfigure = True"
| "changes RConnectionAction = True" | "changes RStartAuth = True" | "changes RCurrentAuth = True" | "changes RCancelAuth = True"
| "changes RAuthStatus = True" | "changes RCreateEndpoint = True" | "changes REndpointAction = True" | "changes RCreateChannel = True"
| "changes RUpdateChannel = True" | "changes RToggleChannel = True" | "changes RRotateSecret = True" | "changes RTestChannel = True"
| "changes RReplay = True" | "changes _ = False"

lemma read_only_handlers:
  "snd (status_handler sv cl g) = g" "snd (connection_handler g) = g" "snd (endpoints_handler g) = g"
  "snd (transactions_handler cl g) = g" "snd (transaction_detail cl g) = g" "snd (page_handler q v cl g) = g"
  "snd (get_settings_handler sv cl g) = g" "snd (get_qr_handler g) = g" "snd (qr_image_handler sv g) = g"
  "snd (get_voice_handler g) = g" "snd (voice_status sv g) = g" "snd (test_audio sv cl g) = g"
  "snd (transaction_audio sv cl g) = g" "snd (replay_audio sv cl g) = g" "snd (summary_audio sv cl g) = g"
  "snd (providers_handler sv g) = g" "snd (channels_handler g) = g"
  by (simp_all add: status_handler_def connection_handler_def endpoints_handler_def transactions_handler_def transaction_detail_def
      page_handler_def get_settings_handler_def get_qr_handler_def qr_image_handler_def get_voice_handler_def voice_status_def
      test_audio_def transaction_audio_def replay_audio_def summary_audio_def providers_handler_def channels_handler_def Let_def
      split: sum.splits option.splits prod.splits)

lemma handle_read_only: "\<not> changes rt \<Longrightarrow> snd (handle ac sv ip cl rt g) = g"
  by (cases rt) (simp_all add: handle_def answer_def read_only_handlers deliveries_handler_def poll_runs_handler_def audit_handler_def)

text \<open>The table: what changes the state stands behind a second guard without viewers, but for one route.\<close>

lemma table_guarded:
  "list_all (\<lambda>(m, p, roles, rt). changes rt \<longrightarrow> rt = REnsureHistory \<or> roles = Some staff \<or> roles = Some owner_only) api_routes"
  by (simp add: api_routes_def)

end
