(* ===== verification/Guard.thy ===== *)
theory Guard
  imports Routes DemoServer
begin

text \<open>
  What the routes and their guards give together: no change of the state without a permitted caller.
\<close>

text \<open>
  Property C37. Whatever the request, only a handler of the interface that is meant to can change the
  state, and only for a request that the guard let through: a viewer can change it only by asking for
  history, and a request that may come from another site, one whose method is not safe, only with the
  right origin and the CSRF token.
\<close>

theorem state_change_guarded:
  assumes "serve ac sv ro ip cl r g = (out, g')" and "g' \<noteq> g"
  shows "\<exists>i role rt. changes rt \<and> (\<exists>n roles. require_roles ac (gs_cfg sv) (ro_verifier ro n) err_text roles r = Inr (i, role))
    \<and> (role = Viewer \<longrightarrow> rt = REnsureHistory)
    \<and> (\<exists>cl'. cl_who cl' = i \<and> cl_role cl' = role \<and> handle ac sv ip cl' rt g = (out, g'))
    \<and> (safe_method (wr_method r) \<or> same_origin ac (gs_cfg sv) r \<and> csrf_valid r)"
proof -
  have api: "in_api (wr_path r)"
    using assms by (auto simp: serve_def open_route_def answer_def health_def ready_def split: if_splits)
  obtain who n ps where a: "require_roles ac (gs_cfg sv) (ro_verifier ro 0) err_text [Owner, Operator, Viewer] r = Inr who"
    "ro_find ro api_patterns r = Some (n, ps)" "n < length api_routes"
    using assms api by (auto simp: serve_def split: sum.splits option.splits if_splits)
  obtain m p roles rt where e: "api_routes ! n = (m, p, roles, rt)" by (metis prod_cases4)
  have tab: "changes rt \<longrightarrow> rt = REnsureHistory \<or> roles = Some staff \<or> roles = Some owner_only"
    using table_guarded nth_mem [OF a(3)] unfolding e list_all_iff by force
  obtain who' k rs where w: "require_roles ac (gs_cfg sv) (ro_verifier ro k) err_text rs r = Inr who'"
    "handle ac sv ip (with_identity r ps who' cl) rt g = (out, g')" "roles = None \<or> roles = Some rs"
  proof (cases roles)
    case None
    then show thesis using assms(1) api a e that [of 0 _ who] by (auto simp: serve_def)
  next
    case (Some rs)
    then show thesis using assms api a e that [of 1 rs] by (auto simp: serve_def split: sum.splits)
  qed
  have ch: "changes rt" using w(2) assms(2) by (metis handle_read_only snd_conv)
  obtain i role where who': "who' = (i, role)" by (cases who')
  have g: "role \<in> set rs" "safe_method (wr_method r) \<or> same_origin ac (gs_cfg sv) r \<and> csrf_valid r"
    using require_roles_Inr [OF w(1) [unfolded who']] by auto
  have v: "role = Viewer \<longrightarrow> rt = REnsureHistory"
    using tab ch w(3) g(1) by (auto simp: staff_def owner_only_def)
  have c: "\<exists>cl'. cl_who cl' = i \<and> cl_role cl' = role \<and> handle ac sv ip cl' rt g = (out, g')"
    using w(2) by (intro exI [of _ "with_identity r ps who' cl"] conjI) (simp_all add: with_identity_def who')
  have r: "\<exists>n roles. require_roles ac (gs_cfg sv) (ro_verifier ro n) err_text roles r = Inr (i, role)"
    using w(1) unfolding who' by (intro exI)
  show ?thesis by (rule exI [of _ i], rule exI [of _ role], rule exI [of _ rt], intro conjI) (fact ch r v c g(2))+
qed

text \<open>
  The owner of the small server tests a channel that does not exist: the request passes both guards
  and leaves the time of the test behind.
\<close>

definition demo_origin :: access_env where
  "demo_origin = demo_access\<lparr>ac_url := (\<lambda>_. Some \<lparr>u_scheme = ''https'', u_host = ''h'', u_user = False, u_query = [], u_fragment = []\<rparr>)\<rparr>"

definition demo_write :: web_request where
  "demo_write = \<lparr>wr_method = ''POST'', wr_path = ''/api/v1/notification-channels/x/test'', wr_host = ''h'', wr_tls = True,
     wr_header = (\<lambda>k. if k = ''Origin'' then ''https://h'' else if k = ''X-CSRF-Token'' then ''t'' else []),
     wr_cookie = (\<lambda>k. if k = ''tbg_csrf'' then Some ''t'' else None), wr_query = (\<lambda>_. []), wr_body = []\<rparr>"

definition demo_router :: router where
  "demo_router = \<lparr>ro_find = (\<lambda>_ _. Some (43, \<lambda>_. ''x'')), ro_verifier = (\<lambda>_. Some (development_verifier ''dev'')),
     ro_alive = True, ro_files = (\<lambda>_. False)\<rparr>"

definition demo_inputs :: inputs where
  "demo_inputs = \<lparr>ip_reads = [], ip_wakes = [], ip_token = [], ip_metrics = new_metrics\<rparr>"

lemma demo_write_passes:
  assumes "Owner \<in> set roles"
  shows "require_roles demo_origin demo_dev (ro_verifier demo_router k) err_text roles demo_write
    = Inr (\<lparr>id_email = [], id_subject = ''dev''\<rparr>, Owner)"
proof -
  have t: "trim_space ''https://h'' = ''https://h''" "trim_space ''t'' = ''t''" by code_simp+
  have u: "url_origin demo_origin s = Some (''https'', ''h'')" for s by (simp add: url_origin_def demo_origin_def)
  have m: "match_origin demo_origin ''https://h'' (''https'', ''h'')"
    by (simp add: match_origin_def t u fold_equal_def)
  have "effective_origin demo_origin demo_write = Some (''https'', ''h'')"
    by code_simp
  then have "same_origin demo_origin demo_dev demo_write"
    using m by (simp add: same_origin_def demo_write_def t)
  moreover have "csrf_valid demo_write" by (simp add: csrf_valid_def demo_write_def t)
  moreover have "identify (ac_unicode demo_origin) demo_dev (ro_verifier demo_router k) demo_write
      = Inr (\<lparr>id_email = [], id_subject = ''dev''\<rparr>, Owner)"
    by (simp add: identify_def demo_router_def development_verifier_def demo_dev_def role_of_def rbind_def)
  ultimately show ?thesis using assms by (simp add: require_roles_def)
qed

theorem state_change_guarded_witness:
  "\<exists>i role rt. changes rt \<and> same_origin demo_origin demo_dev demo_write
     \<and> (\<exists>n roles. require_roles demo_origin demo_dev (ro_verifier demo_router n) err_text roles demo_write = Inr (i, role))"
proof -
  let ?g = "demo_gateway empty_store"
  have cfg: "gs_cfg demo_server = demo_dev" by (simp add: demo_server_def)
  have rt: "length api_routes = 45" "api_routes ! 43 = (''POST'', ''/notification-channels/{id}/test'', Some owner_only, RTestChannel)"
    by (simp_all add: api_routes_def)
  have p: "in_api (wr_path demo_write)" "\<not> safe_method (wr_method demo_write)" by code_simp+
  have find: "ro_find demo_router ps r = Some (43, \<lambda>_. ''x'')" for ps r by (simp add: demo_router_def)
  define cl where "cl = with_identity demo_write (\<lambda>_. ''x'') (\<lparr>id_email = [], id_subject = ''dev''\<rparr>, Owner) demo_call"
  define out where "out = serve demo_origin demo_server demo_router demo_inputs demo_call demo_write ?g"
  have "out = handle demo_origin demo_server demo_inputs cl RTestChannel ?g"
    by (simp add: out_def serve_def p find cfg demo_write_passes owner_only_def rt cl_def)
  moreover have "cl_param cl ''id'' = ''x''" by (simp add: cl_def with_identity_def)
  moreover have "channel_by_id ''x'' empty_store = Inl e \<or> gw_tests ?g ''x'' = None" for e by (simp add: demo_gateway_def)
  ultimately have "gw_tests (snd out) ''x'' \<noteq> None"
    by (auto simp: handle_def answer_def test_channel_def demo_gateway_def send_test_def audit_call_def put_store_def Let_def
        split: sum.splits option.splits)
  then have "snd out \<noteq> ?g" by (auto simp: demo_gateway_def)
  moreover have "serve demo_origin demo_server demo_router demo_inputs demo_call demo_write ?g = (fst out, snd out)" by (simp add: out_def)
  ultimately show ?thesis using state_change_guarded p(2) unfolding cfg [symmetric] by blast
qed

end
