(* ===== verification/LoginPage.thy ===== *)
theory LoginPage
  imports Browser Url
begin

text \<open>
  \<open>src/cmd/auth-browser/main.go\<close>: when a page of the interactive browser counts as logged in, and what
  is handed over then. The environment, \<open>url.Parse\<close> and the Unicode tables are parameters; what the
  browser reports about its tabs and cookies is an input.
\<close>

section \<open>The bank's pages\<close>

text \<open>A parsed URL as the observer uses it; \<open>fold\<close> gives every orbit of \<open>strings.EqualFold\<close> a representative.\<close>

record page_url =
  pu_scheme :: string
  pu_host :: string
  pu_path :: string
  pu_query :: string

record page_env =
  pl_login_url :: string   \<comment> \<open>the environment variable \<open>ACB_LOGIN_URL\<close>\<close>
  pl_url :: "string \<Rightarrow> page_url option"
  pl_unicode :: unicode
  pl_fold :: "nat \<Rightarrow> nat"

definition page_fold :: "page_env \<Rightarrow> string \<Rightarrow> string \<Rightarrow> bool" where
  "page_fold pl s t \<longleftrightarrow> map (pl_fold pl) (runes s) = map (pl_fold pl) (runes t)"

definition page_lower :: "page_env \<Rightarrow> string \<Rightarrow> string" where
  "page_lower pl = utf_lower (pl_unicode pl)"

definition host_name :: "page_url \<Rightarrow> string" where "host_name u = fst (split_host_port (pu_host u))"

definition acb_login_url :: "page_env \<Rightarrow> string" where
  "acb_login_url pl =
     (let v = trim_space (pl_login_url pl) in if v \<noteq> [] then v else ''https://online.acb.com.vn/acbib/Request'')"

definition acb_host :: string where "acb_host = ''online.acb.com.vn''"

definition expected_host :: "page_env \<Rightarrow> string" where
  "expected_host pl =
     (case pl_url pl (acb_login_url pl) of
        None \<Rightarrow> acb_host | Some u \<Rightarrow> if host_name u \<noteq> [] then host_name u else acb_host)"

text \<open>\<open>isMatchingACBPageURL\<close>\<close>

definition expected_scheme :: "page_env \<Rightarrow> string" where
  "expected_scheme pl =
     (case pl_url pl (acb_login_url pl) of None \<Rightarrow> ''https'' | Some u \<Rightarrow> if pu_scheme u \<noteq> [] then pu_scheme u else ''https'')"

definition expected_path :: "page_env \<Rightarrow> string" where
  "expected_path pl =
     (case pl_url pl (acb_login_url pl) of
        None \<Rightarrow> ''/acbib'' | Some u \<Rightarrow> if pu_path u \<noteq> [] \<and> pu_path u \<noteq> ''/'' then pu_path u else ''/acbib'')"

definition matching_page :: "page_env \<Rightarrow> string \<Rightarrow> bool" where
  "matching_page pl raw =
     (case pl_url pl raw of
        None \<Rightarrow> False
      | Some u \<Rightarrow>
          (let path = page_lower pl (pu_path u)
           in page_fold pl (pu_scheme u) (expected_scheme pl)
              \<and> page_fold pl (host_name u) (expected_host pl)
              \<and> path \<noteq> [] \<and> path \<noteq> ''/'' \<and> path \<noteq> ''/login''
              \<and> (has_prefix path ''/acbib'' \<or> has_prefix path (page_lower pl (expected_path pl)))
              \<and> \<not> contains (page_lower pl (pu_query u)) ''obkloginop''))"

section \<open>Cookies\<close>

text \<open>A cookie as the browser reports it; its expiry in nanoseconds, not positive for a session cookie.\<close>

record net_cookie =
  nc_name :: string
  nc_value :: string
  nc_domain :: string
  nc_path :: string
  nc_expires :: int
  nc_secure :: bool
  nc_http_only :: bool

definition acb_cookie_domain :: "page_env \<Rightarrow> string \<Rightarrow> bool" where
  "acb_cookie_domain pl domain =
     (let d = page_lower pl (trim_prefix domain ''.''); h = expected_host pl
      in d \<noteq> [] \<and> (h \<noteq> [] \<and> (d = h \<or> has_suffix d (''.'' @ h)) \<or> d = ''online.acb.com.vn'' \<or> d = ''acb.com.vn'' \<or> has_suffix d ''.acb.com.vn''))"

definition valid_acb_cookie :: "page_env \<Rightarrow> net_cookie \<Rightarrow> bool" where
  "valid_acb_cookie pl c \<longleftrightarrow> trim_space (nc_name c) \<noteq> [] \<and> trim_space (nc_value c) \<noteq> [] \<and> acb_cookie_domain pl (nc_domain c)"

definition filter_acb_cookies :: "page_env \<Rightarrow> net_cookie list \<Rightarrow> net_cookie list" where
  "filter_acb_cookies pl cs = filter (valid_acb_cookie pl) cs"

definition handed_cookie :: "net_cookie \<Rightarrow> cookie" where
  "handed_cookie c =
     \<lparr>ck_name = nc_name c, ck_value = nc_value c, ck_domain = nc_domain c, ck_path = nc_path c,
      ck_expires = (if nc_expires c > 0 then rfc3339 (nc_expires c) else []), ck_secure = nc_secure c, ck_http_only = nc_http_only c\<rparr>"

section \<open>Signals and forms\<close>

record dom_signals =
  ds_logout :: bool
  ds_overview :: bool
  ds_welcome :: bool
  ds_processor :: bool
  ds_state :: bool
  ds_password :: bool
  ds_captcha :: bool
  ds_otp :: bool
  ds_login :: bool

definition no_signals :: dom_signals where
  "no_signals = \<lparr>ds_logout = False, ds_overview = False, ds_welcome = False, ds_processor = False, ds_state = False,
     ds_password = False, ds_captcha = False, ds_otp = False, ds_login = False\<rparr>"

definition positive_count :: "dom_signals \<Rightarrow> nat" where
  "positive_count s =
     (let count = (\<lambda>b. if b then 1 else 0)
      in count (ds_logout s) + count (ds_overview s) + count (ds_welcome s) + count (ds_processor s) + count (ds_state s))"

definition is_authenticated :: "dom_signals \<Rightarrow> bool" where
  "is_authenticated s =
     (if ds_password s \<or> ds_captcha s \<or> ds_otp s \<or> ds_login s then False
      else if \<not> ds_logout s then False
      else if \<not> ds_overview s \<and> \<not> ds_welcome s \<and> \<not> ds_processor s then False
      else if positive_count s < 2 then False
      else True)"

text \<open>The count of the last test never decides: the tests before it leave two signals.\<close>

lemma is_authenticated_iff:
  "is_authenticated s \<longleftrightarrow> \<not> ds_password s \<and> \<not> ds_captcha s \<and> \<not> ds_otp s \<and> \<not> ds_login s \<and> ds_logout s
     \<and> (ds_overview s \<or> ds_welcome s \<or> ds_processor s)"
  by (auto simp: is_authenticated_def positive_count_def Let_def)

record browser_form =
  bf_action :: string
  bf_fields :: "(string \<times> string) list"

definition no_form :: browser_form where "no_form = \<lparr>bf_action = [], bf_fields = []\<rparr>"

definition form_field :: "browser_form \<Rightarrow> string \<Rightarrow> string" where
  "form_field f k = (case map_of (bf_fields f) k of None \<Rightarrow> [] | Some v \<Rightarrow> v)"

definition valid_history_form :: "browser_form \<Rightarrow> bool" where
  "valid_history_form f =
     (if bf_action f = [] \<or> form_field f ''dse_sessionId'' = [] \<or> form_field f ''dse_processorState'' = [] then False
      else if form_field f ''dse_operationName'' = ''ibkacctSumProc'' then False
      else if form_field f ''dse_operationName'' \<noteq> [] \<and> form_field f ''dse_operationName'' \<noteq> ''ibkacctDetailProc'' then False
      else if form_field f ''dse_operationName'' = ''ibkacctDetailProc'' \<and> form_field f ''AccountNbr'' = [] then False
      else True)"

definition authenticated_acb :: "page_env \<Rightarrow> string \<Rightarrow> dom_signals \<Rightarrow> net_cookie list \<Rightarrow> bool" where
  "authenticated_acb pl location s cs =
     (if \<not> matching_page pl location then False
      else if \<not> is_authenticated s then False
      else filter_acb_cookies pl cs \<noteq> [])"

definition waiting_reason :: "dom_signals \<Rightarrow> net_cookie list \<Rightarrow> string" where
  "waiting_reason s cs =
     (if cs = [] then ''waiting for valid ACB session cookies''
      else if ds_password s \<or> ds_login s then ''login form currently visible''
      else if ds_otp s then ''OTP challenge currently visible''
      else if ds_captcha s then ''CAPTCHA challenge currently visible''
      else if \<not> ds_logout s then ''waiting for logout element in page DOM''
      else if \<not> ds_overview s \<and> \<not> ds_welcome s \<and> \<not> ds_processor s
      then ''waiting for authenticated account or welcome DOM signals''
      else if positive_count s < 2 then ''waiting for multiple positive post-login DOM signals''
      else ''waiting for user authentication'')"

section \<open>Looking at the browser\<close>

text \<open>A tab with what the two scripts give in it; a script that fails gives nothing.\<close>

record tab =
  tb_type :: string
  tb_url :: string
  tb_signals :: "dom_signals option"
  tb_form :: "browser_form option"

record sighting =
  si_url :: string
  si_signals :: dom_signals
  si_cookies :: "net_cookie list"
  si_form :: browser_form
  si_reason :: string

text \<open>
  The first tab that is logged in and shows the form of the history; else the last one that was looked
  at, with the last signals that could be read.
\<close>

fun scan_tabs :: "page_env \<Rightarrow> net_cookie list \<Rightarrow> tab list \<Rightarrow> string \<Rightarrow> dom_signals \<Rightarrow> sighting" where
  "scan_tabs pl cs [] url s =
     \<lparr>si_url = url, si_signals = s, si_cookies = cs, si_form = no_form,
      si_reason = (if is_authenticated s then ''waiting for authenticated ACB form state'' else waiting_reason s cs)\<rparr>"
| "scan_tabs pl cs (t # ts) url s =
     (case tb_signals t of
        None \<Rightarrow> scan_tabs pl cs ts (tb_url t) s
      | Some s' \<Rightarrow>
          (let f = (case tb_form t of None \<Rightarrow> no_form | Some f \<Rightarrow> f)
           in if authenticated_acb pl (tb_url t) s' cs \<and> valid_history_form f
              then \<lparr>si_url = tb_url t, si_signals = s', si_cookies = cs, si_form = f, si_reason = []\<rparr>
              else scan_tabs pl cs ts (tb_url t) s'))"

text \<open>\<open>browserLoginState\<close>: the tabs and the cookies, absent when the browser does not answer.\<close>

definition nothing_seen :: "string \<Rightarrow> sighting" where
  "nothing_seen reason = \<lparr>si_url = [], si_signals = no_signals, si_cookies = [], si_form = no_form, si_reason = reason\<rparr>"

definition browser_login_state :: "page_env \<Rightarrow> tab list option \<Rightarrow> net_cookie list option \<Rightarrow> sighting result" where
  "browser_login_state pl tabs cookies =
     (case tabs of
        None \<Rightarrow> Inl (ErrMsg ''failed to get browser targets'')
      | Some ts \<Rightarrow>
          (let ms = filter (\<lambda>t. tb_type t = ''page'' \<and> matching_page pl (tb_url t)) ts
           in if ms = [] then Inr (nothing_seen ''no matching ACB page target found'')
              else (case cookies of
                      None \<Rightarrow> Inl (ErrMsg ''failed to read browser cookies'')
                    | Some cs \<Rightarrow> Inr (scan_tabs pl (filter_acb_cookies pl cs) ms [] no_signals))))"

text \<open>\<open>encodeHandoff\<close>\<close>

definition encode_page ::
  "page_env \<Rightarrow> handoff_json \<Rightarrow> string \<Rightarrow> string \<Rightarrow> net_cookie list \<Rightarrow> browser_form \<Rightarrow> string result" where
  "encode_page pl js nonce url cs f =
     (if \<not> matching_page pl url then Inl (ErrMsg ''invalid authenticated ACB URL'')
      else if filter_acb_cookies pl cs = [] then Inl (ErrMsg ''no valid ACB cookies to hand off'')
      else encode_handoff js
             \<lparr>ho_version = 1, ho_url = url, ho_action = bf_action f, ho_fields = bf_fields f,
              ho_cookies = map handed_cookie (filter_acb_cookies pl cs)\<rparr> nonce)"

text \<open>One look of the observer: what it would hand over.\<close>

definition observe_page ::
  "page_env \<Rightarrow> handoff_json \<Rightarrow> string \<Rightarrow> tab list option \<Rightarrow> net_cookie list option \<Rightarrow> string option" where
  "observe_page pl js nonce tabs cookies =
     (case browser_login_state pl tabs cookies of
        Inl e \<Rightarrow> None
      | Inr x \<Rightarrow>
          if \<not> authenticated_acb pl (si_url x) (si_signals x) (si_cookies x) \<or> \<not> valid_history_form (si_form x) then None
          else (case encode_page pl js nonce (si_url x) (si_cookies x) (si_form x) of Inl e \<Rightarrow> None | Inr h \<Rightarrow> Some h))"

section \<open>Properties\<close>

text \<open>What is handed over was taken from a page that is logged in, and reads back as what it was.\<close>

definition handoff_of :: "page_env \<Rightarrow> sighting \<Rightarrow> handoff" where
  "handoff_of pl x =
     \<lparr>ho_version = 1, ho_url = si_url x, ho_action = bf_action (si_form x), ho_fields = bf_fields (si_form x),
      ho_cookies = map handed_cookie (filter_acb_cookies pl (si_cookies x))\<rparr>"

lemma observe_pageE:
  assumes "observe_page pl js nonce tabs cookies = Some h"
  obtains x where "browser_login_state pl tabs cookies = Inr x" "matching_page pl (si_url x)" "is_authenticated (si_signals x)"
    "filter_acb_cookies pl (si_cookies x) \<noteq> []" "valid_history_form (si_form x)" "encode_handoff js (handoff_of pl x) nonce = Inr h"
  using assms
  by (auto simp: observe_page_def authenticated_acb_def encode_page_def handoff_of_def split: sum.splits if_splits)

text \<open>The law of the JSON codec for a handoff: it reads back what it wrote, which is not empty.\<close>

definition codec_reads :: "handoff_json \<Rightarrow> handoff \<Rightarrow> bool" where
  "codec_reads js h \<longleftrightarrow> hj_read js (hj_text js h) = Some h \<and> hj_text js h \<noteq> []"

lemma handoff_reads_back:
  assumes "codec_reads js (handoff_of pl x)" "encode_handoff js (handoff_of pl x) nonce = Inr h"
  shows "decode_handoff js h = Inr (handoff_of pl x)"
proof -
  have v: "(handoff_of pl x)\<lparr>ho_version := 1\<rparr> = handoff_of pl x" by (simp add: handoff_of_def)
  show ?thesis
    using handoff_framed [OF assms(2)] assms(1) by (simp add: v codec_reads_def)
qed

text \<open>Every page that is looked at is one of the bank, unless none was.\<close>

lemma scan_tabs_url: "si_url (scan_tabs pl cs ts url s) \<in> insert url (tb_url ` set ts)"
  by (induction pl cs ts url s rule: scan_tabs.induct) (auto split: option.splits simp: Let_def)

end
