(* ===== verification/LoginDom.thy ===== *)
theory LoginDom
  imports LoginPage
begin

text \<open>
  The two scripts that \<open>src/cmd/auth-browser/main.go\<close> runs in the page: \<open>acbDOMCheckScript\<close> and
  \<open>acbHistoryFormScript\<close>. An element is what the scripts read of it; a property whose reading as text
  throws is absent, and an exception ends the block it is thrown in. Lower-casing is a parameter.
\<close>

section \<open>Elements\<close>

text \<open>The computed style and the box of an element, as \<open>isVisible\<close> reads them.\<close>

record el_style =
  es_display :: string
  es_visibility :: string
  es_opacity :: string
  es_position :: string
  es_offset_parent :: bool
  es_width :: int
  es_height :: int

record element =
  el_tag :: string
  el_attr :: "string \<Rightarrow> string option"
  el_text :: "string option"    \<comment> \<open>\<open>textContent || ''\<close>\<close>
  el_value :: "string option"   \<comment> \<open>\<open>value || ''\<close>\<close>
  el_id :: "string option"      \<comment> \<open>\<open>id || ''\<close>\<close>
  el_class :: "string option"   \<comment> \<open>\<open>className\<close>, absent when it is no text\<close>
  el_kids :: nat
  el_style :: "el_style option" \<comment> \<open>absent when computing it throws or gives nothing\<close>

definition is_visible :: "element \<Rightarrow> bool" where
  "is_visible e =
     (case el_style e of
        None \<Rightarrow> False
      | Some s \<Rightarrow>
          if es_display s = ''none'' \<or> es_visibility s = ''hidden'' \<or> es_opacity s = ''0'' then False
          else if \<not> es_offset_parent s \<and> es_position s \<noteq> ''fixed'' then False
          else es_width s > 0 \<and> es_height s > 0)"

text \<open>The white space of \<open>String.prototype.trim\<close>: that of Go without U+0085 and with U+FEFF.\<close>

definition js_space_runes :: "string list" where
  "js_space_runes = [CHR 0xEF, CHR 0xBB, CHR 0xBF] # filter (\<lambda>s. s \<noteq> [CHR 0xC2, CHR 0x85]) space_runes"

definition js_trim :: "string \<Rightarrow> string" where
  "js_trim s = rev (drop_lead (map rev js_space_runes) (rev (drop_lead js_space_runes s)))"

text \<open>\<open>length\<close> counts UTF-16 units.\<close>

definition js_length :: "string \<Rightarrow> nat" where
  "js_length s = sum_list (map (\<lambda>r. if r \<ge> 65536 then 2 else 1) (runes s))"

section \<open>Selectors\<close>

definition attr :: "element \<Rightarrow> string \<Rightarrow> string" where
  "attr e k = (case el_attr e k of None \<Rightarrow> [] | Some v \<Rightarrow> v)"

text \<open>\<open>[k="v"]\<close>, \<open>[k="v" i]\<close> and \<open>[k*="v" i]\<close>; the value of \<open>type\<close> is compared without case in HTML.\<close>

definition attr_eq :: "string \<Rightarrow> string \<Rightarrow> element \<Rightarrow> bool" where "attr_eq k v e \<longleftrightarrow> el_attr e k = Some v"

definition attr_eqi :: "string \<Rightarrow> string \<Rightarrow> element \<Rightarrow> bool" where
  "attr_eqi k v e \<longleftrightarrow> el_attr e k \<noteq> None \<and> to_lower (attr e k) = to_lower v"

definition attr_has :: "string \<Rightarrow> string \<Rightarrow> element \<Rightarrow> bool" where
  "attr_has k v e \<longleftrightarrow> el_attr e k \<noteq> None \<and> contains (to_lower (attr e k)) (to_lower v)"

definition tag_in :: "string list \<Rightarrow> element \<Rightarrow> bool" where "tag_in ts e \<longleftrightarrow> el_tag e \<in> set ts"

definition input_with :: "(element \<Rightarrow> bool) \<Rightarrow> element \<Rightarrow> bool" where "input_with p e \<longleftrightarrow> el_tag e = ''input'' \<and> p e"

section \<open>The signals\<close>

text \<open>A loop that stops at the first element that passes; an exception ends it and the block around it.\<close>

datatype search = Hit | Miss | Thrown

fun search_els :: "(element \<Rightarrow> bool option) \<Rightarrow> element list \<Rightarrow> search" where
  "search_els p [] = Miss"
| "search_els p (e # es) = (case p e of None \<Rightarrow> Thrown | Some True \<Rightarrow> Hit | Some False \<Rightarrow> search_els p es)"

text \<open>The loop over the elements of a selector, and the query that follows it when nothing was found.\<close>

definition look_for :: "(element \<Rightarrow> bool) \<Rightarrow> (element \<Rightarrow> bool option) \<Rightarrow> (element \<Rightarrow> bool) \<Rightarrow> element list \<Rightarrow> bool" where
  "look_for sel p query els =
     (case search_els p (filter sel els) of Hit \<Rightarrow> True | Thrown \<Rightarrow> False | Miss \<Rightarrow> list_ex query els)"

definition seldom :: "element \<Rightarrow> bool" where "seldom e = False"

definition has_any :: "string \<Rightarrow> string list \<Rightarrow> bool" where "has_any s ws \<longleftrightarrow> list_ex (contains s) ws"

definition logout_el :: "(string \<Rightarrow> string) \<Rightarrow> element \<Rightarrow> bool option" where
  "logout_el lower e =
     (if el_kids e > 2 then Some False
      else (case (el_text e, el_value e, el_id e) of
              (Some t, Some v, Some i) \<Rightarrow>
                (let text = lower (js_trim t); href = lower (attr e ''href''); click = lower (attr e ''onclick''); val = lower v
                 in Some (has_any text [([CHR 0xC4, CHR 0x91, CHR 0xC4, CHR 0x83] @ ''ng xu'' @ [CHR 0xE1, CHR 0xBA, CHR 0xA5] @ ''t''), ''dang xuat''] \<or> contains href ''logout'' \<or> contains click ''logout''
                          \<or> has_any val [([CHR 0xC4, CHR 0x91, CHR 0xC4, CHR 0x83] @ ''ng xu'' @ [CHR 0xE1, CHR 0xBA, CHR 0xA5] @ ''t''), ''dang xuat''] \<or> contains (lower i) ''logout''
                          \<or> contains href ''ibklogoutop'' \<or> contains click ''ibklogoutop''))
            | _ \<Rightarrow> None))"

definition has_logout :: "(string \<Rightarrow> string) \<Rightarrow> element list \<Rightarrow> bool" where
  "has_logout lower =
     look_for (\<lambda>e. tag_in [''a'', ''button'', ''span'', ''div''] e \<or> input_with (attr_eqi ''type'' ''button'') e
                 \<or> input_with (attr_eqi ''type'' ''submit'') e \<or> attr_eq ''role'' ''button'' e)
       (logout_el lower)
       (\<lambda>e. input_with (attr_has ''value'' ''ibkLogoutOp'') e \<or> attr_eq ''name'' ''dse_operationName'' e \<and> attr_has ''value'' ''ibkLogoutOp'' e)"

definition overview_el :: "(string \<Rightarrow> string) \<Rightarrow> element \<Rightarrow> bool option" where
  "overview_el lower e =
     (if el_kids e > 2 then Some False
      else (case (el_text e, el_id e) of
              (Some t, Some i0) \<Rightarrow>
                (let text = lower (js_trim t); href = lower (attr e ''href''); i = lower i0
                 in Some (has_any text [(''th'' @ [CHR 0xC3, CHR 0xB4] @ ''ng tin t'' @ [CHR 0xC3, CHR 0xA0] @ ''i kho'' @ [CHR 0xE1, CHR 0xBA, CHR 0xA3] @ ''n''), ''thong tin tai khoan'', (''t'' @ [CHR 0xE1, CHR 0xBB, CHR 0x95] @ ''ng quan''), ''tong quan'',
                            (''t'' @ [CHR 0xC3, CHR 0xA0] @ ''i kho'' @ [CHR 0xE1, CHR 0xBA, CHR 0xA3] @ ''n thanh to'' @ [CHR 0xC3, CHR 0xA1] @ ''n''), (''danh s'' @ [CHR 0xC3, CHR 0xA1] @ ''ch t'' @ [CHR 0xC3, CHR 0xA0] @ ''i kho'' @ [CHR 0xE1, CHR 0xBA, CHR 0xA3] @ ''n'')]
                          \<or> has_any href [''accountsummary'', ''accountoverview''] \<or> has_any i [''accountsummary'', ''accountoverview'']))
            | _ \<Rightarrow> None))"

definition has_overview :: "(string \<Rightarrow> string) \<Rightarrow> element list \<Rightarrow> bool" where
  "has_overview lower =
     look_for (\<lambda>e. tag_in [''a'', ''button'', ''h1'', ''h2'', ''h3'', ''h4'', ''span'', ''td'', ''th'', ''div''] e \<or> attr_eq ''role'' ''tab'' e)
       (overview_el lower)
       (\<lambda>e. attr_eqi ''name'' ''AccountNbr'' e \<or> attr_has ''id'' ''AccountNbr'' e \<or> el_tag e = ''select'' \<and> attr_has ''name'' ''account'' e)"

definition welcome_el :: "(string \<Rightarrow> string) \<Rightarrow> element \<Rightarrow> bool option" where
  "welcome_el lower e =
     (if el_kids e > 2 then Some False
      else (case el_text e of
              None \<Rightarrow> None
            | Some t \<Rightarrow>
                (let text = lower (js_trim t)
                 in if list_ex (has_prefix text) [(''xin ch'' @ [CHR 0xC3, CHR 0xA0] @ ''o''), ''xin chao'', (''ch'' @ [CHR 0xC3, CHR 0xA0] @ ''o m'' @ [CHR 0xE1, CHR 0xBB, CHR 0xAB] @ ''ng''), ''chao mung'', (''ch'' @ [CHR 0xC3, CHR 0xA0] @ ''o,''), ''chao,'', ''welcome'']
                    then Some True
                    else if (case el_class e of None \<Rightarrow> False | Some c \<Rightarrow> contains (lower c) ''welcome'') then Some True
                    else (case el_id e of None \<Rightarrow> None | Some i \<Rightarrow> Some (contains (lower i) ''welcome'')))))"

definition has_welcome :: "(string \<Rightarrow> string) \<Rightarrow> element list \<Rightarrow> bool" where
  "has_welcome lower =
     look_for (\<lambda>e. tag_in [''h1'', ''h2'', ''h3'', ''h4'', ''span'', ''p'', ''div''] e \<or> attr_has ''class'' ''welcome'' e
                 \<or> attr_has ''id'' ''welcome'' e \<or> attr_has ''class'' ''user'' e \<or> attr_has ''id'' ''user'' e)
       (welcome_el lower) seldom"

definition processor_el :: "(string \<Rightarrow> string) \<Rightarrow> element \<Rightarrow> bool option" where
  "processor_el lower e =
     (case el_value e of
        None \<Rightarrow> None
      | Some v \<Rightarrow> Some (contains (lower v) ''ibkacctdetailproc'' \<or> contains (lower (attr e ''action'')) ''ibkacctdetailproc''
                       \<or> contains (lower (attr e ''href'')) ''ibkacctdetailproc''))"

definition has_processor :: "(string \<Rightarrow> string) \<Rightarrow> element list \<Rightarrow> bool" where
  "has_processor lower =
     look_for (\<lambda>e. tag_in [''input'', ''form'', ''a''] e \<or> attr_eq ''name'' ''dse_operationName'' e) (processor_el lower) seldom"

definition has_processor_state :: "element list \<Rightarrow> bool" where
  "has_processor_state els \<longleftrightarrow>
     list_ex (\<lambda>e. input_with (attr_has ''name'' ''processorState'') e \<or> attr_eq ''name'' ''dse_processorState'' e
       \<or> attr_eq ''name'' ''dse_processorstate'' e) els"

definition shows_el :: "(element \<Rightarrow> bool) \<Rightarrow> element list \<Rightarrow> bool" where
  "shows_el sel els \<longleftrightarrow> list_ex (\<lambda>e. sel e \<and> is_visible e) els"

definition captcha_el :: "element \<Rightarrow> bool" where
  "captcha_el e \<longleftrightarrow>
     input_with (attr_has ''name'' ''captcha'') e \<or> input_with (attr_has ''id'' ''captcha'') e
     \<or> el_tag e = ''img'' \<and> attr_has ''src'' ''captcha'' e \<or> attr_has ''id'' ''captcha'' e \<or> attr_has ''class'' ''captcha'' e"

definition otp_el :: "element \<Rightarrow> bool" where
  "otp_el e \<longleftrightarrow>
     input_with (\<lambda>e. attr_has ''name'' ''otp'' e \<or> attr_has ''id'' ''otp'' e \<or> attr_has ''name'' ''safekey'' e \<or> attr_has ''id'' ''safekey'' e
       \<or> attr_has ''name'' ''authcode'' e \<or> attr_has ''id'' ''authcode'' e) e"

definition login_el :: "element \<Rightarrow> bool" where
  "login_el e \<longleftrightarrow>
     input_with (\<lambda>e. attr_eqi ''name'' ''username'' e \<or> attr_eqi ''name'' ''user'' e \<or> attr_eqi ''id'' ''username'' e \<or> attr_eqi ''id'' ''user'' e
       \<or> attr_has ''value'' ([CHR 0xC4, CHR 0x91, CHR 0xC4, CHR 0x83] @ ''ng nh'' @ [CHR 0xE1, CHR 0xBA, CHR 0xAD] @ ''p'') e \<or> attr_has ''value'' ''dang nhap'' e) e
     \<or> el_tag e = ''button'' \<and> attr_has ''id'' ''login'' e"

definition dom_check :: "(string \<Rightarrow> string) \<Rightarrow> element list \<Rightarrow> dom_signals" where
  "dom_check lower els =
     \<lparr>ds_logout = has_logout lower els, ds_overview = has_overview lower els, ds_welcome = has_welcome lower els,
      ds_processor = has_processor lower els, ds_state = has_processor_state els,
      ds_password = shows_el (input_with (attr_eqi ''type'' ''password'')) els, ds_captcha = shows_el captcha_el els,
      ds_otp = shows_el otp_el els,
      ds_login = (shows_el login_el els
        \<or> list_ex (input_with (\<lambda>e. attr_eq ''name'' ''dse_operationName'' e \<and> attr_has ''value'' ''obkloginop'' e)) els)\<rparr>"

section \<open>The form\<close>

record control =
  ct_name :: string
  ct_type :: string
  ct_checked :: bool
  ct_disabled :: bool
  ct_value :: string

record dom_form =
  df_action :: string
  df_controls :: "control list"

definition form_names :: "string list" where
  "form_names =
     [''dse_applicationId'', ''dse_operationName'', ''dse_pageId'', ''dse_processorState'', ''dse_errorPage'', ''dse_nextEventName'',
      ''dse_sessionId'', ''dse_processorId'', ''dse_processorIdForGenMenu'', ''AccountNbr'', ''virtualAccount'', ''storeName'',
      ''CheckRef'', ''EdtRef'', ''CheckDoiUng'', ''activeDatetimeYN'', ''FromDate'', ''ToDate'']"

definition control_counts :: "(string \<Rightarrow> string) \<Rightarrow> control \<Rightarrow> bool" where
  "control_counts lower c \<longleftrightarrow>
     ct_name c \<noteq> [] \<and> ct_name c \<in> set form_names \<and> \<not> ct_disabled c
     \<and> \<not> ((lower (ct_type c) = ''checkbox'' \<or> lower (ct_type c) = ''radio'') \<and> \<not> ct_checked c)"

definition extract_form_fields :: "(string \<Rightarrow> string) \<Rightarrow> control list \<Rightarrow> (string \<times> string) list" where
  "extract_form_fields lower cs = fold (\<lambda>c fs. AList.update (ct_name c) (ct_value c) fs) (filter (control_counts lower) cs) []"

definition has_field :: "(string \<times> string) list \<Rightarrow> string \<Rightarrow> bool" where
  "has_field fs k \<longleftrightarrow> (case map_of fs k of None \<Rightarrow> False | Some v \<Rightarrow> v \<noteq> [])"

definition script_score :: "(string \<times> string) list \<Rightarrow> nat" where
  "script_score fs =
     (if map_of fs ''dse_operationName'' = Some ''ibkacctDetailProc'' then 10 else 0) + (if has_field fs ''AccountNbr'' then 5 else 0)
     + (if has_field fs ''dse_processorId'' then 3 else 0) + (if has_field fs ''dse_sessionId'' then 2 else 0)
     + (if has_field fs ''dse_processorState'' then 1 else 0)"

text \<open>The first form with the highest score among those with a session or a processor state.\<close>

fun best_form :: "(string \<Rightarrow> string) \<Rightarrow> string \<Rightarrow> dom_form list \<Rightarrow> (nat \<times> browser_form) option \<Rightarrow> (nat \<times> browser_form) option" where
  "best_form lower here [] best = best"
| "best_form lower here (f # fs) best =
     (let xs = extract_form_fields lower (df_controls f); n = script_score xs;
          this = Some (n, \<lparr>bf_action = (if df_action f = [] then here else df_action f), bf_fields = xs\<rparr>)
      in if \<not> has_field xs ''dse_sessionId'' \<and> \<not> has_field xs ''dse_processorState'' then best_form lower here fs best
         else (case best of
                 None \<Rightarrow> best_form lower here fs this
               | Some (m, _) \<Rightarrow> best_form lower here fs (if n > m then this else best)))"

text \<open>
  The page as the script sees it: its address, forms, the value and text of the first account element,
  and whether there is a link to click on, for a page with and without a form.
\<close>

record page_dom =
  pd_here :: string
  pd_forms :: "dom_form list"
  pd_account :: "(string \<times> string) option"
  pd_card :: bool
  pd_link :: bool

definition account_of :: "page_dom \<Rightarrow> string option" where
  "account_of p =
     (case pd_account p of
        None \<Rightarrow> None
      | Some (v, t) \<Rightarrow>
          (let clean = js_trim (if v \<noteq> [] then v else t) in if clean \<noteq> [] \<and> js_length clean \<ge> 6 then Some clean else None))"

text \<open>The form, and whether the script clicked on an account.\<close>

definition history_form :: "(string \<Rightarrow> string) \<Rightarrow> page_dom \<Rightarrow> browser_form \<times> bool" where
  "history_form lower p =
     (case best_form lower (pd_here p) (pd_forms p) None of
        None \<Rightarrow> (no_form, pd_link p)
      | Some (_, f) \<Rightarrow>
          (let g = (if has_field (bf_fields f) ''AccountNbr'' then f
                    else (case account_of p of
                            None \<Rightarrow> f | Some a \<Rightarrow> f\<lparr>bf_fields := AList.update ''AccountNbr'' a (bf_fields f)\<rparr>))
           in (g, (map_of (bf_fields g) ''dse_operationName'' \<noteq> Some ''ibkacctDetailProc'' \<or> \<not> has_field (bf_fields g) ''AccountNbr'')
                  \<and> pd_card p)))"

section \<open>Properties\<close>

text \<open>Only named fields are handed over, whatever the page contains.\<close>

lemma keys_update: "fst ` set (AList.update k v xs) = insert k (fst ` set xs)"
  using dom_update [of k v xs] by (simp add: dom_map_of_conv_image_fst)

lemma extract_form_fields_named: "fst ` set (extract_form_fields lower cs) \<subseteq> set form_names"
proof -
  have "fst ` set (fold (\<lambda>c fs. AList.update (ct_name c) (ct_value c) fs) xs fs) \<subseteq> fst ` set fs \<union> ct_name ` set xs" for xs fs
  proof (induction xs arbitrary: fs)
    case (Cons c xs)
    show ?case using Cons [of "AList.update (ct_name c) (ct_value c) fs"] by (auto simp: keys_update)
  qed simp
  from this [of "filter (control_counts lower) cs" "[]"] show ?thesis
    by (auto simp: extract_form_fields_def control_counts_def)
qed

definition names_only :: "(nat \<times> browser_form) option \<Rightarrow> bool" where
  "names_only best \<longleftrightarrow> (case best of None \<Rightarrow> True | Some (n, f) \<Rightarrow> fst ` set (bf_fields f) \<subseteq> set form_names)"

lemma best_form_named: "names_only best \<Longrightarrow> names_only (best_form lower here fs best)"
proof (induction fs arbitrary: best)
  case (Cons f fs)
  define this_form where "this_form = Some (script_score (extract_form_fields lower (df_controls f)),
    \<lparr>bf_action = (if df_action f = [] then here else df_action f), bf_fields = extract_form_fields lower (df_controls f)\<rparr>)"
  have t: "names_only this_form" using extract_form_fields_named by (simp add: names_only_def this_form_def)
  have "best_form lower here (f # fs) best = best_form lower here fs best
      \<or> best_form lower here (f # fs) best = best_form lower here fs this_form"
    by (cases best) (auto simp: this_form_def Let_def)
  then show ?case using Cons.IH [OF Cons.prems] Cons.IH [OF t] by metis
qed simp

lemma history_form_named: "fst ` set (bf_fields (fst (history_form lower p))) \<subseteq> set form_names"
proof (cases "best_form lower (pd_here p) (pd_forms p) None")
  case (Some b)
  obtain n f where b: "b = (n, f)" by (cases b)
  have "names_only (best_form lower (pd_here p) (pd_forms p) None)" by (rule best_form_named) (simp add: names_only_def)
  then have "fst ` set (bf_fields f) \<subseteq> set form_names" by (simp add: Some b names_only_def)
  moreover have "''AccountNbr'' \<in> set form_names" by (simp add: form_names_def)
  ultimately show ?thesis
    by (simp add: history_form_def Some b Let_def keys_update split: option.split)
qed (simp add: history_form_def no_form_def)

text \<open>A visible password field means that the login has not happened.\<close>

lemma password_blocks:
  "e \<in> set els \<Longrightarrow> el_tag e = ''input'' \<Longrightarrow> attr_eqi ''type'' ''password'' e \<Longrightarrow> is_visible e \<Longrightarrow> \<not> is_authenticated (dom_check lower els)"
  by (auto simp: is_authenticated_iff dom_check_def shows_el_def list_ex_iff input_with_def)

end
