(* ===== verification/LoginBrowser.thy ===== *)
theory LoginBrowser
  imports LoginDom Web
begin

text \<open>
  The browser service, \<open>src/cmd/auth-browser/main.go\<close>: one session at a time with the browser process
  behind it. Every definition that works on the state is one section under the mutex; a handler that
  gives the mutex back in between is split there, as the sections of others may come between. The
  processes, the disk and the network are parameters.
\<close>

section \<open>Sessions\<close>

datatype lb_status = LStarting | LAwaiting | LVerified | LFailed | LExpired | LCancelled | LCompleted

fun lb_text :: "lb_status \<Rightarrow> string" where
  "lb_text LStarting = ''STARTING''"
| "lb_text LAwaiting = ''AWAITING_USER_LOGIN''"
| "lb_text LVerified = ''VERIFIED''"
| "lb_text LFailed = ''FAILED''"
| "lb_text LExpired = ''EXPIRED''"
| "lb_text LCancelled = ''CANCELLED''"
| "lb_text LCompleted = ''COMPLETED''"

definition terminal_status :: "lb_status \<Rightarrow> bool" where
  "terminal_status s \<longleftrightarrow> s = LFailed \<or> s = LExpired \<or> s = LCancelled \<or> s = LCompleted"

text \<open>
  \<open>browserSession\<close>; \<open>li_stopped\<close> when its context was cancelled and its process killed, \<open>li_done\<close> when its
  process was seen to end.
\<close>

record lb_item =
  li_attempt :: string
  li_status :: lb_status
  li_screen :: string
  li_expires :: instant
  li_error :: string
  li_port :: int
  li_handoff :: string
  li_verified :: bool
  li_stopped :: bool
  li_done :: bool

text \<open>The service: all sessions it ever had, and which of them is the current one.\<close>

record lb_server =
  ls_items :: "lb_item list"
  ls_current :: "nat option"

definition new_service :: lb_server where "new_service = \<lparr>ls_items = [], ls_current = None\<rparr>"

definition lb_put :: "nat \<Rightarrow> (lb_item \<Rightarrow> lb_item) \<Rightarrow> lb_server \<Rightarrow> lb_server" where
  "lb_put k f s = s\<lparr>ls_items := (ls_items s)[k := f (ls_items s ! k)]\<rparr>"

text \<open>The current session, when it is that of the attempt.\<close>

definition lb_find :: "string \<Rightarrow> lb_server \<Rightarrow> nat option" where
  "lb_find i s =
     (case ls_current s of
        None \<Rightarrow> None
      | Some k \<Rightarrow> if k < length (ls_items s) \<and> li_attempt (ls_items s ! k) = i then Some k else None)"

definition session_reply :: "lb_item \<Rightarrow> json" where
  "session_reply x =
     JObj ([(''attemptId'', JStr (li_attempt x)), (''status'', JStr (lb_text (li_status x))), (''screenUrl'', JStr (li_screen x)),
            (''expiresAt'', JStr (rfc3339nano (li_expires x)))] @ (if li_error x = [] then [] else [(''error'', JStr (li_error x))]))"

definition lb_json :: "nat \<Rightarrow> json \<Rightarrow> web_response" where
  "lb_json status j = \<lparr>ws_status = status, ws_headers = [(''Content-Type'', ''application/json'')], ws_body = JsonBody j\<rparr>"

definition lb_error :: "nat \<Rightarrow> string \<Rightarrow> web_response" where
  "lb_error status m = lb_json status (json_map [(''error'', JStr m)])"

definition no_content :: web_response where "no_content = \<lparr>ws_status = 204, ws_headers = [], ws_body = NoBody\<rparr>"

definition set_lb_status :: "string \<Rightarrow> lb_status \<Rightarrow> string \<Rightarrow> lb_server \<Rightarrow> bool \<times> lb_server" where
  "set_lb_status i st m s =
     (case lb_find i s of
        None \<Rightarrow> (False, s)
      | Some k \<Rightarrow>
          if terminal_status (li_status (ls_items s ! k)) then (False, s)
          else (True, lb_put k (\<lambda>x. x\<lparr>li_status := st, li_error := (if m = [] then li_error x else m)\<rparr>) s))"

text \<open>\<open>reapSession\<close>: cancel, kill, and wait for the process for a while.\<close>

definition reap :: "nat \<Rightarrow> lb_server \<Rightarrow> lb_server" where
  "reap k s = lb_put k (\<lambda>x. x\<lparr>li_stopped := True\<rparr>) s"

text \<open>The end of the process.\<close>

definition process_ended :: "nat \<Rightarrow> lb_server \<Rightarrow> lb_server" where
  "process_ended k s = lb_put k (\<lambda>x. x\<lparr>li_done := True\<rparr>) s"

section \<open>Starting\<close>

text \<open>
  The first section of \<open>start\<close>: an answer, or room for a new session, for which an old one may first
  have to be reaped without the mutex.
\<close>

datatype start_choice = Refuse web_response | Room "nat option"

definition start_decide :: "string option \<Rightarrow> instant \<Rightarrow> lb_server \<Rightarrow> start_choice \<times> lb_server" where
  "start_decide input now s =
     (case input of
        None \<Rightarrow> (Refuse (lb_error 400 ''attemptId is required''), s)
      | Some i \<Rightarrow>
          if trim_space i = [] then (Refuse (lb_error 400 ''attemptId is required''), s)
          else (case ls_current s of
                  None \<Rightarrow> (Room None, s)
                | Some k \<Rightarrow>
                    (let x = ls_items s ! k
                     in if terminal_status (li_status x) \<or> now > li_expires x then (Room (Some k), s\<lparr>ls_current := None\<rparr>)
                        else if li_attempt x = i then (Refuse (lb_json 200 (session_reply x)), s)
                        else (Refuse (lb_error 409 ''an ACB browser session is already active''), s))))"

definition session_ttl :: int where "session_ttl = 15 * minute"

text \<open>The second section: the profile directory, the port, and the new session, whatever is current by now.\<close>

definition start_install :: "string \<Rightarrow> bool \<Rightarrow> int option \<Rightarrow> instant \<Rightarrow> lb_server \<Rightarrow> (web_response + nat) \<times> lb_server" where
  "start_install i made port now s =
     (if \<not> made then (Inl (lb_error 500 ''cannot prepare browser profile''), s)
      else (case port of
              None \<Rightarrow> (Inl (lb_error 500 ''cannot allocate debugging port''), s)
            | Some p \<Rightarrow>
                (Inr (length (ls_items s)),
                 s\<lparr>ls_items := ls_items s @ [\<lparr>li_attempt = i, li_status = LStarting, li_screen = ''/'', li_expires = now + session_ttl,
                     li_error = [], li_port = p, li_handoff = [], li_verified = False, li_stopped = False, li_done = False\<rparr>],
                   ls_current := Some (length (ls_items s))\<rparr>)))"

text \<open>What the handler waits for after it has started the launch.\<close>

datatype start_outcome = LaunchReady | LaunchFailed | ClientGone | StartTimedOut

definition start_finish :: "nat \<Rightarrow> start_outcome \<Rightarrow> lb_server \<Rightarrow> web_response option \<times> lb_server" where
  "start_finish k out s =
     (let i = li_attempt (ls_items s ! k)
      in case out of
           LaunchReady \<Rightarrow> (Some (lb_json 201 (session_reply (ls_items s ! k))), s)
         | LaunchFailed \<Rightarrow> (Some (lb_error 503 ''ACB browser could not start''), reap k s)
         | ClientGone \<Rightarrow> (None, reap k (snd (set_lb_status i LCancelled ''startup aborted by client'' s)))
         | StartTimedOut \<Rightarrow>
             (Some (lb_error 503 ''ACB browser startup timed out''),
              reap k (snd (set_lb_status i LFailed ''browser startup timed out'' s))))"

section \<open>Launching\<close>

definition browser_args :: "page_env \<Rightarrow> string \<Rightarrow> int \<Rightarrow> string list \<Rightarrow> string list" where
  "browser_args pl profile port extra =
     [''--user-data-dir='' @ profile, ''--no-first-run'', ''--disable-default-apps'', ''--disable-sync'', ''--disable-extensions'',
      ''--disable-background-networking'', ''--disable-dev-shm-usage'', ''--disable-setuid-sandbox'', ''--window-size=1280,900'',
      ''--remote-debugging-address=127.0.0.1'', ''--remote-debugging-port='' @ show_int port]
     @ extra @ [acb_login_url pl]"

text \<open>\<open>findDefaultBrowser\<close>: the variable, else the first candidate that is found.\<close>

definition browser_candidates :: "string list" where
  "browser_candidates =
     [''chromium'', ''google-chrome'', ''chrome'',
      ''C:'' @ [CHR 0x5C] @ ''Program Files'' @ [CHR 0x5C] @ ''Google'' @ [CHR 0x5C] @ ''Chrome'' @ [CHR 0x5C] @ ''Application'' @ [CHR 0x5C] @ ''chrome.exe'',
      ''C:'' @ [CHR 0x5C] @ ''Program Files (x86)'' @ [CHR 0x5C] @ ''Google'' @ [CHR 0x5C] @ ''Chrome'' @ [CHR 0x5C] @ ''Application'' @ [CHR 0x5C] @ ''chrome.exe'',
      ''C:'' @ [CHR 0x5C] @ ''Program Files (x86)'' @ [CHR 0x5C] @ ''Microsoft'' @ [CHR 0x5C] @ ''Edge'' @ [CHR 0x5C] @ ''Application'' @ [CHR 0x5C] @ ''msedge.exe'',
      ''C:'' @ [CHR 0x5C] @ ''Program Files'' @ [CHR 0x5C] @ ''Microsoft'' @ [CHR 0x5C] @ ''Edge'' @ [CHR 0x5C] @ ''Application'' @ [CHR 0x5C] @ ''msedge.exe'']"

definition find_browser :: "string \<Rightarrow> (string \<Rightarrow> string option) \<Rightarrow> (string \<Rightarrow> bool) \<Rightarrow> string" where
  "find_browser bin look_path present =
     (if bin \<noteq> [] then bin
      else (case List.find (\<lambda>c. look_path c \<noteq> None \<or> present c) browser_candidates of
              None \<Rightarrow> ''chromium'' | Some c \<Rightarrow> (case look_path c of Some path \<Rightarrow> path | None \<Rightarrow> c)))"

text \<open>A launch that fails: before the process runs its end is announced at once, afterwards it is cancelled.\<close>

datatype launch_failure = NoProfile | NotLaunched | NotReady

definition launch_failed :: "nat \<Rightarrow> launch_failure \<Rightarrow> lb_server \<Rightarrow> lb_server" where
  "launch_failed k w s =
     (let i = li_attempt (ls_items s ! k)
      in case w of
           NoProfile \<Rightarrow> process_ended k (snd (set_lb_status i LFailed ''cannot prepare Chromium profile'' s))
         | NotLaunched \<Rightarrow> process_ended k (snd (set_lb_status i LFailed ''Chromium failed to launch'' s))
         | NotReady \<Rightarrow> snd (set_lb_status i LFailed ''Chromium did not become ready'' (lb_put k (\<lambda>x. x\<lparr>li_stopped := True\<rparr>) s)))"

definition launch_ready :: "nat \<Rightarrow> lb_server \<Rightarrow> lb_server" where
  "launch_ready k s =
     (if ls_current s = Some k \<and> \<not> terminal_status (li_status (ls_items s ! k))
      then lb_put k (\<lambda>x. x\<lparr>li_status := LAwaiting, li_error := []\<rparr>) s else s)"

text \<open>The section after the process has ended; \<open>late\<close> when its context has passed the deadline.\<close>

definition launch_exited :: "nat \<Rightarrow> instant \<Rightarrow> bool \<Rightarrow> lb_server \<Rightarrow> lb_server" where
  "launch_exited k now late s =
     (if ls_current s \<noteq> Some k \<or> terminal_status (li_status (ls_items s ! k)) \<or> li_status (ls_items s ! k) = LVerified then s
      else if now > li_expires (ls_items s ! k) \<or> late
      then lb_put k (\<lambda>x. x\<lparr>li_status := LExpired, li_error := ''ACB login session expired''\<rparr>) s
      else lb_put k (\<lambda>x. x\<lparr>li_status := LFailed, li_error := ''Chromium exited before login completed''\<rparr>) s)"

section \<open>The other handlers\<close>

definition cancel_session :: "string \<Rightarrow> lb_server \<Rightarrow> web_response \<times> lb_server" where
  "cancel_session i s =
     (case lb_find i s of
        None \<Rightarrow> (no_content, s)
      | Some k \<Rightarrow>
          (no_content,
           reap k (if terminal_status (li_status (ls_items s ! k)) then s else lb_put k (\<lambda>x. x\<lparr>li_status := LCancelled\<rparr>) s)))"

definition status_session :: "string \<Rightarrow> instant \<Rightarrow> lb_server \<Rightarrow> web_response \<times> lb_server" where
  "status_session i now s =
     (case lb_find i s of
        None \<Rightarrow> (lb_error 404 ''session not found'', s)
      | Some k \<Rightarrow>
          (let s1 = (if now > li_expires (ls_items s ! k) \<and> \<not> terminal_status (li_status (ls_items s ! k))
                     then lb_put k (\<lambda>x. x\<lparr>li_status := LExpired, li_error := ''ACB login session expired'', li_stopped := True\<rparr>) s
                     else s)
           in (lb_json 200 (session_reply (ls_items s1 ! k)), s1)))"

definition handoff_session :: "string \<Rightarrow> lb_server \<Rightarrow> web_response" where
  "handoff_session i s =
     (case lb_find i s of
        None \<Rightarrow> lb_error 409 ''ACB login has not been verified''
      | Some k \<Rightarrow>
          (let x = ls_items s ! k
           in if \<not> li_verified x \<or> li_handoff x = [] then lb_error 409 ''ACB login has not been verified''
              else lb_json 200 (json_map [(''session'', JStr (li_handoff x))])))"

definition complete_session :: "string \<Rightarrow> lb_server \<Rightarrow> web_response \<times> lb_server" where
  "complete_session i s =
     (case lb_find i s of
        None \<Rightarrow> (lb_error 404 ''ACB browser session not found'', s)
      | Some k \<Rightarrow>
          if \<not> li_verified (ls_items s ! k) then (lb_error 404 ''ACB browser session not found'', s)
          else (no_content, reap k (lb_put k (\<lambda>x. x\<lparr>li_handoff := [], li_status := LCompleted\<rparr>) s)))"

definition stop_current :: "lb_server \<Rightarrow> lb_server" where
  "stop_current s = (case ls_current s of None \<Rightarrow> s | Some k \<Rightarrow> reap k (s\<lparr>ls_current := None\<rparr>))"

section \<open>Observing the login\<close>

definition observer_watches :: "string \<Rightarrow> lb_server \<Rightarrow> bool" where
  "observer_watches i s \<longleftrightarrow>
     (case lb_find i s of
        None \<Rightarrow> False | Some k \<Rightarrow> li_status (ls_items s ! k) = LAwaiting \<or> li_status (ls_items s ! k) = LVerified)"

text \<open>A look that found the login done; the session is asked for again, as time has passed.\<close>

definition observer_verified :: "string \<Rightarrow> string \<Rightarrow> lb_server \<Rightarrow> lb_server" where
  "observer_verified i h s =
     (case lb_find i s of
        None \<Rightarrow> s
      | Some k \<Rightarrow>
          if li_status (ls_items s ! k) = LAwaiting \<or> li_status (ls_items s ! k) = LVerified
          then lb_put k (\<lambda>x. x\<lparr>li_handoff := h, li_verified := True, li_status := LVerified\<rparr>) s else s)"

text \<open>
  \<open>runObserverCycle\<close>: what it meets at each turn of its loop, the last of which may end the connection; the
  states are those the sections meet. The answer is whether it was connected and whether it verified.
\<close>

datatype look =
    Interrupted                     \<comment> \<open>the context or the process has ended\<close>
  | LostConnection
  | Look lb_server lb_server string "tab list option" "net_cookie list option"

fun observer_cycle :: "page_env \<Rightarrow> handoff_json \<Rightarrow> string \<Rightarrow> look list \<Rightarrow> (bool \<times> bool) \<times> lb_server option" where
  "observer_cycle pl js i [] = ((True, False), None)"
| "observer_cycle pl js i (Interrupted # ls) = ((True, False), None)"
| "observer_cycle pl js i (LostConnection # ls) = ((False, False), None)"
| "observer_cycle pl js i (Look s1 s2 nonce tabs cookies # ls) =
     (if \<not> observer_watches i s1 then ((True, False), None)
      else (case observe_page pl js nonce tabs cookies of
              None \<Rightarrow> observer_cycle pl js i ls
            | Some h \<Rightarrow> ((True, True), Some (observer_verified i h s2))))"

text \<open>
  \<open>observeLogin\<close>: the pauses between its cycles, given what each cycle was: it starts while the session is
  watched, waits a second after a login, and longer and longer when it cannot connect.
\<close>

definition start_backoff :: int where "start_backoff = 250 * 1000000"

definition max_backoff :: int where "max_backoff = 2 * second"

fun observer_pauses :: "int \<Rightarrow> (bool \<times> bool) list \<Rightarrow> int list" where
  "observer_pauses b [] = []"
| "observer_pauses b ((connected, verified) # cs) =
     (if verified then second # observer_pauses b cs
      else if \<not> connected then b # observer_pauses (if b < max_backoff then 2 * b else b) cs
      else 0 # observer_pauses start_backoff cs)"

section \<open>Waiting for the browser\<close>

text \<open>
  What a turn of \<open>waitACBTargetStable\<close> meets: the end of the process or of the time, or the time and the
  list of targets as type and parsed address, absent when it cannot be read.
\<close>

datatype poll_turn = Exited | OutOfTime | Targets instant "(string \<times> page_url option) list option"

definition shows_bank :: "page_env \<Rightarrow> (string \<times> page_url option) list option \<Rightarrow> bool" where
  "shows_bank pl ts =
     (case ts of
        None \<Rightarrow> False
      | Some l \<Rightarrow>
          list_ex (\<lambda>(ty, u). ty = ''page'' \<and> (case (u, pl_url pl (acb_login_url pl)) of
                                (Some t, Some w) \<Rightarrow> page_fold pl (host_name t) (host_name w) | _ \<Rightarrow> False)) l)"

definition stable_for :: int where "stable_for = 2 * second"

fun wait_stable :: "page_env \<Rightarrow> poll_turn list \<Rightarrow> instant option \<Rightarrow> err option" where
  "wait_stable pl [] since = Some (ErrMsg ''context deadline exceeded'')"
| "wait_stable pl (Exited # ts) since = Some (ErrMsg ''Chromium exited before the ACB page became stable'')"
| "wait_stable pl (OutOfTime # ts) since = Some (ErrMsg ''context deadline exceeded'')"
| "wait_stable pl (Targets now l # ts) since =
     (if \<not> shows_bank pl l then wait_stable pl ts None
      else (case since of
              None \<Rightarrow> wait_stable pl ts (Some now)
            | Some t0 \<Rightarrow> if now - t0 \<ge> stable_for then None else wait_stable pl ts since))"

text \<open>\<open>waitBrowserReady\<close>: the debugger has to answer with its address first.\<close>

datatype ready_turn = BrowserExited "err option" | ReadyTimeout | Version "(nat \<times> string option) option"

fun wait_ready :: "page_env \<Rightarrow> ready_turn list \<Rightarrow> poll_turn list \<Rightarrow> err option" where
  "wait_ready pl [] ps = Some (ErrMsg ''context deadline exceeded'')"
| "wait_ready pl (BrowserExited None # ts) ps = Some (ErrMsg ''Chromium exited during startup'')"
| "wait_ready pl (BrowserExited (Some e) # ts) ps = Some (ErrWrap ''Chromium exited during startup'' e)"
| "wait_ready pl (ReadyTimeout # ts) ps = Some (ErrMsg ''context deadline exceeded'')"
| "wait_ready pl (Version a # ts) ps =
     (case a of
        Some (status, Some debugger) \<Rightarrow> if status = 200 \<and> debugger \<noteq> [] then wait_stable pl ps None else wait_ready pl ts ps
      | _ \<Rightarrow> wait_ready pl ts ps)"

section \<open>Health\<close>

definition desktop_health :: "bool \<Rightarrow> (string \<Rightarrow> bool) \<Rightarrow> err option" where
  "desktop_health x11 dial =
     (if \<not> x11 then Some (ErrMsg ''X display is unavailable'')
      else (case List.find (\<lambda>a. \<not> dial a) [''127.0.0.1:5900'', ''127.0.0.1:6080''] of
              Some a \<Rightarrow> Some (ErrMsg (''desktop service '' @ a @ '' is unavailable'')) | None \<Rightarrow> None))"

definition health_handler :: "err option \<Rightarrow> (err \<Rightarrow> string) \<Rightarrow> web_response" where
  "health_handler e text = (case e of None \<Rightarrow> no_content | Some x \<Rightarrow> lb_error 503 (text x))"

definition controller_health :: "nat result \<Rightarrow> err option" where
  "controller_health answer =
     (case answer of
        Inl e \<Rightarrow> Some e
      | Inr status \<Rightarrow> if status \<noteq> 204 then Some (ErrMsg (''controller returned HTTP '' @ show_nat status)) else None)"

text \<open>\<open>removeProfileDir\<close>: ten tries and a last one; the result is how many were made.\<close>

fun remove_tries :: "nat \<Rightarrow> (nat \<Rightarrow> bool) \<Rightarrow> nat" where
  "remove_tries 0 gone = 1"
| "remove_tries (Suc n) gone = (if gone n then 1 else Suc (remove_tries n gone))"

end
