(* ===== verification/LoginBrowserLife.thy ===== *)
theory LoginBrowserLife
  imports LoginBrowser AcbClient
begin

text \<open>
  What the browser service keeps, however its handlers, launches and observers are interleaved: a
  session only moves forward, and what it hands over was seen on a page that is logged in.
\<close>

section \<open>Steps\<close>

text \<open>
  Every section under the mutex, every cancelled context and every process that ends is a step. A launch
  runs its section for a browser that is ready once, before which its session is neither awaiting the
  login nor verified.
\<close>

inductive lb_step :: "page_env \<Rightarrow> handoff_json \<Rightarrow> lb_server \<Rightarrow> lb_server \<Rightarrow> bool" for pl js where
  decide: "lb_step pl js s (snd (start_decide input now s))"
| install: "lb_step pl js s (snd (start_install i made port now s))"
| finish: "k < length (ls_items s) \<Longrightarrow> lb_step pl js s (snd (start_finish k out s))"
| failed: "k < length (ls_items s) \<Longrightarrow> lb_step pl js s (launch_failed k w s)"
| ready: "k < length (ls_items s) \<Longrightarrow> li_status (ls_items s ! k) \<noteq> LAwaiting \<Longrightarrow> li_status (ls_items s ! k) \<noteq> LVerified
    \<Longrightarrow> lb_step pl js s (launch_ready k s)"
| exited: "k < length (ls_items s) \<Longrightarrow> lb_step pl js s (launch_exited k now late s)"
| reaped: "k < length (ls_items s) \<Longrightarrow> lb_step pl js s (reap k s)"
| ended: "k < length (ls_items s) \<Longrightarrow> lb_step pl js s (process_ended k s)"
| cancelled: "lb_step pl js s (snd (cancel_session i s))"
| asked: "lb_step pl js s (snd (status_session i now s))"
| completed: "lb_step pl js s (snd (complete_session i s))"
| stopped: "lb_step pl js s (stop_current s)"
| observed: "observe_page pl js nonce tabs cookies = Some h \<Longrightarrow> lb_step pl js s (observer_verified i h s)"

section \<open>Updates of a session\<close>

lemma lb_find_Some: "lb_find i s = Some k \<Longrightarrow> k < length (ls_items s) \<and> li_attempt (ls_items s ! k) = i"
  by (auto simp: lb_find_def split: option.splits if_splits)

lemma lb_put_items [simp]: "length (ls_items (lb_put k f s)) = length (ls_items s)" "ls_current (lb_put k f s) = ls_current s"
  by (simp_all add: lb_put_def)

lemma lb_put_nth: "k < length (ls_items s) \<Longrightarrow> j < length (ls_items s) \<Longrightarrow>
    ls_items (lb_put k f s) ! j = (if j = k then f (ls_items s ! k) else ls_items s ! j)"
  by (simp add: lb_put_def)

text \<open>The rank of a status, and the order in which a session moves.\<close>

fun lb_rank :: "lb_status \<Rightarrow> nat" where
  "lb_rank LStarting = 0" | "lb_rank LAwaiting = 1" | "lb_rank LVerified = 2" | "lb_rank _ = 3"

instantiation lb_status :: preorder
begin

definition less_eq_lb_status :: "lb_status \<Rightarrow> lb_status \<Rightarrow> bool" where "s \<le> t \<longleftrightarrow> lb_rank s \<le> lb_rank t"

definition less_lb_status :: "lb_status \<Rightarrow> lb_status \<Rightarrow> bool" where "s < t \<longleftrightarrow> lb_rank s < lb_rank t"

instance
  by standard (auto simp: less_eq_lb_status_def less_lb_status_def)

end

text \<open>Once it has ended, a session changes its status only to be completed, and is not verified any more.\<close>

definition stays_ended :: "lb_item \<Rightarrow> lb_item \<Rightarrow> bool" where
  "stays_ended x y \<longleftrightarrow> (terminal_status (li_status x) \<longrightarrow>
     li_verified y = li_verified x \<and> (li_status y = li_status x \<or> li_status y = LCompleted \<and> li_verified x))"

definition item_le :: "lb_item \<Rightarrow> lb_item \<Rightarrow> bool" where
  "item_le x y \<longleftrightarrow> li_attempt y = li_attempt x \<and> li_expires y = li_expires x \<and> li_port y = li_port x
     \<and> li_status x \<le> li_status y \<and> (li_verified x \<longrightarrow> li_verified y)
     \<and> (li_stopped x \<longrightarrow> li_stopped y) \<and> (li_done x \<longrightarrow> li_done y) \<and> stays_ended x y"

lemma stays_ended_trans: "stays_ended x y \<Longrightarrow> stays_ended y z \<Longrightarrow> stays_ended x z"
  by (cases "li_status x"; cases "li_status y") (simp_all add: stays_ended_def terminal_status_def)

lemma item_le_refl [simp]: "item_le x x"
  by (simp add: item_le_def stays_ended_def)

lemma item_le_trans: "item_le x y \<Longrightarrow> item_le y z \<Longrightarrow> item_le x z"
  using stays_ended_trans [of x y z] order_trans [of "li_status x" "li_status y" "li_status z"] by (simp add: item_le_def)

definition service_le :: "lb_server \<Rightarrow> lb_server \<Rightarrow> bool" where
  "service_le s t \<longleftrightarrow> length (ls_items s) \<le> length (ls_items t)
     \<and> (\<forall>k < length (ls_items s). item_le (ls_items s ! k) (ls_items t ! k))"

lemma service_le_refl [simp]: "service_le s s" and service_le_items: "ls_items t = ls_items s \<Longrightarrow> service_le s t"
  by (simp_all add: service_le_def)

lemma service_le_trans: "service_le s t \<Longrightarrow> service_le t u \<Longrightarrow> service_le s u"
  by (auto simp: service_le_def intro: item_le_trans)

lemma service_le_put: "(k < length (ls_items s) \<Longrightarrow> item_le (ls_items s ! k) (f (ls_items s ! k))) \<Longrightarrow> service_le s (lb_put k f s)"
  by (cases "k < length (ls_items s)") (auto simp: service_le_def lb_put_def nth_list_update)

lemma status_le [simp]: "LStarting \<le> s" "s \<le> LFailed" "s \<le> LExpired" "s \<le> LCancelled" "s \<le> LCompleted" "LAwaiting \<le> LVerified"
  by (cases s; simp add: less_eq_lb_status_def)+

lemma terminal_greatest: "terminal_status t \<Longrightarrow> s \<le> (t :: lb_status)"
  by (cases s; cases t) (simp_all add: less_eq_lb_status_def terminal_status_def)

lemma set_lb_status_le: "terminal_status st \<Longrightarrow> service_le s (snd (set_lb_status i st m s))"
  by (auto simp: set_lb_status_def item_le_def stays_ended_def terminal_greatest intro!: service_le_put split: option.splits)

lemma reap_le: "service_le s (reap k s)" and process_ended_le: "service_le s (process_ended k s)"
  by (auto simp: reap_def process_ended_def item_le_def stays_ended_def intro!: service_le_put)

lemma lb_step_le: "lb_step pl js s s' \<Longrightarrow> service_le s s'"
proof (induction rule: lb_step.induct)
  case (decide s input now)
  show ?case by (rule service_le_items) (auto simp: start_decide_def Let_def split: option.splits)
next
  case (install s i made port now)
  show ?case by (auto simp: start_install_def service_le_def nth_append split: option.splits)
next
  case (finish k s out)
  have t: "terminal_status LCancelled" "terminal_status LFailed" by (simp_all add: terminal_status_def)
  show ?case
    by (cases out) (auto simp: start_finish_def Let_def reap_le intro: service_le_trans [OF set_lb_status_le reap_le] t)
next
  case (failed k s w)
  have t: "terminal_status LFailed" by (simp add: terminal_status_def)
  have p: "service_le s (lb_put k (\<lambda>x. x\<lparr>li_stopped := True\<rparr>) s)" by (rule service_le_put) (simp add: item_le_def stays_ended_def)
  show ?case
    by (cases w) (auto simp: launch_failed_def Let_def
        intro: service_le_trans [OF set_lb_status_le [OF t] process_ended_le] service_le_trans [OF p set_lb_status_le [OF t]])
next
  case (ready k s)
  then have "li_status (ls_items s ! k) = LStarting \<or> terminal_status (li_status (ls_items s ! k))"
    by (cases "li_status (ls_items s ! k)") (simp_all add: terminal_status_def)
  then show ?case by (auto simp: launch_ready_def item_le_def stays_ended_def intro!: service_le_put)
next
  case (exited k s now late)
  show ?case by (auto simp: launch_exited_def item_le_def stays_ended_def intro!: service_le_put)
next
  case (cancelled s i)
  have "service_le s (lb_put k (\<lambda>x. x\<lparr>li_status := LCancelled\<rparr>) s)" if "\<not> terminal_status (li_status (ls_items s ! k))" for k
    using that by (intro service_le_put) (auto simp: item_le_def stays_ended_def)
  then show ?case
    by (auto simp: cancel_session_def reap_le intro: service_le_trans [OF _ reap_le] split: option.splits)
next
  case (asked s i now)
  show ?case by (auto simp: status_session_def Let_def item_le_def stays_ended_def intro!: service_le_put split: option.splits)
next
  case (completed s i)
  have "service_le s (lb_put k (\<lambda>x. x\<lparr>li_handoff := [], li_status := LCompleted\<rparr>) s)" if "li_verified (ls_items s ! k)" for k
    using that by (intro service_le_put) (auto simp: item_le_def stays_ended_def)
  then show ?case by (auto simp: complete_session_def intro: service_le_trans [OF _ reap_le] split: option.splits)
next
  case (stopped s)
  show ?case
    by (auto simp: stop_current_def intro: service_le_trans [OF service_le_items reap_le] split: option.splits)
next
  case (observed nonce tabs cookies h s i)
  show ?case by (auto simp: observer_verified_def item_le_def stays_ended_def terminal_status_def intro!: service_le_put split: option.splits)
qed (simp_all add: reap_le process_ended_le)

text \<open>
  Property C39. A session of the browser service only moves forward: whatever handlers, launches and
  observers do in whatever order, it keeps its attempt, deadline and port, its status never returns to
  an earlier one, and once it has failed, expired or been cancelled it stays so, but that a session
  that was verified can still be completed.
\<close>

theorem session_moves_forward:
  assumes "(lb_step pl js)\<^sup>*\<^sup>* s s'" and "k < length (ls_items s)"
  shows "k < length (ls_items s') \<and> item_le (ls_items s ! k) (ls_items s' ! k)"
proof -
  have "service_le s s'"
    using assms(1) by (induction rule: rtranclp_induct) (auto intro: service_le_trans lb_step_le)
  then show ?thesis using assms(2) by (auto simp: service_le_def)
qed

section \<open>What is handed over\<close>

definition seen_on_page :: "page_env \<Rightarrow> handoff_json \<Rightarrow> string \<Rightarrow> bool" where
  "seen_on_page pl js h \<longleftrightarrow> (\<exists>nonce tabs cookies. observe_page pl js nonce tabs cookies = Some h)"

definition item_ok :: "page_env \<Rightarrow> handoff_json \<Rightarrow> lb_item \<Rightarrow> bool" where
  "item_ok pl js x \<longleftrightarrow> (li_handoff x \<noteq> [] \<longrightarrow> li_verified x \<and> seen_on_page pl js (li_handoff x))
     \<and> (li_status x = LVerified \<or> li_status x = LCompleted \<longrightarrow> li_verified x)
     \<and> (li_status x = LCompleted \<longrightarrow> li_handoff x = [])"

definition service_ok :: "page_env \<Rightarrow> handoff_json \<Rightarrow> lb_server \<Rightarrow> bool" where
  "service_ok pl js s \<longleftrightarrow> (\<forall>x \<in> set (ls_items s). item_ok pl js x)
     \<and> (case ls_current s of None \<Rightarrow> True | Some k \<Rightarrow> k < length (ls_items s))"

lemma service_ok_put:
  assumes "service_ok pl js s" "k < length (ls_items s) \<Longrightarrow> item_ok pl js (ls_items s ! k) \<Longrightarrow> item_ok pl js (f (ls_items s ! k))"
  shows "service_ok pl js (lb_put k f s)"
proof (cases "k < length (ls_items s)")
  case True
  then have "item_ok pl js (f (ls_items s ! k))" using assms by (simp add: service_ok_def)
  then show ?thesis
    using assms(1) set_update_subset_insert [of "ls_items s" k "f (ls_items s ! k)"] by (auto simp: service_ok_def lb_put_def split: option.splits)
next
  case False
  then have "lb_put k f s = s" by (cases s) (simp add: lb_put_def list_update_beyond)
  then show ?thesis using assms(1) by simp
qed

lemma set_lb_status_ok: "service_ok pl js s \<Longrightarrow> st \<noteq> LVerified \<Longrightarrow> st \<noteq> LCompleted \<Longrightarrow> service_ok pl js (snd (set_lb_status i st m s))"
  by (auto simp: set_lb_status_def item_ok_def intro!: service_ok_put split: option.splits)

lemma reap_ok: "service_ok pl js s \<Longrightarrow> service_ok pl js (reap k s)"
  and process_ended_ok: "service_ok pl js s \<Longrightarrow> service_ok pl js (process_ended k s)"
  by (auto simp: reap_def process_ended_def item_ok_def intro!: service_ok_put)

lemma lb_step_ok: "lb_step pl js s s' \<Longrightarrow> service_ok pl js s \<Longrightarrow> service_ok pl js s'"
proof (induction rule: lb_step.induct)
  case (decide s input now)
  then show ?case by (auto simp: start_decide_def Let_def service_ok_def split: option.splits)
next
  case (install s i made port now)
  then show ?case by (auto simp: start_install_def service_ok_def item_ok_def split: option.splits)
next
  case (finish k s out)
  then show ?case by (cases out) (auto simp: start_finish_def Let_def intro: reap_ok set_lb_status_ok)
next
  case (failed k s w)
  then have "service_ok pl js (lb_put k (\<lambda>x. x\<lparr>li_stopped := True\<rparr>) s)" by (intro service_ok_put) (auto simp: item_ok_def)
  with failed show ?case by (cases w) (auto simp: launch_failed_def Let_def intro: process_ended_ok set_lb_status_ok)
next
  case (ready k s)
  then show ?case by (auto simp: launch_ready_def item_ok_def intro!: service_ok_put)
next
  case (exited k s now late)
  then show ?case by (auto simp: launch_exited_def item_ok_def intro!: service_ok_put)
next
  case (cancelled s i)
  have "service_ok pl js (lb_put k (\<lambda>x. x\<lparr>li_status := LCancelled\<rparr>) s)" for k
    by (rule service_ok_put [OF cancelled]) (auto simp: item_ok_def)
  with cancelled show ?case by (auto simp: cancel_session_def intro: reap_ok split: option.splits)
next
  case (asked s i now)
  then show ?case by (auto simp: status_session_def Let_def item_ok_def intro!: service_ok_put split: option.splits)
next
  case (completed s i)
  have "service_ok pl js (lb_put k (\<lambda>x. x\<lparr>li_handoff := [], li_status := LCompleted\<rparr>) s)" if "li_verified (ls_items s ! k)" for k
    using that by (intro service_ok_put [OF completed]) (auto simp: item_ok_def)
  with completed show ?case by (auto simp: complete_session_def intro: reap_ok split: option.splits)
next
  case (stopped s)
  then have "service_ok pl js (s\<lparr>ls_current := None\<rparr>)" by (simp add: service_ok_def)
  with stopped show ?case by (auto simp: stop_current_def intro: reap_ok split: option.splits)
next
  case (observed nonce tabs cookies h s i)
  have "item_ok pl js (x\<lparr>li_handoff := h, li_verified := True, li_status := LVerified\<rparr>)" for x
    using observed(1) by (auto simp: item_ok_def seen_on_page_def)
  with observed(2) show ?case by (auto simp: observer_verified_def intro!: service_ok_put split: option.splits)
qed (simp_all add: reap_ok process_ended_ok)

lemma lb_steps_ok: "(lb_step pl js)\<^sup>*\<^sup>* s s' \<Longrightarrow> service_ok pl js s \<Longrightarrow> service_ok pl js s'"
  by (induction rule: rtranclp_induct) (auto intro: lb_step_ok)

lemma new_service_ok: "service_ok pl js new_service"
  by (simp add: service_ok_def new_service_def)

lemma handoff_sessionE:
  assumes "handoff_session i s = lb_json 200 (json_map [(''session'', JStr h)])"
  obtains k where "lb_find i s = Some k" "li_verified (ls_items s ! k)" "li_handoff (ls_items s ! k) = h" "h \<noteq> []"
  using assms
  by (auto simp: handoff_session_def lb_json_def lb_error_def json_map_def Let_def split: option.splits if_splits)

lemma handed_cookie_domain:
  "c \<in> set (ho_cookies (handoff_of pl x)) \<Longrightarrow> acb_cookie_domain pl (ck_domain c)"
  by (auto simp: handoff_of_def handed_cookie_def filter_acb_cookies_def valid_acb_cookie_def)


section \<open>A login\<close>

definition demo_pages :: page_env where
  "demo_pages = \<lparr>pl_login_url = [], pl_url = (\<lambda>_. Some \<lparr>pu_scheme = ''https'', pu_host = ''online.acb.com.vn'',
     pu_path = ''/acbib/Request'', pu_query = []\<rparr>), pl_unicode = ascii_unicode, pl_fold = (\<lambda>r. r)\<rparr>"

definition demo_tab :: tab where
  "demo_tab = \<lparr>tb_type = ''page'', tb_url = ''https://online.acb.com.vn/acbib/Request'',
     tb_signals = Some (no_signals\<lparr>ds_logout := True, ds_overview := True\<rparr>),
     tb_form = Some \<lparr>bf_action = ''Request'', bf_fields = [(''dse_sessionId'', ''s''), (''dse_processorState'', ''p'')]\<rparr>\<rparr>"

definition demo_bank_cookie :: net_cookie where
  "demo_bank_cookie = \<lparr>nc_name = ''JSESSIONID'', nc_value = ''v'', nc_domain = ''online.acb.com.vn'', nc_path = ''/'', nc_expires = -1,
     nc_secure = True, nc_http_only = True\<rparr>"

definition login_codec :: handoff_json where
  "login_codec = \<lparr>hj_text = (\<lambda>_. ''A''), hj_read = (\<lambda>_. None), hj_cookies = (\<lambda>_. None)\<rparr>"

definition demo_started :: lb_server where "demo_started = snd (start_install ''a'' True (Some 9222) 0 new_service)"

definition demo_awaiting :: lb_server where "demo_awaiting = launch_ready 0 demo_started"

definition demo_seen :: string where
  "demo_seen = (case observe_page demo_pages login_codec ''n'' (Some [demo_tab]) (Some [demo_bank_cookie]) of None \<Rightarrow> [] | Some h \<Rightarrow> h)"

lemma demo_observed: "observe_page demo_pages login_codec ''n'' (Some [demo_tab]) (Some [demo_bank_cookie]) = Some demo_seen"
proof -
  have "observe_page demo_pages login_codec ''n'' (Some [demo_tab]) (Some [demo_bank_cookie]) \<noteq> None" by code_simp
  then show ?thesis by (auto simp: demo_seen_def)
qed

definition demo_verified :: lb_server where "demo_verified = observer_verified ''a'' demo_seen demo_awaiting"

lemma demo_login: "(lb_step demo_pages login_codec)\<^sup>*\<^sup>* new_service demo_verified"
proof -
  have 1: "lb_step demo_pages login_codec new_service demo_started"
    unfolding demo_started_def by (rule lb_step.install)
  have "0 < length (ls_items demo_started)" "li_status (ls_items demo_started ! 0) = LStarting" by code_simp+
  then have 2: "lb_step demo_pages login_codec demo_started demo_awaiting"
    unfolding demo_awaiting_def by (intro lb_step.ready) simp_all
  have 3: "lb_step demo_pages login_codec demo_awaiting demo_verified"
    unfolding demo_verified_def by (rule lb_step.observed [OF demo_observed])
  from 1 2 3 show ?thesis by (meson rtranclp.rtrancl_refl rtranclp.rtrancl_into_rtrancl)
qed

lemma demo_verified_item:
  "ls_current demo_verified = Some 0" "length (ls_items demo_verified) = 1"
  "ls_items demo_verified ! 0 = \<lparr>li_attempt = ''a'', li_status = LVerified, li_screen = ''/'', li_expires = session_ttl, li_error = [],
     li_port = 9222, li_handoff = demo_seen, li_verified = True, li_stopped = False, li_done = False\<rparr>"
  by (simp_all add: demo_verified_def demo_awaiting_def demo_started_def start_install_def new_service_def launch_ready_def
      observer_verified_def lb_find_def lb_put_def terminal_status_def)

lemma demo_seen_nonempty: "demo_seen \<noteq> []"
  by code_simp

lemma demo_handed: "handoff_session ''a'' demo_verified = lb_json 200 (json_map [(''session'', JStr demo_seen)])"
  by (simp add: handoff_session_def lb_find_def demo_verified_item demo_seen_nonempty)

theorem session_moves_forward_witness:
  "item_le (ls_items demo_verified ! 0) (ls_items (snd (cancel_session ''a'' demo_verified)) ! 0)"
proof -
  have "(lb_step demo_pages login_codec)\<^sup>*\<^sup>* demo_verified (snd (cancel_session ''a'' demo_verified))"
    by (intro r_into_rtranclp lb_step.cancelled)
  from session_moves_forward [OF this, of 0] show ?thesis by (simp add: demo_verified_item)
qed


section \<open>What the service does not keep\<close>

text \<open>
  A cancelled session that was verified still hands over its cookies, and can still be completed,
  which replaces its status.
\<close>

lemma handed_over_after_cancel:
  "handoff_session ''a'' (snd (cancel_session ''a'' demo_verified)) = lb_json 200 (json_map [(''session'', JStr demo_seen)])"
  "li_status (ls_items (snd (cancel_session ''a'' demo_verified)) ! 0) = LCancelled"
  "li_status (ls_items (snd (complete_session ''a'' (snd (cancel_session ''a'' demo_verified)))) ! 0) = LCompleted"
proof -
  have f: "lb_find ''a'' demo_verified = Some 0" by (simp add: lb_find_def demo_verified_item)
  have c: "snd (cancel_session ''a'' demo_verified) = lb_put 0 (\<lambda>x. x\<lparr>li_stopped := True\<rparr>) (lb_put 0 (\<lambda>x. x\<lparr>li_status := LCancelled\<rparr>) demo_verified)"
    by (simp add: cancel_session_def f demo_verified_item terminal_status_def reap_def)
  have l: "length (ls_items demo_verified) = Suc 0" by (simp add: demo_verified_item)
  show "handoff_session ''a'' (snd (cancel_session ''a'' demo_verified)) = lb_json 200 (json_map [(''session'', JStr demo_seen)])"
    "li_status (ls_items (snd (cancel_session ''a'' demo_verified)) ! 0) = LCancelled"
    by (simp_all add: c handoff_session_def lb_find_def lb_put_def l demo_verified_item demo_seen_nonempty)
  show "li_status (ls_items (snd (complete_session ''a'' (snd (cancel_session ''a'' demo_verified)))) ! 0) = LCompleted"
    by (simp add: c complete_session_def lb_find_def lb_put_def l demo_verified_item reap_def)
qed

text \<open>
  Two starts after a session has ended: the first gives the mutex back while it reaps the old session,
  so that both install a new one. The browser of the second goes on running, but its session is
  not the current one: cancelling its attempt does nothing.
\<close>

definition demo_ended :: lb_server where "demo_ended = snd (cancel_session ''a'' demo_started)"

definition demo_race :: lb_server where
  "demo_race =
     (let s1 = snd (start_decide (Some ''b'') 1 demo_ended); s2 = snd (start_decide (Some ''c'') 1 s1);
          s3 = snd (start_install ''c'' True (Some 2) 2 s2)
      in snd (start_install ''b'' True (Some 3) 3 s3))"

lemma two_browsers:
  "fst (start_decide (Some ''b'') 1 demo_ended) = Room (Some 0)"
  "fst (start_decide (Some ''c'') 1 (snd (start_decide (Some ''b'') 1 demo_ended))) = Room None"
  "li_attempt (ls_items demo_race ! 1) = ''c'' \<and> li_status (ls_items demo_race ! 1) = LStarting \<and> \<not> li_stopped (ls_items demo_race ! 1)"
  "li_attempt (ls_items demo_race ! 2) = ''b'' \<and> li_status (ls_items demo_race ! 2) = LStarting \<and> ls_current demo_race = Some 2"
  "lb_find ''c'' demo_race = None"
  by code_simp+

text \<open>
  A cookie of another host below the bank's domain is handed over, but the client refuses a session
  with such a cookie, and with it the whole handoff.
\<close>

lemma sibling_cookie_refused:
  "valid_acb_cookie demo_pages (demo_bank_cookie\<lparr>nc_domain := ''www.acb.com.vn''\<rparr>)"
  "restore_cookies lb tp [handed_cookie (demo_bank_cookie\<lparr>nc_domain := ''www.acb.com.vn''\<rparr>)] c
     = (if lb_unicode lb = ascii_unicode then (Some (ErrMsg ''invalid ACB session cookie''), c)
        else restore_cookies lb tp [handed_cookie (demo_bank_cookie\<lparr>nc_domain := ''www.acb.com.vn''\<rparr>)] c)"
proof -
  show "valid_acb_cookie demo_pages (demo_bank_cookie\<lparr>nc_domain := ''www.acb.com.vn''\<rparr>)" by code_simp
  have "\<not> allowed_cookie_domain ascii_unicode ''www.acb.com.vn''" by code_simp
  then show "restore_cookies lb tp [handed_cookie (demo_bank_cookie\<lparr>nc_domain := ''www.acb.com.vn''\<rparr>)] c
     = (if lb_unicode lb = ascii_unicode then (Some (ErrMsg ''invalid ACB session cookie''), c)
        else restore_cookies lb tp [handed_cookie (demo_bank_cookie\<lparr>nc_domain := ''www.acb.com.vn''\<rparr>)] c)"
    by (simp add: restore_cookies_def cookie_ok_def handed_cookie_def demo_bank_cookie_def)
qed

section \<open>Waiting\<close>

text \<open>
  The page counts as stable only after turns that all found it, over two seconds at least.
\<close>

definition steady :: "page_env \<Rightarrow> instant \<Rightarrow> poll_turn list \<Rightarrow> bool" where
  "steady pl t0 ts \<longleftrightarrow> ts \<noteq> [] \<and> (\<forall>t \<in> set ts. \<exists>now l. t = Targets now l \<and> shows_bank pl l) \<and> (\<exists>now l. last ts = Targets now l \<and> now - t0 \<ge> stable_for)"

definition steady_now :: "page_env \<Rightarrow> instant \<Rightarrow> poll_turn list \<Rightarrow> bool" where
  "steady_now pl t0 ts \<longleftrightarrow> (\<exists>run post. ts = run @ post \<and> steady pl t0 run)"

definition steady_later :: "page_env \<Rightarrow> poll_turn list \<Rightarrow> bool" where
  "steady_later pl ts \<longleftrightarrow> (\<exists>pre run post t0 l. ts = pre @ run @ post \<and> hd run = Targets t0 l \<and> steady pl t0 run)"

lemma steady_later_Cons: "steady_later pl ts \<Longrightarrow> steady_later pl (t # ts)"
  unfolding steady_later_def by (metis append_Cons)

lemma steady_Cons: "shows_bank pl l \<Longrightarrow> steady pl t0 run \<Longrightarrow> steady pl t0 (Targets now l # run)"
  by (auto simp: steady_def)

lemma steady_now_Cons: "shows_bank pl l \<Longrightarrow> steady_now pl t0 ts \<Longrightarrow> steady_now pl t0 (Targets now l # ts)"
  unfolding steady_now_def by (metis append_Cons steady_Cons)

lemma steady_now_start: "shows_bank pl l \<Longrightarrow> steady_now pl now ts \<Longrightarrow> steady_later pl (Targets now l # ts)"
  unfolding steady_now_def steady_later_def by (metis append_Cons append_Nil list.sel(1) steady_Cons)

lemma steady_now_end: "shows_bank pl l \<Longrightarrow> now - t0 \<ge> stable_for \<Longrightarrow> steady_now pl t0 (Targets now l # ts)"
  unfolding steady_now_def by (rule exI [of _ "[Targets now l]"], rule exI [of _ ts]) (auto simp: steady_def)

lemma wait_stable_since:
  "wait_stable pl ts since = None \<Longrightarrow> steady_later pl ts \<or> (\<exists>t0. since = Some t0 \<and> steady_now pl t0 ts)"
proof (induction pl ts since rule: wait_stable.induct)
  case (4 pl now l ts since)
  then show ?case
    by (cases since)
      (auto split: if_splits intro: steady_later_Cons steady_now_start steady_now_Cons steady_now_end)
qed auto

lemma browser_ready_stable:
  assumes "wait_ready pl rs ts = None"
  shows "steady_later pl ts"
proof -
  have "wait_stable pl ts None = None"
    using assms by (induction pl rs ts rule: wait_ready.induct) (auto split: option.splits prod.splits if_splits)
  from wait_stable_since [OF this] show ?thesis by simp
qed

text \<open>The observer never waits longer than two seconds between two looks.\<close>

lemma observer_pauses_bounded:
  assumes "b \<in> {start_backoff, 2 * start_backoff, second, max_backoff}" "p \<in> set (observer_pauses b cs)"
  shows "0 \<le> p \<and> p \<le> max_backoff"
  using assms
proof (induction b cs rule: observer_pauses.induct)
  case (2 b connected verified cs)
  have n: "start_backoff = 250000000" "second = 1000000000" "max_backoff = 2000000000"
    by (simp_all add: start_backoff_def max_backoff_def second_def)
  have "(if b < max_backoff then 2 * b else b) \<in> {start_backoff, 2 * start_backoff, second, max_backoff}"
    using 2(4) by (auto simp: n)
  with 2 show ?case by (auto simp: n split: if_splits)
qed simp

end
