(* ===== verification/QrFiles.thy ===== *)
theory QrFiles
  imports ApiQr DemoServer
begin

text \<open>
  The image files of the payment QR: what is served lies below the directory of the QR images, whatever
  path the database holds.
\<close>

text \<open>In a cleaned path the double dots come first; on the stack of the cleaning, last.\<close>

fun dots_first :: "string list \<Rightarrow> bool" where
  "dots_first [] = True"
| "dots_first (p # ps) = (if p = ''..'' then dots_first ps else ''..'' \<notin> set ps)"

fun stack_ok :: "string list \<Rightarrow> bool" where
  "stack_ok [] = True"
| "stack_ok (q # qs) = ((q = ''..'' \<longrightarrow> set qs \<subseteq> {''..''}) \<and> stack_ok qs)"

lemma dots_first_snoc: "dots_first ps \<Longrightarrow> (p = ''..'' \<longrightarrow> set ps \<subseteq> {''..''}) \<Longrightarrow> dots_first (ps @ [p])"
  by (induction ps) (auto split: if_splits)

lemma stack_dots: "stack_ok s \<Longrightarrow> dots_first (rev s)"
  by (induction s) (auto intro!: dots_first_snoc)

lemma clean_parts_dots: "stack_ok stack \<Longrightarrow> dots_first (clean_parts r ps stack)"
proof (induction r ps stack rule: clean_parts.induct)
  case (1 r stack)
  then show ?case by (simp add: stack_dots)
next
  case (2 r p ps stack)
  then show ?case by (cases stack) auto
qed

lemma parts_dots: "dots_first (parts p)"
  unfolding parts_def by (rule clean_parts_dots) simp

lemma dots_first_rest: "dots_first (xs @ ys) \<Longrightarrow> ys \<noteq> [] \<Longrightarrow> hd ys \<noteq> ''..'' \<Longrightarrow> ''..'' \<notin> set ys"
proof (induction xs)
  case Nil
  then show ?case by (cases ys) (auto split: if_splits)
qed (auto split: if_splits)

text \<open>
  Property C40. A payment QR image that is served is a file below the directory of the QR images: its
  path continues the components of that directory and never climbs with a double dot, whatever path
  the database holds.
\<close>

theorem served_image_below:
  assumes "qr_image_handler sv g = (w, g')" and "ws_status w = 200"
  shows "\<exists>path dat rest. ws_body w = RawBody dat \<and> gw_files g path = Some dat \<and> rooted path = rooted (path_clean (qr_dir sv))
    \<and> parts path = parts (path_clean (qr_dir sv)) @ rest \<and> ''..'' \<notin> set rest"
proof -
  obtain q rel dat where g: "get_payment_qr [] (gw_store g) = Inr (Some q)"
    and q: "path_rel (path_clean (qr_dir sv)) (path_clean (qr_image q)) = Some rel" "\<not> has_prefix rel ''..''"
    "gw_files g (path_clean (qr_image q)) = Some dat" "ws_body w = RawBody dat"
    using assms by (auto simp: qr_image_handler_def Let_def split: sum.splits option.splits if_splits)
  define base where "base = path_clean (qr_dir sv)"
  define path where "path = path_clean (qr_image q)"
  obtain rest where r: "rooted path = rooted base" "parts path = parts base @ rest"
    using path_rel_below [OF q(1,2)] by (auto simp: base_def path_def)
  have "hd rest \<noteq> ''..''" if "rest \<noteq> []"
  proof
    assume "hd rest = ''..''"
    moreover have "rel = join_with ''/'' rest"
      using q(1) r that strip_common_append [of "parts base" rest]
      by (auto simp: path_rel_def base_def [symmetric] path_def [symmetric] split: if_splits)
    ultimately show False using q(2) join_with_prefix that by (metis list.collapse)
  qed
  then have "''..'' \<notin> set rest"
    using dots_first_rest [of "parts base" rest] parts_dots [of path] r(2) by (cases "rest = []") auto
  with r q(3,4) show ?thesis unfolding base_def [symmetric] path_def [symmetric] by (intro exI [of _ path] exI [of _ dat] exI [of _ rest]) simp
qed

definition demo_image :: "unit gateway" where
  "demo_image = (demo_gateway (empty_store\<lparr>qr_settings := [(new_qr ''1'' ''A'' ''UPLOAD'')\<lparr>qr_id := ''q'', qr_conn := ''c'', qr_image := ''/d/qr/../qr/x.png''\<rparr>],
       connections := connections demo_bank\<rparr>))
     \<lparr>gw_files := [''/d/qr/x.png'' \<mapsto> ''png'']\<rparr>"

definition demo_data :: "unit server" where
  "demo_data = demo_server\<lparr>gs_cfg := demo_dev\<lparr>cf_database := ''/d/gateway.db''\<rparr>\<rparr>"

theorem served_image_below_witness:
  "\<exists>path rest. gw_files demo_image path = Some ''png'' \<and> parts path = parts (path_clean (qr_dir demo_data)) @ rest \<and> ''..'' \<notin> set rest"
proof -
  have d: "qr_dir demo_data = ''/d/qr''"
  proof -
    have "path_join (path_dir ''/d/gateway.db'') ''qr'' = ''/d/qr''" by code_simp
    then show ?thesis by (simp add: qr_dir_def demo_data_def)
  qed
  have p: "path_clean ''/d/qr/../qr/x.png'' = ''/d/qr/x.png''" "path_clean ''/d/qr'' = ''/d/qr''"
    "path_rel ''/d/qr'' ''/d/qr/x.png'' = Some ''x.png''" "\<not> has_prefix ''x.png'' ''..''" by code_simp+
  have g: "get_payment_qr [] (gw_store demo_image) = Inr (Some (hd (qr_settings (gw_store demo_image))))"
    by code_simp
  have i: "qr_image (hd (qr_settings (gw_store demo_image))) = ''/d/qr/../qr/x.png''" "gw_files demo_image ''/d/qr/x.png'' = Some ''png''"
    by (simp_all add: demo_image_def gw_store_def demo_gateway_def new_system_def)
  define out where "out = qr_image_handler demo_data demo_image"
  have o: "ws_status (fst out) = 200" "ws_body (fst out) = RawBody ''png''"
    by (simp_all add: out_def qr_image_handler_def g i d p Let_def)
  have "qr_image_handler demo_data demo_image = (fst out, snd out)" by (simp add: out_def)
  from served_image_below [OF this o(1)] o(2) show ?thesis by auto
qed

end
