(* ===== verification/Gateway.thy ===== *)
theory Gateway
  imports Api
begin

text \<open>
  \<open>src/cmd/gateway/main.go\<close>: how the program starts, on which addresses it listens, and the notifiers that
  connect the monitor with the event hub and the dispatcher; and \<open>src/internal/monitor/singleflight.go\<close>,
  through which concurrent history requests share one answer. What the operating system answers
  is an input.
\<close>

section \<open>Starting\<close>

record flags =
  fl_healthcheck :: bool
  fl_check :: bool
  fl_migrate :: bool

text \<open>The health check asks the ports in turn, that of \<open>LISTEN_ADDR\<close> first.\<close>

definition health_ports :: "string \<Rightarrow> string list" where
  "health_ports listen =
     (if listen = [] then [] else (case split_address listen of None \<Rightarrow> [] | Some (_, p) \<Rightarrow> [p])) @ [''8090'', ''8080'']"

definition healthcheck_exit :: "string \<Rightarrow> (string \<Rightarrow> nat result) \<Rightarrow> nat" where
  "healthcheck_exit listen probe = (if list_ex (\<lambda>p. probe p = Inr 200) (health_ports listen) then 0 else 1)"

text \<open>The address of the configuration, and the other of the two usual ports beside it.\<close>

definition listen_addresses :: "string \<Rightarrow> string list" where
  "listen_addresses a =
     a # (if has_suffix a '':8090'' then [trim_suffix a '':8090'' @ '':8080'']
          else if has_suffix a '':8080'' then [trim_suffix a '':8080'' @ '':8090''] else [])"

record main_inputs =
  mi_config :: "config result"
  mi_directory :: bool
  mi_lock :: "bool \<Rightarrow> bool"            \<comment> \<open>whether the lock is had, shared or not\<close>
  mi_store :: "store result"
  mi_now :: instant
  mi_integrity :: "store \<Rightarrow> bool option"
  mi_keys :: "string \<Rightarrow> keyring result"
  mi_client :: bool
  mi_verifier :: bool
  mi_listen :: "string \<Rightarrow> bool"

datatype main_outcome = Exit nat | Serving "string list" "keyring option"

text \<open>
  The order of \<open>main\<close>: nothing is touched before the lock is held, and stale login attempts are
  expired before anything is served, checked or reported.
\<close>

definition serve_from :: "main_inputs \<Rightarrow> config \<Rightarrow> keyring option \<Rightarrow> main_outcome" where
  "serve_from mi cfg kr =
     (if \<not> mi_client mi then Exit 1
      else if kr \<noteq> None \<and> \<not> mi_verifier mi then Exit 1
      else (let on = filter (mi_listen mi) (listen_addresses (cf_address cfg))
            in if on = [] then Exit 1 else Serving on kr))"

definition gateway_main :: "flags \<Rightarrow> main_inputs \<Rightarrow> main_outcome \<times> store option" where
  "gateway_main fl mi =
     (case mi_config mi of
        Inl e \<Rightarrow> (Exit 1, None)
      | Inr cfg \<Rightarrow>
          if \<not> mi_directory mi then (Exit 1, None)
          else if \<not> mi_lock mi (fl_check fl) then (Exit 1, None)
          else (case mi_store mi of
                  Inl e \<Rightarrow> (Exit 1, None)
                | Inr st0 \<Rightarrow>
                    (let st = snd (expire_stale_attempts (mi_now mi) st0)
                     in if fl_migrate fl then (Exit 0, Some st)
                        else if fl_check fl then ((if mi_integrity mi st = Some True then Exit 0 else Exit 1), Some st)
                        else if cf_key_file cfg \<noteq> []
                        then (case mi_keys mi (cf_key_file cfg) of
                                Inl e \<Rightarrow> (Exit 1, Some st) | Inr kr \<Rightarrow> (serve_from mi cfg (Some kr), Some st))
                        else (serve_from mi cfg None, Some st))))"

section \<open>Notifiers\<close>

text \<open>The events of a batch go to the hub with their place in the journal, and the dispatcher is woken.\<close>

definition hub_event_of :: "event_note \<Rightarrow> hub_event" where
  "hub_event_of n =
     \<lparr>he_seq = nt_seq n, he_epoch = nt_epoch n, he_type = nt_type n, he_aggregate = nt_txn n, he_payload = nt_payload n,
      he_created = nt_created n\<rparr>"

definition notify_events :: "event_note list \<Rightarrow> 'c gateway \<Rightarrow> 'c gateway" where
  "notify_events ns g =
     g\<lparr>gw_hub := fold (\<lambda>n h. hub_publish (hub_event_of n) h) ns (gw_hub g), gw_wakes := gw_wakes g + 1\<rparr>"

text \<open>A poll is published when it stored something, failed, or ended in another way than the one before.\<close>

definition poll_event :: "poll_row \<Rightarrow> int \<Rightarrow> json" where
  "poll_event p inserted =
     json_map [(''pollId'', JStr (pr_id p)), (''status'', JStr (poll_status_text (pr_status p))), (''classifier'', JStr (pr_classifier p)),
       (''httpStatus'', JInt (pr_http p)), (''pages'', JInt (pr_pages p)), (''rowsSeen'', JInt (pr_rows p)),
       (''insertedCount'', JInt inserted), (''error'', JStr (pr_error p)), (''startedAt'', JStr (pr_started p)),
       (''finishedAt'', JStr (pr_finished p))]"

definition quiet_poll :: "string \<Rightarrow> poll_row \<Rightarrow> int \<Rightarrow> bool" where
  "quiet_poll old p inserted \<longleftrightarrow>
     inserted = 0 \<and> poll_status_text (pr_status p) = old \<and> poll_status_text (pr_status p) = ''SUCCEEDED''"

definition notify_poll ::
  "json_codec \<Rightarrow> env \<Rightarrow> instant \<Rightarrow> poll_row \<Rightarrow> int \<Rightarrow> string \<times> 'c gateway \<Rightarrow> string \<times> 'c gateway" where
  "notify_poll jc en at p inserted x =
     (case x of (old, g) \<Rightarrow>
        (poll_status_text (pr_status p),
         if quiet_poll old p inserted then g
         else (case publish_state jc en at ''poll.completed'' (pr_id p) (poll_event p inserted) (gw_store g) (gw_hub g) of
                 (st, h) \<Rightarrow> (put_store st g)\<lparr>gw_hub := h\<rparr>)))"

section \<open>Single flight\<close>

text \<open>The calls that were started, with their answers, and the call in flight for a key.\<close>

record 'v group =
  gr_calls :: "'v option list"
  gr_keys :: "string \<Rightarrow> nat option"

definition new_group :: "'v group" where "new_group = \<lparr>gr_calls = [], gr_keys = (\<lambda>_. None)\<rparr>"

datatype entry = Join nat | Lead nat

text \<open>The sections of \<open>Do\<close>: entering, the answer of the function, and giving the key back.\<close>

definition group_enter :: "string \<Rightarrow> 'v group \<Rightarrow> entry \<times> 'v group" where
  "group_enter key g =
     (case gr_keys g key of
        Some n \<Rightarrow> (Join n, g)
      | None \<Rightarrow> (Lead (length (gr_calls g)),
                 g\<lparr>gr_calls := gr_calls g @ [None], gr_keys := (gr_keys g)(key \<mapsto> length (gr_calls g))\<rparr>))"

definition group_answer :: "nat \<Rightarrow> 'v \<Rightarrow> 'v group \<Rightarrow> 'v group" where
  "group_answer n v g = g\<lparr>gr_calls := (gr_calls g)[n := Some v]\<rparr>"

definition group_leave :: "string \<Rightarrow> 'v group \<Rightarrow> 'v group" where
  "group_leave key g = g\<lparr>gr_keys := (gr_keys g)(key := None)\<rparr>"

text \<open>What a caller that waits is given: nothing while the call has no answer.\<close>

definition group_value :: "nat \<Rightarrow> 'v group \<Rightarrow> 'v option" where
  "group_value n g = (if n < length (gr_calls g) then gr_calls g ! n else None)"

section \<open>Properties\<close>

text \<open>The addresses are one or two, and the second only exchanges the port.\<close>

lemma listen_addresses_two: "length (listen_addresses a) \<le> 2" "hd (listen_addresses a) = a"
  by (simp_all add: listen_addresses_def)

text \<open>A start that ends before the database is open leaves it alone; any other expires the stale attempts, also the check.\<close>

lemma main_store:
  "gateway_main fl mi = (out, Some st) \<Longrightarrow>
     \<exists>st0. mi_store mi = Inr st0 \<and> mi_lock mi (fl_check fl) \<and> st = snd (expire_stale_attempts (mi_now mi) st0)"
  by (auto simp: gateway_main_def Let_def split: sum.splits if_splits)

text \<open>Nobody is served without the lock held alone, nor in production without a keyring.\<close>

lemma serving_needs:
  "gateway_main fl mi = (Serving on kr, st) \<Longrightarrow> mi_lock mi False \<and> \<not> fl_check fl \<and> \<not> fl_migrate fl
     \<and> (\<exists>cfg. mi_config mi = Inr cfg \<and> (cf_key_file cfg \<noteq> [] \<longrightarrow> kr \<noteq> None) \<and> set on \<subseteq> set (listen_addresses (cf_address cfg)))"
  by (auto simp: gateway_main_def serve_from_def Let_def split: sum.splits if_splits)

text \<open>
  A flight is shared until its leader leaves: until then everybody who enters for the key joins it, and
  all get the leader's answer. A leader that never answers keeps its key and its followers for ever.
\<close>

lemma flight_shared:
  assumes "group_enter key g = (Lead n, g1)"
  shows "fst (group_enter key g1) = Join n" "group_value n g1 = None" "group_value n (group_answer n v g1) = Some v"
    "fst (group_enter key (group_answer n v g1)) = Join n"
    "\<exists>m. fst (group_enter key (group_leave key (group_answer n v g1))) = Lead m \<and> m \<noteq> n"
  using assms
  by (auto simp: group_enter_def group_value_def group_answer_def group_leave_def split: option.splits)

lemma other_keys_fly: "k \<noteq> key \<Longrightarrow> gr_keys (group_leave key g) k = gr_keys g k"
  by (simp add: group_leave_def)

end
