(* ===== verification/Startup.thy ===== *)
theory Startup
  imports Store Rfc3339
begin

text \<open>
  What the gateway does before its database can be used: \<open>Open\<close> and \<open>Migrate\<close> of
  \<open>src/internal/storage/storage.go\<close>, and the lock of \<open>src/internal/lock\<close> (\<open>lock_posix.go\<close>; \<open>lock_windows.go\<close> makes
  the same calls of its system). What a schema script does to the database is a parameter.
\<close>

section \<open>Migrations\<close>

record migration =
  mg_version :: int
  mg_checksum :: string

definition migrations :: "migration list" where
  "migrations =
     [\<lparr>mg_version = 1, mg_checksum = ''2026-09-10-v2-foundation''\<rparr>,
      \<lparr>mg_version = 2, mg_checksum = ''2026-09-10-v2-hot-indexes''\<rparr>,
      \<lparr>mg_version = 3, mg_checksum = ''2026-09-11-pagination-indexes''\<rparr>,
      \<lparr>mg_version = 4, mg_checksum = ''2026-09-12-event-journal-and-leasing''\<rparr>,
      \<lparr>mg_version = 5, mg_checksum = ''2026-09-12-v3-filter-schedule-qr''\<rparr>,
      \<lparr>mg_version = 6, mg_checksum = ''2026-09-12-v5-voice-settings''\<rparr>,
      \<lparr>mg_version = 7, mg_checksum = ''2026-09-13-v6-notification-providers''\<rparr>]"

text \<open>The rows of \<open>schema_migrations\<close>, version, checksum and time, and the tables.\<close>

record 'd database =
  sb_applied :: "(int \<times> string \<times> string) list"
  sb_tables :: 'd

fun run_migrations ::
  "(int \<Rightarrow> 'd \<Rightarrow> 'd result) \<Rightarrow> (int \<Rightarrow> instant) \<Rightarrow> migration list \<Rightarrow> 'd database \<Rightarrow> 'd database result" where
  "run_migrations script now [] b = Inr b"
| "run_migrations script now (m # ms) b =
     (case map_of (sb_applied b) (mg_version m) of
        None \<Rightarrow>
          (case script (mg_version m) (sb_tables b) of
             Inl e \<Rightarrow> Inl (ErrWrap (''migration '' @ show_int (mg_version m)) e)
           | Inr d \<Rightarrow>
               run_migrations script now ms
                 \<lparr>sb_applied = sb_applied b @ [(mg_version m, mg_checksum m, rfc3339nano (now (mg_version m)))], sb_tables = d\<rparr>)
      | Some (c, _) \<Rightarrow>
          if c \<noteq> mg_checksum m then Inl (ErrMsg (''migration '' @ show_int (mg_version m) @ '' checksum mismatch''))
          else run_migrations script now ms b)"

text \<open>\<open>Migrate\<close>: one transaction, and then the canonical dates of old rows.\<close>

definition migrate ::
  "(int \<Rightarrow> 'd \<Rightarrow> 'd result) \<Rightarrow> (int \<Rightarrow> instant) \<Rightarrow> ('d database \<Rightarrow> 'd database) \<Rightarrow> 'd database \<Rightarrow> err option \<times> 'd database" where
  "migrate script now backfill b =
     (case run_migrations script now migrations b of Inl e \<Rightarrow> (Some e, b) | Inr b' \<Rightarrow> (None, backfill b'))"

text \<open>\<open>Open\<close>: the directory, the driver and the first connection may each fail.\<close>

definition open_store ::
  "err option \<Rightarrow> err option \<Rightarrow> (int \<Rightarrow> 'd \<Rightarrow> 'd result) \<Rightarrow> (int \<Rightarrow> instant) \<Rightarrow> ('d database \<Rightarrow> 'd database) \<Rightarrow> 'd database
     \<Rightarrow> err option \<times> 'd database" where
  "open_store mkdir connect script now backfill b =
     (case mkdir of
        Some e \<Rightarrow> (Some (ErrWrap ''create data dir'' e), b)
      | None \<Rightarrow> (case connect of Some e \<Rightarrow> (Some e, b) | None \<Rightarrow> migrate script now backfill b))"

text \<open>Every migration is then recorded with its checksum, and those recorded before are untouched.\<close>

definition recorded :: "migration list \<Rightarrow> 'd database \<Rightarrow> bool" where
  "recorded ms b \<longleftrightarrow> (\<forall>m \<in> set ms. \<exists>at. map_of (sb_applied b) (mg_version m) = Some (mg_checksum m, at))"

lemma run_keeps_applied:
  "run_migrations script now ms b = Inr b' \<Longrightarrow> \<exists>new. sb_applied b' = sb_applied b @ new"
  by (induction ms arbitrary: b) (fastforce split: option.splits sum.splits if_splits)+

lemma kept_row: "map_of (sb_applied b) v = Some r \<Longrightarrow> sb_applied b' = sb_applied b @ new \<Longrightarrow> map_of (sb_applied b') v = Some r"
  by (simp add: map_of_append)

lemma run_records: "run_migrations script now ms b = Inr b' \<Longrightarrow> recorded ms b'"
proof (induction ms arbitrary: b)
  case (Cons m ms)
  show ?case
  proof (cases "map_of (sb_applied b) (mg_version m)")
    case None
    with Cons.prems obtain d where
      r: "run_migrations script now ms \<lparr>sb_applied = sb_applied b @ [(mg_version m, mg_checksum m, rfc3339nano (now (mg_version m)))], sb_tables = d\<rparr> = Inr b'"
      by (auto split: sum.splits)
    obtain new where "sb_applied b' = sb_applied b @ (mg_version m, mg_checksum m, rfc3339nano (now (mg_version m))) # new"
      using run_keeps_applied [OF r] by auto
    then have "map_of (sb_applied b') (mg_version m) = Some (mg_checksum m, rfc3339nano (now (mg_version m)))"
      using None by (simp add: map_of_append map_add_def)
    then show ?thesis using Cons.IH [OF r] by (auto simp: recorded_def)
  next
    case (Some x)
    with Cons.prems have r: "run_migrations script now ms b = Inr b'" "fst x = mg_checksum m"
      by (auto split: if_splits prod.splits)
    obtain new where "sb_applied b' = sb_applied b @ new" using run_keeps_applied [OF r(1)] by blast
    from kept_row [OF Some this] have "map_of (sb_applied b') (mg_version m) = Some (mg_checksum m, snd x)"
      using r(2) by (cases x) simp
    then show ?thesis using Cons.IH [OF r(1)] by (auto simp: recorded_def)
  qed
qed (simp add: recorded_def)

text \<open>A second start runs no script at all, whatever the scripts would do.\<close>

lemma recorded_runs_nothing: "recorded ms b \<Longrightarrow> run_migrations script now ms b = Inr b"
  by (induction ms) (auto simp: recorded_def)

lemma migrate_once:
  assumes "run_migrations script now migrations b = Inr b'"
  shows "run_migrations script' now' migrations b' = Inr b'"
  using run_records [OF assms] by (rule recorded_runs_nothing)

text \<open>A migration that was changed after it was applied is found out, and nothing is migrated.\<close>

lemma changed_migration_refused:
  assumes "m \<in> set ms" "map_of (sb_applied b) (mg_version m) = Some (c, at)" "c \<noteq> mg_checksum m"
  shows "\<exists>e. run_migrations script now ms b = Inl e"
proof (cases "run_migrations script now ms b")
  case (Inr b')
  obtain new where "sb_applied b' = sb_applied b @ new" using run_keeps_applied [OF Inr] by blast
  from kept_row [OF assms(2) this] run_records [OF Inr] assms(1,3) show ?thesis by (auto simp: recorded_def)
qed simp

lemma failed_open_changes_nothing: "open_store md cn script now backfill b = (Some e, b') \<Longrightarrow> b' = b"
  by (auto simp: open_store_def migrate_def split: option.splits sum.splits)

section \<open>The lock\<close>

text \<open>
  Who holds the lock file, and whether alone; a descriptor is a number. The system grants a lock at
  once or not at all: one that is held alone excludes every other.
\<close>

type_synonym holders = "(nat \<times> bool) list"

definition flock :: "nat \<Rightarrow> bool \<Rightarrow> holders \<Rightarrow> holders option" where
  "flock fd alone hs = (if (if alone then hs = [] else \<not> list_ex snd hs) then Some ((fd, alone) # hs) else None)"

definition acquire :: "string \<Rightarrow> bool \<Rightarrow> nat result \<Rightarrow> err \<Rightarrow> holders \<Rightarrow> nat result \<times> holders" where
  "acquire path alone opened busy hs =
     (case opened of
        Inl e \<Rightarrow> (Inl e, hs)
      | Inr fd \<Rightarrow>
          (case flock fd alone hs of
             None \<Rightarrow> (Inl (ErrWrap (''gateway lock unavailable at '' @ path) busy), hs)
           | Some hs' \<Rightarrow> (Inr fd, hs')))"

definition acquire_exclusive :: "string \<Rightarrow> nat result \<Rightarrow> err \<Rightarrow> holders \<Rightarrow> nat result \<times> holders" where
  "acquire_exclusive path = acquire path True"

definition acquire_shared :: "string \<Rightarrow> nat result \<Rightarrow> err \<Rightarrow> holders \<Rightarrow> nat result \<times> holders" where
  "acquire_shared path = acquire path False"

text \<open>\<open>Close\<close>, which may be called on a lock that is not there.\<close>

definition close_lock :: "nat option \<Rightarrow> holders \<Rightarrow> holders" where
  "close_lock l hs = (case l of None \<Rightarrow> hs | Some fd \<Rightarrow> filter (\<lambda>h. fst h \<noteq> fd) hs)"

text \<open>A gateway that serves is the only one on its database, also beside the checks.\<close>

definition alone_or_shared :: "holders \<Rightarrow> bool" where
  "alone_or_shared hs \<longleftrightarrow> (\<forall>h \<in> set hs. snd h \<longrightarrow> hs = [h])"

lemma acquire_alone: "alone_or_shared hs \<Longrightarrow> alone_or_shared (snd (acquire path alone opened busy hs))"
  by (auto simp: acquire_def flock_def alone_or_shared_def list_ex_iff split: sum.splits option.splits if_splits)

lemma close_alone: "alone_or_shared hs \<Longrightarrow> alone_or_shared (close_lock l hs)"
  by (fastforce simp: close_lock_def alone_or_shared_def split: option.splits)

lemma second_gateway_refused:
  assumes "acquire_exclusive path opened busy hs = (Inr fd, hs')"
  shows "fst (acquire path alone (Inr fd') busy' hs') = Inl (ErrWrap (''gateway lock unavailable at '' @ path) busy')"
  using assms by (auto simp: acquire_exclusive_def acquire_def flock_def split: sum.splits option.splits if_splits)

end
