(* ===== verification/Spec2Isabelle.thy ===== *)
theory Spec2Isabelle
  imports AuthLife Ledger ChannelLife Dispatch SettingsLife QueryProps Bark Announce MonitorCatchUp StreamProps LoginLife Guard LoginBrowserLife QrFiles Gateway Startup
begin

text \<open>
  A verification development of the ACB transaction webhook gateway: a Go program that watches the
  account of its owner on the web site of the bank ACB and reports new transactions. The source is under
  \<open>src/\<close>; paths below are relative to it. The theories are executable models of the code, one group per
  component in the order of the code, and the lemmas that make each component correct. The
  properties of the manifest are the theorems preceded by a text that begins with the word Property.

  \<^bold>\<open>The program.\<close> The owner logs in to the bank in an interactive browser that the browser service
  (\<open>cmd/auth-browser\<close>) runs; when a tab of it is logged in, cookies and a form of the account history are handed
  to the gateway (\<open>internal/authbrowser\<close>), which verifies them by a request, encrypts them
  (\<open>internal/security\<close>) and stores them under the generation of the connection (\<open>internal/storage\<close>). From then
  on the monitor (\<open>internal/monitor\<close>) restores the session into its bank client (\<open>internal/acb\<close>), polls the history
  according to a schedule, catches up on the days it missed and answers requests for history. What it
  parses is ingested in one database transaction: rows, events, journal entries and deliveries.
  The journal feeds the event streams of the dashboard (\<open>internal/eventhub\<close>, \<open>internal/httpapi/sse.go\<close>), the
  deliveries are claimed under leases by the dispatcher (\<open>internal/notification\<close>) and sent as signed webhooks
  (\<open>internal/webhook\<close>) or push messages (\<open>internal/bark\<close>). The HTTP interface (\<open>internal/httpapi\<close>, \<open>internal/auth\<close>)
  guards and serves all this, with voice announcements (\<open>internal/voicecopy\<close>, \<open>internal/ttsclient\<close>).

  \<^bold>\<open>Foundations.\<close> \<open>Prelude\<close>: error values, results, Go strings as bytes, SQL statement forms, and the
  collections of lemmas the components share. \<open>Utf8\<close>: strings as runes. \<open>GoTime\<close>, \<open>TimeOrder\<close>, \<open>Rfc3339\<close>,
  \<open>AcbDate\<close> (\<open>internal/acb/date.go\<close>): instants, calendar days, the layouts, and how printed instants are ordered
  as texts, which is how the database compares them. \<open>Base64\<close>, \<open>FilePath\<close>: what is used of those packages.

  \<^bold>\<open>Database.\<close> \<open>Store\<close> holds the tables as lists of rows with the constraints of the schema as guards of
  the insertions; an operation is a function from the store to a result and the store after it, and one
  SQLite transaction is one such function, which changes nothing when it fails. \<open>Startup\<close>: migrations
  and the lock file. \<open>StoreAuth\<close> and \<open>AuthLife\<close>: login attempts, sessions and polls (\<open>auth_attempts.go\<close>,
  \<open>sessions.go\<close>, \<open>polls.go\<close>), their transition system, its invariant, and the generation fence as a locale that is
  interpreted on it. \<open>Ingest\<close>, \<open>IngestProps\<close>, \<open>Ledger\<close>: \<open>transactions.go\<close>, \<open>events.go\<close>, \<open>journal.go\<close>; the abstract
  specification is a map in which the first observation of a key wins, and the code refines it.
  \<open>Channels\<close>, \<open>ChannelProps\<close>, \<open>ChannelLife\<close>: endpoints, versions and secrets (\<open>notifications.go\<close>). \<open>Deliveries\<close>,
  \<open>DeliveryLife\<close>, \<open>Dispatch\<close>: the queue and the dispatcher; exclusivity of claims, claim tokens as fences,
  retry bounds with several workers that may die. \<open>Schedule\<close>, \<open>Settings\<close>, \<open>SettingsLife\<close>: what an
  operator configures; saving under a revision is a locale with three interpretations. \<open>Queries\<close>, \<open>QueryProps\<close>:
  listings; keyset pagination is a locale with an interpretation for each of the four listings.

  \<^bold>\<open>Bank.\<close> \<open>Html\<close>, \<open>HistoryTable\<close>, \<open>HistoryForm\<close>, \<open>PageKind\<close>: parser and classifier of the pages, with \<open>HistoryProps\<close>:
  every row is parsed, refused or taken for the description the code takes it for, none is lost.
  \<open>Browser\<close>: the handoff format, controller and client of the browser service. \<open>AcbClient\<close>, \<open>ClientLife\<close>: the
  client, which never sends to another host. \<open>BankSession\<close>: loader and verifier of sessions. \<open>Monitor\<close> with
  \<open>MonitorBounds\<close>, \<open>MonitorLife\<close>, \<open>MonitorCatchUp\<close>: the monitor; how many requests each operation makes (a locale
  of counting clients, interpreted on the client of the code), that it stops when the session is
  lost, that it stores what the pages hold, and that checkpoints only pass complete days.

  \<^bold>\<open>Senders.\<close> \<open>Crypto\<close>, \<open>Url\<close>: envelopes, keyring, and which addresses may be dialled. \<open>Webhook\<close>, \<open>Bark\<close>:
  signing, sending, formatting. \<open>Voice\<close>, \<open>Announce\<close>, \<open>Tts\<close>: amounts as spoken words, phrases, the speech client.

  \<^bold>\<open>Interface.\<close> \<open>Config\<close>, \<open>Access\<close>, \<open>Cloudflare\<close>: configuration, roles, origin and CSRF tests, token verification.
  \<open>Web\<close>, \<open>Views\<close>, \<open>EventStream\<close>, \<open>StreamProps\<close>, \<open>Telemetry\<close>: requests, responses, JSON values, event streams,
  counters. \<open>Api\<close> is the frame of the handlers: the state \<open>gateway\<close> (database, monitor, hub, files) they transform
  and the parameters \<open>server\<close> they use; \<open>ApiAuth\<close>, \<open>ApiBank\<close>, \<open>ApiChannels\<close>, \<open>ApiVoice\<close>, \<open>ApiQr\<close> are the handlers of
  \<open>internal/httpapi/server.go\<close>, \<open>notifications.go\<close> and \<open>voice.go\<close>, and \<open>Routes\<close> the table of routes with its guards.
  \<open>LoginLife\<close> composes the login from the browser to the monitor, \<open>Guard\<close> the guards with all handlers,
  \<open>QrFiles\<close> the image files. \<open>DemoServer\<close> is the concrete server of the witnesses. \<open>Gateway\<close>: \<open>cmd/gateway/main.go\<close>
  and \<open>internal/monitor/singleflight.go\<close>.

  \<^bold>\<open>Browser service.\<close> \<open>LoginPage\<close>: when a page counts as logged in and what is handed over. \<open>LoginDom\<close>: the two
  scripts that are run in the page. \<open>LoginBrowser\<close>: sessions, launches, observer and handlers, each section
  under the mutex a definition. \<open>LoginBrowserLife\<close> interleaves these sections as an inductive relation:
  sessions only move forward, and what is handed over was seen on a page that is logged in.

  \<^bold>\<open>Concurrency.\<close> Operations under a mutex or in one SQLite transaction are single steps; the transition
  systems \<open>auth_step\<close>, the steps of \<open>Ledger\<close>, \<open>ChannelLife\<close>, \<open>DeliveryLife\<close>, \<open>Dispatch\<close> and \<open>lb_step\<close> interleave them freely. The
  login handlers hold no lock while they wait for others: the database may change there by any
  steps of the life cycle. Reads of an event stream are each given the database of their moment.

  \<^bold>\<open>Bounds.\<close> Integers that the code keeps in 64 bits wrap where a sum or product of them matters
  (amounts, page counts, counters); lengths and positions are natural numbers. No definition
  needs fuel beyond the limits of the code itself: page limits of a range, of a poll and of a catch-up
  are counted down as the code counts, retries end with the list of backoffs, the replay of a journal takes the
  list of the reads it makes, and loops without a limit in the code (the backfill, the parser of names
  and patterns) have measures with termination proofs.

  \<^bold>\<open>Parameters.\<close> Third-party and system code is an argument: the HTML parser, \<open>go-jose\<close>, the browser and
  its debugging protocol, SQLite's schema scripts, AES-GCM, HMAC and SHA-256, HTTP transports, DNS, the
  zone database, Unicode tables, JSON texts, random identifiers and the clock. Laws that are assumed of
  them (decryption opens what encryption sealed, a codec reads what it wrote) are named hypotheses of the
  theorems that need them, and each such theorem has a witness with concrete functions.

  \<^bold>\<open>Not modelled.\<close> Database errors other than constraint violations and missing rows; logging; the
  shutdown of servers; the reverse proxy to the screen of the browser beyond its guard and headers; the
  debugger connection of the browser service (its answers are inputs); the process table behind killing a
  browser; \<open>internal/httpui\<close>, which embeds built assets; the router's matching of paths; the web frontend
  (\<open>web\<close>), the speech gateway (\<open>tts-gateway\<close>), scripts and deployment, which are not Go code.
\<close>

end
